(* ===== verification/Sfs_Prelude.thy ===== *)
theory Sfs_Prelude
  imports Main "HOL-Library.Word" "HOL-Library.Multiset"
begin

unbundle bit_operations_syntax

section \<open>Prelude: machine types, byte buffers, the state-and-error combinators\<close>

text \<open>
  What every component of the ShizukuFS development shares.

  \<^item> The machine types of the C code: \<open>u8\<close>, \<open>u16\<close>, \<open>u32\<close>, \<open>u64\<close> are words of that
    width, so \<open>+\<close>, \<open>-\<close>, \<open>*\<close> and the shifts wrap as the C operators do. A C buffer is
    a byte list; reading it outside its length gives 0 and writing there does nothing (the C
    code never does either, and where a theorem depends on it the bound is a premise).
  \<^item> \<open>memcpy\<close> and \<open>memset\<close> as \<open>blit\<close> and \<open>fill\<close>; a pointer into the middle of a buffer
    that is passed to a function that writes through it is \<open>at_off\<close>.
  \<^item> The combinators for code that works on a volume: an action takes the state and gives a
    result with the new state. \<open>chk m k\<close> is \<open>rc = m(); if (rc) return rc; k\<close>, and
    \<open>rcthen rc m\<close> is \<open>if (!rc) rc = m();\<close>.
  \<^item> The interface of frame conditions, locale \<open>frame_rel\<close>: a reflexive and transitive
    relation between the state before and after. Its lemmas reduce "every run of this action
    stays within the relation" to the actions it is made of; components interpret it for the
    relations they need.
\<close>

type_synonym u8 = "8 word"
type_synonym u16 = "16 word"
type_synonym u32 = "32 word"
type_synonym u64 = "64 word"
type_synonym bytes = "8 word list"

named_theorems act_defs \<open>definitions of the state-and-error combinators\<close>

subsection \<open>Words\<close>

lemma unat_widen: "unat (ucast (n :: u32) :: u64) = unat n"
  by (simp add: unsigned_ucast_eq take_bit_nat_eq_self order_less_trans[OF unsigned_less])

lemma word_xor_eq_0: "(a XOR b = 0) = (a = (b :: 'a::len word))"
  by (auto simp: bit_eq_iff bit_simps)

lemma word_and_255: "(a :: 'a::len word) AND 0xFF = take_bit 8 a"
  by (simp add: take_bit_eq_mask mask_eq_exp_minus_1)

lemma unat_and_255: "unat ((a :: 'a::len word) AND 0xFF) < 256"
  using take_bit_nat_less_exp [of 8 "unat a"]
  by (simp add: word_and_255 unsigned_take_bit_eq del: take_bit_nat_less_exp)

lemma and_1_odd: "(a AND 1 = 0) = even (a :: 'a::len word)"
  by (simp add: and_one_eq even_iff_mod_2_eq_zero)

subsection \<open>Byte buffers\<close>

definition byte_at :: "bytes \<Rightarrow> nat \<Rightarrow> u8" where
  "byte_at b i = (if i < length b then b ! i else 0)"

definition blit :: "bytes \<Rightarrow> nat \<Rightarrow> bytes \<Rightarrow> bytes" where
  "blit d off xs = map (\<lambda>i. if off \<le> i \<and> i < off + length xs then xs ! (i - off) else d ! i)
     [0..<length d]"

definition fill :: "bytes \<Rightarrow> nat \<Rightarrow> u8 \<Rightarrow> nat \<Rightarrow> bytes" where
  "fill d off c n = map (\<lambda>i. if off \<le> i \<and> i < off + n then c else d ! i) [0..<length d]"

definition at_off :: "nat \<Rightarrow> (bytes \<Rightarrow> bytes) \<Rightarrow> bytes \<Rightarrow> bytes" where
  "at_off off f d = take off d @ f (drop off d)"

definition slice :: "bytes \<Rightarrow> nat \<Rightarrow> nat \<Rightarrow> bytes" where
  "slice d off n = map (\<lambda>i. byte_at d (off + i)) [0..<n]"

lemma length_blit [simp]: "length (blit d off xs) = length d"
  by (simp add: blit_def)

lemma length_fill [simp]: "length (fill d off c n) = length d"
  by (simp add: fill_def)

lemma length_slice [simp]: "length (slice d off n) = n"
  by (simp add: slice_def)

lemma length_at_off:
  "(\<And>x. length (f x) = length x) \<Longrightarrow> length (at_off off f d) = length d"
  by (simp add: at_off_def)

lemma byte_at_blit:
  "byte_at (blit d off xs) i =
     (if i < length d \<and> off \<le> i \<and> i < off + length xs then xs ! (i - off) else byte_at d i)"
  by (auto simp: byte_at_def blit_def)

lemma byte_at_fill:
  "byte_at (fill d off c n) i =
     (if i < length d \<and> off \<le> i \<and> i < off + n then c else byte_at d i)"
  by (auto simp: byte_at_def fill_def)

lemma byte_at_drop [simp]: "byte_at (drop off d) i = byte_at d (off + i)"
  by (auto simp: byte_at_def add.commute)

lemma byte_at_update:
  "byte_at (d[j := v]) i = (if i = j \<and> j < length d then v else byte_at d i)"
  by (auto simp: byte_at_def)

lemma byte_at_replicate [simp]: "byte_at (replicate n 0) i = 0"
  by (simp add: byte_at_def)

lemma nth_slice: "i < n \<Longrightarrow> slice d off n ! i = byte_at d (off + i)"
  by (simp add: slice_def)

lemma byte_at_slice: "byte_at (slice d off n) i = (if i < n then byte_at d (off + i) else 0)"
  by (simp add: byte_at_def [of "slice d off n"] nth_slice)

lemma slice_full: "n \<le> length d \<Longrightarrow> slice d 0 n = take n d"
  by (auto simp: slice_def byte_at_def intro: nth_equalityI)

lemma slice_eqI:
  "(\<And>i. i < n \<Longrightarrow> byte_at d (off + i) = byte_at e (off' + i)) \<Longrightarrow> slice d off n = slice e off' n"
  by (simp add: slice_def)

lemma bytes_eqI:
  "length a = length b \<Longrightarrow> (\<And>i. i < length b \<Longrightarrow> byte_at a i = byte_at b i) \<Longrightarrow> a = b"
  by (auto simp: byte_at_def intro!: nth_equalityI)

subsection \<open>Actions: state, result and early return\<close>

type_synonym ('s, 'a) act = "'s \<Rightarrow> 'a \<times> 's"

definition ret :: "'a \<Rightarrow> ('s, 'a) act" where [act_defs]:
  "ret x = (\<lambda>s. (x, s))"

definition run :: "('s, 'a) act \<Rightarrow> ('a \<Rightarrow> ('s, 'b) act) \<Rightarrow> ('s, 'b) act" where [act_defs]:
  "run m k = (\<lambda>s. case m s of (x, s') \<Rightarrow> k x s')"

definition look :: "('s \<Rightarrow> ('s, 'a) act) \<Rightarrow> ('s, 'a) act" where [act_defs]:
  "look k = (\<lambda>s. k s s)"

definition upd :: "('s \<Rightarrow> 's) \<Rightarrow> ('s, unit) act" where [act_defs]:
  "upd f = (\<lambda>s. ((), f s))"

definition ok :: "'a \<Rightarrow> ('s, 'e + 'a) act" where [act_defs]:
  "ok x = ret (Inr x)"

definition throw :: "'e \<Rightarrow> ('s, 'e + 'a) act" where [act_defs]:
  "throw e = ret (Inl e)"

definition chk :: "('s, 'e + 'a) act \<Rightarrow> ('a \<Rightarrow> ('s, 'e + 'b) act) \<Rightarrow> ('s, 'e + 'b) act" where [act_defs]:
  "chk m k = run m (\<lambda>r. case r of Inl e \<Rightarrow> ret (Inl e) | Inr x \<Rightarrow> k x)"

definition rcthen :: "'e + 'a \<Rightarrow> ('s, 'e + 'b) act \<Rightarrow> ('s, 'e + 'b) act" where [act_defs]:
  "rcthen rc m = (case rc of Inl e \<Rightarrow> ret (Inl e) | Inr _ \<Rightarrow> m)"

definition whenA :: "bool \<Rightarrow> ('s, unit) act \<Rightarrow> ('s, unit) act" where [act_defs]:
  "whenA b m = (if b then m else ret ())"

text \<open>A bounded \<open>for\<close> loop over a list with early return on an error.\<close>

fun forE :: "'i list \<Rightarrow> ('i \<Rightarrow> ('s, 'e + unit) act) \<Rightarrow> ('s, 'e + unit) act" where
  "forE [] f = ok ()"
| "forE (i # is) f = chk (f i) (\<lambda>_. forE is f)"

text \<open>A \<open>for\<close> loop without early return.\<close>

fun forA :: "'i list \<Rightarrow> ('i \<Rightarrow> ('s, unit) act) \<Rightarrow> ('s, unit) act" where
  "forA [] f = ret ()"
| "forA (i # is) f = run (f i) (\<lambda>_. forA is f)"

lemma ret_apply [simp]: "ret x s = (x, s)"
  by (simp add: ret_def)

lemma upd_apply [simp]: "upd f s = ((), f s)"
  by (simp add: upd_def)

lemma look_apply [simp]: "look k s = k s s"
  by (simp add: look_def)

lemma ok_apply [simp]: "ok x s = (Inr x, s)"
  by (simp add: ok_def)

lemma throw_apply [simp]: "throw e s = (Inl e, s)"
  by (simp add: throw_def)

lemma run_apply: "run m k s = k (fst (m s)) (snd (m s))"
  by (simp add: run_def split: prod.splits)

lemma run_eq [simp]: "m s = (x, s') \<Longrightarrow> run m k s = k x s'"
  by (simp add: run_def)

lemma chk_ok [simp]: "m s = (Inr x, s') \<Longrightarrow> chk m k s = k x s'"
  by (simp add: chk_def)

lemma chk_err [simp]: "m s = (Inl e, s') \<Longrightarrow> chk m k s = (Inl e, s')"
  by (simp add: chk_def)

lemma chk_okE:
  assumes "chk m k s = (Inr y, t)"
  obtains x u where "m s = (Inr x, u)" "k x u = (Inr y, t)"
  using assms by (auto simp: chk_def run_def split: prod.splits sum.splits)

lemma chk_splits:
  "chk m k s = (case m s of (Inl e, s') \<Rightarrow> (Inl e, s') | (Inr x, s') \<Rightarrow> k x s')"
  by (simp add: chk_def run_def split: prod.splits sum.splits)

lemma rcthen_Inl [simp]: "rcthen (Inl e) m = ret (Inl e)"
  by (simp add: rcthen_def)

lemma rcthen_Inr [simp]: "rcthen (Inr x) m = m"
  by (simp add: rcthen_def)

lemma whenA_True [simp]: "whenA True m = m"
  by (simp add: whenA_def)

lemma whenA_False [simp]: "whenA False m = ret ()"
  by (simp add: whenA_def)

subsection \<open>Frame conditions\<close>

text \<open>\<open>keeps R m\<close>: whatever \<open>m\<close> does, the state before and the state after are related by \<open>R\<close>.\<close>

definition keeps :: "('s \<Rightarrow> 's \<Rightarrow> bool) \<Rightarrow> ('s, 'a) act \<Rightarrow> bool" where
  "keeps R m \<longleftrightarrow> (\<forall>s. R s (snd (m s)))"

lemma keepsD: "keeps R m \<Longrightarrow> m s = (r, t) \<Longrightarrow> R s t"
  by (metis keeps_def snd_conv)

lemma keepsI: "(\<And>s. R s (snd (m s))) \<Longrightarrow> keeps R m"
  by (simp add: keeps_def)

lemma keeps_app: "keeps R m \<Longrightarrow> R s (snd (m s))"
  by (simp add: keeps_def)

locale frame_rel =
  fixes R :: "'s \<Rightarrow> 's \<Rightarrow> bool"
  assumes R_refl: "R s s"
    and R_trans: "R s t \<Longrightarrow> R t u \<Longrightarrow> R s u"
begin

lemma keeps_ret: "keeps R (ret x)"
  by (simp add: keeps_def R_refl)

lemma keeps_ok: "keeps R (ok x)"
  by (simp add: keeps_def R_refl)

lemma keeps_throw: "keeps R (throw e)"
  by (simp add: keeps_def R_refl)

lemma keeps_run: "keeps R m \<Longrightarrow> (\<And>x. keeps R (k x)) \<Longrightarrow> keeps R (run m k)"
  unfolding keeps_def run_apply by (blast intro: R_trans)

lemma keeps_look: "(\<And>s. keeps R (k s)) \<Longrightarrow> keeps R (look k)"
  by (simp add: keeps_def)

lemma keeps_upd: "(\<And>s. R s (f s)) \<Longrightarrow> keeps R (upd f)"
  by (simp add: keeps_def)

lemma keeps_chk: "keeps R m \<Longrightarrow> (\<And>x. keeps R (k x)) \<Longrightarrow> keeps R (chk m k)"
  unfolding chk_def by (intro keeps_run) (auto split: sum.split intro: keeps_ret)

lemma keeps_rcthen: "keeps R m \<Longrightarrow> keeps R (rcthen rc m)"
  by (cases rc) (auto intro: keeps_ret)

lemma keeps_whenA: "keeps R m \<Longrightarrow> keeps R (whenA b m)"
  by (cases b) (auto intro: keeps_ret)

lemma keeps_if: "(b \<Longrightarrow> keeps R m) \<Longrightarrow> (\<not> b \<Longrightarrow> keeps R n) \<Longrightarrow> keeps R (if b then m else n)"
  by simp

lemma keeps_forE: "(\<And>i. keeps R (f i)) \<Longrightarrow> keeps R (forE xs f)"
  by (induction xs) (auto intro: keeps_ok keeps_chk)

lemma keeps_forA: "(\<And>i. keeps R (f i)) \<Longrightarrow> keeps R (forA xs f)"
  by (induction xs) (auto intro: keeps_ret keeps_run)

lemma keeps_sum_case:
  "(\<And>e. rc = Inl e \<Longrightarrow> keeps R (f e)) \<Longrightarrow> (\<And>x. rc = Inr x \<Longrightarrow> keeps R (g x)) \<Longrightarrow>
   keeps R (case rc of Inl e \<Rightarrow> f e | Inr x \<Rightarrow> g x)"
  by (simp split: sum.split)

lemma keeps_option_case:
  "(rc = None \<Longrightarrow> keeps R f) \<Longrightarrow> (\<And>x. rc = Some x \<Longrightarrow> keeps R (g x)) \<Longrightarrow>
   keeps R (case rc of None \<Rightarrow> f | Some x \<Rightarrow> g x)"
  by (simp split: option.split)

lemma keeps_prod_case: "(\<And>x y. p = (x, y) \<Longrightarrow> keeps R (f x y)) \<Longrightarrow> keeps R (case p of (x, y) \<Rightarrow> f x y)"
  by (simp split: prod.split)

lemma keeps_let: "keeps R (f v) \<Longrightarrow> keeps R (let x = v in f x)"
  by simp

lemmas keeps_rules = keeps_ret keeps_ok keeps_throw keeps_run keeps_look keeps_chk
  keeps_rcthen keeps_whenA keeps_if keeps_forE keeps_forA keeps_sum_case keeps_option_case
  keeps_prod_case keeps_let

end

end
