(* ===== verification/Sfs_Layout.thy ===== *)
theory Sfs_Layout
  imports Sfs_Prelude
begin

unbundle bit_operations_syntax

section \<open>The on-disk layout: byte offsets and constants\<close>

text \<open>
  The constants of \<^verbatim>\<open>shizukufs/v1/libsfs/sfs_disk.h\<close> that libsfs uses, under their
  C names: byte offsets of the fields of the ext4 superblock, group descriptors, inodes, extent
  nodes and directory blocks (little-endian) and of the jbd2 journal records (big-endian), the
  feature and flag bits, and the limits of the format. An offset or a byte count is a \<open>nat\<close>, a
  value that is stored in a field has the width of that field.
\<close>


subsection \<open>Constants: superblock\<close>

abbreviation (input) SB_OFFSET :: nat where "SB_OFFSET \<equiv> 1024"
abbreviation (input) SB_MAGIC :: u16 where "SB_MAGIC \<equiv> 0xEF53"
abbreviation (input) SB_inodes_count :: nat where "SB_inodes_count \<equiv> 0x00"
abbreviation (input) SB_blocks_count_lo :: nat where "SB_blocks_count_lo \<equiv> 0x04"
abbreviation (input) SB_free_blocks_count_lo :: nat where "SB_free_blocks_count_lo \<equiv> 0x0C"
abbreviation (input) SB_free_inodes_count :: nat where "SB_free_inodes_count \<equiv> 0x10"
abbreviation (input) SB_first_data_block :: nat where "SB_first_data_block \<equiv> 0x14"
abbreviation (input) SB_log_block_size :: nat where "SB_log_block_size \<equiv> 0x18"
abbreviation (input) SB_log_cluster_size :: nat where "SB_log_cluster_size \<equiv> 0x1C"
abbreviation (input) SB_blocks_per_group :: nat where "SB_blocks_per_group \<equiv> 0x20"
abbreviation (input) SB_clusters_per_group :: nat where "SB_clusters_per_group \<equiv> 0x24"
abbreviation (input) SB_inodes_per_group :: nat where "SB_inodes_per_group \<equiv> 0x28"
abbreviation (input) SB_mtime :: nat where "SB_mtime \<equiv> 0x2C"
abbreviation (input) SB_wtime :: nat where "SB_wtime \<equiv> 0x30"
abbreviation (input) SB_mnt_count :: nat where "SB_mnt_count \<equiv> 0x34"
abbreviation (input) SB_magic :: nat where "SB_magic \<equiv> 0x38"
abbreviation (input) SB_state :: nat where "SB_state \<equiv> 0x3A"
abbreviation (input) SB_rev_level :: nat where "SB_rev_level \<equiv> 0x4C"
abbreviation (input) SB_first_ino :: nat where "SB_first_ino \<equiv> 0x54"
abbreviation (input) SB_inode_size :: nat where "SB_inode_size \<equiv> 0x58"
abbreviation (input) SB_feature_compat :: nat where "SB_feature_compat \<equiv> 0x5C"
abbreviation (input) SB_feature_incompat :: nat where "SB_feature_incompat \<equiv> 0x60"
abbreviation (input) SB_feature_ro_compat :: nat where "SB_feature_ro_compat \<equiv> 0x64"
abbreviation (input) SB_uuid :: nat where "SB_uuid \<equiv> 0x68"
abbreviation (input) SB_volume_name :: nat where "SB_volume_name \<equiv> 0x78"
abbreviation (input) SB_reserved_gdt_blocks :: nat where "SB_reserved_gdt_blocks \<equiv> 0xCE"
abbreviation (input) SB_journal_inum :: nat where "SB_journal_inum \<equiv> 0xE0"
abbreviation (input) SB_last_orphan :: nat where "SB_last_orphan \<equiv> 0xE8"
abbreviation (input) SB_hash_seed :: nat where "SB_hash_seed \<equiv> 0xEC"
abbreviation (input) SB_def_hash_version :: nat where "SB_def_hash_version \<equiv> 0xFC"
abbreviation (input) SB_desc_size :: nat where "SB_desc_size \<equiv> 0xFE"
abbreviation (input) SB_first_meta_bg :: nat where "SB_first_meta_bg \<equiv> 0x104"
abbreviation (input) SB_blocks_count_hi :: nat where "SB_blocks_count_hi \<equiv> 0x150"
abbreviation (input) SB_free_blocks_count_hi :: nat where "SB_free_blocks_count_hi \<equiv> 0x158"
abbreviation (input) SB_want_extra_isize :: nat where "SB_want_extra_isize \<equiv> 0x15E"
abbreviation (input) SB_flags :: nat where "SB_flags \<equiv> 0x160"
abbreviation (input) SB_log_groups_per_flex :: nat where "SB_log_groups_per_flex \<equiv> 0x174"
abbreviation (input) SB_checksum_type :: nat where "SB_checksum_type \<equiv> 0x175"
abbreviation (input) SB_kbytes_written :: nat where "SB_kbytes_written \<equiv> 0x178"
abbreviation (input) SB_backup_bgs :: nat where "SB_backup_bgs \<equiv> 0x24C"
abbreviation (input) SB_checksum_seed :: nat where "SB_checksum_seed \<equiv> 0x270"
abbreviation (input) SB_wtime_hi :: nat where "SB_wtime_hi \<equiv> 0x274"
abbreviation (input) SB_mtime_hi :: nat where "SB_mtime_hi \<equiv> 0x275"
abbreviation (input) SB_checksum :: nat where "SB_checksum \<equiv> 0x3FC"
abbreviation (input) SB_STATE_VALID :: u16 where "SB_STATE_VALID \<equiv> 1"
abbreviation (input) SB_STATE_ERROR :: u16 where "SB_STATE_ERROR \<equiv> 2"
abbreviation (input) SB_FLAG_UNSIGNED_HASH :: u32 where "SB_FLAG_UNSIGNED_HASH \<equiv> 2"
abbreviation (input) SB_CHECKSUM_CRC32C :: u8 where "SB_CHECKSUM_CRC32C \<equiv> 1"
abbreviation (input) SB_REV_DYNAMIC :: u32 where "SB_REV_DYNAMIC \<equiv> 1"
abbreviation (input) SB_GOOD_OLD_INODE_SIZE :: u32 where "SB_GOOD_OLD_INODE_SIZE \<equiv> 128"
abbreviation (input) SB_GOOD_OLD_FIRST_INO :: u32 where "SB_GOOD_OLD_FIRST_INO \<equiv> 11"

subsection \<open>Constants: feature bits\<close>

abbreviation (input) COMPAT_HAS_JOURNAL :: u32 where "COMPAT_HAS_JOURNAL \<equiv> 0x4"
abbreviation (input) COMPAT_DIR_INDEX :: u32 where "COMPAT_DIR_INDEX \<equiv> 0x20"
abbreviation (input) COMPAT_SPARSE_SUPER2 :: u32 where "COMPAT_SPARSE_SUPER2 \<equiv> 0x200"
abbreviation (input) COMPAT_FAST_COMMIT :: u32 where "COMPAT_FAST_COMMIT \<equiv> 0x400"
abbreviation (input) COMPAT_ORPHAN_FILE :: u32 where "COMPAT_ORPHAN_FILE \<equiv> 0x1000"
abbreviation (input) INCOMPAT_FILETYPE :: u32 where "INCOMPAT_FILETYPE \<equiv> 0x2"
abbreviation (input) INCOMPAT_RECOVER :: u32 where "INCOMPAT_RECOVER \<equiv> 0x4"
abbreviation (input) INCOMPAT_META_BG :: u32 where "INCOMPAT_META_BG \<equiv> 0x10"
abbreviation (input) INCOMPAT_EXTENTS :: u32 where "INCOMPAT_EXTENTS \<equiv> 0x40"
abbreviation (input) INCOMPAT_64BIT :: u32 where "INCOMPAT_64BIT \<equiv> 0x80"
abbreviation (input) INCOMPAT_FLEX_BG :: u32 where "INCOMPAT_FLEX_BG \<equiv> 0x200"
abbreviation (input) INCOMPAT_EA_INODE :: u32 where "INCOMPAT_EA_INODE \<equiv> 0x400"
abbreviation (input) INCOMPAT_CSUM_SEED :: u32 where "INCOMPAT_CSUM_SEED \<equiv> 0x2000"
abbreviation (input) INCOMPAT_LARGEDIR :: u32 where "INCOMPAT_LARGEDIR \<equiv> 0x4000"
abbreviation (input) INCOMPAT_INLINE_DATA :: u32 where "INCOMPAT_INLINE_DATA \<equiv> 0x8000"
abbreviation (input) INCOMPAT_ENCRYPT :: u32 where "INCOMPAT_ENCRYPT \<equiv> 0x10000"
abbreviation (input) INCOMPAT_CASEFOLD :: u32 where "INCOMPAT_CASEFOLD \<equiv> 0x20000"
abbreviation (input) INCOMPAT_SUPPORTED :: u32 where "INCOMPAT_SUPPORTED \<equiv> (INCOMPAT_FILETYPE OR INCOMPAT_RECOVER OR INCOMPAT_META_BG OR 
     INCOMPAT_EXTENTS OR INCOMPAT_64BIT OR INCOMPAT_FLEX_BG OR 
     INCOMPAT_EA_INODE OR INCOMPAT_CSUM_SEED OR INCOMPAT_LARGEDIR OR 
     INCOMPAT_INLINE_DATA OR INCOMPAT_ENCRYPT OR INCOMPAT_CASEFOLD)"
abbreviation (input) RO_COMPAT_SPARSE_SUPER :: u32 where "RO_COMPAT_SPARSE_SUPER \<equiv> 0x1"
abbreviation (input) RO_COMPAT_LARGE_FILE :: u32 where "RO_COMPAT_LARGE_FILE \<equiv> 0x2"
abbreviation (input) RO_COMPAT_HUGE_FILE :: u32 where "RO_COMPAT_HUGE_FILE \<equiv> 0x8"
abbreviation (input) RO_COMPAT_GDT_CSUM :: u32 where "RO_COMPAT_GDT_CSUM \<equiv> 0x10"
abbreviation (input) RO_COMPAT_DIR_NLINK :: u32 where "RO_COMPAT_DIR_NLINK \<equiv> 0x20"
abbreviation (input) RO_COMPAT_EXTRA_ISIZE :: u32 where "RO_COMPAT_EXTRA_ISIZE \<equiv> 0x40"
abbreviation (input) RO_COMPAT_QUOTA :: u32 where "RO_COMPAT_QUOTA \<equiv> 0x100"
abbreviation (input) RO_COMPAT_BIGALLOC :: u32 where "RO_COMPAT_BIGALLOC \<equiv> 0x200"
abbreviation (input) RO_COMPAT_METADATA_CSUM :: u32 where "RO_COMPAT_METADATA_CSUM \<equiv> 0x400"
abbreviation (input) RO_COMPAT_READONLY :: u32 where "RO_COMPAT_READONLY \<equiv> 0x1000"
abbreviation (input) RO_COMPAT_PROJECT :: u32 where "RO_COMPAT_PROJECT \<equiv> 0x2000"
abbreviation (input) RO_COMPAT_VERITY :: u32 where "RO_COMPAT_VERITY \<equiv> 0x8000"
abbreviation (input) RO_COMPAT_ORPHAN_PRESENT :: u32 where "RO_COMPAT_ORPHAN_PRESENT \<equiv> 0x10000"
abbreviation (input) RO_COMPAT_SUPPORTED :: u32 where "RO_COMPAT_SUPPORTED \<equiv> (RO_COMPAT_SPARSE_SUPER OR RO_COMPAT_LARGE_FILE OR RO_COMPAT_HUGE_FILE OR 
     RO_COMPAT_GDT_CSUM OR RO_COMPAT_DIR_NLINK OR RO_COMPAT_EXTRA_ISIZE OR 
     RO_COMPAT_METADATA_CSUM OR RO_COMPAT_PROJECT)"
abbreviation (input) RO_COMPAT_FORCES_RO :: u32 where "RO_COMPAT_FORCES_RO \<equiv> (RO_COMPAT_QUOTA OR RO_COMPAT_READONLY OR RO_COMPAT_VERITY OR 
     RO_COMPAT_ORPHAN_PRESENT)"

subsection \<open>Constants: block group descriptors\<close>

abbreviation (input) GD_block_bitmap_lo :: nat where "GD_block_bitmap_lo \<equiv> 0x00"
abbreviation (input) GD_inode_bitmap_lo :: nat where "GD_inode_bitmap_lo \<equiv> 0x04"
abbreviation (input) GD_inode_table_lo :: nat where "GD_inode_table_lo \<equiv> 0x08"
abbreviation (input) GD_free_blocks_count_lo :: nat where "GD_free_blocks_count_lo \<equiv> 0x0C"
abbreviation (input) GD_free_inodes_count_lo :: nat where "GD_free_inodes_count_lo \<equiv> 0x0E"
abbreviation (input) GD_used_dirs_count_lo :: nat where "GD_used_dirs_count_lo \<equiv> 0x10"
abbreviation (input) GD_flags :: nat where "GD_flags \<equiv> 0x12"
abbreviation (input) GD_block_bitmap_csum_lo :: nat where "GD_block_bitmap_csum_lo \<equiv> 0x18"
abbreviation (input) GD_inode_bitmap_csum_lo :: nat where "GD_inode_bitmap_csum_lo \<equiv> 0x1A"
abbreviation (input) GD_itable_unused_lo :: nat where "GD_itable_unused_lo \<equiv> 0x1C"
abbreviation (input) GD_checksum :: nat where "GD_checksum \<equiv> 0x1E"
abbreviation (input) GD_block_bitmap_hi :: nat where "GD_block_bitmap_hi \<equiv> 0x20"
abbreviation (input) GD_inode_bitmap_hi :: nat where "GD_inode_bitmap_hi \<equiv> 0x24"
abbreviation (input) GD_inode_table_hi :: nat where "GD_inode_table_hi \<equiv> 0x28"
abbreviation (input) GD_free_blocks_count_hi :: nat where "GD_free_blocks_count_hi \<equiv> 0x2C"
abbreviation (input) GD_free_inodes_count_hi :: nat where "GD_free_inodes_count_hi \<equiv> 0x2E"
abbreviation (input) GD_used_dirs_count_hi :: nat where "GD_used_dirs_count_hi \<equiv> 0x30"
abbreviation (input) GD_itable_unused_hi :: nat where "GD_itable_unused_hi \<equiv> 0x32"
abbreviation (input) GD_block_bitmap_csum_hi :: nat where "GD_block_bitmap_csum_hi \<equiv> 0x38"
abbreviation (input) GD_inode_bitmap_csum_hi :: nat where "GD_inode_bitmap_csum_hi \<equiv> 0x3A"
abbreviation (input) GD_MIN_SIZE :: u32 where "GD_MIN_SIZE \<equiv> 32"
abbreviation (input) GD_MIN_SIZE_64BIT :: u32 where "GD_MIN_SIZE_64BIT \<equiv> 64"
abbreviation (input) BG_INODE_UNINIT :: u16 where "BG_INODE_UNINIT \<equiv> 0x1"
abbreviation (input) BG_BLOCK_UNINIT :: u16 where "BG_BLOCK_UNINIT \<equiv> 0x2"
abbreviation (input) BG_INODE_ZEROED :: u16 where "BG_INODE_ZEROED \<equiv> 0x4"
abbreviation (input) IN_mode :: nat where "IN_mode \<equiv> 0x00"
abbreviation (input) IN_uid :: nat where "IN_uid \<equiv> 0x02"
abbreviation (input) IN_size_lo :: nat where "IN_size_lo \<equiv> 0x04"

subsection \<open>Constants: inodes\<close>

abbreviation (input) IN_atime :: nat where "IN_atime \<equiv> 0x08"
abbreviation (input) IN_ctime :: nat where "IN_ctime \<equiv> 0x0C"
abbreviation (input) IN_mtime :: nat where "IN_mtime \<equiv> 0x10"
abbreviation (input) IN_dtime :: nat where "IN_dtime \<equiv> 0x14"
abbreviation (input) IN_gid :: nat where "IN_gid \<equiv> 0x18"
abbreviation (input) IN_links_count :: nat where "IN_links_count \<equiv> 0x1A"
abbreviation (input) IN_blocks_lo :: nat where "IN_blocks_lo \<equiv> 0x1C"
abbreviation (input) IN_flags :: nat where "IN_flags \<equiv> 0x20"
abbreviation (input) IN_block :: nat where "IN_block \<equiv> 0x28"
abbreviation (input) IN_generation :: nat where "IN_generation \<equiv> 0x64"
abbreviation (input) IN_file_acl_lo :: nat where "IN_file_acl_lo \<equiv> 0x68"
abbreviation (input) IN_size_high :: nat where "IN_size_high \<equiv> 0x6C"
abbreviation (input) IN_blocks_high :: nat where "IN_blocks_high \<equiv> 0x74"
abbreviation (input) IN_file_acl_high :: nat where "IN_file_acl_high \<equiv> 0x76"
abbreviation (input) IN_uid_high :: nat where "IN_uid_high \<equiv> 0x78"
abbreviation (input) IN_gid_high :: nat where "IN_gid_high \<equiv> 0x7A"
abbreviation (input) IN_checksum_lo :: nat where "IN_checksum_lo \<equiv> 0x7C"
abbreviation (input) IN_extra_isize :: nat where "IN_extra_isize \<equiv> 0x80"
abbreviation (input) IN_checksum_hi :: nat where "IN_checksum_hi \<equiv> 0x82"
abbreviation (input) IN_ctime_extra :: nat where "IN_ctime_extra \<equiv> 0x84"
abbreviation (input) IN_mtime_extra :: nat where "IN_mtime_extra \<equiv> 0x88"
abbreviation (input) IN_atime_extra :: nat where "IN_atime_extra \<equiv> 0x8C"
abbreviation (input) IN_crtime :: nat where "IN_crtime \<equiv> 0x90"
abbreviation (input) IN_crtime_extra :: nat where "IN_crtime_extra \<equiv> 0x94"
abbreviation (input) IN_BLOCK_BYTES :: nat where "IN_BLOCK_BYTES \<equiv> 60"
abbreviation (input) IFL_IMMUTABLE :: u32 where "IFL_IMMUTABLE \<equiv> 0x10"
abbreviation (input) IFL_APPEND :: u32 where "IFL_APPEND \<equiv> 0x20"
abbreviation (input) IFL_INDEX :: u32 where "IFL_INDEX \<equiv> 0x1000"
abbreviation (input) IFL_HUGE_FILE :: u32 where "IFL_HUGE_FILE \<equiv> 0x40000"
abbreviation (input) IFL_EXTENTS :: u32 where "IFL_EXTENTS \<equiv> 0x80000"
abbreviation (input) IFL_INLINE_DATA :: u32 where "IFL_INLINE_DATA \<equiv> 0x10000000"
abbreviation (input) IFL_ENCRYPT :: u32 where "IFL_ENCRYPT \<equiv> 0x800"
abbreviation (input) IFL_VERITY :: u32 where "IFL_VERITY \<equiv> 0x100000"

subsection \<open>Constants: extent trees\<close>

abbreviation (input) EXT_MAGIC :: u16 where "EXT_MAGIC \<equiv> 0xF30A"
abbreviation (input) EH_magic :: nat where "EH_magic \<equiv> 0x00"
abbreviation (input) EH_entries :: nat where "EH_entries \<equiv> 0x02"
abbreviation (input) EH_max :: nat where "EH_max \<equiv> 0x04"
abbreviation (input) EH_depth :: nat where "EH_depth \<equiv> 0x06"
abbreviation (input) EH_SIZE :: nat where "EH_SIZE \<equiv> 12"
abbreviation (input) EE_block :: nat where "EE_block \<equiv> 0x00"
abbreviation (input) EE_len :: nat where "EE_len \<equiv> 0x04"
abbreviation (input) EE_start_hi :: nat where "EE_start_hi \<equiv> 0x06"
abbreviation (input) EE_start_lo :: nat where "EE_start_lo \<equiv> 0x08"
abbreviation (input) EE_SIZE :: nat where "EE_SIZE \<equiv> 12"
abbreviation (input) EI_block :: nat where "EI_block \<equiv> 0x00"
abbreviation (input) EI_leaf_lo :: nat where "EI_leaf_lo \<equiv> 0x04"
abbreviation (input) EI_leaf_hi :: nat where "EI_leaf_hi \<equiv> 0x08"
abbreviation (input) EXT_INIT_MAX_LEN :: u32 where "EXT_INIT_MAX_LEN \<equiv> 32768"
abbreviation (input) EXT_MAX_DEPTH :: nat where "EXT_MAX_DEPTH \<equiv> 5"
abbreviation (input) EXT_MAX_LBLK :: u32 where "EXT_MAX_LBLK \<equiv> 0xFFFFFFFF"
abbreviation (input) DE_inode :: nat where "DE_inode \<equiv> 0x00"
abbreviation (input) DE_rec_len :: nat where "DE_rec_len \<equiv> 0x04"

subsection \<open>Constants: directories\<close>

abbreviation (input) DE_name_len :: nat where "DE_name_len \<equiv> 0x06"
abbreviation (input) DE_file_type :: nat where "DE_file_type \<equiv> 0x07"
abbreviation (input) DE_name :: nat where "DE_name \<equiv> 0x08"
abbreviation (input) DE_HDR :: nat where "DE_HDR \<equiv> 8"
abbreviation (input) DE_TAIL_SIZE :: nat where "DE_TAIL_SIZE \<equiv> 12"
abbreviation (input) DE_TAIL_FT :: u8 where "DE_TAIL_FT \<equiv> 0xDE"
abbreviation (input) DX_ROOT_INFO :: nat where "DX_ROOT_INFO \<equiv> 0x18"
abbreviation (input) DXI_reserved_zero :: nat where "DXI_reserved_zero \<equiv> 0x00"
abbreviation (input) DXI_hash_version :: nat where "DXI_hash_version \<equiv> 0x04"
abbreviation (input) DXI_info_length :: nat where "DXI_info_length \<equiv> 0x05"
abbreviation (input) DXI_indirect_levels :: nat where "DXI_indirect_levels \<equiv> 0x06"
abbreviation (input) DX_ROOT_ENTRIES :: nat where "DX_ROOT_ENTRIES \<equiv> 0x20"
abbreviation (input) DX_NODE_ENTRIES :: nat where "DX_NODE_ENTRIES \<equiv> 0x08"
abbreviation (input) DXE_SIZE :: nat where "DXE_SIZE \<equiv> 8"
abbreviation (input) DX_TAIL_SIZE :: nat where "DX_TAIL_SIZE \<equiv> 8"
abbreviation (input) DX_HASH_LEGACY :: u8 where "DX_HASH_LEGACY \<equiv> 0"
abbreviation (input) DX_HASH_HALF_MD4 :: u8 where "DX_HASH_HALF_MD4 \<equiv> 1"
abbreviation (input) DX_HASH_TEA :: u8 where "DX_HASH_TEA \<equiv> 2"
abbreviation (input) DX_HASH_LEGACY_UNSIGNED :: u8 where "DX_HASH_LEGACY_UNSIGNED \<equiv> 3"
abbreviation (input) DX_HASH_HALF_MD4_UNSIGNED :: u8 where "DX_HASH_HALF_MD4_UNSIGNED \<equiv> 4"
abbreviation (input) DX_HASH_TEA_UNSIGNED :: u8 where "DX_HASH_TEA_UNSIGNED \<equiv> 5"

subsection \<open>Constants: jbd2 journal\<close>

abbreviation (input) JBD2_MAGIC :: u32 where "JBD2_MAGIC \<equiv> 0xC03B3998"
abbreviation (input) JBD2_DESCRIPTOR_BLOCK :: u32 where "JBD2_DESCRIPTOR_BLOCK \<equiv> 1"
abbreviation (input) JBD2_COMMIT_BLOCK :: u32 where "JBD2_COMMIT_BLOCK \<equiv> 2"
abbreviation (input) JBD2_SUPERBLOCK_V1 :: u32 where "JBD2_SUPERBLOCK_V1 \<equiv> 3"
abbreviation (input) JBD2_SUPERBLOCK_V2 :: u32 where "JBD2_SUPERBLOCK_V2 \<equiv> 4"
abbreviation (input) JBD2_REVOKE_BLOCK :: u32 where "JBD2_REVOKE_BLOCK \<equiv> 5"
abbreviation (input) JH_magic :: nat where "JH_magic \<equiv> 0x00"
abbreviation (input) JH_blocktype :: nat where "JH_blocktype \<equiv> 0x04"
abbreviation (input) JH_sequence :: nat where "JH_sequence \<equiv> 0x08"
abbreviation (input) JH_SIZE :: nat where "JH_SIZE \<equiv> 12"
abbreviation (input) JS_blocksize :: nat where "JS_blocksize \<equiv> 0x0C"
abbreviation (input) JS_maxlen :: nat where "JS_maxlen \<equiv> 0x10"
abbreviation (input) JS_first :: nat where "JS_first \<equiv> 0x14"
abbreviation (input) JS_sequence :: nat where "JS_sequence \<equiv> 0x18"
abbreviation (input) JS_start :: nat where "JS_start \<equiv> 0x1C"
abbreviation (input) JS_errno :: nat where "JS_errno \<equiv> 0x20"
abbreviation (input) JS_feature_compat :: nat where "JS_feature_compat \<equiv> 0x24"
abbreviation (input) JS_feature_incompat :: nat where "JS_feature_incompat \<equiv> 0x28"
abbreviation (input) JS_feature_ro_compat :: nat where "JS_feature_ro_compat \<equiv> 0x2C"
abbreviation (input) JS_uuid :: nat where "JS_uuid \<equiv> 0x30"
abbreviation (input) JS_checksum_type :: nat where "JS_checksum_type \<equiv> 0x50"
abbreviation (input) JS_checksum :: nat where "JS_checksum \<equiv> 0xFC"
abbreviation (input) JS_SIZE :: nat where "JS_SIZE \<equiv> 1024"
abbreviation (input) JBD2_COMPAT_CHECKSUM :: u32 where "JBD2_COMPAT_CHECKSUM \<equiv> 0x1"
abbreviation (input) JBD2_INCOMPAT_REVOKE :: u32 where "JBD2_INCOMPAT_REVOKE \<equiv> 0x1"
abbreviation (input) JBD2_INCOMPAT_64BIT :: u32 where "JBD2_INCOMPAT_64BIT \<equiv> 0x2"
abbreviation (input) JBD2_INCOMPAT_ASYNC_COMMIT :: u32 where "JBD2_INCOMPAT_ASYNC_COMMIT \<equiv> 0x4"
abbreviation (input) JBD2_INCOMPAT_CSUM_V2 :: u32 where "JBD2_INCOMPAT_CSUM_V2 \<equiv> 0x8"
abbreviation (input) JBD2_INCOMPAT_CSUM_V3 :: u32 where "JBD2_INCOMPAT_CSUM_V3 \<equiv> 0x10"
abbreviation (input) JBD2_INCOMPAT_FAST_COMMIT :: u32 where "JBD2_INCOMPAT_FAST_COMMIT \<equiv> 0x20"
abbreviation (input) JBD2_INCOMPAT_SUPPORTED :: u32 where "JBD2_INCOMPAT_SUPPORTED \<equiv> (JBD2_INCOMPAT_REVOKE OR JBD2_INCOMPAT_64BIT OR 
     JBD2_INCOMPAT_ASYNC_COMMIT OR JBD2_INCOMPAT_CSUM_V2 OR 
     JBD2_INCOMPAT_CSUM_V3 OR JBD2_INCOMPAT_FAST_COMMIT)"
abbreviation (input) JBD2_CRC32C_CHKSUM :: u32 where "JBD2_CRC32C_CHKSUM \<equiv> 4"
abbreviation (input) JBD2_FLAG_ESCAPE :: u32 where "JBD2_FLAG_ESCAPE \<equiv> 1"
abbreviation (input) JBD2_FLAG_SAME_UUID :: u32 where "JBD2_FLAG_SAME_UUID \<equiv> 2"
abbreviation (input) JBD2_FLAG_LAST_TAG :: u32 where "JBD2_FLAG_LAST_TAG \<equiv> 8"
abbreviation (input) JC_chksum_type :: nat where "JC_chksum_type \<equiv> 0x0C"
abbreviation (input) JC_chksum :: nat where "JC_chksum \<equiv> 0x10"
abbreviation (input) JC_commit_sec :: nat where "JC_commit_sec \<equiv> 0x30"
abbreviation (input) JC_commit_nsec :: nat where "JC_commit_nsec \<equiv> 0x38"
abbreviation (input) JR_count :: nat where "JR_count \<equiv> 0x0C"
abbreviation (input) JR_HDR :: nat where "JR_HDR \<equiv> 16"

end
