(* ===== verification/Sfs_Fields.thy ===== *)
theory Sfs_Fields
  imports Sfs_Layout
begin

unbundle bit_operations_syntax

section \<open>Field access: little- and big-endian reads and writes at byte offsets\<close>

text \<open>
  The accessors of \<^verbatim>\<open>sfs_internal.h\<close> (\<open>rd16 \<dots> wrbe64\<close>) through which libsfs touches
  every on-disk structure, and the facts the codecs of the other components rest on: what is
  written is read back, a write changes no byte outside its field, and a read of a field
  depends on its bytes only.
\<close>

subsection \<open>Definitions\<close>

definition rd16 :: "bytes \<Rightarrow> nat \<Rightarrow> u16" where
  "rd16 p off = ucast (byte_at p off) OR push_bit 8 (ucast (byte_at p (off + 1)))"

definition rd32 :: "bytes \<Rightarrow> nat \<Rightarrow> u32" where
  "rd32 p off = ucast (byte_at p off) OR push_bit 8 (ucast (byte_at p (off + 1)))
     OR push_bit 16 (ucast (byte_at p (off + 2))) OR push_bit 24 (ucast (byte_at p (off + 3)))"

definition rd64 :: "bytes \<Rightarrow> nat \<Rightarrow> u64" where
  "rd64 p off = ucast (rd32 p off) OR push_bit 32 (ucast (rd32 p (off + 4)))"

definition wr16 :: "bytes \<Rightarrow> nat \<Rightarrow> u16 \<Rightarrow> bytes" where
  "wr16 p off v = p[off := ucast v, off + 1 := ucast (drop_bit 8 v)]"

definition wr32 :: "bytes \<Rightarrow> nat \<Rightarrow> u32 \<Rightarrow> bytes" where
  "wr32 p off v = p[off := ucast v, off + 1 := ucast (drop_bit 8 v),
     off + 2 := ucast (drop_bit 16 v), off + 3 := ucast (drop_bit 24 v)]"

definition wr64 :: "bytes \<Rightarrow> nat \<Rightarrow> u64 \<Rightarrow> bytes" where
  "wr64 p off v = wr32 (wr32 p off (ucast v)) (off + 4) (ucast (drop_bit 32 v))"

definition rdbe32 :: "bytes \<Rightarrow> nat \<Rightarrow> u32" where
  "rdbe32 p off = push_bit 24 (ucast (byte_at p off)) OR push_bit 16 (ucast (byte_at p (off + 1)))
     OR push_bit 8 (ucast (byte_at p (off + 2))) OR ucast (byte_at p (off + 3))"

definition rdbe16 :: "bytes \<Rightarrow> nat \<Rightarrow> u16" where
  "rdbe16 p off = push_bit 8 (ucast (byte_at p off)) OR ucast (byte_at p (off + 1))"

definition rdbe64 :: "bytes \<Rightarrow> nat \<Rightarrow> u64" where
  "rdbe64 p off = push_bit 32 (ucast (rdbe32 p off)) OR ucast (rdbe32 p (off + 4))"

definition wrbe32 :: "bytes \<Rightarrow> nat \<Rightarrow> u32 \<Rightarrow> bytes" where
  "wrbe32 p off v = p[off := ucast (drop_bit 24 v), off + 1 := ucast (drop_bit 16 v),
     off + 2 := ucast (drop_bit 8 v), off + 3 := ucast v]"

definition wrbe16 :: "bytes \<Rightarrow> nat \<Rightarrow> u16 \<Rightarrow> bytes" where
  "wrbe16 p off v = p[off := ucast (drop_bit 8 v), off + 1 := ucast v]"

definition wrbe64 :: "bytes \<Rightarrow> nat \<Rightarrow> u64 \<Rightarrow> bytes" where
  "wrbe64 p off v = wrbe32 (wrbe32 p off (ucast (drop_bit 32 v))) (off + 4) (ucast v)"

subsection \<open>Lengths\<close>

lemma length_wr [simp]:
  "length (wr16 p off v16) = length p" "length (wr32 p off v32) = length p"
  "length (wr64 p off v64) = length p" "length (wrbe16 p off v16) = length p"
  "length (wrbe32 p off v32) = length p" "length (wrbe64 p off v64) = length p"
  by (simp_all add: wr16_def wr32_def wr64_def wrbe16_def wrbe32_def wrbe64_def)

subsection \<open>Putting bytes together\<close>

lemma join16: "(ucast (ucast v :: u8) :: u16) OR push_bit 8 (ucast (ucast (drop_bit 8 v) :: u8)) = v"
  by (rule bit_word_eqI) (auto simp: bit_simps)

lemma join32:
  "(ucast (ucast v :: u8) :: u32) OR push_bit 8 (ucast (ucast (drop_bit 8 v) :: u8))
     OR push_bit 16 (ucast (ucast (drop_bit 16 v) :: u8))
     OR push_bit 24 (ucast (ucast (drop_bit 24 v) :: u8)) = v"
proof (rule bit_word_eqI)
  fix n :: nat
  consider "n < 8" | "8 \<le> n" "n < 16" | "16 \<le> n" "n < 24" | "24 \<le> n"
    by linarith
  then show "bit ((ucast (ucast v :: u8) :: u32) OR push_bit 8 (ucast (ucast (drop_bit 8 v) :: u8))
     OR push_bit 16 (ucast (ucast (drop_bit 16 v) :: u8))
     OR push_bit 24 (ucast (ucast (drop_bit 24 v) :: u8))) n = bit v n"
    if "n < LENGTH(32)"
    by cases (use that in \<open>auto simp: bit_simps\<close>)
qed

lemma join64: "(ucast (ucast v :: u32) :: u64) OR push_bit 32 (ucast (ucast (drop_bit 32 v) :: u32)) = v"
  by (rule bit_word_eqI) (auto simp: bit_simps)

subsection \<open>What is written is read back\<close>

lemma rd16_wr16: "off + 2 \<le> length p \<Longrightarrow> rd16 (wr16 p off v) off = v"
  by (simp add: rd16_def wr16_def byte_at_update join16)

lemma rd32_wr32: "off + 4 \<le> length p \<Longrightarrow> rd32 (wr32 p off v) off = v"
  by (simp add: rd32_def wr32_def byte_at_update join32)

lemma rdbe16_wrbe16: "off + 2 \<le> length p \<Longrightarrow> rdbe16 (wrbe16 p off v) off = v"
  using join16 [of v] by (simp add: rdbe16_def wrbe16_def byte_at_update or.commute)

lemma rdbe32_wrbe32: "off + 4 \<le> length p \<Longrightarrow> rdbe32 (wrbe32 p off v) off = v"
  using join32 [of v] by (simp add: rdbe32_def wrbe32_def byte_at_update or.commute or.left_commute)

subsection \<open>Frame: bytes outside the field\<close>

lemma byte_at_wr16: "i < off \<or> off + 2 \<le> i \<Longrightarrow> byte_at (wr16 p off v) i = byte_at p i"
  by (auto simp: wr16_def byte_at_update)

lemma byte_at_wr32: "i < off \<or> off + 4 \<le> i \<Longrightarrow> byte_at (wr32 p off v) i = byte_at p i"
  by (auto simp: wr32_def byte_at_update)

lemma byte_at_wr64: "i < off \<or> off + 8 \<le> i \<Longrightarrow> byte_at (wr64 p off v) i = byte_at p i"
  by (auto simp: wr64_def byte_at_wr32)

lemma byte_at_wrbe16: "i < off \<or> off + 2 \<le> i \<Longrightarrow> byte_at (wrbe16 p off v) i = byte_at p i"
  by (auto simp: wrbe16_def byte_at_update)

lemma byte_at_wrbe32: "i < off \<or> off + 4 \<le> i \<Longrightarrow> byte_at (wrbe32 p off v) i = byte_at p i"
  by (auto simp: wrbe32_def byte_at_update)

lemma byte_at_wrbe64: "i < off \<or> off + 8 \<le> i \<Longrightarrow> byte_at (wrbe64 p off v) i = byte_at p i"
  by (auto simp: wrbe64_def byte_at_wrbe32)

lemmas byte_at_wr = byte_at_wr16 byte_at_wr32 byte_at_wr64 byte_at_wrbe16 byte_at_wrbe32
  byte_at_wrbe64

lemma rd16_cong:
  assumes "\<And>k. k < 2 \<Longrightarrow> byte_at p (off + k) = byte_at q (off' + k)"
  shows "rd16 p off = rd16 q off'" "rdbe16 p off = rdbe16 q off'"
  using assms [of 0] assms [of 1] by (simp_all add: rd16_def rdbe16_def)

lemma rd32_cong:
  assumes "\<And>k. k < 4 \<Longrightarrow> byte_at p (off + k) = byte_at q (off' + k)"
  shows "rd32 p off = rd32 q off'" "rdbe32 p off = rdbe32 q off'"
  using assms [of 0] assms [of 1] assms [of 2] assms [of 3]
  by (simp_all add: rd32_def rdbe32_def)

lemma rd64_cong:
  assumes "\<And>k. k < 8 \<Longrightarrow> byte_at p (off + k) = byte_at q (off' + k)"
  shows "rd64 p off = rd64 q off'"
proof -
  have "rd32 p off = rd32 q off'"
    using assms by (intro rd32_cong(1)) simp
  moreover have "rd32 p (off + 4) = rd32 q (off' + 4)"
    using assms [of "4 + k" for k] by (intro rd32_cong(1)) (simp add: add.assoc)
  ultimately show ?thesis
    by (simp add: rd64_def)
qed

text \<open>A field read survives every write to a disjoint field.\<close>

lemma rd_frame:
  assumes "\<And>i. off \<le> i \<Longrightarrow> i < off + n \<Longrightarrow> byte_at p i = byte_at q i"
  shows "n = 2 \<Longrightarrow> rd16 p off = rd16 q off" "n = 4 \<Longrightarrow> rd32 p off = rd32 q off"
    "n = 8 \<Longrightarrow> rd64 p off = rd64 q off" "n = 4 \<Longrightarrow> rdbe32 p off = rdbe32 q off"
    "n = 2 \<Longrightarrow> rdbe16 p off = rdbe16 q off"
  by (rule rd16_cong rd32_cong rd64_cong; use assms in simp)+

lemma rd16_wr_other:
  "off + 2 \<le> o' \<or> o' + 2 \<le> off \<Longrightarrow> rd16 (wr16 p o' v) off = rd16 p off"
  "off + 2 \<le> o' \<or> o' + 4 \<le> off \<Longrightarrow> rd16 (wr32 p o' w) off = rd16 p off"
  "off + 2 \<le> o' \<or> o' + length xs \<le> off \<Longrightarrow> rd16 (blit p o' xs) off = rd16 p off"
  "off + 2 \<le> o' \<or> o' + n \<le> off \<Longrightarrow> rd16 (fill p o' c n) off = rd16 p off"
  by (rule rd16_cong(1); auto simp: byte_at_wr byte_at_blit byte_at_fill)+

lemma rd32_wr_other:
  "off + 4 \<le> o' \<or> o' + 2 \<le> off \<Longrightarrow> rd32 (wr16 p o' v) off = rd32 p off"
  "off + 4 \<le> o' \<or> o' + 4 \<le> off \<Longrightarrow> rd32 (wr32 p o' w) off = rd32 p off"
  "off + 4 \<le> o' \<or> o' + length xs \<le> off \<Longrightarrow> rd32 (blit p o' xs) off = rd32 p off"
  "off + 4 \<le> o' \<or> o' + n \<le> off \<Longrightarrow> rd32 (fill p o' c n) off = rd32 p off"
  by (rule rd32_cong(1); auto simp: byte_at_wr byte_at_blit byte_at_fill)+

lemma rdbe_wr_other:
  "off + 4 \<le> o' \<or> o' + 2 \<le> off \<Longrightarrow> rdbe32 (wrbe16 p o' v) off = rdbe32 p off"
  "off + 4 \<le> o' \<or> o' + 4 \<le> off \<Longrightarrow> rdbe32 (wrbe32 p o' w) off = rdbe32 p off"
  "off + 2 \<le> o' \<or> o' + 2 \<le> off \<Longrightarrow> rdbe16 (wrbe16 p o' v) off = rdbe16 p off"
  "off + 2 \<le> o' \<or> o' + 4 \<le> off \<Longrightarrow> rdbe16 (wrbe32 p o' w) off = rdbe16 p off"
  "off + 4 \<le> o' \<or> o' + length xs \<le> off \<Longrightarrow> rdbe32 (blit p o' xs) off = rdbe32 p off"
  by (rule rd32_cong(2) rd16_cong(2); auto simp: byte_at_wr byte_at_blit)+

lemma rd64_wr64: "off + 8 \<le> length p \<Longrightarrow> rd64 (wr64 p off v) off = v"
  by (simp add: rd64_def wr64_def rd32_wr32 rd32_wr_other join64)

lemma rdbe64_wrbe64: "off + 8 \<le> length p \<Longrightarrow> rdbe64 (wrbe64 p off v) off = v"
  using join64 [of v] by (simp add: rdbe64_def wrbe64_def rdbe32_wrbe32 rdbe_wr_other or.commute)

lemma rd_drop [simp]:
  "rd16 (drop n p) off = rd16 p (n + off)" "rd32 (drop n p) off = rd32 p (n + off)"
  "rdbe16 (drop n p) off = rdbe16 p (n + off)" "rdbe32 (drop n p) off = rdbe32 p (n + off)"
  by (simp_all add: rd16_def rd32_def rdbe16_def rdbe32_def add.assoc)

lemma rd64_drop [simp]: "rd64 (drop n p) off = rd64 p (n + off)"
  by (simp add: rd64_def add.assoc)

end
