(* ===== verification/Sfs_Crc.thy ===== *)
theory Sfs_Crc
  imports Sfs_Fields
begin

unbundle bit_operations_syntax

section \<open>Checksums: CRC-32C and CRC-16 (sfs\_crc.c)\<close>

text \<open>
  libsfs computes both checksums with 256-entry tables that \<open>make_tables\<close> fills on first use.
  The model has the tables as the C code builds them; the lemmas show that the table-driven
  loops compute the bit-serial polynomial division (\<open>crc32c_bitwise\<close>), that checksums compose
  over concatenation (libsfs checksums a structure in pieces around its checksum field), that
  they are linear, and that a change of the data is visible: two buffers of equal length that
  differ in one place only, of at most four bytes, never have the same CRC-32C.
\<close>

subsection \<open>The tables\<close>

text \<open>One step of the inner loop of \<open>make_tables\<close>.\<close>

definition crc32c_step :: "u32 \<Rightarrow> u32" where
  "crc32c_step c = (if c AND 1 \<noteq> 0 then drop_bit 1 c XOR 0x82F63B78 else drop_bit 1 c)"

definition crc16_step :: "u16 \<Rightarrow> u16" where
  "crc16_step s = (if s AND 1 \<noteq> 0 then drop_bit 1 s XOR 0xA001 else drop_bit 1 s)"

definition make_tables :: "u32 list \<times> u16 list" where
  "make_tables = (map (\<lambda>i. (crc32c_step ^^ 8) (of_nat i)) [0..<256],
                  map (\<lambda>i. (crc16_step ^^ 8) (of_nat i)) [0..<256])"

definition crc32c_table :: "u32 list" where
  "crc32c_table = fst make_tables"

definition crc16_table :: "u16 list" where
  "crc16_table = snd make_tables"

subsection \<open>The checksum loops\<close>

fun sfs_crc32c :: "u32 \<Rightarrow> bytes \<Rightarrow> u32" where
  "sfs_crc32c crc [] = crc"
| "sfs_crc32c crc (p # ps) =
     sfs_crc32c (crc32c_table ! unat ((crc XOR ucast p) AND 0xFF) XOR drop_bit 8 crc) ps"

fun sfs_crc16 :: "u16 \<Rightarrow> bytes \<Rightarrow> u16" where
  "sfs_crc16 crc [] = crc"
| "sfs_crc16 crc (p # ps) =
     sfs_crc16 (crc16_table ! unat ((crc XOR ucast p) AND 0xFF) XOR drop_bit 8 crc) ps"

subsection \<open>The bit-serial reference\<close>

fun crc32c_bitwise :: "u32 \<Rightarrow> bytes \<Rightarrow> u32" where
  "crc32c_bitwise crc [] = crc"
| "crc32c_bitwise crc (p # ps) = crc32c_bitwise ((crc32c_step ^^ 8) (crc XOR ucast p)) ps"

fun crc16_bitwise :: "u16 \<Rightarrow> bytes \<Rightarrow> u16" where
  "crc16_bitwise crc [] = crc"
| "crc16_bitwise crc (p # ps) = crc16_bitwise ((crc16_step ^^ 8) (crc XOR ucast p)) ps"

text \<open>The little-endian value of a run of bytes.\<close>

fun le_join :: "bytes \<Rightarrow> 'a::len word" where
  "le_join [] = 0"
| "le_join (x # xs) = ucast x XOR push_bit 8 (le_join xs)"

lemma le_join_high: "8 * length xs \<le> i \<Longrightarrow> \<not> bit (le_join xs :: 'a::len word) i"
  by (induction xs arbitrary: i) (auto simp: bit_simps dest: bit_imp_le_length)

lemma le_join_inj:
  "length xs = length ys \<Longrightarrow> 8 * length xs \<le> LENGTH('a) \<Longrightarrow>
   (le_join xs :: 'a::len word) = le_join ys \<Longrightarrow> xs = ys"
proof (induction xs ys rule: list_induct2)
  case Nil
  then show ?case by simp
next
  case (Cons x xs y ys)
  let ?l = "\<lambda>zs. le_join zs :: 'a word"
  have eq: "bit (?l (x # xs)) i = bit (?l (y # ys)) i" for i
    using Cons.prems by simp
  have "bit x i = bit y i" if "i < 8" for i
    using eq [of i] that Cons.prems(1) by (simp add: bit_simps)
  then have "x = y"
    by (intro bit_word_eqI) simp
  moreover have "bit (?l xs) i = bit (?l ys) i" for i
  proof (cases "i < 8 * length xs")
    case True
    then show ?thesis
      using eq [of "i + 8"] Cons.prems(1)
      by (auto simp: bit_simps dest: bit_imp_le_length)
  next
    case False
    then show ?thesis
      using Cons.hyps by (simp add: le_join_high)
  qed
  then have "?l xs = ?l ys"
    by (simp add: bit_eq_iff)
  ultimately show ?case
    using Cons.IH Cons.prems(1) by simp
qed

subsection \<open>What a table-driven CRC provides\<close>

text \<open>
  The contract both checksums meet: the step is linear, shifts an even register, maps only 0 to
  0; the table holds eight steps of every byte; the loop looks the low byte up and shifts.
\<close>

locale crc_loop =
  fixes step :: "'a::len word \<Rightarrow> 'a word"
    and table :: "'a word list"
    and crc :: "'a word \<Rightarrow> bytes \<Rightarrow> 'a word"
  assumes width: "8 \<le> LENGTH('a)"
    and step_xor: "step (a XOR b) = step a XOR step b"
    and step_even: "even a \<Longrightarrow> step a = drop_bit 1 a"
    and step_zero: "step a = 0 \<Longrightarrow> a = 0"
    and table: "i < 256 \<Longrightarrow> table ! i = (step ^^ 8) (of_nat i)"
    and crc_Nil: "crc c [] = c"
    and crc_Cons: "crc c (p # ps) =
      crc (table ! unat ((c XOR ucast p) AND 0xFF) XOR drop_bit 8 c) ps"
begin

lemma steps_xor: "(step ^^ n) (a XOR b) = (step ^^ n) a XOR (step ^^ n) b"
  by (induction n) (simp_all add: step_xor)

lemma steps_zero: "(step ^^ n) a = 0 \<Longrightarrow> a = 0"
  by (induction n) (auto dest: step_zero)

lemma steps_inj: "(step ^^ n) a = (step ^^ n) b \<Longrightarrow> a = b"
  using steps_zero [of n "a XOR b"] by (simp add: steps_xor word_xor_eq_0)

lemma steps_shift:
  assumes "n + m \<le> LENGTH('a)" "\<And>i. m \<le> i \<Longrightarrow> \<not> bit a i"
  shows "(step ^^ n) (push_bit n a) = a"
  using assms(1)
proof (induction n)
  case 0
  then show ?case by simp
next
  case (Suc n)
  have small: "i < m" if "bit a i" for i
    using assms(2) that by (meson not_le)
  have "step (push_bit (Suc n) a) = drop_bit 1 (push_bit (Suc n) a)"
    by (rule step_even) simp
  also have "\<dots> = push_bit n a"
    using Suc.prems
    by (intro bit_word_eqI) (auto simp del: push_bit_Suc simp: bit_simps Suc_diff_le dest: small)
  finally have "(step ^^ n) (step (push_bit (Suc n) a)) = (step ^^ n) (push_bit n a)"
    by simp
  then show ?case
    using Suc by (simp del: push_bit_Suc add: funpow_swap1)
qed

lemma low_high: "(a :: 'a word) = (a AND 0xFF) XOR push_bit 8 (drop_bit 8 a)"
  unfolding word_and_255 by (rule bit_word_eqI) (auto simp: bit_simps)

lemma steps8: "(step ^^ 8) a = (step ^^ 8) (a AND 0xFF) XOR drop_bit 8 a"
proof -
  have "(step ^^ 8) (push_bit 8 (drop_bit 8 a)) = drop_bit 8 a"
    using width by (intro steps_shift [of 8 "LENGTH('a) - 8"]) (auto simp: bit_simps dest: bit_imp_le_length)
  then show ?thesis
    by (metis low_high steps_xor)
qed

lemma crc_Cons_steps: "crc c (p # ps) = crc ((step ^^ 8) (c XOR ucast p)) ps"
proof -
  let ?i = "(c XOR ucast p) AND 0xFF"
  have "table ! unat ?i = (step ^^ 8) ?i"
    using table [OF unat_and_255 [of "c XOR ucast p"]] by simp
  moreover have "drop_bit 8 (ucast p :: 'a word) = 0"
    by (rule bit_word_eqI) (auto simp: bit_simps dest: bit_imp_le_length)
  ultimately show ?thesis
    by (simp add: crc_Cons steps8 [of "c XOR ucast p"] drop_bit_xor)
qed

lemma crc_append: "crc c (xs @ ys) = crc (crc c xs) ys"
  by (induction xs arbitrary: c) (simp_all add: crc_Nil crc_Cons)

lemma crc_inj: "crc c xs = crc d xs \<Longrightarrow> c = d"
proof (induction xs arbitrary: c d)
  case Nil
  then show ?case by (simp add: crc_Nil)
next
  case (Cons x xs)
  then have "(step ^^ 8) (c XOR ucast x) = (step ^^ 8) (d XOR ucast x)"
    by (simp add: crc_Cons_steps)
  then have "c XOR ucast x = d XOR ucast x"
    by (rule steps_inj)
  then show ?case
    by (metis xor.assoc xor_self_eq xor.right_neutral)
qed

lemma crc_linear:
  "length xs = length ys \<Longrightarrow> crc (c XOR d) (map2 (XOR) xs ys) = crc c xs XOR crc d ys"
proof (induction xs ys arbitrary: c d rule: list_induct2)
  case Nil
  then show ?case by (simp add: crc_Nil)
next
  case (Cons x xs y ys)
  have "(step ^^ 8) ((c XOR d) XOR ucast (x XOR y)) =
      (step ^^ 8) (c XOR ucast x) XOR (step ^^ 8) (d XOR ucast y)"
    by (simp add: steps_xor [symmetric] unsigned_xor_eq ac_simps)
  then show ?case
    using Cons.IH by (simp add: crc_Cons_steps)
qed

lemma crc_short:
  "8 * length xs \<le> LENGTH('a) \<Longrightarrow> crc c xs = (step ^^ (8 * length xs)) (c XOR le_join xs)"
proof (induction xs arbitrary: c)
  case Nil
  then show ?case by (simp add: crc_Nil)
next
  case (Cons x xs)
  let ?J = "le_join xs :: 'a word"
  have "(step ^^ 8) (push_bit 8 ?J) = ?J"
    using Cons.prems by (intro steps_shift [of 8 "8 * length xs"]) (auto dest: le_join_high)
  then have "(step ^^ 8) (c XOR le_join (x # xs)) = (step ^^ 8) (c XOR ucast x) XOR ?J"
    by (simp add: steps_xor xor.assoc)
  then show ?case
    using Cons by (simp add: crc_Cons_steps funpow_add funpow_swap1 add.commute [of 8] del: le_join.simps)
qed

lemma crc_burst:
  assumes "length m = length m'" "8 * length m \<le> LENGTH('a)" "crc c (p @ m @ s) = crc c (p @ m' @ s)"
  shows "m = m'"
proof -
  let ?c = "crc c p"
  have "crc ?c m = crc ?c m'"
    using assms(3) by (simp add: crc_append crc_inj)
  then have "?c XOR le_join m = ?c XOR le_join m'"
    using assms(1,2) by (simp add: crc_short steps_inj)
  then have "(le_join m :: 'a word) = le_join m'"
    by (metis xor.assoc xor_self_eq xor.left_neutral)
  then show ?thesis
    using assms(1,2) by (rule le_join_inj [rotated 2])
qed

end

subsection \<open>Both checksums meet the contract\<close>

lemma shift_zero_even: "even a \<Longrightarrow> drop_bit 1 a = 0 \<Longrightarrow> a = (0 :: 'a::len word)"
  using bits_ident [of 1 a] by (simp add: take_bit_Suc even_iff_mod_2_eq_zero)

interpretation crc32: crc_loop crc32c_step crc32c_table sfs_crc32c
proof unfold_locales
  show "crc32c_step (a XOR b) = crc32c_step a XOR crc32c_step b" for a b
    unfolding crc32c_step_def and_1_odd
    by (cases "even a"; cases "even b") (simp_all add: drop_bit_xor ac_simps even_xor_iff)
  show "crc32c_step a = drop_bit 1 a" if "even a" for a
    using that by (simp add: crc32c_step_def and_1_odd)
  show "a = 0" if "crc32c_step a = 0" for a
  proof (cases "even a")
    case True
    with that show ?thesis
      by (simp add: crc32c_step_def and_1_odd shift_zero_even)
  next
    case False
    with that have "drop_bit 1 a = 0x82F63B78"
      by (simp add: crc32c_step_def and_1_odd word_xor_eq_0)
    then have "bit (drop_bit 1 a) 31"
      by simp
    then show ?thesis
      by (auto simp: bit_simps dest: bit_imp_le_length)
  qed
qed (auto simp: crc32c_table_def make_tables_def)

interpretation crc16: crc_loop crc16_step crc16_table sfs_crc16
proof unfold_locales
  show "crc16_step (a XOR b) = crc16_step a XOR crc16_step b" for a b
    unfolding crc16_step_def and_1_odd
    by (cases "even a"; cases "even b") (simp_all add: drop_bit_xor ac_simps even_xor_iff)
  show "crc16_step a = drop_bit 1 a" if "even a" for a
    using that by (simp add: crc16_step_def and_1_odd)
  show "a = 0" if "crc16_step a = 0" for a
  proof (cases "even a")
    case True
    with that show ?thesis
      by (simp add: crc16_step_def and_1_odd shift_zero_even)
  next
    case False
    with that have "drop_bit 1 a = 0xA001"
      by (simp add: crc16_step_def and_1_odd word_xor_eq_0)
    then have "bit (drop_bit 1 a) 15"
      by simp
    then show ?thesis
      by (auto simp: bit_simps dest: bit_imp_le_length)
  qed
qed (auto simp: crc16_table_def make_tables_def)

subsection \<open>The table loops are the bit-serial division\<close>

lemma crc32c_eq_bitwise: "sfs_crc32c c xs = crc32c_bitwise c xs"
  by (induction xs arbitrary: c) (simp_all only: sfs_crc32c.simps(1) crc32c_bitwise.simps crc32.crc_Cons_steps)

lemma crc16_eq_bitwise: "sfs_crc16 c xs = crc16_bitwise c xs"
  by (induction xs arbitrary: c) (simp_all only: sfs_crc16.simps(1) crc16_bitwise.simps crc16.crc_Cons_steps)

end
