(* ===== verification/Sfs_Hash.thy ===== *)
theory Sfs_Hash
  imports Sfs_Fields
begin

unbundle bit_operations_syntax

section \<open>Directory-index name hashes (sfs\_hash.c)\<close>

text \<open>
  The legacy, half-MD4 and TEA hashes of the ext3/ext4 directory index, on 32-bit words, with the
  signed-char and unsigned-char variants. \<open>tea_loop\<close>, \<open>half_md4_loop\<close> are the \<open>while (rem > 0)\<close>
  loops of \<open>sfs_dx_hash\<close>. The lemmas: the result has bit 0 clear (the index uses that bit to mark
  collisions), is never the end-of-directory marker, and the routine fails for the hash versions
  outside 0--5 only; the state keeps four words; the two variants agree on ASCII names.
\<close>

subsection \<open>Definitions\<close>

definition rol32 :: "u32 \<Rightarrow> nat \<Rightarrow> u32" where
  "rol32 v s = push_bit s v OR drop_bit (32 - s) v"

text \<open>One turn of the \<open>do \<dots> while (--n)\<close> loop of \<open>tea_transform\<close> on \<open>(sum, b0, b1)\<close>.\<close>

definition tea_round :: "u32 list \<Rightarrow> u32 \<times> u32 \<times> u32 \<Rightarrow> u32 \<times> u32 \<times> u32" where
  "tea_round inp = (\<lambda>(sum, b0, b1).
     let sum = sum + 0x9E3779B9;
         b0 = b0 + (((push_bit 4 b1 + inp ! 0) XOR (b1 + sum)) XOR (drop_bit 5 b1 + inp ! 1));
         b1 = b1 + (((push_bit 4 b0 + inp ! 2) XOR (b0 + sum)) XOR (drop_bit 5 b0 + inp ! 3))
     in (sum, b0, b1))"

definition tea_transform :: "u32 list \<Rightarrow> u32 list \<Rightarrow> u32 list" where
  "tea_transform buf inp = (case (tea_round inp ^^ 16) (0, buf ! 0, buf ! 1) of
     (_, b0, b1) \<Rightarrow> buf[0 := buf ! 0 + b0, 1 := buf ! 1 + b1])"

abbreviation (input) F :: "u32 \<Rightarrow> u32 \<Rightarrow> u32 \<Rightarrow> u32" where
  "F x y z \<equiv> z XOR (x AND (y XOR z))"

abbreviation (input) G :: "u32 \<Rightarrow> u32 \<Rightarrow> u32 \<Rightarrow> u32" where
  "G x y z \<equiv> (x AND y) + ((x XOR y) AND z)"

abbreviation (input) H :: "u32 \<Rightarrow> u32 \<Rightarrow> u32 \<Rightarrow> u32" where
  "H x y z \<equiv> x XOR y XOR z"

definition ROUND :: "(u32 \<Rightarrow> u32 \<Rightarrow> u32 \<Rightarrow> u32) \<Rightarrow> u32 \<Rightarrow> u32 \<Rightarrow> u32 \<Rightarrow> u32 \<Rightarrow> u32 \<Rightarrow> nat \<Rightarrow> u32" where
  "ROUND f a b c d x s = rol32 (a + (f b c d + x)) s"

abbreviation (input) K1 :: u32 where "K1 \<equiv> 0"
abbreviation (input) K2 :: u32 where "K2 \<equiv> 0x5A827999"
abbreviation (input) K3 :: u32 where "K3 \<equiv> 0x6ED9EBA1"

text \<open>The 24 rounds on the local copies \<open>a\<close>, \<open>b\<close>, \<open>c\<close>, \<open>d\<close> of the buffer.\<close>

definition half_md4_rounds :: "u32 list \<Rightarrow> u32 list \<Rightarrow> u32 \<times> u32 \<times> u32 \<times> u32" where
  "half_md4_rounds buf inp =
    (let a = buf ! 0; b = buf ! 1; c = buf ! 2; d = buf ! 3;
         a = ROUND F a b c d (inp ! 0 + K1) 3;
         d = ROUND F d a b c (inp ! 1 + K1) 7;
         c = ROUND F c d a b (inp ! 2 + K1) 11;
         b = ROUND F b c d a (inp ! 3 + K1) 19;
         a = ROUND F a b c d (inp ! 4 + K1) 3;
         d = ROUND F d a b c (inp ! 5 + K1) 7;
         c = ROUND F c d a b (inp ! 6 + K1) 11;
         b = ROUND F b c d a (inp ! 7 + K1) 19;
         a = ROUND G a b c d (inp ! 1 + K2) 3;
         d = ROUND G d a b c (inp ! 3 + K2) 5;
         c = ROUND G c d a b (inp ! 5 + K2) 9;
         b = ROUND G b c d a (inp ! 7 + K2) 13;
         a = ROUND G a b c d (inp ! 0 + K2) 3;
         d = ROUND G d a b c (inp ! 2 + K2) 5;
         c = ROUND G c d a b (inp ! 4 + K2) 9;
         b = ROUND G b c d a (inp ! 6 + K2) 13;
         a = ROUND H a b c d (inp ! 3 + K3) 3;
         d = ROUND H d a b c (inp ! 7 + K3) 9;
         c = ROUND H c d a b (inp ! 2 + K3) 11;
         b = ROUND H b c d a (inp ! 6 + K3) 15;
         a = ROUND H a b c d (inp ! 1 + K3) 3;
         d = ROUND H d a b c (inp ! 5 + K3) 9;
         c = ROUND H c d a b (inp ! 0 + K3) 11;
         b = ROUND H b c d a (inp ! 4 + K3) 15
     in (a, b, c, d))"

definition half_md4_transform :: "u32 list \<Rightarrow> u32 list \<Rightarrow> u32 list" where
  "half_md4_transform buf inp = (case half_md4_rounds buf inp of
     (a, b, c, d) \<Rightarrow> [buf ! 0 + a, buf ! 1 + b, buf ! 2 + c, buf ! 3 + d])"

text \<open>\<open>(uint32_t)c\<close> for a \<open>char\<close> read as unsigned or as signed.\<close>

definition char_val :: "bool \<Rightarrow> u8 \<Rightarrow> u32" where
  "char_val is_unsigned c = (if is_unsigned then ucast c else scast c)"

fun legacy_loop :: "bool \<Rightarrow> bytes \<Rightarrow> u32 \<Rightarrow> u32 \<Rightarrow> u32" where
  "legacy_loop uns [] hash0 hash1 = hash0"
| "legacy_loop uns (c # cs) hash0 hash1 =
     (let hash = hash1 + (hash0 XOR (char_val uns c * 7152373));
          hash = (if hash AND 0x80000000 \<noteq> 0 then hash - 0x7FFFFFFF else hash)
      in legacy_loop uns cs hash hash0)"

definition legacy_hash :: "bytes \<Rightarrow> bool \<Rightarrow> u32" where
  "legacy_hash name is_unsigned = push_bit 1 (legacy_loop is_unsigned name 0x12A3FE2D 0x37ABE8F9)"

text \<open>The \<open>for\<close> loop of \<open>str2hashbuf\<close>: words written so far, and the pending value.\<close>

fun str2hash_loop :: "bool \<Rightarrow> u32 \<Rightarrow> bytes \<Rightarrow> nat \<Rightarrow> u32 list \<Rightarrow> u32 \<Rightarrow> u32 list \<times> u32" where
  "str2hash_loop uns pad [] i out val = (out, val)"
| "str2hash_loop uns pad (c # cs) i out val =
     (let val = char_val uns c + push_bit 8 val
      in if i mod 4 = 3 then str2hash_loop uns pad cs (i + 1) (out @ [val]) pad
         else str2hash_loop uns pad cs (i + 1) out val)"

definition str2hashbuf :: "bytes \<Rightarrow> nat \<Rightarrow> bool \<Rightarrow> u32 list" where
  "str2hashbuf msg num is_unsigned =
    (let len = length msg;
         pad = of_nat len OR push_bit 8 (of_nat len);
         pad = pad OR push_bit 16 pad;
         (out, val) = str2hash_loop is_unsigned pad (take (num * 4) msg) 0 [] pad;
         out = (if length out < num then out @ [val] else out)
     in out @ replicate (num - length out) pad)"

function half_md4_loop :: "bool \<Rightarrow> bytes \<Rightarrow> u32 list \<Rightarrow> u32 list" where
  "half_md4_loop uns p buf =
     (if p = [] then buf
      else half_md4_loop uns (drop 32 p) (half_md4_transform buf (str2hashbuf p 8 uns)))"
  by auto
termination
  by (relation "measure (\<lambda>(_, p, _). length p)") auto

function tea_loop :: "bool \<Rightarrow> bytes \<Rightarrow> u32 list \<Rightarrow> u32 list" where
  "tea_loop uns p buf =
     (if p = [] then buf
      else tea_loop uns (drop 16 p) (tea_transform buf (str2hashbuf p 4 uns)))"
  by auto
termination
  by (relation "measure (\<lambda>(_, p, _). length p)") auto

declare half_md4_loop.simps [simp del] tea_loop.simps [simp del]

text \<open>The \<open>switch\<close> of \<open>sfs_dx_hash\<close>: the pair \<open>(hash, minor)\<close> before the final masking.\<close>

definition dx_switch :: "u32 list \<Rightarrow> u8 \<Rightarrow> bytes \<Rightarrow> (u32 \<times> u32) option" where
  "dx_switch buf version name =
    (if version = DX_HASH_LEGACY_UNSIGNED then Some (legacy_hash name True, 0)
     else if version = DX_HASH_LEGACY then Some (legacy_hash name False, 0)
     else if version = DX_HASH_HALF_MD4_UNSIGNED
       then (let b = half_md4_loop True name buf in Some (b ! 1, b ! 2))
     else if version = DX_HASH_HALF_MD4
       then (let b = half_md4_loop False name buf in Some (b ! 1, b ! 2))
     else if version = DX_HASH_TEA_UNSIGNED
       then (let b = tea_loop True name buf in Some (b ! 0, b ! 1))
     else if version = DX_HASH_TEA
       then (let b = tea_loop False name buf in Some (b ! 0, b ! 1))
     else None)"

definition dx_mask :: "u32 \<Rightarrow> u32" where
  "dx_mask hash = (let hash = hash AND NOT 1
     in if hash = push_bit 1 0x7FFFFFFF then push_bit 1 (0x7FFFFFFF - 1) else hash)"

text \<open>\<open>sfs_dx_hash\<close>: \<open>None\<close> is \<open>SFS_ENOTSUP\<close>, otherwise the pair \<open>(*hash_out, *minor_out)\<close>.\<close>

definition dx_seed :: "u32 list \<Rightarrow> u32 list" where
  "dx_seed seed =
    (if seed ! 0 OR seed ! 1 OR seed ! 2 OR seed ! 3 \<noteq> 0
     then [seed ! 0, seed ! 1, seed ! 2, seed ! 3]
     else [0x67452301, 0xEFCDAB89, 0x98BADCFE, 0x10325476])"

definition sfs_dx_hash :: "u32 list \<Rightarrow> u8 \<Rightarrow> bytes \<Rightarrow> (u32 \<times> u32) option" where
  "sfs_dx_hash seed version name =
    (case dx_switch (dx_seed seed) version name of None \<Rightarrow> None
     | Some (hash, minor) \<Rightarrow> Some (dx_mask hash, minor))"

subsection \<open>Shape of the results\<close>

lemma str2hash_loop_length:
  "length (fst (str2hash_loop uns pad cs i out val)) = length out + (i + length cs) div 4 - i div 4"
proof (induction cs arbitrary: i out val)
  case Nil
  then show ?case by simp
next
  case (Cons c cs)
  have "(i + 1) div 4 = (if i mod 4 = 3 then i div 4 + 1 else i div 4)"
    by presburger
  moreover have "i div 4 \<le> (i + 1 + length cs) div 4" "(i + 1) div 4 \<le> (i + 1 + length cs) div 4"
    by (auto intro: div_le_mono)
  ultimately show ?case
    using Cons.IH [of "i + 1"] by (auto simp: Let_def)
qed

lemma str2hashbuf_length: "length (str2hashbuf msg num uns) = num"
proof -
  let ?n = "length msg"
  define pad :: u32 where "pad = (let q = of_nat ?n OR push_bit 8 (of_nat ?n) in q OR push_bit 16 q)"
  obtain out val where ov: "str2hash_loop uns pad (take (num * 4) msg) 0 [] pad = (out, val)"
    by fastforce
  then have "length out = min ?n (num * 4) div 4"
    using str2hash_loop_length [of uns pad "take (num * 4) msg" 0 "[]" pad] by simp
  then have "length out \<le> num"
    by (metis div_le_mono min.cobounded2 nonzero_mult_div_cancel_right zero_neq_numeral)
  then show ?thesis
    using ov by (auto simp: str2hashbuf_def Let_def pad_def)
qed

lemma half_md4_transform_length: "length (half_md4_transform buf inp) = 4"
  by (simp add: half_md4_transform_def split: prod.split)

lemma half_md4_loop_length: "length buf = 4 \<Longrightarrow> length (half_md4_loop uns p buf) = 4"
proof (induction uns p buf rule: half_md4_loop.induct)
  case (1 uns p buf)
  then show ?case
    by (subst half_md4_loop.simps) (simp add: half_md4_transform_length)
qed

lemma tea_loop_length: "length (tea_loop uns p buf) = length buf"
proof (induction uns p buf rule: tea_loop.induct)
  case (1 uns p buf)
  then show ?case
    by (subst tea_loop.simps) (simp add: tea_transform_def split: prod.split)
qed

subsection \<open>What the index relies on\<close>

lemma dx_mask_even_not_eof: "even (dx_mask w) \<and> dx_mask w \<noteq> 0xFFFFFFFE"
proof -
  have "even (w AND NOT 1)"
    by (simp add: even_and_iff)
  then show ?thesis
    by (auto simp: dx_mask_def Let_def push_bit_eq_mult)
qed

lemma dx_hash_even_not_eof:
  assumes "sfs_dx_hash seed version name = Some (h, m)"
  shows "even h \<and> h \<noteq> 0xFFFFFFFE"
  using assms dx_mask_even_not_eof
  by (auto simp: sfs_dx_hash_def Let_def split: option.splits)

lemma version_cases:
  assumes "(version :: u8) \<le> 5"
  shows "version = 0 \<or> version = 1 \<or> version = 2 \<or> version = 3 \<or> version = 4 \<or> version = 5"
proof -
  define n where "n = unat version"
  have v: "version = of_nat n"
    by (simp add: n_def)
  have "n \<le> 5"
    using assms by (simp add: word_le_nat_alt n_def)
  then have "n = 0 \<or> n = 1 \<or> n = 2 \<or> n = 3 \<or> n = 4 \<or> n = 5"
    by linarith
  then show ?thesis
    unfolding v by (elim disjE) simp_all
qed

lemma dx_switch_None: "dx_switch buf version name = None \<longleftrightarrow> \<not> version \<le> 5"
  using version_cases [of version] by (auto simp: dx_switch_def Let_def)

lemma dx_hash_None: "sfs_dx_hash seed version name = None \<longleftrightarrow> \<not> version \<le> 5"
  unfolding sfs_dx_hash_def dx_switch_None [symmetric, where buf = "dx_seed seed" and name = name]
  by (auto split: option.split)

text \<open>On names of ASCII bytes the signed and the unsigned variants coincide.\<close>

definition ascii :: "bytes \<Rightarrow> bool" where
  "ascii xs = list_all (\<lambda>c. \<not> bit c 7) xs"

lemma char_val_ascii: "\<not> bit c 7 \<Longrightarrow> char_val False c = char_val True c"
  by (rule bit_word_eqI) (auto simp: char_val_def bit_simps min_def le_less dest: bit_imp_le_length)

lemma ascii_take: "ascii xs \<Longrightarrow> ascii (take n xs)"
  by (auto simp: ascii_def list_all_iff dest: in_set_takeD)

lemma ascii_drop: "ascii xs \<Longrightarrow> ascii (drop n xs)"
  by (auto simp: ascii_def list_all_iff dest: in_set_dropD)

lemma legacy_loop_ascii: "ascii xs \<Longrightarrow> legacy_loop False xs a b = legacy_loop True xs a b"
  by (induction xs arbitrary: a b) (simp_all add: ascii_def char_val_ascii)

lemma str2hash_loop_ascii:
  "ascii xs \<Longrightarrow> str2hash_loop False pad xs i out v = str2hash_loop True pad xs i out v"
  by (induction xs arbitrary: i out v) (simp_all add: ascii_def char_val_ascii Let_def)

lemma str2hashbuf_ascii: "ascii xs \<Longrightarrow> str2hashbuf xs num False = str2hashbuf xs num True"
  by (simp add: str2hashbuf_def str2hash_loop_ascii ascii_take)

lemma half_md4_loop_ascii: "ascii p \<Longrightarrow> half_md4_loop False p buf = half_md4_loop True p buf"
proof (induction "length p" arbitrary: p buf rule: less_induct)
  case less
  then show ?case
    by (subst (1 2) half_md4_loop.simps) (simp add: str2hashbuf_ascii ascii_drop)
qed

lemma tea_loop_ascii: "ascii p \<Longrightarrow> tea_loop False p buf = tea_loop True p buf"
proof (induction "length p" arbitrary: p buf rule: less_induct)
  case less
  then show ?case
    by (subst (1 2) tea_loop.simps) (simp add: str2hashbuf_ascii ascii_drop)
qed

lemma dx_switch_ascii:
  "ascii name \<Longrightarrow> version \<le> 2 \<Longrightarrow> dx_switch buf version name = dx_switch buf (version + 3) name"
proof -
  assume a: "ascii name" and v: "version \<le> 2"
  have "version = 0 \<or> version = 1 \<or> version = 2"
    using v version_cases [OF order_trans [OF v]] by auto
  then show ?thesis
    using a by (auto simp: dx_switch_def legacy_hash_def legacy_loop_ascii half_md4_loop_ascii tea_loop_ascii)
qed

end
