(* ===== verification/Sfs_Popcount.thy ===== *)
theory Sfs_Popcount
  imports Sfs_Fields
begin

unbundle bit_operations_syntax

section \<open>The population count of the bitmap routines (sfs\_alloc.c)\<close>

text \<open>
  \<open>bitmap_popcount64\<close> counts bits with the usual SWAR steps on a 64-bit word. The proof works
  on the value of the word as an integer: each of the three masking steps acts on every byte by
  itself (no carry leaves a byte), one byte is checked for its 256 values, and the final
  multiplication adds the eight byte counts in the top byte.
\<close>

definition bitmap_popcount64 :: "u64 \<Rightarrow> u32" where
  "bitmap_popcount64 w =
    (let w = w - (drop_bit 1 w AND 0x5555555555555555);
         w = (w AND 0x3333333333333333) + (drop_bit 2 w AND 0x3333333333333333);
         w = (w + drop_bit 4 w) AND 0x0F0F0F0F0F0F0F0F
     in ucast (drop_bit 56 (w * 0x0101010101010101)))"

text \<open>A byte repeated \<open>d\<close> times, and a function applied to each of the low \<open>d\<close> bytes.\<close>

fun rep_byte :: "int \<Rightarrow> nat \<Rightarrow> int" where
  "rep_byte m 0 = 0"
| "rep_byte m (Suc d) = m + 256 * rep_byte m d"

fun pack_bytes :: "(int \<Rightarrow> int) \<Rightarrow> nat \<Rightarrow> int \<Rightarrow> int" where
  "pack_bytes f 0 n = 0"
| "pack_bytes f (Suc d) n = f (n mod 256) + 256 * pack_bytes f d (n div 256)"

lemma and_bytes:
  fixes r s a b :: int
  assumes "0 \<le> r" "r < 256" "0 \<le> s" "s < 256"
  shows "(r + 256 * a) AND (s + 256 * b) = (r AND s) + 256 * (a AND b)"
proof -
  let ?x = "r + 256 * a" and ?y = "s + 256 * b"
  have "take_bit 8 ?x = r" "take_bit 8 ?y = s" "drop_bit 8 ?x = a" "drop_bit 8 ?y = b"
    using assms by (simp_all add: take_bit_eq_mod drop_bit_eq_div)
  then have "take_bit 8 (?x AND ?y) = r AND s" "drop_bit 8 (?x AND ?y) = a AND b"
    by (simp_all add: take_bit_and drop_bit_and)
  then show ?thesis
    using bits_ident [of 8 "?x AND ?y"] by (simp add: push_bit_eq_mult)
qed

lemma and_low:
  fixes x c m :: int
  assumes "0 \<le> x" "x < 2 ^ k" "mask k AND m = m"
  shows "(x + 2 ^ k * c) AND m = x AND m"
proof -
  have "(x + 2 ^ k * c) AND m = take_bit k (x + 2 ^ k * c) AND m"
    by (metis assms(3) and.assoc take_bit_eq_mask)
  also have "take_bit k (x + 2 ^ k * c) = x"
    using assms by (simp add: take_bit_eq_mod)
  finally show ?thesis .
qed

abbreviation (input) swar1 :: "int \<Rightarrow> int" where "swar1 b \<equiv> b - (b div 2 AND 0x55)"
abbreviation (input) swar2 :: "int \<Rightarrow> int" where "swar2 b \<equiv> (b AND 0x33) + (b div 4 AND 0x33)"
abbreviation (input) swar3 :: "int \<Rightarrow> int" where "swar3 b \<equiv> (b + b div 16) AND 0x0F"

text \<open>What the three steps do to one byte, checked for the 256 bytes.\<close>

lemma byte_steps:
  assumes "0 \<le> b" "b < 256"
  shows "let x = swar1 b; y = swar2 x; z = swar3 y in
    0 \<le> x \<and> x < 256 \<and> 0 \<le> y \<and> y \<le> 68 \<and> y mod 16 \<le> 4 \<and> z = (\<Sum>i\<leftarrow>[0..<8]. of_bool (bit b i))"
proof -
  have "list_all (\<lambda>b. let x = swar1 b; y = swar2 x; z = swar3 y in
    0 \<le> x \<and> x < 256 \<and> 0 \<le> y \<and> y \<le> 68 \<and> y mod 16 \<le> 4 \<and> z = (\<Sum>i\<leftarrow>[0..<8]. of_bool (bit b i))) [0..255]"
    by code_simp
  then show ?thesis
    unfolding list_all_iff set_upto by (rule bspec) (use assms in simp)
qed

lemma div_byte:
  fixes b K L :: int
  assumes "K * L = 256" "0 < K" "0 \<le> b" "b < 256"
  shows "0 \<le> b div K" "b div K < L"
proof -
  show "0 \<le> b div K"
    using assms by (simp add: pos_imp_zdiv_nonneg_iff)
  have "K * (b div K) \<le> b"
    using mult_div_mod_eq [of K b] pos_mod_sign [OF assms(2), of b] by linarith
  then have "K * (b div K) < K * L"
    using assms(1,4) by simp
  then show "b div K < L"
    using assms(2) by simp
qed

lemma shift_bytes:
  fixes b m K L :: int
  assumes "K * L = 256" "0 < K" "0 \<le> b" "b < 256"
  shows "(b + 256 * m) div K = (b div K + L * (m mod K)) + 256 * (m div K)"
    and "0 \<le> b div K + L * (m mod K)" "b div K + L * (m mod K) < 256"
proof -
  have "(b + 256 * m) div K = b div K + L * m"
    using div_mult_self2 [of K b "L * m"] assms by (simp add: mult.assoc [symmetric])
  moreover have "L * m = 256 * (m div K) + L * (m mod K)"
    using mult_div_mod_eq [of K m] assms(1) by (metis distrib_left mult.assoc mult.commute)
  ultimately show "(b + 256 * m) div K = (b div K + L * (m mod K)) + 256 * (m div K)"
    by simp
  note b = div_byte [OF assms]
  show "0 \<le> b div K + L * (m mod K)"
    using b assms(2) by simp
  have "L * (m mod K) \<le> L * (K - 1)"
    using b assms(2) pos_mod_bound [of K m] by simp
  then show "b div K + L * (m mod K) < 256"
    using b assms(1) by (simp add: algebra_simps)
qed

lemma step1:
  "0 \<le> n \<Longrightarrow> n < 256 ^ d \<Longrightarrow> n - (n div 2 AND rep_byte 0x55 d) = pack_bytes swar1 d n"
proof (induction d arbitrary: n)
  case (Suc d)
  define b where "b = n mod 256"
  define m where "m = n div 256"
  have n: "n = b + 256 * m" "0 \<le> b" "b < 256"
    by (simp_all add: b_def m_def)
  have KL: "(2 :: int) * 128 = 256" "(0 :: int) < 2" by simp_all
  note sh = shift_bytes [OF KL n(2,3), of m] div_byte [OF KL n(2,3)]
  have "n div 2 AND rep_byte 0x55 (Suc d) = ((b div 2 + 128 * (m mod 2)) AND 0x55) + 256 * (m div 2 AND rep_byte 0x55 d)"
    unfolding n(1) sh(1) rep_byte.simps using sh(2,3) by (intro and_bytes) simp_all
  also have "(b div 2 + 128 * (m mod 2)) AND 0x55 = b div 2 AND 0x55"
    using and_low [of "b div 2" 7 "0x55" "m mod 2"] sh(4,5) by (simp add: mask_eq_exp_minus_1)
  finally have "n - (n div 2 AND rep_byte 0x55 (Suc d)) = (b - (b div 2 AND 0x55)) + 256 * (m - (m div 2 AND rep_byte 0x55 d))"
    by (simp add: n(1))
  moreover have "m - (m div 2 AND rep_byte 0x55 d) = pack_bytes swar1 d m"
    using Suc.prems by (intro Suc.IH) (auto simp: m_def)
  ultimately show ?case
    by (simp add: b_def m_def)
qed simp

lemma step2:
  "0 \<le> n \<Longrightarrow> n < 256 ^ d \<Longrightarrow> (n AND rep_byte 0x33 d) + (n div 4 AND rep_byte 0x33 d) = pack_bytes swar2 d n"
proof (induction d arbitrary: n)
  case (Suc d)
  define b where "b = n mod 256"
  define m where "m = n div 256"
  have n: "n = b + 256 * m" "0 \<le> b" "b < 256"
    by (simp_all add: b_def m_def)
  have KL: "(4 :: int) * 64 = 256" "(0 :: int) < 4" by simp_all
  note sh = shift_bytes [OF KL n(2,3), of m] div_byte [OF KL n(2,3)]
  have "n div 4 AND rep_byte 0x33 (Suc d) = ((b div 4 + 64 * (m mod 4)) AND 0x33) + 256 * (m div 4 AND rep_byte 0x33 d)"
    unfolding n(1) sh(1) rep_byte.simps using sh(2,3) by (intro and_bytes) simp_all
  also have "(b div 4 + 64 * (m mod 4)) AND 0x33 = b div 4 AND 0x33"
    using and_low [of "b div 4" 6 "0x33" "m mod 4"] sh(4,5) by (simp add: mask_eq_exp_minus_1)
  moreover have "n AND rep_byte 0x33 (Suc d) = (b AND 0x33) + 256 * (m AND rep_byte 0x33 d)"
    unfolding n(1) rep_byte.simps using n(2,3) by (intro and_bytes) simp_all
  ultimately have "(n AND rep_byte 0x33 (Suc d)) + (n div 4 AND rep_byte 0x33 (Suc d)) =
      ((b AND 0x33) + (b div 4 AND 0x33)) + 256 * ((m AND rep_byte 0x33 d) + (m div 4 AND rep_byte 0x33 d))"
    by simp
  moreover have "(m AND rep_byte 0x33 d) + (m div 4 AND rep_byte 0x33 d) = pack_bytes swar2 d m"
    using Suc.prems by (intro Suc.IH) (auto simp: m_def)
  ultimately show ?case
    by (simp add: b_def m_def)
qed simp

fun nibbles4 :: "nat \<Rightarrow> int \<Rightarrow> bool" where
  "nibbles4 0 n = True"
| "nibbles4 (Suc d) n = (n mod 256 \<le> 68 \<and> n mod 16 \<le> 4 \<and> nibbles4 d (n div 256))"

lemma step3:
  "0 \<le> n \<Longrightarrow> n < 256 ^ d \<Longrightarrow> nibbles4 d n \<Longrightarrow> (n + n div 16) AND rep_byte 0x0F d = pack_bytes swar3 d n"
proof (induction d arbitrary: n)
  case (Suc d)
  define b where "b = n mod 256"
  define m where "m = n div 256"
  have n: "n = b + 256 * m" "0 \<le> b" "b < 256"
    by (simp_all add: b_def m_def)
  have KL: "(16 :: int) * 16 = 256" "(0 :: int) < 16" by simp_all
  note sh = shift_bytes [OF KL n(2,3), of m] div_byte [OF KL n(2,3)]
  have "m mod 16 \<le> 4"
    using Suc.prems by (cases d) (auto simp: m_def)
  moreover have "b \<le> 68"
    using Suc.prems(3) by (simp add: b_def)
  moreover from this have "b div 16 \<le> 4"
    using zdiv_mono1 [of b 68 16] by simp
  ultimately have lt: "b + b div 16 + 16 * (m mod 16) < 256" "0 \<le> b + b div 16 + 16 * (m mod 16)"
    using n(2) sh(4) by simp_all
  have "n + n div 16 = (b + b div 16 + 16 * (m mod 16)) + 256 * (m + m div 16)"
    unfolding n(1) sh(1) by simp
  then have "(n + n div 16) AND rep_byte 0x0F (Suc d) =
      ((b + b div 16 + 16 * (m mod 16)) AND 0x0F) + 256 * ((m + m div 16) AND rep_byte 0x0F d)"
    using lt by (simp only: rep_byte.simps) (intro and_bytes, simp_all)
  also have "(b + b div 16 + 16 * (m mod 16)) AND 0x0F = (b + b div 16) AND 0x0F"
  proof -
    have "x AND 0x0F = x mod 16" for x :: int
      using take_bit_eq_mask [of 4 x] by (simp add: take_bit_eq_mod mask_eq_exp_minus_1)
    then show ?thesis
      by simp
  qed
  also have "(m + m div 16) AND rep_byte 0x0F d = pack_bytes swar3 d m"
    using Suc.prems by (intro Suc.IH) (auto simp: m_def)
  finally show ?case
    by (simp add: b_def m_def)
qed simp

lemma pack_bound:
  assumes "\<And>b. 0 \<le> b \<Longrightarrow> b < 256 \<Longrightarrow> 0 \<le> f b \<and> f b < 256"
  shows "0 \<le> pack_bytes f d n \<and> pack_bytes f d n < 256 ^ d"
proof (induction d arbitrary: n)
  case (Suc d)
  have "0 \<le> f (n mod 256) \<and> f (n mod 256) < 256"
    using assms by simp
  then show ?case
    using Suc [of "n div 256"] by simp
qed simp

lemma pack_pack:
  assumes "\<And>b. 0 \<le> b \<Longrightarrow> b < 256 \<Longrightarrow> 0 \<le> f b \<and> f b < 256"
  shows "pack_bytes g d (pack_bytes f d n) = pack_bytes (\<lambda>b. g (f b)) d n"
proof (induction d arbitrary: n)
  case (Suc d)
  then show ?case
    using assms [of "n mod 256"] by simp
qed simp

lemma nibbles4_pack:
  assumes "\<And>b. 0 \<le> b \<Longrightarrow> b < 256 \<Longrightarrow> 0 \<le> f b \<and> f b \<le> 68 \<and> f b mod 16 \<le> 4"
  shows "nibbles4 d (pack_bytes f d n)"
proof (induction d arbitrary: n)
  case (Suc d)
  define x where "x = f (n mod 256)"
  have x: "0 \<le> x" "x \<le> 68" "x mod 16 \<le> 4"
    using assms [of "n mod 256"] by (simp_all add: x_def)
  have "(x + 256 * p) mod 16 = x mod 16" for p :: int
    using mod_mult_self2 [of x 16 "16 * p"] by simp
  then show ?case
    using x Suc by (simp flip: x_def)
qed simp

lemma byte_step1: "0 \<le> b \<Longrightarrow> b < 256 \<Longrightarrow> 0 \<le> swar1 b \<and> swar1 b < 256"
  using byte_steps [of b] by (simp add: Let_def)

lemma byte_step2:
  "0 \<le> b \<Longrightarrow> b < 256 \<Longrightarrow> 0 \<le> swar2 (swar1 b) \<and> swar2 (swar1 b) \<le> 68 \<and> swar2 (swar1 b) mod 16 \<le> 4"
  using byte_steps [of b] by (simp add: Let_def)

definition count_byte :: "int \<Rightarrow> int" where
  "count_byte b = (\<Sum>i\<leftarrow>[0..<8]. of_bool (bit b i))"

lemma pack_cong:
  "(\<And>b. 0 \<le> b \<Longrightarrow> b < 256 \<Longrightarrow> f b = g b) \<Longrightarrow> pack_bytes f d n = pack_bytes g d n"
  by (induction d arbitrary: n) simp_all

lemma swar_steps:
  assumes "0 \<le> n" "n < 256 ^ d"
  shows "(let n = n - (n div 2 AND rep_byte 0x55 d);
              n = (n AND rep_byte 0x33 d) + (n div 4 AND rep_byte 0x33 d)
          in (n + n div 16) AND rep_byte 0x0F d) = pack_bytes count_byte d n"
proof -
  define x where "x = pack_bytes (\<lambda>b. swar1 b) d n"
  define y where "y = pack_bytes (\<lambda>b. swar2 (swar1 b)) d n"
  have b2: "0 \<le> swar2 (swar1 b) \<and> swar2 (swar1 b) < 256" if "0 \<le> b" "b < 256" for b
    using byte_step2 [OF that] by linarith
  have x: "0 \<le> x" "x < 256 ^ d"
    using pack_bound [of "\<lambda>b. swar1 b" d n, OF byte_step1] by (simp_all add: x_def)
  have y: "0 \<le> y" "y < 256 ^ d"
    using pack_bound [of "\<lambda>b. swar2 (swar1 b)" d n, OF b2] by (simp_all add: y_def)
  have "n - (n div 2 AND rep_byte 0x55 d) = x"
    unfolding x_def by (rule step1 [OF assms])
  moreover have "(x AND rep_byte 0x33 d) + (x div 4 AND rep_byte 0x33 d) = pack_bytes (\<lambda>b. swar2 b) d x"
    by (rule step2 [OF x])
  moreover have "\<dots> = y"
    unfolding x_def y_def by (rule pack_pack) (rule byte_step1)
  moreover have "nibbles4 d y"
    unfolding y_def by (rule nibbles4_pack) (rule byte_step2)
  then have "(y + y div 16) AND rep_byte 0x0F d = pack_bytes (\<lambda>b. swar3 b) d y"
    by (rule step3 [OF y])
  moreover have "\<dots> = pack_bytes (\<lambda>b. swar3 (swar2 (swar1 b))) d n"
    unfolding y_def by (rule pack_pack) (rule b2)
  moreover have "\<dots> = pack_bytes count_byte d n"
    by (rule pack_cong) (use byte_steps in \<open>simp add: Let_def count_byte_def\<close>)
  ultimately show ?thesis
    by (simp only: Let_def)
qed

text \<open>The multiplication adds the eight bytes in the top byte.\<close>

lemma count_byte_bound: "0 \<le> count_byte b \<and> count_byte b \<le> 8"
  by (simp add: count_byte_def of_bool_def upt_rec)

lemma top_byte_sum:
  fixes a0 a1 a2 a3 a4 a5 a6 a7 :: int
  assumes "0 \<le> a0" "a0 \<le> 8" "0 \<le> a1" "a1 \<le> 8" "0 \<le> a2" "a2 \<le> 8" "0 \<le> a3" "a3 \<le> 8"
    "0 \<le> a4" "a4 \<le> 8" "0 \<le> a5" "a5 \<le> 8" "0 \<le> a6" "a6 \<le> 8" "0 \<le> a7" "a7 \<le> 8"
    and x: "x = a0 + 256 * (a1 + 256 * (a2 + 256 * (a3 + 256 * (a4 + 256 * (a5 + 256 * (a6 + 256 * a7))))))"
  shows "x * 0x0101010101010101 mod 2 ^ 64 div 2 ^ 56 = a0 + a1 + a2 + a3 + a4 + a5 + a6 + a7"
proof -
  define low where "low = a0 + 2^8 * (a0 + a1) + 2^16 * (a0 + a1 + a2) + 2^24 * (a0 + a1 + a2 + a3)
    + 2^32 * (a0 + a1 + a2 + a3 + a4) + 2^40 * (a0 + a1 + a2 + a3 + a4 + a5)
    + 2^48 * (a0 + a1 + a2 + a3 + a4 + a5 + a6)"
  define top where "top = a0 + a1 + a2 + a3 + a4 + a5 + a6 + a7"
  define high where "high = (a1 + a2 + a3 + a4 + a5 + a6 + a7) + 2^8 * (a2 + a3 + a4 + a5 + a6 + a7)
    + 2^16 * (a3 + a4 + a5 + a6 + a7) + 2^24 * (a4 + a5 + a6 + a7)
    + 2^32 * (a5 + a6 + a7) + 2^40 * (a6 + a7) + 2^48 * a7"
  have eq: "x * 0x0101010101010101 = (low + 2 ^ 56 * top) + high * 2 ^ 64"
    unfolding x low_def top_def high_def by simp
  have "0 \<le> low" "low < 2 ^ 56" "0 \<le> top" "top < 256"
    unfolding low_def top_def using assms(1-16) by simp_all
  then have "(low + 2 ^ 56 * top) mod 2 ^ 64 = low + 2 ^ 56 * top" "(low + 2 ^ 56 * top) div 2 ^ 56 = top"
    by simp_all
  then show ?thesis
    unfolding eq top_def [symmetric] by simp
qed

lemma rep_byte_masks: "rep_byte 0x55 8 = 0x5555555555555555" "rep_byte 0x33 8 = 0x3333333333333333"
  "rep_byte 0x0F 8 = 0x0F0F0F0F0F0F0F0F"
  by (simp_all add: eval_nat_numeral)

lemma swar_bounds:
  assumes "0 \<le> n" "n < 256 ^ d"
  defines "x \<equiv> n - (n div 2 AND rep_byte 0x55 d)"
  defines "y \<equiv> (x AND rep_byte 0x33 d) + (x div 4 AND rep_byte 0x33 d)"
  shows "0 \<le> x \<and> x < 256 ^ d" "0 \<le> y \<and> y < 256 ^ d"
proof -
  have x: "x = pack_bytes (\<lambda>b. swar1 b) d n"
    unfolding x_def by (rule step1 [OF assms(1,2)])
  then show bx: "0 \<le> x \<and> x < 256 ^ d"
    using pack_bound [of "\<lambda>b. swar1 b" d n, OF byte_step1] by simp
  then have "y = pack_bytes (\<lambda>b. swar2 b) d x"
    unfolding y_def by (intro step2) auto
  also have "\<dots> = pack_bytes (\<lambda>b. swar2 (swar1 b)) d n"
    unfolding x by (rule pack_pack) (rule byte_step1)
  finally have y: "y = pack_bytes (\<lambda>b. swar2 (swar1 b)) d n" .
  have "0 \<le> swar2 (swar1 b) \<and> swar2 (swar1 b) < 256" if "0 \<le> b" "b < 256" for b
    using byte_step2 [OF that] by linarith
  then show "0 \<le> y \<and> y < 256 ^ d"
    using pack_bound [of "\<lambda>b. swar2 (swar1 b)" d n] unfolding y by blast
qed

lemma uint_drop: "uint (drop_bit k (w :: u64)) = uint w div 2 ^ k"
  unfolding unsigned_drop_bit_eq using uint_bounded [of w]
  by (simp add: drop_bit_eq_div take_bit_int_eq_self)

lemma popcount_uint:
  "uint (bitmap_popcount64 w) = pack_bytes count_byte 8 (uint w) * 0x0101010101010101 mod 2 ^ 64 div 2 ^ 56"
proof -
  define n where "n = uint w"
  have n: "0 \<le> n" "n < 256 ^ 8"
    using uint_bounded [of w] by (simp_all add: n_def)
  define w1 where "w1 = w - (drop_bit 1 w AND 0x5555555555555555)"
  define w2 where "w2 = (w1 AND 0x3333333333333333) + (drop_bit 2 w1 AND 0x3333333333333333)"
  define w3 where "w3 = (w2 + drop_bit 4 w2) AND 0x0F0F0F0F0F0F0F0F"
  define x where "x = n - (n div 2 AND rep_byte 0x55 8)"
  define y where "y = (x AND rep_byte 0x33 8) + (x div 4 AND rep_byte 0x33 8)"
  note b = swar_bounds [OF n, folded x_def, folded y_def]
  have w1: "uint w1 = x"
    using b(1) by (simp add: w1_def x_def rep_byte_masks uint_word_ariths unsigned_and_eq uint_drop n_def)
  have w2: "uint w2 = y"
    using b(2) by (simp add: w2_def y_def rep_byte_masks uint_word_ariths unsigned_and_eq uint_drop w1)
  have "take_bit 64 z AND rep_byte 0x0F 8 = z AND rep_byte 0x0F 8" for z :: int
  proof -
    have "take_bit 64 (rep_byte 0x0F 8) = rep_byte 0x0F 8"
      by (simp add: rep_byte_masks)
    then show ?thesis
      by (metis take_bit_and take_bit_eq_mask and.assoc and.commute)
  qed
  then have "uint w3 = (y + y div 16) AND rep_byte 0x0F 8"
    by (simp add: w3_def rep_byte_masks uint_word_ariths unsigned_and_eq uint_drop w2 take_bit_eq_mod)
  then have w3: "uint w3 = pack_bytes count_byte 8 n"
    using swar_steps [OF n] by (simp only: Let_def x_def y_def)
  have "uint (drop_bit 56 (w3 * 0x0101010101010101)) = uint w3 * 0x0101010101010101 mod 2 ^ 64 div 2 ^ 56"
    by (simp add: uint_drop uint_word_ariths)
  moreover have "uint (ucast v :: u32) = uint v" if "uint v < 2 ^ 32" for v :: u64
    using that by (simp add: unsigned_ucast_eq take_bit_int_eq_self)
  moreover have "uint w3 * 0x0101010101010101 mod 2 ^ 64 div 2 ^ 56 < 2 ^ 32"
    using pos_mod_bound [of "2 ^ 64" "uint w3 * 0x0101010101010101"]
    by (auto simp: div_less_iff_less_mult intro: order_less_trans)
  moreover have "bitmap_popcount64 w = ucast (drop_bit 56 (w3 * 0x0101010101010101))"
    unfolding bitmap_popcount64_def Let_def w1_def w2_def w3_def ..
  ultimately show ?thesis
    by (simp only: w3 n_def)
qed

lemma bit_byte: "bit (n div 2 ^ k mod 256) i = (i < 8 \<and> bit (n :: int) (k + i))"
proof -
  have "n div 2 ^ k mod 256 = take_bit 8 (drop_bit k n)"
    by (simp add: take_bit_eq_mod drop_bit_eq_div)
  then show ?thesis
    by (simp only: bit_simps o_def)
qed

lemma count_byte_at:
  "count_byte (n div 2 ^ k mod 256) = (\<Sum>i\<leftarrow>[k..<k + 8]. of_bool (bit n i))"
proof -
  have "[k..<k + 8] = map (\<lambda>i. k + i) [0..<8]"
    by (simp add: map_add_upt add.commute)
  then show ?thesis
    unfolding count_byte_def by (simp only: map_map o_def) (simp add: bit_byte upt_rec)
qed

lemma count_filter: "(\<Sum>i\<leftarrow>xs. of_bool (P i)) = int (length (filter P xs))"
  by (induction xs) simp_all

lemma popcount_correct: "unat (bitmap_popcount64 w) = length (filter (bit w) [0..<64])"
proof -
  define n where "n = uint w"
  define c where "c k = count_byte (n div 2 ^ k mod 256)" for k
  have eight: "8 = Suc (Suc (Suc (Suc (Suc (Suc (Suc (Suc 0)))))))"
    by simp
  have "pack_bytes count_byte 8 n = c 0 + 256 * (c 8 + 256 * (c 16 + 256 * (c 24 + 256 * (c 32 + 256 *
      (c 40 + 256 * (c 48 + 256 * c 56))))))"
    unfolding eight by (simp add: c_def zdiv_zmult2_eq [symmetric])
  then have "uint (bitmap_popcount64 w) = c 0 + c 8 + c 16 + c 24 + c 32 + c 40 + c 48 + c 56"
    unfolding popcount_uint n_def [symmetric]
    by (intro top_byte_sum) (simp_all add: c_def count_byte_bound)
  also have "\<dots> = (\<Sum>i\<leftarrow>[0..<8] @ [8..<16] @ [16..<24] @ [24..<32] @ [32..<40] @ [40..<48] @ [48..<56] @ [56..<64].
      of_bool (bit n i))"
    unfolding c_def count_byte_at by simp
  also have "[0..<8] @ [8..<16] @ [16..<24] @ [24..<32] @ [32..<40] @ [40..<48] @ [48..<56] @ [56..<64] = [0..<64::nat]"
    by (simp add: upt_rec)
  also have "(\<Sum>i\<leftarrow>[0..<64]. of_bool (bit n i)) = int (length (filter (bit n) [0..<64]))"
    by (rule count_filter)
  finally have "uint (bitmap_popcount64 w) = int (length (filter (bit n) [0..<64]))" .
  moreover have "bit n = bit w"
    by (auto simp: n_def bit_simps dest: bit_imp_le_length)
  ultimately show ?thesis
    by (metis int_eq_iff unat_eq_nat_uint nat_int)
qed

end
