(* ===== verification/Sfs_Bitmap.thy ===== *)
theory Sfs_Bitmap
  imports Sfs_Popcount
begin

unbundle bit_operations_syntax

section \<open>Bitmap routines (sfs\_internal.h, sfs\_alloc.c)\<close>

text \<open>
  The word-at-a-time scans and the run updates of the block and inode bitmaps. Bit indices and
  counts are \<open>nat\<close> (they stay below 8 times the block size, far from the \<open>uint32_t\<close> limit).
  The lemmas: \<open>find_zero\<close> and \<open>find_one\<close> give the first clear or set bit of a range, \<open>set_bits\<close>
  and \<open>clear_bits\<close> change exactly the bits of their run, \<open>clear_bits\<close> returns the number of bits
  of the run that were clear already (the double-free count), and the SWAR population count
  counts the set bits of its word.
\<close>

subsection \<open>Single bits\<close>

definition sfs_test_bit :: "bytes \<Rightarrow> nat \<Rightarrow> bool" where
  "sfs_test_bit bm i = (drop_bit (i mod 8) (byte_at bm (i div 8)) AND 1 \<noteq> 0)"

definition sfs_set_bit :: "bytes \<Rightarrow> nat \<Rightarrow> bytes" where
  "sfs_set_bit bm i = bm[i div 8 := byte_at bm (i div 8) OR push_bit (i mod 8) 1]"

definition sfs_clear_bit :: "bytes \<Rightarrow> nat \<Rightarrow> bytes" where
  "sfs_clear_bit bm i = bm[i div 8 := byte_at bm (i div 8) AND NOT (push_bit (i mod 8) 1)]"

subsection \<open>Scans\<close>

text \<open>
  The two scans differ in the bit value they look for (\<open>v\<close>) and in the word they skip. The first
  loop of each runs to a multiple of 64 (\<open>Inl\<close>: the early \<open>return i\<close>), the second skips whole
  words, the third goes bit by bit.
\<close>

function find_head :: "bool \<Rightarrow> bytes \<Rightarrow> nat \<Rightarrow> nat \<Rightarrow> nat + nat" where
  "find_head v bm i limit =
     (if i < limit \<and> i mod 64 \<noteq> 0
      then if sfs_test_bit bm i = v then Inl i else find_head v bm (i + 1) limit
      else Inr i)"
  by auto
termination
  by (relation "measure (\<lambda>(_, _, i, limit). limit - i)") auto

function find_words :: "u64 \<Rightarrow> bytes \<Rightarrow> nat \<Rightarrow> nat \<Rightarrow> nat" where
  "find_words skip bm i limit =
     (if i + 64 \<le> limit \<and> rd64 bm (i div 8) = skip then find_words skip bm (i + 64) limit else i)"
  by auto
termination
  by (relation "measure (\<lambda>(_, _, i, limit). limit - i)") auto

function find_tail :: "bool \<Rightarrow> bytes \<Rightarrow> nat \<Rightarrow> nat \<Rightarrow> nat" where
  "find_tail v bm i limit =
     (if i < limit then if sfs_test_bit bm i = v then i else find_tail v bm (i + 1) limit
      else limit)"
  by auto
termination
  by (relation "measure (\<lambda>(_, _, i, limit). limit - i)") auto

declare find_head.simps [simp del] find_words.simps [simp del] find_tail.simps [simp del]

definition find_zero :: "bytes \<Rightarrow> nat \<Rightarrow> nat \<Rightarrow> nat" where
  "find_zero bm from limit = (case find_head False bm from limit of
     Inl i \<Rightarrow> i
   | Inr i \<Rightarrow> find_tail False bm (find_words (NOT 0) bm i limit) limit)"

definition find_one :: "bytes \<Rightarrow> nat \<Rightarrow> nat \<Rightarrow> nat" where
  "find_one bm from limit = (case find_head True bm from limit of
     Inl i \<Rightarrow> i
   | Inr i \<Rightarrow> find_tail True bm (find_words 0 bm i limit) limit)"

subsection \<open>Run updates\<close>

fun set_head :: "bytes \<Rightarrow> nat \<Rightarrow> nat \<Rightarrow> bytes \<times> nat \<times> nat" where
  "set_head bm from 0 = (bm, from, 0)"
| "set_head bm from (Suc n) =
     (if from mod 8 \<noteq> 0 then set_head (sfs_set_bit bm from) (from + 1) n else (bm, from, Suc n))"

fun set_tail :: "bytes \<Rightarrow> nat \<Rightarrow> nat \<Rightarrow> bytes" where
  "set_tail bm from 0 = bm"
| "set_tail bm from (Suc n) = set_tail (sfs_set_bit bm from) (from + 1) n"

definition set_bits :: "bytes \<Rightarrow> nat \<Rightarrow> nat \<Rightarrow> bytes" where
  "set_bits bm from n = (case set_head bm from n of (bm, from, n) \<Rightarrow>
     if 8 \<le> n then set_tail (fill bm (from div 8) 0xFF (n div 8)) (from + (n - n mod 8)) (n mod 8)
     else set_tail bm from n)"

fun clear_tail :: "bytes \<Rightarrow> nat \<Rightarrow> nat \<Rightarrow> nat \<Rightarrow> bytes \<times> nat" where
  "clear_tail bm from 0 bad = (bm, bad)"
| "clear_tail bm from (Suc n) bad =
     clear_tail (sfs_clear_bit bm from) (from + 1) n
       (if sfs_test_bit bm from then bad else bad + 1)"

fun clear_head :: "bytes \<Rightarrow> nat \<Rightarrow> nat \<Rightarrow> nat \<Rightarrow> bytes \<times> nat \<times> nat \<times> nat" where
  "clear_head bm from 0 bad = (bm, from, 0, bad)"
| "clear_head bm from (Suc n) bad =
     (if from mod 8 \<noteq> 0
      then clear_head (sfs_clear_bit bm from) (from + 1) n
             (if sfs_test_bit bm from then bad else bad + 1)
      else (bm, from, Suc n, bad))"

function clear_words :: "bytes \<Rightarrow> nat \<Rightarrow> nat \<Rightarrow> nat \<Rightarrow> bytes \<times> nat \<times> nat \<times> nat" where
  "clear_words bm from n bad =
     (if 64 \<le> n
      then clear_words (fill bm (from div 8) 0 8) (from + 64) (n - 64)
             (bad + (64 - unat (bitmap_popcount64 (rd64 bm (from div 8)))))
      else (bm, from, n, bad))"
  by auto
termination
  by (relation "measure (\<lambda>(_, _, n, _). n)") auto

function clear_bytes :: "bytes \<Rightarrow> nat \<Rightarrow> nat \<Rightarrow> nat \<Rightarrow> bytes \<times> nat \<times> nat \<times> nat" where
  "clear_bytes bm from n bad =
     (if 8 \<le> n
      then clear_bytes (bm[from div 8 := 0]) (from + 8) (n - 8)
             (bad + (8 - unat (bitmap_popcount64 (ucast (byte_at bm (from div 8))))))
      else (bm, from, n, bad))"
  by auto
termination
  by (relation "measure (\<lambda>(_, _, n, _). n)") auto

declare clear_words.simps [simp del] clear_bytes.simps [simp del]

definition clear_bits :: "bytes \<Rightarrow> nat \<Rightarrow> nat \<Rightarrow> bytes \<times> nat" where
  "clear_bits bm from n =
    (if n < 16 then clear_tail bm from n 0
     else case clear_head bm from n 0 of (bm, from, n, bad) \<Rightarrow>
          case clear_words bm from n bad of (bm, from, n, bad) \<Rightarrow>
          case clear_bytes bm from n bad of (bm, from, n, bad) \<Rightarrow>
            clear_tail bm from n bad)"

subsection \<open>Facts about bits\<close>

lemma test_bit_iff: "sfs_test_bit bm i = bit (byte_at bm (i div 8)) (i mod 8)"
  by (simp add: sfs_test_bit_def bit_iff_odd_drop_bit and_1_odd)

lemma length_set_bit [simp]: "length (sfs_set_bit bm i) = length bm"
  by (simp add: sfs_set_bit_def)

lemma length_clear_bit [simp]: "length (sfs_clear_bit bm i) = length bm"
  by (simp add: sfs_clear_bit_def)

lemma test_set_bit:
  "i < 8 * length bm \<Longrightarrow> sfs_test_bit (sfs_set_bit bm i) j = (sfs_test_bit bm j \<or> j = i)"
  by (auto simp: test_bit_iff sfs_set_bit_def byte_at_update bit_simps)
    (metis div_mult_mod_eq)+

lemma test_clear_bit:
  "i < 8 * length bm \<Longrightarrow> sfs_test_bit (sfs_clear_bit bm i) j = (sfs_test_bit bm j \<and> j \<noteq> i)"
  by (auto simp: test_bit_iff sfs_clear_bit_def byte_at_update bit_simps)
    (metis div_mult_mod_eq)+

lemma bit_rd32: "bit (rd32 p off) k = (k < 32 \<and> bit (byte_at p (off + k div 8)) (k mod 8))"
proof -
  define q where "q = k div 8"
  define m where "m = k mod 8"
  have k: "k = 8 * q + m" and m: "m < 8"
    by (simp_all add: q_def m_def)
  have bytes: "bit (byte_at p n) j \<Longrightarrow> j < 8" for n j
    by (drule bit_imp_le_length) simp
  consider "q = 0" | "q = 1" | "q = 2" | "q = 3" | "4 \<le> q"
    by linarith
  then show ?thesis
    unfolding q_def [symmetric] m_def [symmetric]
    by cases (use m in \<open>auto simp: k rd32_def bit_simps dest: bytes\<close>)
qed

lemma bit_rd64: "bit (rd64 p off) k = (k < 64 \<and> bit (byte_at p (off + k div 8)) (k mod 8))"
proof (cases "k < 32")
  case True
  then show ?thesis by (auto simp: rd64_def bit_simps bit_rd32)
next
  case False
  then have k: "k = (k - 32) + 8 * 4"
    by simp
  define m where "m = k - 32"
  note k = k [folded m_def]
  have "k div 8 = 4 + m div 8" "k mod 8 = m mod 8"
    unfolding k by (simp_all only: div_mult_self2 mod_mult_self2 zero_neq_numeral not_False_eq_True)
  then show ?thesis
    by (auto simp: rd64_def bit_simps bit_rd32 add.assoc k)
qed

text \<open>A 64-bit load at a multiple of 8 holds the next 64 bits of the map.\<close>

lemma bit_rd64_map:
  "i mod 8 = 0 \<Longrightarrow> k < 64 \<Longrightarrow> bit (rd64 bm (i div 8)) k = sfs_test_bit bm (i + k)"
  by (auto simp: bit_rd64 test_bit_iff elim!: dvdE simp flip: dvd_eq_mod_eq_0)

subsection \<open>The scans find the first bit of the value they look for\<close>

text \<open>\<open>no_bit v bm a b\<close>: no bit of \<open>[a, b)\<close> has the value \<open>v\<close>.\<close>

definition no_bit :: "bool \<Rightarrow> bytes \<Rightarrow> nat \<Rightarrow> nat \<Rightarrow> bool" where
  "no_bit v bm a b \<longleftrightarrow> (\<forall>i. a \<le> i \<and> i < b \<longrightarrow> sfs_test_bit bm i \<noteq> v)"

definition first_bit :: "bool \<Rightarrow> bytes \<Rightarrow> nat \<Rightarrow> nat \<Rightarrow> nat \<Rightarrow> bool" where
  "first_bit v bm from limit r \<longleftrightarrow> from \<le> r \<and> r \<le> limit \<and> no_bit v bm from r
     \<and> (r < limit \<longrightarrow> sfs_test_bit bm r = v)"

lemma no_bit_refl [simp]: "no_bit v bm a a"
  by (auto simp: no_bit_def)

lemma no_bit_trans: "no_bit v bm a b \<Longrightarrow> no_bit v bm b c \<Longrightarrow> no_bit v bm a c"
  unfolding no_bit_def by (meson not_le)

lemma no_bit_step: "sfs_test_bit bm a \<noteq> v \<Longrightarrow> no_bit v bm (a + 1) c \<Longrightarrow> no_bit v bm a c"
  unfolding no_bit_def by (metis Suc_eq_plus1 Suc_leI le_neq_implies_less)

lemma no_bit_one: "sfs_test_bit bm a \<noteq> v \<Longrightarrow> no_bit v bm a (a + 1)"
  by (rule no_bit_step) auto

lemma first_bit_prefix:
  "a \<le> b \<Longrightarrow> no_bit v bm a b \<Longrightarrow> first_bit v bm b limit r \<Longrightarrow> first_bit v bm a limit r"
  unfolding first_bit_def by (auto intro: no_bit_trans)

lemma find_tail_first: "i \<le> limit \<Longrightarrow> first_bit v bm i limit (find_tail v bm i limit)"
proof (induction v bm i limit rule: find_tail.induct)
  case (1 v bm i limit)
  show ?case
  proof (cases "i < limit \<and> sfs_test_bit bm i \<noteq> v")
    case True
    then have "no_bit v bm i (i + 1)"
      by (intro no_bit_one) simp
    moreover have "first_bit v bm (i + 1) limit (find_tail v bm (i + 1) limit)"
      using True 1(1) by simp
    ultimately have "first_bit v bm i limit (find_tail v bm (i + 1) limit)"
      by (rule first_bit_prefix [rotated]) simp
    with True show ?thesis
      by (subst find_tail.simps) simp
  next
    case False
    then show ?thesis
      using 1(2) by (subst find_tail.simps) (auto simp: first_bit_def)
  qed
qed

lemma no_bit_word:
  assumes "i mod 8 = 0" "\<And>k. k < 64 \<Longrightarrow> bit (rd64 bm (i div 8)) k = (\<not> v)"
  shows "no_bit v bm i (i + 64)"
  unfolding no_bit_def
proof (intro allI impI)
  fix j assume "i \<le> j \<and> j < i + 64"
  then have "j - i < 64" "i + (j - i) = j"
    by auto
  then show "sfs_test_bit bm j \<noteq> v"
    using bit_rd64_map [OF assms(1), of "j - i" bm] assms(2) by simp
qed

lemma find_words_skip:
  assumes "i mod 8 = 0" "i \<le> limit" "\<And>k. k < 64 \<Longrightarrow> bit skip k = (\<not> v)"
  shows "i \<le> find_words skip bm i limit \<and> find_words skip bm i limit \<le> limit
    \<and> no_bit v bm i (find_words skip bm i limit)"
  using assms
proof (induction skip bm i limit rule: find_words.induct)
  case (1 skip bm i limit)
  show ?case
  proof (cases "i + 64 \<le> limit \<and> rd64 bm (i div 8) = skip")
    case True
    have here: "no_bit v bm i (i + 64)"
      using True 1(2,4) by (intro no_bit_word) auto
    have m: "(i + 64) mod 8 = 0"
      using 1(2) by (simp flip: dvd_eq_mod_eq_0)
    have eq: "find_words skip bm i limit = find_words skip bm (i + 64) limit"
      using True by (subst find_words.simps) simp
    show ?thesis
      unfolding eq using 1(1) [OF True m conjunct1 [OF True] 1(4)] here
      by (auto intro: no_bit_trans)
  next
    case False
    then have "find_words skip bm i limit = i"
      by (subst find_words.simps) auto
    with 1(3) show ?thesis by simp
  qed
qed

lemma find_head_Inl:
  "find_head v bm i limit = Inl r \<Longrightarrow> first_bit v bm i limit r"
proof (induction v bm i limit rule: find_head.induct)
  case (1 v bm i limit)
  then have "i < limit" "i mod 64 \<noteq> 0"
    by (auto simp: find_head.simps [of v bm i] split: if_splits)
  note i = this
  show ?case
  proof (cases "sfs_test_bit bm i = v")
    case True
    with i 1(2) have "r = i"
      by (simp add: find_head.simps [of v bm i])
    with True i show ?thesis
      by (simp add: first_bit_def)
  next
    case False
    then have "no_bit v bm i (i + 1)"
      by (intro no_bit_one) simp
    moreover have "find_head v bm (i + 1) limit = Inl r"
      using i False 1(2) by (simp add: find_head.simps [of v bm i])
    then have "first_bit v bm (i + 1) limit r"
      using i False by (intro 1(1)) auto
    ultimately show ?thesis
      by (rule first_bit_prefix [rotated]) simp
  qed
qed

lemma find_head_Inr:
  "find_head v bm i limit = Inr r \<Longrightarrow> i \<le> limit \<Longrightarrow>
   i \<le> r \<and> r \<le> limit \<and> (r < limit \<longrightarrow> r mod 64 = 0) \<and> no_bit v bm i r"
proof (induction v bm i limit rule: find_head.induct)
  case (1 v bm i limit)
  show ?case
  proof (cases "i < limit \<and> i mod 64 \<noteq> 0")
    case True
    then have "sfs_test_bit bm i \<noteq> v" "find_head v bm (i + 1) limit = Inr r"
      using 1(2) by (auto simp: find_head.simps [of v bm i] split: if_splits)
    with True 1(1) show ?thesis
      by (auto intro: no_bit_step)
  next
    case False
    with 1(2,3) show ?thesis
      by (auto simp: find_head.simps [of v bm i])
  qed
qed

lemma find_words_limit: "find_words skip bm limit limit = limit"
  by (subst find_words.simps) simp

lemma scan_first:
  assumes "from \<le> limit" "\<And>k. k < 64 \<Longrightarrow> bit skip k = (\<not> v)"
  shows "first_bit v bm from limit (case find_head v bm from limit of
     Inl i \<Rightarrow> i | Inr i \<Rightarrow> find_tail v bm (find_words skip bm i limit) limit)"
proof (cases "find_head v bm from limit")
  case (Inl r)
  from find_head_Inl [OF this] show ?thesis
    by (simp add: Inl)
next
  case (Inr r)
  note h = find_head_Inr [OF Inr assms(1)]
  let ?w = "find_words skip bm r limit"
  have w: "r \<le> ?w \<and> ?w \<le> limit \<and> no_bit v bm r ?w"
  proof (cases "r < limit")
    case True
    with h have "r mod 64 = 0" by simp
    then have "r mod 8 = 0"
      using mod_mod_cancel [of 8 64 r] by simp
    with h assms(2) show ?thesis
      by (intro find_words_skip) auto
  next
    case False
    with h have "r = limit" by simp
    then show ?thesis by (simp add: find_words_limit)
  qed
  then have "first_bit v bm ?w limit (find_tail v bm ?w limit)"
    by (intro find_tail_first) simp
  then have "first_bit v bm from limit (find_tail v bm ?w limit)"
    using h w by (intro first_bit_prefix [of "from" ?w]) (auto intro: no_bit_trans)
  then show ?thesis
    by (simp add: Inr)
qed

lemma find_zero_first: "from \<le> limit \<Longrightarrow> first_bit False bm from limit (find_zero bm from limit)"
  unfolding find_zero_def by (rule scan_first) (auto simp: bit_simps)

lemma find_one_first: "from \<le> limit \<Longrightarrow> first_bit True bm from limit (find_one bm from limit)"
  unfolding find_one_def by (rule scan_first) auto

subsection \<open>Setting a run\<close>

text \<open>\<open>bits_set bm from to bm'\<close>: \<open>bm'\<close> is \<open>bm\<close> with the bits of \<open>[from, to)\<close> set.\<close>

definition bits_set :: "bytes \<Rightarrow> nat \<Rightarrow> nat \<Rightarrow> bytes \<Rightarrow> bool" where
  "bits_set bm from to bm' \<longleftrightarrow> length bm' = length bm
     \<and> (\<forall>j. sfs_test_bit bm' j = (sfs_test_bit bm j \<or> from \<le> j \<and> j < to))"

lemma bits_set_refl [simp]: "bits_set bm a a bm"
  by (auto simp: bits_set_def)

lemma bits_set_trans:
  "bits_set bm a b bm' \<Longrightarrow> bits_set bm' b c bm'' \<Longrightarrow> a \<le> b \<Longrightarrow> b \<le> c \<Longrightarrow> bits_set bm a c bm''"
  by (auto simp: bits_set_def)

lemma bits_set_one: "i < 8 * length bm \<Longrightarrow> bits_set bm i (i + 1) (sfs_set_bit bm i)"
  by (auto simp: bits_set_def test_set_bit)

lemma bits_set_length: "bits_set bm a b bm' \<Longrightarrow> length bm' = length bm"
  by (simp add: bits_set_def)

lemma set_tail_set: "from + n \<le> 8 * length bm \<Longrightarrow> bits_set bm from (from + n) (set_tail bm from n)"
proof (induction bm "from" n rule: set_tail.induct)
  case (2 bm "from" n)
  have "bits_set bm from (from + 1) (sfs_set_bit bm from)"
    using 2(2) by (intro bits_set_one) simp
  moreover have "bits_set (sfs_set_bit bm from) (from + 1) (from + 1 + n) (set_tail (sfs_set_bit bm from) (from + 1) n)"
    using 2 by simp
  ultimately show ?case
    by (auto dest: bits_set_trans)
qed simp

lemma set_head_set:
  "from + n \<le> 8 * length bm \<Longrightarrow> set_head bm from n = (bm', from', n') \<Longrightarrow>
   bits_set bm from from' bm' \<and> from \<le> from' \<and> from' + n' = from + n \<and> (n' = 0 \<or> from' mod 8 = 0)"
proof (induction bm "from" n rule: set_head.induct)
  case (2 bm "from" n)
  show ?case
  proof (cases "from mod 8 = 0")
    case False
    have "bits_set bm from (from + 1) (sfs_set_bit bm from)"
      using 2(2) by (intro bits_set_one) simp
    moreover have "bits_set (sfs_set_bit bm from) (from + 1) from' bm' \<and> from + 1 \<le> from' \<and>
        from' + n' = from + 1 + n \<and> (n' = 0 \<or> from' mod 8 = 0)"
      using 2 False by simp
    ultimately show ?thesis
      by (auto dest: bits_set_trans)
  qed (use 2 in auto)
qed auto

lemma fill_set:
  assumes "from mod 8 = 0" "from div 8 + k \<le> length bm"
  shows "bits_set bm from (from + 8 * k) (fill bm (from div 8) 0xFF k)"
proof -
  obtain q where q: "from = 8 * q"
    using assms(1) by (auto elim: dvdE simp flip: dvd_eq_mod_eq_0)
  have "bit (0xFF :: u8) j" if "j < 8" for j
    using that bit_mask_iff [of 8 j, where 'a = u8] by (simp add: mask_eq_exp_minus_1)
  then show ?thesis
    using assms(2) by (auto simp: bits_set_def test_bit_iff byte_at_fill q)
qed

lemma set_bits_set:
  assumes "from + n \<le> 8 * length bm"
  shows "bits_set bm from (from + n) (set_bits bm from n)"
proof -
  obtain bm' from' n' where h: "set_head bm from n = (bm', from', n')"
    by (metis prod_cases3)
  note s = set_head_set [OF assms h]
  show ?thesis
  proof (cases "8 \<le> n'")
    case True
    let ?f = "from' + (n' - n' mod 8)"
    have len: "length bm' = length bm"
      using s by (auto dest: bits_set_length)
    have e: "?f = from' + 8 * (n' div 8)" "?f + n' mod 8 = from + n" "?f \<le> from + n"
      using s by (auto simp: minus_mod_eq_mult_div)
    have "bits_set bm' from' ?f (fill bm' (from' div 8) 0xFF (n' div 8))"
      unfolding e(1) using s True assms len by (intro fill_set) auto
    moreover have "bits_set (fill bm' (from' div 8) 0xFF (n' div 8)) ?f (?f + n' mod 8)
        (set_tail (fill bm' (from' div 8) 0xFF (n' div 8)) ?f (n' mod 8))"
      using e(2) assms len by (intro set_tail_set) simp
    ultimately have "bits_set bm' from' (from + n) (set_bits bm from n)"
      using True h e by (auto simp: set_bits_def intro: bits_set_trans)
    with s show ?thesis
      by (auto intro: bits_set_trans)
  next
    case False
    have "bits_set bm' from' (from' + n') (set_tail bm' from' n')"
      using s assms by (intro set_tail_set) (auto dest: bits_set_length)
    with s False h show ?thesis
      by (auto simp: set_bits_def intro: bits_set_trans)
  qed
qed

subsection \<open>Clearing a run and counting the bits that were clear\<close>

definition clear_count :: "bytes \<Rightarrow> nat \<Rightarrow> nat \<Rightarrow> nat" where
  "clear_count bm from to = length (filter (\<lambda>i. \<not> sfs_test_bit bm i) [from..<to])"

text \<open>\<open>bits_cleared bm from to bm' k\<close>: \<open>bm'\<close> is \<open>bm\<close> with the bits of \<open>[from, to)\<close> clear, and \<open>k\<close> of
  them were clear before.\<close>

definition bits_cleared :: "bytes \<Rightarrow> nat \<Rightarrow> nat \<Rightarrow> bytes \<Rightarrow> nat \<Rightarrow> bool" where
  "bits_cleared bm from to bm' k \<longleftrightarrow> length bm' = length bm \<and> k = clear_count bm from to
     \<and> (\<forall>j. sfs_test_bit bm' j = (sfs_test_bit bm j \<and> \<not> (from \<le> j \<and> j < to)))"

lemma clear_count_append: "a \<le> b \<Longrightarrow> b \<le> c \<Longrightarrow> clear_count bm a c = clear_count bm a b + clear_count bm b c"
  using upt_add_eq_append [of a b "c - b"] by (simp add: clear_count_def)

lemma clear_count_cong:
  "(\<And>i. a \<le> i \<Longrightarrow> i < b \<Longrightarrow> sfs_test_bit bm i = sfs_test_bit bm' i) \<Longrightarrow> clear_count bm a b = clear_count bm' a b"
  unfolding clear_count_def by (intro arg_cong [of _ _ length] filter_cong) auto

lemma bits_cleared_refl [simp]: "bits_cleared bm a a bm 0"
  by (auto simp: bits_cleared_def clear_count_def)

lemma bits_cleared_trans:
  assumes "bits_cleared bm a b bm' k" "bits_cleared bm' b c bm'' k'" "a \<le> b" "b \<le> c"
  shows "bits_cleared bm a c bm'' (k + k')"
proof -
  have "clear_count bm' b c = clear_count bm b c"
    using assms(1) by (intro clear_count_cong) (auto simp: bits_cleared_def)
  then have "k + k' = clear_count bm a c"
    using assms clear_count_append [of a b c bm] by (simp add: bits_cleared_def)
  moreover have "sfs_test_bit bm'' j = (sfs_test_bit bm j \<and> \<not> (a \<le> j \<and> j < c))" for j
    using assms by (cases "j < b") (auto simp: bits_cleared_def)
  ultimately show ?thesis
    using assms(1,2) by (simp add: bits_cleared_def)
qed

lemma bits_cleared_length: "bits_cleared bm a b bm' k \<Longrightarrow> length bm' = length bm"
  by (simp add: bits_cleared_def)

lemma bits_cleared_one:
  "i < 8 * length bm \<Longrightarrow>
   bits_cleared bm i (i + 1) (sfs_clear_bit bm i) (if sfs_test_bit bm i then 0 else 1)"
  by (auto simp: bits_cleared_def test_clear_bit clear_count_def)

lemma clear_tail_cleared:
  "from + n \<le> 8 * length bm \<Longrightarrow>
   \<exists>k. snd (clear_tail bm from n bad) = bad + k \<and> bits_cleared bm from (from + n) (fst (clear_tail bm from n bad)) k"
proof (induction bm "from" n bad rule: clear_tail.induct)
  case (2 bm "from" n bad)
  have one: "bits_cleared bm from (from + 1) (sfs_clear_bit bm from) (if sfs_test_bit bm from then 0 else 1)"
    using 2(2) by (intro bits_cleared_one) simp
  obtain k where k: "snd (clear_tail bm from (Suc n) bad) = (if sfs_test_bit bm from then bad else bad + 1) + k"
      "bits_cleared (sfs_clear_bit bm from) (from + 1) (from + 1 + n) (fst (clear_tail bm from (Suc n) bad)) k"
    using 2 by auto
  show ?case
    using bits_cleared_trans [OF one k(2)] k(1)
    by (intro exI [of _ "(if sfs_test_bit bm from then 0 else 1) + k"]) auto
qed simp

lemma clear_head_cleared:
  "from + n \<le> 8 * length bm \<Longrightarrow> clear_head bm from n bad = (bm', from', n', bad') \<Longrightarrow>
   from \<le> from' \<and> from' + n' = from + n \<and> (n' = 0 \<or> from' mod 8 = 0)
     \<and> (\<exists>k. bad' = bad + k \<and> bits_cleared bm from from' bm' k)"
proof (induction bm "from" n bad rule: clear_head.induct)
  case (2 bm "from" n bad)
  show ?case
  proof (cases "from mod 8 = 0")
    case False
    have one: "bits_cleared bm from (from + 1) (sfs_clear_bit bm from) (if sfs_test_bit bm from then 0 else 1)"
      using 2(2) by (intro bits_cleared_one) simp
    have IH: "from + 1 \<le> from' \<and> from' + n' = from + 1 + n \<and> (n' = 0 \<or> from' mod 8 = 0)
        \<and> (\<exists>k. bad' = (if sfs_test_bit bm from then bad else bad + 1) + k
             \<and> bits_cleared (sfs_clear_bit bm from) (from + 1) from' bm' k)"
      using 2 False by simp
    then obtain k where k: "bad' = (if sfs_test_bit bm from then bad else bad + 1) + k"
        "bits_cleared (sfs_clear_bit bm from) (from + 1) from' bm' k"
      by blast
    show ?thesis
      using bits_cleared_trans [OF one k(2)] IH k(1)
      by (intro conjI exI [of _ "(if sfs_test_bit bm from then 0 else 1) + k"]) auto
  qed (use 2 in auto)
qed auto

lemma filter_not_length: "length (filter (\<lambda>i. \<not> P i) xs) = length xs - length (filter P xs)"
  by (induction xs) (auto simp: Suc_diff_le)

lemma zero_bytes_test:
  assumes "from mod 8 = 0"
  shows "sfs_test_bit (fill bm (from div 8) 0 k) j =
    (sfs_test_bit bm j \<and> \<not> (from \<le> j \<and> j < from + 8 * k))"
proof -
  obtain q where q: "from = 8 * q"
    using assms by (auto elim: dvdE simp flip: dvd_eq_mod_eq_0)
  have "8 * q \<le> j \<and> j < 8 * q + 8 * k \<longleftrightarrow> q \<le> j div 8 \<and> j div 8 < q + k"
    by (auto simp: less_eq_div_iff_mult_less_eq div_less_iff_less_mult)
  moreover have "bit (byte_at bm n) i \<Longrightarrow> n < length bm" for n i
    by (auto simp: byte_at_def split: if_splits)
  ultimately show ?thesis
    by (auto simp: test_bit_iff byte_at_fill q)
qed

lemma clear_count_shift:
  "clear_count bm a (a + k) = length (filter (\<lambda>i. \<not> sfs_test_bit bm (a + i)) [0..<k])"
  by (induction k) (simp_all add: clear_count_def)

lemma clear_count_word:
  assumes "from mod 8 = 0"
  shows "clear_count bm from (from + 64) = 64 - unat (bitmap_popcount64 (rd64 bm (from div 8)))"
proof -
  have "clear_count bm from (from + 64) = length (filter (\<lambda>i. \<not> bit (rd64 bm (from div 8)) i) [0..<64])"
    unfolding clear_count_shift
    by (intro arg_cong [of _ _ length] filter_cong) (auto simp: bit_rd64_map [OF assms])
  then show ?thesis
    by (simp add: filter_not_length popcount_correct)
qed

lemma clear_count_byte:
  assumes "from mod 8 = 0"
  shows "clear_count bm from (from + 8) = 8 - unat (bitmap_popcount64 (ucast (byte_at bm (from div 8))))"
proof -
  let ?b = "byte_at bm (from div 8)"
  obtain q where q: "from = 8 * q"
    using assms by (auto elim: dvdE simp flip: dvd_eq_mod_eq_0)
  have "clear_count bm from (from + 8) = length (filter (\<lambda>i. \<not> bit ?b i) [0..<8])"
    unfolding clear_count_shift
    by (intro arg_cong [of _ _ length] filter_cong) (auto simp: test_bit_iff q)
  moreover have "filter (bit (ucast ?b :: u64)) [0..<64] = filter (bit ?b) [0..<8]"
  proof -
    have "filter (bit (ucast ?b :: u64)) [8..<64] = []"
      by (auto simp: filter_empty_conv bit_simps dest: bit_imp_le_length)
    moreover have "filter (bit (ucast ?b :: u64)) [0..<8] = filter (bit ?b) [0..<8]"
      by (intro filter_cong) (auto simp: bit_simps)
    moreover have "[0..<64] = [0..<8] @ [8..<64::nat]"
      using upt_add_eq_append [of 0 8 56] by simp
    ultimately show ?thesis
      by simp
  qed
  ultimately show ?thesis
    by (simp add: filter_not_length popcount_correct)
qed

lemma clear_words_cleared:
  "from + n \<le> 8 * length bm \<Longrightarrow> n = 0 \<or> from mod 8 = 0 \<Longrightarrow>
   clear_words bm from n bad = (bm', from', n', bad') \<Longrightarrow>
   from \<le> from' \<and> from' + n' = from + n \<and> (n' = 0 \<or> from' mod 8 = 0)
     \<and> (\<exists>k. bad' = bad + k \<and> bits_cleared bm from from' bm' k)"
proof (induction bm "from" n bad rule: clear_words.induct)
  case (1 bm "from" n bad)
  let ?bm = "fill bm (from div 8) 0 8" and ?k = "64 - unat (bitmap_popcount64 (rd64 bm (from div 8)))"
  show ?case
  proof (cases "64 \<le> n")
    case True
    with 1(3) have m: "from mod 8 = 0" by simp
    have one: "bits_cleared bm from (from + 64) ?bm ?k"
      using m by (simp add: bits_cleared_def zero_bytes_test clear_count_word)
    have eq: "clear_words ?bm (from + 64) (n - 64) (bad + ?k) = (bm', from', n', bad')"
      using 1(4) True by (subst (asm) clear_words.simps) simp
    have m': "(from + 64) mod 8 = 0"
      using m by (simp flip: dvd_eq_mod_eq_0)
    have IH: "from + 64 \<le> from' \<and> from' + n' = from + 64 + (n - 64) \<and> (n' = 0 \<or> from' mod 8 = 0)
        \<and> (\<exists>k. bad' = bad + ?k + k \<and> bits_cleared ?bm (from + 64) from' bm' k)"
      using 1(2) True by (intro 1(1) [OF True _ _ eq]) (simp_all add: m')
    then obtain k where "bad' = bad + ?k + k" "bits_cleared ?bm (from + 64) from' bm' k"
      by blast
    with bits_cleared_trans [OF one] IH True show ?thesis
      by (intro conjI exI [of _ "?k + k"]) auto
  next
    case False
    with 1(3,4) show ?thesis
      by (auto simp: clear_words.simps [of bm] split: if_splits)
  qed
qed

lemma zero_byte_fill: "bm[k := 0] = fill bm k 0 1"
  by (auto simp: fill_def nth_list_update intro!: nth_equalityI)

lemma clear_bytes_cleared:
  "from + n \<le> 8 * length bm \<Longrightarrow> n = 0 \<or> from mod 8 = 0 \<Longrightarrow>
   clear_bytes bm from n bad = (bm', from', n', bad') \<Longrightarrow>
   from \<le> from' \<and> from' + n' = from + n
     \<and> (\<exists>k. bad' = bad + k \<and> bits_cleared bm from from' bm' k)"
proof (induction bm "from" n bad rule: clear_bytes.induct)
  case (1 bm "from" n bad)
  let ?bm = "bm[from div 8 := 0]" and ?k = "8 - unat (bitmap_popcount64 (ucast (byte_at bm (from div 8))))"
  show ?case
  proof (cases "8 \<le> n")
    case True
    with 1(3) have m: "from mod 8 = 0" by simp
    have one: "bits_cleared bm from (from + 8) ?bm ?k"
      using m by (simp add: bits_cleared_def zero_byte_fill zero_bytes_test clear_count_byte)
    have eq: "clear_bytes ?bm (from + 8) (n - 8) (bad + ?k) = (bm', from', n', bad')"
      using 1(4) True by (subst (asm) clear_bytes.simps) simp
    have IH: "from + 8 \<le> from' \<and> from' + n' = from + 8 + (n - 8)
        \<and> (\<exists>k. bad' = bad + ?k + k \<and> bits_cleared ?bm (from + 8) from' bm' k)"
      using 1(2) True m by (intro 1(1) [OF True _ _ eq]) simp_all
    then obtain k where "bad' = bad + ?k + k" "bits_cleared ?bm (from + 8) from' bm' k"
      by blast
    with bits_cleared_trans [OF one] IH True show ?thesis
      by (intro conjI exI [of _ "?k + k"]) auto
  next
    case False
    with 1(4) show ?thesis
      by (auto simp: clear_bytes.simps [of bm] split: if_splits)
  qed
qed

lemma clear_bits_cleared:
  assumes "from + n \<le> 8 * length bm"
  shows "bits_cleared bm from (from + n) (fst (clear_bits bm from n)) (snd (clear_bits bm from n))"
proof (cases "n < 16")
  case True
  then show ?thesis
    using clear_tail_cleared [OF assms, of 0] by (auto simp: clear_bits_def)
next
  case False
  obtain b1 f1 n1 k1 where h: "clear_head bm from n 0 = (b1, f1, n1, k1)"
    by (metis prod_cases4)
  obtain b2 f2 n2 k2 where w: "clear_words b1 f1 n1 k1 = (b2, f2, n2, k2)"
    by (metis prod_cases4)
  obtain b3 f3 n3 k3 where b: "clear_bytes b2 f2 n2 k2 = (b3, f3, n3, k3)"
    by (metis prod_cases4)
  from clear_head_cleared [OF assms h]
  have H: "from \<le> f1" "f1 + n1 = from + n" "n1 = 0 \<or> f1 mod 8 = 0" "bits_cleared bm from f1 b1 k1"
    by auto
  then have l1: "f1 + n1 \<le> 8 * length b1"
    using assms by (simp add: bits_cleared_length)
  from clear_words_cleared [OF this H(3) w] obtain j2
    where W: "f1 \<le> f2" "f2 + n2 = f1 + n1" "n2 = 0 \<or> f2 mod 8 = 0" "k2 = k1 + j2" "bits_cleared b1 f1 f2 b2 j2"
    by auto
  then have l2: "f2 + n2 \<le> 8 * length b2"
    using l1 by (simp add: bits_cleared_length)
  from clear_bytes_cleared [OF this W(3) b] obtain j3
    where B: "f2 \<le> f3" "f3 + n3 = f2 + n2" "k3 = k2 + j3" "bits_cleared b2 f2 f3 b3 j3"
    by auto
  then have l3: "f3 + n3 \<le> 8 * length b3"
    using l2 by (simp add: bits_cleared_length)
  from clear_tail_cleared [OF this, of k3] obtain j4
    where T: "snd (clear_tail b3 f3 n3 k3) = k3 + j4" "bits_cleared b3 f3 (f3 + n3) (fst (clear_tail b3 f3 n3 k3)) j4"
    by auto
  have "bits_cleared bm from f2 b2 k2"
    using bits_cleared_trans [OF H(4) W(5) H(1) W(1)] W(4) by simp
  then have "bits_cleared bm from f3 b3 k3"
    using bits_cleared_trans [OF _ B(4) _ B(1)] B(3) H(1) W(1) by simp
  then have "bits_cleared bm from (f3 + n3) (fst (clear_tail b3 f3 n3 k3)) (k3 + j4)"
    using bits_cleared_trans [OF _ T(2)] H(1) W(1) B(1) by simp
  then show ?thesis
    using False h w b T(1) B(2) W(2) H(2) by (simp add: clear_bits_def)
qed

end
