(* ===== verification/Sfs_State.thy ===== *)
theory Sfs_State
  imports Sfs_Fields
begin

unbundle bit_operations_syntax

section \<open>The volume: records of sfs.h and sfs\_internal.h\<close>

text \<open>
  The data model of libsfs.

  \<^item> \<open>sfs_err\<close>: the error codes; every operation that returns 0 or a negative code gives
    \<open>Inr\<close> or \<open>Inl\<close>.
  \<^item> \<open>sfs_ops\<close>: the callback table. A callback is a function on the callback context \<open>'c\<close> (the
    \<open>void *ctx\<close>), which it may change; the optional ones are of type \<open>option\<close> (a null pointer is
    \<open>None\<close>). \<open>read\<close> gives the bytes it stores in the buffer, or \<open>None\<close> for a failure (libsfs never
    looks at a buffer whose read failed). \<open>alloc\<close> and \<open>free\<close> only say whether memory is
    granted: the memory itself is the value the model stores.
  \<^item> \<open>sfs_fs\<close>: the volume. A buffer is addressed by its block number and an inode by its inode
    number: the hash chains are the finite maps \<open>fs_bufs\<close> and \<open>fs_inodes\<close>
    (a search of the chain of a number's bucket is the application of the map), the doubly linked LRU lists are the
    lists \<open>fs_lru\<close> and \<open>fs_ilru\<close>, most recent first, and the lists linked through \<open>tnext\<close> are
    \<open>t_bufs\<close> and \<open>t_late\<close>. The geometry that \<open>parse_super\<close> computes is the record \<open>sfs_geo\<close>; it
    does not change after the mount.
  \<^item> Reading through a block or inode number that is not cached gives a zero buffer or inode and
    writing through it does nothing; libsfs holds a reference wherever it does either.
\<close>

subsection \<open>Errors\<close>

datatype sfs_err =
    SFS_EIO | SFS_ENOENT | SFS_EEXIST | SFS_ENOTDIR | SFS_EISDIR | SFS_ENOTEMPTY | SFS_ENOSPC
  | SFS_ENOMEM | SFS_EINVAL | SFS_EROFS | SFS_ECORRUPT | SFS_ENOTSUP | SFS_ENAMETOOLONG | SFS_EFBIG
  | SFS_EBUSY | SFS_ERANGE | SFS_EACCES | SFS_EPERM

text \<open>The number behind the minus sign of the C constant.\<close>

fun err_num :: "sfs_err \<Rightarrow> nat" where
  "err_num SFS_EIO = 1" | "err_num SFS_ENOENT = 2" | "err_num SFS_EEXIST = 3"
| "err_num SFS_ENOTDIR = 4" | "err_num SFS_EISDIR = 5" | "err_num SFS_ENOTEMPTY = 6"
| "err_num SFS_ENOSPC = 7" | "err_num SFS_ENOMEM = 8" | "err_num SFS_EINVAL = 9"
| "err_num SFS_EROFS = 10" | "err_num SFS_ECORRUPT = 11" | "err_num SFS_ENOTSUP = 12"
| "err_num SFS_ENAMETOOLONG = 13" | "err_num SFS_EFBIG = 14" | "err_num SFS_EBUSY = 15"
| "err_num SFS_ERANGE = 16" | "err_num SFS_EACCES = 17" | "err_num SFS_EPERM = 18"

definition sfs_strerror :: "sfs_err option \<Rightarrow> string" where
  "sfs_strerror e = (case e of None \<Rightarrow> ''ok'' | Some e \<Rightarrow> (case e of
     SFS_EIO \<Rightarrow> ''I/O error'' | SFS_ENOENT \<Rightarrow> ''no such file or directory''
   | SFS_EEXIST \<Rightarrow> ''file exists'' | SFS_ENOTDIR \<Rightarrow> ''not a directory''
   | SFS_EISDIR \<Rightarrow> ''is a directory'' | SFS_ENOTEMPTY \<Rightarrow> ''directory not empty''
   | SFS_ENOSPC \<Rightarrow> ''no space left on device'' | SFS_ENOMEM \<Rightarrow> ''out of memory''
   | SFS_EINVAL \<Rightarrow> ''invalid argument'' | SFS_EROFS \<Rightarrow> ''read-only file system''
   | SFS_ECORRUPT \<Rightarrow> ''file system structure is corrupt'' | SFS_ENOTSUP \<Rightarrow> ''unsupported feature''
   | SFS_ENAMETOOLONG \<Rightarrow> ''name too long'' | SFS_EFBIG \<Rightarrow> ''file too large''
   | SFS_EBUSY \<Rightarrow> ''busy'' | SFS_ERANGE \<Rightarrow> ''out of range''
   | SFS_EACCES \<Rightarrow> ''permission denied'' | SFS_EPERM \<Rightarrow> ''operation not permitted''))"

subsection \<open>Constants of sfs.h and sfs\_internal.h\<close>

abbreviation (input) SFS_MAX_ALLOC :: nat where "SFS_MAX_ALLOC \<equiv> 4096"
abbreviation (input) SFS_NAME_MAX :: nat where "SFS_NAME_MAX \<equiv> 255"
abbreviation (input) SFS_MOUNT_RDONLY :: u32 where "SFS_MOUNT_RDONLY \<equiv> 1"
abbreviation (input) SFS_MOUNT_NOREPLAY :: u32 where "SFS_MOUNT_NOREPLAY \<equiv> 2"
abbreviation (input) SFS_MOUNT_CLEAN_ON_SYNC :: u32 where "SFS_MOUNT_CLEAN_ON_SYNC \<equiv> 4"
abbreviation (input) SFS_MOUNT_NAIVE :: u32 where "SFS_MOUNT_NAIVE \<equiv> 8"
abbreviation (input) SFS_MOUNT_SMALL_TXN :: u32 where "SFS_MOUNT_SMALL_TXN \<equiv> 16"
abbreviation (input) SFS_ROOT_INO :: u32 where "SFS_ROOT_INO \<equiv> 2"
abbreviation (input) SFS_S_IFMT :: u16 where "SFS_S_IFMT \<equiv> 0xF000"
abbreviation (input) SFS_S_IFREG :: u16 where "SFS_S_IFREG \<equiv> 0x8000"
abbreviation (input) SFS_S_IFDIR :: u16 where "SFS_S_IFDIR \<equiv> 0x4000"
abbreviation (input) SFS_S_IFLNK :: u16 where "SFS_S_IFLNK \<equiv> 0xA000"
abbreviation (input) SFS_FT_UNKNOWN :: u8 where "SFS_FT_UNKNOWN \<equiv> 0"
abbreviation (input) SFS_FT_REG :: u8 where "SFS_FT_REG \<equiv> 1"
abbreviation (input) SFS_FT_DIR :: u8 where "SFS_FT_DIR \<equiv> 2"
abbreviation (input) SFS_FT_CHR :: u8 where "SFS_FT_CHR \<equiv> 3"
abbreviation (input) SFS_FT_BLK :: u8 where "SFS_FT_BLK \<equiv> 4"
abbreviation (input) SFS_FT_FIFO :: u8 where "SFS_FT_FIFO \<equiv> 5"
abbreviation (input) SFS_FT_SOCK :: u8 where "SFS_FT_SOCK \<equiv> 6"
abbreviation (input) SFS_FT_SYMLINK :: u8 where "SFS_FT_SYMLINK \<equiv> 7"
abbreviation (input) SFS_RO_CALLER :: u32 where "SFS_RO_CALLER \<equiv> 0x1"
abbreviation (input) SFS_RO_NO_EXTENTS :: u32 where "SFS_RO_NO_EXTENTS \<equiv> 0x2"
abbreviation (input) SFS_RO_UNKNOWN_RO_COMPAT :: u32 where "SFS_RO_UNKNOWN_RO_COMPAT \<equiv> 0x4"
abbreviation (input) SFS_RO_INLINE_DATA :: u32 where "SFS_RO_INLINE_DATA \<equiv> 0x8"
abbreviation (input) SFS_RO_ENCRYPT :: u32 where "SFS_RO_ENCRYPT \<equiv> 0x10"
abbreviation (input) SFS_RO_CASEFOLD :: u32 where "SFS_RO_CASEFOLD \<equiv> 0x20"
abbreviation (input) SFS_RO_QUOTA :: u32 where "SFS_RO_QUOTA \<equiv> 0x40"
abbreviation (input) SFS_RO_VERITY :: u32 where "SFS_RO_VERITY \<equiv> 0x80"
abbreviation (input) SFS_RO_READONLY_FLAG :: u32 where "SFS_RO_READONLY_FLAG \<equiv> 0x100"
abbreviation (input) SFS_RO_EA_INODE :: u32 where "SFS_RO_EA_INODE \<equiv> 0x200"
abbreviation (input) SFS_RO_JOURNAL_FAST_COMMIT :: u32 where "SFS_RO_JOURNAL_FAST_COMMIT \<equiv> 0x400"
abbreviation (input) SFS_RO_ORPHAN_FILE :: u32 where "SFS_RO_ORPHAN_FILE \<equiv> 0x800"
abbreviation (input) SFS_RO_ERRORS :: u32 where "SFS_RO_ERRORS \<equiv> 0x1000"
abbreviation (input) SFS_RO_JOURNAL_ERRNO :: u32 where "SFS_RO_JOURNAL_ERRNO \<equiv> 0x2000"
abbreviation (input) SFS_RO_NEEDS_REPLAY :: u32 where "SFS_RO_NEEDS_REPLAY \<equiv> 0x4000"

abbreviation (input) B_UPTODATE :: u32 where "B_UPTODATE \<equiv> 0x1"
abbreviation (input) B_DIRTY :: u32 where "B_DIRTY \<equiv> 0x2"
abbreviation (input) B_JDIRTY :: u32 where "B_JDIRTY \<equiv> 0x4"
abbreviation (input) B_NEW :: u32 where "B_NEW \<equiv> 0x8"
abbreviation (input) B_VERIFIED :: u32 where "B_VERIFIED \<equiv> 0x10"
abbreviation (input) B_COMPUTED :: u32 where "B_COMPUTED \<equiv> 0x20"
abbreviation (input) B_LATE :: u32 where "B_LATE \<equiv> 0x40"
abbreviation (input) BUF_HASH :: nat where "BUF_HASH \<equiv> 512"
abbreviation (input) INO_HASH :: nat where "INO_HASH \<equiv> 64"
abbreviation (input) RUNS_PER_PAGE :: nat where "RUNS_PER_PAGE \<equiv> 250"
abbreviation (input) PA_MAX :: nat where "PA_MAX \<equiv> 48"
abbreviation (input) JMAP_MAX :: nat where "JMAP_MAX \<equiv> 200"
abbreviation (input) WRUN_MAX :: nat where "WRUN_MAX \<equiv> 64"

text \<open>Sizes of the structures that libsfs allocates, on an LP64 target.\<close>

abbreviation (input) sizeof_buf :: nat where "sizeof_buf \<equiv> 56"
abbreviation (input) sizeof_inode :: nat where "sizeof_inode \<equiv> 248"
abbreviation (input) sizeof_runpage :: nat where "sizeof_runpage \<equiv> 4016"
abbreviation (input) sizeof_patab :: nat where "sizeof_patab \<equiv> 1160"
abbreviation (input) sizeof_jmap :: nat where "sizeof_jmap \<equiv> 3208"

subsection \<open>Records\<close>

record 'c sfs_ops =
  ops_read :: "'c \<Rightarrow> u64 \<Rightarrow> u32 \<Rightarrow> bytes option \<times> 'c"
  ops_write :: "('c \<Rightarrow> u64 \<Rightarrow> bytes \<Rightarrow> u32 \<Rightarrow> bool \<times> 'c) option"
  ops_flush :: "('c \<Rightarrow> bool \<times> 'c) option"
  ops_alloc :: "'c \<Rightarrow> nat \<Rightarrow> bool \<times> 'c"
  ops_free :: "'c \<Rightarrow> nat \<Rightarrow> 'c"
  ops_now :: "('c \<Rightarrow> u64 \<times> 'c) option"
  ops_log :: "('c \<Rightarrow> string \<Rightarrow> 'c) option"
  ops_size :: u64
  ops_cache_blocks :: u32
  ops_writev :: "('c \<Rightarrow> u64 \<Rightarrow> bytes list \<Rightarrow> u32 \<Rightarrow> u32 \<Rightarrow> bool \<times> 'c) option"

record sfs_buf =
  b_data :: bytes
  b_flags :: u32
  b_refs :: u32

record sfs_inode =
  in_refs :: u32
  in_dirty :: bool
  in_mode :: u16
  in_links :: u16
  in_uid :: u32
  in_gid :: u32
  in_size :: u64
  in_nblocks :: u64
  in_flags :: u32
  in_generation :: u32
  in_file_acl :: u64
  in_dtime :: u32
  in_atime :: u64
  in_mtime :: u64
  in_ctime :: u64
  in_crtime :: u64
  in_atime_ns :: u32
  in_mtime_ns :: u32
  in_ctime_ns :: u32
  in_crtime_ns :: u32
  in_extra_isize :: u16
  in_csum_seed :: u32
  in_iblock :: bytes
  in_ec_valid :: bool
  in_ec_unwritten :: bool
  in_ec_lblk :: u32
  in_ec_len :: u32
  in_ec_pblk :: u64
  in_last_lblk :: u32
  in_last_pblk :: u64

record sfs_gd =
  gd_block_bitmap :: u64
  gd_inode_bitmap :: u64
  gd_inode_table :: u64
  gd_free_blocks :: u32
  gd_free_inodes :: u32
  gd_used_dirs :: u32
  gd_itable_unused :: u32
  gd_flags :: u16
  gd_block_bitmap_csum :: u32
  gd_inode_bitmap_csum :: u32

text \<open>A page of a run list is the list of its \<open>count\<close> entries \<open>(start, len, meta)\<close>; the list of
  pages starts with the head page.\<close>

type_synonym runpage = "(u64 \<times> u32 \<times> u32) list"

record sfs_pa =
  w_ino :: u32
  w_lblk :: u32
  w_pblk :: u64
  w_len :: u32
  w_age :: u32

record sfs_patab =
  pa_w :: "sfs_pa list"
  pa_clock :: u32

record sfs_txn =
  t_bufs :: "u64 list"
  t_nbufs :: u32
  t_frees :: "runpage list"
  t_nfrees :: u32
  t_free_blocks_pending :: u64
  t_revokes :: "runpage list"
  t_nrevokes :: u32
  t_sb_dirty :: bool
  t_force_commit :: bool
  t_late :: "u64 list"

text \<open>The entries \<open>(lblk, len, pblk)\<close> of the journal extent map.\<close>

type_synonym sfs_jmap = "(u32 \<times> u32 \<times> u64) list"

record sfs_journal =
  j_present :: bool
  j_inum :: u32
  j_maxlen :: u32
  j_first :: u32
  j_feat_incompat :: u32
  j_feat_compat :: u32
  j_feat_ro :: u32
  j_uuid :: bytes
  j_csum_seed :: u32
  j_csum_v3 :: bool
  j_csum_v2 :: bool
  j_has64 :: bool
  j_next_seq :: u32
  j_head :: u32
  j_disk_start :: u32
  j_tag_bytes :: u32
  j_map :: "sfs_jmap option"
  j_map_complete :: bool

record sfs_geo =
  g_bs :: u32
  g_bs_bits :: nat
  g_nblocks :: u64
  g_ngroups :: u32
  g_bpg :: u32
  g_ipg :: u32
  g_isize :: u32
  g_gd_size :: u32
  g_first_data_block :: u32
  g_inodes_count :: u32
  g_first_ino :: u32
  g_desc_per_block :: u32
  g_inodes_per_block :: u32
  g_itable_blocks :: u32
  g_gdt_blocks :: u32
  g_has64 :: bool
  g_csum :: bool
  g_gdt_csum :: bool
  g_sparse :: bool
  g_meta_bg :: bool
  g_dir_index :: bool
  g_filetype :: bool
  g_extents :: bool
  g_huge_file :: bool
  g_dir_nlink :: bool
  g_largedir :: bool
  g_csum_seed :: u32
  g_uuid :: bytes
  g_hash_seed :: "u32 list"
  g_hash_version :: u8
  g_hash_unsigned :: u8
  g_reserved_gdt :: u32
  g_first_meta_bg :: u32
  g_log_groups_per_flex :: u32
  g_want_extra_isize :: u32
  g_backup_bgs :: "u32 list"
  g_sparse2 :: bool
  g_ext_per_block :: u32

record sfs_stats =
  st_reads :: u64
  st_read_bytes :: u64
  st_writes :: u64
  st_write_bytes :: u64
  st_flushes :: u64
  st_cache_hits :: u64
  st_cache_misses :: u64
  st_cache_evictions :: u64
  st_commits :: u64
  st_journal_blocks_written :: u64
  st_checkpoint_blocks :: u64
  st_extent_cache_hits :: u64
  st_extent_cache_misses :: u64
  st_dx_lookups :: u64
  st_linear_lookups :: u64
  st_replayed_transactions :: u64
  st_replayed_blocks :: u64
  st_revoked_blocks :: u64

record 'c sfs_fs =
  fs_ctx :: 'c
  fs_ops :: "'c sfs_ops"
  fs_mflags :: u32
  fs_ro :: bool
  fs_ro_reason :: u32
  fs_dead :: bool
  fs_mounted_dirty :: bool
  fs_sbraw :: bytes
  fs_geo :: sfs_geo
  fs_feat_compat :: u32
  fs_feat_incompat :: u32
  fs_feat_ro :: u32
  fs_free_blocks :: u64
  fs_free_inodes :: u32
  fs_kbytes_written_base :: u64
  fs_last_orphan :: u32
  fs_bufs :: "u64 \<rightharpoonup> sfs_buf"
  fs_lru :: "u64 list"
  fs_nbufs :: u32
  fs_max_bufs :: u32
  fs_inodes :: "u32 \<rightharpoonup> sfs_inode"
  fs_ilru :: "u32 list"
  fs_ninodes :: u32
  fs_max_inodes :: u32
  fs_txn :: sfs_txn
  fs_in_op :: u32
  fs_mods :: u64
  fs_op_mods :: u64
  fs_jnl :: sfs_journal
  fs_txn_soft :: u32
  fs_pa :: sfs_patab
  fs_alloc_hint_group :: u32
  fs_dir_rotor :: u32
  fs_next_generation :: u64
  fs_st :: sfs_stats
  fs_write_limit :: u64
  fs_write_hit :: "('c \<Rightarrow> 'c) option"
  fs_write_stopped :: bool

type_synonym ('c, 'a) fsact = "('c sfs_fs, 'a) act"

subsection \<open>Zero values\<close>

definition zero_buf :: sfs_buf where
  "zero_buf = \<lparr>b_data = [], b_flags = 0, b_refs = 0\<rparr>"

definition zero_inode :: sfs_inode where
  "zero_inode = \<lparr>in_refs = 0, in_dirty = False, in_mode = 0, in_links = 0, in_uid = 0, in_gid = 0,
     in_size = 0, in_nblocks = 0, in_flags = 0, in_generation = 0, in_file_acl = 0, in_dtime = 0,
     in_atime = 0, in_mtime = 0, in_ctime = 0, in_crtime = 0, in_atime_ns = 0, in_mtime_ns = 0,
     in_ctime_ns = 0, in_crtime_ns = 0, in_extra_isize = 0, in_csum_seed = 0,
     in_iblock = replicate IN_BLOCK_BYTES 0, in_ec_valid = False, in_ec_unwritten = False,
     in_ec_lblk = 0, in_ec_len = 0, in_ec_pblk = 0, in_last_lblk = 0, in_last_pblk = 0\<rparr>"

definition zero_txn :: sfs_txn where
  "zero_txn = \<lparr>t_bufs = [], t_nbufs = 0, t_frees = [], t_nfrees = 0, t_free_blocks_pending = 0,
     t_revokes = [], t_nrevokes = 0, t_sb_dirty = False, t_force_commit = False, t_late = []\<rparr>"

definition zero_journal :: sfs_journal where
  "zero_journal = \<lparr>j_present = False, j_inum = 0, j_maxlen = 0, j_first = 0, j_feat_incompat = 0,
     j_feat_compat = 0, j_feat_ro = 0, j_uuid = replicate 16 0, j_csum_seed = 0, j_csum_v3 = False,
     j_csum_v2 = False, j_has64 = False, j_next_seq = 0, j_head = 0, j_disk_start = 0,
     j_tag_bytes = 0, j_map = None, j_map_complete = False\<rparr>"

definition zero_pa :: sfs_pa where
  "zero_pa = \<lparr>w_ino = 0, w_lblk = 0, w_pblk = 0, w_len = 0, w_age = 0\<rparr>"

definition zero_patab :: sfs_patab where
  "zero_patab = \<lparr>pa_w = replicate PA_MAX zero_pa, pa_clock = 0\<rparr>"

definition zero_stats :: sfs_stats where
  "zero_stats = \<lparr>st_reads = 0, st_read_bytes = 0, st_writes = 0, st_write_bytes = 0, st_flushes = 0,
     st_cache_hits = 0, st_cache_misses = 0, st_cache_evictions = 0, st_commits = 0,
     st_journal_blocks_written = 0, st_checkpoint_blocks = 0, st_extent_cache_hits = 0,
     st_extent_cache_misses = 0, st_dx_lookups = 0, st_linear_lookups = 0,
     st_replayed_transactions = 0, st_replayed_blocks = 0, st_revoked_blocks = 0\<rparr>"

definition zero_geo :: sfs_geo where
  "zero_geo = \<lparr>g_bs = 0, g_bs_bits = 0, g_nblocks = 0, g_ngroups = 0, g_bpg = 0, g_ipg = 0,
     g_isize = 0, g_gd_size = 0, g_first_data_block = 0, g_inodes_count = 0, g_first_ino = 0,
     g_desc_per_block = 0, g_inodes_per_block = 0, g_itable_blocks = 0, g_gdt_blocks = 0,
     g_has64 = False, g_csum = False, g_gdt_csum = False, g_sparse = False, g_meta_bg = False,
     g_dir_index = False, g_filetype = False, g_extents = False, g_huge_file = False,
     g_dir_nlink = False, g_largedir = False, g_csum_seed = 0, g_uuid = replicate 16 0,
     g_hash_seed = [0, 0, 0, 0], g_hash_version = 0, g_hash_unsigned = 0, g_reserved_gdt = 0,
     g_first_meta_bg = 0, g_log_groups_per_flex = 0, g_want_extra_isize = 0,
     g_backup_bgs = [0, 0], g_sparse2 = False, g_ext_per_block = 0\<rparr>"

text \<open>The zeroed volume that \<open>sfs_mount\<close> starts from.\<close>

definition zero_fs :: "'c sfs_ops \<Rightarrow> 'c \<Rightarrow> u32 \<Rightarrow> 'c sfs_fs" where
  "zero_fs ops ctx flags = \<lparr>fs_ctx = ctx, fs_ops = ops, fs_mflags = flags, fs_ro = False,
     fs_ro_reason = 0, fs_dead = False, fs_mounted_dirty = False, fs_sbraw = replicate 1024 0,
     fs_geo = zero_geo, fs_feat_compat = 0, fs_feat_incompat = 0, fs_feat_ro = 0,
     fs_free_blocks = 0, fs_free_inodes = 0, fs_kbytes_written_base = 0, fs_last_orphan = 0,
     fs_bufs = Map.empty, fs_lru = [], fs_nbufs = 0, fs_max_bufs = 0, fs_inodes = Map.empty,
     fs_ilru = [], fs_ninodes = 0, fs_max_inodes = 0, fs_txn = zero_txn, fs_in_op = 0, fs_mods = 0,
     fs_op_mods = 0, fs_jnl = zero_journal, fs_txn_soft = 0, fs_pa = zero_patab,
     fs_alloc_hint_group = 0, fs_dir_rotor = 0, fs_next_generation = 0, fs_st = zero_stats,
     fs_write_limit = 0, fs_write_hit = None, fs_write_stopped = False\<rparr>"

subsection \<open>Access through a block or inode number\<close>

abbreviation buf_of :: "'c sfs_fs \<Rightarrow> u64 \<Rightarrow> sfs_buf" where
  "buf_of s b \<equiv> (case fs_bufs s b of None \<Rightarrow> zero_buf | Some x \<Rightarrow> x)"

abbreviation ino_of :: "'c sfs_fs \<Rightarrow> u32 \<Rightarrow> sfs_inode" where
  "ino_of s i \<equiv> (case fs_inodes s i of None \<Rightarrow> zero_inode | Some x \<Rightarrow> x)"

definition upd_buf :: "u64 \<Rightarrow> (sfs_buf \<Rightarrow> sfs_buf) \<Rightarrow> ('c, unit) fsact" where
  "upd_buf b f = upd (\<lambda>s. s\<lparr>fs_bufs := (fs_bufs s)(b := map_option f (fs_bufs s b))\<rparr>)"

definition upd_ino :: "u32 \<Rightarrow> (sfs_inode \<Rightarrow> sfs_inode) \<Rightarrow> ('c, unit) fsact" where
  "upd_ino i f = upd (\<lambda>s. s\<lparr>fs_inodes := (fs_inodes s)(i := map_option f (fs_inodes s i))\<rparr>)"

definition upd_txn :: "(sfs_txn \<Rightarrow> sfs_txn) \<Rightarrow> ('c, unit) fsact" where
  "upd_txn f = upd (\<lambda>s. s\<lparr>fs_txn := f (fs_txn s)\<rparr>)"

definition upd_st :: "(sfs_stats \<Rightarrow> sfs_stats) \<Rightarrow> ('c, unit) fsact" where
  "upd_st f = upd (\<lambda>s. s\<lparr>fs_st := f (fs_st s)\<rparr>)"

definition upd_jnl :: "(sfs_journal \<Rightarrow> sfs_journal) \<Rightarrow> ('c, unit) fsact" where
  "upd_jnl f = upd (\<lambda>s. s\<lparr>fs_jnl := f (fs_jnl s)\<rparr>)"

definition upd_pa :: "(sfs_patab \<Rightarrow> sfs_patab) \<Rightarrow> ('c, unit) fsact" where
  "upd_pa f = upd (\<lambda>s. s\<lparr>fs_pa := f (fs_pa s)\<rparr>)"

subsection \<open>The inline predicates of sfs\_internal.h\<close>

definition sfs_group_of_block :: "sfs_geo \<Rightarrow> u64 \<Rightarrow> u32" where
  "sfs_group_of_block g blk = ucast ((blk - ucast (g_first_data_block g)) div ucast (g_bpg g))"

definition sfs_group_of_inode :: "sfs_geo \<Rightarrow> u32 \<Rightarrow> u32" where
  "sfs_group_of_inode g ino = (ino - 1) div g_ipg g"

definition sfs_block_valid :: "sfs_geo \<Rightarrow> u64 \<Rightarrow> bool" where
  "sfs_block_valid g blk = (ucast (g_first_data_block g) \<le> blk \<and> blk < g_nblocks g)"

definition sfs_range_valid :: "sfs_geo \<Rightarrow> u64 \<Rightarrow> u64 \<Rightarrow> bool" where
  "sfs_range_valid g blk n =
    (ucast (g_first_data_block g) \<le> blk \<and> n \<le> g_nblocks g \<and> blk \<le> g_nblocks g - n)"

definition sfs_ino_valid :: "sfs_geo \<Rightarrow> u32 \<Rightarrow> bool" where
  "sfs_ino_valid g ino = (1 \<le> ino \<and> ino \<le> g_inodes_count g)"

definition sfs_is_dir :: "sfs_inode \<Rightarrow> bool" where
  "sfs_is_dir i = (in_mode i AND SFS_S_IFMT = SFS_S_IFDIR)"

definition sfs_is_reg :: "sfs_inode \<Rightarrow> bool" where
  "sfs_is_reg i = (in_mode i AND SFS_S_IFMT = SFS_S_IFREG)"

definition sfs_is_lnk :: "sfs_inode \<Rightarrow> bool" where
  "sfs_is_lnk i = (in_mode i AND SFS_S_IFMT = SFS_S_IFLNK)"

definition sfs_inode_meta_data :: "sfs_inode \<Rightarrow> bool" where
  "sfs_inode_meta_data i = (\<not> sfs_is_reg i)"

end
