(* ===== verification/Sfs_Dev.thy ===== *)
theory Sfs_Dev
  imports Sfs_State
begin

unbundle bit_operations_syntax

section \<open>The host callbacks and the block device (sfs\_cache.c, sfs\_super.c)\<close>

text \<open>
  The functions through which libsfs reaches its host: memory, clock, diagnostics, and block reads,
  writes and flushes with their range checks, statistics, the read-only guard and the
  fault-injection limit; and write coalescing (\<open>sfs_wrun\<close>), which gathers adjacent blocks into
  one vectored request.
\<close>

subsection \<open>Callbacks\<close>

definition ctx_call :: "('c \<Rightarrow> 'a \<times> 'c) \<Rightarrow> ('c, 'a) fsact" where
  "ctx_call f = (\<lambda>s. case f (fs_ctx s) of (r, c) \<Rightarrow> (r, s\<lparr>fs_ctx := c\<rparr>))"

definition sfs_alloc :: "nat \<Rightarrow> ('c, bool) fsact" where
  "sfs_alloc n = look (\<lambda>s. if n \<noteq> 0 \<and> n \<le> SFS_MAX_ALLOC then ctx_call (\<lambda>c. ops_alloc (fs_ops s) c n)
     else ret False)"

definition sfs_free :: "nat \<Rightarrow> ('c, unit) fsact" where
  "sfs_free n = look (\<lambda>s. ctx_call (\<lambda>c. ((), ops_free (fs_ops s) c n)))"

definition sfs_now :: "('c, u64) fsact" where
  "sfs_now = look (\<lambda>s. case ops_now (fs_ops s) of None \<Rightarrow> ret 0 | Some f \<Rightarrow> ctx_call f)"

definition sfs_log :: "string \<Rightarrow> ('c, unit) fsact" where
  "sfs_log msg = look (\<lambda>s. case ops_log (fs_ops s) of None \<Rightarrow> ret ()
     | Some f \<Rightarrow> ctx_call (\<lambda>c. ((), f c msg)))"

text \<open>The decimal digits of \<open>v\<close>, least significant first (\<open>num\<close> holds 24; 20 suffice).\<close>

fun logu_digits :: "nat \<Rightarrow> nat \<Rightarrow> string" where
  "logu_digits 0 v = []"
| "logu_digits (Suc k) v = char_of (48 + v mod 10) # (if v div 10 = 0 then [] else logu_digits k (v div 10))"

definition sfs_logu :: "string \<Rightarrow> u64 \<Rightarrow> ('c, unit) fsact" where
  "sfs_logu msg v = look (\<lambda>s. if ops_log (fs_ops s) = None then ret ()
     else sfs_log (take 136 msg @ rev (logu_digits 24 (unat v))))"

subsection \<open>Block reads and writes\<close>

definition dev_out_of_range :: "'c sfs_fs \<Rightarrow> u64 \<Rightarrow> u32 \<Rightarrow> u64 \<Rightarrow> bool" where
  "dev_out_of_range s blk cnt nbytes =
    (let g = fs_geo s; off = push_bit (g_bs_bits g) blk
     in g_nblocks g \<le> blk \<or> g_nblocks g - blk < ucast cnt \<or> ops_size (fs_ops s) < off + nbytes)"

definition sfs_dev_read :: "u64 \<Rightarrow> u32 \<Rightarrow> ('c, sfs_err + bytes) fsact" where
  "sfs_dev_read blk cnt = look (\<lambda>s.
     let off = push_bit (g_bs_bits (fs_geo s)) blk; nbytes = push_bit (g_bs_bits (fs_geo s)) cnt
     in if dev_out_of_range s blk cnt (ucast nbytes) then throw SFS_EIO
        else run (upd_st (\<lambda>t. t\<lparr>st_reads := st_reads t + 1, st_read_bytes := st_read_bytes t + ucast nbytes\<rparr>)) (\<lambda>_.
             run (ctx_call (\<lambda>c. ops_read (fs_ops s) c off nbytes)) (\<lambda>r.
               case r of None \<Rightarrow> throw SFS_EIO | Some d \<Rightarrow> ok d)))"

definition sfs_dev_write :: "u64 \<Rightarrow> bytes \<Rightarrow> u32 \<Rightarrow> ('c, sfs_err + unit) fsact" where
  "sfs_dev_write blk data cnt = look (\<lambda>s.
     let off = push_bit (g_bs_bits (fs_geo s)) blk; nbytes = push_bit (g_bs_bits (fs_geo s)) cnt
     in if fs_ro s then throw SFS_EROFS
        else if dev_out_of_range s blk cnt (ucast nbytes) then throw SFS_EIO
        else if fs_write_stopped s then throw SFS_EIO
        else if fs_write_limit s \<noteq> 0 \<and> fs_write_limit s \<le> st_writes (fs_st s) + 1
          then run (upd (\<lambda>s. s\<lparr>fs_write_stopped := True\<rparr>)) (\<lambda>_.
               run (case fs_write_hit s of None \<Rightarrow> ret () | Some f \<Rightarrow> ctx_call (\<lambda>c. ((), f c))) (\<lambda>_.
                 throw SFS_EIO))
        else run (upd_st (\<lambda>t. t\<lparr>st_writes := st_writes t + 1, st_write_bytes := st_write_bytes t + ucast nbytes\<rparr>)) (\<lambda>_.
             case ops_write (fs_ops s) of None \<Rightarrow> throw SFS_EIO
             | Some f \<Rightarrow> run (ctx_call (\<lambda>c. f c off data nbytes)) (\<lambda>good.
                 if good then ok () else throw SFS_EIO)))"

definition sfs_dev_writev :: "u64 \<Rightarrow> bytes list \<Rightarrow> ('c, sfs_err + unit) fsact" where
  "sfs_dev_writev blk bufs = look (\<lambda>s.
     let cnt = of_nat (length bufs) :: u32;
         off = push_bit (g_bs_bits (fs_geo s)) blk;
         nbytes = push_bit (g_bs_bits (fs_geo s)) (ucast cnt) :: u64
     in if fs_ro s then throw SFS_EROFS
        else if dev_out_of_range s blk cnt nbytes then throw SFS_EIO
        else if ops_writev (fs_ops s) = None \<or> fs_write_limit s \<noteq> 0
          then forE (zip [0..<length bufs] bufs) (\<lambda>(i, d). sfs_dev_write (blk + of_nat i) d 1)
        else if fs_write_stopped s then throw SFS_EIO
        else run (upd_st (\<lambda>t. t\<lparr>st_writes := st_writes t + 1, st_write_bytes := st_write_bytes t + nbytes\<rparr>)) (\<lambda>_.
             case ops_writev (fs_ops s) of None \<Rightarrow> throw SFS_EIO
             | Some f \<Rightarrow> run (ctx_call (\<lambda>c. f c off bufs cnt (g_bs (fs_geo s)))) (\<lambda>good.
                 if good then ok () else throw SFS_EIO)))"

definition sfs_dev_flush :: "('c, sfs_err + unit) fsact" where
  "sfs_dev_flush = look (\<lambda>s. if fs_write_stopped s then throw SFS_EIO
     else run (upd_st (\<lambda>t. t\<lparr>st_flushes := st_flushes t + 1\<rparr>)) (\<lambda>_.
          case ops_flush (fs_ops s) of None \<Rightarrow> ok ()
          | Some f \<Rightarrow> run (ctx_call f) (\<lambda>good. if good then ok () else throw SFS_EIO)))"

subsection \<open>Write coalescing\<close>

record sfs_wrun =
  r_start :: u64
  r_bufs :: "bytes list"

text \<open>A run is passed by address in C: the functions give the result code and the new run.\<close>

definition sfs_wrun_flush :: "sfs_wrun \<Rightarrow> ('c, (sfs_err + unit) \<times> sfs_wrun) fsact" where
  "sfs_wrun_flush r =
     run (if length (r_bufs r) = 1 then sfs_dev_write (r_start r) (r_bufs r ! 0) 1
          else if r_bufs r \<noteq> [] then sfs_dev_writev (r_start r) (r_bufs r)
          else ok ()) (\<lambda>rc. ret (rc, r\<lparr>r_bufs := []\<rparr>))"

definition wrun_put :: "sfs_wrun \<Rightarrow> u64 \<Rightarrow> bytes \<Rightarrow> sfs_wrun" where
  "wrun_put r blk data = (let r = (if r_bufs r = [] then r\<lparr>r_start := blk\<rparr> else r)
     in r\<lparr>r_bufs := r_bufs r @ [data]\<rparr>)"

definition sfs_wrun_add :: "sfs_wrun \<Rightarrow> u64 \<Rightarrow> bytes \<Rightarrow> ('c, (sfs_err + unit) \<times> sfs_wrun) fsact" where
  "sfs_wrun_add r blk data =
    (if r_bufs r \<noteq> [] \<and> (r_start r + of_nat (length (r_bufs r)) \<noteq> blk \<or> length (r_bufs r) = WRUN_MAX)
     then run (sfs_wrun_flush r) (\<lambda>(rc, r). case rc of
            Inl e \<Rightarrow> ret (Inl e, r)
          | Inr _ \<Rightarrow> ret (Inr (), wrun_put r blk data))
     else ret (Inr (), wrun_put r blk data))"

text \<open>\<open>for (i = 0; i < n && !rc; ++i) rc = sfs_wrun_add(\<dots>)\<close> and the flush that follows it.\<close>

fun wrun_adds :: "sfs_wrun \<Rightarrow> (u64 \<times> bytes) list \<Rightarrow> ('c, (sfs_err + unit) \<times> sfs_wrun) fsact" where
  "wrun_adds r [] = ret (Inr (), r)"
| "wrun_adds r ((blk, data) # ws) = run (sfs_wrun_add r blk data) (\<lambda>(rc, r). case rc of
       Inl e \<Rightarrow> ret (Inl e, r)
     | Inr _ \<Rightarrow> wrun_adds r ws)"

definition wrun_write_all :: "(u64 \<times> bytes) list \<Rightarrow> ('c, sfs_err + unit) fsact" where
  "wrun_write_all ws = run (wrun_adds \<lparr>r_start = 0, r_bufs = []\<rparr> ws) (\<lambda>(rc, r). case rc of
       Inl e \<Rightarrow> throw e
     | Inr _ \<Rightarrow> run (sfs_wrun_flush r) (\<lambda>(rc, _). ret rc))"

end
