(* ===== verification/Sfs_Cache.thy ===== *)
theory Sfs_Cache
  imports Sfs_Dev "HOL-Library.Sublist"
begin

unbundle bit_operations_syntax

section \<open>The block cache (sfs\_cache.c)\<close>

text \<open>
  Every function of \<^verbatim>\<open>sfs_cache.c\<close> above the device layer. The handle of a buffer is its
  block number. The intrusive lists of C are lists of block numbers; a buffer is on the
  transaction list or on the late list, never on both (C links both through the one field
  \<open>tnext\<close>, and no caller joins a late buffer to the transaction).

  The lemmas: the merge sort and the shell sort sort. \<open>Sfs_Cache_Wf\<close> shows the structural invariant of the
  cache (the LRU list holds every cached block once, the counter is its length) for every operation.
\<close>

subsection \<open>Structure\<close>

definition hash_of :: "u64 \<Rightarrow> nat" where
  "hash_of blk = unat (ucast (drop_bit 55 (blk * 0x9E3779B97F4A7C15)) AND (0x1FF :: u32))"

definition sfs_cache_init :: "u32 \<Rightarrow> ('c, sfs_err + unit) fsact" where
  "sfs_cache_init blocks = run (sfs_alloc (BUF_HASH * 8)) (\<lambda>good.
     if \<not> good then throw SFS_ENOMEM
     else run (upd (\<lambda>s. s\<lparr>fs_max_bufs := (if blocks < 16 then 16 else blocks), fs_nbufs := 0,
                       fs_bufs := Map.empty, fs_lru := []\<rparr>)) (\<lambda>_. ok ()))"

definition lru_unlink :: "u64 \<Rightarrow> ('c, unit) fsact" where
  "lru_unlink b = upd (\<lambda>s. s\<lparr>fs_lru := remove1 b (fs_lru s)\<rparr>)"

definition lru_push_front :: "u64 \<Rightarrow> ('c, unit) fsact" where
  "lru_push_front b = upd (\<lambda>s. s\<lparr>fs_lru := b # fs_lru s\<rparr>)"

definition hash_unlink :: "u64 \<Rightarrow> ('c, unit) fsact" where
  "hash_unlink b = upd (\<lambda>s. s\<lparr>fs_bufs := (fs_bufs s)(b := None)\<rparr>)"

definition buf_destroy :: "('c, unit) fsact" where
  "buf_destroy = look (\<lambda>s. run (sfs_free (unat (g_bs (fs_geo s)))) (\<lambda>_.
     run (sfs_free sizeof_buf) (\<lambda>_. upd (\<lambda>s. s\<lparr>fs_nbufs := fs_nbufs s - 1\<rparr>))))"

text \<open>The three calls that take a buffer out of the cache.\<close>

definition buf_drop :: "u64 \<Rightarrow> ('c, unit) fsact" where
  "buf_drop b = run (lru_unlink b) (\<lambda>_. run (hash_unlink b) (\<lambda>_. buf_destroy))"

definition clear_flags :: "u32 \<Rightarrow> sfs_buf \<Rightarrow> sfs_buf" where
  "clear_flags m b = b\<lparr>b_flags := b_flags b AND NOT m\<rparr>"

definition set_flags :: "u32 \<Rightarrow> sfs_buf \<Rightarrow> sfs_buf" where
  "set_flags m b = b\<lparr>b_flags := b_flags b OR m\<rparr>"

definition write_buf :: "u64 \<Rightarrow> ('c, sfs_err + unit) fsact" where
  "write_buf b = look (\<lambda>s. chk (sfs_dev_write b (b_data (buf_of s b)) 1) (\<lambda>_.
     run (upd_buf b (clear_flags B_DIRTY)) (\<lambda>_. ok ())))"

definition writable_data :: "sfs_buf option \<Rightarrow> bool" where
  "writable_data b = (case b of None \<Rightarrow> False | Some x \<Rightarrow>
     b_flags x AND (B_DIRTY OR B_UPTODATE OR B_JDIRTY OR B_LATE) = B_DIRTY OR B_UPTODATE)"

text \<open>The \<open>while\<close> loop of \<open>write_cluster\<close>; \<open>k\<close> is 32 at the start, and the loop's own bound
  \<open>b->blk - first < WRUN_MAX / 2\<close> stops it when \<open>k\<close> has reached 0.\<close>

fun cluster_first :: "(u64 \<rightharpoonup> sfs_buf) \<Rightarrow> u64 \<Rightarrow> nat \<Rightarrow> u64 \<Rightarrow> u64" where
  "cluster_first bufs blk 0 first = first"
| "cluster_first bufs blk (Suc k) first =
     (if 0 < first \<and> blk - first < of_nat (WRUN_MAX div 2) \<and> writable_data (bufs (first - 1))
      then cluster_first bufs blk k (first - 1) else first)"

definition cluster_run :: "'c sfs_fs \<Rightarrow> u64 \<Rightarrow> u64 list" where
  "cluster_run s b =
    (let first = cluster_first (fs_bufs s) b (WRUN_MAX div 2) b
     in takeWhile (\<lambda>c. writable_data (fs_bufs s c) \<and> c < g_nblocks (fs_geo s))
          (map (\<lambda>i. first + of_nat i) [0..<WRUN_MAX]))"

definition write_cluster :: "u64 \<Rightarrow> ('c, sfs_err + unit) fsact" where
  "write_cluster b = look (\<lambda>s.
     if fs_mflags s AND SFS_MOUNT_NAIVE \<noteq> 0 then write_buf b
     else let cl = cluster_run s b in
       chk (wrun_write_all (map (\<lambda>c. (c, b_data (buf_of s c))) cl)) (\<lambda>_.
       run (forA cl (\<lambda>c. upd_buf c (clear_flags B_DIRTY))) (\<lambda>_. ok ())))"

definition evictable :: "sfs_buf \<Rightarrow> bool" where
  "evictable b = (b_refs b = 0 \<and> b_flags b AND (B_JDIRTY OR B_LATE) = 0)"

definition evict_one :: "('c, sfs_err + unit) fsact" where
  "evict_one = look (\<lambda>s. case find (\<lambda>b. evictable (buf_of s b)) (rev (fs_lru s)) of
       None \<Rightarrow> throw SFS_EBUSY
     | Some b \<Rightarrow>
         chk (if b_flags (buf_of s b) AND B_DIRTY \<noteq> 0 then write_cluster b else ok ()) (\<lambda>_.
         run (buf_drop b) (\<lambda>_.
         run (upd_st (\<lambda>t. t\<lparr>st_cache_evictions := st_cache_evictions t + 1\<rparr>)) (\<lambda>_. ok ()))))"

text \<open>The \<open>while (fs->nbufs >= fs->max_bufs)\<close> loop of \<open>get_buf\<close>. Every turn that goes on has
  evicted a buffer, so the length of the LRU list bounds the number of turns.\<close>

fun evict_loop :: "nat \<Rightarrow> ('c, sfs_err + unit) fsact" where
  "evict_loop 0 = ok ()"
| "evict_loop (Suc k) = look (\<lambda>s. if fs_max_bufs s \<le> fs_nbufs s
     then run evict_one (\<lambda>rc. case rc of
            Inl e \<Rightarrow> if e = SFS_EBUSY then ok () else throw e
          | Inr _ \<Rightarrow> evict_loop k)
     else ok ())"

subsection \<open>Getting buffers\<close>

definition get_buf_hit :: "u64 \<Rightarrow> bool \<Rightarrow> ('c, sfs_err + u64) fsact" where
  "get_buf_hit blk read = look (\<lambda>s.
     run (upd_st (\<lambda>t. t\<lparr>st_cache_hits := st_cache_hits t + 1\<rparr>)) (\<lambda>_.
     run (whenA (b_refs (buf_of s blk) = 0 \<or> fs_lru s = [] \<or> hd (fs_lru s) \<noteq> blk)
           (run (lru_unlink blk) (\<lambda>_. lru_push_front blk))) (\<lambda>_.
     run (upd_buf blk (\<lambda>b. b\<lparr>b_refs := b_refs b + 1\<rparr>)) (\<lambda>_.
     if read \<and> b_flags (buf_of s blk) AND B_UPTODATE = 0
     then run (sfs_dev_read blk 1) (\<lambda>rc. case rc of
            Inl e \<Rightarrow> run (upd_buf blk (\<lambda>b. b\<lparr>b_refs := b_refs b - 1\<rparr>)) (\<lambda>_. throw e)
          | Inr d \<Rightarrow> run (upd_buf blk (\<lambda>b. b\<lparr>b_data := d,
                b_flags := (b_flags b AND NOT (B_VERIFIED OR B_COMPUTED)) OR B_UPTODATE\<rparr>)) (\<lambda>_. ok blk))
     else ok blk))))"

definition buf_insert :: "u64 \<Rightarrow> bytes \<Rightarrow> u32 \<Rightarrow> ('c, unit) fsact" where
  "buf_insert blk d flags =
     run (upd (\<lambda>s. s\<lparr>fs_bufs := (fs_bufs s)(blk \<mapsto> \<lparr>b_data = d, b_flags = flags, b_refs = 1\<rparr>)\<rparr>)) (\<lambda>_.
       lru_push_front blk)"

definition get_buf_miss :: "u64 \<Rightarrow> bool \<Rightarrow> ('c, sfs_err + u64) fsact" where
  "get_buf_miss blk read =
     run (upd_st (\<lambda>t. t\<lparr>st_cache_misses := st_cache_misses t + 1\<rparr>)) (\<lambda>_. look (\<lambda>s.
     chk (evict_loop (Suc (length (fs_lru s)))) (\<lambda>_.
     run (sfs_alloc sizeof_buf) (\<lambda>good. if \<not> good then throw SFS_ENOMEM else look (\<lambda>s.
     run (sfs_alloc (unat (g_bs (fs_geo s)))) (\<lambda>good.
       if \<not> good then run (sfs_free sizeof_buf) (\<lambda>_. throw SFS_ENOMEM)
       else run (upd (\<lambda>s. s\<lparr>fs_nbufs := fs_nbufs s + 1\<rparr>)) (\<lambda>_.
         if read
         then run (sfs_dev_read blk 1) (\<lambda>rc. case rc of
                Inl e \<Rightarrow> run buf_destroy (\<lambda>_. throw e)
              | Inr d \<Rightarrow> run (buf_insert blk d B_UPTODATE) (\<lambda>_. ok blk))
         else run (buf_insert blk (replicate (unat (g_bs (fs_geo s))) 0) (B_UPTODATE OR B_NEW)) (\<lambda>_. ok blk))))))))"

definition get_buf :: "u64 \<Rightarrow> bool \<Rightarrow> ('c, sfs_err + u64) fsact" where
  "get_buf blk read = look (\<lambda>s. case fs_bufs s blk of
     Some _ \<Rightarrow> get_buf_hit blk read | None \<Rightarrow> get_buf_miss blk read)"

definition sfs_bread :: "u64 \<Rightarrow> ('c, sfs_err + u64) fsact" where
  "sfs_bread blk = look (\<lambda>s. if g_nblocks (fs_geo s) \<le> blk then throw SFS_ECORRUPT else get_buf blk True)"

definition sfs_bnew :: "u64 \<Rightarrow> ('c, sfs_err + u64) fsact" where
  "sfs_bnew blk = look (\<lambda>s. if g_nblocks (fs_geo s) \<le> blk then throw SFS_ECORRUPT
     else chk (get_buf blk False) (\<lambda>b.
       run (upd_buf b (\<lambda>x. x\<lparr>
              b_data := (if b_flags x AND B_NEW = 0 then replicate (unat (g_bs (fs_geo s))) 0 else b_data x),
              b_flags := (b_flags x AND (B_DIRTY OR B_JDIRTY OR B_LATE)) OR B_UPTODATE OR B_VERIFIED\<rparr>)) (\<lambda>_.
       ok b)))"

definition sfs_bfind :: "u64 \<Rightarrow> ('c, u64 option) fsact" where
  "sfs_bfind blk = look (\<lambda>s. case fs_bufs s blk of None \<Rightarrow> ret None
     | Some b \<Rightarrow> if b_flags b AND B_UPTODATE = 0 then ret None
         else run (upd_buf blk (\<lambda>b. b\<lparr>b_refs := b_refs b + 1\<rparr>)) (\<lambda>_. ret (Some blk)))"

definition sfs_bput :: "u64 \<Rightarrow> ('c, unit) fsact" where
  "sfs_bput b = upd_buf b (\<lambda>x. if b_refs x \<noteq> 0 then x\<lparr>b_refs := b_refs x - 1\<rparr> else x)"

subsection \<open>Dirty buffers\<close>

definition mods_inc :: "('c, unit) fsact" where
  "mods_inc = upd (\<lambda>s. s\<lparr>fs_mods := fs_mods s + 1\<rparr>)"

definition sfs_bdirty_meta :: "u64 \<Rightarrow> ('c, sfs_err + unit) fsact" where
  "sfs_bdirty_meta b = look (\<lambda>s. if fs_ro s then throw SFS_EROFS
     else run mods_inc (\<lambda>_.
          run (upd_buf b (clear_flags (B_NEW OR B_COMPUTED))) (\<lambda>_.
          case fs_bufs s b of None \<Rightarrow> ok ()
          | Some x \<Rightarrow> if b_flags x AND B_JDIRTY \<noteq> 0 then ok ()
              else run (upd_buf b (set_flags B_JDIRTY)) (\<lambda>_.
                   run (upd_txn (\<lambda>t. t\<lparr>t_bufs := b # t_bufs t, t_nbufs := t_nbufs t + 1\<rparr>)) (\<lambda>_. ok ())))))"

definition sfs_bdirty_data :: "u64 \<Rightarrow> ('c, unit) fsact" where
  "sfs_bdirty_data b = upd_buf b (\<lambda>x. x\<lparr>b_flags := (b_flags x AND NOT B_NEW) OR B_DIRTY\<rparr>)"

definition sfs_bdirty_late :: "u64 \<Rightarrow> ('c, unit) fsact" where
  "sfs_bdirty_late b = look (\<lambda>s.
     run (upd_buf b (\<lambda>x. x\<lparr>b_flags := (b_flags x AND NOT B_NEW) OR B_DIRTY\<rparr>)) (\<lambda>_.
     case fs_bufs s b of None \<Rightarrow> ret ()
     | Some x \<Rightarrow> if b_flags x AND (B_LATE OR B_JDIRTY) \<noteq> 0 then ret ()
         else run (upd_buf b (set_flags B_LATE)) (\<lambda>_. upd_txn (\<lambda>t. t\<lparr>t_late := b # t_late t\<rparr>))))"

definition sfs_release_late :: "('c, unit) fsact" where
  "sfs_release_late = look (\<lambda>s.
     run (forA (t_late (fs_txn s)) (\<lambda>b. upd_buf b (clear_flags B_LATE))) (\<lambda>_.
       upd_txn (\<lambda>t. t\<lparr>t_late := []\<rparr>)))"

definition sfs_bforget :: "u64 \<Rightarrow> ('c, unit) fsact" where
  "sfs_bforget blk = look (\<lambda>s. case fs_bufs s blk of None \<Rightarrow> ret ()
     | Some b \<Rightarrow>
       run (if b_flags b AND (B_JDIRTY OR B_LATE) \<noteq> 0
            then run (if b_flags b AND B_JDIRTY \<noteq> 0
                      then upd_txn (\<lambda>t. if blk \<in> set (t_bufs t)
                             then t\<lparr>t_bufs := remove1 blk (t_bufs t), t_nbufs := t_nbufs t - 1\<rparr> else t)
                      else upd_txn (\<lambda>t. t\<lparr>t_late := remove1 blk (t_late t)\<rparr>)) (\<lambda>_.
                 upd_buf blk (clear_flags (B_JDIRTY OR B_LATE)))
            else ret ()) (\<lambda>_.
       run (upd_buf blk (clear_flags (B_DIRTY OR B_UPTODATE OR B_VERIFIED OR B_COMPUTED))) (\<lambda>_.
       if b_refs b \<noteq> 0 then ret () else buf_drop blk)))"

definition late_unlink :: "u64 \<Rightarrow> ('c, unit) fsact" where
  "late_unlink b = run (upd_txn (\<lambda>t. t\<lparr>t_late := remove1 b (t_late t)\<rparr>)) (\<lambda>_.
     upd_buf b (clear_flags B_LATE))"

definition binval_one :: "u64 \<Rightarrow> ('c, unit) fsact" where
  "binval_one blk = look (\<lambda>s. case fs_bufs s blk of None \<Rightarrow> ret ()
     | Some b \<Rightarrow> if b_flags b AND B_JDIRTY \<noteq> 0 then ret ()
       else run (whenA (b_flags b AND B_LATE \<noteq> 0) (late_unlink blk)) (\<lambda>_.
            run (upd_buf blk (clear_flags (B_DIRTY OR B_UPTODATE OR B_VERIFIED))) (\<lambda>_.
            if b_refs b \<noteq> 0 then ret () else buf_drop blk)))"

definition sfs_binval_data :: "u64 \<Rightarrow> nat \<Rightarrow> ('c, unit) fsact" where
  "sfs_binval_data blk cnt = look (\<lambda>s. if fs_nbufs s = 0 then ret ()
     else forA [0..<cnt] (\<lambda>i. binval_one (blk + of_nat i)))"

text \<open>\<open>sfs_boverlay\<close> copies newer cached content over the caller's buffer \<open>dst\<close>.\<close>

definition sfs_boverlay :: "'c sfs_fs \<Rightarrow> u64 \<Rightarrow> nat \<Rightarrow> bytes \<Rightarrow> bytes" where
  "sfs_boverlay s blk cnt dst = (if fs_nbufs s = 0 then dst
     else fold (\<lambda>i d. case fs_bufs s (blk + of_nat i) of None \<Rightarrow> d
            | Some b \<Rightarrow> if b_flags b AND (B_UPTODATE OR B_DIRTY) = B_UPTODATE OR B_DIRTY
                then blit d (i * unat (g_bs (fs_geo s))) (take (unat (g_bs (fs_geo s))) (b_data b)) else d)
          [0..<cnt] dst)"

definition drop_clean_one :: "u64 \<Rightarrow> ('c, unit) fsact" where
  "drop_clean_one b = look (\<lambda>s.
     if b_refs (buf_of s b) \<noteq> 0 \<or> b_flags (buf_of s b) AND (B_JDIRTY OR B_DIRTY) \<noteq> 0 then ret ()
     else buf_drop b)"

definition sfs_cache_drop_clean :: "('c, unit) fsact" where
  "sfs_cache_drop_clean = look (\<lambda>s. forA (rev (fs_lru s)) drop_clean_one)"

subsection \<open>Sorting\<close>

fun merge_sorted :: "u64 list \<Rightarrow> u64 list \<Rightarrow> u64 list" where
  "merge_sorted [] bs = bs"
| "merge_sorted as [] = as"
| "merge_sorted (a # as) (b # bs) =
     (if a \<le> b then a # merge_sorted as (b # bs) else b # merge_sorted (a # as) bs)"

text \<open>\<open>runs[48]\<close> as a list of 48 runs (\<open>[]\<close> is the null pointer). The inner \<open>for\<close> loop of
  \<open>sfs_txn_sort\<close> carries the run \<open>b\<close> to the first free slot, merging on the way.\<close>

fun bucket_push :: "u64 list list \<Rightarrow> u64 list \<Rightarrow> u64 list list" where
  "bucket_push [] b = []"
| "bucket_push [r] b = [if r \<noteq> [] then merge_sorted r b else b]"
| "bucket_push (r # rs) b = (if r \<noteq> [] then [] # bucket_push rs (merge_sorted r b) else b # rs)"

fun bucket_join :: "u64 list list \<Rightarrow> u64 list \<Rightarrow> u64 list" where
  "bucket_join [] b = b"
| "bucket_join (r # rs) b =
     bucket_join rs (if r \<noteq> [] then (if b \<noteq> [] then merge_sorted r b else r) else b)"

definition txn_sort_list :: "u64 list \<Rightarrow> u64 list" where
  "txn_sort_list bs = bucket_join (fold (\<lambda>b runs. bucket_push runs [b]) bs (replicate 48 [])) []"

definition sfs_txn_sort :: "('c, unit) fsact" where
  "sfs_txn_sort = upd_txn (\<lambda>t. t\<lparr>t_bufs := txn_sort_list (t_bufs t)\<rparr>)"

text \<open>The shell sort of \<open>sfs_cache_write_data\<close> on the array \<open>arr\<close> of buffers.\<close>

function shell_shift :: "nat \<Rightarrow> u64 list \<Rightarrow> u64 \<Rightarrow> nat \<Rightarrow> u64 list" where
  "shell_shift gap arr t j =
     (if 0 < gap \<and> gap \<le> j \<and> t < arr ! (j - gap)
      then shell_shift gap (arr[j := arr ! (j - gap)]) t (j - gap) else arr[j := t])"
  by auto
termination
  by (relation "measure (\<lambda>(_, _, _, j). j)") auto

declare shell_shift.simps [simp del]

definition shell_pass :: "nat \<Rightarrow> u64 list \<Rightarrow> u64 list" where
  "shell_pass gap arr = fold (\<lambda>i arr. shell_shift gap arr (arr ! i) i) [gap..<length arr] arr"

function shell_gaps :: "nat \<Rightarrow> u64 list \<Rightarrow> u64 list" where
  "shell_gaps gap arr = (if gap = 0 then arr else shell_gaps (gap div 2) (shell_pass gap arr))"
  by auto
termination
  by (relation "measure fst") auto

declare shell_gaps.simps [simp del]

definition shell_sort :: "u64 list \<Rightarrow> u64 list" where
  "shell_sort arr = shell_gaps (length arr div 2) arr"

subsection \<open>Writing everything back\<close>

definition dirty_data :: "sfs_buf \<Rightarrow> bool" where
  "dirty_data b = (b_flags b AND (B_DIRTY OR B_UPTODATE OR B_LATE) = B_DIRTY OR B_UPTODATE)"

text \<open>The scan that fills \<open>arr\<close>: the dirty data buffers met before \<open>cap\<close> are found, and the rest of
  the list.\<close>

fun scan_dirty :: "(u64 \<Rightarrow> bool) \<Rightarrow> nat \<Rightarrow> u64 list \<Rightarrow> u64 list \<times> u64 list" where
  "scan_dirty P 0 bs = ([], bs)"
| "scan_dirty P (Suc cap) [] = ([], [])"
| "scan_dirty P (Suc cap) (b # bs) =
     (if P b then (case scan_dirty P cap bs of (arr, rest) \<Rightarrow> (b # arr, rest))
      else scan_dirty P (Suc cap) bs)"

lemma scan_dirty_shorter: "length (snd (scan_dirty P cap bs)) \<le> length bs"
  by (induction P cap bs rule: scan_dirty.induct) (auto split: prod.split)

lemma scan_dirty_progress: "0 < cap \<Longrightarrow> bs \<noteq> [] \<Longrightarrow> length (snd (scan_dirty P cap bs)) < length bs"
proof (induction P cap bs rule: scan_dirty.induct)
  case (3 P cap b bs)
  then show ?case
    using scan_dirty_shorter [of P cap bs] by (cases bs) (auto split: prod.split)
qed auto

text \<open>The \<open>while (b)\<close> loop; every turn takes at least one buffer off the list, so the length of
  the list bounds the number of turns (\<open>write_batches_fuel\<close>).\<close>

fun write_batches :: "nat \<Rightarrow> u64 list \<Rightarrow> ('c, sfs_err + unit) fsact" where
  "write_batches 0 bs = ok ()"
| "write_batches (Suc k) bs = (if bs = [] then ok () else look (\<lambda>s.
     case scan_dirty (\<lambda>b. dirty_data (buf_of s b)) (SFS_MAX_ALLOC div 8) bs of (arr, rest) \<Rightarrow>
       chk (wrun_write_all (map (\<lambda>b. (b, b_data (buf_of s b))) (shell_sort arr))) (\<lambda>_.
       run (forA (shell_sort arr) (\<lambda>b. upd_buf b (clear_flags B_DIRTY))) (\<lambda>_.
         write_batches k rest))))"

definition sfs_cache_write_data :: "('c, sfs_err + unit) fsact" where
  "sfs_cache_write_data = look (\<lambda>s. run (sfs_alloc SFS_MAX_ALLOC) (\<lambda>good.
     if \<not> good
     then forE (rev (fs_lru s)) (\<lambda>b. look (\<lambda>s. if dirty_data (buf_of s b) then write_buf b else ok ()))
     else run (write_batches (length (fs_lru s)) (rev (fs_lru s))) (\<lambda>rc. run (sfs_free SFS_MAX_ALLOC) (\<lambda>_. ret rc))))"

definition sfs_cache_write_meta_direct :: "('c, sfs_err + unit) fsact" where
  "sfs_cache_write_meta_direct = look (\<lambda>s.
     let bs = t_bufs (fs_txn s);
         ws = map (\<lambda>b. (b, b_data (buf_of s b))) (filter (\<lambda>b. b_flags (buf_of s b) AND B_UPTODATE \<noteq> 0) bs)
     in run (wrun_write_all ws) (\<lambda>rc.
        run (forA bs (\<lambda>b. run (upd_buf b (clear_flags B_JDIRTY)) (\<lambda>_.
               upd_st (\<lambda>t. t\<lparr>st_checkpoint_blocks := st_checkpoint_blocks t + 1\<rparr>)))) (\<lambda>_.
        run (upd_txn (\<lambda>t. t\<lparr>t_bufs := [], t_nbufs := 0\<rparr>)) (\<lambda>_. ret rc))))"

definition sfs_cache_destroy :: "('c, unit) fsact" where
  "sfs_cache_destroy = look (\<lambda>s.
     run (forA (fs_lru s) (\<lambda>b. run buf_destroy (\<lambda>_. hash_unlink b))) (\<lambda>_.
     run (upd (\<lambda>s. s\<lparr>fs_lru := []\<rparr>)) (\<lambda>_.
     run (upd_txn (\<lambda>t. t\<lparr>t_late := []\<rparr>)) (\<lambda>_. sfs_free (BUF_HASH * 8)))))"

declare write_batches.simps [simp del]

lemma write_batches_fuel:
  "length bs \<le> k \<Longrightarrow> (write_batches k bs :: ('c, sfs_err + unit) fsact) = write_batches (length bs) bs"
proof (induction "length bs" arbitrary: bs k rule: less_induct)
  case less
  show ?case
  proof (cases bs)
    case (Cons b bs')
    then obtain k' where k: "k = Suc k'"
      using less.prems by (cases k) auto
    have rest: "(write_batches k' rest :: ('c, sfs_err + unit) fsact) = write_batches (length bs') rest"
      if "scan_dirty P (SFS_MAX_ALLOC div 8) bs = (arr, rest)" for P arr rest
    proof -
      have lt: "length rest < length bs"
        using scan_dirty_progress [of "SFS_MAX_ALLOC div 8" bs P] that Cons by auto
      then have "(write_batches k' rest :: ('c, sfs_err + unit) fsact) = write_batches (length rest) rest"
        using less.prems Cons k by (intro less.hyps) auto
      moreover have "(write_batches (length bs') rest :: ('c, sfs_err + unit) fsact) = write_batches (length rest) rest"
        using lt Cons by (intro less.hyps) auto
      ultimately show ?thesis
        by simp
    qed
    show ?thesis
    proof
      fix s :: "'c sfs_fs"
      obtain arr rest' where sc: "scan_dirty (\<lambda>b. dirty_data (buf_of s b)) (SFS_MAX_ALLOC div 8) bs = (arr, rest')"
        by fastforce
      then show "write_batches k bs s = write_batches (length bs) bs s"
        using rest [OF sc] by (simp add: k Cons write_batches.simps)
    qed
  qed (cases k, auto simp: write_batches.simps)
qed

subsection \<open>The sorts sort\<close>

lemma mset_merge_sorted: "mset (merge_sorted xs ys) = mset xs + mset ys"
  by (induction xs ys rule: merge_sorted.induct) auto

lemma sorted_merge_sorted: "sorted xs \<Longrightarrow> sorted ys \<Longrightarrow> sorted (merge_sorted xs ys)"
proof (induction xs ys rule: merge_sorted.induct)
  case (3 a as b bs)
  have "set (merge_sorted xs ys) = set xs \<union> set ys" for xs ys
    by (metis mset_merge_sorted set_mset_mset set_mset_union)
  with 3 show ?case
    by (auto intro: order_trans)
qed auto

definition runs_mset :: "u64 list list \<Rightarrow> u64 multiset" where
  "runs_mset rs = sum_list (map mset rs)"

lemma bucket_push_mset: "rs \<noteq> [] \<Longrightarrow> runs_mset (bucket_push rs b) = runs_mset rs + mset b"
  by (induction rs b rule: bucket_push.induct) (auto simp: runs_mset_def mset_merge_sorted)

lemma bucket_push_sorted:
  "\<forall>r\<in>set rs. sorted r \<Longrightarrow> sorted b \<Longrightarrow> \<forall>r\<in>set (bucket_push rs b). sorted r"
  by (induction rs b rule: bucket_push.induct) (auto simp: sorted_merge_sorted)

lemma bucket_push_length: "length (bucket_push rs b) = length rs"
  by (induction rs b rule: bucket_push.induct) auto

lemma bucket_join_mset: "mset (bucket_join rs b) = runs_mset rs + mset b"
  by (induction rs b rule: bucket_join.induct) (auto simp: runs_mset_def mset_merge_sorted)

lemma bucket_join_sorted: "\<forall>r\<in>set rs. sorted r \<Longrightarrow> sorted b \<Longrightarrow> sorted (bucket_join rs b)"
  by (induction rs b rule: bucket_join.induct) (auto simp: sorted_merge_sorted)

lemma txn_sort_buckets:
  "rs \<noteq> [] \<Longrightarrow> \<forall>r\<in>set rs. sorted r \<Longrightarrow>
   (\<forall>r\<in>set (fold (\<lambda>b runs. bucket_push runs [b]) bs rs). sorted r)
     \<and> runs_mset (fold (\<lambda>b runs. bucket_push runs [b]) bs rs) = runs_mset rs + mset bs"
proof (induction bs arbitrary: rs)
  case (Cons b bs)
  have "bucket_push rs [b] \<noteq> []"
    using Cons.prems(1) bucket_push_length [of rs "[b]"] by auto
  moreover have "\<forall>r\<in>set (bucket_push rs [b]). sorted r"
    using Cons.prems(2) by (rule bucket_push_sorted) simp
  ultimately have "(\<forall>r\<in>set (fold (\<lambda>b runs. bucket_push runs [b]) bs (bucket_push rs [b])). sorted r)
      \<and> runs_mset (fold (\<lambda>b runs. bucket_push runs [b]) bs (bucket_push rs [b])) = runs_mset (bucket_push rs [b]) + mset bs"
    by (rule Cons.IH)
  then show ?case
    by (simp only: fold_Cons o_apply bucket_push_mset [OF Cons.prems(1)]) simp
qed simp

lemma runs_mset_empty: "runs_mset (replicate n []) = {#}"
  by (induction n) (simp_all add: runs_mset_def)

lemma txn_sort_list_sorts: "sorted (txn_sort_list bs) \<and> mset (txn_sort_list bs) = mset bs"
proof -
  have "\<forall>r\<in>set (replicate 48 []). sorted (r :: u64 list)" "runs_mset (replicate 48 []) = {#}"
    by (auto simp: runs_mset_empty)
  then show ?thesis
    using txn_sort_buckets [of "replicate 48 []" bs]
    by (simp add: txn_sort_list_def bucket_join_sorted bucket_join_mset)
qed

text \<open>Shell sort: every pass permutes, and the last pass (gap 1) is an insertion sort.\<close>

lemma shell_shift_length [simp]: "length (shell_shift gap arr t j) = length arr"
  by (induction gap arr t j rule: shell_shift.induct) (subst shell_shift.simps, simp)

lemma shell_shift_mset:
  "j < length arr \<Longrightarrow> mset (shell_shift gap arr t j) = mset (arr[j := t])"
proof (induction gap arr t j rule: shell_shift.induct)
  case (1 gap arr t j)
  show ?case
  proof (cases "0 < gap \<and> gap \<le> j \<and> t < arr ! (j - gap)")
    case True
    let ?a = "arr[j := arr ! (j - gap)]"
    have "mset (shell_shift gap arr t j) = mset (?a[j - gap := t])"
      using True 1 by (subst shell_shift.simps) simp
    also have "\<dots> = mset (arr[j := t])"
      using True 1(2) by (simp add: mset_update nth_list_update multiset_eq_iff)
    finally show ?thesis .
  next
    case False
    then have "shell_shift gap arr t j = arr[j := t]"
      by (subst shell_shift.simps) (simp only: if_False)
    then show ?thesis
      by simp
  qed
qed

lemma shell_pass_fold:
  "(\<forall>i\<in>set is. i < length arr) \<Longrightarrow>
   mset (fold (\<lambda>i arr. shell_shift gap arr (arr ! i) i) is arr) = mset arr
   \<and> length (fold (\<lambda>i arr. shell_shift gap arr (arr ! i) i) is arr) = length arr"
  by (induction "is" arbitrary: arr) (simp_all add: shell_shift_mset)

lemma shell_pass_mset: "mset (shell_pass gap arr) = mset arr"
  unfolding shell_pass_def by (simp add: shell_pass_fold)

text \<open>At gap 1 the shift inserts \<open>t\<close> into the sorted prefix before \<open>j\<close>.\<close>

lemma shell_shift_insert:
  "sorted xs \<Longrightarrow>
   \<exists>zs. shell_shift 1 (xs @ y # ys) t (length xs) = zs @ ys \<and> sorted zs \<and> mset zs = mset xs + {#t#}"
proof (induction xs arbitrary: y ys rule: rev_induct)
  case Nil
  then show ?case
    by (subst shell_shift.simps) auto
next
  case (snoc x xs)
  have srt: "sorted xs" "\<forall>z\<in>set xs. z \<le> x"
    using snoc.prems by (auto simp: sorted_append)
  let ?arr = "(xs @ [x]) @ y # ys"
  have x: "?arr ! length xs = x"
    by (simp add: nth_append)
  show ?case
  proof (cases "t < x")
    case True
    have "shell_shift 1 ?arr t (length (xs @ [x])) = shell_shift 1 (?arr[Suc (length xs) := x]) t (length xs)"
      using True x by (subst shell_shift.simps) simp
    moreover have "?arr[Suc (length xs) := x] = xs @ x # x # ys"
      by (simp add: list_update_append)
    moreover obtain zs where "shell_shift 1 (xs @ x # x # ys) t (length xs) = zs @ x # ys"
        "sorted zs" "mset zs = mset xs + {#t#}"
      using snoc.IH [OF srt(1), of x "x # ys"] by auto
    moreover from this have "set zs = insert t (set xs)"
      by (metis set_mset_mset set_mset_add_mset_insert add_mset_add_single)
    ultimately show ?thesis
      using True srt(2) by (intro exI [of _ "zs @ [x]"]) (auto simp: sorted_append)
  next
    case False
    have "shell_shift 1 ?arr t (length (xs @ [x])) = ?arr[Suc (length xs) := t]"
      using False x by (subst shell_shift.simps) simp
    then show ?thesis
      using False snoc.prems srt(2)
      by (intro exI [of _ "xs @ [x, t]"]) (auto simp: list_update_append sorted_append)
  qed
qed

lemma shell_pass1_sorted:
  "i \<le> length arr \<Longrightarrow> sorted (take i arr) \<Longrightarrow>
   sorted (fold (\<lambda>i arr. shell_shift 1 arr (arr ! i) i) [i..<length arr] arr)"
proof (induction "length arr - i" arbitrary: i arr)
  case 0
  then show ?case by simp
next
  case (Suc n)
  then have i: "i < length arr" by simp
  let ?a = "shell_shift 1 arr (arr ! i) i"
  have split: "arr = take i arr @ arr ! i # drop (Suc i) arr"
    using i by (simp add: id_take_nth_drop)
  have "length (take i arr) = i"
    using i by simp
  then obtain zs where zs: "?a = zs @ drop (Suc i) arr" "sorted zs" "mset zs = mset (take i arr) + {#arr ! i#}"
    using shell_shift_insert [OF Suc.prems(2), of "arr ! i" "drop (Suc i) arr" "arr ! i"] split by metis
  have "length zs = Suc i"
    using zs(3) i by (metis length_take min.absorb2 less_imp_le size_add_mset size_mset add_mset_add_single)
  then have "sorted (take (Suc i) ?a)"
    using zs by simp
  then have "sorted (fold (\<lambda>i arr. shell_shift 1 arr (arr ! i) i) [Suc i..<length ?a] ?a)"
    using Suc.hyps(2) i by (intro Suc.hyps(1)) auto
  then show ?case
    using i by (simp add: upt_conv_Cons)
qed

lemma shell_gaps_sorts:
  "sorted (shell_gaps gap arr) \<or> gap = 0" "mset (shell_gaps gap arr) = mset arr"
proof (induction gap arr rule: shell_gaps.induct)
  case (1 gap arr)
  {
    case 1
    show ?case
    proof (cases "gap = 1")
      case True
      have "sorted (shell_pass 1 arr)"
        unfolding shell_pass_def using shell_pass1_sorted [of 1 arr] by (cases arr) auto
      with True show ?thesis
        by (simp add: shell_gaps.simps [of "Suc 0"] shell_gaps.simps [of 0])
    next
      case False
      then show ?thesis
        using "1.IH"(1) by (cases "gap = 0") (auto simp: shell_gaps.simps [of gap] div_eq_0_iff)
    qed
  next
    case 2
    show ?case
    proof (cases "gap = 0")
      case True
      then show ?thesis
        by (subst shell_gaps.simps) simp
    next
      case False
      then show ?thesis
        using "1.IH"(2) by (simp add: shell_gaps.simps [of gap] shell_pass_mset)
    qed
  }
qed

lemma shell_sort_sorts: "sorted (shell_sort arr) \<and> mset (shell_sort arr) = mset arr"
proof (cases "length arr < 2")
  case True
  then have "arr = [] \<or> (\<exists>x. arr = [x])"
    by (cases arr) (auto simp: less_Suc_eq numeral_2_eq_2)
  then show ?thesis
    by (auto simp: shell_sort_def shell_gaps.simps [of 0])
next
  case False
  then show ?thesis
    using shell_gaps_sorts [of "length arr div 2" arr] by (simp add: shell_sort_def div_eq_0_iff)
qed

subsection \<open>Changing the content of a buffer\<close>

text \<open>A write through \<open>b->data\<close>.\<close>

definition set_bdata :: "u64 \<Rightarrow> (bytes \<Rightarrow> bytes) \<Rightarrow> ('c, unit) fsact" where
  "set_bdata b f = upd_buf b (\<lambda>x. x\<lparr>b_data := f (b_data x)\<rparr>)"

end
