(* ===== verification/Sfs_Group.thy ===== *)
theory Sfs_Group
  imports Sfs_Cache Sfs_Crc Sfs_Bitmap
begin

unbundle bit_operations_syntax

section \<open>Group geometry, group descriptors, bitmaps (sfs\_super.c)\<close>

text \<open>
  Where the copies of the superblock and the descriptor tables are, the group descriptor codec with
  its checksum and sanity check, and the two functions that deliver a group's block and inode
  bitmap (computing them for groups that were never initialised on disk).
\<close>

subsection \<open>Geometry\<close>

text \<open>The \<open>while\<close> loop of \<open>is_power_of\<close>; a base below 2 does not occur (the callers pass 3, 5, 7)
  and would not end in C either.\<close>

function power_loop :: "nat \<Rightarrow> nat \<Rightarrow> nat" where
  "power_loop n b = (if 1 < n \<and> n mod b = 0 \<and> 1 < b then power_loop (n div b) b else n)"
  by auto
termination
  by (relation "measure fst") auto

declare power_loop.simps [simp del]

definition is_power_of :: "u32 \<Rightarrow> nat \<Rightarrow> bool" where
  "is_power_of n b = (power_loop (unat n) b = 1)"

definition sfs_group_has_super :: "sfs_geo \<Rightarrow> u32 \<Rightarrow> bool" where
  "sfs_group_has_super G g =
    (if g = 0 then True
     else if g_sparse2 G then g = g_backup_bgs G ! 0 \<or> g = g_backup_bgs G ! 1
     else if g \<le> 1 \<or> \<not> g_sparse G then True
     else if g AND 1 = 0 then False
     else is_power_of g 3 \<or> is_power_of g 5 \<or> is_power_of g 7)"

definition sfs_group_first_block :: "sfs_geo \<Rightarrow> u32 \<Rightarrow> u64" where
  "sfs_group_first_block G g = ucast (g_first_data_block G) + ucast g * ucast (g_bpg G)"

definition sfs_group_block_count :: "sfs_geo \<Rightarrow> u32 \<Rightarrow> u32" where
  "sfs_group_block_count G g =
    (if g + 1 < g_ngroups G then g_bpg G else ucast (g_nblocks G - sfs_group_first_block G g))"

definition sfs_group_super_blocks :: "sfs_geo \<Rightarrow> u32 \<Rightarrow> u32" where
  "sfs_group_super_blocks G g =
    (let hs = sfs_group_has_super G g; n = (if hs then 1 else 0)
     in if \<not> g_meta_bg G \<or> g div g_desc_per_block G < g_first_meta_bg G
        then if hs then n + ((if g_meta_bg G then g_first_meta_bg G else g_gdt_blocks G) + g_reserved_gdt G)
             else n
        else let r = g mod g_desc_per_block G
             in if r = 0 \<or> r = 1 \<or> r = g_desc_per_block G - 1 then n + 1 else n)"

definition gdt_block :: "sfs_geo \<Rightarrow> u32 \<Rightarrow> u64" where
  "gdt_block G i =
    (if \<not> g_meta_bg G \<or> i < g_first_meta_bg G then ucast (g_first_data_block G + 1) + ucast i
     else let g = i * g_desc_per_block G
          in sfs_group_first_block G g + (if sfs_group_has_super G g then 1 else 0))"

subsection \<open>Group descriptors\<close>

definition le32 :: "u32 \<Rightarrow> bytes" where
  "le32 v = wr32 (replicate 4 0) 0 v"

text \<open>\<open>d\<close> is the descriptor (the block from its offset on).\<close>

definition gd_csum :: "sfs_geo \<Rightarrow> u32 \<Rightarrow> bytes \<Rightarrow> u16" where
  "gd_csum G grp d =
    (let le = le32 grp; sz = unat (g_gd_size G)
     in if g_csum G then
          let c = sfs_crc32c (g_csum_seed G) le;
              c = sfs_crc32c c (slice d 0 GD_checksum);
              c = sfs_crc32c c [0, 0];
              c = (if GD_checksum + 2 < sz then sfs_crc32c c (slice d (GD_checksum + 2) (sz - GD_checksum - 2)) else c)
          in ucast (c AND 0xFFFF)
        else if g_gdt_csum G then
          let c = sfs_crc16 0xFFFF (g_uuid G);
              c = sfs_crc16 c le;
              c = sfs_crc16 c (slice d 0 GD_checksum)
          in if g_has64 G \<and> GD_checksum + 2 < sz then sfs_crc16 c (slice d (GD_checksum + 2) (sz - GD_checksum - 2)) else c
        else 0)"

text \<open>The handle of the buffer and the offset of the descriptor in it.\<close>

definition gd_locate :: "u32 \<Rightarrow> ('c, sfs_err + u64 \<times> nat) fsact" where
  "gd_locate grp = look (\<lambda>s. let G = fs_geo s in
     if g_ngroups G \<le> grp then throw SFS_EINVAL
     else chk (sfs_bread (gdt_block G (grp div g_desc_per_block G))) (\<lambda>b.
       ok (b, unat ((grp mod g_desc_per_block G) * g_gd_size G))))"

definition lohi32 :: "bytes \<Rightarrow> nat \<Rightarrow> bool \<Rightarrow> nat \<Rightarrow> u64" where
  "lohi32 d lo hi hioff = ucast (rd32 d lo) OR (if hi then push_bit 32 (ucast (rd32 d hioff)) else 0)"

definition lohi16 :: "bytes \<Rightarrow> nat \<Rightarrow> bool \<Rightarrow> nat \<Rightarrow> u32" where
  "lohi16 d lo hi hioff = ucast (rd16 d lo) OR (if hi then push_bit 16 (ucast (rd16 d hioff)) else 0)"

definition gd_decode :: "sfs_geo \<Rightarrow> bytes \<Rightarrow> sfs_gd" where
  "gd_decode G d = (let hi = GD_MIN_SIZE_64BIT \<le> g_gd_size G in
     \<lparr>gd_block_bitmap = lohi32 d GD_block_bitmap_lo hi GD_block_bitmap_hi,
      gd_inode_bitmap = lohi32 d GD_inode_bitmap_lo hi GD_inode_bitmap_hi,
      gd_inode_table = lohi32 d GD_inode_table_lo hi GD_inode_table_hi,
      gd_free_blocks = lohi16 d GD_free_blocks_count_lo hi GD_free_blocks_count_hi,
      gd_free_inodes = lohi16 d GD_free_inodes_count_lo hi GD_free_inodes_count_hi,
      gd_used_dirs = lohi16 d GD_used_dirs_count_lo hi GD_used_dirs_count_hi,
      gd_itable_unused = lohi16 d GD_itable_unused_lo hi GD_itable_unused_hi,
      gd_flags = rd16 d GD_flags,
      gd_block_bitmap_csum = lohi16 d GD_block_bitmap_csum_lo hi GD_block_bitmap_csum_hi,
      gd_inode_bitmap_csum = lohi16 d GD_inode_bitmap_csum_lo hi GD_inode_bitmap_csum_hi\<rparr>)"

definition gd_sane :: "sfs_geo \<Rightarrow> sfs_gd \<Rightarrow> bool" where
  "gd_sane G gd =
    (if \<not> sfs_block_valid G (gd_block_bitmap gd) \<or> \<not> sfs_block_valid G (gd_inode_bitmap gd) then False
     else if \<not> sfs_range_valid G (gd_inode_table gd) (ucast (g_itable_blocks G)) then False
     else if g_bpg G < gd_free_blocks gd \<or> g_ipg G < gd_free_inodes gd \<or> g_ipg G < gd_used_dirs gd
             \<or> g_ipg G < gd_itable_unused gd then False
     else True)"

definition sfs_gd_read :: "u32 \<Rightarrow> ('c, sfs_err + sfs_gd) fsact" where
  "sfs_gd_read grp = chk (gd_locate grp) (\<lambda>(b, off). look (\<lambda>s.
     let gd = gd_decode (fs_geo s) (drop off (b_data (buf_of s b)))
     in run (sfs_bput b) (\<lambda>_. if gd_sane (fs_geo s) gd then ok gd else throw SFS_ECORRUPT)))"

text \<open>The field writes of \<open>sfs_gd_write\<close> on the descriptor \<open>d\<close>.\<close>

definition gd_encode :: "sfs_geo \<Rightarrow> u32 \<Rightarrow> sfs_gd \<Rightarrow> bytes \<Rightarrow> bytes" where
  "gd_encode G grp gd d =
    (let sz = unat (g_gd_size G);
         d = wr16 d GD_free_blocks_count_lo (ucast (gd_free_blocks gd));
         d = wr16 d GD_free_inodes_count_lo (ucast (gd_free_inodes gd));
         d = wr16 d GD_used_dirs_count_lo (ucast (gd_used_dirs gd));
         d = wr16 d GD_itable_unused_lo (ucast (gd_itable_unused gd));
         d = wr16 d GD_flags (gd_flags gd);
         d = wr16 d GD_block_bitmap_csum_lo (ucast (gd_block_bitmap_csum gd));
         d = wr16 d GD_inode_bitmap_csum_lo (ucast (gd_inode_bitmap_csum gd));
         d = (if GD_MIN_SIZE_64BIT \<le> g_gd_size G then
                let d = wr16 d GD_free_blocks_count_hi (ucast (drop_bit 16 (gd_free_blocks gd)));
                    d = wr16 d GD_free_inodes_count_hi (ucast (drop_bit 16 (gd_free_inodes gd)));
                    d = wr16 d GD_used_dirs_count_hi (ucast (drop_bit 16 (gd_used_dirs gd)));
                    d = wr16 d GD_itable_unused_hi (ucast (drop_bit 16 (gd_itable_unused gd)));
                    d = (if GD_block_bitmap_csum_hi + 2 \<le> sz
                         then wr16 d GD_block_bitmap_csum_hi (ucast (drop_bit 16 (gd_block_bitmap_csum gd))) else d)
                in if GD_inode_bitmap_csum_hi + 2 \<le> sz
                   then wr16 d GD_inode_bitmap_csum_hi (ucast (drop_bit 16 (gd_inode_bitmap_csum gd))) else d
              else d)
     in if g_csum G \<or> g_gdt_csum G then wr16 d GD_checksum (gd_csum G grp d) else d)"

definition sfs_gd_write :: "u32 \<Rightarrow> sfs_gd \<Rightarrow> ('c, sfs_err + unit) fsact" where
  "sfs_gd_write grp gd = chk (gd_locate grp) (\<lambda>(b, off). look (\<lambda>s.
     run (set_bdata b (at_off off (gd_encode (fs_geo s) grp gd))) (\<lambda>_.
     run (sfs_bdirty_meta b) (\<lambda>rc. run (sfs_bput b) (\<lambda>_. ret rc)))))"

text \<open>\<open>gd_check_all\<close> gives the number of checksum mismatches.\<close>

fun gd_check_loop :: "u32 list \<Rightarrow> nat \<Rightarrow> ('c, sfs_err + nat) fsact" where
  "gd_check_loop [] bad = ok bad"
| "gd_check_loop (g # gs) bad = chk (gd_locate g) (\<lambda>(b, off). look (\<lambda>s.
     let G = fs_geo s; d = drop off (b_data (buf_of s b)); gd = gd_decode G d;
         bad = (if (g_csum G \<or> g_gdt_csum G) \<and> rd16 d GD_checksum \<noteq> gd_csum G g d then bad + 1 else bad)
     in run (sfs_bput b) (\<lambda>_. if \<not> gd_sane G gd then throw SFS_ECORRUPT else gd_check_loop gs bad)))"

definition gd_check_all :: "('c, sfs_err + nat) fsact" where
  "gd_check_all = look (\<lambda>s. gd_check_loop (map of_nat [0..<unat (g_ngroups (fs_geo s))]) 0)"

subsection \<open>Bitmaps\<close>

definition sfs_block_bitmap_csum_set :: "sfs_geo \<Rightarrow> sfs_gd \<Rightarrow> bytes \<Rightarrow> sfs_gd" where
  "sfs_block_bitmap_csum_set G gd bitmap = (if g_csum G
     then gd\<lparr>gd_block_bitmap_csum := sfs_crc32c (g_csum_seed G) (slice bitmap 0 (unat (g_bpg G) div 8))\<rparr> else gd)"

definition sfs_inode_bitmap_csum_set :: "sfs_geo \<Rightarrow> sfs_gd \<Rightarrow> bytes \<Rightarrow> sfs_gd" where
  "sfs_inode_bitmap_csum_set G gd bitmap = (if g_csum G
     then gd\<lparr>gd_inode_bitmap_csum := sfs_crc32c (g_csum_seed G) (slice bitmap 0 (unat (g_ipg G) div 8))\<rparr> else gd)"

definition bitmap_csum_ok :: "sfs_geo \<Rightarrow> u32 \<Rightarrow> bytes \<Rightarrow> nat \<Rightarrow> nat \<Rightarrow> bool" where
  "bitmap_csum_ok G stored bitmap n hi_end =
    (if \<not> g_csum G then True
     else let c = sfs_crc32c (g_csum_seed G) (slice bitmap 0 n)
          in if unat (g_gd_size G) < hi_end then c AND 0xFFFF = stored AND 0xFFFF else c = stored)"

definition in_group :: "sfs_geo \<Rightarrow> u32 \<Rightarrow> u64 \<Rightarrow> bool" where
  "in_group G g blk = (sfs_group_first_block G g \<le> blk
     \<and> blk - sfs_group_first_block G g < ucast (sfs_group_block_count G g))"

definition set_if_in_group :: "sfs_geo \<Rightarrow> u32 \<Rightarrow> u64 \<Rightarrow> bytes \<Rightarrow> bytes" where
  "set_if_in_group G g blk bm =
    (if in_group G g blk then sfs_set_bit bm (unat (ucast (blk - sfs_group_first_block G g) :: u32)) else bm)"

text \<open>The content that \<open>sfs_block_bitmap\<close> computes for a grp that was never initialised, in the
  zeroed buffer \<open>bm\<close>.\<close>

definition uninit_block_bitmap :: "sfs_geo \<Rightarrow> u32 \<Rightarrow> sfs_gd \<Rightarrow> bytes \<Rightarrow> bytes" where
  "uninit_block_bitmap G grp gd bm =
    (let cnt = unat (sfs_group_block_count G grp);
         n = unat (sfs_group_super_blocks G grp);
         bm = fold (\<lambda>i bm. sfs_set_bit bm i) [0..<min n cnt] bm;
         bm = set_if_in_group G grp (gd_block_bitmap gd) bm;
         bm = set_if_in_group G grp (gd_inode_bitmap gd) bm;
         bm = fold (\<lambda>i bm. set_if_in_group G grp (gd_inode_table gd + of_nat i) bm)
                [0..<unat (g_itable_blocks G)] bm
     in fold (\<lambda>i bm. sfs_set_bit bm i) [cnt..<unat (g_bs G) * 8] bm)"

definition used_count :: "bytes \<Rightarrow> nat \<Rightarrow> nat" where
  "used_count bm cnt = length (filter (sfs_test_bit bm) [0..<cnt])"

text \<open>The end of both bitmap functions when the computed content does not fit the descriptor.\<close>

definition bitmap_refuse :: "u64 \<Rightarrow> string \<Rightarrow> u32 \<Rightarrow> ('c, sfs_err + u64) fsact" where
  "bitmap_refuse b msg grp =
     run (sfs_logu msg (ucast grp)) (\<lambda>_.
     run (upd_buf b (clear_flags B_COMPUTED)) (\<lambda>_.
     run (sfs_bforget b) (\<lambda>_.
     run (sfs_bput b) (\<lambda>_. throw SFS_ECORRUPT))))"

text \<open>The part for an initialised bitmap, shared by both: read, and verify the checksum once.\<close>

definition bitmap_read :: "u64 \<Rightarrow> u32 \<Rightarrow> nat \<Rightarrow> nat \<Rightarrow> string \<Rightarrow> u32 \<Rightarrow> ('c, sfs_err + u64) fsact" where
  "bitmap_read blk stored n hi_end msg grp = chk (sfs_bread blk) (\<lambda>b. look (\<lambda>s.
     if b_flags (buf_of s b) AND B_VERIFIED = 0
     then if b_flags (buf_of s b) AND B_JDIRTY = 0 \<and> \<not> bitmap_csum_ok (fs_geo s) stored (b_data (buf_of s b)) n hi_end
          then run (sfs_logu msg (ucast grp)) (\<lambda>_. run (sfs_bput b) (\<lambda>_. throw SFS_ECORRUPT))
          else run (upd_buf b (set_flags B_VERIFIED)) (\<lambda>_. ok b)
     else ok b))"

text \<open>A cached bitmap that was computed before, or is part of the running transaction, is used as it
  is; otherwise the reference taken by \<open>sfs_bfind\<close> is dropped again.\<close>

definition bitmap_cached :: "u64 \<Rightarrow> ('c, u64 option) fsact" where
  "bitmap_cached blk = run (sfs_bfind blk) (\<lambda>r. look (\<lambda>s. case r of None \<Rightarrow> ret None
     | Some b \<Rightarrow> if b_flags (buf_of s b) AND (B_COMPUTED OR B_JDIRTY) \<noteq> 0 then ret (Some b)
         else run (sfs_bput b) (\<lambda>_. ret None)))"

definition sfs_block_bitmap :: "u32 \<Rightarrow> sfs_gd \<Rightarrow> ('c, sfs_err + u64) fsact" where
  "sfs_block_bitmap grp gd = look (\<lambda>s. let G = fs_geo s in
     if gd_flags gd AND BG_BLOCK_UNINIT \<noteq> 0
     then run (bitmap_cached (gd_block_bitmap gd)) (\<lambda>r. case r of Some b \<Rightarrow> ok b
          | None \<Rightarrow> chk (sfs_bnew (gd_block_bitmap gd)) (\<lambda>b.
              run (set_bdata b (uninit_block_bitmap G grp gd)) (\<lambda>_.
              run (upd_buf b (set_flags B_COMPUTED)) (\<lambda>_. look (\<lambda>s.
              let cnt = sfs_group_block_count G grp;
                  used = of_nat (used_count (b_data (buf_of s b)) (unat cnt)) :: u32
              in if cnt - used \<noteq> gd_free_blocks gd
                 then bitmap_refuse b ''sfs: uninitialised block bitmap disagrees with the free count, group '' grp
                 else ok b)))))
     else bitmap_read (gd_block_bitmap gd) (gd_block_bitmap_csum gd) (unat (g_bpg G) div 8)
            (GD_block_bitmap_csum_hi + 2) ''sfs: block bitmap checksum mismatch, group '' grp)"

definition uninit_inode_bitmap :: "sfs_geo \<Rightarrow> bytes \<Rightarrow> bytes" where
  "uninit_inode_bitmap G bm = fold (\<lambda>i bm. sfs_set_bit bm i) [unat (g_ipg G)..<unat (g_bs G) * 8] bm"

definition sfs_inode_bitmap :: "u32 \<Rightarrow> sfs_gd \<Rightarrow> ('c, sfs_err + u64) fsact" where
  "sfs_inode_bitmap grp gd = look (\<lambda>s. let G = fs_geo s in
     if gd_flags gd AND BG_INODE_UNINIT \<noteq> 0
     then run (bitmap_cached (gd_inode_bitmap gd)) (\<lambda>r. case r of Some b \<Rightarrow> ok b
          | None \<Rightarrow> chk (sfs_bnew (gd_inode_bitmap gd)) (\<lambda>b.
              run (set_bdata b (uninit_inode_bitmap G)) (\<lambda>_.
              run (upd_buf b (set_flags B_COMPUTED)) (\<lambda>_.
              if gd_free_inodes gd \<noteq> g_ipg G
              then bitmap_refuse b ''sfs: uninitialised inode bitmap with inodes in use, group '' grp
              else ok b))))
     else bitmap_read (gd_inode_bitmap gd) (gd_inode_bitmap_csum gd) (unat (g_ipg G) div 8)
            (GD_inode_bitmap_csum_hi + 2) ''sfs: inode bitmap checksum mismatch, group '' grp)"

subsection \<open>Blocks no file may own\<close>

text \<open>The groups whose tables may lie in the flex group of \<open>g\<close>: \<open>[g0, g1)\<close>.\<close>

definition flex_range :: "sfs_geo \<Rightarrow> u32 \<Rightarrow> u32 \<times> u32" where
  "flex_range G g =
    (let (g0, g1) = (if g_log_groups_per_flex G \<noteq> 0 \<and> g_log_groups_per_flex G < 31
                     then let per = push_bit (unat (g_log_groups_per_flex G)) 1; g0 = g - g mod per
                          in (g0, g0 + per)
                     else (g, g + 1))
     in (g0, if g_ngroups G < g1 then g_ngroups G else g1))"

fun meta_block_loop :: "u64 \<Rightarrow> u32 list \<Rightarrow> ('c, bool) fsact" where
  "meta_block_loop blk [] = ret False"
| "meta_block_loop blk (i # is) = run (sfs_gd_read i) (\<lambda>r. case r of
       Inl _ \<Rightarrow> ret True
     | Inr gd \<Rightarrow> look (\<lambda>s.
         if blk = gd_block_bitmap gd \<or> blk = gd_inode_bitmap gd then ret True
         else if gd_inode_table gd \<le> blk \<and> blk < gd_inode_table gd + ucast (g_itable_blocks (fs_geo s)) then ret True
         else meta_block_loop blk is))"

definition word_range :: "u32 \<Rightarrow> u32 \<Rightarrow> u32 list" where
  "word_range a b = map of_nat [unat a..<unat b]"

definition sfs_is_group_meta_block :: "u64 \<Rightarrow> ('c, bool) fsact" where
  "sfs_is_group_meta_block blk = look (\<lambda>s. let G = fs_geo s in
     if blk < ucast (g_first_data_block G) \<or> g_nblocks G \<le> blk then ret True
     else let g = sfs_group_of_block G blk
       in if blk - sfs_group_first_block G g < ucast (sfs_group_super_blocks G g) then ret True
          else (case flex_range G g of (g0, g1) \<Rightarrow> meta_block_loop blk (word_range g0 g1)))"

end
