(* ===== verification/Sfs_Inode.thy ===== *)
theory Sfs_Inode
  imports Sfs_Group
begin

unbundle bit_operations_syntax

section \<open>Inodes (sfs\_inode.c)\<close>

text \<open>
  The raw inode codec (checksum, timestamps with the extra epoch bits, the two encodings of
  \<open>i_blocks\<close>) and the write-back inode cache. An inode is addressed by its number; \<open>raw\<close> is the
  inode-table block from the inode's offset on. Times are 64-bit two's complement words.
\<close>

subsection \<open>Location and checksum\<close>

definition ihash :: "u32 \<Rightarrow> nat" where
  "ihash ino = unat (drop_bit 26 (ino * 2654435761) AND 0x3F)"

definition sfs_inode_loc :: "u32 \<Rightarrow> ('c, sfs_err + u64 \<times> nat) fsact" where
  "sfs_inode_loc ino = look (\<lambda>s. let G = fs_geo s in
     if \<not> sfs_ino_valid G ino then throw SFS_ECORRUPT
     else let g = (ino - 1) div g_ipg G; idx = (ino - 1) mod g_ipg G
       in chk (sfs_gd_read g) (\<lambda>gd.
            ok (gd_inode_table gd + ucast (idx div g_inodes_per_block G),
                unat ((idx mod g_inodes_per_block G) * g_isize G))))"

definition sfs_inode_seed :: "sfs_geo \<Rightarrow> u32 \<Rightarrow> u32 \<Rightarrow> u32" where
  "sfs_inode_seed G ino gen = sfs_crc32c (sfs_crc32c (g_csum_seed G) (le32 ino)) (le32 gen)"

text \<open>The checksum, and whether the inode has the high half (\<open>*has_hi\<close>).\<close>

definition inode_csum :: "sfs_geo \<Rightarrow> u32 \<Rightarrow> bytes \<Rightarrow> u32 \<times> bool" where
  "inode_csum G ino raw =
    (let isz = unat (g_isize G);
         c = sfs_inode_seed G ino (rd32 raw IN_generation);
         c = sfs_crc32c c (slice raw 0 IN_checksum_lo);
         c = sfs_crc32c c [0, 0];
         c = sfs_crc32c c (slice raw (IN_checksum_lo + 2) (128 - IN_checksum_lo - 2))
     in if 128 < isz then
          let extra = unat (rd16 raw IN_extra_isize);
              c = sfs_crc32c c (slice raw 128 (IN_checksum_hi - 128))
          in if IN_checksum_hi + 2 \<le> 128 + extra
             then (sfs_crc32c (sfs_crc32c c [0, 0]) (slice raw (IN_checksum_hi + 2) (isz - IN_checksum_hi - 2)), True)
             else (sfs_crc32c c (slice raw IN_checksum_hi (isz - IN_checksum_hi)), False)
        else (c, False))"

definition sfs_inode_csum_ok :: "sfs_geo \<Rightarrow> u32 \<Rightarrow> bytes \<Rightarrow> bool" where
  "sfs_inode_csum_ok G ino raw =
    (if \<not> g_csum G then True
     else case inode_csum G ino raw of (c, hi) \<Rightarrow>
       let stored = ucast (rd16 raw IN_checksum_lo) :: u32;
           stored = (if hi then stored OR push_bit 16 (ucast (rd16 raw IN_checksum_hi)) else stored);
           c = (if hi then c else c AND 0xFFFF)
       in if c = stored then True else \<forall>i < unat (g_isize G). byte_at raw i = 0)"

definition sfs_inode_csum_set :: "sfs_geo \<Rightarrow> u32 \<Rightarrow> bytes \<Rightarrow> bytes" where
  "sfs_inode_csum_set G ino raw =
    (if \<not> g_csum G then raw
     else case inode_csum G ino raw of (c, hi) \<Rightarrow>
       let raw = wr16 raw IN_checksum_lo (ucast c)
       in if hi then wr16 raw IN_checksum_hi (ucast (drop_bit 16 c)) else raw)"

subsection \<open>Timestamps\<close>

definition fits :: "u16 \<Rightarrow> nat \<Rightarrow> nat \<Rightarrow> bool" where
  "fits extra_isize field_off sz = (field_off + sz \<le> 128 + unat extra_isize)"

definition time_decode :: "bytes \<Rightarrow> u16 \<Rightarrow> nat \<Rightarrow> nat \<Rightarrow> u64 \<times> u32" where
  "time_decode raw extra off xoff =
    (let sec = scast (rd32 raw off) :: u64
     in if xoff \<noteq> 0 \<and> fits extra xoff 4
        then let x = rd32 raw xoff; ns = drop_bit 2 x
             in (sec + push_bit 32 (ucast (x AND 3)), if 999999999 < ns then 0 else ns)
        else (sec, 0))"

definition time_encode :: "u16 \<Rightarrow> nat \<Rightarrow> nat \<Rightarrow> u64 \<Rightarrow> u32 \<Rightarrow> bytes \<Rightarrow> bytes" where
  "time_encode extra off xoff sec ns raw =
    (let raw = wr32 raw off (ucast sec)
     in if xoff \<noteq> 0 \<and> fits extra xoff 4
        then let epoch = ucast (drop_bit 32 (sec - scast (ucast sec :: u32)) AND 3) :: u32
             in wr32 raw xoff (epoch OR push_bit 2 ns)
        else raw)"

subsection \<open>The codec\<close>

definition decode :: "sfs_geo \<Rightarrow> u32 \<Rightarrow> sfs_inode \<Rightarrow> bytes \<Rightarrow> sfs_err + sfs_inode" where
  "decode G ino i raw =
    (let mode = rd16 raw IN_mode;
         size = ucast (rd32 raw IN_size_lo) :: u64;
         size = (if mode AND SFS_S_IFMT = SFS_S_IFREG \<or> g_largedir G
                 then size OR push_bit 32 (ucast (rd32 raw IN_size_high)) else size);
         flags = rd32 raw IN_flags;
         generation = rd32 raw IN_generation;
         extra = (if 128 < g_isize G then rd16 raw IN_extra_isize else 0);
         blocks = ucast (rd32 raw IN_blocks_lo) :: u64;
         bigblocks = blocks OR push_bit 32 (ucast (rd16 raw IN_blocks_high));
         nblocks = (if g_huge_file G
                    then if flags AND IFL_HUGE_FILE \<noteq> 0 then bigblocks else drop_bit (g_bs_bits G - 9) bigblocks
                    else drop_bit (g_bs_bits G - 9) blocks);
         (atime, atime_ns) = time_decode raw extra IN_atime IN_atime_extra;
         (mtime, mtime_ns) = time_decode raw extra IN_mtime IN_mtime_extra;
         (ctime, ctime_ns) = time_decode raw extra IN_ctime IN_ctime_extra;
         (crtime, crtime_ns) = (if fits extra IN_crtime 4 then time_decode raw extra IN_crtime IN_crtime_extra else (0, 0))
     in if 128 < g_isize G \<and> (extra AND 3 \<noteq> 0 \<or> g_isize G < 128 + ucast extra) then Inl SFS_ECORRUPT
        else Inr (i\<lparr>in_mode := mode,
           in_uid := ucast (rd16 raw IN_uid) OR push_bit 16 (ucast (rd16 raw IN_uid_high)),
           in_gid := ucast (rd16 raw IN_gid) OR push_bit 16 (ucast (rd16 raw IN_gid_high)),
           in_size := size, in_links := rd16 raw IN_links_count, in_flags := flags,
           in_generation := generation,
           in_file_acl := ucast (rd32 raw IN_file_acl_lo) OR push_bit 32 (ucast (rd16 raw IN_file_acl_high)),
           in_dtime := rd32 raw IN_dtime, in_extra_isize := extra,
           in_atime := atime, in_atime_ns := atime_ns, in_mtime := mtime, in_mtime_ns := mtime_ns,
           in_ctime := ctime, in_ctime_ns := ctime_ns, in_crtime := crtime, in_crtime_ns := crtime_ns,
           in_nblocks := nblocks, in_iblock := slice raw IN_block IN_BLOCK_BYTES,
           in_csum_seed := (if g_csum G then sfs_inode_seed G ino generation else 0)\<rparr>))"

text \<open>The fields that \<open>encode\<close> writes before the \<open>i_blocks\<close> decision.\<close>

definition encode_head :: "sfs_inode \<Rightarrow> bytes \<Rightarrow> bytes" where
  "encode_head i raw =
    (let raw = wr16 raw IN_mode (in_mode i);
         raw = wr16 raw IN_uid (ucast (in_uid i));
         raw = wr16 raw IN_uid_high (ucast (drop_bit 16 (in_uid i)));
         raw = wr16 raw IN_gid (ucast (in_gid i));
         raw = wr16 raw IN_gid_high (ucast (drop_bit 16 (in_gid i)));
         raw = wr32 raw IN_size_lo (ucast (in_size i));
         raw = wr32 raw IN_size_high (ucast (drop_bit 32 (in_size i)));
         raw = wr16 raw IN_links_count (in_links i)
     in wr32 raw IN_dtime (in_dtime i))"

text \<open>The \<open>i_blocks\<close> encoding: \<open>None\<close> is the \<open>SFS_EFBIG\<close> return.\<close>

definition encode_blocks :: "sfs_geo \<Rightarrow> sfs_inode \<Rightarrow> bytes \<Rightarrow> (sfs_inode \<times> bytes) option" where
  "encode_blocks G i raw =
    (let sectors = push_bit (g_bs_bits G - 9) (in_nblocks i)
     in if sectors \<le> 0xFFFFFFFF
        then Some (i\<lparr>in_flags := in_flags i AND NOT IFL_HUGE_FILE\<rparr>,
                   wr16 (wr32 raw IN_blocks_lo (ucast sectors)) IN_blocks_high 0)
        else if \<not> g_huge_file G then None
        else if sectors \<le> 0xFFFFFFFFFFFF
        then Some (i\<lparr>in_flags := in_flags i AND NOT IFL_HUGE_FILE\<rparr>,
                   wr16 (wr32 raw IN_blocks_lo (ucast sectors)) IN_blocks_high (ucast (drop_bit 32 sectors)))
        else Some (i\<lparr>in_flags := in_flags i OR IFL_HUGE_FILE\<rparr>,
                   wr16 (wr32 raw IN_blocks_lo (ucast (in_nblocks i))) IN_blocks_high (ucast (drop_bit 32 (in_nblocks i)))))"

definition encode_tail :: "sfs_geo \<Rightarrow> sfs_inode \<Rightarrow> bytes \<Rightarrow> bytes" where
  "encode_tail G i raw =
    (let x = in_extra_isize i;
         raw = wr32 raw IN_flags (in_flags i);
         raw = wr32 raw IN_generation (in_generation i);
         raw = wr32 raw IN_file_acl_lo (ucast (in_file_acl i));
         raw = wr16 raw IN_file_acl_high (ucast (drop_bit 32 (in_file_acl i)));
         raw = blit raw IN_block (in_iblock i);
         raw = (if 128 < g_isize G then wr16 raw IN_extra_isize x else raw);
         raw = time_encode x IN_atime IN_atime_extra (in_atime i) (in_atime_ns i) raw;
         raw = time_encode x IN_mtime IN_mtime_extra (in_mtime i) (in_mtime_ns i) raw;
         raw = time_encode x IN_ctime IN_ctime_extra (in_ctime i) (in_ctime_ns i) raw
     in if fits x IN_crtime 4 then time_encode x IN_crtime IN_crtime_extra (in_crtime i) (in_crtime_ns i) raw else raw)"

text \<open>\<open>encode\<close> changes the inode's flags and the raw bytes, the latter also when it fails.\<close>

definition encode :: "sfs_geo \<Rightarrow> u32 \<Rightarrow> sfs_inode \<Rightarrow> bytes \<Rightarrow> (sfs_err + unit) \<times> sfs_inode \<times> bytes" where
  "encode G ino i raw =
    (let raw = encode_head i raw
     in case encode_blocks G i raw of None \<Rightarrow> (Inl SFS_EFBIG, i, raw)
        | Some (i, raw) \<Rightarrow> (Inr (), i, sfs_inode_csum_set G ino (encode_tail G i raw)))"

subsection \<open>The inode cache\<close>

definition sfs_idirty :: "u32 \<Rightarrow> ('c, unit) fsact" where
  "sfs_idirty i = run (upd_ino i (\<lambda>x. x\<lparr>in_dirty := True\<rparr>)) (\<lambda>_. mods_inc)"

definition sfs_add_blocks :: "u32 \<Rightarrow> u64 \<Rightarrow> ('c, sfs_err + unit) fsact" where
  "sfs_add_blocks i delta =
     run (upd_ino i (\<lambda>x. x\<lparr>in_nblocks := (if word_sless delta 0 \<and> in_nblocks x < - delta then 0
            else in_nblocks x + delta)\<rparr>)) (\<lambda>_. look (\<lambda>s.
     if \<not> g_huge_file (fs_geo s) \<and> 0xFFFFFFFF < push_bit (g_bs_bits (fs_geo s) - 9) (in_nblocks (ino_of s i))
     then throw SFS_EFBIG
     else run (sfs_idirty i) (\<lambda>_. ok ())))"

definition idestroy :: "u32 \<Rightarrow> ('c, unit) fsact" where
  "idestroy i = run (upd (\<lambda>s. s\<lparr>fs_ilru := remove1 i (fs_ilru s), fs_inodes := (fs_inodes s)(i := None)\<rparr>)) (\<lambda>_.
     run (sfs_free sizeof_inode) (\<lambda>_. upd (\<lambda>s. s\<lparr>fs_ninodes := fs_ninodes s - 1\<rparr>)))"

definition sfs_iflush :: "u32 \<Rightarrow> ('c, sfs_err + unit) fsact" where
  "sfs_iflush i = look (\<lambda>s. if \<not> in_dirty (ino_of s i) then ok ()
     else chk (sfs_inode_loc i) (\<lambda>(blk, off).
       chk (sfs_bread blk) (\<lambda>b. look (\<lambda>s.
       case encode (fs_geo s) i (ino_of s i) (drop off (b_data (buf_of s b))) of (rc, x, raw) \<Rightarrow>
         run (set_bdata b (at_off off (\<lambda>_. raw))) (\<lambda>_.
         run (upd_ino i (\<lambda>_. x)) (\<lambda>_.
         run (rcthen rc (sfs_bdirty_meta b)) (\<lambda>rc.
         run (sfs_bput b) (\<lambda>_.
         run (whenA (rc = Inr ()) (upd_ino i (\<lambda>x. x\<lparr>in_dirty := False\<rparr>))) (\<lambda>_. ret rc)))))))))"

fun evict_some_loop :: "u32 list \<Rightarrow> ('c, sfs_err + unit) fsact" where
  "evict_some_loop [] = ok ()"
| "evict_some_loop (i # is) = look (\<lambda>s.
     if \<not> fs_max_inodes s \<le> fs_ninodes s then ok ()
     else if in_refs (ino_of s i) \<noteq> 0 then evict_some_loop is
     else chk (if in_dirty (ino_of s i) then sfs_iflush i else ok ()) (\<lambda>_.
          run (idestroy i) (\<lambda>_. evict_some_loop is)))"

definition evict_some :: "('c, sfs_err + unit) fsact" where
  "evict_some = look (\<lambda>s. evict_some_loop (rev (fs_ilru s)))"

definition iinsert_new :: "u32 \<Rightarrow> ('c, sfs_err + u32) fsact" where
  "iinsert_new ino = look (\<lambda>s.
     chk (if fs_max_inodes s \<le> fs_ninodes s then evict_some else ok ()) (\<lambda>_.
     run (sfs_alloc sizeof_inode) (\<lambda>good. if \<not> good then throw SFS_ENOMEM
     else run (upd (\<lambda>s. s\<lparr>fs_inodes := (fs_inodes s)(ino \<mapsto> zero_inode\<lparr>in_refs := 1\<rparr>),
                       fs_ilru := ino # fs_ilru s, fs_ninodes := fs_ninodes s + 1\<rparr>)) (\<lambda>_. ok ino))))"

definition sfs_iget :: "u32 \<Rightarrow> ('c, sfs_err + u32) fsact" where
  "sfs_iget ino = look (\<lambda>s.
     if \<not> sfs_ino_valid (fs_geo s) ino then throw SFS_ECORRUPT
     else if fs_inodes s ino \<noteq> None
     then run (upd_ino ino (\<lambda>x. x\<lparr>in_refs := in_refs x + 1\<rparr>)) (\<lambda>_.
          run (whenA (fs_ilru s = [] \<or> hd (fs_ilru s) \<noteq> ino)
                (upd (\<lambda>s. s\<lparr>fs_ilru := ino # remove1 ino (fs_ilru s)\<rparr>))) (\<lambda>_. ok ino))
     else chk (sfs_inode_loc ino) (\<lambda>(blk, off).
       chk (sfs_bread blk) (\<lambda>b. look (\<lambda>s.
       if \<not> sfs_inode_csum_ok (fs_geo s) ino (drop off (b_data (buf_of s b)))
       then run (sfs_logu ''sfs: inode checksum mismatch, inode '' (ucast ino)) (\<lambda>_.
            run (sfs_bput b) (\<lambda>_. throw SFS_ECORRUPT))
       else run (iinsert_new ino) (\<lambda>rc. case rc of
              Inl e \<Rightarrow> run (sfs_bput b) (\<lambda>_. throw e)
            | Inr _ \<Rightarrow> look (\<lambda>s.
                let r = decode (fs_geo s) ino (ino_of s ino) (drop off (b_data (buf_of s b)))
                in run (sfs_bput b) (\<lambda>_. case r of
                     Inl e \<Rightarrow> run (idestroy ino) (\<lambda>_. throw e)
                   | Inr x \<Rightarrow> if in_mode x = 0 then run (idestroy ino) (\<lambda>_. throw SFS_ENOENT)
                       else run (upd_ino ino (\<lambda>_. x)) (\<lambda>_. ok ino))))))))"

definition sfs_ext_root_init :: bytes where
  "sfs_ext_root_init =
    (let b = replicate IN_BLOCK_BYTES 0;
         b = wr16 b EH_magic EXT_MAGIC;
         b = wr16 b EH_entries 0;
         b = wr16 b EH_max (of_nat ((IN_BLOCK_BYTES - EH_SIZE) div EE_SIZE))
     in wr16 b EH_depth 0)"

definition sfs_iput :: "u32 \<Rightarrow> ('c, unit) fsact" where
  "sfs_iput i = upd_ino i (\<lambda>x. if in_refs x \<noteq> 0 then x\<lparr>in_refs := in_refs x - 1\<rparr> else x)"

definition sfs_iforget :: "u32 \<Rightarrow> ('c, unit) fsact" where
  "sfs_iforget ino = look (\<lambda>s. case fs_inodes s ino of None \<Rightarrow> ret ()
     | Some x \<Rightarrow> if in_refs x \<noteq> 0 then ret ()
         else run (if in_dirty x then sfs_iflush ino else ok ()) (\<lambda>rc. case rc of
                Inl _ \<Rightarrow> sfs_logu ''sfs: could not write back inode before dropping it: '' (ucast ino)
              | Inr _ \<Rightarrow> idestroy ino))"

text \<open>The fields that \<open>sfs_iget_new\<close> fills in.\<close>

definition fresh_inode :: "sfs_geo \<Rightarrow> u32 \<Rightarrow> u16 \<Rightarrow> u64 \<Rightarrow> u32 \<Rightarrow> sfs_inode \<Rightarrow> sfs_inode" where
  "fresh_inode G ino mode now gen x =
    (let x = x\<lparr>in_mode := mode, in_links := 1, in_generation := gen,
               in_extra_isize := ucast (g_want_extra_isize G),
               in_atime := now, in_mtime := now, in_ctime := now, in_crtime := now,
               in_csum_seed := (if g_csum G then sfs_inode_seed G ino gen else 0), in_dirty := True\<rparr>
     in if g_extents G then x\<lparr>in_flags := IFL_EXTENTS, in_iblock := sfs_ext_root_init\<rparr> else x)"

definition sfs_iget_new :: "u32 \<Rightarrow> u16 \<Rightarrow> ('c, sfs_err + u32) fsact" where
  "sfs_iget_new ino mode = run sfs_now (\<lambda>now.
     run (sfs_iforget ino) (\<lambda>_. look (\<lambda>s.
     if fs_inodes s ino \<noteq> None then throw SFS_ECORRUPT
     else chk (sfs_inode_loc ino) (\<lambda>(blk, off).
       chk (sfs_bread blk) (\<lambda>b.
       run (set_bdata b (\<lambda>d. fill d off 0 (unat (g_isize (fs_geo s))))) (\<lambda>_.
       run (sfs_bdirty_meta b) (\<lambda>rc.
       run (sfs_bput b) (\<lambda>_.
       chk (ret rc) (\<lambda>_.
       chk (iinsert_new ino) (\<lambda>_. look (\<lambda>s.
       run (upd_ino ino (fresh_inode (fs_geo s) ino mode now (ucast (fs_next_generation s * 0x9E3779B1)))) (\<lambda>_.
       run (upd (\<lambda>s. s\<lparr>fs_next_generation := fs_next_generation s + 1\<rparr>)) (\<lambda>_.
       run mods_inc (\<lambda>_. ok ino))))))))))))))"

fun iflush_all_loop :: "u32 list \<Rightarrow> ('c, sfs_err + unit) fsact" where
  "iflush_all_loop [] = ok ()"
| "iflush_all_loop (i # is) = chk (sfs_iflush i) (\<lambda>_. look (\<lambda>s.
     run (whenA (in_refs (ino_of s i) = 0 \<and> fs_max_inodes s < fs_ninodes s) (idestroy i)) (\<lambda>_.
       iflush_all_loop is)))"

definition sfs_iflush_all :: "('c, sfs_err + unit) fsact" where
  "sfs_iflush_all = look (\<lambda>s. iflush_all_loop (rev (fs_ilru s)))"

definition sfs_icache_destroy :: "('c, unit) fsact" where
  "sfs_icache_destroy = look (\<lambda>s. forA (fs_ilru s) idestroy)"

definition sfs_inode_touch :: "u32 \<Rightarrow> bool \<Rightarrow> bool \<Rightarrow> bool \<Rightarrow> ('c, unit) fsact" where
  "sfs_inode_touch i m c a = run sfs_now (\<lambda>now. if now = 0 then ret ()
     else run (upd_ino i (\<lambda>x.
            let x = (if m then x\<lparr>in_mtime := now, in_mtime_ns := 0\<rparr> else x);
                x = (if c then x\<lparr>in_ctime := now, in_ctime_ns := 0\<rparr> else x)
            in if a then x\<lparr>in_atime := now, in_atime_ns := 0\<rparr> else x)) (\<lambda>_. sfs_idirty i))"

end
