(* ===== verification/Sfs_ExtMap.thy ===== *)
theory Sfs_ExtMap
  imports Sfs_Inode
begin

unbundle bit_operations_syntax

section \<open>Block mapping: reading the extent tree and the indirect maps (sfs\_extent.c)\<close>

text \<open>
  The extent entry codec, the validation of a node, the binary search in a node, the walk from the
  root in the inode to a leaf, and the lookups \<open>sfs_map_block\<close> and \<open>sfs_bmap_lookup\<close>; and
  \<open>sfs_goal_for\<close> of \<^verbatim>\<open>sfs_alloc.c\<close>, which uses the lookup.

  An \<open>xpath\<close> entry is the node of one level: \<open>None\<close> is the root in \<open>i_block\<close>, \<open>Some b\<close> a buffer;
  with it the chosen index, -1 when the block precedes every key. A path is the list of its
  levels.
\<close>

subsection \<open>Entries\<close>

definition ENT :: "nat \<Rightarrow> nat" where
  "ENT i = EH_SIZE + i * EE_SIZE"

definition ee_start :: "bytes \<Rightarrow> nat \<Rightarrow> u64" where
  "ee_start h e = ucast (rd32 h (e + EE_start_lo)) OR push_bit 32 (ucast (rd16 h (e + EE_start_hi)))"

definition ee_len :: "bytes \<Rightarrow> nat \<Rightarrow> u32" where
  "ee_len h e = (let l = ucast (rd16 h (e + EE_len)) in if EXT_INIT_MAX_LEN < l then l - EXT_INIT_MAX_LEN else l)"

definition ee_unwritten :: "bytes \<Rightarrow> nat \<Rightarrow> bool" where
  "ee_unwritten h e = (EXT_INIT_MAX_LEN < ucast (rd16 h (e + EE_len)))"

definition ei_leaf :: "bytes \<Rightarrow> nat \<Rightarrow> u64" where
  "ei_leaf h e = ucast (rd32 h (e + EI_leaf_lo)) OR push_bit 32 (ucast (rd16 h (e + EI_leaf_hi)))"

definition ee_set :: "nat \<Rightarrow> u32 \<Rightarrow> u64 \<Rightarrow> u32 \<Rightarrow> bool \<Rightarrow> bytes \<Rightarrow> bytes" where
  "ee_set e lblk pblk len unwritten h =
    (let h = wr32 h (e + EE_block) lblk;
         h = wr16 h (e + EE_len) (ucast (if unwritten then len + EXT_INIT_MAX_LEN else len));
         h = wr16 h (e + EE_start_hi) (ucast (drop_bit 32 pblk))
     in wr32 h (e + EE_start_lo) (ucast pblk))"

definition ei_set :: "nat \<Rightarrow> u32 \<Rightarrow> u64 \<Rightarrow> bytes \<Rightarrow> bytes" where
  "ei_set e lblk leaf h =
    (let h = wr32 h (e + EI_block) lblk;
         h = wr32 h (e + EI_leaf_lo) (ucast leaf);
         h = wr16 h (e + EI_leaf_hi) (ucast (drop_bit 32 leaf))
     in wr16 h (e + 10) 0)"

subsection \<open>Nodes\<close>

text \<open>The loop of \<open>node_ok\<close> over the entries that are left, with \<open>prev_end\<close>.\<close>

fun node_entries_ok :: "sfs_geo \<Rightarrow> bytes \<Rightarrow> nat \<Rightarrow> nat list \<Rightarrow> u64 \<Rightarrow> bool" where
  "node_entries_ok G h depth [] prev_end = True"
| "node_entries_ok G h depth (i # is) prev_end =
    (let e = ENT i; lb = rd32 h (e + EE_block)
     in if i \<noteq> 0 \<and> ucast lb < prev_end then False
        else if depth = 0
        then let len = ee_len h e; st = ee_start h e
             in if len = 0 \<or> (0x100000000 :: u64) < ucast lb + ucast len \<or> \<not> sfs_range_valid G st (ucast len) then False
                else node_entries_ok G h depth is (ucast lb + ucast len)
        else if \<not> sfs_block_valid G (ei_leaf h e) then False
        else node_entries_ok G h depth is (ucast lb + 1))"

text \<open>\<open>want_depth\<close> is \<open>None\<close> for the -1 of the callers that accept any depth.\<close>

definition node_ok :: "sfs_geo \<Rightarrow> bytes \<Rightarrow> bool \<Rightarrow> nat option \<Rightarrow> bool" where
  "node_ok G h is_root want_depth =
    (let n = unat (rd16 h EH_entries); mx = unat (rd16 h EH_max); depth = unat (rd16 h EH_depth);
         cap = (if is_root then (IN_BLOCK_BYTES - EH_SIZE) div EE_SIZE else unat (g_ext_per_block G))
     in if rd16 h EH_magic \<noteq> EXT_MAGIC \<or> mx < n \<or> mx = 0 \<or> cap < mx then False
        else if EXT_MAX_DEPTH < depth \<or> (case want_depth of None \<Rightarrow> False | Some w \<Rightarrow> depth \<noteq> w) then False
        else node_entries_ok G h depth [0..<n] 0)"

definition node_csum_off :: "bytes \<Rightarrow> nat" where
  "node_csum_off h = EH_SIZE + unat (rd16 h EH_max) * EE_SIZE"

definition node_csum_set :: "u32 \<Rightarrow> u64 \<Rightarrow> ('c, unit) fsact" where
  "node_csum_set i b = look (\<lambda>s. whenA (g_csum (fs_geo s))
     (set_bdata b (\<lambda>d. let off = node_csum_off d
        in wr32 d off (sfs_crc32c (in_csum_seed (ino_of s i)) (slice d 0 off)))))"

definition sfs_ext_verify_block :: "u32 \<Rightarrow> u64 \<Rightarrow> nat \<Rightarrow> ('c, sfs_err + unit) fsact" where
  "sfs_ext_verify_block i b depth = look (\<lambda>s. let d = b_data (buf_of s b); G = fs_geo s in
     if b_flags (buf_of s b) AND B_VERIFIED \<noteq> 0 then ok ()
     else if \<not> node_ok G d False (Some depth) then throw SFS_ECORRUPT
     else if g_csum G \<and> (let off = node_csum_off d in unat (g_bs G) < off + 4
                 \<or> rd32 d off \<noteq> sfs_crc32c (in_csum_seed (ino_of s i)) (slice d 0 off))
     then run (sfs_logu ''sfs: extent block checksum mismatch, inode '' (ucast i)) (\<lambda>_. throw SFS_ECORRUPT)
     else run (upd_buf b (set_flags B_VERIFIED)) (\<lambda>_. ok ()))"

definition read_node :: "u32 \<Rightarrow> u64 \<Rightarrow> nat \<Rightarrow> ('c, sfs_err + u64) fsact" where
  "read_node i blk depth = look (\<lambda>s. if \<not> sfs_block_valid (fs_geo s) blk then throw SFS_ECORRUPT
     else chk (sfs_bread blk) (\<lambda>b. run (sfs_ext_verify_block i b depth) (\<lambda>rc. case rc of
            Inl e \<Rightarrow> run (sfs_bput b) (\<lambda>_. throw e)
          | Inr _ \<Rightarrow> ok b)))"

subsection \<open>Paths\<close>

type_synonym xpath = "u64 option \<times> int"

definition node_data :: "'c sfs_fs \<Rightarrow> u32 \<Rightarrow> u64 option \<Rightarrow> bytes" where
  "node_data s i b = (case b of None \<Rightarrow> in_iblock (ino_of s i) | Some b \<Rightarrow> b_data (buf_of s b))"

text \<open>A write through \<open>p[l].h\<close>.\<close>

definition set_node :: "u32 \<Rightarrow> u64 option \<Rightarrow> (bytes \<Rightarrow> bytes) \<Rightarrow> ('c, unit) fsact" where
  "set_node i b f = (case b of None \<Rightarrow> upd_ino i (\<lambda>x. x\<lparr>in_iblock := f (in_iblock x)\<rparr>) | Some b \<Rightarrow> set_bdata b f)"

definition path_put :: "xpath list \<Rightarrow> ('c, unit) fsact" where
  "path_put p = forA p (\<lambda>(b, _). case b of None \<Rightarrow> ret () | Some b \<Rightarrow> sfs_bput b)"

function search_loop :: "bytes \<Rightarrow> u32 \<Rightarrow> int \<Rightarrow> int \<Rightarrow> int \<Rightarrow> int" where
  "search_loop h lblk lo hi ans =
    (if lo \<le> hi
     then let mid = (lo + hi) div 2
          in if rd32 h (ENT (nat mid) + EE_block) \<le> lblk then search_loop h lblk (mid + 1) hi mid
             else search_loop h lblk lo (mid - 1) ans
     else ans)"
  by auto
termination
  by (relation "measure (\<lambda>(_, _, lo, hi, _). nat (hi - lo + 1))") auto

declare search_loop.simps [simp del]

definition search :: "bytes \<Rightarrow> u32 \<Rightarrow> int" where
  "search h lblk = search_loop h lblk 0 (int (unat (rd16 h EH_entries)) - 1) (-1)"

text \<open>The loop of \<open>find_path\<close>: \<open>d\<close> levels are below the current node \<open>b\<close>, \<open>acc\<close> are the levels above.\<close>

fun find_down :: "u32 \<Rightarrow> u32 \<Rightarrow> nat \<Rightarrow> xpath list \<Rightarrow> u64 option \<Rightarrow> ('c, sfs_err + xpath list) fsact" where
  "find_down i lblk 0 acc b = look (\<lambda>s. ok (acc @ [(b, search (node_data s i b) lblk)]))"
| "find_down i lblk (Suc d) acc b = look (\<lambda>s.
     let h = node_data s i b; idx = search h lblk; idx = (if idx < 0 then 0 else idx)
     in if rd16 h EH_entries = 0 then run (path_put (acc @ [(b, 0)])) (\<lambda>_. throw SFS_ECORRUPT)
        else run (read_node i (ei_leaf h (ENT (nat idx))) d) (\<lambda>rc. case rc of
               Inl e \<Rightarrow> run (path_put (acc @ [(b, idx)])) (\<lambda>_. throw e)
             | Inr nb \<Rightarrow> find_down i lblk d (acc @ [(b, idx)]) (Some nb)))"

definition find_path :: "u32 \<Rightarrow> u32 \<Rightarrow> ('c, sfs_err + xpath list) fsact" where
  "find_path i lblk = look (\<lambda>s. let r = in_iblock (ino_of s i) in
     if \<not> node_ok (fs_geo s) r True None then throw SFS_ECORRUPT
     else find_down i lblk (unat (rd16 r EH_depth)) [] None)"

definition node_dirty :: "u32 \<Rightarrow> u64 option \<Rightarrow> ('c, sfs_err + unit) fsact" where
  "node_dirty i b = (case b of None \<Rightarrow> run (sfs_idirty i) (\<lambda>_. ok ())
     | Some b \<Rightarrow> run (node_csum_set i b) (\<lambda>_. sfs_bdirty_meta b))"

subsection \<open>The legacy block map\<close>

text \<open>The number of pointers from \<open>start\<close> on that map consecutive blocks, the first being \<open>p\<close>.\<close>

definition bmap_run :: "bytes \<Rightarrow> nat \<Rightarrow> nat \<Rightarrow> u32 \<Rightarrow> nat" where
  "bmap_run d start lim p =
     1 + length (takeWhile (\<lambda>j. rd32 d (j * 4) = p + of_nat (j - start)) [start + 1..<lim])"

definition bmap_read_ptr :: "u64 \<Rightarrow> nat \<Rightarrow> ('c, sfs_err + u32) fsact" where
  "bmap_read_ptr blk idx = look (\<lambda>s. if \<not> sfs_block_valid (fs_geo s) blk then throw SFS_ECORRUPT
     else chk (sfs_bread blk) (\<lambda>b. look (\<lambda>s. let p = rd32 (b_data (buf_of s b)) (idx * 4)
       in run (sfs_bput b) (\<lambda>_. ok p))))"

text \<open>The level (1, 2 or 3) whose span holds the block, and the index relative to that level.\<close>

fun bmap_level :: "u32 \<Rightarrow> nat \<Rightarrow> nat \<Rightarrow> u32 \<Rightarrow> u64 \<Rightarrow> (nat \<times> u32) option" where
  "bmap_level apb 0 level rel span = None"
| "bmap_level apb (Suc k) level rel span =
    (let span = span * ucast apb
     in if ucast rel < span then Some (level, rel) else bmap_level apb k (level + 1) (rel - ucast span) span)"

fun bmap_idx :: "u32 \<Rightarrow> nat \<Rightarrow> u32 \<Rightarrow> nat list \<Rightarrow> nat list" where
  "bmap_idx apb 0 rel acc = acc"
| "bmap_idx apb (Suc k) rel acc = bmap_idx apb k (rel div apb) (unat (rel mod apb) # acc)"

text \<open>A mapping result: \<open>(Some pblk, len, unwritten)\<close> for the return value 1, \<open>(None, len, False)\<close> for
  a hole (return value 0).\<close>

type_synonym mapping_res = "u64 option \<times> u32 \<times> bool"

fun bmap_walk :: "nat list \<Rightarrow> u32 \<Rightarrow> ('c, sfs_err + mapping_res) fsact" where
  "bmap_walk [] p = ok (None, 1, False)"
| "bmap_walk [ix] p = look (\<lambda>s. if p = 0 then ok (None, 1, False)
     else if \<not> sfs_block_valid (fs_geo s) (ucast p) then throw SFS_ECORRUPT
     else chk (sfs_bread (ucast p)) (\<lambda>b. look (\<lambda>s.
       let d = b_data (buf_of s b); first = rd32 d (ix * 4); n = bmap_run d ix (unat (g_bs (fs_geo s) div 4)) first
       in run (sfs_bput b) (\<lambda>_. if first = 0 then ok (None, 1, False)
            else if \<not> sfs_range_valid (fs_geo s) (ucast first) (of_nat n) then throw SFS_ECORRUPT
            else ok (Some (ucast first), of_nat n, False)))))"
| "bmap_walk (ix # rest) p = (if p = 0 then ok (None, 1, False)
     else chk (bmap_read_ptr (ucast p) ix) (\<lambda>next. bmap_walk rest next))"

definition sfs_bmap_lookup :: "u32 \<Rightarrow> u32 \<Rightarrow> ('c, sfs_err + mapping_res) fsact" where
  "sfs_bmap_lookup i lblk = look (\<lambda>s.
     let d = in_iblock (ino_of s i); apb = g_bs (fs_geo s) div 4
     in if lblk < 12
        then let p = rd32 d (unat lblk * 4)
             in if p = 0 then ok (None, 1, False)
                else if \<not> sfs_block_valid (fs_geo s) (ucast p) then throw SFS_ECORRUPT
                else ok (Some (ucast p), of_nat (bmap_run d (unat lblk) 12 p), False)
        else case bmap_level apb 3 1 (lblk - 12) 1 of
               None \<Rightarrow> ok (None, 1, False)
             | Some (level, rel) \<Rightarrow> bmap_walk (bmap_idx apb level rel []) (rd32 d ((11 + level) * 4)))"

subsection \<open>Lookup\<close>

text \<open>The start of the next mapping above a hole: the next entry of the leaf, else of the nearest
  level that has one.\<close>

fun next_key :: "'c sfs_fs \<Rightarrow> u32 \<Rightarrow> xpath list \<Rightarrow> u64" where
  "next_key s i [] = 0x100000000"
| "next_key s i ((b, idx) # up) =
    (let h = node_data s i b
     in if idx + 1 < int (unat (rd16 h EH_entries)) then ucast (rd32 h (ENT (nat (idx + 1)) + EI_block))
        else next_key s i up)"

definition sfs_map_block :: "u32 \<Rightarrow> u32 \<Rightarrow> ('c, sfs_err + mapping_res) fsact" where
  "sfs_map_block i lblk = look (\<lambda>s. let x = ino_of s i in
     if in_flags x AND IFL_EXTENTS = 0 then sfs_bmap_lookup i lblk
     else if in_ec_valid x \<and> in_ec_lblk x \<le> lblk \<and> lblk - in_ec_lblk x < in_ec_len x
     then run (upd_st (\<lambda>t. t\<lparr>st_extent_cache_hits := st_extent_cache_hits t + 1\<rparr>)) (\<lambda>_.
          ok (Some (in_ec_pblk x + ucast (lblk - in_ec_lblk x)), in_ec_len x - (lblk - in_ec_lblk x), in_ec_unwritten x))
     else run (upd_st (\<lambda>t. t\<lparr>st_extent_cache_misses := st_extent_cache_misses t + 1\<rparr>)) (\<lambda>_.
       chk (find_path i lblk) (\<lambda>p. look (\<lambda>s.
       let (b, idx) = last p; h = node_data s i b; e = ENT (nat idx);
           eb = rd32 h (e + EE_block); el = ee_len h e
       in if 0 \<le> idx \<and> lblk - eb < el
          then run (whenA (fs_mflags s AND SFS_MOUNT_NAIVE = 0)
                 (upd_ino i (\<lambda>x. x\<lparr>in_ec_valid := True, in_ec_lblk := eb, in_ec_len := el,
                    in_ec_pblk := ee_start h e, in_ec_unwritten := ee_unwritten h e\<rparr>))) (\<lambda>_.
               run (path_put p) (\<lambda>_.
               ok (Some (ee_start h e + ucast (lblk - eb)), el - (lblk - eb), ee_unwritten h e)))
          else let next = next_key s i (rev p);
                   len = (if 0xFFFFFFFF < next - ucast lblk then 0xFFFFFFFF else ucast (next - ucast lblk)) :: u32
               in run (path_put p) (\<lambda>_. ok (None, if len = 0 then 1 else len, False))))))"

subsection \<open>Goals (sfs\_alloc.c)\<close>

definition goal_group :: "sfs_geo \<Rightarrow> u32 \<Rightarrow> u64" where
  "goal_group G g =
    (let g = (if g_log_groups_per_flex G \<noteq> 0 \<and> g_log_groups_per_flex G < 31
              then g - g mod push_bit (unat (g_log_groups_per_flex G)) 1 else g);
         g = (if g_ngroups G \<le> g then 0 else g)
     in sfs_group_first_block G g)"

text \<open>\<open>None\<close> is a null inode.\<close>

definition sfs_goal_for :: "u32 option \<Rightarrow> u32 \<Rightarrow> ('c, u64) fsact" where
  "sfs_goal_for inode lblk = look (\<lambda>s. let G = fs_geo s in case inode of
     None \<Rightarrow> ret (goal_group G (fs_alloc_hint_group s))
   | Some i \<Rightarrow> let x = ino_of s i; goal = in_last_pblk x + ucast (lblk - in_last_lblk x) in
     if in_last_pblk x \<noteq> 0 \<and> in_last_lblk x < lblk \<and> lblk - in_last_lblk x < g_bpg G \<and> goal < g_nblocks G
     then ret goal
     else run (if lblk \<noteq> 0 \<and> in_flags x AND IFL_EXTENTS \<noteq> 0
               then run (sfs_map_block i (lblk - 1)) (\<lambda>r. case r of
                      Inr (Some p, _, _) \<Rightarrow> if p + 1 < g_nblocks G then ret (Some (p + 1)) else ret None
                    | _ \<Rightarrow> ret None)
               else ret None) (\<lambda>r. case r of Some g \<Rightarrow> ret g
             | None \<Rightarrow> ret (goal_group G (sfs_group_of_inode G i))))"

end
