(* ===== verification/Sfs_Alloc.thy ===== *)
theory Sfs_Alloc
  imports Sfs_ExtMap
begin

unbundle bit_operations_syntax

section \<open>Allocation (sfs\_alloc.c)\<close>

text \<open>
  Run lists for deferred frees, preallocation windows, the goal-directed block search, deferred
  frees and their application at commit, and inode allocation. Pointers into the window table are
  indices; the lists \<open>t_frees\<close> and \<open>t_revokes\<close> are passed and given back.
\<close>

subsection \<open>Run lists\<close>

definition sfs_runpage_add :: "runpage list \<Rightarrow> u64 \<Rightarrow> u32 \<Rightarrow> u32 \<Rightarrow> ('c, sfs_err + runpage list) fsact" where
  "sfs_runpage_add head start len meta =
    (let add = (\<lambda>pages. case pages of [] \<Rightarrow> [[(start, len, meta)]] | p # ps \<Rightarrow> (p @ [(start, len, meta)]) # ps);
         full = run (sfs_alloc sizeof_runpage) (\<lambda>good.
                  if \<not> good then throw SFS_ENOMEM else ok (add ([] # head)))
     in case head of [] \<Rightarrow> full
        | p # ps \<Rightarrow>
          if p \<noteq> [] \<and> (case last p of (st, l, m) \<Rightarrow>
               m = meta \<and> st + ucast l = start \<and> ucast l + ucast len \<le> (0x7FFFFFFF :: u64))
          then case last p of (st, l, m) \<Rightarrow> ok ((butlast p @ [(st, l + len, m)]) # ps)
          else if length p = RUNS_PER_PAGE then full else ok (add head))"

definition sfs_runpage_free :: "runpage list \<Rightarrow> ('c, unit) fsact" where
  "sfs_runpage_free head = forA head (\<lambda>_. sfs_free sizeof_runpage)"

subsection \<open>Preallocation windows\<close>

fun pa_find :: "sfs_pa list \<Rightarrow> u32 \<Rightarrow> nat \<Rightarrow> nat option" where
  "pa_find [] ino k = None"
| "pa_find (w # ws) ino k = (if w_len w \<noteq> 0 \<and> w_ino w = ino then Some k else pa_find ws ino (k + 1))"

definition pa_of :: "sfs_patab \<Rightarrow> u32 \<Rightarrow> nat option" where
  "pa_of t ino = pa_find (pa_w t) ino 0"

definition pa_update :: "nat \<Rightarrow> (sfs_pa \<Rightarrow> sfs_pa) \<Rightarrow> sfs_patab \<Rightarrow> sfs_patab" where
  "pa_update k f t = t\<lparr>pa_w := (pa_w t)[k := f (pa_w t ! k)]\<rparr>"

definition pa_release :: "u32 \<Rightarrow> sfs_patab \<Rightarrow> sfs_patab" where
  "pa_release ino t = (case pa_of t ino of None \<Rightarrow> t | Some k \<Rightarrow> pa_update k (\<lambda>w. w\<lparr>w_len := 0\<rparr>) t)"

definition sfs_pa_release :: "u32 \<Rightarrow> ('c, unit) fsact" where
  "sfs_pa_release ino = upd_pa (pa_release ino)"

definition pa_overlaps :: "sfs_pa \<Rightarrow> u64 \<Rightarrow> u64 \<Rightarrow> bool" where
  "pa_overlaps w s n = (w_pblk w < s + n \<and> s < w_pblk w + ucast (w_len w))"

fun pa_conflict_loop :: "sfs_pa list \<Rightarrow> u32 \<Rightarrow> u64 \<Rightarrow> u64 \<Rightarrow> (u64 \<times> u64) option \<Rightarrow> (u64 \<times> u64) option" where
  "pa_conflict_loop [] ino s n found = found"
| "pa_conflict_loop (w # ws) ino s n found =
    (if w_len w = 0 \<or> w_ino w = ino then pa_conflict_loop ws ino s n found
     else if pa_overlaps w s n
     then pa_conflict_loop ws ino s n
            (case found of None \<Rightarrow> Some (w_pblk w, w_pblk w + ucast (w_len w))
             | Some (a, e) \<Rightarrow> if w_pblk w < a then Some (w_pblk w, w_pblk w + ucast (w_len w)) else found)
     else pa_conflict_loop ws ino s n found)"

definition pa_conflict :: "sfs_patab \<Rightarrow> u32 \<Rightarrow> u64 \<Rightarrow> u64 \<Rightarrow> (u64 \<times> u64) option" where
  "pa_conflict t ino s n = pa_conflict_loop (pa_w t) ino s n None"

definition pa_drop_overlap :: "u64 \<Rightarrow> u64 \<Rightarrow> sfs_patab \<Rightarrow> sfs_patab" where
  "pa_drop_overlap s n t = t\<lparr>pa_w := map (\<lambda>w. if w_len w \<noteq> 0 \<and> pa_overlaps w s n then w\<lparr>w_len := 0\<rparr> else w) (pa_w t)\<rparr>"

text \<open>The victim: the first free slot met, else the slot with the lowest age.\<close>

fun pa_victim :: "sfs_pa list \<Rightarrow> nat \<Rightarrow> (nat \<times> u32) option \<Rightarrow> nat" where
  "pa_victim [] k best = (case best of None \<Rightarrow> 0 | Some (j, _) \<Rightarrow> j)"
| "pa_victim (c # cs) k best =
    (if w_len c = 0 then k
     else pa_victim cs (k + 1) (case best of None \<Rightarrow> Some (k, w_age c)
            | Some (j, a) \<Rightarrow> if w_age c < a then Some (k, w_age c) else best))"

definition pa_set :: "u32 \<Rightarrow> u32 \<Rightarrow> u64 \<Rightarrow> u32 \<Rightarrow> sfs_patab \<Rightarrow> sfs_patab" where
  "pa_set ino lblk pblk len t =
    (let k = (case pa_of t ino of Some k \<Rightarrow> k | None \<Rightarrow> pa_victim (pa_w t) 0 None)
     in \<lparr>pa_w = (pa_w t)[k := \<lparr>w_ino = ino, w_lblk = lblk, w_pblk = pblk, w_len = len, w_age = pa_clock t + 1\<rparr>],
         pa_clock = pa_clock t + 1\<rparr>)"

subsection \<open>Block allocation\<close>

definition sb_dirty :: "('c, unit) fsact" where
  "sb_dirty = upd_txn (\<lambda>t. t\<lparr>t_sb_dirty := True\<rparr>)"

definition take_run :: "u32 \<Rightarrow> sfs_gd \<Rightarrow> u64 \<Rightarrow> nat \<Rightarrow> nat \<Rightarrow> ('c, sfs_err + unit) fsact" where
  "take_run g gd bb bt n =
     run (set_bdata bb (\<lambda>d. set_bits d bt n)) (\<lambda>_. look (\<lambda>s.
     let gd = gd\<lparr>gd_free_blocks := gd_free_blocks gd - of_nat n, gd_flags := gd_flags gd AND NOT BG_BLOCK_UNINIT\<rparr>;
         gd = sfs_block_bitmap_csum_set (fs_geo s) gd (b_data (buf_of s bb))
     in run (sfs_bdirty_meta bb) (\<lambda>rc.
        run (rcthen rc (sfs_gd_write g gd)) (\<lambda>rc.
        run (upd (\<lambda>s. s\<lparr>fs_free_blocks := fs_free_blocks s - of_nat n\<rparr>)) (\<lambda>_.
        run sb_dirty (\<lambda>_. ret rc))))))"

text \<open>What one turn of the scan of \<open>search_group\<close> decides about the group's bitmap \<open>bm\<close> from bit
  \<open>bt\<close> on: nothing left, a window to skip (the next bit), or the run \<open>[a, e)\<close> to take.\<close>

datatype scan_step = ScanEnd | ScanSkip nat | ScanTake nat nat

definition scan_group :: "sfs_patab \<Rightarrow> u32 \<Rightarrow> u64 \<Rightarrow> bytes \<Rightarrow> nat \<Rightarrow> nat \<Rightarrow> nat \<Rightarrow> bool \<Rightarrow> scan_step" where
  "scan_group t ino first bm cnt bt want strict =
    (let a = find_zero bm bt cnt
     in if cnt \<le> a then ScanEnd
        else let lim = (if a + want < cnt then a + want else cnt); e = find_one bm a lim
             in case (if strict then pa_conflict t ino (first + of_nat a) (of_nat (e - a)) else None) of
                  None \<Rightarrow> ScanTake a e
                | Some (ws, we) \<Rightarrow> if first + of_nat a < ws then ScanTake a (unat (ucast (ws - first) :: u32))
                    else ScanSkip (unat (ucast (we - first) :: u32)))"

text \<open>The \<open>while (bit < cnt)\<close> loop up to the run it takes. \<open>bt\<close> grows in every turn, so \<open>cnt\<close> bounds
  the turns.\<close>

fun scan_group_loop :: "nat \<Rightarrow> sfs_patab \<Rightarrow> u32 \<Rightarrow> u64 \<Rightarrow> bytes \<Rightarrow> nat \<Rightarrow> nat \<Rightarrow> nat \<Rightarrow> bool \<Rightarrow> (nat \<times> nat) option" where
  "scan_group_loop 0 t ino first bm cnt bt want strict = None"
| "scan_group_loop (Suc k) t ino first bm cnt bt want strict =
    (if cnt \<le> bt then None
     else case scan_group t ino first bm cnt bt want strict of
            ScanEnd \<Rightarrow> None
          | ScanSkip bt' \<Rightarrow> scan_group_loop k t ino first bm cnt bt' want strict
          | ScanTake a e \<Rightarrow> Some (a, e))"

definition search_group :: "u32 \<Rightarrow> u32 \<Rightarrow> nat \<Rightarrow> nat \<Rightarrow> bool \<Rightarrow> ('c, sfs_err + u64 \<times> u32) fsact" where
  "search_group ino g from want strict = chk (sfs_gd_read g) (\<lambda>gd.
     if gd_free_blocks gd = 0 then throw SFS_ENOSPC
     else run (sfs_block_bitmap g gd) (\<lambda>rc. case rc of
            Inl e \<Rightarrow> if e = SFS_ECORRUPT then throw SFS_ENOSPC else throw e
          | Inr bb \<Rightarrow> look (\<lambda>s.
              let G = fs_geo s; first = sfs_group_first_block G g; cnt = unat (sfs_group_block_count G g);
                  bt = (if from < cnt then from else 0)
              in case scan_group_loop cnt (fs_pa s) ino first (b_data (buf_of s bb)) cnt bt want strict of
                   None \<Rightarrow> run (sfs_bput bb) (\<lambda>_. throw SFS_ENOSPC)
                 | Some (a, e) \<Rightarrow>
                     run (whenA (\<not> strict) (upd_pa (pa_drop_overlap (first + of_nat a) (of_nat (e - a))))) (\<lambda>_.
                     run (take_run g gd bb a (e - a)) (\<lambda>rc.
                     run (sfs_bput bb) (\<lambda>_.
                     chk (ret rc) (\<lambda>_. ok (first + of_nat a, of_nat (e - a)))))))))"

fun alloc_attempts :: "u32 \<Rightarrow> u32 \<Rightarrow> nat \<Rightarrow> nat \<Rightarrow> (bool \<times> nat) list \<Rightarrow> ('c, sfs_err + u64 \<times> u32) fsact" where
  "alloc_attempts ino g0 goal_off want [] = throw SFS_ENOSPC"
| "alloc_attempts ino g0 goal_off want ((pass0, k) # rest) = look (\<lambda>s.
     let ng = g_ngroups (fs_geo s); g = (g0 + of_nat k) mod ng; from = (if k = 0 then goal_off else 0)
     in run (search_group ino g from want (pass0 \<and> fs_mflags s AND SFS_MOUNT_NAIVE = 0)) (\<lambda>rc. case rc of
          Inl e \<Rightarrow> if e = SFS_ENOSPC then alloc_attempts ino g0 goal_off want rest else throw e
        | Inr r \<Rightarrow> run (upd (\<lambda>s. s\<lparr>fs_alloc_hint_group := g\<rparr>)) (\<lambda>_. ok r)))"

text \<open>Both passes of \<open>alloc_search\<close>: every group from the goal's on, and the goal group's head again
  when the goal is not at its start.\<close>

definition alloc_search :: "u32 \<Rightarrow> u64 \<Rightarrow> nat \<Rightarrow> ('c, sfs_err + u64 \<times> u32) fsact" where
  "alloc_search ino goal want = look (\<lambda>s. let G = fs_geo s;
       goal = (if sfs_block_valid G goal then goal else ucast (g_first_data_block G));
       g0 = sfs_group_of_block G goal;
       goal_off = unat (ucast (goal - sfs_group_first_block G g0) :: u32);
       ng = unat (g_ngroups G);
       turns = [0..<ng] @ (if goal_off \<noteq> 0 then [ng] else [])
     in alloc_attempts ino g0 goal_off want (map (Pair True) turns @ map (Pair False) turns))"

text \<open>The part of \<open>sfs_alloc_blocks\<close> that consumes the file's own window; \<open>None\<close> goes on to the
  search.\<close>

definition alloc_from_window :: "u32 \<Rightarrow> u32 \<Rightarrow> u32 \<Rightarrow> ('c, sfs_err + (u64 \<times> u32) option) fsact" where
  "alloc_from_window ino lblk want = look (\<lambda>s. case pa_of (fs_pa s) ino of None \<Rightarrow> ok None
     | Some k \<Rightarrow>
       let w = pa_w (fs_pa s) ! k; G = fs_geo s; g = sfs_group_of_block G (w_pblk w);
           first = sfs_group_first_block G g; bt = unat (ucast (w_pblk w - first) :: u32);
           cnt = unat (sfs_group_block_count G g);
           drop = run (upd_pa (pa_update k (\<lambda>w. w\<lparr>w_len := 0\<rparr>))) (\<lambda>_. ok None)
       in if w_lblk w \<noteq> lblk then drop
          else run (chk (sfs_gd_read g) (\<lambda>gd. chk (sfs_block_bitmap g gd) (\<lambda>bb. ok (gd, bb)))) (\<lambda>rc. case rc of
            Inl e \<Rightarrow> if e \<noteq> SFS_ECORRUPT then throw e else drop
          | Inr (gd, bb) \<Rightarrow> look (\<lambda>s.
              let lim = bt + unat (min want (w_len w)); lim = (if cnt < lim then cnt else lim);
                  e = find_one (b_data (buf_of s bb)) bt lim
              in if bt < e
                 then run (take_run g gd bb bt (e - bt)) (\<lambda>rc.
                      run (sfs_bput bb) (\<lambda>_.
                      chk (ret rc) (\<lambda>_.
                      let got = of_nat (e - bt) :: u32
                      in run (upd_pa (\<lambda>t. pa_update k (\<lambda>w. w\<lparr>w_pblk := w_pblk w + ucast got, w_lblk := w_lblk w + got,
                                 w_len := w_len w - got, w_age := pa_clock t + 1\<rparr>) (t\<lparr>pa_clock := pa_clock t + 1\<rparr>))) (\<lambda>_.
                         ok (Some (w_pblk w, got))))))
                 else run (sfs_bput bb) (\<lambda>_. drop))))"

text \<open>The end of \<open>sfs_alloc_blocks\<close>: reserve the free run behind the allocation for the file.\<close>

definition reserve_window :: "u32 \<Rightarrow> u32 \<Rightarrow> u64 \<Rightarrow> u32 \<Rightarrow> ('c, unit) fsact" where
  "reserve_window ino lblk start got = look (\<lambda>s. let G = fs_geo s; nb = start + ucast got;
       size_blocks = ucast (min (in_nblocks (ino_of s ino) + ucast got) 0x7FFFFFFF) :: u32;
       wlen = unat (if size_blocks < 32 then 32 else if 2048 < size_blocks then 2048 else size_blocks)
     in if fs_mflags s AND SFS_MOUNT_NAIVE \<noteq> 0 \<or> \<not> sfs_is_reg (ino_of s ino) \<or> pa_of (fs_pa s) ino \<noteq> None
           \<or> g_nblocks G \<le> nb then ret ()
        else let g = sfs_group_of_block G nb; first = sfs_group_first_block G g
          in run (sfs_gd_read g) (\<lambda>rc. case rc of Inl _ \<Rightarrow> ret ()
             | Inr gd \<Rightarrow> if gd_free_blocks gd = 0 then ret ()
                 else run (sfs_block_bitmap g gd) (\<lambda>rc. case rc of Inl _ \<Rightarrow> ret ()
                    | Inr bb \<Rightarrow> look (\<lambda>s.
                        let bt = unat (ucast (nb - first) :: u32); cnt = unat (sfs_group_block_count G g);
                            lim = (if bt + wlen < cnt then bt + wlen else cnt);
                            e = find_one (b_data (buf_of s bb)) bt lim;
                            e = (if bt < e then (case pa_conflict (fs_pa s) ino nb (of_nat (e - bt)) of
                                   None \<Rightarrow> e | Some (ws, we) \<Rightarrow> if nb < ws then unat (ucast (ws - first) :: u32) else bt)
                                 else e)
                        in run (whenA (bt < e) (upd_pa (pa_set ino (lblk + got) nb (of_nat (e - bt))))) (\<lambda>_.
                             sfs_bput bb)))))"

definition sfs_alloc_blocks :: "u32 option \<Rightarrow> u32 \<Rightarrow> u64 \<Rightarrow> u32 \<Rightarrow> ('c, sfs_err + u64 \<times> u32) fsact" where
  "sfs_alloc_blocks inode lblk goal want = look (\<lambda>s.
     let ino = (case inode of None \<Rightarrow> 0 | Some i \<Rightarrow> i);
         want' = (if EXT_INIT_MAX_LEN < want then EXT_INIT_MAX_LEN else want)
     in if want = 0 then throw SFS_EINVAL
        else if fs_free_blocks s = 0 then throw SFS_ENOSPC
        else chk (if inode \<noteq> None \<and> fs_mflags s AND SFS_MOUNT_NAIVE = 0 then alloc_from_window ino lblk want' else ok None) (\<lambda>r.
             chk (case r of Some x \<Rightarrow> ok x | None \<Rightarrow> alloc_search ino goal (unat want')) (\<lambda>(start, got).
             run (case inode of None \<Rightarrow> ret ()
                  | Some i \<Rightarrow> run (upd_ino i (\<lambda>x. x\<lparr>in_last_lblk := lblk + got - 1, in_last_pblk := start + ucast got - 1\<rparr>)) (\<lambda>_.
                      reserve_window i lblk start got)) (\<lambda>_. ok (start, got)))))"

definition sfs_alloc_meta_block :: "u64 \<Rightarrow> ('c, sfs_err + u64) fsact" where
  "sfs_alloc_meta_block goal = look (\<lambda>s. if fs_free_blocks s = 0 then throw SFS_ENOSPC
     else chk (alloc_search 0 goal 1) (\<lambda>(blk, _). ok blk))"

subsection \<open>Freeing blocks\<close>

fun hits_meta_inner :: "u64 \<Rightarrow> u64 \<Rightarrow> u32 list \<Rightarrow> ('c, bool) fsact" where
  "hits_meta_inner start end' [] = ret False"
| "hits_meta_inner start end' (h # hs) = run (sfs_gd_read h) (\<lambda>r. case r of Inl _ \<Rightarrow> ret True
     | Inr gd \<Rightarrow> look (\<lambda>s.
         if (start \<le> gd_block_bitmap gd \<and> gd_block_bitmap gd < end') \<or> (start \<le> gd_inode_bitmap gd \<and> gd_inode_bitmap gd < end')
         then ret True
         else if gd_inode_table gd < end' \<and> start < gd_inode_table gd + ucast (g_itable_blocks (fs_geo s)) then ret True
         else hits_meta_inner start end' hs))"

fun hits_meta_outer :: "u64 \<Rightarrow> u64 \<Rightarrow> u32 list \<Rightarrow> ('c, bool) fsact" where
  "hits_meta_outer start end' [] = ret False"
| "hits_meta_outer start end' (g # gs) = look (\<lambda>s. let G = fs_geo s;
       first = sfs_group_first_block G g; nsb = sfs_group_super_blocks G g in
     if nsb \<noteq> 0 \<and> start < first + ucast nsb \<and> first < end' then ret True
     else case flex_range G g of (h0, h1) \<Rightarrow>
       run (hits_meta_inner start end' (word_range h0 h1)) (\<lambda>r.
         if r then ret True else hits_meta_outer start end' gs))"

definition run_hits_meta :: "u64 \<Rightarrow> u32 \<Rightarrow> ('c, bool) fsact" where
  "run_hits_meta start cnt = look (\<lambda>s. let G = fs_geo s;
       g = sfs_group_of_block G start; gl = sfs_group_of_block G (start + ucast cnt - 1)
     in hits_meta_outer start (start + ucast cnt) (map of_nat [unat g..<unat gl + 1]))"

definition sfs_free_blocks :: "u64 \<Rightarrow> u32 \<Rightarrow> bool \<Rightarrow> ('c, sfs_err + unit) fsact" where
  "sfs_free_blocks start cnt metadata = look (\<lambda>s.
     if cnt = 0 then ok ()
     else run (if \<not> sfs_range_valid (fs_geo s) start (ucast cnt) then ret True else run_hits_meta start cnt) (\<lambda>bad.
       if bad
       then run (sfs_logu ''sfs: refusing to free a metadata or out-of-range block run at '' start) (\<lambda>_. throw SFS_ECORRUPT)
       else run (forA [0..<unat cnt] (\<lambda>k. sfs_bforget (start + of_nat k))) (\<lambda>_. look (\<lambda>s.
         chk (sfs_runpage_add (t_frees (fs_txn s)) start cnt (if metadata then 1 else 0)) (\<lambda>fr.
         run (upd_txn (\<lambda>t. t\<lparr>t_frees := fr, t_nfrees := t_nfrees t + 1,
                t_free_blocks_pending := t_free_blocks_pending t + ucast cnt\<rparr>)) (\<lambda>_.
         run mods_inc (\<lambda>_. look (\<lambda>s.
         if metadata \<and> j_present (fs_jnl s)
         then chk (sfs_runpage_add (t_revokes (fs_txn s)) start cnt 1) (\<lambda>rv.
              run (upd_txn (\<lambda>t. t\<lparr>t_revokes := rv, t_nrevokes := t_nrevokes t + cnt\<rparr>)) (\<lambda>_. ok ()))
         else ok ()))))))))"

text \<open>The \<open>while (n && !rc)\<close> loop of \<open>sfs_apply_pending_frees\<close> on one run: group by group. Every turn
  frees at least one block, so the length of the run bounds the turns.\<close>

fun free_run :: "nat \<Rightarrow> u64 \<Rightarrow> u64 \<Rightarrow> ('c, sfs_err + unit) fsact" where
  "free_run 0 st n = ok ()"
| "free_run (Suc fuel) st n = (if n = 0 then ok () else look (\<lambda>s.
     let G = fs_geo s; g = sfs_group_of_block G st; first = sfs_group_first_block G g;
         off = ucast (st - first) :: u32;
         k = ucast (min n (ucast (sfs_group_block_count G g - off))) :: u32
     in chk (sfs_gd_read g) (\<lambda>gd. chk (sfs_block_bitmap g gd) (\<lambda>bb. look (\<lambda>s.
        case clear_bits (b_data (buf_of s bb)) (unat off) (unat k) of (bm, bad) \<Rightarrow>
        run (set_bdata bb (\<lambda>_. bm)) (\<lambda>_.
        if bad \<noteq> 0
        then run (sfs_logu ''sfs: freeing blocks that were already free at '' st) (\<lambda>_.
             run (sfs_bput bb) (\<lambda>_. throw SFS_ECORRUPT))
        else let gd = sfs_block_bitmap_csum_set G (gd\<lparr>gd_free_blocks := gd_free_blocks gd + k\<rparr>) bm
          in run (sfs_bdirty_meta bb) (\<lambda>rc.
             run (sfs_bput bb) (\<lambda>_.
             run (rcthen rc (sfs_gd_write g gd)) (\<lambda>rc.
             run (upd (\<lambda>s. s\<lparr>fs_free_blocks := fs_free_blocks s + ucast k\<rparr>)) (\<lambda>_.
             chk (ret rc) (\<lambda>_. free_run fuel (st + ucast k) (n - ucast k))))))))))))"

definition sfs_apply_pending_frees :: "('c, sfs_err + unit) fsact" where
  "sfs_apply_pending_frees = look (\<lambda>s. let pages = t_frees (fs_txn s) in
     run (forE (concat pages) (\<lambda>(st, len, _). free_run (unat len) st (ucast len))) (\<lambda>rc.
     run (whenA (pages \<noteq> []) sb_dirty) (\<lambda>_.
     run (sfs_runpage_free pages) (\<lambda>_.
     run (upd_txn (\<lambda>t. t\<lparr>t_frees := [], t_nfrees := 0, t_free_blocks_pending := 0\<rparr>)) (\<lambda>_. ret rc)))))"

subsection \<open>Inodes\<close>

definition zero_inode_slots :: "u32 \<Rightarrow> u32 \<Rightarrow> u32 \<Rightarrow> ('c, sfs_err + unit) fsact" where
  "zero_inode_slots g from to = forE (word_range from to) (\<lambda>idx. look (\<lambda>s.
     chk (sfs_inode_loc (g * g_ipg (fs_geo s) + idx + 1)) (\<lambda>(blk, off).
     chk (sfs_bread blk) (\<lambda>b.
     run (set_bdata b (\<lambda>d. fill d off 0 (unat (g_isize (fs_geo s))))) (\<lambda>_.
     run (sfs_bdirty_meta b) (\<lambda>rc. run (sfs_bput b) (\<lambda>_. ret rc)))))))"

definition try_group_inode :: "u32 \<Rightarrow> bool \<Rightarrow> ('c, sfs_err + u32) fsact" where
  "try_group_inode g is_dir = chk (sfs_gd_read g) (\<lambda>gd.
     if gd_free_inodes gd = 0 then throw SFS_ENOSPC
     else run (sfs_inode_bitmap g gd) (\<lambda>rc. case rc of
       Inl e \<Rightarrow> if e = SFS_ECORRUPT then throw SFS_ENOSPC else throw e
     | Inr ib \<Rightarrow> look (\<lambda>s. let G = fs_geo s; ipg = unat (g_ipg G);
           start = (if g = 0 then unat (g_first_ino G - 1) else 0);
           idx = find_zero (b_data (buf_of s ib)) start ipg
         in if ipg \<le> idx then run (sfs_bput ib) (\<lambda>_. throw SFS_ENOSPC)
            else let idx = of_nat idx :: u32; ub = g_ipg G - gd_itable_unused gd;
                     tail = (g_csum G \<or> g_gdt_csum G) \<and> ub \<le> idx
              in run (if tail \<and> ub < idx \<and> gd_flags gd AND BG_INODE_ZEROED = 0 then zero_inode_slots g ub idx else ok ()) (\<lambda>rc. case rc of
                   Inl e \<Rightarrow> run (sfs_bput ib) (\<lambda>_. throw e)
                 | Inr _ \<Rightarrow>
                   run (set_bdata ib (\<lambda>d. sfs_set_bit d (unat idx))) (\<lambda>_. look (\<lambda>s.
                   let gd = (if tail then gd\<lparr>gd_itable_unused := g_ipg G - idx - 1\<rparr> else gd);
                       gd = gd\<lparr>gd_free_inodes := gd_free_inodes gd - 1,
                               gd_used_dirs := (if is_dir then gd_used_dirs gd + 1 else gd_used_dirs gd),
                               gd_flags := gd_flags gd AND NOT BG_INODE_UNINIT\<rparr>;
                       gd = sfs_inode_bitmap_csum_set G gd (b_data (buf_of s ib))
                   in run (sfs_bdirty_meta ib) (\<lambda>rc.
                      run (sfs_bput ib) (\<lambda>_.
                      chk (ret rc) (\<lambda>_. chk (sfs_gd_write g gd) (\<lambda>_.
                      run (upd (\<lambda>s. s\<lparr>fs_free_inodes := fs_free_inodes s - 1\<rparr>)) (\<lambda>_.
                      run sb_dirty (\<lambda>_. ok (g * g_ipg G + idx + 1)))))))))))))"

text \<open>Top-level directories go to a group with at least average free inodes and blocks; \<open>None\<close> when
  no such group gave an inode.\<close>

fun dir_spread :: "u64 \<Rightarrow> u32 \<Rightarrow> u32 list \<Rightarrow> bool \<Rightarrow> ('c, (sfs_err + u32) option) fsact" where
  "dir_spread avg_blocks avg_inodes [] is_dir = ret None"
| "dir_spread avg_blocks avg_inodes (g # gs) is_dir = run (sfs_gd_read g) (\<lambda>r. case r of
       Inl _ \<Rightarrow> dir_spread avg_blocks avg_inodes gs is_dir
     | Inr gd \<Rightarrow> if gd_free_inodes gd \<noteq> 0 \<and> avg_inodes \<le> gd_free_inodes gd \<and> avg_blocks \<le> ucast (gd_free_blocks gd)
         then run (try_group_inode g is_dir) (\<lambda>rc. case rc of
                Inl e \<Rightarrow> if e = SFS_ENOSPC then dir_spread avg_blocks avg_inodes gs is_dir else ret (Some rc)
              | Inr _ \<Rightarrow> run (upd (\<lambda>s. s\<lparr>fs_dir_rotor := g + 1\<rparr>)) (\<lambda>_. ret (Some rc)))
         else dir_spread avg_blocks avg_inodes gs is_dir)"

fun inode_attempts :: "u32 list \<Rightarrow> bool \<Rightarrow> ('c, sfs_err + u32) fsact" where
  "inode_attempts [] is_dir = throw SFS_ENOSPC"
| "inode_attempts (g # gs) is_dir = run (try_group_inode g is_dir) (\<lambda>rc. case rc of
       Inl e \<Rightarrow> if e = SFS_ENOSPC then inode_attempts gs is_dir else throw e
     | Inr i \<Rightarrow> ok i)"

definition groups_from :: "sfs_geo \<Rightarrow> u32 \<Rightarrow> u32 list" where
  "groups_from G g0 = map (\<lambda>k. (g0 + of_nat k) mod g_ngroups G) [0..<unat (g_ngroups G)]"

definition sfs_alloc_inode :: "u32 \<Rightarrow> bool \<Rightarrow> ('c, sfs_err + u32) fsact" where
  "sfs_alloc_inode parent is_dir = look (\<lambda>s. let G = fs_geo s;
       g0 = (if sfs_ino_valid G parent then sfs_group_of_inode G parent else 0)
     in if fs_free_inodes s = 0 then throw SFS_ENOSPC
        else run (if is_dir \<and> parent = SFS_ROOT_INO \<and> 1 < g_ngroups G
               then dir_spread (fs_free_blocks s div ucast (g_ngroups G)) (fs_free_inodes s div g_ngroups G)
                      (groups_from G (fs_dir_rotor s)) is_dir
               else ret None) (\<lambda>r. case r of
             Some rc \<Rightarrow> ret rc
           | None \<Rightarrow> inode_attempts (groups_from G g0) is_dir))"

definition sfs_free_inode :: "u32 \<Rightarrow> bool \<Rightarrow> ('c, sfs_err + unit) fsact" where
  "sfs_free_inode ino is_dir = look (\<lambda>s. let G = fs_geo s; g = sfs_group_of_inode G ino; idx = unat ((ino - 1) mod g_ipg G) in
     if \<not> sfs_ino_valid G ino \<or> ino < g_first_ino G then throw SFS_ECORRUPT
     else chk (sfs_gd_read g) (\<lambda>gd. chk (sfs_inode_bitmap g gd) (\<lambda>ib. look (\<lambda>s.
       if \<not> sfs_test_bit (b_data (buf_of s ib)) idx
       then run (sfs_bput ib) (\<lambda>_.
            run (sfs_logu ''sfs: freeing an inode that was already free: '' (ucast ino)) (\<lambda>_. throw SFS_ECORRUPT))
       else run (set_bdata ib (\<lambda>d. sfs_clear_bit d idx)) (\<lambda>_. look (\<lambda>s.
         let gd = gd\<lparr>gd_free_inodes := gd_free_inodes gd + 1,
                     gd_used_dirs := (if is_dir \<and> gd_used_dirs gd \<noteq> 0 then gd_used_dirs gd - 1 else gd_used_dirs gd)\<rparr>;
             gd = sfs_inode_bitmap_csum_set G gd (b_data (buf_of s ib))
         in run (sfs_bdirty_meta ib) (\<lambda>rc.
            run (sfs_bput ib) (\<lambda>_.
            run (rcthen rc (sfs_gd_write g gd)) (\<lambda>rc.
            run (upd (\<lambda>s. s\<lparr>fs_free_inodes := fs_free_inodes s + 1\<rparr>)) (\<lambda>_.
            run sb_dirty (\<lambda>_.
            run (sfs_pa_release ino) (\<lambda>_. ret rc))))))))))))"

end
