(* ===== verification/Sfs_Extent.thy ===== *)
theory Sfs_Extent
  imports Sfs_Alloc
begin

unbundle bit_operations_syntax

section \<open>Changing the block mapping (sfs\_extent.c)\<close>

text \<open>
  Insertion into the extent tree (with node splits and root growth), conversion of unwritten
  extents, truncation (with the collapse into the inode), iteration, and the release of a legacy
  block map. Loops over the entries of a node run over the list of their indices; the recursion
  over the levels of the tree is on the depth below the node.
\<close>

subsection \<open>Insertion\<close>

fun fix_parents_loop :: "u32 \<Rightarrow> u32 \<Rightarrow> xpath list \<Rightarrow> ('c, unit) fsact" where
  "fix_parents_loop i key [] = ret ()"
| "fix_parents_loop i key ((b, idx) # up) = look (\<lambda>s. let e = ENT (nat idx) in
     run (if rd32 (node_data s i b) (e + EI_block) \<noteq> key
          then run (set_node i b (\<lambda>h. wr32 h (e + EI_block) key)) (\<lambda>_. run (node_dirty i b) (\<lambda>_. ret ()))
          else ret ()) (\<lambda>_.
     if idx \<noteq> 0 then ret () else fix_parents_loop i key up))"

definition fix_parents :: "u32 \<Rightarrow> xpath list \<Rightarrow> nat \<Rightarrow> ('c, unit) fsact" where
  "fix_parents i p level = look (\<lambda>s.
     fix_parents_loop i (rd32 (node_data s i (fst (p ! level))) (ENT 0 + EE_block)) (rev (take level p)))"

definition new_node_block :: "u32 \<Rightarrow> u64 \<Rightarrow> ('c, sfs_err + u64) fsact" where
  "new_node_block i near = chk (sfs_alloc_meta_block near) (\<lambda>blk.
     run (sfs_bnew blk) (\<lambda>rc. case rc of
       Inl e \<Rightarrow> run (sfs_free_blocks blk 1 True) (\<lambda>_. throw e)
     | Inr b \<Rightarrow> run (sfs_add_blocks i 1) (\<lambda>rc. case rc of
         Inl e \<Rightarrow> run (sfs_bput b) (\<lambda>_. run (sfs_free_blocks blk 1 True) (\<lambda>_. throw e))
       | Inr _ \<Rightarrow> ok b)))"

definition node_header :: "u32 \<Rightarrow> u16 \<Rightarrow> u16 \<Rightarrow> bytes \<Rightarrow> bytes" where
  "node_header n mx depth d =
    (let d = wr16 d EH_magic EXT_MAGIC; d = wr16 d EH_entries (ucast n); d = wr16 d EH_max mx in wr16 d EH_depth depth)"

definition grow_root :: "u32 \<Rightarrow> ('c, sfs_err + unit) fsact" where
  "grow_root i = look (\<lambda>s. let r = in_iblock (ino_of s i); n = unat (rd16 r EH_entries); depth = rd16 r EH_depth in
     if EXT_MAX_DEPTH \<le> unat depth then throw SFS_EFBIG
     else run (if in_last_pblk (ino_of s i) \<noteq> 0 then ret (in_last_pblk (ino_of s i)) else sfs_goal_for (Some i) 0) (\<lambda>near.
       chk (new_node_block i near) (\<lambda>b. look (\<lambda>s.
       run (set_bdata b (\<lambda>d. blit (node_header (of_nat n) (ucast (g_ext_per_block (fs_geo s))) depth d)
              (ENT 0) (slice r (ENT 0) (n * EE_SIZE)))) (\<lambda>_.
       run (node_csum_set i b) (\<lambda>_.
       run (sfs_bdirty_meta b) (\<lambda>rc. look (\<lambda>s.
       let key = (if n \<noteq> 0 then rd32 (b_data (buf_of s b)) (ENT 0 + EE_block) else 0)
       in run (set_node i None (\<lambda>r. let r = wr16 r EH_entries 1; r = wr16 r EH_depth (depth + 1);
                 r = fill r (ENT 0) 0 (4 * EE_SIZE) in ei_set (ENT 0) key b r)) (\<lambda>_.
          run (sfs_bput b) (\<lambda>_.
          run (sfs_idirty i) (\<lambda>_. ret rc)))))))))))"

text \<open>The number of entries the old node keeps when it is split.\<close>

definition split_point :: "bytes \<Rightarrow> bool \<Rightarrow> int \<Rightarrow> u32 \<Rightarrow> nat" where
  "split_point h leaf idx lblk =
    (let n = unat (rd16 h EH_entries); e = ENT (n - 1)
     in if leaf \<and> idx = int n - 1 \<and> n \<noteq> 0 \<and> rd32 h (e + EE_block) + ee_len h e \<le> lblk then n else n div 2)"

fun split :: "u32 \<Rightarrow> xpath list \<Rightarrow> nat \<Rightarrow> nat \<Rightarrow> u32 \<Rightarrow> ('c, sfs_err + unit) fsact" where
  "split i p depth 0 lblk = grow_root i"
| "split i p depth (Suc l) lblk = look (\<lambda>s.
     let (pb, ppos) = p ! l; ph = node_data s i pb; (b, idx) = p ! Suc l; h = node_data s i b;
         n = unat (rd16 h EH_entries); m = split_point h (Suc l = depth) idx lblk;
         pidx = nat (ppos + 1)
     in if rd16 ph EH_max \<le> rd16 ph EH_entries then split i p depth l lblk
        else chk (new_node_block i (case b of Some blk \<Rightarrow> blk | None \<Rightarrow> 0)) (\<lambda>nb. look (\<lambda>s.
          let key = (if m < n then rd32 h (ENT m + EE_block) else lblk)
          in run (set_bdata nb (\<lambda>d. blit (node_header (of_nat (n - m)) (ucast (g_ext_per_block (fs_geo s))) (rd16 h EH_depth) d)
                    (ENT 0) (slice h (ENT m) ((n - m) * EE_SIZE)))) (\<lambda>_.
             run (set_node i b (\<lambda>h. fill (wr16 h EH_entries (of_nat m)) (ENT m) 0 ((n - m) * EE_SIZE))) (\<lambda>_.
             run (node_csum_set i nb) (\<lambda>_.
             run (sfs_bdirty_meta nb) (\<lambda>rc.
             run (rcthen rc (node_dirty i b)) (\<lambda>rc.
             run (set_node i pb (\<lambda>ph. let pn = unat (rd16 ph EH_entries);
                    ph = blit ph (ENT (pidx + 1)) (slice ph (ENT pidx) ((pn - pidx) * EE_SIZE));
                    ph = ei_set (ENT pidx) key nb ph
                  in wr16 ph EH_entries (of_nat (pn + 1)))) (\<lambda>_.
             run (rcthen rc (node_dirty i pb)) (\<lambda>rc.
             run (sfs_bput nb) (\<lambda>_. ret rc)))))))))))"

text \<open>What \<open>insert_one\<close> does with the leaf \<open>h\<close> it has found: refuse, extend the entry before or after
  the new blocks, shift and insert an entry, or split. \<open>LeafSet h' first\<close> gives the new content and
  whether the first key of the leaf may have changed.\<close>

datatype leaf_action = LeafMapped | LeafSet bytes bool | LeafFull

definition insert_leaf :: "bytes \<Rightarrow> int \<Rightarrow> u32 \<Rightarrow> u64 \<Rightarrow> u32 \<Rightarrow> bool \<Rightarrow> leaf_action" where
  "insert_leaf h idx lblk pblk len unwritten =
    (let n = unat (rd16 h EH_entries); k = nat (idx + 1);
         e = ENT (nat idx); eb = rd32 h (e + EE_block); el = ee_len h e;
         e1 = ENT k; eb1 = rd32 h (e1 + EE_block); el1 = ee_len h e1;
         here = (0 \<le> idx); above = (idx + 1 < int n)
     in if here \<and> lblk - eb < el then LeafMapped
        else if here \<and> \<not> unwritten \<and> \<not> ee_unwritten h e \<and> eb + el = lblk \<and> ee_start h e + ucast el = pblk
                \<and> el + len \<le> EXT_INIT_MAX_LEN
        then LeafSet (ee_set e eb (ee_start h e) (el + len) False h) False
        else if above \<and> (ucast eb1 :: u64) < ucast lblk + ucast len then LeafMapped
        else if above \<and> \<not> unwritten \<and> \<not> ee_unwritten h e1 \<and> lblk + len = eb1 \<and> pblk + ucast len = ee_start h e1
                \<and> el1 + len \<le> EXT_INIT_MAX_LEN
        then LeafSet (ee_set e1 lblk pblk (el1 + len) False h) True
        else if n < unat (rd16 h EH_max)
        then LeafSet (let h = blit h (ENT (k + 1)) (slice h (ENT k) ((n - k) * EE_SIZE));
                          h = ee_set (ENT k) lblk pblk len unwritten h
                      in wr16 h EH_entries (of_nat (n + 1))) True
        else LeafFull)"

fun insert_tries :: "nat \<Rightarrow> u32 \<Rightarrow> u32 \<Rightarrow> u64 \<Rightarrow> u32 \<Rightarrow> bool \<Rightarrow> ('c, sfs_err + unit) fsact" where
  "insert_tries 0 i lblk pblk len unwritten = throw SFS_ECORRUPT"
| "insert_tries (Suc tries) i lblk pblk len unwritten = chk (find_path i lblk) (\<lambda>p. look (\<lambda>s.
     let depth = length p - 1; (b, idx) = p ! depth
     in case insert_leaf (node_data s i b) idx lblk pblk len unwritten of
          LeafMapped \<Rightarrow> run (path_put p) (\<lambda>_. throw SFS_ECORRUPT)
        | LeafSet h first \<Rightarrow>
            run (set_node i b (\<lambda>_. h)) (\<lambda>_.
            run (node_dirty i b) (\<lambda>rc.
            run (whenA (first \<and> idx + 1 = 0 \<and> depth \<noteq> 0) (fix_parents i p depth)) (\<lambda>_.
            run (path_put p) (\<lambda>_. ret rc))))
        | LeafFull \<Rightarrow> run (split i p depth depth lblk) (\<lambda>rc.
            run (path_put p) (\<lambda>_.
            chk (ret rc) (\<lambda>_. insert_tries tries i lblk pblk len unwritten)))))"

definition insert_one :: "u32 \<Rightarrow> u32 \<Rightarrow> u64 \<Rightarrow> u32 \<Rightarrow> bool \<Rightarrow> ('c, sfs_err + unit) fsact" where
  "insert_one i lblk pblk len unwritten = insert_tries (3 * (EXT_MAX_DEPTH + 2)) i lblk pblk len unwritten"

text \<open>The \<open>while (len)\<close> loop; a turn maps at least one block, so \<open>len\<close> bounds the turns.\<close>

fun ext_insert_loop :: "nat \<Rightarrow> u32 \<Rightarrow> u32 \<Rightarrow> u64 \<Rightarrow> u32 \<Rightarrow> ('c, sfs_err + unit) fsact" where
  "ext_insert_loop 0 i lblk pblk len = ok ()"
| "ext_insert_loop (Suc k) i lblk pblk len = (if len = 0 then ok ()
     else let n = (if EXT_INIT_MAX_LEN < len then EXT_INIT_MAX_LEN else len)
       in chk (insert_one i lblk pblk n False) (\<lambda>_.
          run (upd_ino i (\<lambda>x. x\<lparr>in_last_lblk := lblk + n - 1, in_last_pblk := pblk + ucast n - 1\<rparr>)) (\<lambda>_.
            ext_insert_loop k i (lblk + n) (pblk + ucast n) (len - n))))"

definition ec_drop :: "u32 \<Rightarrow> ('c, unit) fsact" where
  "ec_drop i = upd_ino i (\<lambda>x. x\<lparr>in_ec_valid := False\<rparr>)"

definition sfs_ext_insert :: "u32 \<Rightarrow> u32 \<Rightarrow> u64 \<Rightarrow> u32 \<Rightarrow> ('c, sfs_err + unit) fsact" where
  "sfs_ext_insert i lblk pblk len = run (ec_drop i) (\<lambda>_. ext_insert_loop (unat len) i lblk pblk len)"

definition sfs_ext_mark_written :: "u32 \<Rightarrow> u32 \<Rightarrow> ('c, sfs_err + unit) fsact" where
  "sfs_ext_mark_written i lblk = run (ec_drop i) (\<lambda>_. chk (find_path i lblk) (\<lambda>p. look (\<lambda>s.
     let (b, idx) = last p; h = node_data s i b; e = ENT (nat idx)
     in run (if 0 \<le> idx \<and> ee_unwritten h e \<and> lblk - rd32 h (e + EE_block) < ee_len h e
             then run (set_node i b (ee_set e (rd32 h (e + EE_block)) (ee_start h e) (ee_len h e) False)) (\<lambda>_. node_dirty i b)
             else ok ()) (\<lambda>rc. run (path_put p) (\<lambda>_. ret rc)))))"

subsection \<open>Truncation\<close>

definition free_tree_block :: "u32 \<Rightarrow> u64 \<Rightarrow> ('c, sfs_err + unit) fsact" where
  "free_tree_block i blk = chk (sfs_free_blocks blk 1 True) (\<lambda>_. sfs_add_blocks i (-1))"

text \<open>The loops of \<open>rm_node\<close> give the result code and whether the node changed.\<close>

fun rm_leaf :: "u32 \<Rightarrow> u64 option \<Rightarrow> u32 \<Rightarrow> bool \<Rightarrow> nat list \<Rightarrow> bool \<Rightarrow> ('c, (sfs_err + unit) \<times> bool) fsact" where
  "rm_leaf i b first meta [] changed = ret (Inr (), changed)"
| "rm_leaf i b first meta (k # ks) changed = look (\<lambda>s.
     let h = node_data s i b; e = ENT k; eb = rd32 h (e + EE_block); el = ee_len h e; st = ee_start h e
     in if first \<le> eb
        then run (chk (sfs_free_blocks st el meta) (\<lambda>_. sfs_add_blocks i (- ucast el))) (\<lambda>rc.
             run (set_node i b (\<lambda>h. wr16 (fill h e 0 EE_SIZE) EH_entries (of_nat k))) (\<lambda>_. case rc of
               Inl x \<Rightarrow> ret (Inl x, True)
             | Inr _ \<Rightarrow> rm_leaf i b first meta ks True))
        else if first < eb + el
        then let keep = first - eb
             in run (chk (sfs_free_blocks (st + ucast keep) (el - keep) meta) (\<lambda>_. sfs_add_blocks i (- ucast (el - keep)))) (\<lambda>rc.
                run (set_node i b (\<lambda>h. ee_set e eb st keep (ee_unwritten h e) h)) (\<lambda>_. ret (rc, True)))
        else ret (Inr (), changed))"

fun rm_children :: "(u64 \<Rightarrow> ('c, sfs_err + unit) fsact) \<Rightarrow> u32 \<Rightarrow> u64 option \<Rightarrow> nat \<Rightarrow> u32 \<Rightarrow> nat list \<Rightarrow> bool
    \<Rightarrow> ('c, (sfs_err + unit) \<times> bool) fsact" where
  "rm_children rm i b d first [] changed = ret (Inr (), changed)"
| "rm_children rm i b d first (k # ks) changed = look (\<lambda>s.
     let h = node_data s i b; e = ENT k; key = rd32 h (e + EI_block);
         next = (\<lambda>rc changed. if key < first then ret (rc, changed) else case rc of
                   Inl x \<Rightarrow> ret (Inl x, changed) | Inr _ \<Rightarrow> rm_children rm i b d first ks changed)
     in run (read_node i (ei_leaf h e) d) (\<lambda>rc. case rc of
          Inl x \<Rightarrow> ret (Inl x, changed)
        | Inr c \<Rightarrow> run (rm c) (\<lambda>rc. look (\<lambda>s.
            if rc = Inr () \<and> rd16 (b_data (buf_of s c)) EH_entries = 0
            then run (sfs_bput c) (\<lambda>_.
                 run (free_tree_block i c) (\<lambda>rc.
                 run (set_node i b (\<lambda>h. wr16 (fill h e 0 EE_SIZE) EH_entries (of_nat k))) (\<lambda>_. next rc True)))
            else run (sfs_bput c) (\<lambda>_. next rc changed)))))"

definition rm_finish :: "u32 \<Rightarrow> u64 option \<Rightarrow> (sfs_err + unit) \<times> bool \<Rightarrow> ('c, sfs_err + unit) fsact" where
  "rm_finish i b = (\<lambda>(rc, changed).
     if changed then run (node_dirty i b) (\<lambda>d. ret (case rc of Inl x \<Rightarrow> Inl x | Inr _ \<Rightarrow> d)) else ret rc)"

fun rm_node :: "u32 \<Rightarrow> u32 \<Rightarrow> bool \<Rightarrow> nat \<Rightarrow> nat \<Rightarrow> u64 option \<Rightarrow> ('c, sfs_err + unit) fsact" where
  "rm_node i first meta 0 level b = look (\<lambda>s.
     run (rm_leaf i b first meta (rev [0..<unat (rd16 (node_data s i b) EH_entries)]) False) (rm_finish i b))"
| "rm_node i first meta (Suc d) level b = look (\<lambda>s. let n = unat (rd16 (node_data s i b) EH_entries) in
     if n \<noteq> 0 \<and> EXT_MAX_DEPTH \<le> level then throw SFS_ECORRUPT
     else run (rm_children (\<lambda>c. rm_node i first meta d (level + 1) (Some c)) i b d first (rev [0..<n]) False) (rm_finish i b))"

text \<open>The collapse loop: every turn lowers the depth of the root, \<open>k\<close> at the start.\<close>

fun collapse :: "nat \<Rightarrow> u32 \<Rightarrow> ('c, sfs_err + unit) fsact" where
  "collapse 0 i = ok ()"
| "collapse (Suc k) i = look (\<lambda>s. let r = in_iblock (ino_of s i); cd = unat (rd16 r EH_depth) - 1; cb = ei_leaf r (ENT 0) in
     if \<not> (0 < rd16 r EH_depth \<and> rd16 r EH_entries = 1) then ok ()
     else chk (read_node i cb cd) (\<lambda>b. look (\<lambda>s.
       let d = b_data (buf_of s b); cn = unat (rd16 d EH_entries)
       in if (IN_BLOCK_BYTES - EH_SIZE) div EE_SIZE < cn \<or> cn = 0 then run (sfs_bput b) (\<lambda>_. ok ())
          else run (set_node i None (\<lambda>r. let r = fill r (ENT 0) 0 (4 * EE_SIZE); r = blit r (ENT 0) (slice d (ENT 0) (cn * EE_SIZE));
                      r = wr16 r EH_entries (of_nat cn) in wr16 r EH_depth (of_nat cd))) (\<lambda>_.
               run (sfs_bput b) (\<lambda>_.
               run (sfs_idirty i) (\<lambda>_.
               chk (free_tree_block i cb) (\<lambda>_. collapse k i)))))))"

definition sfs_ext_truncate :: "u32 \<Rightarrow> u32 \<Rightarrow> bool \<Rightarrow> ('c, sfs_err + unit) fsact" where
  "sfs_ext_truncate i first meta = run (ec_drop i) (\<lambda>_. look (\<lambda>s. let r = in_iblock (ino_of s i) in
     if \<not> node_ok (fs_geo s) r True None then throw SFS_ECORRUPT
     else chk (rm_node i first meta (unat (rd16 r EH_depth)) 0 None) (\<lambda>_. look (\<lambda>s.
       run (whenA (rd16 (in_iblock (ino_of s i)) EH_entries = 0)
             (run (upd_ino i (\<lambda>x. x\<lparr>in_iblock := sfs_ext_root_init\<rparr>)) (\<lambda>_. sfs_idirty i))) (\<lambda>_. look (\<lambda>s.
       collapse (unat (rd16 (in_iblock (ino_of s i)) EH_depth)) i))))))"

subsection \<open>Iteration\<close>

text \<open>The callback is an action on the volume; it gets and gives the context \<open>'x\<close>, or stops the
  iteration with an error.\<close>

fun iter_entries :: "('x \<Rightarrow> nat \<Rightarrow> ('c, sfs_err + 'x) fsact) \<Rightarrow> nat list \<Rightarrow> 'x \<Rightarrow> ('c, sfs_err + 'x) fsact" where
  "iter_entries f [] x = ok x"
| "iter_entries f (k # ks) x = chk (f x k) (\<lambda>x. iter_entries f ks x)"

fun iter_node :: "u32 \<Rightarrow> ('x \<Rightarrow> u32 \<Rightarrow> u64 \<Rightarrow> u32 \<Rightarrow> bool \<Rightarrow> ('c, sfs_err + 'x) fsact) \<Rightarrow> nat \<Rightarrow> nat \<Rightarrow> u64 option \<Rightarrow> 'x
    \<Rightarrow> ('c, sfs_err + 'x) fsact" where
  "iter_node i fn 0 level b x = look (\<lambda>s. iter_entries (\<lambda>x k. look (\<lambda>s.
       let h = node_data s i b; e = ENT k
       in fn x (rd32 h (e + EE_block)) (ee_start h e) (ee_len h e) (ee_unwritten h e)))
     [0..<unat (rd16 (node_data s i b) EH_entries)] x)"
| "iter_node i fn (Suc d) level b x = look (\<lambda>s. iter_entries (\<lambda>x k. look (\<lambda>s.
       if EXT_MAX_DEPTH \<le> level then throw SFS_ECORRUPT
       else chk (read_node i (ei_leaf (node_data s i b) (ENT k)) d) (\<lambda>c.
         run (iter_node i fn d (level + 1) (Some c) x) (\<lambda>rc. run (sfs_bput c) (\<lambda>_. ret rc)))))
     [0..<unat (rd16 (node_data s i b) EH_entries)] x)"

definition sfs_ext_iterate :: "u32 \<Rightarrow> ('x \<Rightarrow> u32 \<Rightarrow> u64 \<Rightarrow> u32 \<Rightarrow> bool \<Rightarrow> ('c, sfs_err + 'x) fsact) \<Rightarrow> 'x \<Rightarrow> ('c, sfs_err + 'x) fsact" where
  "sfs_ext_iterate i fn x = look (\<lambda>s. let r = in_iblock (ino_of s i) in
     if in_flags (ino_of s i) AND IFL_EXTENTS = 0 then throw SFS_ENOTSUP
     else if \<not> node_ok (fs_geo s) r True None then throw SFS_ECORRUPT
     else iter_node i fn (unat (rd16 r EH_depth)) 0 None x)"

subsection \<open>Releasing a legacy block map\<close>

type_synonym run_acc = "u64 \<times> u32"

definition acc_flush :: "run_acc \<Rightarrow> bool \<Rightarrow> ('c, (sfs_err + unit) \<times> run_acc) fsact" where
  "acc_flush a meta = run (if snd a \<noteq> 0 then sfs_free_blocks (fst a) (snd a) meta else ok ()) (\<lambda>rc. ret (rc, fst a, 0))"

definition acc_add :: "run_acc \<Rightarrow> u64 \<Rightarrow> bool \<Rightarrow> ('c, (sfs_err + unit) \<times> run_acc) fsact" where
  "acc_add a blk meta =
    (if snd a \<noteq> 0 \<and> fst a + ucast (snd a) = blk \<and> snd a < 0x10000 then ret (Inr (), fst a, snd a + 1)
     else run (acc_flush a meta) (\<lambda>(rc, _). ret (rc, blk, 1)))"

text \<open>The loop over the pointers \<open>get k\<close>; \<open>rel\<close> releases what one pointer names. The state is the
  accumulator and the count of freed blocks.\<close>

fun bmap_rel_loop :: "('c sfs_fs \<Rightarrow> nat \<Rightarrow> u32) \<Rightarrow> (u32 \<Rightarrow> run_acc \<times> u64 \<Rightarrow> ('c, (sfs_err + unit) \<times> run_acc \<times> u64) fsact)
    \<Rightarrow> nat list \<Rightarrow> run_acc \<times> u64 \<Rightarrow> ('c, (sfs_err + unit) \<times> run_acc \<times> u64) fsact" where
  "bmap_rel_loop get rel [] af = ret (Inr (), af)"
| "bmap_rel_loop get rel (k # ks) af = look (\<lambda>s. let p = get s k in
     if p = 0 then bmap_rel_loop get rel ks af
     else if \<not> sfs_block_valid (fs_geo s) (ucast p) then ret (Inl SFS_ECORRUPT, af)
     else run (rel p af) (\<lambda>(rc, af). case rc of Inl x \<Rightarrow> ret (Inl x, af) | Inr _ \<Rightarrow> bmap_rel_loop get rel ks af))"

definition rel_data :: "bool \<Rightarrow> u32 \<Rightarrow> run_acc \<times> u64 \<Rightarrow> ('c, (sfs_err + unit) \<times> run_acc \<times> u64) fsact" where
  "rel_data meta p = (\<lambda>(a, freed). run (acc_add a (ucast p) meta) (\<lambda>(rc, a). ret (rc, a, freed + 1)))"

text \<open>One indirect block; \<open>rel\<close> releases what its pointers name.\<close>

definition bmap_rel_block :: "bool \<Rightarrow> (u32 \<Rightarrow> run_acc \<times> u64 \<Rightarrow> ('c, (sfs_err + unit) \<times> run_acc \<times> u64) fsact)
    \<Rightarrow> u32 \<Rightarrow> run_acc \<times> u64 \<Rightarrow> ('c, (sfs_err + unit) \<times> run_acc \<times> u64) fsact" where
  "bmap_rel_block meta rel blk af = look (\<lambda>s.
     if \<not> sfs_block_valid (fs_geo s) (ucast blk) then ret (Inl SFS_ECORRUPT, af)
     else run (sfs_bread (ucast blk)) (\<lambda>rc. case rc of Inl x \<Rightarrow> ret (Inl x, af)
       | Inr b \<Rightarrow>
         run (bmap_rel_loop (\<lambda>s k. rd32 (b_data (buf_of s b)) (k * 4)) rel
                [0..<unat (g_bs (fs_geo s) div 4)] af) (\<lambda>(rc, a, freed).
         run (sfs_bput b) (\<lambda>_. case rc of Inl x \<Rightarrow> ret (Inl x, a, freed)
           | Inr _ \<Rightarrow> run (acc_flush a meta) (\<lambda>(rc, a). case rc of Inl x \<Rightarrow> ret (Inl x, a, freed)
             | Inr _ \<Rightarrow> run (sfs_free_blocks (ucast blk) 1 True) (\<lambda>rc. ret (rc, a, freed + 1)))))))"

text \<open>The argument is \<open>level - 1\<close>: the number of levels of indirection below this block.\<close>

fun bmap_rel_ind :: "bool \<Rightarrow> nat \<Rightarrow> u32 \<Rightarrow> run_acc \<times> u64 \<Rightarrow> ('c, (sfs_err + unit) \<times> run_acc \<times> u64) fsact" where
  "bmap_rel_ind meta 0 = bmap_rel_block meta (rel_data meta)"
| "bmap_rel_ind meta (Suc l) = bmap_rel_block meta (bmap_rel_ind meta l)"

text \<open>The three indirect roots \<open>i_block[12..14]\<close>.\<close>

fun bmap_ind_roots :: "u32 \<Rightarrow> bool \<Rightarrow> nat list \<Rightarrow> run_acc \<times> u64 \<Rightarrow> ('c, (sfs_err + unit) \<times> run_acc \<times> u64) fsact" where
  "bmap_ind_roots i meta [] af = ret (Inr (), af)"
| "bmap_ind_roots i meta (k # ks) af = look (\<lambda>s. let p = rd32 (in_iblock (ino_of s i)) ((12 + k) * 4) in
     run (if p \<noteq> 0 then bmap_rel_ind meta k p af else ret (Inr (), af)) (\<lambda>(rc, af). case rc of
       Inl x \<Rightarrow> ret (Inl x, af) | Inr _ \<Rightarrow> bmap_ind_roots i meta ks af))"

definition sfs_bmap_release :: "u32 \<Rightarrow> bool \<Rightarrow> ('c, sfs_err + unit) fsact" where
  "sfs_bmap_release i meta =
     run (bmap_rel_loop (\<lambda>s k. rd32 (in_iblock (ino_of s i)) (k * 4)) (rel_data meta) [0..<12] ((0, 0), 0)) (\<lambda>(rc, a, freed).
     run (case rc of Inl x \<Rightarrow> ret (Inl x, a) | Inr _ \<Rightarrow> acc_flush a meta) (\<lambda>(rc, a).
     run (case rc of Inl x \<Rightarrow> ret (Inl x, a, freed)
          | Inr _ \<Rightarrow> bmap_ind_roots i meta [0, 1, 2] (a, freed)) (\<lambda>(rc, a, freed).
     chk (ret rc) (\<lambda>_.
     run (upd_ino i (\<lambda>x. x\<lparr>in_iblock := replicate IN_BLOCK_BYTES 0\<rparr>)) (\<lambda>_. sfs_add_blocks i (- freed))))))"

end
