(* ===== verification/Sfs_Journal.thy ===== *)
theory Sfs_Journal
  imports Sfs_Extent Sfs_Crc "HOL-Library.AList"
begin

unbundle bit_operations_syntax

section \<open>The journal (sfs\_jbd2.c)\<close>

text \<open>
  The jbd2-format journal: the map of the journal file, the checksums, descriptor tags, the revoke
  table, the three recovery passes, the journal superblock, loading, and commit.

  Blocks of the log are byte lists; the scratch blocks of the volume hold nothing between two calls,
  so they are values of the functions that fill them. Offsets within a block are natural numbers
  (a block has at most 4096 bytes), positions in the log and sequence numbers are \<open>u32\<close> and wrap. The
  hash chains of the revoke table are lists, most recent entry first.
\<close>

subsection \<open>The map of the journal file\<close>

definition TAIL :: "sfs_journal \<Rightarrow> nat" where
  "TAIL j = (if j_csum_v2 j \<or> j_csum_v3 j then 4 else 0)"

definition jwrap :: "sfs_journal \<Rightarrow> u32 \<Rightarrow> u32" where
  "jwrap j b = (if j_maxlen j \<le> b then b - j_maxlen j + j_first j else b)"

function jmap_loop :: "sfs_jmap \<Rightarrow> u32 \<Rightarrow> nat \<Rightarrow> nat \<Rightarrow> u64 option" where
  "jmap_loop m jblk lo hi = (if lo < hi
     then let mid = (lo + hi) div 2; (l, len, p) = m ! mid
          in if jblk < l then jmap_loop m jblk lo mid
             else if len \<le> jblk - l then jmap_loop m jblk (mid + 1) hi
             else Some (p + ucast (jblk - l))
     else None)"
  by auto
termination
  by (relation "measure (\<lambda>(_, _, lo, hi). hi - lo)") auto

declare jmap_loop.simps [simp del]

definition jmap :: "'c sfs_fs \<Rightarrow> u32 \<Rightarrow> sfs_err + u64" where
  "jmap s jblk = (case j_map (fs_jnl s) of None \<Rightarrow> Inl SFS_ECORRUPT
     | Some m \<Rightarrow> (case jmap_loop m jblk 0 (length m) of None \<Rightarrow> Inl SFS_ECORRUPT | Some p \<Rightarrow> Inr p))"

definition jread :: "u32 \<Rightarrow> ('c, sfs_err + bytes) fsact" where
  "jread jblk = look (\<lambda>s. chk (ret (jmap s jblk)) (\<lambda>p. sfs_dev_read p 1))"

definition jwrite :: "u32 \<Rightarrow> bytes \<Rightarrow> ('c, sfs_err + unit) fsact" where
  "jwrite jblk b = look (\<lambda>s. chk (ret (jmap s jblk)) (\<lambda>p.
     run (upd_st (\<lambda>t. t\<lparr>st_journal_blocks_written := st_journal_blocks_written t + 1\<rparr>)) (\<lambda>_.
       sfs_dev_write p b 1)))"

definition jmap_add :: "sfs_jmap \<Rightarrow> u32 \<Rightarrow> u64 \<Rightarrow> u32 \<Rightarrow> sfs_err + sfs_jmap" where
  "jmap_add m lblk pblk len =
    (let (el, en, ep) = last m;
         app = (if JMAP_MAX \<le> length m then Inl SFS_ENOTSUP else Inr (m @ [(lblk, len, pblk)]))
     in if m = [] then app
        else if el + en = lblk \<and> ep + ucast en = pblk then Inr (butlast m @ [(el, en + len, ep)])
        else if lblk < el + en then Inl SFS_ECORRUPT else app)"

definition jmap_cb :: "unit \<Rightarrow> u32 \<Rightarrow> u64 \<Rightarrow> u32 \<Rightarrow> bool \<Rightarrow> ('c, sfs_err + unit) fsact" where
  "jmap_cb ctx lblk pblk len unwritten = look (\<lambda>s. case j_map (fs_jnl s) of None \<Rightarrow> throw SFS_ECORRUPT
     | Some m \<Rightarrow> chk (ret (jmap_add m lblk pblk len)) (\<lambda>m. run (upd_jnl (\<lambda>j. j\<lparr>j_map := Some m\<rparr>)) (\<lambda>_. ok ())))"

subsection \<open>Checksums\<close>

definition jsb_csum :: "bytes \<Rightarrow> u32" where
  "jsb_csum sb = sfs_crc32c (sfs_crc32c (sfs_crc32c 0xFFFFFFFF (slice sb 0 JS_checksum)) [0, 0, 0, 0])
     (slice sb (JS_checksum + 4) (JS_SIZE - JS_checksum - 4))"

definition block_tail_ok :: "'c sfs_fs \<Rightarrow> bytes \<Rightarrow> bool" where
  "block_tail_ok s b = (let bs = unat (g_bs (fs_geo s)) in TAIL (fs_jnl s) = 0 \<or>
     rdbe32 b (bs - 4) = sfs_crc32c (sfs_crc32c (j_csum_seed (fs_jnl s)) (slice b 0 (bs - 4))) [0, 0, 0, 0])"

definition block_tail_set :: "'c sfs_fs \<Rightarrow> bytes \<Rightarrow> bytes" where
  "block_tail_set s b = (let bs = unat (g_bs (fs_geo s)) in if TAIL (fs_jnl s) = 0 then b
     else let b = wrbe32 b (bs - 4) 0 in wrbe32 b (bs - 4) (sfs_crc32c (j_csum_seed (fs_jnl s)) (slice b 0 bs)))"

definition commit_csum :: "'c sfs_fs \<Rightarrow> bytes \<Rightarrow> u32" where
  "commit_csum s b = sfs_crc32c (sfs_crc32c (sfs_crc32c (j_csum_seed (fs_jnl s)) (slice b 0 JC_chksum_type))
       (replicate (JC_commit_sec - JC_chksum_type) 0))
     (slice b JC_commit_sec (unat (g_bs (fs_geo s)) - JC_commit_sec))"

definition tag_csum :: "'c sfs_fs \<Rightarrow> u32 \<Rightarrow> bytes \<Rightarrow> u32" where
  "tag_csum s seq data = sfs_crc32c (sfs_crc32c (j_csum_seed (fs_jnl s)) (wrbe32 [0, 0, 0, 0] 0 seq))
     (slice data 0 (unat (g_bs (fs_geo s))))"

subsection \<open>Tags\<close>

record jtag =
  tg_blk :: u64
  tg_flags :: u32
  tg_csum :: u32

definition tag_next :: "'c sfs_fs \<Rightarrow> bytes \<Rightarrow> nat \<Rightarrow> (jtag \<times> nat) option" where
  "tag_next s d off =
    (let j = fs_jnl s; tb = unat (j_tag_bytes j);
         lo = ucast (rdbe32 d off) :: u64;
         blk = (if j_has64 j then lo OR push_bit 32 (ucast (rdbe32 d (off + 8))) else lo);
         flags = (if j_csum_v3 j then rdbe32 d (off + 4) else ucast (rdbe16 d (off + 6)));
         csum = (if j_csum_v3 j then rdbe32 d (off + 12) else if j_csum_v2 j then ucast (rdbe16 d (off + 4)) else 0)
     in if unat (g_bs (fs_geo s)) - TAIL j < off + tb then None
        else Some (\<lparr>tg_blk = blk, tg_flags = flags, tg_csum = csum\<rparr>,
                   off + tb + (if flags AND JBD2_FLAG_SAME_UUID = 0 then 16 else 0)))"

text \<open>The \<open>while\<close> loop of \<open>count_tags\<close>: a turn moves the offset on by \<open>tag_bytes\<close>, which is at least 8,
  so the block size bounds the turns.\<close>

primrec count_tags_loop :: "nat \<Rightarrow> 'c sfs_fs \<Rightarrow> bytes \<Rightarrow> nat \<Rightarrow> nat" where
  "count_tags_loop 0 s d off = 0"
| "count_tags_loop (Suc k) s d off = (case tag_next s d off of None \<Rightarrow> 0
     | Some (t, off') \<Rightarrow> if tg_flags t AND JBD2_FLAG_LAST_TAG \<noteq> 0 then 1 else 1 + count_tags_loop k s d off')"

definition count_tags :: "'c sfs_fs \<Rightarrow> bytes \<Rightarrow> nat" where
  "count_tags s d = count_tags_loop (unat (g_bs (fs_geo s))) s d JH_SIZE"

subsection \<open>The revoke table\<close>

abbreviation (input) RVK_BUCKETS :: nat where "RVK_BUCKETS \<equiv> 512"
abbreviation (input) sizeof_rvk :: nat where "sizeof_rvk \<equiv> 24"

type_synonym rvktab = "(u64 \<times> u32) list list"

definition rvk_hash :: "u64 \<Rightarrow> nat" where
  "rvk_hash blk = unat (ucast (drop_bit 40 (blk * 0x9E3779B97F4A7C15)) :: u32) mod RVK_BUCKETS"

definition rvk_chain :: "rvktab \<Rightarrow> u64 \<Rightarrow> (u64 \<times> u32) list" where
  "rvk_chain tab blk = tab ! rvk_hash blk"

definition rvk_set :: "rvktab \<Rightarrow> u64 \<Rightarrow> u32 \<Rightarrow> ('c, sfs_err + rvktab) fsact" where
  "rvk_set tab blk seq = (let c = rvk_chain tab blk; put = (\<lambda>c. tab[rvk_hash blk := c]) in
     case map_of c blk of
       Some old \<Rightarrow> ok (if 0 < sint (seq - old) then put (AList.update blk seq c) else tab)
     | None \<Rightarrow> run (sfs_alloc sizeof_rvk) (\<lambda>good. if \<not> good then throw SFS_ENOMEM else ok (put ((blk, seq) # c))))"

definition rvk_test :: "rvktab \<Rightarrow> u64 \<Rightarrow> u32 \<Rightarrow> bool" where
  "rvk_test tab blk seq = (case map_of (rvk_chain tab blk) blk of None \<Rightarrow> False | Some r \<Rightarrow> sint (seq - r) \<le> 0)"

definition rvk_free :: "rvktab \<Rightarrow> ('c, unit) fsact" where
  "rvk_free tab = run (forA tab (\<lambda>c. forA c (\<lambda>_. sfs_free sizeof_rvk))) (\<lambda>_. sfs_free SFS_MAX_ALLOC)"

subsection \<open>Recovery\<close>

datatype jpass = PASS_SCAN | PASS_REVOKE | PASS_REPLAY

primrec replay_tags :: "nat \<Rightarrow> bytes \<Rightarrow> u32 \<Rightarrow> u32 \<Rightarrow> rvktab \<Rightarrow> u32 \<Rightarrow> nat \<Rightarrow> ('c, sfs_err + unit) fsact" where
  "replay_tags 0 desc blk next tab i off = ok ()"
| "replay_tags (Suc k) desc blk next tab i off = look (\<lambda>s. let j = fs_jnl s; g = fs_geo s in
     case tag_next s desc off of None \<Rightarrow> ok ()
     | Some (t, off') \<Rightarrow>
        if rvk_test tab (tg_blk t) next
        then run (upd_st (\<lambda>t. t\<lparr>st_revoked_blocks := st_revoked_blocks t + 1\<rparr>)) (\<lambda>_. replay_tags k desc blk next tab (i + 1) off')
        else chk (jread (jwrap j (blk + 1 + i))) (\<lambda>data.
          let c = (if j_csum_v2 j \<and> \<not> j_csum_v3 j then tag_csum s next data AND 0xFFFF else tag_csum s next data);
              data = (if tg_flags t AND JBD2_FLAG_ESCAPE \<noteq> 0 then wrbe32 data 0 JBD2_MAGIC else data)
          in if (j_csum_v3 j \<or> j_csum_v2 j) \<and> c \<noteq> tg_csum t
             then run (sfs_logu ''sfs: journal block checksum mismatch, skipping block '' (tg_blk t)) (\<lambda>_.
                  replay_tags k desc blk next tab (i + 1) off')
             else if tg_blk t < ucast (g_first_data_block g) \<and> \<not> (tg_blk t = 0 \<and> 1024 < g_bs g)
             then replay_tags k desc blk next tab (i + 1) off'
             else if g_nblocks g \<le> tg_blk t
             then run (sfs_logu ''sfs: journal names a block beyond the volume: '' (tg_blk t)) (\<lambda>_.
                  replay_tags k desc blk next tab (i + 1) off')
             else run (sfs_bforget (tg_blk t)) (\<lambda>_.
                  chk (sfs_dev_write (tg_blk t) data 1) (\<lambda>_.
                  run (upd_st (\<lambda>t. t\<lparr>st_replayed_blocks := st_replayed_blocks t + 1\<rparr>)) (\<lambda>_.
                  replay_tags k desc blk next tab (i + 1) off')))))"

definition replay_desc :: "nat \<Rightarrow> bytes \<Rightarrow> u32 \<Rightarrow> u32 \<Rightarrow> rvktab \<Rightarrow> ('c, sfs_err + unit) fsact" where
  "replay_desc n b blk next tab = look (\<lambda>s. let bs = unat (g_bs (fs_geo s)) in
     run (sfs_alloc bs) (\<lambda>good. if \<not> good then throw SFS_ENOMEM
       else run (replay_tags n b blk next tab 0 JH_SIZE) (\<lambda>rc. run (sfs_free bs) (\<lambda>_. ret rc))))"

fun rvk_set_all :: "u64 list \<Rightarrow> u32 \<Rightarrow> rvktab \<Rightarrow> ('c, (sfs_err + unit) \<times> rvktab) fsact" where
  "rvk_set_all [] next tab = ret (Inr (), tab)"
| "rvk_set_all (rb # rbs) next tab = run (rvk_set tab rb next) (\<lambda>rc. case rc of
     Inl e \<Rightarrow> ret (Inl e, tab) | Inr tab \<Rightarrow> rvk_set_all rbs next tab)"

text \<open>The block numbers of a revoke block: \<open>for (off = JR_HDR; off + rs <= cnt; off += rs)\<close>.\<close>

definition revoke_entries :: "bool \<Rightarrow> bytes \<Rightarrow> nat \<Rightarrow> u64 list" where
  "revoke_entries has64 b cnt = (let rs = (if has64 then 8 else 4) in
     map (\<lambda>k. let off = JR_HDR + k * rs in if has64 then rdbe64 b off else ucast (rdbe32 b off)) [0..<(cnt - JR_HDR) div rs])"

definition revoke_block :: "bytes \<Rightarrow> u32 \<Rightarrow> rvktab \<Rightarrow> ('c, (sfs_err + unit) \<times> rvktab) fsact" where
  "revoke_block b next tab = look (\<lambda>s. let j = fs_jnl s; cnt = unat (rdbe32 b JR_count) in
     if unat (g_bs (fs_geo s)) - TAIL j < cnt then ret (Inl SFS_ECORRUPT, tab)
     else rvk_set_all (revoke_entries (j_has64 j) b cnt) next tab)"

text \<open>The loop of \<open>do_pass\<close>. The counter runs down where the code's \<open>guard\<close> runs up, and reaches 0 where
  \<open>guard\<close> passes \<open>2 * maxlen\<close>. The result holds the sequence number \<open>next\<close> the loop stopped at.\<close>

primrec do_pass_loop :: "nat \<Rightarrow> jpass \<Rightarrow> u32 \<Rightarrow> u32 \<Rightarrow> u32 \<Rightarrow> rvktab \<Rightarrow> ('c, (sfs_err + u32) \<times> rvktab) fsact" where
  "do_pass_loop 0 pass end_seq blk next tab = ret (Inr next, tab)"
| "do_pass_loop (Suc k) pass end_seq blk next tab = look (\<lambda>s. let j = fs_jnl s in
     if pass \<noteq> PASS_SCAN \<and> 0 \<le> sint (next - end_seq) then ret (Inr next, tab)
     else run (jread blk) (\<lambda>rc. case rc of Inl e \<Rightarrow> ret (Inl e, tab) | Inr b \<Rightarrow>
       let type = rdbe32 b JH_blocktype; n = count_tags s b;
           bad_tail = (if pass = PASS_SCAN then ret (Inr next, tab) else ret (Inl SFS_ECORRUPT, tab))
       in if rdbe32 b JH_magic \<noteq> JBD2_MAGIC \<or> rdbe32 b JH_sequence \<noteq> next then ret (Inr next, tab)
          else if type = JBD2_DESCRIPTOR_BLOCK
          then if \<not> block_tail_ok s b then bad_tail
               else run (if pass = PASS_REPLAY then replay_desc n b blk next tab else ok ()) (\<lambda>rc. case rc of
                      Inl e \<Rightarrow> ret (Inl e, tab)
                    | Inr _ \<Rightarrow> do_pass_loop k pass end_seq (jwrap j (blk + 1 + of_nat n)) next tab)
          else if type = JBD2_COMMIT_BLOCK
          then if pass = PASS_SCAN \<and> TAIL j \<noteq> 0 \<and> rdbe32 b JC_chksum \<noteq> commit_csum s b then ret (Inr next, tab)
               else run (whenA (pass = PASS_REPLAY) (upd_st (\<lambda>t. t\<lparr>st_replayed_transactions := st_replayed_transactions t + 1\<rparr>))) (\<lambda>_.
                    do_pass_loop k pass end_seq (jwrap j (blk + 1)) (next + 1) tab)
          else if type = JBD2_REVOKE_BLOCK
          then if \<not> block_tail_ok s b then bad_tail
               else run (if pass = PASS_REVOKE then revoke_block b next tab else ret (Inr (), tab)) (\<lambda>(rc, tab). case rc of
                      Inl e \<Rightarrow> ret (Inl e, tab)
                    | Inr _ \<Rightarrow> do_pass_loop k pass end_seq (jwrap j (blk + 1)) next tab)
          else ret (Inr next, tab)))"

definition do_pass :: "jpass \<Rightarrow> u32 \<Rightarrow> u32 \<Rightarrow> u32 \<Rightarrow> rvktab \<Rightarrow> ('c, (sfs_err + u32) \<times> rvktab) fsact" where
  "do_pass pass start seq end_seq tab = look (\<lambda>s.
     do_pass_loop (unat (2 * j_maxlen (fs_jnl s)) + 1) pass end_seq start seq tab)"

subsection \<open>The journal superblock\<close>

definition write_jsb :: "u32 \<Rightarrow> u32 \<Rightarrow> ('c, sfs_err + unit) fsact" where
  "write_jsb start seq = chk (jread 0) (\<lambda>b. look (\<lambda>s. let j = fs_jnl s; cs = j_csum_v2 j \<or> j_csum_v3 j;
       b = wrbe32 b JS_start start; b = wrbe32 b JS_sequence seq;
       b = (if rdbe32 b JH_blocktype = JBD2_SUPERBLOCK_V2
            then let b = wrbe32 b JS_feature_compat (j_feat_compat j); b = wrbe32 b JS_feature_incompat (j_feat_incompat j)
                 in if cs then b[JS_checksum_type := 4] else b
            else b);
       b = (if cs then wrbe32 b JS_checksum (jsb_csum b) else b)
     in chk (jwrite 0 b) (\<lambda>_. run (upd_jnl (\<lambda>j. j\<lparr>j_disk_start := start\<rparr>)) (\<lambda>_. ok ()))))"

definition recover_super :: "('c, sfs_err + unit) fsact" where
  "recover_super = look (\<lambda>s. run (ctx_call (\<lambda>c. ops_read (fs_ops s) c (of_nat SB_OFFSET) 1024)) (\<lambda>r. case r of
     None \<Rightarrow> throw SFS_EIO
   | Some sb \<Rightarrow> let
       sb = wr32 sb SB_feature_incompat (rd32 sb SB_feature_incompat AND NOT INCOMPAT_RECOVER);
       sb = (if rd32 sb SB_feature_ro_compat AND RO_COMPAT_METADATA_CSUM \<noteq> 0
             then wr32 sb SB_checksum (sfs_crc32c 0xFFFFFFFF (slice sb 0 SB_checksum)) else sb);
       small = (g_bs (fs_geo s) = 1024); sbblk = (if small then 1 else 0)
     in run (upd (\<lambda>s. s\<lparr>fs_sbraw := sb\<rparr>)) (\<lambda>_.
        chk (sfs_dev_read sbblk 1) (\<lambda>blk.
        run (sfs_dev_write sbblk (blit blk (if small then 0 else 1024) sb) 1) (\<lambda>rc.
        run (sfs_bforget sbblk) (\<lambda>_. rcthen rc sfs_dev_flush))))))"

definition recover :: "u32 \<Rightarrow> u32 \<Rightarrow> ('c, sfs_err + unit) fsact" where
  "recover start seq = run (do_pass PASS_SCAN start seq seq []) (\<lambda>(rc, _). chk (ret rc) (\<lambda>end_seq.
     run (sfs_alloc SFS_MAX_ALLOC) (\<lambda>good. if \<not> good then throw SFS_ENOMEM
     else let tab = replicate RVK_BUCKETS [] in
       run (if end_seq \<noteq> seq
            then run (do_pass PASS_REVOKE start seq end_seq tab) (\<lambda>(rc, tab). case rc of
                   Inl e \<Rightarrow> ret (Inl e, tab)
                 | Inr _ \<Rightarrow> do_pass PASS_REPLAY start seq end_seq tab)
            else ret (Inr seq, tab)) (\<lambda>(rc, tab).
       run (rvk_free tab) (\<lambda>_.
       chk (ret rc) (\<lambda>_.
       run (sfs_logu ''sfs: journal replayed, transactions: '' (ucast (end_seq - seq))) (\<lambda>_.
       chk sfs_dev_flush (\<lambda>_.
       run (upd_jnl (\<lambda>j. j\<lparr>j_next_seq := end_seq + 1\<rparr>)) (\<lambda>_.
       chk (write_jsb 0 (end_seq + 1)) (\<lambda>_.
       chk sfs_dev_flush (\<lambda>_. recover_super)))))))))))"

subsection \<open>Loading\<close>

definition sfs_journal_capacity :: "sfs_journal \<Rightarrow> u32" where
  "sfs_journal_capacity j = (if j_first j < j_maxlen j then j_maxlen j - j_first j else 0)"

definition sfs_journal_unload :: "('c, unit) fsact" where
  "sfs_journal_unload = look (\<lambda>s. run (whenA (j_map (fs_jnl s) \<noteq> None) (sfs_free sizeof_jmap)) (\<lambda>_.
     upd_jnl (\<lambda>j. j\<lparr>j_map := None, j_present := False\<rparr>)))"

definition set_ro :: "u32 \<Rightarrow> ('c, unit) fsact" where
  "set_ro reason = upd (\<lambda>s. s\<lparr>fs_ro := True, fs_ro_reason := fs_ro_reason s OR reason\<rparr>)"

text \<open>The \<open>while (!rc && l < nblk)\<close> loop over a legacy block map; a turn maps at least one block, so
  \<open>nblk\<close> bounds the turns.\<close>

primrec jmap_bmap_loop :: "nat \<Rightarrow> u32 \<Rightarrow> u32 \<Rightarrow> u32 \<Rightarrow> ('c, sfs_err + unit) fsact" where
  "jmap_bmap_loop 0 ji nblk l = ok ()"
| "jmap_bmap_loop (Suc k) ji nblk l = (if nblk \<le> l then ok ()
     else chk (sfs_bmap_lookup ji l) (\<lambda>(p, len, _). case p of
         None \<Rightarrow> throw SFS_ECORRUPT
       | Some p \<Rightarrow> let len = min len (nblk - l) in
           chk (jmap_cb () l p len False) (\<lambda>_. jmap_bmap_loop k ji nblk (l + len))))"

fun jmap_covered :: "sfs_jmap \<Rightarrow> u32 \<Rightarrow> u32 option" where
  "jmap_covered [] covered = Some covered"
| "jmap_covered ((lblk, len, _) # m) covered = (if lblk \<noteq> covered then None else jmap_covered m (covered + len))"

text \<open>Whether the journal map covers the blocks 0 to \<open>nblk - 1\<close> without a gap.\<close>

definition jmap_whole :: "sfs_jmap \<Rightarrow> u32 \<Rightarrow> bool" where
  "jmap_whole m nblk = (1024 \<le> nblk \<and> m \<noteq> [] \<and> fst (hd m) = 0 \<and>
     (case jmap_covered m 0 of None \<Rightarrow> False | Some covered \<Rightarrow> nblk \<le> covered))"

definition jfeatures :: "u32 \<Rightarrow> u32 \<Rightarrow> sfs_journal \<Rightarrow> sfs_journal" where
  "jfeatures inc cmp j = (let v2 = inc AND JBD2_INCOMPAT_CSUM_V2 \<noteq> 0; v3 = inc AND JBD2_INCOMPAT_CSUM_V3 \<noteq> 0;
       has64 = inc AND JBD2_INCOMPAT_64BIT \<noteq> 0
     in j\<lparr>j_feat_incompat := inc, j_feat_compat := cmp, j_csum_v2 := v2, j_csum_v3 := v3, j_has64 := has64,
          j_csum_seed := (if v2 \<or> v3 then sfs_crc32c 0xFFFFFFFF (j_uuid j) else j_csum_seed j),
          j_tag_bytes := (if v3 then 16 else 8 + (if v2 then 2 else 0) + (if has64 then 4 else 0))\<rparr>)"

text \<open>The journal superblock \<open>b\<close>, of a journal file of \<open>nblk\<close> blocks: the record it gives or an error.\<close>

definition jsb_parse :: "u32 \<Rightarrow> u32 \<Rightarrow> bytes \<Rightarrow> sfs_journal \<Rightarrow> sfs_err + sfs_journal" where
  "jsb_parse bs nblk b j = (let type = rdbe32 b JH_blocktype; maxlen = rdbe32 b JS_maxlen; first = rdbe32 b JS_first;
       v2 = (type = JBD2_SUPERBLOCK_V2); j = j\<lparr>j_maxlen := maxlen, j_first := first, j_uuid := slice b JS_uuid 16,
         j_feat_ro := (if v2 then rdbe32 b JS_feature_ro_compat else 0)\<rparr>;
       j = jfeatures (if v2 then rdbe32 b JS_feature_incompat else 0) (if v2 then rdbe32 b JS_feature_compat else 0) j
     in if rdbe32 b JH_magic \<noteq> JBD2_MAGIC \<or> type \<noteq> JBD2_SUPERBLOCK_V1 \<and> type \<noteq> JBD2_SUPERBLOCK_V2 then Inl SFS_ECORRUPT
        else if rdbe32 b JS_blocksize \<noteq> bs then Inl SFS_ECORRUPT
        else if nblk < maxlen \<or> maxlen < 1024 \<or> first = 0 \<or> maxlen \<le> first then Inl SFS_ECORRUPT
        else Inr j)"

definition jsb_verify :: "bytes \<Rightarrow> sfs_journal \<Rightarrow> ('c, sfs_err + unit) fsact" where
  "jsb_verify b j = (if \<not> (j_csum_v2 j \<or> j_csum_v3 j) then ok ()
     else if ucast (byte_at b JS_checksum_type) \<noteq> JBD2_CRC32C_CHKSUM then throw SFS_ENOTSUP
     else if rdbe32 b JS_checksum \<noteq> jsb_csum b
     then run (sfs_log ''sfs: journal superblock checksum mismatch'') (\<lambda>_. throw SFS_ECORRUPT)
     else ok ())"

text \<open>Finding the blocks of the journal file. The result tells the length of the file, or that the map
  does not fit and the volume is now read-only.\<close>

definition journal_map :: "u32 \<Rightarrow> ('c, sfs_err + u32 option) fsact" where
  "journal_map inum = chk (sfs_iget inum) (\<lambda>ji. run (sfs_alloc sizeof_jmap) (\<lambda>good.
     if \<not> good then run (sfs_iput ji) (\<lambda>_. throw SFS_ENOMEM)
     else run (upd_jnl (\<lambda>j. j\<lparr>j_map := Some []\<rparr>)) (\<lambda>_. look (\<lambda>s.
       let nblk = ucast (min (drop_bit (g_bs_bits (fs_geo s)) (in_size (ino_of s ji))) 0xFFFFFFFF) :: u32
       in run (if in_flags (ino_of s ji) AND IFL_EXTENTS \<noteq> 0 then sfs_ext_iterate ji jmap_cb ()
               else jmap_bmap_loop (unat nblk) ji nblk 0) (\<lambda>rc.
          run (sfs_iput ji) (\<lambda>_.
          run (sfs_iforget inum) (\<lambda>_. case rc of
            Inl e \<Rightarrow> if e = SFS_ENOTSUP then run (set_ro SFS_RO_UNKNOWN_RO_COMPAT) (\<lambda>_. ok None) else throw e
          | Inr _ \<Rightarrow> look (\<lambda>s. case j_map (fs_jnl s) of None \<Rightarrow> throw SFS_ECORRUPT
              | Some m \<Rightarrow> if \<not> jmap_whole m nblk then throw SFS_ECORRUPT else ok (Some nblk)))))))))"

text \<open>Setting the journal features of a clean, writable volume.\<close>

definition journal_upgrade :: "('c, sfs_err + unit) fsact" where
  "journal_upgrade = look (\<lambda>s. let j = fs_jnl s; g = fs_geo s;
       inc = j_feat_incompat j OR JBD2_INCOMPAT_REVOKE;
       cmp = j_feat_compat j AND NOT JBD2_COMPAT_CHECKSUM;
       inc = (if g_has64 g then inc OR JBD2_INCOMPAT_64BIT else inc);
       inc = (if g_csum g then (inc OR JBD2_INCOMPAT_CSUM_V3) AND NOT JBD2_INCOMPAT_CSUM_V2 else inc)
     in if inc \<noteq> j_feat_incompat j \<or> cmp \<noteq> j_feat_compat j
        then run (upd_jnl (jfeatures inc cmp)) (\<lambda>_.
             chk (write_jsb 0 (j_next_seq j)) (\<lambda>_. sfs_dev_flush))
        else ok ())"

definition journal_start :: "bytes \<Rightarrow> bool \<Rightarrow> ('c, sfs_err + bool) fsact" where
  "journal_start b replay = look (\<lambda>s. let j = fs_jnl s; start = rdbe32 b JS_start; seq = rdbe32 b JS_sequence in
     run (whenA (rdbe32 b JS_errno \<noteq> 0) (set_ro SFS_RO_JOURNAL_ERRNO)) (\<lambda>_.
     if j_feat_incompat j AND NOT JBD2_INCOMPAT_SUPPORTED \<noteq> 0 \<or> j_feat_incompat j AND JBD2_INCOMPAT_FAST_COMMIT \<noteq> 0
     then run (set_ro SFS_RO_JOURNAL_FAST_COMMIT) (\<lambda>_. if start \<noteq> 0 then throw SFS_ENOTSUP else ok False)
     else if start \<noteq> 0 \<and> (start < j_first j \<or> j_maxlen j \<le> start) then throw SFS_ECORRUPT
     else run (upd_jnl (\<lambda>j. j\<lparr>j_next_seq := seq, j_head := j_first j, j_disk_start := start\<rparr>)) (\<lambda>_.
       if start \<noteq> 0 \<or> fs_feat_incompat s AND INCOMPAT_RECOVER \<noteq> 0
       then if \<not> replay
            then if start \<noteq> 0
                 then run (sfs_log ''sfs: journal needs recovery; mounted read-only without replay (contents may be stale)'') (\<lambda>_.
                      run (set_ro SFS_RO_NEEDS_REPLAY) (\<lambda>_. ok False))
                 else ok False
            else chk (if start \<noteq> 0 then recover start seq else ok ()) (\<lambda>_.
                 run (upd_jnl (\<lambda>j. j\<lparr>j_present := True, j_head := j_first j, j_disk_start := 0\<rparr>)) (\<lambda>_. ok True))
       else run (upd_jnl (\<lambda>j. j\<lparr>j_present := True\<rparr>)) (\<lambda>_.
            chk (if replay \<and> rdbe32 b JH_blocktype = JBD2_SUPERBLOCK_V2 then journal_upgrade else ok ()) (\<lambda>_. ok False)))))"

definition sfs_journal_load :: "bool \<Rightarrow> ('c, sfs_err + bool) fsact" where
  "sfs_journal_load replay = run sfs_journal_unload (\<lambda>_. run (upd_jnl (\<lambda>_. zero_journal)) (\<lambda>_. look (\<lambda>s.
     let inum = rd32 (fs_sbraw s) SB_journal_inum
     in if inum = 0 \<or> \<not> sfs_ino_valid (fs_geo s) inum
        then run (set_ro SFS_RO_UNKNOWN_RO_COMPAT) (\<lambda>_. ok False)
        else run (upd_jnl (\<lambda>j. j\<lparr>j_inum := inum\<rparr>)) (\<lambda>_.
          chk (journal_map inum) (\<lambda>nblk. case nblk of None \<Rightarrow> ok False | Some nblk \<Rightarrow>
            chk (jread 0) (\<lambda>b. look (\<lambda>s.
            chk (ret (jsb_parse (g_bs (fs_geo s)) nblk b (fs_jnl s))) (\<lambda>j.
            run (upd_jnl (\<lambda>_. j)) (\<lambda>_.
            chk (jsb_verify b j) (\<lambda>_. journal_start b replay))))))))))"

definition sfs_journal_mark_clean :: "('c, sfs_err + unit) fsact" where
  "sfs_journal_mark_clean = look (\<lambda>s. if \<not> j_present (fs_jnl s) then ok ()
     else chk sfs_dev_flush (\<lambda>_.
          chk (if j_disk_start (fs_jnl s) \<noteq> 0
               then chk (write_jsb 0 (j_next_seq (fs_jnl s))) (\<lambda>_. sfs_dev_flush) else ok ()) (\<lambda>_.
          run (upd_jnl (\<lambda>j. j\<lparr>j_head := j_first j\<rparr>)) (\<lambda>_. ok ()))))"

subsection \<open>Commit\<close>

definition tags_per_desc :: "'c sfs_fs \<Rightarrow> nat" where
  "tags_per_desc s = (let space = g_bs (fs_geo s) - of_nat JH_SIZE - of_nat (TAIL (fs_jnl s)); tb = j_tag_bytes (fs_jnl s)
     in 1 + unat ((space - tb - 16) div tb))"

definition tag_put :: "sfs_journal \<Rightarrow> nat \<Rightarrow> u64 \<Rightarrow> u32 \<Rightarrow> u32 \<Rightarrow> bytes \<Rightarrow> bytes" where
  "tag_put j off blk flags csum d = (let d = wrbe32 d off (ucast blk); hi = ucast (drop_bit 32 blk) in
     if j_csum_v3 j
     then let d = wrbe32 d (off + 4) flags; d = wrbe32 d (off + 8) hi in wrbe32 d (off + 12) csum
     else let d = wrbe16 d (off + 4) (if j_csum_v2 j then ucast csum else 0); d = wrbe16 d (off + 6) (ucast flags)
          in if j_has64 j then wrbe32 d (off + 8) hi else d)"

definition jheader :: "u32 \<Rightarrow> u32 \<Rightarrow> bytes \<Rightarrow> bytes" where
  "jheader type seq d = wrbe32 (wrbe32 (wrbe32 d JH_magic JBD2_MAGIC) JH_blocktype type) JH_sequence seq"

text \<open>The blocks named by the revoke list, in the order of the three nested loops.\<close>

definition revoke_list :: "runpage list \<Rightarrow> u64 list" where
  "revoke_list pages = concat (map (\<lambda>(start, len, _). map (\<lambda>k. start + of_nat k) [0..<unat len]) (concat pages))"

definition revoke_emit :: "u32 \<Rightarrow> u32 \<Rightarrow> nat \<Rightarrow> bytes \<Rightarrow> ('c, sfs_err + unit) fsact" where
  "revoke_emit seq pos off b = look (\<lambda>s.
     jwrite pos (block_tail_set s (wrbe32 (jheader JBD2_REVOKE_BLOCK seq b) JR_count (of_nat off))))"

fun write_revokes_loop :: "u32 \<Rightarrow> u64 list \<Rightarrow> u32 \<Rightarrow> nat \<Rightarrow> bytes \<Rightarrow> ('c, sfs_err + u32) fsact" where
  "write_revokes_loop seq [] pos off b = (if JR_HDR < off
     then chk (revoke_emit seq pos off b) (\<lambda>_. ok (pos + 1)) else ok pos)"
| "write_revokes_loop seq (blk # blks) pos off b = look (\<lambda>s.
     let has64 = j_has64 (fs_jnl s); rs = (if has64 then 8 else 4); bs = unat (g_bs (fs_geo s));
         put = (\<lambda>b off. if has64 then wrbe64 b off blk else wrbe32 b off (ucast blk))
     in if bs - TAIL (fs_jnl s) < off + rs
        then chk (revoke_emit seq pos off b) (\<lambda>_.
             write_revokes_loop seq blks (pos + 1) (JR_HDR + rs) (put (replicate bs 0) JR_HDR))
        else write_revokes_loop seq blks pos (off + rs) (put b off))"

definition write_revokes :: "u32 \<Rightarrow> u32 \<Rightarrow> ('c, sfs_err + u32) fsact" where
  "write_revokes seq pos = look (\<lambda>s.
     write_revokes_loop seq (revoke_list (t_revokes (fs_txn s))) pos JR_HDR (replicate (unat (g_bs (fs_geo s))) 0))"

text \<open>A metadata block as it goes to the log: a block that starts with the journal magic is escaped.\<close>

definition needs_escape :: "bytes \<Rightarrow> bool" where
  "needs_escape data = (rdbe32 data 0 = JBD2_MAGIC)"

definition log_image :: "bytes \<Rightarrow> bytes" where
  "log_image data = (if needs_escape data then wrbe32 data 0 0 else data)"

definition tag_of :: "'c sfs_fs \<Rightarrow> u32 \<Rightarrow> nat \<Rightarrow> bytes \<Rightarrow> u32 \<times> u32" where
  "tag_of s seq n data = ((if n \<noteq> 0 then JBD2_FLAG_SAME_UUID else 0) OR (if needs_escape data then JBD2_FLAG_ESCAPE else 0),
     if j_csum_v2 (fs_jnl s) \<or> j_csum_v3 (fs_jnl s) then tag_csum s seq (log_image data) else 0)"

text \<open>The tags of one descriptor: the descriptor block and where its last tag is.\<close>

fun desc_tags :: "'c sfs_fs \<Rightarrow> u32 \<Rightarrow> (u64 \<times> bytes) list \<Rightarrow> nat \<Rightarrow> nat \<Rightarrow> bytes \<Rightarrow> nat \<times> u64 \<times> u32 \<times> u32
    \<Rightarrow> bytes \<times> nat \<times> u64 \<times> u32 \<times> u32" where
  "desc_tags s seq [] n off d lst = (d, lst)"
| "desc_tags s seq ((blk, data) # ws) n off d lst =
    (let j = fs_jnl s; (flags, csum) = tag_of s seq n data; tb = unat (j_tag_bytes j);
         d = tag_put j off blk flags csum d;
         d = (if n = 0 then blit d (off + tb) (j_uuid j) else d)
     in desc_tags s seq ws (n + 1) (off + tb + (if n = 0 then 16 else 0)) d (off, blk, flags, csum))"

definition desc_block :: "'c sfs_fs \<Rightarrow> u32 \<Rightarrow> (u64 \<times> bytes) list \<Rightarrow> bytes" where
  "desc_block s seq ws =
    (let (d, off, blk, flags, csum) = desc_tags s seq ws 0 JH_SIZE
           (jheader JBD2_DESCRIPTOR_BLOCK seq (replicate (unat (g_bs (fs_geo s))) 0)) (0, 0, 0, 0)
     in block_tail_set s (tag_put (fs_jnl s) off blk (flags OR JBD2_FLAG_LAST_TAG) csum d))"

text \<open>The loop that writes the metadata copies after their descriptor.\<close>

fun log_blocks :: "(u64 \<times> bytes) list \<Rightarrow> u32 \<Rightarrow> sfs_wrun \<Rightarrow> ('c, (sfs_err + unit) \<times> sfs_wrun) fsact" where
  "log_blocks [] pos r = ret (Inr (), r)"
| "log_blocks ((_, data) # ws) pos r = look (\<lambda>s. case jmap s pos of Inl e \<Rightarrow> ret (Inl e, r) | Inr p \<Rightarrow>
     run (if needs_escape data
          then run (sfs_wrun_flush r) (\<lambda>(rc, r). case rc of Inl e \<Rightarrow> ret (Inl e, r)
            | Inr _ \<Rightarrow> run (sfs_dev_write p (log_image data) 1) (\<lambda>rc. ret (rc, r)))
          else sfs_wrun_add r p data) (\<lambda>(rc, r). case rc of Inl e \<Rightarrow> ret (Inl e, r)
       | Inr _ \<Rightarrow> log_blocks ws (pos + 1) r))"

definition log_group :: "u32 \<Rightarrow> (u64 \<times> bytes) list \<Rightarrow> u32 \<Rightarrow> ('c, sfs_err + unit) fsact" where
  "log_group seq ws pos = look (\<lambda>s. chk (ret (jmap s pos)) (\<lambda>p.
     run (sfs_wrun_add \<lparr>r_start = 0, r_bufs = []\<rparr> p (desc_block s seq ws)) (\<lambda>(rc, r). chk (ret rc) (\<lambda>_.
     run (log_blocks ws (pos + 1) r) (\<lambda>(rc, r). chk (ret rc) (\<lambda>_.
     run (sfs_wrun_flush r) (\<lambda>(rc, _). chk (ret rc) (\<lambda>_.
     run (upd_st (\<lambda>t. t\<lparr>st_journal_blocks_written := st_journal_blocks_written t + (of_nat (length ws) + 1)\<rparr>)) (\<lambda>_. ok ())))))))))"

text \<open>The \<open>while (b)\<close> loop: one descriptor for every \<open>tags_per_desc\<close> buffers, at least one each turn.\<close>

fun log_groups :: "nat \<Rightarrow> nat \<Rightarrow> u32 \<Rightarrow> (u64 \<times> bytes) list \<Rightarrow> u32 \<Rightarrow> ('c, sfs_err + u32) fsact" where
  "log_groups 0 tpd seq ws pos = ok pos"
| "log_groups (Suc k) tpd seq ws pos = (if ws = [] then ok pos
     else chk (log_group seq (take tpd ws) pos) (\<lambda>_.
          log_groups k tpd seq (drop tpd ws) (pos + 1 + of_nat (length (take tpd ws)))))"

definition commit_block :: "'c sfs_fs \<Rightarrow> u32 \<Rightarrow> u64 \<Rightarrow> bytes" where
  "commit_block s seq now =
    (let c = jheader JBD2_COMMIT_BLOCK seq (replicate (unat (g_bs (fs_geo s))) 0);
         c = wrbe64 c JC_commit_sec now; c = wrbe32 c JC_commit_nsec 0
     in if TAIL (fs_jnl s) \<noteq> 0 then wrbe32 c JC_chksum (commit_csum s c) else c)"

text \<open>The blocks a commit needs in the log.\<close>

definition commit_need :: "'c sfs_fs \<Rightarrow> u32" where
  "commit_need s =
    (let j = fs_jnl s; nb = t_nbufs (fs_txn s); tpd = of_nat (tags_per_desc s) :: u32;
         rs = (if j_has64 j then 8 else 4) :: u64;
         room = ucast (g_bs (fs_geo s) - of_nat JR_HDR - of_nat (TAIL j)) :: u64;
         nrev = ucast ((ucast (t_nrevokes (fs_txn s)) * rs + room - 1) div room) :: u32
     in nb + (nb + tpd - 1) div tpd + nrev + 1)"

text \<open>Choosing where the transaction starts: at the head, or at the first block when the log wraps.\<close>

definition log_restart :: "u32 \<Rightarrow> u32 \<Rightarrow> ('c, sfs_err + unit) fsact" where
  "log_restart need seq = look (\<lambda>s. let j = fs_jnl s in
     if j_maxlen j < j_head j + need
     then chk sfs_dev_flush (\<lambda>_.
          run (upd_jnl (\<lambda>j. j\<lparr>j_head := j_first j\<rparr>)) (\<lambda>_. write_jsb (j_first j) seq))
     else if j_disk_start j = 0 then write_jsb (j_head j) seq
     else ok ())"

definition sfs_journal_commit :: "('c, sfs_err + unit) fsact" where
  "sfs_journal_commit = look (\<lambda>s. let seq = j_next_seq (fs_jnl s) in
     run sfs_now (\<lambda>now.
     chk sfs_cache_write_data (\<lambda>_. look (\<lambda>s.
     if t_nbufs (fs_txn s) = 0 \<and> t_nrevokes (fs_txn s) = 0
     then run (upd_st (\<lambda>t. t\<lparr>st_commits := st_commits t + 1\<rparr>)) (\<lambda>_. sfs_dev_flush)
     else run sfs_txn_sort (\<lambda>_. look (\<lambda>s.
       let need = commit_need s; ws = map (\<lambda>b. (b, b_data (buf_of s b))) (t_bufs (fs_txn s))
       in if sfs_journal_capacity (fs_jnl s) < need
          then run (sfs_logu ''sfs: transaction larger than the journal, blocks: '' (ucast need)) (\<lambda>_. throw SFS_ENOSPC)
          else if \<not> j_has64 (fs_jnl s) \<and> (\<exists>(b, _)\<in>set ws. 0xFFFFFFFF < b) then throw SFS_ENOTSUP
          else chk (log_restart need seq) (\<lambda>_. look (\<lambda>s.
            chk (write_revokes seq (j_head (fs_jnl s))) (\<lambda>pos. look (\<lambda>s.
            chk (log_groups (length ws) (tags_per_desc s) seq ws pos) (\<lambda>pos.
            chk sfs_dev_flush (\<lambda>_. look (\<lambda>s.
            chk (jwrite pos (commit_block s seq now)) (\<lambda>_.
            chk sfs_dev_flush (\<lambda>_.
            run sfs_cache_write_meta_direct (\<lambda>rc.
            run (upd_jnl (\<lambda>j. j\<lparr>j_head := pos + 1, j_next_seq := seq + 1\<rparr>)) (\<lambda>_.
            run (upd_st (\<lambda>t. t\<lparr>st_commits := st_commits t + 1\<rparr>)) (\<lambda>_. ret rc))))))))))))))))))"

definition sfs_ondisk_state :: "('c, sfs_err + bool \<times> bool \<times> u32) fsact" where
  "sfs_ondisk_state = look (\<lambda>s. run (sfs_alloc (unat (g_bs (fs_geo s)))) (\<lambda>good.
     if \<not> good then throw SFS_ENOMEM
     else run (run (ctx_call (\<lambda>c. ops_read (fs_ops s) c (of_nat SB_OFFSET) 1024)) (\<lambda>r. case r of
         None \<Rightarrow> throw SFS_EIO
       | Some b \<Rightarrow> let nr = rd32 b SB_feature_incompat AND INCOMPAT_RECOVER \<noteq> 0; v = rd16 b SB_state AND SB_STATE_VALID \<noteq> 0 in
           case j_map (fs_jnl s) of None \<Rightarrow> ok (nr, v, 0)
           | Some [] \<Rightarrow> ok (nr, v, 0)
           | Some _ \<Rightarrow> chk (jread 0) (\<lambda>b. ok (nr, v, rdbe32 b JS_start)))) (\<lambda>rc.
       run (sfs_free (unat (g_bs (fs_geo s)))) (\<lambda>_. ret rc))))"

end
