(* ===== verification/Sfs_Txn.thy ===== *)
theory Sfs_Txn
  imports Sfs_Journal
begin

unbundle bit_operations_syntax

section \<open>Superblock updates, transactions and the orphan list (sfs\_super.c)\<close>

text \<open>
  The superblock buffer, the clean/in-use state of the volume, the begin and the end of an
  operation, the commit of the running transaction, the abort that makes a volume read-only, and
  the list of inodes whose release is under way.
\<close>

subsection \<open>The superblock\<close>

definition sb_block :: "sfs_geo \<Rightarrow> u64" where
  "sb_block g = (if g_bs g = 1024 then 1 else 0)"

definition sb_offset :: "sfs_geo \<Rightarrow> nat" where
  "sb_offset g = (if g_bs g = 1024 then 0 else 1024)"

definition sb_image :: "'c sfs_fs \<Rightarrow> u64 \<Rightarrow> bytes" where
  "sb_image f now = (let g = fs_geo f; s = fs_sbraw f;
       s = wr32 s SB_free_blocks_count_lo (ucast (fs_free_blocks f));
       s = (if g_has64 g then wr32 s SB_free_blocks_count_hi (ucast (drop_bit 32 (fs_free_blocks f))) else s);
       s = wr32 s SB_free_inodes_count (fs_free_inodes f);
       s = wr32 s SB_last_orphan (fs_last_orphan f);
       s = wr32 s SB_feature_compat (fs_feat_compat f);
       s = wr32 s SB_feature_incompat (fs_feat_incompat f);
       s = wr32 s SB_feature_ro_compat (fs_feat_ro f);
       s = (if now \<noteq> 0 then (wr32 s SB_wtime (ucast now))[SB_wtime_hi := ucast (drop_bit 32 now)] else s);
       s = wr64 s SB_kbytes_written (fs_kbytes_written_base f + drop_bit 10 (st_write_bytes (fs_st f)))
     in if g_csum g then wr32 s SB_checksum (sfs_crc32c 0xFFFFFFFF (slice s 0 SB_checksum)) else s)"

definition sb_fill :: "('c, unit) fsact" where
  "sb_fill = run sfs_now (\<lambda>now. upd (\<lambda>f. f\<lparr>fs_sbraw := sb_image f now\<rparr>))"

definition sfs_sb_write :: "('c, sfs_err + unit) fsact" where
  "sfs_sb_write = run sb_fill (\<lambda>_. look (\<lambda>s.
     chk (sfs_bread (sb_block (fs_geo s))) (\<lambda>b. look (\<lambda>s.
     run (set_bdata b (\<lambda>d. blit d (sb_offset (fs_geo s)) (fs_sbraw s))) (\<lambda>_.
     run (sfs_bdirty_meta b) (\<lambda>rc.
     run (sfs_bput b) (\<lambda>_.
     run (upd_txn (\<lambda>t. t\<lparr>t_sb_dirty := False\<rparr>)) (\<lambda>_. ret rc))))))))"

definition sb_write_direct :: "('c, sfs_err + unit) fsact" where
  "sb_write_direct = run sb_fill (\<lambda>_. look (\<lambda>s.
     chk (sfs_bread (sb_block (fs_geo s))) (\<lambda>b. look (\<lambda>s.
     run (set_bdata b (\<lambda>d. blit d (sb_offset (fs_geo s)) (fs_sbraw s))) (\<lambda>_. look (\<lambda>s.
     run (sfs_dev_write b (b_data (buf_of s b)) 1) (\<lambda>rc.
     run (sfs_bput b) (\<lambda>_. rcthen rc sfs_dev_flush))))))))"

definition set_mounted_state :: "bool \<Rightarrow> ('c, sfs_err + unit) fsact" where
  "set_mounted_state dirty = look (\<lambda>s. let present = j_present (fs_jnl s) in
     chk (if \<not> dirty \<and> present then sfs_journal_mark_clean else ok ()) (\<lambda>_.
     run (if present
          then upd (\<lambda>s. s\<lparr>fs_feat_incompat := (if dirty then fs_feat_incompat s OR INCOMPAT_RECOVER
                                               else fs_feat_incompat s AND NOT INCOMPAT_RECOVER)\<rparr>)
          else upd (\<lambda>s. s\<lparr>fs_sbraw := (let st = rd16 (fs_sbraw s) SB_state
                 in wr16 (fs_sbraw s) SB_state (if dirty then st AND NOT SB_STATE_VALID else st OR SB_STATE_VALID))\<rparr>)) (\<lambda>_.
     chk sb_write_direct (\<lambda>_.
     run (upd (\<lambda>s. s\<lparr>fs_mounted_dirty := dirty\<rparr>)) (\<lambda>_. ok ())))))"

subsection \<open>Transactions\<close>

definition sfs_op_begin :: "('c, sfs_err + unit) fsact" where
  "sfs_op_begin = look (\<lambda>s. if fs_dead s then throw SFS_EIO
     else if fs_ro s then throw SFS_EROFS
     else chk (if \<not> fs_mounted_dirty s then set_mounted_state True else ok ()) (\<lambda>_.
       run (upd (\<lambda>s. s\<lparr>fs_in_op := fs_in_op s + 1, fs_op_mods := fs_mods s\<rparr>)) (\<lambda>_. ok ())))"

definition txn_weight :: "'c sfs_fs \<Rightarrow> u32" where
  "txn_weight s = (let t = fs_txn s; grps = min (t_nfrees t) (g_ngroups (fs_geo s))
     in t_nbufs t + grps * 2 + t_nrevokes t div 64 + 8)"

definition sfs_fail :: "sfs_err \<Rightarrow> ('c, sfs_err + 'a) fsact" where
  "sfs_fail e = look (\<lambda>s. if fs_dead s then throw e
     else run (sfs_logu ''sfs: aborting the running transaction, volume now read-only; error '' (of_nat (err_num e))) (\<lambda>_.
       run (upd (\<lambda>s. s\<lparr>fs_dead := True, fs_ro := True, fs_ro_reason := fs_ro_reason s OR SFS_RO_ERRORS\<rparr>)) (\<lambda>_.
       run (forA (t_bufs (fs_txn s)) (\<lambda>b. upd_buf b (clear_flags (B_JDIRTY OR B_UPTODATE OR B_VERIFIED OR B_COMPUTED)))) (\<lambda>_.
       run (upd_txn (\<lambda>t. t\<lparr>t_bufs := [], t_nbufs := 0\<rparr>)) (\<lambda>_.
       run (forA (t_late (fs_txn s)) (\<lambda>b. upd_buf b (clear_flags (B_LATE OR B_DIRTY OR B_UPTODATE OR B_VERIFIED)))) (\<lambda>_.
       run (upd_txn (\<lambda>t. t\<lparr>t_late := []\<rparr>)) (\<lambda>_.
       run (sfs_runpage_free (t_frees (fs_txn s))) (\<lambda>_.
       run (sfs_runpage_free (t_revokes (fs_txn s))) (\<lambda>_.
       run (upd_txn (\<lambda>t. t\<lparr>t_frees := [], t_revokes := [], t_nfrees := 0, t_nrevokes := 0, t_free_blocks_pending := 0\<rparr>)) (\<lambda>_.
         throw e))))))))))"

text \<open>The part of \<open>sfs_commit\<close> that brings the transaction to the disk.\<close>

definition commit_disk :: "('c, sfs_err + unit) fsact" where
  "commit_disk = look (\<lambda>s. if j_present (fs_jnl s) then sfs_journal_commit
     else run (chk sfs_cache_write_data (\<lambda>_. chk sfs_dev_flush (\<lambda>_. look (\<lambda>s.
            if t_nbufs (fs_txn s) \<noteq> 0
            then run sfs_txn_sort (\<lambda>_. chk sfs_cache_write_meta_direct (\<lambda>_. sfs_dev_flush))
            else ok ())))) (\<lambda>rc.
          run (upd_st (\<lambda>t. t\<lparr>st_commits := st_commits t + 1\<rparr>)) (\<lambda>_. ret rc)))"

definition commit_prepare :: "('c, sfs_err + unit) fsact" where
  "commit_prepare = chk sfs_apply_pending_frees (\<lambda>_. chk sfs_iflush_all (\<lambda>_. look (\<lambda>s.
     if t_nbufs (fs_txn s) \<noteq> 0 \<or> t_sb_dirty (fs_txn s) then sfs_sb_write else ok ())))"

definition sfs_commit :: "('c, sfs_err + unit) fsact" where
  "sfs_commit = look (\<lambda>s. if fs_dead s then throw SFS_EIO
     else if fs_ro s then ok ()
     else run commit_prepare (\<lambda>rc. case rc of Inl e \<Rightarrow> sfs_fail e
     | Inr _ \<Rightarrow> look (\<lambda>s. run (if t_nbufs (fs_txn s) \<noteq> 0 \<and> \<not> fs_mounted_dirty s then set_mounted_state True else ok ()) (\<lambda>rc.
       case rc of Inl e \<Rightarrow> sfs_fail e
     | Inr _ \<Rightarrow> run commit_disk (\<lambda>rc. look (\<lambda>s.
         run (sfs_runpage_free (t_revokes (fs_txn s))) (\<lambda>_.
         run (upd_txn (\<lambda>t. t\<lparr>t_revokes := [], t_nrevokes := 0\<rparr>)) (\<lambda>_.
         case rc of Inl e \<Rightarrow> sfs_fail e
         | Inr _ \<Rightarrow> run sfs_release_late (\<lambda>_.
             run (upd_txn (\<lambda>t. t\<lparr>t_force_commit := False\<rparr>)) (\<lambda>_. ok ()))))))))))"

definition sfs_safe_point :: "('c, sfs_err + unit) fsact" where
  "sfs_safe_point = look (\<lambda>s. if fs_dead s then throw SFS_EIO
     else if fs_txn_soft s \<le> txn_weight s \<or> fs_max_inodes s * 2 < fs_ninodes s then sfs_commit
     else ok ())"

text \<open>\<open>sfs_op_end\<close> gets and gives an \<open>int\<close>: \<open>Inl\<close> a negative code, \<open>Inr n\<close> the number \<open>n\<close>. The callers that only
  ever hold 0 or a negative code use it through \<open>sfs_op_end\<close>.\<close>

definition op_end_code :: "sfs_err + nat \<Rightarrow> ('c, sfs_err + nat) fsact" where
  "op_end_code rc = run (upd (\<lambda>s. if fs_in_op s \<noteq> 0 then s\<lparr>fs_in_op := fs_in_op s - 1\<rparr> else s)) (\<lambda>_. look (\<lambda>s.
     if fs_dead s then ret (if rc = Inr 0 then Inl SFS_EIO else rc)
     else case rc of
       Inl e \<Rightarrow> if (e = SFS_EIO \<or> e = SFS_ECORRUPT \<or> e = SFS_ENOMEM) \<and> fs_mods s \<noteq> fs_op_mods s then sfs_fail e
               else if fs_txn_soft s \<le> txn_weight s \<or> t_force_commit (fs_txn s)
               then run sfs_commit (\<lambda>_. throw e) else throw e
     | Inr n \<Rightarrow> if fs_txn_soft s \<le> txn_weight s \<or> t_force_commit (fs_txn s)
               then run sfs_commit (\<lambda>c. case c of Inl e \<Rightarrow> if n = 0 then throw e else ok n | Inr _ \<Rightarrow> ok n)
               else ok n))"

definition sfs_op_end :: "sfs_err + unit \<Rightarrow> ('c, sfs_err + unit) fsact" where
  "sfs_op_end rc = run (op_end_code (case rc of Inl e \<Rightarrow> Inl e | Inr _ \<Rightarrow> Inr 0)) (\<lambda>r. case r of
     Inl e \<Rightarrow> throw e | Inr _ \<Rightarrow> ok ())"

subsection \<open>The orphan list\<close>

definition sb_set_orphan :: "u32 \<Rightarrow> ('c, unit) fsact" where
  "sb_set_orphan ino = upd (\<lambda>s. s\<lparr>fs_last_orphan := ino, fs_txn := (fs_txn s)\<lparr>t_sb_dirty := True\<rparr>\<rparr>)"

definition sfs_orphan_add :: "u32 \<Rightarrow> ('c, sfs_err + unit) fsact" where
  "sfs_orphan_add i = look (\<lambda>s.
     run (upd_ino i (\<lambda>x. x\<lparr>in_dtime := fs_last_orphan s\<rparr>)) (\<lambda>_.
     run (sb_set_orphan i) (\<lambda>_.
     run (sfs_idirty i) (\<lambda>_. ok ()))))"

text \<open>The walk \<open>while (cur && guard++ < inodes_count)\<close>; the counter runs down where \<open>guard\<close> runs up.\<close>

primrec orphan_del_loop :: "nat \<Rightarrow> u32 \<Rightarrow> u32 \<Rightarrow> ('c, sfs_err + unit) fsact" where
  "orphan_del_loop 0 cur i = throw SFS_ECORRUPT"
| "orphan_del_loop (Suc k) cur i = (if cur = 0 then throw SFS_ECORRUPT
     else chk (sfs_iget cur) (\<lambda>p. look (\<lambda>s.
       if in_dtime (ino_of s p) = i
       then run (upd_ino p (\<lambda>x. x\<lparr>in_dtime := in_dtime (ino_of s i)\<rparr>)) (\<lambda>_.
            run (sfs_idirty p) (\<lambda>_.
            run (sfs_iput p) (\<lambda>_.
            run (upd_ino i (\<lambda>x. x\<lparr>in_dtime := 0\<rparr>)) (\<lambda>_.
            run (sfs_idirty i) (\<lambda>_. ok ())))))
       else run (sfs_iput p) (\<lambda>_. orphan_del_loop k (in_dtime (ino_of s p)) i))))"

definition sfs_orphan_del :: "u32 \<Rightarrow> ('c, sfs_err + unit) fsact" where
  "sfs_orphan_del i = look (\<lambda>s.
     if fs_last_orphan s = i
     then run (sb_set_orphan (in_dtime (ino_of s i))) (\<lambda>_.
          run (upd_ino i (\<lambda>x. x\<lparr>in_dtime := 0\<rparr>)) (\<lambda>_.
          run (sfs_idirty i) (\<lambda>_. ok ())))
     else orphan_del_loop (unat (g_inodes_count (fs_geo s))) (fs_last_orphan s) i)"

end
