(* ===== verification/Sfs_File.thy ===== *)
theory Sfs_File
  imports Sfs_Txn
begin

unbundle bit_operations_syntax

section \<open>File data (sfs\_file.c)\<close>

text \<open>
  Reading and writing file data, truncation, the release of everything an inode owns, and symbolic
  links. The caller's buffer is a byte list: a read gives the bytes it stored, a write gets them. An
  \<open>int\<close> that may be neither 0 nor an error code is \<open>sfs_err + nat\<close>, as in \<open>op_end_code\<close>.
  \<open>sfs_alloc\<close> gives zeroed memory (sfs.h, \<open>sfs_ops.alloc\<close>).
\<close>

definition direct_cap :: "sfs_geo \<Rightarrow> u64" where
  "direct_cap g = drop_bit (g_bs_bits g) 0x800000"

subsection \<open>Inline data\<close>

text \<open>The entry loop of \<open>inline_xattr_value\<close> over the inode \<open>raw\<close>: the bytes it copies out.\<close>

function xattr_find :: "bytes \<Rightarrow> nat \<Rightarrow> nat \<Rightarrow> nat \<Rightarrow> nat \<Rightarrow> nat \<Rightarrow> bytes" where
  "xattr_find raw start fin e off len = (if fin < e + 16 \<or> rd32 raw e = 0 then []
     else let nl = unat (byte_at raw e); idx = byte_at raw (e + 1); voff = unat (rd16 raw (e + 2));
              vsize = unat (rd32 raw (e + 8)); vstart = start + 4 + voff
       in if fin < e + 16 + nl then []
          else if idx = 7 \<and> nl = 4 \<and> slice raw (e + 16) 4 = [0x64, 0x61, 0x74, 0x61]
          then if fin < vstart \<or> fin - vstart < vsize then []
               else if off < vsize then slice raw (vstart + off) (min len (vsize - off)) else []
          else xattr_find raw start fin (e + (16 + nl + 3) div 4 * 4) off len)"
  by auto
termination
  by (relation "measure (\<lambda>(_, _, fin, e, _, _). fin - e)") (auto simp: Let_def)

declare xattr_find.simps [simp del]

definition inline_xattr_value :: "u32 \<Rightarrow> nat \<Rightarrow> nat \<Rightarrow> ('c, sfs_err + bytes) fsact" where
  "inline_xattr_value i off len = chk (sfs_inode_loc i) (\<lambda>(blk, ioff). chk (sfs_bread blk) (\<lambda>b. look (\<lambda>s.
     let raw = drop ioff (b_data (buf_of s b)); start = 128 + unat (in_extra_isize (ino_of s i)); fin = unat (g_isize (fs_geo s))
     in run (sfs_bput b) (\<lambda>_.
        if fin < start + 4 \<or> rd32 raw start \<noteq> 0xEA020000 then ok []
        else ok (xattr_find raw start fin (start + 4) off len)))))"

definition sfs_inline_read :: "u32 \<Rightarrow> nat \<Rightarrow> nat \<Rightarrow> ('c, sfs_err + bytes) fsact" where
  "sfs_inline_read i off len = look (\<lambda>s.
     let n = (if off < IN_BLOCK_BYTES then min len (IN_BLOCK_BYTES - off) else 0);
         head = slice (in_iblock (ino_of s i)) off n; rest = len - n
     in if rest \<noteq> 0
        then chk (inline_xattr_value i (off + n - IN_BLOCK_BYTES) rest) (\<lambda>v. ok (head @ v @ replicate (rest - length v) 0))
        else ok head)"

subsection \<open>Read\<close>

text \<open>The \<open>while (len)\<close> loop. A turn reads at least one byte, so \<open>len\<close> bounds the turns. The result is the
  code and the bytes read so far.\<close>

primrec file_read_loop :: "nat \<Rightarrow> u32 \<Rightarrow> u64 \<Rightarrow> u64 \<Rightarrow> bytes \<Rightarrow> ('c, (sfs_err + unit) \<times> bytes) fsact" where
  "file_read_loop 0 i off len acc = ret (Inr (), acc)"
| "file_read_loop (Suc k) i off len acc = look (\<lambda>s. let g = fs_geo s; bits = g_bs_bits g; bs = ucast (g_bs g) :: u64;
       lblk = drop_bit bits off; boff = off AND (bs - 1)
     in if len = 0 \<or> 0xFFFFFFFF < lblk then ret (Inr (), acc)
     else run (sfs_map_block i (ucast lblk)) (\<lambda>rc. case rc of Inl e \<Rightarrow> ret (Inl e, acc) | Inr (p, rn, unw) \<Rightarrow>
       run (case p of
         Some pblk \<Rightarrow>
           if unw then let n = min len (push_bit bits (ucast rn) - boff) in ok (replicate (unat n) 0)
           else if boff = 0 \<and> bs \<le> len \<and> fs_mflags s AND SFS_MOUNT_NAIVE = 0
           then let nb = min (min (ucast rn) (drop_bit bits len)) (direct_cap g)
                in chk (sfs_dev_read pblk (ucast nb)) (\<lambda>d. look (\<lambda>s. ok (sfs_boverlay s pblk (unat nb) d)))
           else let n = min len (bs - boff)
                in chk (sfs_bread pblk) (\<lambda>b. look (\<lambda>s.
                   run (sfs_bput b) (\<lambda>_. ok (slice (b_data (buf_of s b)) (unat boff) (unat n)))))
       | None \<Rightarrow> let n = min len (push_bit bits (ucast rn) - boff) in ok (replicate (unat n) 0)) (\<lambda>rc. case rc of
         Inl e \<Rightarrow> ret (Inl e, acc)
       | Inr d \<Rightarrow> let n = of_nat (length d) in file_read_loop k i (off + n) (len - n) (acc @ d))))"

definition sfs_file_read :: "u32 \<Rightarrow> u64 \<Rightarrow> u64 \<Rightarrow> ('c, (sfs_err + unit) \<times> bytes) fsact" where
  "sfs_file_read i off len = look (\<lambda>s. let x = ino_of s i in
     if in_size x \<le> off then ret (Inr (), [])
     else let len = (if in_size x - off < len then in_size x - off else len)
       in if in_flags x AND IFL_ENCRYPT \<noteq> 0 then ret (Inl SFS_ENOTSUP, [])
          else if in_flags x AND IFL_INLINE_DATA \<noteq> 0
          then run (sfs_inline_read i (unat off) (unat len)) (\<lambda>rc. case rc of
                 Inl e \<Rightarrow> ret (Inl e, []) | Inr d \<Rightarrow> ret (Inr (), d))
          else file_read_loop (unat len) i off len [])"

subsection \<open>Write\<close>

primrec walk_back :: "nat \<Rightarrow> u32 \<Rightarrow> u32 \<Rightarrow> u64 \<Rightarrow> u32 \<Rightarrow> ('c, u32) fsact" where
  "walk_back 0 i lblk pblk first = ret first"
| "walk_back (Suc k) i lblk pblk first = (if first = 0 then ret first
     else run (sfs_map_block i (first - 1)) (\<lambda>rc. case rc of
       Inr (Some p2, r2, u2) \<Rightarrow>
         if \<not> u2 \<or> p2 + 1 \<noteq> pblk - ucast (lblk - first) then ret first else walk_back k i lblk pblk (first - 1)
     | _ \<Rightarrow> ret first))"

text \<open>\<open>for (i = 0; i < run && !rc; ++i)\<close> of \<open>zero_unwritten\<close>, with the value \<open>rc\<close> has on entry.\<close>

fun zero_blocks :: "nat list \<Rightarrow> u64 \<Rightarrow> bytes \<Rightarrow> sfs_err + nat \<Rightarrow> ('c, sfs_err + nat) fsact" where
  "zero_blocks [] pblk z rc = ret rc"
| "zero_blocks (k # ks) pblk z rc = (if rc \<noteq> Inr 0 then ret rc
     else run (sfs_binval_data (pblk + of_nat k) 1) (\<lambda>_.
          run (sfs_dev_write (pblk + of_nat k) z 1) (\<lambda>rc.
          zero_blocks ks pblk z (case rc of Inl e \<Rightarrow> Inl e | Inr _ \<Rightarrow> Inr 0))))"

text \<open>In C, \<open>rc\<close> holds the 1 of the second \<open>sfs_map_block\<close> when the loop starts.\<close>

definition zero_unwritten :: "u32 \<Rightarrow> u32 \<Rightarrow> ('c, sfs_err + nat) fsact" where
  "zero_unwritten i lblk = run (sfs_map_block i lblk) (\<lambda>rc. case rc of
     Inl e \<Rightarrow> throw e
   | Inr (None, _, _) \<Rightarrow> ok 0
   | Inr (Some pblk, _, unw) \<Rightarrow> if \<not> unw then ok 0
       else run (walk_back (unat lblk) i lblk pblk lblk) (\<lambda>first.
         run (sfs_map_block i first) (\<lambda>rc. case rc of
           Inl e \<Rightarrow> throw e
         | Inr (None, _, _) \<Rightarrow> throw SFS_ECORRUPT
         | Inr (Some pblk, rn, _) \<Rightarrow> look (\<lambda>s. let bs = unat (g_bs (fs_geo s)) in
             run (sfs_alloc bs) (\<lambda>good. if \<not> good then throw SFS_ENOMEM
             else run (zero_blocks [0..<unat rn] pblk (replicate bs 0) (Inr 1)) (\<lambda>rc.
               run (sfs_free bs) (\<lambda>_.
               if rc \<noteq> Inr 0 then ret rc
               else run (sfs_ext_mark_written i first) (\<lambda>rc. case rc of Inl e \<Rightarrow> throw e | Inr _ \<Rightarrow> ok 0))))))))"

text \<open>The rest \<open>src\<close> of the caller's buffer and the file offset \<open>off\<close> of its first byte are passed by
  address in C. A turn writes at least one block, so \<open>got\<close> bounds the turns.\<close>

primrec write_new_blocks :: "nat \<Rightarrow> u64 \<Rightarrow> u32 \<Rightarrow> u32 \<Rightarrow> u64 \<Rightarrow> bytes \<Rightarrow> u64 \<Rightarrow> ('c, (sfs_err + unit) \<times> bytes \<times> u64) fsact" where
  "write_new_blocks 0 start got i boff src off = ret (Inr (), src, off)"
| "write_new_blocks (Suc k) start got i boff src off = look (\<lambda>s.
     let g = fs_geo s; bits = g_bs_bits g; bs = ucast (g_bs g) :: u64; len = of_nat (length src) :: u64
     in if got \<le> i \<or> src = [] then ret (Inr (), src, off)
        else if boff = 0 \<and> bs \<le> len \<and> fs_mflags s AND SFS_MOUNT_NAIVE = 0
        then let n = ucast (min (min (ucast (got - i)) (drop_bit bits len)) (direct_cap g)) :: u32;
                 nbytes = push_bit bits (ucast n) :: u64
             in run (sfs_binval_data (start + ucast i) (unat n)) (\<lambda>_.
                run (sfs_dev_write (start + ucast i) (take (unat nbytes) src) n) (\<lambda>rc. case rc of
                  Inl e \<Rightarrow> ret (Inl e, src, off)
                | Inr _ \<Rightarrow> write_new_blocks k start got (i + n) boff (drop (unat nbytes) src) (off + nbytes)))
        else let n = min len (bs - boff)
             in run (sfs_bnew (start + ucast i)) (\<lambda>rc. case rc of
                  Inl e \<Rightarrow> ret (Inl e, src, off)
                | Inr b \<Rightarrow>
                    run (set_bdata b (\<lambda>d. blit d (unat boff) (take (unat n) src))) (\<lambda>_.
                    run (sfs_bdirty_data b) (\<lambda>_.
                    run (sfs_bput b) (\<lambda>_.
                    write_new_blocks k start got (i + 1) 0 (drop (unat n) src) (off + n))))))"

definition grow_size :: "u32 \<Rightarrow> u64 \<Rightarrow> ('c, unit) fsact" where
  "grow_size i off = look (\<lambda>s. if in_size (ino_of s i) < off
     then run (upd_ino i (\<lambda>x. x\<lparr>in_size := off\<rparr>)) (\<lambda>_. sfs_idirty i) else ret ())"

text \<open>What one turn of \<open>sfs_file_write\<close> does with a mapped block or a hole: leave the loop, go on to the
  end of the turn, or start the next turn at once (after the commit that frees blocks).\<close>

datatype write_step = WrBreak sfs_err u64 | WrNext bytes u64 | WrRetry

definition write_mapped :: "u64 \<Rightarrow> u32 \<Rightarrow> u64 \<Rightarrow> bytes \<Rightarrow> u64 \<Rightarrow> ('c, write_step) fsact" where
  "write_mapped pblk rn boff src off = look (\<lambda>s.
     let g = fs_geo s; bits = g_bs_bits g; bs = ucast (g_bs g) :: u64; len = of_nat (length src) :: u64
     in if boff = 0 \<and> bs \<le> len \<and> fs_mflags s AND SFS_MOUNT_NAIVE = 0
        then let nb = ucast (min (min (ucast rn) (drop_bit bits len)) (direct_cap g)) :: u32;
                 nbytes = push_bit bits (ucast nb) :: u64
             in run (sfs_binval_data pblk (unat nb)) (\<lambda>_.
                run (sfs_dev_write pblk (take (unat nbytes) src) nb) (\<lambda>rc. case rc of
                  Inl e \<Rightarrow> ret (WrBreak e off)
                | Inr _ \<Rightarrow> ret (WrNext (drop (unat nbytes) src) (off + nbytes))))
        else let n = min len (bs - boff)
             in run (if boff = 0 \<and> n = bs then sfs_bnew pblk else sfs_bread pblk) (\<lambda>rc. case rc of
                  Inl e \<Rightarrow> ret (WrBreak e off)
                | Inr b \<Rightarrow>
                    run (set_bdata b (\<lambda>d. blit d (unat boff) (take (unat n) src))) (\<lambda>_.
                    run (sfs_bdirty_data b) (\<lambda>_.
                    run (sfs_bput b) (\<lambda>_. ret (WrNext (drop (unat n) src) (off + n)))))))"

definition write_hole :: "u32 \<Rightarrow> u32 \<Rightarrow> u32 \<Rightarrow> u64 \<Rightarrow> bytes \<Rightarrow> u64 \<Rightarrow> bool \<Rightarrow> ('c, write_step) fsact" where
  "write_hole i lblk rn boff src off retried = look (\<lambda>s.
     let g = fs_geo s; need = drop_bit (g_bs_bits g) (boff + of_nat (length src) + ucast (g_bs g) - 1);
         want = ucast (min (min need (ucast rn)) (ucast EXT_INIT_MAX_LEN)) :: u32;
         want = (if fs_mflags s AND SFS_MOUNT_NAIVE \<noteq> 0 then 1 else want)
     in run (sfs_goal_for (Some i) lblk) (\<lambda>goal. run (sfs_alloc_blocks (Some i) lblk goal want) (\<lambda>rc. look (\<lambda>s. case rc of
          Inl e \<Rightarrow> if e = SFS_ENOSPC \<and> \<not> retried \<and> t_nfrees (fs_txn s) \<noteq> 0
                  then run (grow_size i off) (\<lambda>_. run sfs_commit (\<lambda>rc. case rc of
                         Inl e \<Rightarrow> ret (WrBreak e off) | Inr _ \<Rightarrow> ret WrRetry))
                  else ret (WrBreak e off)
        | Inr (start, got) \<Rightarrow>
            run (chk (sfs_ext_insert i lblk start got) (\<lambda>_. sfs_add_blocks i (ucast got))) (\<lambda>rc. case rc of
              Inl e \<Rightarrow> run (sfs_free_blocks start got False) (\<lambda>_. ret (WrBreak e off))
            | Inr _ \<Rightarrow> run (write_new_blocks (unat got) start got 0 boff src off) (\<lambda>(rc, src, off). case rc of
                Inl e \<Rightarrow> ret (WrBreak e off) | Inr _ \<Rightarrow> ret (WrNext src off)))))))"

text \<open>The \<open>while (len)\<close> loop. A turn writes at least one byte, or is the one retry, or makes an unwritten
  extent written; so twice the number of bytes and two more bound the turns. The result is the code
  and the file offset reached.\<close>

primrec file_write_loop :: "nat \<Rightarrow> u32 \<Rightarrow> bytes \<Rightarrow> u64 \<Rightarrow> bool \<Rightarrow> ('c, (sfs_err + nat) \<times> u64) fsact" where
  "file_write_loop 0 i src off retried = ret (Inr 0, off)"
| "file_write_loop (Suc k) i src off retried = look (\<lambda>s. let g = fs_geo s;
       lblk = ucast (drop_bit (g_bs_bits g) off) :: u32; boff = off AND (ucast (g_bs g) - 1)
     in if src = [] then ret (Inr 0, off)
     else run (sfs_map_block i lblk) (\<lambda>rc. case rc of Inl e \<Rightarrow> ret (Inl e, off) | Inr (p, rn, unw) \<Rightarrow>
       if p \<noteq> None \<and> unw
       then run (zero_unwritten i lblk) (\<lambda>rc. if rc = Inr 0 then file_write_loop k i src off retried else ret (rc, off))
       else run (case p of Some pblk \<Rightarrow> write_mapped pblk rn boff src off
                 | None \<Rightarrow> write_hole i lblk rn boff src off retried) (\<lambda>st. case st of
           WrBreak e off \<Rightarrow> ret (Inl e, off)
         | WrRetry \<Rightarrow> file_write_loop k i src off True
         | WrNext src off \<Rightarrow> run (grow_size i off) (\<lambda>_. run sfs_safe_point (\<lambda>rc. case rc of
             Inl e \<Rightarrow> ret (Inl e, off) | Inr _ \<Rightarrow> file_write_loop k i src off retried)))))"

definition large_file :: "('c, unit) fsact" where
  "large_file = upd (\<lambda>s. s\<lparr>fs_feat_ro := fs_feat_ro s OR RO_COMPAT_LARGE_FILE, fs_txn := (fs_txn s)\<lparr>t_sb_dirty := True\<rparr>\<rparr>)"

definition sfs_file_write :: "u32 \<Rightarrow> u64 \<Rightarrow> bytes \<Rightarrow> ('c, (sfs_err + nat) \<times> u64) fsact" where
  "sfs_file_write i off src = look (\<lambda>s. let x = ino_of s i; maxbytes = push_bit (g_bs_bits (fs_geo s)) (ucast EXT_MAX_LBLK) :: u64 in
     if \<not> sfs_is_reg x then ret (Inl (if sfs_is_dir x then SFS_EISDIR else SFS_EINVAL), 0)
     else if in_flags x AND (IFL_INLINE_DATA OR IFL_ENCRYPT OR IFL_VERITY) \<noteq> 0 then ret (Inl SFS_ENOTSUP, 0)
     else if in_flags x AND IFL_IMMUTABLE \<noteq> 0 then ret (Inl SFS_EROFS, 0)
     else if src = [] then ret (Inr 0, 0)
     else if in_flags x AND IFL_EXTENTS = 0 \<and> (in_nblocks x \<noteq> 0 \<or> \<not> g_extents (fs_geo s)) then ret (Inl SFS_ENOTSUP, 0)
     else run (whenA (in_flags x AND IFL_EXTENTS = 0)
            (run (upd_ino i (\<lambda>x. x\<lparr>in_flags := in_flags x OR IFL_EXTENTS, in_iblock := sfs_ext_root_init\<rparr>)) (\<lambda>_. sfs_idirty i))) (\<lambda>_.
       if maxbytes \<le> off then ret (Inl SFS_EFBIG, 0)
       else let src = take (unat (maxbytes - off)) src
         in run (whenA (0x7FFFFFFF < off + of_nat (length src) \<and> fs_feat_ro s AND RO_COMPAT_LARGE_FILE = 0) large_file) (\<lambda>_.
            run (file_write_loop (2 * length src + 2) i src off False) (\<lambda>(rc, fin).
            run (grow_size i fin) (\<lambda>_.
            let done = fin - off
            in run (whenA (done \<noteq> 0) (sfs_inode_touch i True True False)) (\<lambda>_.
               ret (if rc = Inl SFS_ENOSPC \<and> done \<noteq> 0 then Inr 0 else rc, done)))))))"

subsection \<open>Truncate and release\<close>

definition zero_tail :: "u32 \<Rightarrow> u64 \<Rightarrow> ('c, sfs_err + unit) fsact" where
  "zero_tail i sz = look (\<lambda>s. let g = fs_geo s; boff = unat (sz AND (ucast (g_bs g) - 1)) in
     if boff = 0 then ok ()
     else chk (sfs_map_block i (ucast (drop_bit (g_bs_bits g) sz))) (\<lambda>(p, _, unw). case p of
         None \<Rightarrow> ok ()
       | Some pblk \<Rightarrow> if unw then ok ()
           else chk (sfs_bread pblk) (\<lambda>b.
             run (set_bdata b (\<lambda>d. fill d boff 0 (unat (g_bs g) - boff))) (\<lambda>_.
             run (sfs_bdirty_late b) (\<lambda>_.
             run (upd_txn (\<lambda>t. t\<lparr>t_force_commit := True\<rparr>)) (\<lambda>_.
             run (sfs_bput b) (\<lambda>_. ok ())))))))"

definition last_cb :: "u64 \<Rightarrow> u32 \<Rightarrow> u64 \<Rightarrow> u32 \<Rightarrow> bool \<Rightarrow> ('c, sfs_err + u64) fsact" where
  "last_cb fin lblk pblk len unwritten = ok (if fin < ucast lblk + ucast len then ucast lblk + ucast len else fin)"

definition mapped_end :: "u32 \<Rightarrow> ('c, sfs_err + u64) fsact" where
  "mapped_end i = look (\<lambda>s. if in_flags (ino_of s i) AND IFL_EXTENTS \<noteq> 0 then sfs_ext_iterate i last_cb 0 else ok 0)"

text \<open>The \<open>while (end > first)\<close> loop; every turn but the last lowers \<open>end\<close> by \<open>step\<close>.\<close>

primrec truncate_steps :: "nat \<Rightarrow> u32 \<Rightarrow> u64 \<Rightarrow> u64 \<Rightarrow> u64 \<Rightarrow> bool \<Rightarrow> ('c, sfs_err + unit) fsact" where
  "truncate_steps 0 i fin first step meta = ok ()"
| "truncate_steps (Suc k) i fin first step meta = (if fin \<le> first then ok ()
     else let cut = (if first + step < fin then fin - step else first)
       in chk (sfs_ext_truncate i (ucast cut) meta) (\<lambda>_.
          chk (if first < cut then sfs_safe_point else ok ()) (\<lambda>_.
          truncate_steps k i cut first step meta)))"

definition truncate_blocks_ex :: "u32 \<Rightarrow> u64 \<Rightarrow> u64 \<Rightarrow> bool \<Rightarrow> bool \<Rightarrow> ('c, sfs_err + unit) fsact" where
  "truncate_blocks_ex i old_size sz meta on_list = look (\<lambda>s.
     let g = fs_geo s; bs = ucast (g_bs g) :: u64; first = drop_bit (g_bs_bits g) (sz + bs - 1);
         fin = drop_bit (g_bs_bits g) (old_size + bs - 1);
         step = (if fs_mflags s AND SFS_MOUNT_SMALL_TXN \<noteq> 0 then 256 else ucast (g_bpg g) * 8) :: u64
     in if ucast EXT_MAX_LBLK < first then ok ()
        else chk (mapped_end i) (\<lambda>mend. let fin = max fin mend in
          run (upd_ino i (\<lambda>x. if first \<le> ucast (in_last_lblk x) then x\<lparr>in_last_lblk := 0, in_last_pblk := 0\<rparr> else x)) (\<lambda>_.
          run (sfs_pa_release i) (\<lambda>_. look (\<lambda>s.
          let orphan = (first + step < fin \<and> in_links (ino_of s i) \<noteq> 0 \<and> \<not> on_list)
          in chk (if orphan then sfs_orphan_add i else ok ()) (\<lambda>_.
             chk (truncate_steps (unat ((fin - first) div step) + 1) i fin first step meta) (\<lambda>_.
             chk (sfs_ext_truncate i (ucast first) meta) (\<lambda>_.
             if orphan then sfs_orphan_del i else ok ()))))))))"

definition truncate_blocks :: "u32 \<Rightarrow> u64 \<Rightarrow> u64 \<Rightarrow> bool \<Rightarrow> ('c, sfs_err + unit) fsact" where
  "truncate_blocks i old_size sz meta = truncate_blocks_ex i old_size sz meta False"

definition sfs_file_trim_orphan :: "u32 \<Rightarrow> ('c, sfs_err + unit) fsact" where
  "sfs_file_trim_orphan i = look (\<lambda>s. let x = ino_of s i in
     if \<not> sfs_is_reg x \<or> in_flags x AND IFL_EXTENTS = 0 then ok ()
     else truncate_blocks_ex i (in_size x) (in_size x) False True)"

definition set_isize :: "u32 \<Rightarrow> u64 \<Rightarrow> ('c, unit) fsact" where
  "set_isize i sz = upd_ino i (\<lambda>x. x\<lparr>in_size := sz\<rparr>)"

text \<open>The branch of \<open>sfs_file_truncate\<close> for a file with a legacy block map.\<close>

definition truncate_bmap :: "u32 \<Rightarrow> u64 \<Rightarrow> ('c, sfs_err + unit) fsact" where
  "truncate_bmap i sz = look (\<lambda>s.
     if sz \<noteq> 0
     then if in_size (ino_of s i) \<le> sz
          then run (set_isize i sz) (\<lambda>_. run (sfs_inode_touch i True True False) (\<lambda>_. ok ()))
          else throw SFS_ENOTSUP
     else chk (sfs_bmap_release i False) (\<lambda>_.
          run (set_isize i 0) (\<lambda>_.
          run (whenA (g_extents (fs_geo s))
                (upd_ino i (\<lambda>x. x\<lparr>in_flags := in_flags x OR IFL_EXTENTS, in_iblock := sfs_ext_root_init\<rparr>))) (\<lambda>_.
          run (sfs_inode_touch i True True False) (\<lambda>_. ok ())))))"

definition sfs_file_truncate :: "u32 \<Rightarrow> u64 \<Rightarrow> ('c, sfs_err + unit) fsact" where
  "sfs_file_truncate i sz = look (\<lambda>s. let x = ino_of s i; old = in_size x in
     if \<not> sfs_is_reg x then throw (if sfs_is_dir x then SFS_EISDIR else SFS_EINVAL)
     else if in_flags x AND (IFL_INLINE_DATA OR IFL_ENCRYPT OR IFL_VERITY) \<noteq> 0 then throw SFS_ENOTSUP
     else if in_flags x AND IFL_IMMUTABLE \<noteq> 0 then throw SFS_EROFS
     else if push_bit (g_bs_bits (fs_geo s)) (ucast EXT_MAX_LBLK) < sz then throw SFS_EFBIG
     else if in_flags x AND IFL_EXTENTS = 0 then truncate_bmap i sz
     else run (whenA (0x7FFFFFFF < sz \<and> fs_feat_ro s AND RO_COMPAT_LARGE_FILE = 0) large_file) (\<lambda>_.
       if sz < old
       then chk (zero_tail i sz) (\<lambda>_.
            run (set_isize i sz) (\<lambda>_.
            run (sfs_idirty i) (\<lambda>_.
            run (truncate_blocks i old sz False) (\<lambda>rc.
            run (sfs_inode_touch i True True False) (\<lambda>_. ret rc)))))
       else run (set_isize i sz) (\<lambda>_. run (sfs_inode_touch i True True False) (\<lambda>_. ok ()))))"

definition xattr_block_csum :: "sfs_geo \<Rightarrow> u64 \<Rightarrow> bytes \<Rightarrow> u32" where
  "xattr_block_csum g blk d =
     sfs_crc32c (sfs_crc32c (sfs_crc32c (sfs_crc32c (g_csum_seed g) (wr64 (replicate 8 0) 0 blk)) (slice d 0 0x10)) [0, 0, 0, 0])
       (slice d 0x14 (unat (g_bs g) - 0x14))"

definition release_xattr_block :: "u32 \<Rightarrow> ('c, sfs_err + unit) fsact" where
  "release_xattr_block i = look (\<lambda>s. let g = fs_geo s; blk = in_file_acl (ino_of s i) in
     if blk = 0 then ok ()
     else if \<not> sfs_block_valid g blk then throw SFS_ECORRUPT
     else chk (sfs_bread blk) (\<lambda>b. look (\<lambda>s. let d = b_data (buf_of s b); refs = rd32 d 4 in
       if rd32 d 0 \<noteq> 0xEA020000 then run (sfs_bput b) (\<lambda>_. throw SFS_ECORRUPT)
       else chk (if 1 < refs
                 then run (set_bdata b (\<lambda>d. let d = wr32 d 4 (refs - 1) in
                             if g_csum g then wr32 d 0x10 (xattr_block_csum g blk d) else d)) (\<lambda>_.
                      run (sfs_bdirty_meta b) (\<lambda>rc. run (sfs_bput b) (\<lambda>_. ret rc)))
                 else run (sfs_bput b) (\<lambda>_. sfs_free_blocks blk 1 True)) (\<lambda>_.
            run (upd_ino i (\<lambda>x. x\<lparr>in_file_acl := 0\<rparr>)) (\<lambda>_. sfs_add_blocks i (-1))))))"

definition fast_link :: "sfs_inode \<Rightarrow> bool" where
  "fast_link x = (sfs_is_lnk x \<and> in_nblocks x = (if in_file_acl x \<noteq> 0 then 1 else 0) \<and> in_flags x AND IFL_EXTENTS = 0)"

definition sfs_inode_release_all :: "u32 \<Rightarrow> ('c, sfs_err + unit) fsact" where
  "sfs_inode_release_all i = look (\<lambda>s. let x = ino_of s i; meta = sfs_inode_meta_data x in
     run (sfs_pa_release i) (\<lambda>_.
     chk (if in_flags x AND IFL_INLINE_DATA \<noteq> 0 then ok ()
          else if in_flags x AND IFL_EXTENTS \<noteq> 0
          then chk (if sfs_is_reg x then truncate_blocks i (in_size x) 0 False else sfs_ext_truncate i 0 meta) (\<lambda>_.
               sfs_ext_truncate i 0 meta)
          else if \<not> fast_link x then sfs_bmap_release i meta
          else ok ()) (\<lambda>_.
     chk (release_xattr_block i) (\<lambda>_.
     run (set_isize i 0) (\<lambda>_.
     run (sfs_idirty i) (\<lambda>_. ok ()))))))"

subsection \<open>Symbolic links\<close>

definition sfs_symlink_read :: "u32 \<Rightarrow> nat \<Rightarrow> ('c, sfs_err + bytes) fsact" where
  "sfs_symlink_read i cap = look (\<lambda>s. let x = ino_of s i in
     if \<not> sfs_is_lnk x then throw SFS_EINVAL
     else if 4096 < in_size x then throw SFS_ECORRUPT
     else if cap < unat (in_size x) then throw SFS_ERANGE
     else if in_flags x AND (IFL_EXTENTS OR IFL_INLINE_DATA) = 0 \<and> in_nblocks x = (if in_file_acl x \<noteq> 0 then 1 else 0)
     then if of_nat IN_BLOCK_BYTES \<le> in_size x then throw SFS_ECORRUPT
          else ok (slice (in_iblock x) 0 (unat (in_size x)))
     else run (sfs_file_read i 0 (in_size x)) (\<lambda>(rc, d). case rc of Inl e \<Rightarrow> throw e | Inr _ \<Rightarrow> ok d))"

end
