(* ===== verification/Sfs_Dirent.thy ===== *)
theory Sfs_Dirent
  imports Sfs_State Sfs_Crc
begin

unbundle bit_operations_syntax

section \<open>Directory blocks (sfs\_dir.c)\<close>

text \<open>
  The format of directory blocks: entries, the checksum tail of a leaf, the count, limit and checksum
  of an index block, and the operations on the entries of one leaf. The functions are pure: they
  read a block, or give its new content. An entry is addressed by its offset in the block; a name is
  a byte list. The walk over the entries of a block is bounded by the block's size: \<open>leaf_ok\<close> holds of
  every block that is walked, and then every record is at least 12 bytes long.
\<close>

subsection \<open>Entries\<close>

definition name_len_of :: "sfs_geo \<Rightarrow> bytes \<Rightarrow> nat \<Rightarrow> nat" where
  "name_len_of g d de = (if g_filetype g then unat (byte_at d (de + DE_name_len)) else unat (rd16 d (de + DE_name_len)))"

definition rec_min :: "nat \<Rightarrow> nat" where
  "rec_min name_len = (DE_HDR + name_len + 3) div 4 * 4"

definition leaf_limit :: "sfs_geo \<Rightarrow> nat" where
  "leaf_limit g = (if g_csum g then unat (g_bs g) - DE_TAIL_SIZE else unat (g_bs g))"

definition sfs_mode_to_ft :: "u16 \<Rightarrow> u8" where
  "sfs_mode_to_ft mode = (let m = mode AND SFS_S_IFMT in
     if m = 0x8000 then SFS_FT_REG else if m = 0x4000 then SFS_FT_DIR else if m = 0x2000 then SFS_FT_CHR
     else if m = 0x6000 then SFS_FT_BLK else if m = 0x1000 then SFS_FT_FIFO else if m = 0xC000 then SFS_FT_SOCK
     else if m = 0xA000 then SFS_FT_SYMLINK else SFS_FT_UNKNOWN)"

definition de_set :: "sfs_geo \<Rightarrow> nat \<Rightarrow> u32 \<Rightarrow> nat \<Rightarrow> bytes \<Rightarrow> u8 \<Rightarrow> bytes \<Rightarrow> bytes" where
  "de_set g de ino rec_len name type d = (let d = wr32 d (de + DE_inode) ino; d = wr16 d (de + DE_rec_len) (of_nat rec_len);
       d = (if g_filetype g then (d[de + DE_name_len := of_nat (length name)])[de + DE_file_type := type]
            else wr16 d (de + DE_name_len) (of_nat (length name)))
     in blit d (de + DE_name) name)"

subsection \<open>Checksums\<close>

text \<open>\<open>seed\<close> is \<open>dir->csum_seed\<close>.\<close>

definition leaf_tail_set :: "sfs_geo \<Rightarrow> u32 \<Rightarrow> bytes \<Rightarrow> bytes" where
  "leaf_tail_set g seed d = (if \<not> g_csum g then d
     else let t = unat (g_bs g) - DE_TAIL_SIZE; d = wr32 d t 0; d = wr16 d (t + 4) (of_nat DE_TAIL_SIZE);
              d = (d[t + 6 := 0])[t + 7 := DE_TAIL_FT]
          in wr32 d (t + 8) (sfs_crc32c seed (slice d 0 t)))"

definition leaf_tail_ok :: "sfs_geo \<Rightarrow> u32 \<Rightarrow> bytes \<Rightarrow> bool" where
  "leaf_tail_ok g seed d = (let t = unat (g_bs g) - DE_TAIL_SIZE in
     rd32 d t = 0 \<and> rd16 d (t + 4) = of_nat DE_TAIL_SIZE \<and> byte_at d (t + 6) = 0 \<and> byte_at d (t + 7) = DE_TAIL_FT
     \<and> rd32 d (t + 8) = sfs_crc32c seed (slice d 0 t))"

definition dx_limit_for :: "sfs_geo \<Rightarrow> nat \<Rightarrow> nat" where
  "dx_limit_for g cl = (unat (g_bs g) - cl - (if g_csum g then DX_TAIL_SIZE else 0)) div DXE_SIZE"

definition dx_csum :: "u32 \<Rightarrow> bytes \<Rightarrow> nat \<Rightarrow> u32" where
  "dx_csum seed d cl = (let limit = unat (rd16 d cl); cnt = unat (rd16 d (cl + 2)) in
     sfs_crc32c (sfs_crc32c (sfs_crc32c seed (slice d 0 (cl + cnt * DXE_SIZE))) (slice d (cl + limit * DXE_SIZE) 4)) [0, 0, 0, 0])"

definition dx_csum_set :: "sfs_geo \<Rightarrow> u32 \<Rightarrow> nat \<Rightarrow> bytes \<Rightarrow> bytes" where
  "dx_csum_set g seed cl d = (if \<not> g_csum g then d
     else wr32 d (cl + unat (rd16 d cl) * DXE_SIZE + 4) (dx_csum seed d cl))"

subsection \<open>Verification\<close>

function leaf_entries_ok :: "sfs_geo \<Rightarrow> bytes \<Rightarrow> nat \<Rightarrow> bool" where
  "leaf_entries_ok g d off = (let limit = leaf_limit g in
     if off < limit
     then let rl = unat (rd16 d (off + DE_rec_len)); nl = name_len_of g d off
          in if limit - off < DE_HDR then False
             else if rl < 12 \<or> rl mod 4 \<noteq> 0 \<or> limit - off < rl \<or> rl < DE_HDR + nl \<or> SFS_NAME_MAX < nl then False
             else if g_inodes_count g < rd32 d (off + DE_inode) then False
             else leaf_entries_ok g d (off + rl)
     else off = limit)"
  by auto
termination
  by (relation "measure (\<lambda>(g, _, off). leaf_limit g - off)") (auto simp: Let_def)

declare leaf_entries_ok.simps [simp del]

definition leaf_ok :: "sfs_geo \<Rightarrow> u32 \<Rightarrow> bytes \<Rightarrow> bool" where
  "leaf_ok g seed d = ((g_csum g \<longrightarrow> leaf_tail_ok g seed d) \<and> leaf_entries_ok g d 0)"

definition dx_countlimit_ok :: "sfs_geo \<Rightarrow> u32 \<Rightarrow> bytes \<Rightarrow> nat \<Rightarrow> bool" where
  "dx_countlimit_ok g seed d cl = (let limit = unat (rd16 d cl); cnt = unat (rd16 d (cl + 2)) in
     limit = dx_limit_for g cl \<and> cnt \<noteq> 0 \<and> cnt \<le> limit
     \<and> (g_csum g \<longrightarrow> rd32 d (cl + limit * DXE_SIZE + 4) = dx_csum seed d cl))"

definition root_ok :: "sfs_geo \<Rightarrow> u32 \<Rightarrow> bytes \<Rightarrow> bool" where
  "root_ok g seed d = (let maxlev = (if g_largedir g then 2 else 1) in
     rd16 d DE_rec_len = 12 \<and> name_len_of g d 0 = 1 \<and> byte_at d DE_name = 0x2E
     \<and> ucast (rd16 d (12 + DE_rec_len)) = g_bs g - 12 \<and> name_len_of g d 12 = 2
     \<and> rd32 d (DX_ROOT_INFO + DXI_reserved_zero) = 0 \<and> byte_at d (DX_ROOT_INFO + DXI_info_length) = 8
     \<and> byte_at d (DX_ROOT_INFO + DXI_indirect_levels) \<le> maxlev
     \<and> dx_countlimit_ok g seed d DX_ROOT_ENTRIES)"

definition dx_node_ok :: "sfs_geo \<Rightarrow> u32 \<Rightarrow> bytes \<Rightarrow> bool" where
  "dx_node_ok g seed d = (rd32 d DE_inode = 0 \<and> ucast (rd16 d DE_rec_len) = g_bs g \<and> dx_countlimit_ok g seed d DX_NODE_ENTRIES)"

subsection \<open>Leaf operations\<close>

text \<open>The result of \<open>leaf_find\<close> is the offset of the entry and of the one before it.\<close>

primrec leaf_find_loop :: "nat \<Rightarrow> sfs_geo \<Rightarrow> bytes \<Rightarrow> bytes \<Rightarrow> nat \<Rightarrow> nat option \<Rightarrow> (nat \<times> nat option) option" where
  "leaf_find_loop 0 g d name off prev = None"
| "leaf_find_loop (Suc k) g d name off prev = (if leaf_limit g \<le> off then None
     else let rl = unat (rd16 d (off + DE_rec_len)) in
       if rd32 d (off + DE_inode) \<noteq> 0 \<and> name_len_of g d off = length name \<and> slice d (off + DE_name) (length name) = name
       then Some (off, prev)
       else leaf_find_loop k g d name (off + rl) (Some off))"

definition leaf_find :: "sfs_geo \<Rightarrow> bytes \<Rightarrow> bytes \<Rightarrow> (nat \<times> nat option) option" where
  "leaf_find g d name = leaf_find_loop (leaf_limit g) g d name 0 None"

primrec leaf_insert_loop :: "nat \<Rightarrow> sfs_geo \<Rightarrow> bytes \<Rightarrow> bytes \<Rightarrow> u32 \<Rightarrow> u8 \<Rightarrow> nat \<Rightarrow> bytes option" where
  "leaf_insert_loop 0 g d name ino type off = None"
| "leaf_insert_loop (Suc k) g d name ino type off = (if leaf_limit g \<le> off then None
     else let rl = unat (rd16 d (off + DE_rec_len));
              used = (if rd32 d (off + DE_inode) \<noteq> 0 then rec_min (name_len_of g d off) else 0)
       in if used + rec_min (length name) \<le> rl
          then Some (de_set g (off + used) ino (rl - used) name type
                 (if used \<noteq> 0 then wr16 d (off + DE_rec_len) (of_nat used) else d))
          else leaf_insert_loop k g d name ino type (off + rl))"

definition leaf_insert :: "sfs_geo \<Rightarrow> bytes \<Rightarrow> bytes \<Rightarrow> u32 \<Rightarrow> u8 \<Rightarrow> bytes option" where
  "leaf_insert g d name ino type = leaf_insert_loop (leaf_limit g) g d name ino type 0"

record dmap =
  m_hash :: u32
  m_off :: nat
  m_size :: nat

fun leaf_build_loop :: "sfs_geo \<Rightarrow> bytes \<Rightarrow> nat list \<Rightarrow> nat \<Rightarrow> bytes \<Rightarrow> bytes" where
  "leaf_build_loop g src [] off dst = dst"
| "leaf_build_loop g src (e # es) off dst = (let sz = rec_min (name_len_of g src e);
       dst = blit dst off (slice src e sz);
       dst = wr16 dst (off + DE_rec_len) (of_nat (if es = [] then leaf_limit g - off else sz))
     in leaf_build_loop g src es (off + sz) dst)"

definition leaf_build :: "sfs_geo \<Rightarrow> bytes \<Rightarrow> dmap list \<Rightarrow> bytes" where
  "leaf_build g src m = (let dst = replicate (unat (g_bs g)) 0 in
     if m = [] then wr16 dst DE_rec_len (of_nat (leaf_limit g)) else leaf_build_loop g src (map m_off m) 0 dst)"

text \<open>What \<open>sfs_dir_remove\<close> does with the entry at \<open>off\<close>.\<close>

definition leaf_remove :: "nat \<Rightarrow> nat option \<Rightarrow> bytes \<Rightarrow> bytes" where
  "leaf_remove off prev d = (case prev of
     Some p \<Rightarrow> fill (wr16 d (p + DE_rec_len) (rd16 d (p + DE_rec_len) + rd16 d (off + DE_rec_len))) off 0 DE_HDR
   | None \<Rightarrow> wr32 d (off + DE_inode) 0)"

definition leaf_set_inode :: "sfs_geo \<Rightarrow> nat \<Rightarrow> u32 \<Rightarrow> u8 \<Rightarrow> bytes \<Rightarrow> bytes" where
  "leaf_set_inode g off ino type d = (let d = wr32 d (off + DE_inode) ino in
     if g_filetype g then d[off + DE_file_type := type] else d)"

subsection \<open>Splitting a leaf\<close>

text \<open>The insertion sort by hash; the list holds the sorted prefix in reverse, so an element moves left past the
  larger ones.\<close>

fun dmap_shift :: "dmap \<Rightarrow> dmap list \<Rightarrow> dmap list" where
  "dmap_shift t [] = [t]"
| "dmap_shift t (r # rs) = (if m_hash t < m_hash r then r # dmap_shift t rs else t # r # rs)"

definition dmap_sort :: "dmap list \<Rightarrow> dmap list" where
  "dmap_sort m = rev (fold dmap_shift m [])"

text \<open>How many entries move to the new leaf; the list is in reverse.\<close>

fun split_moves :: "nat \<Rightarrow> dmap list \<Rightarrow> nat \<Rightarrow> nat \<Rightarrow> nat" where
  "split_moves half [] sz move = move"
| "split_moves half (e # es) sz move = (if half < sz + m_size e div 2 then move else split_moves half es (sz + m_size e) (move + 1))"

definition leaf_split_point :: "sfs_geo \<Rightarrow> dmap list \<Rightarrow> nat" where
  "leaf_split_point g m = (let n = length m; sp = n - split_moves (unat (g_bs g) div 2) (rev m) 0 0;
       sp = (if sp = 0 then 1 else sp)
     in if n \<le> sp then n - 1 else sp)"

subsection \<open>Index blocks\<close>

text \<open>The arrays of \<open>(hash, block)\<close> pairs in the block \<open>d\<close>, at \<open>cl\<close>.\<close>

definition dxe_count :: "bytes \<Rightarrow> nat \<Rightarrow> nat" where
  "dxe_count d cl = unat (rd16 d (cl + 2))"

definition dxe_limit :: "bytes \<Rightarrow> nat \<Rightarrow> nat" where
  "dxe_limit d cl = unat (rd16 d cl)"

definition dxe_hash :: "bytes \<Rightarrow> nat \<Rightarrow> nat \<Rightarrow> u32" where
  "dxe_hash d cl i = (if i \<noteq> 0 then rd32 d (cl + i * DXE_SIZE) else 0)"

definition dxe_blk :: "bytes \<Rightarrow> nat \<Rightarrow> nat \<Rightarrow> u32" where
  "dxe_blk d cl i = rd32 d (cl + i * DXE_SIZE + 4) AND 0x0FFFFFFF"

function dx_search_loop :: "bytes \<Rightarrow> nat \<Rightarrow> u32 \<Rightarrow> nat \<Rightarrow> nat \<Rightarrow> nat \<Rightarrow> nat" where
  "dx_search_loop d cl hash lo hi at = (if 0 < lo \<and> lo \<le> hi
     then let mid = (lo + hi) div 2 in
       if dxe_hash d cl mid \<le> hash then dx_search_loop d cl hash (mid + 1) hi mid
       else dx_search_loop d cl hash lo (mid - 1) at
     else at)"
  by auto
termination
  by (relation "measure (\<lambda>(_, _, _, lo, hi, _). Suc hi - lo)") auto

declare dx_search_loop.simps [simp del]

definition dx_search :: "bytes \<Rightarrow> nat \<Rightarrow> u32 \<Rightarrow> nat" where
  "dx_search d cl hash = dx_search_loop d cl hash 1 (dxe_count d cl - 1) 0"

text \<open>A new pair at position \<open>pos\<close>.\<close>

definition dxe_insert :: "nat \<Rightarrow> nat \<Rightarrow> u32 \<Rightarrow> u32 \<Rightarrow> bytes \<Rightarrow> bytes" where
  "dxe_insert cl pos hash blk d = (let n = dxe_count d cl;
       d = blit d (cl + (pos + 1) * DXE_SIZE) (slice d (cl + pos * DXE_SIZE) ((n - pos) * DXE_SIZE));
       d = wr32 d (cl + pos * DXE_SIZE) hash;
       d = wr32 d (cl + pos * DXE_SIZE + 4) blk
     in wr16 d (cl + 2) (of_nat (n + 1)))"

text \<open>An interior node with the \<open>n\<close> pairs stored at offset \<open>off\<close> of \<open>src\<close>, built in the fresh block \<open>d\<close>.\<close>

definition dx_node_build :: "sfs_geo \<Rightarrow> bytes \<Rightarrow> nat \<Rightarrow> nat \<Rightarrow> bytes \<Rightarrow> bytes" where
  "dx_node_build g src off n d = (let d = wr32 d DE_inode 0; d = wr16 d DE_rec_len (ucast (g_bs g));
       d = blit d DX_NODE_ENTRIES (slice src off (n * DXE_SIZE));
       d = wr16 d DX_NODE_ENTRIES (of_nat (dx_limit_for g DX_NODE_ENTRIES))
     in wr16 d (DX_NODE_ENTRIES + 2) (of_nat n))"

end
