(* ===== verification/Sfs_Dir.thy ===== *)
theory Sfs_Dir
  imports Sfs_File Sfs_Dirent Sfs_Hash
begin

unbundle bit_operations_syntax

section \<open>Directories (sfs\_dir.c)\<close>

text \<open>
  Lookup, insertion, removal and enumeration in linear and in indexed directories, over the block
  format of theory \<open>Sfs_Dirent\<close>. A directory is named by its inode number. \<open>dir_block\<close> gives the buffer of a
  directory block, or \<open>None\<close> for a hole (the code returns 1).
\<close>

datatype dkind = KIND_LEAF | KIND_ROOT | KIND_NODE

definition dir_seed :: "'c sfs_fs \<Rightarrow> u32 \<Rightarrow> u32" where
  "dir_seed s i = in_csum_seed (ino_of s i)"

definition dir_nblk :: "'c sfs_fs \<Rightarrow> u32 \<Rightarrow> u64" where
  "dir_nblk s i = drop_bit (g_bs_bits (fs_geo s)) (in_size (ino_of s i))"

definition kind_ok :: "dkind \<Rightarrow> sfs_geo \<Rightarrow> u32 \<Rightarrow> bytes \<Rightarrow> bool" where
  "kind_ok kind = (case kind of KIND_LEAF \<Rightarrow> leaf_ok | KIND_ROOT \<Rightarrow> root_ok | KIND_NODE \<Rightarrow> dx_node_ok)"

definition dir_block :: "u32 \<Rightarrow> u32 \<Rightarrow> dkind \<Rightarrow> ('c, sfs_err + u64 option) fsact" where
  "dir_block i lblk kind = look (\<lambda>s. if dir_nblk s i \<le> ucast lblk then throw SFS_ECORRUPT
     else chk (sfs_map_block i lblk) (\<lambda>(p, _, unw). case p of None \<Rightarrow> ok None
       | Some pblk \<Rightarrow> if unw then ok None
         else chk (sfs_bread pblk) (\<lambda>b. look (\<lambda>s.
           if b_flags (buf_of s b) AND B_VERIFIED \<noteq> 0 then ok (Some b)
           else if \<not> kind_ok kind (fs_geo s) (dir_seed s i) (b_data (buf_of s b))
           then run (sfs_logu ''sfs: corrupt directory block in inode '' (ucast i)) (\<lambda>_.
                run (sfs_bput b) (\<lambda>_. throw SFS_ECORRUPT))
           else run (whenA (kind = KIND_LEAF) (upd_buf b (set_flags B_VERIFIED))) (\<lambda>_. ok (Some b))))))"

text \<open>\<open>rc > 0 ? SFS_ECORRUPT : rc\<close>: a hole is an error.\<close>

definition dir_block_req :: "u32 \<Rightarrow> u32 \<Rightarrow> dkind \<Rightarrow> ('c, sfs_err + u64) fsact" where
  "dir_block_req i lblk kind = chk (dir_block i lblk kind) (\<lambda>b. case b of None \<Rightarrow> throw SFS_ECORRUPT | Some b \<Rightarrow> ok b)"

definition dir_dirty :: "u32 \<Rightarrow> u64 \<Rightarrow> dkind \<Rightarrow> ('c, sfs_err + unit) fsact" where
  "dir_dirty i b kind = look (\<lambda>s. let g = fs_geo s; seed = dir_seed s i in
     run (set_bdata b (case kind of
            KIND_LEAF \<Rightarrow> leaf_tail_set g seed
          | KIND_ROOT \<Rightarrow> dx_csum_set g seed DX_ROOT_ENTRIES
          | KIND_NODE \<Rightarrow> dx_csum_set g seed DX_NODE_ENTRIES)) (\<lambda>_. sfs_bdirty_meta b))"

definition is_indexed :: "'c sfs_fs \<Rightarrow> u32 \<Rightarrow> bool" where
  "is_indexed s i = (g_dir_index (fs_geo s) \<and> in_flags (ino_of s i) AND IFL_INDEX \<noteq> 0)"

definition dir_append :: "u32 \<Rightarrow> ('c, sfs_err + u32 \<times> u64) fsact" where
  "dir_append i = look (\<lambda>s. let x = ino_of s i; n = dir_nblk s i; lblk = ucast n :: u32 in
     if in_flags x AND IFL_EXTENTS = 0 then throw SFS_ENOTSUP
     else if 0xFFFFFFFF \<le> n \<or> \<not> g_largedir (fs_geo s) \<and> 0x80000000 \<le> in_size x then throw SFS_ENOSPC
     else run (sfs_goal_for (Some i) lblk) (\<lambda>goal.
       chk (sfs_alloc_blocks (Some i) lblk goal 1) (\<lambda>(pblk, _).
       chk (sfs_ext_insert i lblk pblk 1) (\<lambda>_.
       chk (sfs_add_blocks i 1) (\<lambda>_.
       chk (sfs_bnew pblk) (\<lambda>b.
       run (upd_ino i (\<lambda>x. x\<lparr>in_size := in_size x + ucast (g_bs (fs_geo s))\<rparr>)) (\<lambda>_.
       run (sfs_idirty i) (\<lambda>_. ok (lblk, b)))))))))"

subsection \<open>The index\<close>

text \<open>A frame: the buffer of an index block, where its pairs start, and the chosen pair.\<close>

type_synonym dxframe = "u64 \<times> nat \<times> nat"

definition fr_data :: "'c sfs_fs \<Rightarrow> dxframe \<Rightarrow> bytes" where
  "fr_data s f = b_data (buf_of s (fst f))"

definition dx_count :: "'c sfs_fs \<Rightarrow> dxframe \<Rightarrow> nat" where
  "dx_count s f = dxe_count (fr_data s f) (fst (snd f))"

definition dx_limit :: "'c sfs_fs \<Rightarrow> dxframe \<Rightarrow> nat" where
  "dx_limit s f = dxe_limit (fr_data s f) (fst (snd f))"

definition dx_hash :: "'c sfs_fs \<Rightarrow> dxframe \<Rightarrow> nat \<Rightarrow> u32" where
  "dx_hash s f k = dxe_hash (fr_data s f) (fst (snd f)) k"

definition dx_blk :: "'c sfs_fs \<Rightarrow> dxframe \<Rightarrow> nat \<Rightarrow> u32" where
  "dx_blk s f k = dxe_blk (fr_data s f) (fst (snd f)) k"

definition fr_at :: "dxframe \<Rightarrow> nat" where
  "fr_at f = snd (snd f)"

definition frames_put :: "dxframe list \<Rightarrow> ('c, unit) fsact" where
  "frames_put fr = forA fr (\<lambda>f. sfs_bput (fst f))"

definition dx_version :: "sfs_geo \<Rightarrow> bytes \<Rightarrow> sfs_err + u8" where
  "dx_version g root = (let v = byte_at root (DX_ROOT_INFO + DXI_hash_version);
       v = (if v \<le> DX_HASH_TEA then v + g_hash_unsigned g else v)
     in if DX_HASH_TEA_UNSIGNED < v then Inl SFS_ENOTSUP else Inr v)"

definition name_hash :: "sfs_geo \<Rightarrow> u8 \<Rightarrow> bytes \<Rightarrow> sfs_err + u32" where
  "name_hash g ver name = (case sfs_dx_hash (g_hash_seed g) ver name of None \<Rightarrow> Inl SFS_ENOTSUP | Some (h, _) \<Rightarrow> Inr h)"

text \<open>The walk down the index: \<open>k\<close> levels remain below the block \<open>b\<close>; \<open>acc\<close> holds the frames above it.\<close>

primrec dx_probe_loop :: "nat \<Rightarrow> u32 \<Rightarrow> u32 \<Rightarrow> u32 \<Rightarrow> dxframe list \<Rightarrow> u64 \<Rightarrow> nat \<Rightarrow> ('c, sfs_err + dxframe list \<times> u32) fsact" where
  "dx_probe_loop 0 i hash nblk acc b cl = look (\<lambda>s. let at = dx_search (b_data (buf_of s b)) cl hash;
       fr = acc @ [(b, cl, at)]; blk = dx_blk s (b, cl, at) at
     in if blk = 0 \<or> nblk \<le> blk then run (frames_put fr) (\<lambda>_. throw SFS_ECORRUPT) else ok (fr, blk))"
| "dx_probe_loop (Suc k) i hash nblk acc b cl = look (\<lambda>s. let at = dx_search (b_data (buf_of s b)) cl hash;
       fr = acc @ [(b, cl, at)]; blk = dx_blk s (b, cl, at) at
     in if blk = 0 \<or> nblk \<le> blk then run (frames_put fr) (\<lambda>_. throw SFS_ECORRUPT)
        else run (dir_block_req i blk KIND_NODE) (\<lambda>rc. case rc of
          Inl e \<Rightarrow> run (frames_put fr) (\<lambda>_. throw e)
        | Inr nb \<Rightarrow> dx_probe_loop k i hash nblk fr nb DX_NODE_ENTRIES))"

definition dx_probe :: "u32 \<Rightarrow> u32 \<Rightarrow> ('c, sfs_err + dxframe list \<times> u32) fsact" where
  "dx_probe i hash = chk (dir_block_req i 0 KIND_ROOT) (\<lambda>b. look (\<lambda>s.
     dx_probe_loop (unat (byte_at (b_data (buf_of s b)) (DX_ROOT_INFO + DXI_indirect_levels))) i hash
       (ucast (dir_nblk s i)) [] b DX_ROOT_ENTRIES))"

text \<open>The frames after the step to the next pair, and the level that moved.\<close>

primrec dx_up :: "nat \<Rightarrow> 'c sfs_fs \<Rightarrow> dxframe list \<Rightarrow> (dxframe list \<times> nat) option" where
  "dx_up 0 s fr = (let (b, cl, at) = fr ! 0; f = (b, cl, at + 1) in
     if at + 1 < dx_count s f then Some (fr[0 := f], 0) else None)"
| "dx_up (Suc p) s fr = (let (b, cl, at) = fr ! Suc p; f = (b, cl, at + 1); fr = fr[Suc p := f] in
     if at + 1 < dx_count s f then Some (fr, Suc p) else dx_up p s fr)"

primrec dx_down :: "nat \<Rightarrow> u32 \<Rightarrow> nat \<Rightarrow> dxframe list \<Rightarrow> ('c, (sfs_err + unit) \<times> dxframe list) fsact" where
  "dx_down 0 i p fr = ret (Inr (), fr)"
| "dx_down (Suc k) i p fr = look (\<lambda>s. run (dir_block_req i (dx_blk s (fr ! p) (fr_at (fr ! p))) KIND_NODE) (\<lambda>rc. case rc of
     Inl e \<Rightarrow> ret (Inl e, fr)
   | Inr b \<Rightarrow> run (sfs_bput (fst (fr ! Suc p))) (\<lambda>_. dx_down k i (Suc p) (fr[Suc p := (b, DX_NODE_ENTRIES, 0)]))))"

text \<open>\<open>Inr (Some leaf)\<close> is the result 1, \<open>Inr None\<close> the result 0.\<close>

definition dx_next :: "u32 \<Rightarrow> u32 \<Rightarrow> dxframe list \<Rightarrow> ('c, (sfs_err + u32 option) \<times> dxframe list) fsact" where
  "dx_next i hash fr = look (\<lambda>s. let top = length fr - 1 in case dx_up top s fr of
     None \<Rightarrow> ret (Inr None, fr)
   | Some (fr, p) \<Rightarrow>
      if dx_hash s (fr ! p) (fr_at (fr ! p)) AND NOT 1 \<noteq> hash then ret (Inr None, fr)
      else run (dx_down (top - p) i p fr) (\<lambda>(rc, fr). case rc of Inl e \<Rightarrow> ret (Inl e, fr)
        | Inr _ \<Rightarrow> look (\<lambda>s. let leaf = dx_blk s (fr ! top) (fr_at (fr ! top)) in
            if leaf = 0 \<or> ucast (dir_nblk s i) \<le> leaf then ret (Inl SFS_ECORRUPT, fr) else ret (Inr (Some leaf), fr))))"

subsection \<open>Lookup\<close>

text \<open>The loop over the leaves that continue the hash. A turn that goes on has moved to a later pair of
  the index, so the number of pairs bounds the turns.\<close>

primrec find_indexed_loop :: "nat \<Rightarrow> u32 \<Rightarrow> bytes \<Rightarrow> u32 \<Rightarrow> dxframe list \<Rightarrow> u32 \<Rightarrow> ('c, sfs_err + u64 \<times> nat \<times> nat option) fsact" where
  "find_indexed_loop 0 i name hash fr leaf = run (frames_put fr) (\<lambda>_. throw SFS_ENOENT)"
| "find_indexed_loop (Suc k) i name hash fr leaf = run (dir_block_req i leaf KIND_LEAF) (\<lambda>rc. case rc of
     Inl e \<Rightarrow> run (frames_put fr) (\<lambda>_. throw e)
   | Inr b \<Rightarrow> look (\<lambda>s. case leaf_find (fs_geo s) (b_data (buf_of s b)) name of
       Some (off, prev) \<Rightarrow> run (frames_put fr) (\<lambda>_. ok (b, off, prev))
     | None \<Rightarrow> run (sfs_bput b) (\<lambda>_. run (dx_next i hash fr) (\<lambda>(rc, fr). case rc of
         Inl e \<Rightarrow> run (frames_put fr) (\<lambda>_. throw e)
       | Inr None \<Rightarrow> run (frames_put fr) (\<lambda>_. throw SFS_ENOENT)
       | Inr (Some leaf) \<Rightarrow> find_indexed_loop k i name hash fr leaf))))"

definition dx_pairs :: "sfs_geo \<Rightarrow> nat \<Rightarrow> nat" where
  "dx_pairs g nfr = (dx_limit_for g DX_NODE_ENTRIES + 2) ^ nfr"

definition find_indexed :: "u32 \<Rightarrow> bytes \<Rightarrow> ('c, sfs_err + u64 \<times> nat \<times> nat option) fsact" where
  "find_indexed i name = chk (dir_block_req i 0 KIND_ROOT) (\<lambda>root. look (\<lambda>s.
     let ver = dx_version (fs_geo s) (b_data (buf_of s root)) in
     run (sfs_bput root) (\<lambda>_. chk (ret ver) (\<lambda>ver.
     chk (ret (name_hash (fs_geo s) ver name)) (\<lambda>hash.
     run (upd_st (\<lambda>t. t\<lparr>st_dx_lookups := st_dx_lookups t + 1\<rparr>)) (\<lambda>_.
     chk (dx_probe i hash) (\<lambda>(fr, leaf).
       find_indexed_loop (dx_pairs (fs_geo s) (length fr)) i name hash fr leaf)))))))"

fun find_linear_loop :: "nat list \<Rightarrow> u32 \<Rightarrow> bytes \<Rightarrow> ('c, sfs_err + u64 \<times> nat \<times> nat option) fsact" where
  "find_linear_loop [] i name = throw SFS_ENOENT"
| "find_linear_loop (l # ls) i name = chk (dir_block i (of_nat l) KIND_LEAF) (\<lambda>b. case b of
     None \<Rightarrow> find_linear_loop ls i name
   | Some b \<Rightarrow> look (\<lambda>s. case leaf_find (fs_geo s) (b_data (buf_of s b)) name of
       Some (off, prev) \<Rightarrow> ok (b, off, prev)
     | None \<Rightarrow> run (sfs_bput b) (\<lambda>_. find_linear_loop ls i name)))"

definition find_linear :: "u32 \<Rightarrow> bytes \<Rightarrow> ('c, sfs_err + u64 \<times> nat \<times> nat option) fsact" where
  "find_linear i name = look (\<lambda>s. let nblk = ucast (dir_nblk s i) :: u32 in
     run (upd_st (\<lambda>t. t\<lparr>st_linear_lookups := st_linear_lookups t + 1\<rparr>)) (\<lambda>_. find_linear_loop [0..<unat nblk] i name))"

definition find_entry :: "u32 \<Rightarrow> bytes \<Rightarrow> ('c, sfs_err + u64 \<times> nat \<times> nat option) fsact" where
  "find_entry i name = look (\<lambda>s. if in_flags (ino_of s i) AND IFL_INLINE_DATA \<noteq> 0 then throw SFS_ENOTSUP
     else if is_indexed s i then find_indexed i name else find_linear i name)"

subsection \<open>Inline directories\<close>

record sfs_dirent =
  de_ino :: u32
  de_type :: u8
  de_name :: bytes

abbreviation (input) sizeof_dirent :: nat where "sizeof_dirent \<equiv> 264"

definition dirent_at :: "sfs_geo \<Rightarrow> bytes \<Rightarrow> nat \<Rightarrow> sfs_dirent" where
  "dirent_at g d off = \<lparr>de_ino = rd32 d (off + DE_inode),
     de_type = (if g_filetype g then byte_at d (off + DE_file_type) else SFS_FT_UNKNOWN),
     de_name = slice d (off + DE_name) (name_len_of g d off)\<rparr>"

text \<open>The \<open>for (;;)\<close> loop of \<open>inline_dir_next\<close>: the entry, the end or an error, and the position after it.\<close>

function inline_scan :: "sfs_geo \<Rightarrow> bytes \<Rightarrow> nat \<Rightarrow> nat \<Rightarrow> (sfs_err + sfs_dirent option) \<times> nat" where
  "inline_scan g buf got pos = (let fin = (if pos < IN_BLOCK_BYTES then IN_BLOCK_BYTES else got) in
     if got \<le> pos \<or> fin < pos + DE_HDR
     then if pos < IN_BLOCK_BYTES \<and> IN_BLOCK_BYTES < got then inline_scan g buf got IN_BLOCK_BYTES else (Inr None, pos)
     else let rl = unat (rd16 buf (pos + DE_rec_len)); nl = name_len_of g buf pos; ino = rd32 buf (pos + DE_inode)
       in if rl < DE_HDR \<or> rl mod 4 \<noteq> 0 \<or> fin < pos + rl \<or> rl < DE_HDR + nl \<or> g_inodes_count g < ino then (Inl SFS_ECORRUPT, pos)
          else if ino \<noteq> 0 \<and> nl \<noteq> 0 then (Inr (Some (dirent_at g buf pos)), pos + rl)
          else inline_scan g buf got (pos + rl))"
  by auto
termination
  by (relation "measure (\<lambda>(_, _, got, pos). got - pos)") (auto simp: Let_def)

declare inline_scan.simps [simp del]

definition inline_dir_next :: "u32 \<Rightarrow> u64 \<Rightarrow> ('c, (sfs_err + sfs_dirent option) \<times> u64) fsact" where
  "inline_dir_next i cookie = look (\<lambda>s. let x = ino_of s i; total = unat (in_size x);
       total = max (min total SFS_MAX_ALLOC) IN_BLOCK_BYTES
     in if cookie = 0 \<or> cookie = 1
        then ret (Inr (Some \<lparr>de_ino = (if cookie = 0 then i else rd32 (in_iblock x) 0), de_type = SFS_FT_DIR,
                            de_name = replicate (unat cookie + 1) 0x2E\<rparr>), cookie + 1)
        else run (sfs_alloc SFS_MAX_ALLOC) (\<lambda>good. if \<not> good then ret (Inl SFS_ENOMEM, cookie)
          else run (sfs_inline_read i 0 total) (\<lambda>rc. case rc of
            Inl e \<Rightarrow> run (sfs_free SFS_MAX_ALLOC) (\<lambda>_. ret (Inl e, cookie))
          | Inr buf \<Rightarrow> let (rc, pos) = inline_scan (fs_geo s) buf (length buf) (unat (cookie - 2 + 4))
              in run (sfs_free SFS_MAX_ALLOC) (\<lambda>_. ret (rc, of_nat pos - 4 + 2)))))"

text \<open>The loop of \<open>sfs_dir_lookup\<close> over an inline directory, which holds at most 4096 / 8 + 2 entries.\<close>

primrec inline_lookup :: "nat \<Rightarrow> u32 \<Rightarrow> bytes \<Rightarrow> u64 \<Rightarrow> ('c, sfs_err + u32 \<times> u8) fsact" where
  "inline_lookup 0 i name cookie = throw SFS_ENOENT"
| "inline_lookup (Suc k) i name cookie = run (inline_dir_next i cookie) (\<lambda>(rc, cookie). case rc of
     Inl e \<Rightarrow> throw e
   | Inr None \<Rightarrow> throw SFS_ENOENT
   | Inr (Some de) \<Rightarrow> if de_name de = name then ok (de_ino de, de_type de) else inline_lookup k i name cookie)"

definition sfs_dir_lookup :: "u32 \<Rightarrow> bytes \<Rightarrow> ('c, sfs_err + u32 \<times> u8) fsact" where
  "sfs_dir_lookup i name = look (\<lambda>s. if \<not> sfs_is_dir (ino_of s i) then throw SFS_ENOTDIR
     else if name = [] then throw SFS_ENOENT
     else if SFS_NAME_MAX < length name then throw SFS_ENAMETOOLONG
     else if in_flags (ino_of s i) AND IFL_INLINE_DATA \<noteq> 0
     then run (sfs_alloc sizeof_dirent) (\<lambda>good. if \<not> good then throw SFS_ENOMEM
          else run (inline_lookup 520 i name 0) (\<lambda>rc. run (sfs_free sizeof_dirent) (\<lambda>_. ret rc)))
     else chk (find_entry i name) (\<lambda>(b, off, prev). look (\<lambda>s. let d = b_data (buf_of s b) in
          run (sfs_bput b) (\<lambda>_.
          ok (rd32 d (off + DE_inode), if g_filetype (fs_geo s) then byte_at d (off + DE_file_type) else SFS_FT_UNKNOWN)))))"

subsection \<open>Dropping the index\<close>

definition blank_leaf :: "sfs_geo \<Rightarrow> bytes" where
  "blank_leaf g = wr16 (replicate (unat (g_bs g)) 0) DE_rec_len (of_nat (leaf_limit g))"

text \<open>The two nested loops over the interior nodes.\<close>

definition dx_clear_inner :: "u32 \<Rightarrow> u64 \<Rightarrow> nat \<Rightarrow> ('c, sfs_err + unit) fsact" where
  "dx_clear_inner i nb k = look (\<lambda>s. chk (dir_block_req i (dx_blk s (nb, DX_NODE_ENTRIES, 0) k) KIND_NODE) (\<lambda>nb2.
     run (set_bdata nb2 (\<lambda>_. blank_leaf (fs_geo s))) (\<lambda>_.
     run (dir_dirty i nb2 KIND_LEAF) (\<lambda>rc. run (sfs_bput nb2) (\<lambda>_. ret rc)))))"

definition dx_clear_outer :: "u32 \<Rightarrow> u64 \<Rightarrow> bool \<Rightarrow> nat \<Rightarrow> ('c, sfs_err + unit) fsact" where
  "dx_clear_outer i root deep k = look (\<lambda>s. chk (dir_block_req i (dx_blk s (root, DX_ROOT_ENTRIES, 0) k) KIND_NODE) (\<lambda>nb. look (\<lambda>s.
     run (chk (if deep then forE [0..<dx_count s (nb, DX_NODE_ENTRIES, 0)] (dx_clear_inner i nb) else ok ()) (\<lambda>_.
            run (set_bdata nb (\<lambda>_. blank_leaf (fs_geo s))) (\<lambda>_. dir_dirty i nb KIND_LEAF))) (\<lambda>rc.
     run (sfs_bput nb) (\<lambda>_. ret rc)))))"

definition dx_clear :: "u32 \<Rightarrow> ('c, sfs_err + unit) fsact" where
  "dx_clear i = chk (dir_block_req i 0 KIND_ROOT) (\<lambda>root.
     run (sfs_log ''sfs: directory index full, converting to a linear directory'') (\<lambda>_. look (\<lambda>s.
     let g = fs_geo s; limit = leaf_limit g; levels = byte_at (b_data (buf_of s root)) (DX_ROOT_INFO + DXI_indirect_levels)
     in run (chk (if 1 \<le> levels then forE [0..<dx_count s (root, DX_ROOT_ENTRIES, 0)] (dx_clear_outer i root (2 \<le> levels)) else ok ()) (\<lambda>_.
              run (set_bdata root (\<lambda>d. wr16 (fill d 24 0 (unat (g_bs g) - 24)) (12 + DE_rec_len) (of_nat (limit - 12)))) (\<lambda>_.
              run (dir_dirty i root KIND_LEAF) (\<lambda>rc.
              run (upd_buf root (set_flags B_VERIFIED)) (\<lambda>_. ret rc))))) (\<lambda>rc.
        run (sfs_bput root) (\<lambda>_. chk (ret rc) (\<lambda>_.
        run (upd_ino i (\<lambda>x. x\<lparr>in_flags := in_flags x AND NOT IFL_INDEX\<rparr>)) (\<lambda>_.
        run (sfs_idirty i) (\<lambda>_. ok ()))))))))"

subsection \<open>Insertion into the index\<close>

text \<open>The entries of a full leaf with their hashes; \<open>cap\<close> is the room left in the map.\<close>

primrec leaf_dmap :: "nat \<Rightarrow> sfs_geo \<Rightarrow> u8 \<Rightarrow> bytes \<Rightarrow> nat \<Rightarrow> nat \<Rightarrow> sfs_err + dmap list" where
  "leaf_dmap 0 g ver d off cap = Inr []"
| "leaf_dmap (Suc k) g ver d off cap = (if leaf_limit g \<le> off \<or> cap = 0 then Inr []
     else let rl = unat (rd16 d (off + DE_rec_len)); nl = name_len_of g d off in
       if rd32 d (off + DE_inode) \<noteq> 0
       then case name_hash g ver (slice d (off + DE_name) nl) of Inl e \<Rightarrow> Inl e
            | Inr h \<Rightarrow> (case leaf_dmap k g ver d (off + rl) (cap - 1) of Inl e \<Rightarrow> Inl e
                | Inr m \<Rightarrow> Inr (\<lparr>m_hash = h, m_off = off, m_size = rec_min nl\<rparr> # m))
       else leaf_dmap k g ver d (off + rl) cap)"

definition frame_kind :: "nat \<Rightarrow> dkind" where
  "frame_kind cl = (if cl = DX_ROOT_ENTRIES then KIND_ROOT else KIND_NODE)"

definition split_leaf :: "u32 \<Rightarrow> u8 \<Rightarrow> dxframe \<Rightarrow> u64 \<Rightarrow> ('c, sfs_err + u32 \<times> u64) fsact" where
  "split_leaf i ver f leaf = run (sfs_alloc SFS_MAX_ALLOC) (\<lambda>good. if \<not> good then throw SFS_ENOMEM
     else look (\<lambda>s. let g = fs_geo s; tmp = b_data (buf_of s leaf) in
       case leaf_dmap (leaf_limit g) g ver tmp 0 (SFS_MAX_ALLOC div 8) of
         Inl e \<Rightarrow> run (sfs_free SFS_MAX_ALLOC) (\<lambda>_. throw e)
       | Inr m0 \<Rightarrow>
         let m = dmap_sort m0; sp = leaf_split_point g m; hash2 = m_hash (m ! sp);
             continued = (if hash2 = m_hash (m ! (sp - 1)) then 1 else 0); (fb, cl, at) = f
         in if length m < 2 then run (sfs_free SFS_MAX_ALLOC) (\<lambda>_. throw SFS_ECORRUPT)
            else run (dir_append i) (\<lambda>rc. case rc of
                Inl e \<Rightarrow> run (sfs_free SFS_MAX_ALLOC) (\<lambda>_. throw e)
              | Inr (newlblk, newb) \<Rightarrow>
                  run (set_bdata newb (\<lambda>_. leaf_build g tmp (drop sp m))) (\<lambda>_.
                  run (set_bdata leaf (\<lambda>_. leaf_build g tmp (take sp m))) (\<lambda>_.
                  run (sfs_free SFS_MAX_ALLOC) (\<lambda>_.
                  run (chk (dir_dirty i newb KIND_LEAF) (\<lambda>_. dir_dirty i leaf KIND_LEAF)) (\<lambda>rc.
                  run (set_bdata fb (dxe_insert cl (at + 1) (hash2 OR continued) newlblk)) (\<lambda>_.
                  run (rcthen rc (dir_dirty i fb (frame_kind cl))) (\<lambda>rc.
                  chk (ret rc) (\<lambda>_. ok (hash2, newb)))))))))))"

text \<open>The results 0, 1 and 2 of \<open>dx_make_room\<close>.\<close>

datatype dx_room = RoomOk | RoomFull | RoomAgain

definition dx_grow_root :: "u32 \<Rightarrow> u64 \<Rightarrow> ('c, sfs_err + dx_room) fsact" where
  "dx_grow_root i b = look (\<lambda>s. let g = fs_geo s; levels = byte_at (b_data (buf_of s b)) (DX_ROOT_INFO + DXI_indirect_levels);
       maxlev = (if g_largedir g then 2 else 1)
     in if maxlev \<le> levels then ok RoomFull
        else chk (dir_append i) (\<lambda>(nlblk, nb). look (\<lambda>s. let root = b_data (buf_of s b); n = dxe_count root DX_ROOT_ENTRIES in
          run (set_bdata nb (dx_node_build g root DX_ROOT_ENTRIES n)) (\<lambda>_.
          run (dir_dirty i nb KIND_NODE) (\<lambda>rc.
          run (sfs_bput nb) (\<lambda>_.
          run (set_bdata b (\<lambda>d. let d = fill d (DX_ROOT_ENTRIES + 8) 0 ((n - 1) * DXE_SIZE); d = wr16 d (DX_ROOT_ENTRIES + 2) 1;
                 d = wr32 d (DX_ROOT_ENTRIES + 4) nlblk in d[DX_ROOT_INFO + DXI_indirect_levels := levels + 1])) (\<lambda>_.
          run (rcthen rc (dir_dirty i b KIND_ROOT)) (\<lambda>rc.
          chk (ret rc) (\<lambda>_. ok RoomAgain)))))))))"

definition dx_split_node :: "u32 \<Rightarrow> dxframe \<Rightarrow> dxframe \<Rightarrow> ('c, sfs_err + dx_room) fsact" where
  "dx_split_node i p f = chk (dir_append i) (\<lambda>(nlblk, nb). look (\<lambda>s.
     let g = fs_geo s; (b, cl, _) = f; (pb, pcl, pat) = p; d = fr_data s f; n = dx_count s f; half = n div 2; key = dx_hash s f half
     in run (set_bdata nb (dx_node_build g d (cl + half * DXE_SIZE) (n - half))) (\<lambda>_.
        run (set_bdata b (\<lambda>d. wr16 (fill d (cl + half * DXE_SIZE) 0 ((n - half) * DXE_SIZE)) (cl + 2) (of_nat half))) (\<lambda>_.
        run (chk (dir_dirty i nb KIND_NODE) (\<lambda>_. dir_dirty i b KIND_NODE)) (\<lambda>rc.
        run (set_bdata pb (dxe_insert pcl (pat + 1) key nlblk)) (\<lambda>_.
        run (rcthen rc (dir_dirty i pb (frame_kind pcl))) (\<lambda>rc.
        run (sfs_bput nb) (\<lambda>_.
        chk (ret rc) (\<lambda>_. ok RoomAgain)))))))))"

primrec dx_make_room :: "nat \<Rightarrow> u32 \<Rightarrow> dxframe list \<Rightarrow> ('c, sfs_err + dx_room) fsact" where
  "dx_make_room 0 i fr = look (\<lambda>s. if dx_count s (fr ! 0) < dx_limit s (fr ! 0) then ok RoomOk else dx_grow_root i (fst (fr ! 0)))"
| "dx_make_room (Suc l) i fr = look (\<lambda>s. if dx_count s (fr ! Suc l) < dx_limit s (fr ! Suc l) then ok RoomOk
     else chk (dx_make_room l i fr) (\<lambda>r. if r \<noteq> RoomOk then ok r else dx_split_node i (fr ! l) (fr ! Suc l)))"

text \<open>The insertion of the entry into the leaf \<open>b\<close>, with the result of \<open>leaf_insert\<close>.\<close>

definition leaf_put :: "u64 \<Rightarrow> bytes \<Rightarrow> u32 \<Rightarrow> u8 \<Rightarrow> ('c, bool) fsact" where
  "leaf_put b name ino type = look (\<lambda>s. case leaf_insert (fs_geo s) (b_data (buf_of s b)) name ino type of
     None \<Rightarrow> ret False
   | Some d \<Rightarrow> run (set_bdata b (\<lambda>_. d)) (\<lambda>_. ret True))"

text \<open>\<open>dx_add\<close> gives \<open>True\<close> for the code's -1000: the index is gone and the caller goes on with the linear
  directory.\<close>

primrec dx_add_tries :: "nat \<Rightarrow> u32 \<Rightarrow> bytes \<Rightarrow> u32 \<Rightarrow> u8 \<Rightarrow> ('c, sfs_err + bool) fsact" where
  "dx_add_tries 0 i name ino type = throw SFS_ECORRUPT"
| "dx_add_tries (Suc k) i name ino type = chk (dir_block_req i 0 KIND_ROOT) (\<lambda>lb. look (\<lambda>s.
     let ver = dx_version (fs_geo s) (b_data (buf_of s lb)) in
     run (sfs_bput lb) (\<lambda>_. chk (ret ver) (\<lambda>ver.
     chk (ret (name_hash (fs_geo s) ver name)) (\<lambda>hash.
     chk (dx_probe i hash) (\<lambda>(fr, leaf).
     let top = length fr - 1; put = (\<lambda>b rc. run (sfs_bput b) (\<lambda>_. run (frames_put fr) (\<lambda>_. ret rc))) in
     run (dir_block_req i leaf KIND_LEAF) (\<lambda>rc. case rc of
       Inl e \<Rightarrow> run (frames_put fr) (\<lambda>_. throw e)
     | Inr lb \<Rightarrow> run (leaf_put lb name ino type) (\<lambda>done.
        if done
        then run (dir_dirty i lb KIND_LEAF) (\<lambda>rc. put lb (case rc of Inl e \<Rightarrow> Inl e | Inr _ \<Rightarrow> Inr False))
        else run (dx_make_room top i fr) (\<lambda>rc. case rc of
          Inl e \<Rightarrow> put lb (Inl e)
        | Inr RoomFull \<Rightarrow> chk (put lb (Inr False)) (\<lambda>_. chk (dx_clear i) (\<lambda>_. ok True))
        | Inr RoomAgain \<Rightarrow> chk (put lb (Inr False)) (\<lambda>_. dx_add_tries k i name ino type)
        | Inr RoomOk \<Rightarrow> run (split_leaf i ver (fr ! top) lb) (\<lambda>rc. case rc of
            Inl e \<Rightarrow> put lb (Inl e)
          | Inr (hash2, nb) \<Rightarrow> let t = (if hash2 \<le> hash then nb else lb) in
              run (leaf_put t name ino type) (\<lambda>done.
              run (if done then dir_dirty i t KIND_LEAF else throw SFS_ECORRUPT) (\<lambda>rc.
              run (sfs_bput nb) (\<lambda>_. put lb (case rc of Inl e \<Rightarrow> Inl e | Inr _ \<Rightarrow> Inr False))))))))))))))"

definition dx_add :: "u32 \<Rightarrow> bytes \<Rightarrow> u32 \<Rightarrow> u8 \<Rightarrow> ('c, sfs_err + bool) fsact" where
  "dx_add i name ino type = dx_add_tries 8 i name ino type"

subsection \<open>From linear to indexed\<close>

primrec linear_offs :: "nat \<Rightarrow> sfs_geo \<Rightarrow> bytes \<Rightarrow> nat \<Rightarrow> nat \<Rightarrow> nat list" where
  "linear_offs 0 g d off cap = []"
| "linear_offs (Suc k) g d off cap = (if leaf_limit g \<le> off \<or> cap = 0 then []
     else let rl = unat (rd16 d (off + DE_rec_len)) in
       if rd32 d (off + DE_inode) \<noteq> 0 then off # linear_offs k g d (off + rl) (cap - 1)
       else linear_offs k g d (off + rl) cap)"

definition dot_entries :: "sfs_geo \<Rightarrow> u32 \<Rightarrow> u32 \<Rightarrow> nat \<Rightarrow> bytes \<Rightarrow> bytes" where
  "dot_entries g self parent rest d = de_set g 12 parent rest [0x2E, 0x2E] SFS_FT_DIR (de_set g 0 self 12 [0x2E] SFS_FT_DIR d)"

definition dx_root_build :: "sfs_geo \<Rightarrow> u32 \<Rightarrow> u32 \<Rightarrow> u32 \<Rightarrow> bytes" where
  "dx_root_build g self parent nlblk = (let d = dot_entries g self parent (unat (g_bs g) - 12) (replicate (unat (g_bs g)) 0);
       d = (d[DX_ROOT_INFO + DXI_hash_version := g_hash_version g])[DX_ROOT_INFO + DXI_info_length := 8];
       d = wr16 d DX_ROOT_ENTRIES (of_nat (dx_limit_for g DX_ROOT_ENTRIES));
       d = wr16 d (DX_ROOT_ENTRIES + 2) 1
     in wr32 d (DX_ROOT_ENTRIES + 4) nlblk)"

text \<open>\<open>False\<close> is the result 1: a layout that is not converted.\<close>

definition make_indexed :: "u32 \<Rightarrow> u64 \<Rightarrow> ('c, sfs_err + bool) fsact" where
  "make_indexed i b0 = look (\<lambda>s. let g = fs_geo s; d = b_data (buf_of s b0); parent = rd32 d (12 + DE_inode) in
     if rd16 d DE_rec_len \<noteq> 12 \<or> name_len_of g d 0 \<noteq> 1 \<or> name_len_of g d 12 \<noteq> 2 then ok False
     else run (sfs_alloc SFS_MAX_ALLOC) (\<lambda>good. if \<not> good then throw SFS_ENOMEM
       else let offs = linear_offs (leaf_limit g) g d (12 + unat (rd16 d (12 + DE_rec_len))) (SFS_MAX_ALLOC div 8) in
         run (dir_append i) (\<lambda>rc. case rc of
           Inl e \<Rightarrow> run (sfs_free SFS_MAX_ALLOC) (\<lambda>_. throw e)
         | Inr (nlblk, nb) \<Rightarrow>
             run (set_bdata nb (\<lambda>_. leaf_build g d (map (\<lambda>off. \<lparr>m_hash = 0, m_off = off, m_size = 0\<rparr>) offs))) (\<lambda>_.
             run (sfs_free SFS_MAX_ALLOC) (\<lambda>_.
             run (dir_dirty i nb KIND_LEAF) (\<lambda>rc.
             run (sfs_bput nb) (\<lambda>_. chk (ret rc) (\<lambda>_.
             run (set_bdata b0 (\<lambda>_. dx_root_build g i parent nlblk)) (\<lambda>_.
             run (upd_buf b0 (clear_flags B_VERIFIED)) (\<lambda>_.
             chk (dir_dirty i b0 KIND_ROOT) (\<lambda>_.
             run (upd_ino i (\<lambda>x. x\<lparr>in_flags := in_flags x OR IFL_INDEX\<rparr>)) (\<lambda>_.
             run (sfs_idirty i) (\<lambda>_. ok True)))))))))))))"

subsection \<open>Insertion, removal, replacement\<close>

text \<open>The linear scan of \<open>sfs_dir_add\<close>. It starts again at block 0 at most once, after the index was made and
  dropped again; by then the directory has at most 25 more blocks. The result tells whether the entry is in.\<close>

primrec dir_add_scan :: "nat \<Rightarrow> u32 \<Rightarrow> bytes \<Rightarrow> u32 \<Rightarrow> u8 \<Rightarrow> u32 \<Rightarrow> u32 \<Rightarrow> ('c, sfs_err + bool) fsact" where
  "dir_add_scan 0 i name ino type lblk nblk = ok False"
| "dir_add_scan (Suc k) i name ino type lblk nblk = (if nblk \<le> lblk then ok False
     else chk (dir_block i lblk KIND_LEAF) (\<lambda>b. case b of
       None \<Rightarrow> dir_add_scan k i name ino type (lblk + 1) nblk
     | Some b \<Rightarrow> run (leaf_put b name ino type) (\<lambda>done. look (\<lambda>s.
         if done
         then run (dir_dirty i b KIND_LEAF) (\<lambda>rc. run (sfs_bput b) (\<lambda>_. chk (ret rc) (\<lambda>_. ok True)))
         else if nblk = 1 \<and> g_dir_index (fs_geo s) \<and> in_flags (ino_of s i) AND IFL_INDEX = 0
                 \<and> in_flags (ino_of s i) AND IFL_EXTENTS \<noteq> 0 \<and> fs_mflags s AND SFS_MOUNT_NAIVE = 0
         then run (make_indexed i b) (\<lambda>rc. run (sfs_bput b) (\<lambda>_. chk (ret rc) (\<lambda>converted.
              if \<not> converted then dir_add_scan k i name ino type (lblk + 1) nblk
              else chk (dx_add i name ino type) (\<lambda>dropped.
                if \<not> dropped then ok True
                else look (\<lambda>s. dir_add_scan k i name ino type 0 (ucast (dir_nblk s i)))))))
         else run (sfs_bput b) (\<lambda>_. dir_add_scan k i name ino type (lblk + 1) nblk)))))"

definition dir_add_linear :: "u32 \<Rightarrow> bytes \<Rightarrow> u32 \<Rightarrow> u8 \<Rightarrow> ('c, sfs_err + unit) fsact" where
  "dir_add_linear i name ino type = look (\<lambda>s. let nblk = ucast (dir_nblk s i) :: u32 in
     chk (dir_add_scan (unat nblk + 64) i name ino type 0 nblk) (\<lambda>done. if done then ok ()
     else chk (dir_append i) (\<lambda>(_, b). look (\<lambda>s.
       run (set_bdata b (\<lambda>d. wr16 d DE_rec_len (of_nat (leaf_limit (fs_geo s))))) (\<lambda>_.
       run (leaf_put b name ino type) (\<lambda>done.
       run (if done then dir_dirty i b KIND_LEAF else throw SFS_ECORRUPT) (\<lambda>rc.
       run (sfs_bput b) (\<lambda>_. ret rc))))))))"

definition sfs_dir_add :: "u32 \<Rightarrow> bytes \<Rightarrow> u32 \<Rightarrow> u8 \<Rightarrow> ('c, sfs_err + unit) fsact" where
  "sfs_dir_add i name ino type = look (\<lambda>s. let type = (if g_filetype (fs_geo s) then type else 0) in
     if \<not> sfs_is_dir (ino_of s i) then throw SFS_ENOTDIR
     else if name = [] \<or> SFS_NAME_MAX < length name then throw SFS_ENAMETOOLONG
     else if in_flags (ino_of s i) AND IFL_INLINE_DATA \<noteq> 0 then throw SFS_ENOTSUP
     else if is_indexed s i
     then chk (dx_add i name ino type) (\<lambda>dropped. if dropped then dir_add_linear i name ino type else ok ())
     else dir_add_linear i name ino type)"

definition sfs_dir_remove :: "u32 \<Rightarrow> bytes \<Rightarrow> u32 \<Rightarrow> ('c, sfs_err + unit) fsact" where
  "sfs_dir_remove i name expect_ino = chk (find_entry i name) (\<lambda>(b, off, prev). look (\<lambda>s.
     if expect_ino \<noteq> 0 \<and> rd32 (b_data (buf_of s b)) (off + DE_inode) \<noteq> expect_ino
     then run (sfs_bput b) (\<lambda>_. throw SFS_ENOENT)
     else run (set_bdata b (leaf_remove off prev)) (\<lambda>_.
          run (dir_dirty i b KIND_LEAF) (\<lambda>rc. run (sfs_bput b) (\<lambda>_. ret rc)))))"

definition sfs_dir_set_inode :: "u32 \<Rightarrow> bytes \<Rightarrow> u32 \<Rightarrow> u8 \<Rightarrow> ('c, sfs_err + unit) fsact" where
  "sfs_dir_set_inode i name ino type = chk (find_entry i name) (\<lambda>(b, off, prev). look (\<lambda>s.
     run (set_bdata b (leaf_set_inode (fs_geo s) off ino type)) (\<lambda>_.
     run (dir_dirty i b KIND_LEAF) (\<lambda>rc. run (sfs_bput b) (\<lambda>_. ret rc)))))"

subsection \<open>The entries for the directory and its parent\<close>

definition sfs_dir_init :: "u32 \<Rightarrow> u32 \<Rightarrow> ('c, sfs_err + unit) fsact" where
  "sfs_dir_init i parent = chk (dir_append i) (\<lambda>(_, b). look (\<lambda>s. let g = fs_geo s in
     run (set_bdata b (\<lambda>d. let d = dot_entries g i parent (leaf_limit g - 12) d in
            if g_filetype g then d else (d[DE_file_type := 0])[12 + DE_file_type := 0])) (\<lambda>_.
     run (dir_dirty i b KIND_LEAF) (\<lambda>rc. run (sfs_bput b) (\<lambda>_. ret rc)))))"

definition dotdot :: "u32 \<Rightarrow> ('c, sfs_err + u64 \<times> dkind) fsact" where
  "dotdot i = look (\<lambda>s. let kind = (if is_indexed s i then KIND_ROOT else KIND_LEAF) in
     chk (dir_block_req i 0 kind) (\<lambda>b. look (\<lambda>s. let g = fs_geo s; d = b_data (buf_of s b) in
       if name_len_of g d 0 \<noteq> 1 \<or> byte_at d DE_name \<noteq> 0x2E \<or> rd16 d DE_rec_len \<noteq> 12
          \<or> name_len_of g d 12 \<noteq> 2 \<or> slice d (12 + DE_name) 2 \<noteq> [0x2E, 0x2E]
       then run (sfs_bput b) (\<lambda>_. throw SFS_ECORRUPT) else ok (b, kind))))"

definition sfs_dir_get_parent :: "u32 \<Rightarrow> ('c, sfs_err + u32) fsact" where
  "sfs_dir_get_parent i = chk (dotdot i) (\<lambda>(b, kind). look (\<lambda>s.
     run (sfs_bput b) (\<lambda>_. ok (rd32 (b_data (buf_of s b)) (12 + DE_inode)))))"

definition sfs_dir_set_parent :: "u32 \<Rightarrow> u32 \<Rightarrow> ('c, sfs_err + unit) fsact" where
  "sfs_dir_set_parent i parent = chk (dotdot i) (\<lambda>(b, kind).
     run (set_bdata b (\<lambda>d. wr32 d (12 + DE_inode) parent)) (\<lambda>_.
     run (dir_dirty i b kind) (\<lambda>rc. run (sfs_bput b) (\<lambda>_. ret rc))))"

subsection \<open>Enumeration\<close>

text \<open>The entry loop of \<open>sfs_dir_next\<close> in one block: the offset and the length of the entry it gives.\<close>

primrec dir_scan :: "nat \<Rightarrow> bytes \<Rightarrow> bool \<Rightarrow> nat \<Rightarrow> nat \<Rightarrow> nat \<Rightarrow> (nat \<times> nat) option" where
  "dir_scan 0 d root limit start off = None"
| "dir_scan (Suc k) d root limit start off = (if limit \<le> off then None
     else let rl = (if root \<and> off = 12 then 12 else unat (rd16 d (off + DE_rec_len))) in
       if start \<le> off \<and> rd32 d (off + DE_inode) \<noteq> 0 then Some (off, rl)
       else dir_scan k d root limit start (off + rl))"

text \<open>What one block gives: an error, the next entry with its cookie, or nothing (go on with the next block).\<close>

definition dir_next_block :: "u32 \<Rightarrow> u32 \<Rightarrow> nat \<Rightarrow> ('c, sfs_err + (sfs_dirent \<times> u64) option) fsact" where
  "dir_next_block i lblk start = look (\<lambda>s. let root = (lblk = 0 \<and> is_indexed s i); bits = g_bs_bits (fs_geo s);
       next_blk = push_bit bits (ucast (lblk + 1)) :: u64 in
     chk (sfs_map_block i lblk) (\<lambda>(p, _, unw). case p of None \<Rightarrow> ok None
     | Some pblk \<Rightarrow> if unw then ok None
       else chk (sfs_bread pblk) (\<lambda>b. look (\<lambda>s.
         let g = fs_geo s; d = b_data (buf_of s b); seed = dir_seed s i; ver = b_flags (buf_of s b) AND B_VERIFIED \<noteq> 0;
             limit = (if root then 24 else leaf_limit g)
         in if \<not> root \<and> rd32 d DE_inode = 0 \<and> ucast (rd16 d DE_rec_len) = g_bs g
            then run (sfs_bput b) (\<lambda>_.
                 if is_indexed s i \<and> \<not> ver \<and> \<not> dx_node_ok g seed d \<and> g_csum g then throw SFS_ECORRUPT else ok None)
            else if \<not> ver \<and> \<not> (if root then root_ok g seed d else leaf_ok g seed d)
            then run (sfs_bput b) (\<lambda>_. throw SFS_ECORRUPT)
            else run (whenA (\<not> ver \<and> \<not> root) (upd_buf b (set_flags B_VERIFIED))) (\<lambda>_.
                 run (sfs_bput b) (\<lambda>_. case dir_scan limit d root limit start 0 of
                   None \<Rightarrow> ok None
                 | Some (off, rl) \<Rightarrow> ok (Some (dirent_at g d off,
                     if root \<and> off = 12 then next_blk else push_bit bits (ucast lblk) + of_nat (off + rl)))))))))"

text \<open>The loop over the blocks; every turn that goes on moves the cookie to the next block.\<close>

primrec dir_next_loop :: "nat \<Rightarrow> u32 \<Rightarrow> u64 \<Rightarrow> ('c, (sfs_err + sfs_dirent option) \<times> u64) fsact" where
  "dir_next_loop 0 i cookie = ret (Inr None, cookie)"
| "dir_next_loop (Suc k) i cookie = look (\<lambda>s. let bits = g_bs_bits (fs_geo s); l = drop_bit bits cookie; lblk = ucast l :: u32;
       start = unat (cookie AND (ucast (g_bs (fs_geo s)) - 1))
     in if dir_nblk s i \<le> l then ret (Inr None, cookie)
        else run (dir_next_block i lblk start) (\<lambda>rc. case rc of
          Inl e \<Rightarrow> ret (Inl e, cookie)
        | Inr (Some (de, cookie)) \<Rightarrow> ret (Inr (Some de), cookie)
        | Inr None \<Rightarrow> dir_next_loop k i (push_bit bits (ucast (lblk + 1)))))"

definition sfs_dir_next :: "u32 \<Rightarrow> u64 \<Rightarrow> ('c, (sfs_err + sfs_dirent option) \<times> u64) fsact" where
  "sfs_dir_next i cookie = look (\<lambda>s. if \<not> sfs_is_dir (ino_of s i) then ret (Inl SFS_ENOTDIR, cookie)
     else if in_flags (ino_of s i) AND IFL_INLINE_DATA \<noteq> 0 then inline_dir_next i cookie
     else dir_next_loop (unat (dir_nblk s i) + 1) i cookie)"

text \<open>Every turn that goes on has read an entry of at least 8 bytes, so the size of the directory (and the two
  entries that an inline directory implies) bounds the turns.\<close>

primrec dir_empty_loop :: "nat \<Rightarrow> u32 \<Rightarrow> u64 \<Rightarrow> ('c, sfs_err + bool) fsact" where
  "dir_empty_loop 0 i cookie = ok True"
| "dir_empty_loop (Suc k) i cookie = run (sfs_dir_next i cookie) (\<lambda>(rc, cookie). case rc of
     Inl e \<Rightarrow> throw e
   | Inr None \<Rightarrow> ok True
   | Inr (Some de) \<Rightarrow> if de_name de = [0x2E] \<or> de_name de = [0x2E, 0x2E] then dir_empty_loop k i cookie else ok False)"

definition sfs_dir_is_empty :: "u32 \<Rightarrow> ('c, sfs_err + bool) fsact" where
  "sfs_dir_is_empty i = run (sfs_alloc sizeof_dirent) (\<lambda>good. if \<not> good then throw SFS_ENOMEM
     else look (\<lambda>s. run (dir_empty_loop (unat (in_size (ino_of s i)) div 8 + 12) i 0) (\<lambda>rc.
       run (sfs_free sizeof_dirent) (\<lambda>_. ret rc))))"

end
