(* ===== verification/Sfs_Super.thy ===== *)
theory Sfs_Super
  imports Sfs_Dir
begin

unbundle bit_operations_syntax

section \<open>Mounting and unmounting (sfs\_super.c)\<close>

text \<open>
  The superblock parser, the reasons for a read-only mount, the orphan cleanup, and the life cycle
  of a volume. The stages of \<open>parse_super\<close> follow the source: each field is stored before the checks
  that come after it, so a refused superblock leaves the fields stored so far. The callbacks \<open>read\<close>,
  \<open>alloc\<close> and \<open>free\<close> are always present in the model (\<open>sfs_ops\<close>), so the \<open>SFS_EINVAL\<close> for a
  missing one does not arise.
\<close>

subsection \<open>The superblock\<close>

definition refuse_if :: "bool \<Rightarrow> sfs_err \<Rightarrow> ('c, sfs_err + unit) fsact" where
  "refuse_if b e = (if b then throw e else ok ())"

definition set_geo :: "(sfs_geo \<Rightarrow> sfs_geo) \<Rightarrow> ('c, unit) fsact" where
  "set_geo f = upd (\<lambda>s. s\<lparr>fs_geo := f (fs_geo s)\<rparr>)"

definition sb_lohi :: "bytes \<Rightarrow> nat \<Rightarrow> bool \<Rightarrow> nat \<Rightarrow> u64" where
  "sb_lohi s lo has64 hi = ucast (rd32 s lo) OR (if has64 then push_bit 32 (ucast (rd32 s hi)) else 0)"

definition parse_features :: "('c, sfs_err + unit) fsact" where
  "parse_features = look (\<lambda>f. let s = fs_sbraw f; rev = rd32 s SB_rev_level; log_bs = rd32 s SB_log_block_size in
     chk (refuse_if (rd16 s SB_magic \<noteq> SB_MAGIC) SFS_EINVAL) (\<lambda>_.
     chk (refuse_if (SB_REV_DYNAMIC < rev) SFS_ENOTSUP) (\<lambda>_.
     chk (refuse_if (2 < log_bs) SFS_ENOTSUP) (\<lambda>_.
     run (set_geo (\<lambda>g. g\<lparr>g_bs_bits := 10 + unat log_bs, g_bs := push_bit (10 + unat log_bs) 1\<rparr>)) (\<lambda>_.
     run (upd (\<lambda>f. f\<lparr>fs_feat_compat := (if rev \<noteq> 0 then rd32 s SB_feature_compat else 0),
                     fs_feat_incompat := (if rev \<noteq> 0 then rd32 s SB_feature_incompat else 0),
                     fs_feat_ro := (if rev \<noteq> 0 then rd32 s SB_feature_ro_compat else 0)\<rparr>)) (\<lambda>_. look (\<lambda>f.
     chk (refuse_if (fs_feat_incompat f AND NOT INCOMPAT_SUPPORTED \<noteq> 0) SFS_ENOTSUP) (\<lambda>_.
     chk (refuse_if (fs_feat_ro f AND RO_COMPAT_BIGALLOC \<noteq> 0) SFS_ENOTSUP) (\<lambda>_.
     refuse_if (rd32 s SB_log_cluster_size \<noteq> log_bs) SFS_ECORRUPT)))))))))"

definition parse_blocks :: "('c, sfs_err + unit) fsact" where
  "parse_blocks = look (\<lambda>f. let s = fs_sbraw f; has64 = (fs_feat_incompat f AND INCOMPAT_64BIT \<noteq> 0) in
     run (set_geo (\<lambda>g. g\<lparr>g_has64 := has64,
            g_nblocks := sb_lohi s SB_blocks_count_lo has64 SB_blocks_count_hi,
            g_first_data_block := rd32 s SB_first_data_block\<rparr>)) (\<lambda>_. look (\<lambda>f. let g = fs_geo f in
     chk (refuse_if (g_first_data_block g \<noteq> (if g_bs g = 1024 then 1 else 0)) SFS_ECORRUPT) (\<lambda>_.
     chk (refuse_if (g_nblocks g \<le> ucast (g_first_data_block g + 1)) SFS_ECORRUPT) (\<lambda>_.
     if ops_size (fs_ops f) \<noteq> 0 \<and> ops_size (fs_ops f) < push_bit (g_bs_bits g) (g_nblocks g)
     then run (sfs_log ''sfs: file system is larger than the device'') (\<lambda>_. throw SFS_ECORRUPT)
     else ok ())))))"

definition parse_groups :: "('c, sfs_err + unit) fsact" where
  "parse_groups = look (\<lambda>f. let s = fs_sbraw f; g = fs_geo f;
       bpg = rd32 s SB_blocks_per_group; cpg = rd32 s SB_clusters_per_group; ipg = rd32 s SB_inodes_per_group in
     chk (refuse_if (bpg = 0 \<or> g_bs g * 8 < bpg \<or> bpg AND 7 \<noteq> 0 \<or> cpg \<noteq> bpg) SFS_ECORRUPT) (\<lambda>_.
     chk (refuse_if (ipg = 0 \<or> g_bs g * 8 < ipg \<or> ipg AND 7 \<noteq> 0) SFS_ECORRUPT) (\<lambda>_.
     run (set_geo (\<lambda>g. g\<lparr>g_bpg := bpg, g_ipg := ipg\<rparr>)) (\<lambda>_.
     let groups = (g_nblocks g - ucast (g_first_data_block g) + ucast bpg - 1) div ucast bpg in
     chk (refuse_if (groups = 0 \<or> 0xFFFFFFFF div ucast ipg < groups) SFS_ECORRUPT) (\<lambda>_.
     run (set_geo (\<lambda>g. g\<lparr>g_ngroups := ucast groups, g_inodes_count := rd32 s SB_inodes_count\<rparr>)) (\<lambda>_.
     refuse_if (ucast (rd32 s SB_inodes_count) \<noteq> groups * ucast ipg) SFS_ECORRUPT))))))"

definition parse_inodes :: "('c, sfs_err + unit) fsact" where
  "parse_inodes = look (\<lambda>f. let s = fs_sbraw f; rev = rd32 s SB_rev_level in
     chk (if rev = 0
          then run (set_geo (\<lambda>g. g\<lparr>g_isize := SB_GOOD_OLD_INODE_SIZE, g_first_ino := SB_GOOD_OLD_FIRST_INO\<rparr>)) (\<lambda>_. ok ())
          else run (set_geo (\<lambda>g. g\<lparr>g_isize := ucast (rd16 s SB_inode_size), g_first_ino := rd32 s SB_first_ino\<rparr>)) (\<lambda>_. look (\<lambda>f.
            let isize = g_isize (fs_geo f); first = g_first_ino (fs_geo f) in
            chk (refuse_if (isize < 128 \<or> g_bs (fs_geo f) < isize \<or> isize AND (isize - 1) \<noteq> 0) SFS_ECORRUPT) (\<lambda>_.
            refuse_if (first < SB_GOOD_OLD_FIRST_INO \<or> g_inodes_count (fs_geo f) \<le> first) SFS_ECORRUPT)))) (\<lambda>_.
     run (set_geo (\<lambda>g. g\<lparr>g_inodes_per_block := g_bs g div g_isize g\<rparr>)) (\<lambda>_. look (\<lambda>f. let g = fs_geo f in
     chk (refuse_if (g_ipg g mod g_inodes_per_block g \<noteq> 0) SFS_ECORRUPT) (\<lambda>_.
     run (set_geo (\<lambda>g. g\<lparr>g_itable_blocks := g_ipg g div g_inodes_per_block g\<rparr>)) (\<lambda>_. ok ()))))))"

definition parse_desc :: "('c, sfs_err + unit) fsact" where
  "parse_desc = look (\<lambda>f. let s = fs_sbraw f in
     chk (if g_has64 (fs_geo f)
          then let size = ucast (rd16 s SB_desc_size) in run (set_geo (\<lambda>g. g\<lparr>g_gd_size := size\<rparr>)) (\<lambda>_.
            refuse_if (size < GD_MIN_SIZE_64BIT \<or> 1024 < size \<or> size AND (size - 1) \<noteq> 0) SFS_ECORRUPT)
          else run (set_geo (\<lambda>g. g\<lparr>g_gd_size := GD_MIN_SIZE\<rparr>)) (\<lambda>_. ok ())) (\<lambda>_.
     run (set_geo (\<lambda>g. g\<lparr>g_desc_per_block := g_bs g div g_gd_size g\<rparr>)) (\<lambda>_.
     run (set_geo (\<lambda>g. g\<lparr>g_gdt_blocks := (g_ngroups g + g_desc_per_block g - 1) div g_desc_per_block g\<rparr>)) (\<lambda>_. ok ()))))"

definition parse_flags :: "('c, sfs_err + unit) fsact" where
  "parse_flags = look (\<lambda>f. let s = fs_sbraw f; has = (\<lambda>m. fs_feat_incompat f AND m \<noteq> 0);
       compat = (\<lambda>m. fs_feat_compat f AND m \<noteq> 0); ro = (\<lambda>m. fs_feat_ro f AND m \<noteq> 0) in
     run (set_geo (\<lambda>g. g\<lparr>g_csum := ro RO_COMPAT_METADATA_CSUM,
            g_gdt_csum := (\<not> ro RO_COMPAT_METADATA_CSUM \<and> ro RO_COMPAT_GDT_CSUM),
            g_sparse := ro RO_COMPAT_SPARSE_SUPER, g_sparse2 := compat COMPAT_SPARSE_SUPER2,
            g_backup_bgs := [rd32 s SB_backup_bgs, rd32 s (SB_backup_bgs + 4)],
            g_meta_bg := has INCOMPAT_META_BG, g_first_meta_bg := rd32 s SB_first_meta_bg\<rparr>)) (\<lambda>_. look (\<lambda>f.
     chk (refuse_if (g_meta_bg (fs_geo f) \<and> g_gdt_blocks (fs_geo f) < g_first_meta_bg (fs_geo f)) SFS_ECORRUPT) (\<lambda>_.
     run (set_geo (\<lambda>g. g\<lparr>g_reserved_gdt := ucast (rd16 s SB_reserved_gdt_blocks)\<rparr>)) (\<lambda>_. look (\<lambda>f.
     chk (refuse_if (g_bs (fs_geo f) div 4 < g_reserved_gdt (fs_geo f)) SFS_ECORRUPT) (\<lambda>_.
     run (set_geo (\<lambda>g. g\<lparr>g_dir_index := compat COMPAT_DIR_INDEX, g_filetype := has INCOMPAT_FILETYPE,
            g_extents := has INCOMPAT_EXTENTS, g_huge_file := ro RO_COMPAT_HUGE_FILE,
            g_dir_nlink := ro RO_COMPAT_DIR_NLINK, g_largedir := has INCOMPAT_LARGEDIR,
            g_log_groups_per_flex := (let l = (if has INCOMPAT_FLEX_BG then ucast (s ! SB_log_groups_per_flex) else 0)
                                      in if 31 < l then 0 else l),
            g_uuid := slice s SB_uuid 16\<rparr>)) (\<lambda>_. ok ()))))))))"

definition parse_csum :: "('c, sfs_err + unit) fsact" where
  "parse_csum = look (\<lambda>f. let s = fs_sbraw f in
     if \<not> g_csum (fs_geo f) then ok ()
     else if s ! SB_checksum_type \<noteq> SB_CHECKSUM_CRC32C then throw SFS_ENOTSUP
     else if rd32 s SB_checksum \<noteq> sfs_crc32c 0xFFFFFFFF (slice s 0 SB_checksum)
     then run (sfs_log ''sfs: superblock checksum mismatch'') (\<lambda>_. throw SFS_ECORRUPT)
     else run (set_geo (\<lambda>g. g\<lparr>g_csum_seed := (if fs_feat_incompat f AND INCOMPAT_CSUM_SEED \<noteq> 0 then rd32 s SB_checksum_seed
            else sfs_crc32c 0xFFFFFFFF (g_uuid g))\<rparr>)) (\<lambda>_. ok ()))"

definition extra_isize_for :: "u32 \<Rightarrow> u32 \<Rightarrow> u32" where
  "extra_isize_for isize want = (if 128 < isize
     then let w = (if want < 32 then 32 else want); w = (if isize - 128 < w then isize - 128 else w) in w AND NOT 3
     else 0)"

definition parse_rest :: "('c, unit) fsact" where
  "parse_rest = look (\<lambda>f. let s = fs_sbraw f; has64 = g_has64 (fs_geo f) in
     run (set_geo (\<lambda>g. g\<lparr>
            g_hash_seed := [rd32 s SB_hash_seed, rd32 s (SB_hash_seed + 4), rd32 s (SB_hash_seed + 8), rd32 s (SB_hash_seed + 12)],
            g_hash_version := (let v = s ! SB_def_hash_version in if DX_HASH_TEA < v then DX_HASH_HALF_MD4 else v),
            g_hash_unsigned := (if rd32 s SB_flags AND SB_FLAG_UNSIGNED_HASH \<noteq> 0 then 3 else 0),
            g_want_extra_isize := extra_isize_for (g_isize g) (ucast (rd16 s SB_want_extra_isize)),
            g_ext_per_block := (g_bs g - of_nat EH_SIZE) div of_nat EE_SIZE\<rparr>)) (\<lambda>_.
     upd (\<lambda>f. f\<lparr>fs_free_blocks := sb_lohi s SB_free_blocks_count_lo has64 SB_free_blocks_count_hi,
               fs_free_inodes := rd32 s SB_free_inodes_count,
               fs_last_orphan := rd32 s SB_last_orphan,
               fs_kbytes_written_base := rd64 s SB_kbytes_written\<rparr>)))"

definition parse_super :: "('c, sfs_err + unit) fsact" where
  "parse_super = chk parse_features (\<lambda>_. chk parse_blocks (\<lambda>_. chk parse_groups (\<lambda>_.
     chk parse_inodes (\<lambda>_. chk parse_desc (\<lambda>_. chk parse_flags (\<lambda>_. chk parse_csum (\<lambda>_.
     run parse_rest (\<lambda>_. ok ()))))))))"

definition ro_reasons :: "'c sfs_fs \<Rightarrow> (bool \<times> u32) list" where
  "ro_reasons f = (let s = fs_sbraw f; ro = fs_feat_ro f; inc = fs_feat_incompat f; compat = fs_feat_compat f in
     [(fs_mflags f AND SFS_MOUNT_RDONLY \<noteq> 0, SFS_RO_CALLER),
      (\<not> g_extents (fs_geo f), SFS_RO_NO_EXTENTS),
      (ro AND NOT RO_COMPAT_SUPPORTED AND NOT RO_COMPAT_FORCES_RO \<noteq> 0, SFS_RO_UNKNOWN_RO_COMPAT),
      (ro AND RO_COMPAT_QUOTA \<noteq> 0, SFS_RO_QUOTA),
      (ro AND RO_COMPAT_VERITY \<noteq> 0, SFS_RO_VERITY),
      (ro AND RO_COMPAT_READONLY \<noteq> 0, SFS_RO_READONLY_FLAG),
      (ro AND RO_COMPAT_ORPHAN_PRESENT \<noteq> 0, SFS_RO_ORPHAN_FILE),
      (compat AND COMPAT_ORPHAN_FILE \<noteq> 0, SFS_RO_ORPHAN_FILE),
      (inc AND INCOMPAT_INLINE_DATA \<noteq> 0, SFS_RO_INLINE_DATA),
      (inc AND INCOMPAT_ENCRYPT \<noteq> 0, SFS_RO_ENCRYPT),
      (inc AND INCOMPAT_CASEFOLD \<noteq> 0, SFS_RO_CASEFOLD),
      (inc AND INCOMPAT_EA_INODE \<noteq> 0, SFS_RO_EA_INODE),
      (compat AND COMPAT_FAST_COMMIT \<noteq> 0, SFS_RO_JOURNAL_FAST_COMMIT),
      (rd16 s SB_state AND SB_STATE_ERROR \<noteq> 0, SFS_RO_ERRORS),
      (compat AND COMPAT_HAS_JOURNAL \<noteq> 0 \<and> rd32 s SB_journal_inum = 0, SFS_RO_UNKNOWN_RO_COMPAT)])"

definition decide_read_only :: "('c, unit) fsact" where
  "decide_read_only = look (\<lambda>f.
     let reason = fold (\<lambda>(b, m) r. if b then r OR m else r) (ro_reasons f) (fs_ro_reason f) in
     upd (\<lambda>f. f\<lparr>fs_ro_reason := reason, fs_ro := (if reason \<noteq> 0 then True else fs_ro f)\<rparr>))"

definition load_geometry :: "('c, sfs_err + unit) fsact" where
  "load_geometry = chk parse_super (\<lambda>_. chk gd_check_all (\<lambda>bad. look (\<lambda>f.
     if bad \<noteq> 0
     then run (sfs_logu ''sfs: group descriptor checksum mismatches: '' (of_nat bad)) (\<lambda>_.
          refuse_if (fs_mflags f AND SFS_MOUNT_RDONLY = 0) SFS_ECORRUPT)
     else ok ())))"

subsection \<open>The orphan cleanup\<close>

text \<open>What one turn does with a live orphan \<open>i\<close>, up to \<open>sfs_op_end\<close>.\<close>

definition orphan_finish :: "u32 \<Rightarrow> ('c, sfs_err + unit) fsact" where
  "orphan_finish i = look (\<lambda>f.
     if in_links (ino_of f i) = 0
     then run (sfs_logu ''sfs: releasing orphan inode '' (ucast i)) (\<lambda>_.
          chk (sfs_inode_release_all i) (\<lambda>_. chk (sfs_orphan_del i) (\<lambda>_.
          run sfs_now (\<lambda>now.
          run (upd_ino i (\<lambda>x. x\<lparr>in_dtime := (if ucast now = (0 :: u32) then 1 else ucast now)\<rparr>)) (\<lambda>_.
          run (sfs_idirty i) (\<lambda>_. look (\<lambda>f. sfs_free_inode i (sfs_is_dir (ino_of f i)))))))))
     else run (sfs_logu ''sfs: finishing truncate of orphan inode '' (ucast i)) (\<lambda>_.
          chk (sfs_file_trim_orphan i) (\<lambda>_. sfs_orphan_del i)))"

definition orphan_drop :: "string \<Rightarrow> ('c, unit) fsact" where
  "orphan_drop msg = run (sfs_log msg) (\<lambda>_. sb_set_orphan 0)"

text \<open>The counter runs down where \<open>guard\<close> runs up: the test \<open>guard++ > inodes_count\<close> lets
  \<open>inodes_count + 1\<close> turns pass and drops a list that is still not empty after them.\<close>

primrec orphan_loop :: "nat \<Rightarrow> ('c, sfs_err + unit) fsact" where
  "orphan_loop 0 = look (\<lambda>f. if fs_last_orphan f = 0 then sfs_commit
     else run (orphan_drop ''sfs: corrupt orphan list dropped'') (\<lambda>_. sfs_commit))"
| "orphan_loop (Suc k) = look (\<lambda>f. let i = fs_last_orphan f in
     if i = 0 then sfs_commit
     else if \<not> sfs_ino_valid (fs_geo f) i \<or> i < g_first_ino (fs_geo f)
     then run (orphan_drop ''sfs: corrupt orphan list dropped'') (\<lambda>_. sfs_commit)
     else chk sfs_op_begin (\<lambda>_. run (sfs_iget i) (\<lambda>rc. case rc of
            Inl _ \<Rightarrow> run (orphan_drop ''sfs: unreadable orphan inode, list dropped'') (\<lambda>_. sfs_op_end (Inr ()))
          | Inr _ \<Rightarrow> run (orphan_finish i) (\<lambda>rc.
              run (sfs_iput i) (\<lambda>_.
              run (whenA (rc = Inr ()) (sfs_iforget i)) (\<lambda>_.
              chk (sfs_op_end rc) (\<lambda>_. orphan_loop k)))))))"

definition sfs_orphan_cleanup :: "('c, sfs_err + unit) fsact" where
  "sfs_orphan_cleanup = look (\<lambda>f. orphan_loop (unat (g_inodes_count (fs_geo f)) + 1))"

subsection \<open>The life cycle of a volume\<close>

text \<open>The size of \<open>struct sfs_fs\<close> on an LP64 target. The arguments of \<open>fs_release\<close> say which of
  \<open>hash\<close>, \<open>scratch\<close>, \<open>scratch2\<close>, \<open>pa\<close> and \<open>sbraw\<close> are allocated; \<open>sfs_free\<close> skips the others.\<close>

abbreviation (input) sizeof_fs :: nat where "sizeof_fs \<equiv> 1320"

definition fs_release :: "bool \<Rightarrow> bool \<Rightarrow> bool \<Rightarrow> bool \<Rightarrow> bool \<Rightarrow> ('c, unit) fsact" where
  "fs_release hash scratch scratch2 pa sbraw =
     run sfs_icache_destroy (\<lambda>_.
     run sfs_journal_unload (\<lambda>_.
     run (whenA hash sfs_cache_destroy) (\<lambda>_. look (\<lambda>f.
     run (sfs_runpage_free (t_frees (fs_txn f))) (\<lambda>_.
     run (sfs_runpage_free (t_revokes (fs_txn f))) (\<lambda>_.
     run (whenA scratch (sfs_free (unat (g_bs (fs_geo f))))) (\<lambda>_.
     run (whenA scratch2 (sfs_free (unat (g_bs (fs_geo f))))) (\<lambda>_.
     run (whenA pa (sfs_free sizeof_patab)) (\<lambda>_.
     run (whenA sbraw (sfs_free 1024)) (\<lambda>_. sfs_free sizeof_fs))))))))))"

definition mount_fail :: "bool \<Rightarrow> bool \<Rightarrow> bool \<Rightarrow> bool \<Rightarrow> bool \<Rightarrow> sfs_err \<Rightarrow> ('c, sfs_err + unit) fsact" where
  "mount_fail hash scratch scratch2 pa sbraw e = run (fs_release hash scratch scratch2 pa sbraw) (\<lambda>_. throw e)"

definition read_sbraw :: "('c, sfs_err + unit) fsact" where
  "read_sbraw = look (\<lambda>f. run (ctx_call (\<lambda>c. ops_read (fs_ops f) c (of_nat SB_OFFSET) 1024)) (\<lambda>r. case r of
     None \<Rightarrow> throw SFS_EIO
   | Some d \<Rightarrow> run (upd (\<lambda>f. f\<lparr>fs_sbraw := d\<rparr>)) (\<lambda>_. ok ())))"

definition mount_journal :: "('c, sfs_err + unit) fsact" where
  "mount_journal = look (\<lambda>f.
     if fs_feat_compat f AND COMPAT_HAS_JOURNAL \<noteq> 0
     then chk (sfs_journal_load (\<not> fs_ro f \<and> fs_mflags f AND SFS_MOUNT_NOREPLAY = 0)) (\<lambda>replayed.
          if replayed
          then run sfs_icache_destroy (\<lambda>_. run sfs_cache_drop_clean (\<lambda>_.
               chk read_sbraw (\<lambda>_. chk load_geometry (\<lambda>_.
               run (upd (\<lambda>f. f\<lparr>fs_feat_incompat := fs_feat_incompat f AND NOT INCOMPAT_RECOVER\<rparr>)) (\<lambda>_. ok ())))))
          else ok ())
     else refuse_if (fs_feat_incompat f AND INCOMPAT_RECOVER \<noteq> 0) SFS_ECORRUPT)"

definition txn_soft_for :: "'c sfs_fs \<Rightarrow> u32" where
  "txn_soft_for f = (if fs_mflags f AND SFS_MOUNT_SMALL_TXN \<noteq> 0 then 64
     else if j_present (fs_jnl f)
     then let cap = sfs_journal_capacity (fs_jnl f) div 4 in if cap < 16 then 16 else if 4096 < cap then 4096 else cap
     else 1024)"

definition mount_mark :: "('c, sfs_err + unit) fsact" where
  "mount_mark = run sfs_now (\<lambda>now.
     run (upd (\<lambda>f. f\<lparr>fs_sbraw := (let s = wr16 (fs_sbraw f) SB_mnt_count (rd16 (fs_sbraw f) SB_mnt_count + 1)
            in if now \<noteq> 0 then (wr32 s SB_mtime (ucast now))[SB_mtime_hi := ucast (drop_bit 32 now)] else s)\<rparr>)) (\<lambda>_. look (\<lambda>f.
     chk (if fs_mflags f AND SFS_MOUNT_CLEAN_ON_SYNC \<noteq> 0 \<and> fs_last_orphan f = 0
          then run (upd (\<lambda>f. f\<lparr>fs_mounted_dirty := False\<rparr>)) (\<lambda>_. ok ())
          else set_mounted_state True) (\<lambda>_. look (\<lambda>f.
     if fs_last_orphan f \<noteq> 0 then sfs_orphan_cleanup else ok ()))))) "

definition mount_load :: "('c, sfs_err + unit) fsact" where
  "mount_load =
     run (upd (\<lambda>f. f\<lparr>fs_max_inodes := (if fs_mflags f AND SFS_MOUNT_NAIVE \<noteq> 0 then 16 else 512)\<rparr>)) (\<lambda>_.
     chk load_geometry (\<lambda>_.
     run decide_read_only (\<lambda>_.
     run sfs_now (\<lambda>now.
     run (upd (\<lambda>f. f\<lparr>fs_next_generation := now * 2654435761 + 1\<rparr>)) (\<lambda>_.
     chk mount_journal (\<lambda>_.
     run (upd (\<lambda>f. f\<lparr>fs_txn_soft := txn_soft_for f\<rparr>)) (\<lambda>_. look (\<lambda>f.
     if fs_ro f then ok () else mount_mark))))))))"

definition mount_memory :: "('c, sfs_err + unit) fsact" where
  "mount_memory = look (\<lambda>f. let bs = unat (g_bs (fs_geo f)) in
     run (sfs_alloc bs) (\<lambda>a. run (sfs_alloc bs) (\<lambda>b.
     if \<not> a \<or> \<not> b then mount_fail False a b True True SFS_ENOMEM
     else run (sfs_cache_init (if fs_mflags f AND SFS_MOUNT_NAIVE \<noteq> 0 then 64
                else if ops_cache_blocks (fs_ops f) \<noteq> 0 then ops_cache_blocks (fs_ops f) else 2048)) (\<lambda>rc. case rc of
            Inl e \<Rightarrow> mount_fail False True True True True e
          | Inr _ \<Rightarrow> run mount_load (\<lambda>rc. case rc of
              Inl e \<Rightarrow> mount_fail True True True True True e
            | Inr _ \<Rightarrow> ok ())))))"

definition mount_super :: "('c, sfs_err + unit) fsact" where
  "mount_super = run (sfs_alloc 1024) (\<lambda>sb. run (sfs_alloc sizeof_patab) (\<lambda>pa. look (\<lambda>f.
     if \<not> sb \<or> \<not> pa then mount_fail False False False pa sb SFS_ENOMEM
     else if ops_size (fs_ops f) \<noteq> 0 \<and> ops_size (fs_ops f) < 2048 then mount_fail False False False True True SFS_EINVAL
     else run (chk read_sbraw (\<lambda>_. parse_super)) (\<lambda>rc. case rc of
            Inl e \<Rightarrow> mount_fail False False False True True e
          | Inr _ \<Rightarrow> mount_memory))))"

definition sfs_mount :: "'c sfs_ops \<Rightarrow> u32 \<Rightarrow> 'c \<Rightarrow> (sfs_err + 'c sfs_fs) \<times> 'c" where
  "sfs_mount ops flags c = (case ops_alloc ops c sizeof_fs of (good, c) \<Rightarrow>
     if \<not> good then (Inl SFS_ENOMEM, c)
     else let mflags = (if ops_write ops = None then flags OR SFS_MOUNT_RDONLY else flags)
       in case mount_super (zero_fs ops c mflags) of
            (Inl e, f) \<Rightarrow> (Inl e, fs_ctx f)
          | (Inr _, f) \<Rightarrow> (Inr f, fs_ctx f))"

definition sfs_sync :: "('c, sfs_err + unit) fsact" where
  "sfs_sync = look (\<lambda>f. if fs_dead f then throw SFS_EIO
     else if fs_ro f then ok ()
     else chk sfs_commit (\<lambda>_. chk sfs_dev_flush (\<lambda>_. look (\<lambda>f.
       if fs_mflags f AND SFS_MOUNT_CLEAN_ON_SYNC \<noteq> 0 \<and> fs_mounted_dirty f then set_mounted_state False else ok ()))))"

definition sfs_unmount :: "('c, sfs_err + unit) fsact" where
  "sfs_unmount = look (\<lambda>f.
     run (if \<not> fs_ro f \<and> \<not> fs_dead f
          then run (upd_pa (\<lambda>p. p\<lparr>pa_w := map (\<lambda>w. w\<lparr>w_len := 0\<rparr>) (pa_w p)\<rparr>)) (\<lambda>_.
               chk sfs_commit (\<lambda>_. look (\<lambda>f.
               chk (if j_present (fs_jnl f) then sfs_journal_mark_clean else ok ()) (\<lambda>_. look (\<lambda>f.
               if fs_mounted_dirty f then set_mounted_state False else ok ())))))
          else ok ()) (\<lambda>rc.
     run (fs_release True True True True True) (\<lambda>_. ret rc)))"

subsection \<open>Queries\<close>

record sfs_statfs_t =
  sf_block_size :: u32
  sf_blocks :: u64
  sf_free_blocks :: u64
  sf_inodes :: u32
  sf_free_inodes :: u32
  sf_groups :: u32
  sf_feature_compat :: u32
  sf_feature_incompat :: u32
  sf_feature_ro_compat :: u32
  sf_journal_features :: u32
  sf_read_only :: bool
  sf_ro_reason :: u32
  sf_uuid :: bytes
  sf_label :: bytes

definition sfs_statfs :: "'c sfs_fs \<Rightarrow> sfs_statfs_t" where
  "sfs_statfs f = \<lparr>sf_block_size = g_bs (fs_geo f), sf_blocks = g_nblocks (fs_geo f),
     sf_free_blocks = fs_free_blocks f + t_free_blocks_pending (fs_txn f),
     sf_inodes = g_inodes_count (fs_geo f), sf_free_inodes = fs_free_inodes f, sf_groups = g_ngroups (fs_geo f),
     sf_feature_compat = fs_feat_compat f, sf_feature_incompat = fs_feat_incompat f, sf_feature_ro_compat = fs_feat_ro f,
     sf_journal_features = (if j_present (fs_jnl f) then j_feat_incompat (fs_jnl f) else 0),
     sf_read_only = fs_ro f, sf_ro_reason = fs_ro_reason f, sf_uuid = g_uuid (fs_geo f),
     sf_label = slice (fs_sbraw f) SB_volume_name 16 @ [0]\<rparr>"

definition sfs_get_stats :: "'c sfs_fs \<Rightarrow> sfs_stats" where
  "sfs_get_stats f = fs_st f"

definition sfs_is_readonly :: "'c sfs_fs \<Rightarrow> bool" where
  "sfs_is_readonly f = fs_ro f"

definition sfs_block_size :: "'c sfs_fs \<Rightarrow> u32" where
  "sfs_block_size f = g_bs (fs_geo f)"

definition sfs_set_write_limit :: "u64 \<Rightarrow> ('c \<Rightarrow> 'c) option \<Rightarrow> ('c, unit) fsact" where
  "sfs_set_write_limit n hit = upd (\<lambda>f. f\<lparr>fs_write_limit := (if n \<noteq> 0 then st_writes (fs_st f) + n else 0),
     fs_write_hit := hit\<rparr>)"

end
