(* ===== verification/Sfs_Api.thy ===== *)
theory Sfs_Api
  imports Sfs_Super
begin

unbundle bit_operations_syntax

section \<open>The public operations (sfs\_api.c)\<close>

text \<open>
  Look-up, status, enumeration, reading and writing, creation, removal, renaming and path
  resolution. An update runs between \<open>sfs_op_begin\<close> and \<open>sfs_op_end\<close>. An inode of the C code is a
  pointer into the inode cache; here it is its number, which is the key of the cache. Names and
  paths are byte lists (a path without its terminating NUL).
\<close>

abbreviation (input) LINK_MAX :: nat where "LINK_MAX \<equiv> 65000"
abbreviation (input) SLASH :: u8 where "SLASH \<equiv> 0x2F"
abbreviation (input) DOT :: u8 where "DOT \<equiv> 0x2E"

definition name_ok :: "bytes \<Rightarrow> sfs_err + unit" where
  "name_ok name = (if name = [] then Inl SFS_EINVAL
     else if SFS_NAME_MAX < length name then Inl SFS_ENAMETOOLONG
     else if \<exists>c \<in> set name. c = SLASH \<or> c = 0 then Inl SFS_EINVAL
     else if name = [DOT] \<or> name = [DOT, DOT] then Inl SFS_EINVAL
     else Inr ())"

definition get_dir :: "u32 \<Rightarrow> ('c, sfs_err + u32) fsact" where
  "get_dir ino = chk (sfs_iget ino) (\<lambda>d. look (\<lambda>s.
     if \<not> sfs_is_dir (ino_of s d) then run (sfs_iput d) (\<lambda>_. throw SFS_ENOTDIR)
     else if in_links (ino_of s d) = 0 then run (sfs_iput d) (\<lambda>_. throw SFS_ENOENT)
     else ok d))"

definition is_dx :: "'c sfs_fs \<Rightarrow> u32 \<Rightarrow> bool" where
  "is_dx s d = (g_dir_index (fs_geo s) \<and> in_flags (ino_of s d) AND IFL_INDEX \<noteq> 0)"

definition dir_link_inc :: "u32 \<Rightarrow> ('c, unit) fsact" where
  "dir_link_inc d = look (\<lambda>s. let links = in_links (ino_of s d) in
     if links = 1 \<and> g_dir_nlink (fs_geo s) then sfs_idirty d
     else run (upd_ino d (\<lambda>x. x\<lparr>in_links := (if LINK_MAX < unat links + 1 then 1 else links + 1)\<rparr>)) (\<lambda>_. sfs_idirty d))"

definition dir_link_dec :: "u32 \<Rightarrow> ('c, unit) fsact" where
  "dir_link_dec d = run (upd_ino d (\<lambda>x. if 2 < in_links x then x\<lparr>in_links := in_links x - 1\<rparr> else x)) (\<lambda>_. sfs_idirty d)"

subsection \<open>Reading\<close>

definition sfs_lookup :: "u32 \<Rightarrow> bytes \<Rightarrow> ('c, sfs_err + u32 \<times> u8) fsact" where
  "sfs_lookup dir name = look (\<lambda>s. if fs_dead s then throw SFS_EIO
     else chk (get_dir dir) (\<lambda>d. run (sfs_dir_lookup d name) (\<lambda>rc. run (sfs_iput d) (\<lambda>_. look (\<lambda>s.
       case rc of Inl e \<Rightarrow> throw e
       | Inr (ino, ty) \<Rightarrow> if sfs_ino_valid (fs_geo s) ino then ok (ino, ty) else throw SFS_ECORRUPT)))))"

record sfs_stat_t =
  st_ino :: u32
  st_mode :: u16
  st_links :: u16
  st_uid :: u32
  st_gid :: u32
  st_size :: u64
  st_blocks :: u64
  st_atime :: u64
  st_mtime :: u64
  st_ctime :: u64
  st_crtime :: u64
  st_atime_ns :: u32
  st_mtime_ns :: u32
  st_ctime_ns :: u32
  st_crtime_ns :: u32
  st_flags :: u32
  st_generation :: u32

definition stat_of :: "sfs_geo \<Rightarrow> u32 \<Rightarrow> sfs_inode \<Rightarrow> sfs_stat_t" where
  "stat_of geo ino x = \<lparr>st_ino = ino, st_mode = in_mode x, st_links = in_links x, st_uid = in_uid x, st_gid = in_gid x,
     st_size = in_size x, st_blocks = push_bit (g_bs_bits geo - 9) (in_nblocks x),
     st_atime = in_atime x, st_mtime = in_mtime x, st_ctime = in_ctime x, st_crtime = in_crtime x,
     st_atime_ns = in_atime_ns x, st_mtime_ns = in_mtime_ns x, st_ctime_ns = in_ctime_ns x, st_crtime_ns = in_crtime_ns x,
     st_flags = in_flags x, st_generation = in_generation x\<rparr>"

definition sfs_stat :: "u32 \<Rightarrow> ('c, sfs_err + sfs_stat_t) fsact" where
  "sfs_stat ino = look (\<lambda>s. if fs_dead s then throw SFS_EIO
     else chk (sfs_iget ino) (\<lambda>i. look (\<lambda>s.
       let st = stat_of (fs_geo s) ino (ino_of s i) in run (sfs_iput i) (\<lambda>_. ok st))))"

definition sfs_readdir :: "u32 \<Rightarrow> u64 \<Rightarrow> ('c, (sfs_err + sfs_dirent option) \<times> u64) fsact" where
  "sfs_readdir dir cookie = look (\<lambda>s. if fs_dead s then ret (Inl SFS_EIO, cookie)
     else run (sfs_iget dir) (\<lambda>rc. case rc of Inl e \<Rightarrow> ret (Inl e, cookie)
     | Inr d \<Rightarrow> run (sfs_dir_next d cookie) (\<lambda>r. run (sfs_iput d) (\<lambda>_. ret r))))"

definition sfs_read :: "u32 \<Rightarrow> u64 \<Rightarrow> u64 \<Rightarrow> ('c, (sfs_err + unit) \<times> bytes) fsact" where
  "sfs_read ino off len = look (\<lambda>s. if fs_dead s then ret (Inl SFS_EIO, [])
     else run (sfs_iget ino) (\<lambda>rc. case rc of Inl e \<Rightarrow> ret (Inl e, [])
     | Inr i \<Rightarrow> look (\<lambda>s. run (if sfs_is_dir (ino_of s i) then ret (Inl SFS_EISDIR, []) else sfs_file_read i off len) (\<lambda>r.
         run (sfs_iput i) (\<lambda>_. ret r)))))"

definition sfs_readlink :: "u32 \<Rightarrow> nat \<Rightarrow> ('c, sfs_err + bytes) fsact" where
  "sfs_readlink ino cap = look (\<lambda>s. if fs_dead s then throw SFS_EIO
     else chk (sfs_iget ino) (\<lambda>i. run (sfs_symlink_read i cap) (\<lambda>r. run (sfs_iput i) (\<lambda>_. ret r))))"

subsection \<open>Data and attribute updates\<close>

text \<open>\<open>with_inode\<close>: an operation whose body works on one inode taken with \<open>sfs_iget\<close>.\<close>

definition with_inode :: "u32 \<Rightarrow> ('c, sfs_err + unit) fsact \<Rightarrow> ('c, sfs_err + unit) fsact" where
  "with_inode ino body = chk sfs_op_begin (\<lambda>_.
     run (chk (sfs_iget ino) (\<lambda>i. run body (\<lambda>rc. run (sfs_iput i) (\<lambda>_. ret rc)))) sfs_op_end)"

text \<open>\<open>sfs_write\<close> gives its return code and \<open>*done\<close>; the code is the \<open>int\<close> of \<open>sfs_file_write\<close>.\<close>

definition sfs_write :: "u32 \<Rightarrow> u64 \<Rightarrow> bytes \<Rightarrow> ('c, (sfs_err + nat) \<times> u64) fsact" where
  "sfs_write ino off buf = run sfs_op_begin (\<lambda>rc. case rc of Inl e \<Rightarrow> ret (Inl e, 0)
     | Inr _ \<Rightarrow> run (sfs_iget ino) (\<lambda>rc. case rc of
         Inl e \<Rightarrow> run (op_end_code (Inl e)) (\<lambda>rc. ret (rc, 0))
       | Inr i \<Rightarrow> run (sfs_file_write i off buf) (\<lambda>(rc, done). run (sfs_iput i) (\<lambda>_.
           run (op_end_code rc) (\<lambda>rc. ret (rc, done))))))"

definition sfs_truncate :: "u32 \<Rightarrow> u64 \<Rightarrow> ('c, sfs_err + unit) fsact" where
  "sfs_truncate ino sz = with_inode ino (sfs_file_truncate ino sz)"

definition sfs_set_times :: "u32 \<Rightarrow> u64 option \<Rightarrow> u64 option \<Rightarrow> ('c, sfs_err + unit) fsact" where
  "sfs_set_times ino atime mtime = with_inode ino (
     run (upd_ino ino (\<lambda>x. let x = (case atime of None \<Rightarrow> x | Some t \<Rightarrow> x\<lparr>in_atime := t, in_atime_ns := 0\<rparr>)
            in case mtime of None \<Rightarrow> x | Some t \<Rightarrow> x\<lparr>in_mtime := t, in_mtime_ns := 0\<rparr>)) (\<lambda>_.
     run (sfs_inode_touch ino False True False) (\<lambda>_. run (sfs_idirty ino) (\<lambda>_. ok ()))))"

definition new_mode :: "u16 \<Rightarrow> u16 \<Rightarrow> u16" where
  "new_mode old mode = (old AND SFS_S_IFMT) OR (mode AND 0xFFF)"

definition sfs_set_mode :: "u32 \<Rightarrow> u16 \<Rightarrow> ('c, sfs_err + unit) fsact" where
  "sfs_set_mode ino mode = with_inode ino (
     run (upd_ino ino (\<lambda>x. x\<lparr>in_mode := new_mode (in_mode x) mode\<rparr>)) (\<lambda>_.
     run (sfs_inode_touch ino False True False) (\<lambda>_. run (sfs_idirty ino) (\<lambda>_. ok ()))))"

subsection \<open>Creation\<close>

definition destroy_inode :: "u32 \<Rightarrow> ('c, sfs_err + unit) fsact" where
  "destroy_inode i = run sfs_now (\<lambda>now64. let now = ucast now64 :: u32 in
     chk (sfs_orphan_add i) (\<lambda>_. chk (sfs_inode_release_all i) (\<lambda>_. chk (sfs_orphan_del i) (\<lambda>_.
     run (upd_ino i (\<lambda>x. x\<lparr>in_links := 0, in_dtime := (if now \<noteq> 0 then now else 1)\<rparr>)) (\<lambda>_.
     run (sfs_idirty i) (\<lambda>_. look (\<lambda>s.
     chk (sfs_free_inode i (sfs_is_dir (ino_of s i))) (\<lambda>_. sfs_iflush i))))))))"

definition slow_symlink :: "u32 \<Rightarrow> bytes \<Rightarrow> ('c, sfs_err + unit) fsact" where
  "slow_symlink i target = run (sfs_goal_for (Some i) 0) (\<lambda>goal.
     chk (sfs_alloc_blocks (Some i) 0 goal 1) (\<lambda>(pblk, got).
     chk (sfs_ext_insert i 0 pblk 1) (\<lambda>_. chk (sfs_add_blocks i 1) (\<lambda>_. chk (sfs_bnew pblk) (\<lambda>b.
     run (set_bdata b (\<lambda>d. blit d 0 target)) (\<lambda>_.
     run (sfs_bdirty_meta b) (\<lambda>rc.
     run (sfs_bput b) (\<lambda>_.
     run (upd_ino i (\<lambda>x. x\<lparr>in_size := of_nat (length target)\<rparr>)) (\<lambda>_. ret rc)))))))))"

text \<open>The checks of \<open>create_common\<close> in the directory, and the number of the new inode.\<close>

definition create_alloc :: "u32 \<Rightarrow> bytes \<Rightarrow> bool \<Rightarrow> ('c, sfs_err + u32) fsact" where
  "create_alloc d name isdir = run (sfs_dir_lookup d name) (\<lambda>rc. look (\<lambda>s. let links = in_links (ino_of s d) in
     case rc of Inr _ \<Rightarrow> throw SFS_EEXIST
     | Inl e \<Rightarrow> if e \<noteq> SFS_ENOENT then throw e
         else if isdir \<and> LINK_MAX \<le> unat links \<and> \<not> (g_dir_nlink (fs_geo s) \<and> is_dx s d) then throw SFS_ERANGE
         else if isdir \<and> links = 1 \<and> \<not> g_dir_nlink (fs_geo s) then throw SFS_ERANGE
         else sfs_alloc_inode d isdir))"

definition create_fill :: "u32 \<Rightarrow> u32 \<Rightarrow> bool \<Rightarrow> bytes option \<Rightarrow> ('c, sfs_err + unit) fsact" where
  "create_fill i dir isdir target =
    (if isdir then run (upd_ino i (\<lambda>x. x\<lparr>in_links := 2\<rparr>)) (\<lambda>_. sfs_dir_init i dir)
     else case target of None \<Rightarrow> ok ()
     | Some t \<Rightarrow> if length t < IN_BLOCK_BYTES
         then run (upd_ino i (\<lambda>x. x\<lparr>in_flags := in_flags x AND NOT IFL_EXTENTS,
                in_iblock := blit (replicate IN_BLOCK_BYTES 0) 0 t, in_size := of_nat (length t)\<rparr>)) (\<lambda>_. ok ())
         else slow_symlink i t)"

definition create_undo :: "u32 \<Rightarrow> u32 \<Rightarrow> bool \<Rightarrow> sfs_err \<Rightarrow> ('c, sfs_err + u32) fsact" where
  "create_undo i d isdir e = run (sfs_inode_release_all i) (\<lambda>urc.
     run sfs_now (\<lambda>now.
     run (upd_ino i (\<lambda>x. x\<lparr>in_links := 0, in_dtime := ucast now OR 1\<rparr>)) (\<lambda>_.
     run (sfs_idirty i) (\<lambda>_.
     run (rcthen urc (chk (sfs_free_inode i isdir) (\<lambda>_. sfs_iflush i))) (\<lambda>urc.
     run (sfs_iput i) (\<lambda>_.
     run (sfs_iforget i) (\<lambda>_.
     run (sfs_iput d) (\<lambda>_.
     chk (sfs_op_end (case urc of Inl u \<Rightarrow> Inl u | Inr _ \<Rightarrow> Inl e)) (\<lambda>_. ok i)))))))))"

definition create_in :: "u32 \<Rightarrow> bytes \<Rightarrow> u16 \<Rightarrow> bytes option \<Rightarrow> ('c, sfs_err + u32) fsact" where
  "create_in d name mode target = (let isdir = (mode AND SFS_S_IFMT = SFS_S_IFDIR) in
     run (create_alloc d name isdir) (\<lambda>rc. case rc of
       Inl e \<Rightarrow> run (sfs_iput d) (\<lambda>_. chk (sfs_op_end (Inl e)) (\<lambda>_. throw e))
     | Inr ino \<Rightarrow> run (sfs_iget_new ino mode) (\<lambda>rc. case rc of
         Inl e \<Rightarrow> run (sfs_free_inode ino isdir) (\<lambda>_. run (sfs_iput d) (\<lambda>_. chk (sfs_op_end (Inl e)) (\<lambda>_. throw e)))
       | Inr i \<Rightarrow> run (chk (create_fill i d isdir target) (\<lambda>_. sfs_dir_add d name i (sfs_mode_to_ft mode))) (\<lambda>rc.
           case rc of Inl e \<Rightarrow> create_undo i d isdir e
           | Inr _ \<Rightarrow> run (whenA isdir (dir_link_inc d)) (\<lambda>_.
               run (sfs_inode_touch d True True False) (\<lambda>_.
               run (sfs_iput i) (\<lambda>_.
               run (sfs_iput d) (\<lambda>_.
               chk (sfs_op_end (Inr ())) (\<lambda>_. ok ino)))))))))"

definition target_ok :: "sfs_geo \<Rightarrow> bytes option \<Rightarrow> sfs_err + unit" where
  "target_ok geo target = (case target of None \<Rightarrow> Inr ()
     | Some t \<Rightarrow> if t = [] then Inl SFS_EINVAL
         else if unat (g_bs geo) \<le> length t \<or> 4095 < length t then Inl SFS_ENAMETOOLONG else Inr ())"

definition create_common :: "u32 \<Rightarrow> bytes \<Rightarrow> u16 \<Rightarrow> bytes option \<Rightarrow> ('c, sfs_err + u32) fsact" where
  "create_common dir name mode target = chk (ret (name_ok name)) (\<lambda>_. look (\<lambda>s.
     chk (ret (target_ok (fs_geo s) target)) (\<lambda>_.
     chk sfs_op_begin (\<lambda>_. run (get_dir dir) (\<lambda>rc. case rc of
       Inl e \<Rightarrow> chk (sfs_op_end (Inl e)) (\<lambda>_. throw e)
     | Inr d \<Rightarrow> create_in d name mode target)))))"

definition sfs_create :: "u32 \<Rightarrow> bytes \<Rightarrow> u16 \<Rightarrow> ('c, sfs_err + u32) fsact" where
  "sfs_create dir name mode = create_common dir name (SFS_S_IFREG OR (mode AND 0xFFF)) None"

definition sfs_mkdir :: "u32 \<Rightarrow> bytes \<Rightarrow> u16 \<Rightarrow> ('c, sfs_err + u32) fsact" where
  "sfs_mkdir dir name mode = create_common dir name (SFS_S_IFDIR OR (mode AND 0xFFF)) None"

definition sfs_symlink :: "u32 \<Rightarrow> bytes \<Rightarrow> bytes \<Rightarrow> ('c, sfs_err + u32) fsact" where
  "sfs_symlink dir name target = create_common dir name (SFS_S_IFLNK OR 0x1FF) (Some target)"

subsection \<open>Removal\<close>

text \<open>The part that \<open>sfs_unlink\<close> and \<open>sfs_rmdir\<close> share: the directory \<open>d\<close>, the entry's inode \<open>i\<close>, the body
  between taking and dropping the two references, and whether the inode is to be forgotten.\<close>

definition unlink_body :: "u32 \<Rightarrow> bytes \<Rightarrow> u32 \<Rightarrow> ('c, sfs_err + unit) fsact" where
  "unlink_body d name i = look (\<lambda>s. let x = ino_of s i in
     if sfs_is_dir x then throw SFS_EISDIR
     else if in_flags x AND (IFL_IMMUTABLE OR IFL_APPEND) \<noteq> 0 then throw SFS_EROFS
     else chk (sfs_dir_remove d name i) (\<lambda>_.
       run (upd_ino i (\<lambda>x. if in_links x \<noteq> 0 then x\<lparr>in_links := in_links x - 1\<rparr> else x)) (\<lambda>_.
       run (sfs_inode_touch i False True False) (\<lambda>_.
       run (sfs_inode_touch d True True False) (\<lambda>_. look (\<lambda>s.
       if in_links (ino_of s i) = 0 then destroy_inode i else ok ()))))))"

definition sfs_unlink :: "u32 \<Rightarrow> bytes \<Rightarrow> ('c, sfs_err + unit) fsact" where
  "sfs_unlink dir name = chk (ret (name_ok name)) (\<lambda>_. chk sfs_op_begin (\<lambda>_.
     run (get_dir dir) (\<lambda>rc. case rc of Inl e \<Rightarrow> sfs_op_end (Inl e)
     | Inr d \<Rightarrow> run (chk (sfs_dir_lookup d name) (\<lambda>(ino, _). sfs_iget ino)) (\<lambda>rc. case rc of
         Inl e \<Rightarrow> run (sfs_iput d) (\<lambda>_. sfs_op_end (Inl e))
       | Inr i \<Rightarrow> run (unlink_body d name i) (\<lambda>rc. look (\<lambda>s.
           let gone = (in_links (ino_of s i) = 0) in
           run (sfs_iput i) (\<lambda>_.
           run (whenA (rc = Inr () \<and> gone) (sfs_iforget i)) (\<lambda>_.
           run (sfs_iput d) (\<lambda>_. sfs_op_end rc)))))))))"

definition empty_check :: "u32 \<Rightarrow> ('c, sfs_err + unit) fsact" where
  "empty_check i = chk (sfs_dir_is_empty i) (\<lambda>empty. if empty then ok () else throw SFS_ENOTEMPTY)"

definition rmdir_body :: "u32 \<Rightarrow> bytes \<Rightarrow> u32 \<Rightarrow> ('c, sfs_err + unit) fsact" where
  "rmdir_body d name c = look (\<lambda>s.
     chk (if \<not> sfs_is_dir (ino_of s c) then throw SFS_ENOTDIR
          else if c = SFS_ROOT_INO then throw SFS_EBUSY else empty_check c) (\<lambda>_.
     chk (sfs_dir_remove d name c) (\<lambda>_.
     run (dir_link_dec d) (\<lambda>_.
     run (sfs_inode_touch d True True False) (\<lambda>_.
     run (upd_ino c (\<lambda>x. x\<lparr>in_links := 0\<rparr>)) (\<lambda>_. destroy_inode c))))))"

definition sfs_rmdir :: "u32 \<Rightarrow> bytes \<Rightarrow> ('c, sfs_err + unit) fsact" where
  "sfs_rmdir dir name = chk (ret (name_ok name)) (\<lambda>_. chk sfs_op_begin (\<lambda>_.
     run (get_dir dir) (\<lambda>rc. case rc of Inl e \<Rightarrow> sfs_op_end (Inl e)
     | Inr d \<Rightarrow> run (chk (sfs_dir_lookup d name) (\<lambda>(ino, _). sfs_iget ino)) (\<lambda>rc. case rc of
         Inl e \<Rightarrow> run (sfs_iput d) (\<lambda>_. sfs_op_end (Inl e))
       | Inr c \<Rightarrow> run (rmdir_body d name c) (\<lambda>rc.
           run (sfs_iput c) (\<lambda>_.
           run (whenA (rc = Inr ()) (sfs_iforget c)) (\<lambda>_.
           run (sfs_iput d) (\<lambda>_. sfs_op_end rc))))))))"

subsection \<open>Renaming\<close>

text \<open>The walk \<open>while (cur != ROOT && guard++ < 4096)\<close> towards the root.\<close>

primrec ancestor_loop :: "nat \<Rightarrow> u32 \<Rightarrow> u32 \<Rightarrow> ('c, sfs_err + bool) fsact" where
  "ancestor_loop 0 anc cur = ok (cur = anc)"
| "ancestor_loop (Suc k) anc cur = (if cur = SFS_ROOT_INO then ok (cur = anc)
     else if cur = anc then ok True
     else chk (sfs_iget cur) (\<lambda>d. run (sfs_dir_get_parent d) (\<lambda>rc. run (sfs_iput d) (\<lambda>_.
       chk (ret rc) (\<lambda>parent. if parent = cur then ok (cur = anc) else ancestor_loop k anc parent)))))"

definition is_ancestor :: "u32 \<Rightarrow> u32 \<Rightarrow> ('c, sfs_err + bool) fsact" where
  "is_ancestor anc dir = ancestor_loop 4096 anc dir"

text \<open>The target entry: \<open>0\<close> when the new name is free.\<close>

definition rename_find :: "u32 \<Rightarrow> u32 \<Rightarrow> u32 \<Rightarrow> bytes \<Rightarrow> ('c, sfs_err + u32) fsact" where
  "rename_find src od nd nname = look (\<lambda>s.
     chk (if sfs_is_dir (ino_of s src) \<and> od \<noteq> nd
          then chk (is_ancestor src nd) (\<lambda>anc. if anc then throw SFS_EINVAL else ok ())
          else ok ()) (\<lambda>_.
     run (sfs_dir_lookup nd nname) (\<lambda>rc. case rc of
       Inr (tino, _) \<Rightarrow> ok tino | Inl e \<Rightarrow> if e = SFS_ENOENT then ok 0 else throw e)))"

definition rename_target_ok :: "u32 \<Rightarrow> u32 \<Rightarrow> ('c, sfs_err + unit) fsact" where
  "rename_target_ok src tgt = look (\<lambda>s.
     if sfs_is_dir (ino_of s tgt)
     then if \<not> sfs_is_dir (ino_of s src) then throw SFS_EISDIR else empty_check tgt
     else if sfs_is_dir (ino_of s src) then throw SFS_ENOTDIR else ok ())"

definition rename_enter :: "u32 \<Rightarrow> u32 \<Rightarrow> u32 \<Rightarrow> bytes \<Rightarrow> u32 option \<Rightarrow> ('c, sfs_err + unit) fsact" where
  "rename_enter src od nd nname tgt = look (\<lambda>s. let x = ino_of s src in case tgt of
     Some t \<Rightarrow> chk (rename_target_ok src t) (\<lambda>_. sfs_dir_set_inode nd nname src (sfs_mode_to_ft (in_mode x)))
   | None \<Rightarrow> if sfs_is_dir x \<and> od \<noteq> nd \<and> LINK_MAX \<le> unat (in_links (ino_of s nd)) \<and> \<not> (g_dir_nlink (fs_geo s) \<and> is_dx s nd)
       then throw SFS_ERANGE
       else sfs_dir_add nd nname src (sfs_mode_to_ft (in_mode x)))"

definition rename_drop_target :: "bool \<Rightarrow> u32 \<Rightarrow> u32 \<Rightarrow> u32 \<Rightarrow> ('c, sfs_err + unit) fsact" where
  "rename_drop_target srcdir od nd t = look (\<lambda>s.
     run (if sfs_is_dir (ino_of s t)
          then run (upd_ino t (\<lambda>x. x\<lparr>in_links := 0\<rparr>)) (\<lambda>_. whenA (od = nd \<or> \<not> srcdir) (dir_link_dec nd))
          else upd_ino t (\<lambda>x. if in_links x \<noteq> 0 then x\<lparr>in_links := in_links x - 1\<rparr> else x)) (\<lambda>_.
     run (sfs_inode_touch t False True False) (\<lambda>_. look (\<lambda>s.
     if in_links (ino_of s t) = 0 then destroy_inode t else ok ()))))"

definition rename_apply :: "u32 \<Rightarrow> u32 \<Rightarrow> bytes \<Rightarrow> u32 \<Rightarrow> bytes \<Rightarrow> u32 option \<Rightarrow> ('c, sfs_err + unit) fsact" where
  "rename_apply src od oname nd nname tgt = look (\<lambda>s. let srcdir = sfs_is_dir (ino_of s src) in
     chk (rename_enter src od nd nname tgt) (\<lambda>_.
     chk (sfs_dir_remove od oname src) (\<lambda>_.
     chk (if srcdir \<and> od \<noteq> nd
          then chk (sfs_dir_set_parent src nd) (\<lambda>_. run (dir_link_dec od) (\<lambda>_.
               run (whenA (tgt = None) (dir_link_inc nd)) (\<lambda>_. ok ())))
          else ok ()) (\<lambda>_.
     run (case tgt of None \<Rightarrow> ok () | Some t \<Rightarrow> rename_drop_target srcdir od nd t) (\<lambda>rc.
     run (sfs_inode_touch src False True False) (\<lambda>_.
     run (sfs_inode_touch od True True False) (\<lambda>_.
     run (whenA (nd \<noteq> od) (sfs_inode_touch nd True True False)) (\<lambda>_. ret rc))))))))"

text \<open>The code at the label \<open>out\<close>; an inode that was not taken is \<open>None\<close>.\<close>

definition rename_out :: "u32 option \<Rightarrow> u32 option \<Rightarrow> u32 option \<Rightarrow> u32 option \<Rightarrow> sfs_err + unit \<Rightarrow> ('c, sfs_err + unit) fsact" where
  "rename_out od nd src tgt rc =
     run (case tgt of None \<Rightarrow> ret () | Some t \<Rightarrow> look (\<lambda>s. let gone = (in_links (ino_of s t) = 0) in
            run (sfs_iput t) (\<lambda>_. whenA (gone \<and> rc = Inr ()) (sfs_iforget t)))) (\<lambda>_.
     run (case src of None \<Rightarrow> ret () | Some i \<Rightarrow> sfs_iput i) (\<lambda>_.
     run (case nd of None \<Rightarrow> ret () | Some i \<Rightarrow> sfs_iput i) (\<lambda>_.
     run (case od of None \<Rightarrow> ret () | Some i \<Rightarrow> sfs_iput i) (\<lambda>_. sfs_op_end rc))))"

definition rename_src :: "u32 \<Rightarrow> bytes \<Rightarrow> u32 \<Rightarrow> bytes \<Rightarrow> bool \<Rightarrow> u32 \<Rightarrow> ('c, sfs_err + unit) fsact" where
  "rename_src od oname nd nname replace src = (let out = rename_out (Some od) (Some nd) (Some src) in
     run (rename_find src od nd nname) (\<lambda>rc. case rc of Inl e \<Rightarrow> out None (Inl e)
     | Inr tino \<Rightarrow>
         if tino = 0 then run (rename_apply src od oname nd nname None) (out None)
         else if tino = src then out None (Inr ())
         else if \<not> replace then out None (Inl SFS_EEXIST)
         else run (sfs_iget tino) (\<lambda>rc. case rc of Inl e \<Rightarrow> out None (Inl e)
           | Inr t \<Rightarrow> run (rename_apply src od oname nd nname (Some t)) (out (Some t)))))"

definition sfs_rename :: "u32 \<Rightarrow> bytes \<Rightarrow> u32 \<Rightarrow> bytes \<Rightarrow> bool \<Rightarrow> ('c, sfs_err + unit) fsact" where
  "sfs_rename odir oname ndir nname replace =
     chk (ret (name_ok oname)) (\<lambda>_. chk (ret (name_ok nname)) (\<lambda>_. chk sfs_op_begin (\<lambda>_.
     run (get_dir odir) (\<lambda>rc. case rc of Inl e \<Rightarrow> rename_out None None None None (Inl e)
     | Inr od \<Rightarrow> run (get_dir ndir) (\<lambda>rc. case rc of Inl e \<Rightarrow> rename_out (Some od) None None None (Inl e)
       | Inr nd \<Rightarrow> run (chk (sfs_dir_lookup od oname) (\<lambda>(sino, _). sfs_iget sino)) (\<lambda>rc. case rc of
           Inl e \<Rightarrow> rename_out (Some od) (Some nd) None None (Inl e)
         | Inr src \<Rightarrow> rename_src od oname nd nname replace src))))))"

subsection \<open>Paths\<close>

lemma length_dropWhile_hd: "xs \<noteq> [] \<Longrightarrow> P (hd xs) \<Longrightarrow> length (dropWhile P xs) < length xs"
  by (cases xs) (auto simp: le_imp_less_Suc length_dropWhile_le)

function path_parts :: "bytes \<Rightarrow> bytes list" where
  "path_parts p = (let p = dropWhile (\<lambda>c. c = SLASH) p in
     if p = [] then [] else takeWhile (\<lambda>c. c \<noteq> SLASH) p # path_parts (dropWhile (\<lambda>c. c \<noteq> SLASH) p))"
  by pat_completeness auto

termination
proof (relation "measure length", goal_cases)
  case (2 p p')
  have "p' \<noteq> [] \<Longrightarrow> hd p' \<noteq> SLASH"
    using hd_dropWhile[of "\<lambda>c. c = SLASH" p] 2 by simp
  hence "length (dropWhile (\<lambda>c. c \<noteq> SLASH) p') < length p'"
    using 2 by (simp add: length_dropWhile_hd)
  also have "\<dots> \<le> length p"
    using 2 by (simp add: length_dropWhile_le)
  finally show ?case
    by simp
qed simp

declare path_parts.simps [simp del]

text \<open>The outcome, \<open>*parent\<close> and \<open>*leaf\<close> (\<open>None\<close> for the null pointer).\<close>

fun path_walk :: "bytes list \<Rightarrow> u32 \<Rightarrow> u32 \<Rightarrow> bytes option \<Rightarrow> ('c, (sfs_err + u32) \<times> u32 \<times> bytes option) fsact" where
  "path_walk [] cur par leaf = ret (Inr cur, par, leaf)"
| "path_walk (n # ns) cur par leaf =
    (if n = [DOT] then path_walk ns cur par leaf
     else run (sfs_lookup cur n) (\<lambda>rc. case rc of
       Inl e \<Rightarrow> ret (Inl e, if ns \<noteq> [] then 0 else cur, Some n)
     | Inr (nxt, _) \<Rightarrow> path_walk ns nxt cur (Some n)))"

definition sfs_path_lookup :: "bytes \<Rightarrow> ('c, (sfs_err + u32) \<times> u32 \<times> bytes option) fsact" where
  "sfs_path_lookup path = path_walk (path_parts path) SFS_ROOT_INO SFS_ROOT_INO None"

subsection \<open>Path components\<close>

lemma path_parts_Nil [simp]: "path_parts [] = []"
  by (simp add: path_parts.simps)

lemma path_parts_slash [simp]: "path_parts (SLASH # p) = path_parts p"
  by (subst (1 2) path_parts.simps) simp

lemma path_parts_name:
  assumes "n \<noteq> []" "SLASH \<notin> set n" "p = [] \<or> hd p = SLASH"
  shows "path_parts (n @ p) = n # path_parts p"
proof -
  have d: "dropWhile (\<lambda>c. c = SLASH) (n @ p) = n @ p"
    using assms by (cases n) auto
  have "\<forall>c \<in> set n. c \<noteq> SLASH" "takeWhile (\<lambda>c. c \<noteq> SLASH) p = []" "dropWhile (\<lambda>c. c \<noteq> SLASH) p = p"
    using assms by (auto simp: takeWhile_eq_Nil_iff dropWhile_eq_self_iff)
  hence t: "takeWhile (\<lambda>c. c \<noteq> SLASH) (n @ p) = n" "dropWhile (\<lambda>c. c \<noteq> SLASH) (n @ p) = p"
    by (simp_all add: takeWhile_append2 dropWhile_append2)
  show ?thesis
    using assms by (subst path_parts.simps) (simp only: d t Let_def append_is_Nil_conv if_False simp_thms)
qed

lemma path_parts_join:
  "\<forall>n \<in> set ns. n \<noteq> [] \<and> SLASH \<notin> set n \<Longrightarrow> path_parts (concat (map (\<lambda>n. SLASH # n) ns)) = ns"
proof (induction ns)
  case (Cons n ns)
  have "concat (map (\<lambda>n. SLASH # n) ns) = [] \<or> hd (concat (map (\<lambda>n. SLASH # n) ns)) = SLASH"
    by (cases ns) auto
  thus ?case
    using Cons by (simp add: path_parts_name)
qed simp

lemma path_parts_clean: "n \<in> set (path_parts p) \<Longrightarrow> n \<noteq> [] \<and> SLASH \<notin> set n"
proof (induction p rule: path_parts.induct)
  case (1 p)
  let ?p = "dropWhile (\<lambda>c. c = SLASH) p"
  show ?case
  proof (cases "?p = []")
    case False
    hence hd: "hd ?p \<noteq> SLASH"
      using hd_dropWhile[of "\<lambda>c. c = SLASH" p] by simp
    have "n = takeWhile (\<lambda>c. c \<noteq> SLASH) ?p \<or> n \<in> set (path_parts (dropWhile (\<lambda>c. c \<noteq> SLASH) ?p))"
      using "1.prems" False by (subst (asm) path_parts.simps) (simp only: Let_def if_False list.set insert_iff)
    thus ?thesis
      using "1.IH"[OF refl False] hd False
      by (auto simp: takeWhile_eq_Nil_iff dest: set_takeWhileD)
  qed (use 1 in \<open>subst (asm) path_parts.simps, simp\<close>)
qed

subsection \<open>Volumes that refuse updates\<close>

text \<open>The code with which an update of a dead or read-only volume ends.\<close>

definition refusal :: "'c sfs_fs \<Rightarrow> sfs_err" where
  "refusal s = (if fs_dead s then SFS_EIO else SFS_EROFS)"

lemma op_begin_refused: "fs_dead s \<or> fs_ro s \<Longrightarrow> sfs_op_begin s = (Inl (refusal s), s)"
  by (auto simp: sfs_op_begin_def refusal_def)

lemma with_inode_refused: "fs_dead s \<or> fs_ro s \<Longrightarrow> with_inode ino body s = (Inl (refusal s), s)"
  by (simp add: with_inode_def op_begin_refused)

lemma create_common_refused:
  "fs_dead s \<or> fs_ro s \<Longrightarrow> name_ok name = Inr () \<Longrightarrow> target_ok (fs_geo s) target = Inr () \<Longrightarrow>
   create_common dir name mode target s = (Inl (refusal s), s)"
  by (simp add: create_common_def op_begin_refused)

end
