(* ===== verification/Sfs_Access.thy ===== *)
theory Sfs_Access
  imports Sfs_Api
begin

unbundle bit_operations_syntax

section \<open>Ownership and access checks (sfs\_access.c, sfs\_access.h, sfs\_subject.c, sfs\_subject.h)\<close>

text \<open>
  The policy layer in front of the public operations: credentials, the permission decision over an
  inode's mode, owner and group, the checked forms of the operations, and the mapping from an
  account subject to a credential. The lemmas at the end state the rules of sfs\_access.h: exactly one
  class of the permission bits applies, capabilities widen it only as documented, the sticky bit, and
  that a refused operation is not executed.
\<close>

abbreviation (input) SFS_CRED_NGROUPS :: nat where "SFS_CRED_NGROUPS \<equiv> 32"
abbreviation (input) SFS_CAP_DAC_OVERRIDE :: u32 where "SFS_CAP_DAC_OVERRIDE \<equiv> 0x1"
abbreviation (input) SFS_CAP_DAC_READ_SEARCH :: u32 where "SFS_CAP_DAC_READ_SEARCH \<equiv> 0x2"
abbreviation (input) SFS_CAP_FOWNER :: u32 where "SFS_CAP_FOWNER \<equiv> 0x4"
abbreviation (input) SFS_CAP_CHOWN :: u32 where "SFS_CAP_CHOWN \<equiv> 0x8"
abbreviation (input) SFS_CAP_FSETID :: u32 where "SFS_CAP_FSETID \<equiv> 0x10"
abbreviation (input) SFS_CAP_ALL :: u32 where "SFS_CAP_ALL \<equiv> 0x1F"
abbreviation (input) SFS_MAY_EXEC :: u32 where "SFS_MAY_EXEC \<equiv> 1"
abbreviation (input) SFS_MAY_WRITE :: u32 where "SFS_MAY_WRITE \<equiv> 2"
abbreviation (input) SFS_MAY_READ :: u32 where "SFS_MAY_READ \<equiv> 4"
abbreviation (input) SFS_O_READ :: u32 where "SFS_O_READ \<equiv> 0x01"
abbreviation (input) SFS_O_WRITE :: u32 where "SFS_O_WRITE \<equiv> 0x02"
abbreviation (input) SFS_O_CREATE :: u32 where "SFS_O_CREATE \<equiv> 0x04"
abbreviation (input) SFS_O_EXCL :: u32 where "SFS_O_EXCL \<equiv> 0x08"
abbreviation (input) SFS_O_TRUNC :: u32 where "SFS_O_TRUNC \<equiv> 0x10"
abbreviation (input) SFS_O_DIRECTORY :: u32 where "SFS_O_DIRECTORY \<equiv> 0x20"
abbreviation (input) SFS_ID_KEEP :: u32 where "SFS_ID_KEEP \<equiv> 0xFFFFFFFF"
abbreviation (input) S_ISUID :: u16 where "S_ISUID \<equiv> 0x800"
abbreviation (input) S_ISGID :: u16 where "S_ISGID \<equiv> 0x400"
abbreviation (input) S_ISVTX :: u16 where "S_ISVTX \<equiv> 0x200"

subsection \<open>Credentials and decisions\<close>

record sfs_cred =
  cr_uid :: u32
  cr_gid :: u32
  cr_ngroups :: u32
  cr_groups :: "u32 list"
  cr_caps :: u32

definition sfs_cred_check :: "sfs_cred \<Rightarrow> sfs_err + unit" where
  "sfs_cred_check c = (if SFS_CRED_NGROUPS < unat (cr_ngroups c) \<or> cr_caps c AND NOT SFS_CAP_ALL \<noteq> 0
     then Inl SFS_EINVAL else Inr ())"

definition sfs_cred_in_group :: "sfs_cred \<Rightarrow> u32 \<Rightarrow> bool" where
  "sfs_cred_in_group c gid = (cr_gid c = gid \<or>
     gid \<in> set (take (min (unat (cr_ngroups c)) SFS_CRED_NGROUPS) (cr_groups c)))"

definition st_isdir :: "sfs_stat_t \<Rightarrow> bool" where
  "st_isdir st = (st_mode st AND SFS_S_IFMT = SFS_S_IFDIR)"

definition class_bits :: "sfs_cred \<Rightarrow> sfs_stat_t \<Rightarrow> u32" where
  "class_bits c st = (let mode = ucast (st_mode st) :: u32 in
     if cr_uid c = st_uid st then drop_bit 6 mode AND 7
     else if sfs_cred_in_group c (st_gid st) then drop_bit 3 mode AND 7
     else mode AND 7)"

definition sfs_permission_st :: "sfs_cred \<Rightarrow> sfs_stat_t \<Rightarrow> u32 \<Rightarrow> sfs_err + unit" where
  "sfs_permission_st c st want = (let isdir = st_isdir st; bits = class_bits c st in
     if sfs_cred_check c \<noteq> Inr () \<or> want AND NOT 7 \<noteq> 0 then Inl SFS_EINVAL
     else if bits AND want = want then Inr ()
     else if cr_caps c AND SFS_CAP_DAC_OVERRIDE \<noteq> 0 \<and>
       (want AND SFS_MAY_EXEC = 0 \<or> isdir \<or> st_mode st AND 0x49 \<noteq> 0) then Inr ()
     else if cr_caps c AND SFS_CAP_DAC_READ_SEARCH \<noteq> 0 \<and>
       (if isdir then want AND SFS_MAY_WRITE = 0 else want = SFS_MAY_READ) then Inr ()
     else Inl SFS_EACCES)"

definition sfs_permission :: "sfs_cred \<Rightarrow> u32 \<Rightarrow> u32 \<Rightarrow> ('c, sfs_err + unit) fsact" where
  "sfs_permission c ino want = chk (sfs_stat ino) (\<lambda>st. ret (sfs_permission_st c st want))"

definition dir_check :: "sfs_cred \<Rightarrow> u32 \<Rightarrow> bool \<Rightarrow> ('c, sfs_err + sfs_stat_t) fsact" where
  "dir_check c dir write = chk (ret (sfs_cred_check c)) (\<lambda>_. chk (sfs_stat dir) (\<lambda>dst.
     if \<not> st_isdir dst then throw SFS_ENOTDIR
     else chk (ret (sfs_permission_st c dst (if write then SFS_MAY_WRITE OR SFS_MAY_EXEC else SFS_MAY_EXEC))) (\<lambda>_. ok dst)))"

definition sticky_ok :: "sfs_cred \<Rightarrow> sfs_stat_t \<Rightarrow> sfs_stat_t \<Rightarrow> sfs_err + unit" where
  "sticky_ok c dst victim = (if st_mode dst AND S_ISVTX = 0 then Inr ()
     else if cr_uid c = st_uid victim \<or> cr_uid c = st_uid dst \<or> cr_caps c AND SFS_CAP_FOWNER \<noteq> 0 then Inr ()
     else Inl SFS_EPERM)"

subsection \<open>Walking a path\<close>

text \<open>The outcome and what is stored through \<open>parent\<close> and \<open>leaf\<close>: \<open>None\<close> when nothing is stored yet,
  \<open>Some (parent, None)\<close> for a null leaf.\<close>

fun walk_parts :: "sfs_cred \<Rightarrow> bytes list \<Rightarrow> u32 \<Rightarrow> u32 \<Rightarrow> bytes option \<Rightarrow> (u32 \<times> bytes option) option \<Rightarrow>
    ('c, (sfs_err + u32) \<times> (u32 \<times> bytes option) option) fsact" where
  "walk_parts c [] cur par lf stored = ret (Inr cur, Some (par, lf))"
| "walk_parts c (n # ns) cur par lf stored =
    (if SFS_NAME_MAX < length n then ret (Inl SFS_ENAMETOOLONG, stored)
     else run (sfs_stat cur) (\<lambda>rc. case rc of Inl e \<Rightarrow> ret (Inl e, stored)
     | Inr st \<Rightarrow> if \<not> st_isdir st then ret (Inl SFS_ENOTDIR, stored)
         else (case sfs_permission_st c st SFS_MAY_EXEC of Inl e \<Rightarrow> ret (Inl e, stored)
         | Inr _ \<Rightarrow> run (sfs_lookup cur n) (\<lambda>rc. case rc of
             Inl e \<Rightarrow> ret (Inl e, Some (cur, if e = SFS_ENOENT \<and> ns \<noteq> [] then None else Some n))
           | Inr (nxt, _) \<Rightarrow> walk_parts c ns nxt cur (Some n) (Some (cur, Some n))))))"

definition sfs_walk_as :: "sfs_cred \<Rightarrow> bytes \<Rightarrow> ('c, (sfs_err + u32) \<times> (u32 \<times> bytes option) option) fsact" where
  "sfs_walk_as c path = (case sfs_cred_check c of Inl e \<Rightarrow> ret (Inl e, None)
     | Inr _ \<Rightarrow> if path = [] \<or> hd path \<noteq> SLASH then ret (Inl SFS_EINVAL, None)
         else walk_parts c (path_parts path) SFS_ROOT_INO SFS_ROOT_INO None None)"

subsection \<open>Checked operations\<close>

definition set_owner_in_op :: "u32 \<Rightarrow> u32 \<Rightarrow> u32 \<Rightarrow> u16 \<Rightarrow> ('c, sfs_err + unit) fsact" where
  "set_owner_in_op ino uid gid mode = chk (sfs_iget ino) (\<lambda>i.
     run (upd_ino i (\<lambda>x. x\<lparr>in_uid := uid, in_gid := gid, in_mode := new_mode (in_mode x) mode\<rparr>)) (\<lambda>_.
     run (sfs_inode_touch i False True False) (\<lambda>_.
     run (sfs_idirty i) (\<lambda>_.
     run (sfs_iput i) (\<lambda>_. ok ())))))"

definition sfs_set_owner :: "u32 \<Rightarrow> u32 \<Rightarrow> u32 \<Rightarrow> u16 \<Rightarrow> ('c, sfs_err + unit) fsact" where
  "sfs_set_owner ino uid gid mode = chk sfs_op_begin (\<lambda>_. run (set_owner_in_op ino uid gid mode) sfs_op_end)"

text \<open>The group and the permission bits of a new inode.\<close>

definition owned_attrs :: "sfs_cred \<Rightarrow> sfs_stat_t \<Rightarrow> u16 \<Rightarrow> bool \<Rightarrow> u32 \<times> u16" where
  "owned_attrs c dst mode isdir = (let perm = mode AND 0xFFF; sgid = (st_mode dst AND S_ISGID \<noteq> 0);
       gid = (if sgid then st_gid dst else cr_gid c);
       perm = (if sgid \<and> isdir then perm OR S_ISGID else perm)
     in (gid, if \<not> isdir \<and> perm AND S_ISGID \<noteq> 0 \<and> \<not> sfs_cred_in_group c gid \<and> cr_caps c AND SFS_CAP_FSETID = 0
              then perm AND NOT S_ISGID else perm))"

definition create_owned :: "sfs_cred \<Rightarrow> u32 \<Rightarrow> sfs_stat_t \<Rightarrow> bytes \<Rightarrow> u16 \<Rightarrow> bool \<Rightarrow> ('c, sfs_err + u32) fsact" where
  "create_owned c dir dst name mode isdir = (case owned_attrs c dst mode isdir of (gid, perm) \<Rightarrow>
     chk sfs_op_begin (\<lambda>_.
     run (if isdir then sfs_mkdir dir name 0 else sfs_create dir name 0) (\<lambda>rc. case rc of
       Inl e \<Rightarrow> chk (sfs_op_end (Inl e)) (\<lambda>_. throw e)
     | Inr ino \<Rightarrow> run (set_owner_in_op ino (cr_uid c) gid perm) (\<lambda>rc. chk (sfs_op_end rc) (\<lambda>_. ok ino)))))"

definition open_type_ok :: "sfs_stat_t \<Rightarrow> u32 \<Rightarrow> sfs_err + unit" where
  "open_type_ok st oflags = (if st_mode st AND SFS_S_IFMT = SFS_S_IFLNK then Inl SFS_ENOTSUP
     else if st_isdir st
     then if oflags AND (SFS_O_WRITE OR SFS_O_TRUNC) \<noteq> 0 then Inl SFS_EISDIR else Inr ()
     else if oflags AND SFS_O_DIRECTORY \<noteq> 0 then Inl SFS_ENOTDIR else Inr ())"

definition open_mask :: "u32 \<Rightarrow> u32" where
  "open_mask oflags = (if oflags AND SFS_O_READ \<noteq> 0 then SFS_MAY_READ else 0) OR
     (if oflags AND (SFS_O_WRITE OR SFS_O_TRUNC) \<noteq> 0 then SFS_MAY_WRITE else 0)"

definition open_existing :: "sfs_cred \<Rightarrow> u32 \<Rightarrow> u32 \<Rightarrow> ('c, sfs_err + u32) fsact" where
  "open_existing c oflags ino = chk (sfs_stat ino) (\<lambda>st.
     chk (ret (open_type_ok st oflags)) (\<lambda>_.
     chk (ret (sfs_permission_st c st (open_mask oflags))) (\<lambda>_. look (\<lambda>s.
     if open_mask oflags AND SFS_MAY_WRITE \<noteq> 0 \<and> sfs_is_readonly s then throw SFS_EROFS
     else if oflags AND SFS_O_TRUNC \<noteq> 0 \<and> st_mode st AND SFS_S_IFMT = SFS_S_IFREG \<and> st_size st \<noteq> 0
     then chk (sfs_truncate ino 0) (\<lambda>_. ok ino)
     else ok ino))))"

definition sfs_open_as :: "sfs_cred \<Rightarrow> u32 \<Rightarrow> bytes \<Rightarrow> u32 \<Rightarrow> u16 \<Rightarrow> ('c, sfs_err + u32) fsact" where
  "sfs_open_as c dir name oflags mode = (if oflags AND NOT 0x3F \<noteq> 0 then throw SFS_EINVAL
     else chk (dir_check c dir False) (\<lambda>dst. run (sfs_lookup dir name) (\<lambda>rc. case rc of
       Inl e \<Rightarrow> if e = SFS_ENOENT \<and> oflags AND SFS_O_CREATE \<noteq> 0
         then if oflags AND SFS_O_DIRECTORY \<noteq> 0 then throw SFS_EINVAL
              else chk (ret (sfs_permission_st c dst (SFS_MAY_WRITE OR SFS_MAY_EXEC))) (\<lambda>_. look (\<lambda>s.
                if sfs_is_readonly s then throw SFS_EROFS else create_owned c dir dst name mode False))
         else throw e
     | Inr (ino, _) \<Rightarrow> if oflags AND SFS_O_CREATE \<noteq> 0 \<and> oflags AND SFS_O_EXCL \<noteq> 0 then throw SFS_EEXIST
         else open_existing c oflags ino)))"

definition sfs_mkdir_as :: "sfs_cred \<Rightarrow> u32 \<Rightarrow> bytes \<Rightarrow> u16 \<Rightarrow> ('c, sfs_err + u32) fsact" where
  "sfs_mkdir_as c dir name mode = chk (dir_check c dir True) (\<lambda>dst. run (sfs_lookup dir name) (\<lambda>rc. case rc of
     Inr _ \<Rightarrow> throw SFS_EEXIST
   | Inl e \<Rightarrow> if e \<noteq> SFS_ENOENT then throw e
       else look (\<lambda>s. if sfs_is_readonly s then throw SFS_EROFS else create_owned c dir dst name mode True)))"

definition may_delete :: "sfs_cred \<Rightarrow> u32 \<Rightarrow> bytes \<Rightarrow> ('c, sfs_err + sfs_stat_t \<times> sfs_stat_t) fsact" where
  "may_delete c dir name = chk (dir_check c dir True) (\<lambda>dst. chk (sfs_lookup dir name) (\<lambda>(ino, _).
     chk (sfs_stat ino) (\<lambda>vst. chk (ret (sticky_ok c dst vst)) (\<lambda>_. ok (dst, vst)))))"

definition sfs_unlink_as :: "sfs_cred \<Rightarrow> u32 \<Rightarrow> bytes \<Rightarrow> ('c, sfs_err + unit) fsact" where
  "sfs_unlink_as c dir name = chk (may_delete c dir name) (\<lambda>_. sfs_unlink dir name)"

definition sfs_rmdir_as :: "sfs_cred \<Rightarrow> u32 \<Rightarrow> bytes \<Rightarrow> ('c, sfs_err + unit) fsact" where
  "sfs_rmdir_as c dir name = chk (may_delete c dir name) (\<lambda>_. sfs_rmdir dir name)"

definition sfs_rename_as :: "sfs_cred \<Rightarrow> u32 \<Rightarrow> bytes \<Rightarrow> u32 \<Rightarrow> bytes \<Rightarrow> bool \<Rightarrow> ('c, sfs_err + unit) fsact" where
  "sfs_rename_as c odir oname ndir nname replace = chk (may_delete c odir oname) (\<lambda>(odst, sst).
     chk (dir_check c ndir True) (\<lambda>ndst.
     run (sfs_lookup ndir nname) (\<lambda>rc.
     chk (case rc of Inr (tino, _) \<Rightarrow> if \<not> replace then throw SFS_EEXIST
            else chk (sfs_stat tino) (\<lambda>tst. ret (sticky_ok c ndst tst))
          | Inl e \<Rightarrow> if e \<noteq> SFS_ENOENT then throw e else ok ()) (\<lambda>_.
     chk (if st_isdir sst \<and> odir \<noteq> ndir then ret (sfs_permission_st c sst SFS_MAY_WRITE) else ok ()) (\<lambda>_.
     sfs_rename odir oname ndir nname replace)))))"

definition sfs_chmod_as :: "sfs_cred \<Rightarrow> u32 \<Rightarrow> u16 \<Rightarrow> ('c, sfs_err + unit) fsact" where
  "sfs_chmod_as c ino mode = chk (ret (sfs_cred_check c)) (\<lambda>_. chk (sfs_stat ino) (\<lambda>st.
     let perm = mode AND 0xFFF in
     if cr_uid c \<noteq> st_uid st \<and> cr_caps c AND SFS_CAP_FOWNER = 0 then throw SFS_EPERM
     else sfs_set_mode ino (if perm AND S_ISGID \<noteq> 0 \<and> \<not> sfs_cred_in_group c (st_gid st) \<and> cr_caps c AND SFS_CAP_FSETID = 0
            then perm AND NOT S_ISGID else perm)))"

definition chown_perm :: "sfs_stat_t \<Rightarrow> u16" where
  "chown_perm st = (let perm = st_mode st AND 0xFFF in
     if \<not> st_isdir st
     then let perm = perm AND NOT S_ISUID in if perm AND 8 \<noteq> 0 then perm AND NOT S_ISGID else perm
     else perm)"

definition sfs_chown_as :: "sfs_cred \<Rightarrow> u32 \<Rightarrow> u32 \<Rightarrow> u32 \<Rightarrow> ('c, sfs_err + unit) fsact" where
  "sfs_chown_as c ino uid gid = chk (ret (sfs_cred_check c)) (\<lambda>_. chk (sfs_stat ino) (\<lambda>st.
     let nuid = (if uid = SFS_ID_KEEP then st_uid st else uid); ngid = (if gid = SFS_ID_KEEP then st_gid st else gid) in
     if cr_caps c AND SFS_CAP_CHOWN = 0 \<and> (cr_uid c \<noteq> st_uid st \<or> nuid \<noteq> st_uid st) then throw SFS_EPERM
     else if cr_caps c AND SFS_CAP_CHOWN = 0 \<and> ngid \<noteq> st_gid st \<and> \<not> sfs_cred_in_group c ngid then throw SFS_EPERM
     else sfs_set_owner ino nuid ngid (chown_perm st)))"

subsection \<open>Account subjects\<close>

abbreviation (input) SFS_UID_ACCOUNT_BASE :: u32 where "SFS_UID_ACCOUNT_BASE \<equiv> 1000"
abbreviation (input) SFS_ACCOUNT_SLOTS :: u32 where "SFS_ACCOUNT_SLOTS \<equiv> 16"
abbreviation (input) SFS_UID_SANDBOX :: u32 where "SFS_UID_SANDBOX \<equiv> 65534"
abbreviation (input) SFS_GID_USERS :: u32 where "SFS_GID_USERS \<equiv> 100"
abbreviation (input) SFS_GID_ADMINS :: u32 where "SFS_GID_ADMINS \<equiv> 544"
abbreviation (input) SFS_SUBJ_ROLE_ADMIN :: u32 where "SFS_SUBJ_ROLE_ADMIN \<equiv> 1"
abbreviation (input) SFS_SUBJ_FLAG_SANDBOX :: u32 where "SFS_SUBJ_FLAG_SANDBOX \<equiv> 1"
abbreviation (input) SFS_SUBJ_INTEGRITY_MEDIUM :: u32 where "SFS_SUBJ_INTEGRITY_MEDIUM \<equiv> 0x2000"
abbreviation (input) SFS_SUBJ_INTEGRITY_HIGH :: u32 where "SFS_SUBJ_INTEGRITY_HIGH \<equiv> 0x3000"

record sfs_subject_in =
  su_uid :: u32
  su_session :: u32
  su_integrity :: u32
  su_roles :: u32
  su_flags :: u32
  su_reserved :: u32
  su_auth_id :: u64
  su_accounts_active :: u32

definition cleared_cred :: sfs_cred where
  "cleared_cred = \<lparr>cr_uid = 0, cr_gid = 0, cr_ngroups = 0, cr_groups = replicate SFS_CRED_NGROUPS 0, cr_caps = 0\<rparr>"

text \<open>The code and \<open>*out\<close>, which is cleared first.\<close>

definition sfs_cred_from_subject :: "sfs_subject_in \<Rightarrow> (sfs_err + unit) \<times> sfs_cred" where
  "sfs_cred_from_subject s =
    (if su_reserved s \<noteq> 0 \<or> su_flags s AND NOT SFS_SUBJ_FLAG_SANDBOX \<noteq> 0 \<or> su_roles s AND NOT SFS_SUBJ_ROLE_ADMIN \<noteq> 0
     then (Inl SFS_EACCES, cleared_cred)
     else if su_accounts_active s = 0 \<and> su_flags s = 0 then (Inr (), cleared_cred\<lparr>cr_caps := SFS_CAP_ALL\<rparr>)
     else if su_flags s AND SFS_SUBJ_FLAG_SANDBOX \<noteq> 0 \<or> su_integrity s < SFS_SUBJ_INTEGRITY_MEDIUM
     then (Inr (), cleared_cred\<lparr>cr_uid := SFS_UID_SANDBOX, cr_gid := SFS_UID_SANDBOX\<rparr>)
     else if su_uid s < SFS_UID_ACCOUNT_BASE \<or> SFS_ACCOUNT_SLOTS \<le> su_uid s - SFS_UID_ACCOUNT_BASE \<or> su_session s = 0 \<or>
        su_auth_id s \<noteq> (push_bit 32 (ucast (su_uid s)) OR ucast (su_session s)) then (Inl SFS_EACCES, cleared_cred)
     else if su_integrity s \<noteq> SFS_SUBJ_INTEGRITY_MEDIUM \<and> su_integrity s \<noteq> SFS_SUBJ_INTEGRITY_HIGH then (Inl SFS_EACCES, cleared_cred)
     else if su_integrity s = SFS_SUBJ_INTEGRITY_HIGH \<and> su_roles s \<noteq> SFS_SUBJ_ROLE_ADMIN then (Inl SFS_EACCES, cleared_cred)
     else let out = cleared_cred\<lparr>cr_uid := su_uid s, cr_gid := SFS_GID_USERS\<rparr>
       in (Inr (), if su_roles s AND SFS_SUBJ_ROLE_ADMIN \<noteq> 0
             then let out = out\<lparr>cr_groups := (cr_groups out)[0 := SFS_GID_ADMINS], cr_ngroups := 1\<rparr>
                  in if su_integrity s = SFS_SUBJ_INTEGRITY_HIGH then out\<lparr>cr_caps := SFS_CAP_ALL\<rparr> else out
             else out))"

subsection \<open>The rules\<close>

text \<open>Inclusion of bit sets.\<close>

definition subbits :: "u32 \<Rightarrow> u32 \<Rightarrow> bool" where
  "subbits a b = (a AND b = a)"

lemma subbits_bit: "subbits a b \<longleftrightarrow> (\<forall>n. bit a n \<longrightarrow> bit b n)"
  unfolding subbits_def bit_eq_iff bit_and_iff using bit_imp_possible_bit by blast

lemma subbits_and_zero: "subbits a b \<Longrightarrow> b AND m = 0 \<Longrightarrow> a AND m = 0"
  unfolding subbits_bit bit_eq_iff bit_and_iff by (auto simp: bit_0_eq)

lemma subbits_trans: "subbits a b \<Longrightarrow> subbits b d \<Longrightarrow> subbits a d"
  unfolding subbits_bit by blast

lemma and_eq_subbits: "(b AND m = m) = subbits m b"
  unfolding subbits_def by (simp add: and.commute)

lemma subbits_power:
  assumes "subbits a (2 ^ n)"
  shows "a = 0 \<or> a = 2 ^ n"
proof -
  have "bit a k \<Longrightarrow> k = n" for k
    using assms unfolding subbits_bit bit_exp_iff by blast
  hence "bit a k = (bit a n \<and> k = n)" for k
    by blast
  thus ?thesis
    by (metis bit_0_eq bit_exp_iff bit_imp_possible_bit bit_word_eqI bot_apply bot_bool_def)
qed

lemma permission_valid:
  "sfs_permission_st c st want = Inr () \<Longrightarrow> sfs_cred_check c = Inr () \<and> want AND NOT 7 = 0"
  by (auto simp: sfs_permission_st_def Let_def split: if_splits)

text \<open>Asking for less, or holding more capabilities, never loses an access.\<close>

lemma permission_mono:
  assumes ok: "sfs_permission_st c st want = Inr ()"
    and less: "subbits want' want" and caps: "subbits (cr_caps c) caps" and valid: "subbits caps SFS_CAP_ALL"
  shows "sfs_permission_st (c\<lparr>cr_caps := caps\<rparr>) st want' = Inr ()"
proof -
  have bits: "class_bits (c\<lparr>cr_caps := caps\<rparr>) st = class_bits c st"
    by (simp add: class_bits_def sfs_cred_in_group_def Let_def)
  have not_all: "caps AND NOT SFS_CAP_ALL = 0"
    using valid subbits_and_zero[of caps SFS_CAP_ALL "NOT SFS_CAP_ALL"] by simp
  hence check: "sfs_cred_check (c\<lparr>cr_caps := caps\<rparr>) = Inr ()"
    using permission_valid[OF ok] by (auto simp: sfs_cred_check_def split: if_splits)
  have cap: "cr_caps c AND m \<noteq> 0 \<Longrightarrow> caps AND m \<noteq> 0" for m
    using caps subbits_and_zero by blast
  have read: "want = SFS_MAY_READ \<Longrightarrow> want' = 0 \<or> want' = SFS_MAY_READ"
    using less subbits_power[of want' 2] by simp
  have h1: "want AND SFS_MAY_EXEC = 0 \<Longrightarrow> want' AND SFS_MAY_EXEC = 0"
    and h2: "want AND SFS_MAY_WRITE = 0 \<Longrightarrow> want' AND SFS_MAY_WRITE = 0"
    and h3: "want AND NOT 7 = 0 \<Longrightarrow> want' AND NOT 7 = 0"
    using less subbits_and_zero by blast+
  have direct: "subbits want (class_bits c st) \<Longrightarrow> subbits want' (class_bits c st)"
    using less subbits_trans by blast
  have zero: "subbits 0 x" for x
    by (simp add: subbits_def)
  show ?thesis
    using ok unfolding sfs_permission_st_def Let_def bits check and_eq_subbits
    using read h1 h2 h3 direct zero cap[of 1] cap[of 2] by (auto split: if_splits)
qed

lemma permission_other_class:
  "sfs_permission_st c st want = Inr () \<Longrightarrow> cr_caps c = 0 \<Longrightarrow> subbits want (class_bits c st)"
  by (auto simp: sfs_permission_st_def and_eq_subbits Let_def split: if_splits)

text \<open>The credential of a subject.\<close>

definition subject_elevated :: "sfs_subject_in \<Rightarrow> bool" where
  "subject_elevated s = (su_integrity s = SFS_SUBJ_INTEGRITY_HIGH \<and> su_roles s = SFS_SUBJ_ROLE_ADMIN \<and> su_flags s = 0)"

definition subject_development :: "sfs_subject_in \<Rightarrow> bool" where
  "subject_development s = (su_accounts_active s = 0 \<and> su_flags s = 0)"

lemma flag_cases:
  assumes "(f :: u32) AND - 2 = 0" "f AND 1 = 0"
  shows "f = 0"
proof -
  have "f = f AND (1 OR NOT 1)"
    by simp
  also have "\<dots> = 0"
    unfolding bit.conj_disj_distrib using assms by simp
  finally show ?thesis .
qed

text \<open>The account a subject names: its number is in the table and its authority token fits.\<close>

definition subject_account :: "sfs_subject_in \<Rightarrow> bool" where
  "subject_account s = (SFS_UID_ACCOUNT_BASE \<le> su_uid s \<and> su_uid s - SFS_UID_ACCOUNT_BASE < SFS_ACCOUNT_SLOTS \<and>
     su_session s \<noteq> 0 \<and> su_auth_id s = push_bit 32 (ucast (su_uid s)) OR ucast (su_session s))"

lemma cred_from_subject_cases:
  obtains (refused) "sfs_cred_from_subject s = (Inl SFS_EACCES, cleared_cred)"
  | (development) "subject_development s" "sfs_cred_from_subject s = (Inr (), cleared_cred\<lparr>cr_caps := SFS_CAP_ALL\<rparr>)"
  | (sandbox) "sfs_cred_from_subject s = (Inr (), cleared_cred\<lparr>cr_uid := SFS_UID_SANDBOX, cr_gid := SFS_UID_SANDBOX\<rparr>)"
  | (account) c where "subject_account s" "sfs_cred_from_subject s = (Inr (), c)" "cr_uid c = su_uid s"
      "cr_gid c = SFS_GID_USERS" "cr_ngroups c \<le> 1" "cr_caps c = (if subject_elevated s then SFS_CAP_ALL else 0)"
proof -
  let ?bad = "su_reserved s \<noteq> 0 \<or> su_flags s AND NOT SFS_SUBJ_FLAG_SANDBOX \<noteq> 0 \<or> su_roles s AND NOT SFS_SUBJ_ROLE_ADMIN \<noteq> 0"
  let ?sand = "su_flags s AND SFS_SUBJ_FLAG_SANDBOX \<noteq> 0 \<or> su_integrity s < SFS_SUBJ_INTEGRITY_MEDIUM"
  let ?level = "su_integrity s \<noteq> SFS_SUBJ_INTEGRITY_MEDIUM \<and> su_integrity s \<noteq> SFS_SUBJ_INTEGRITY_HIGH"
  let ?up = "su_integrity s = SFS_SUBJ_INTEGRITY_HIGH \<and> su_roles s \<noteq> SFS_SUBJ_ROLE_ADMIN"
  note d = sfs_cred_from_subject_def subject_development_def subject_account_def not_le not_less
  consider "?bad" | "\<not> ?bad" "subject_development s" | "\<not> ?bad" "\<not> subject_development s" "?sand"
    | "\<not> ?bad" "\<not> subject_development s" "\<not> ?sand" "\<not> subject_account s \<or> ?level \<or> ?up"
    | "\<not> ?bad" "\<not> subject_development s" "\<not> ?sand" "subject_account s" "\<not> ?level" "\<not> ?up"
    by blast
  thus thesis
  proof cases
    case 5
    have f: "su_flags s = 0"
      using 5 flag_cases[of "su_flags s"] by simp
    let ?out = "cleared_cred\<lparr>cr_uid := su_uid s, cr_gid := SFS_GID_USERS\<rparr>"
    let ?adm = "?out\<lparr>cr_groups := (cr_groups ?out)[0 := SFS_GID_ADMINS], cr_ngroups := 1\<rparr>"
    let ?c = "if su_roles s AND SFS_SUBJ_ROLE_ADMIN \<noteq> 0
       then if su_integrity s = SFS_SUBJ_INTEGRITY_HIGH then ?adm\<lparr>cr_caps := SFS_CAP_ALL\<rparr> else ?adm else ?out"
    have "sfs_cred_from_subject s = (Inr (), ?c)"
      using 5 f unfolding d by (simp add: Let_def not_le not_less)
    moreover have "cr_caps ?c = (if subject_elevated s then SFS_CAP_ALL else 0)"
      using 5 f by (auto simp: subject_elevated_def cleared_cred_def)
    moreover have "cr_uid ?c = su_uid s" "cr_gid ?c = SFS_GID_USERS" "cr_ngroups ?c \<le> 1"
      by (simp_all add: cleared_cred_def)
    ultimately show thesis
      using 5 account by blast
  next
    case 1 thus thesis by (intro refused) (simp add: d)
  next
    case 2 thus thesis by (intro development) (simp_all add: d)
  next
    case 3 thus thesis by (intro sandbox) (auto simp: d)
  next
    case 4 thus thesis by (intro refused) (auto simp: d)
  qed
qed

lemma cred_from_subject_valid: "sfs_cred_check (snd (sfs_cred_from_subject s)) = Inr ()"
  by (cases rule: cred_from_subject_cases[of s])
    (auto simp: sfs_cred_check_def cleared_cred_def word_le_nat_alt split: if_splits)

lemma cred_from_subject_caps:
  "cr_caps (snd (sfs_cred_from_subject s)) \<noteq> 0 \<Longrightarrow> subject_development s \<or> subject_elevated s"
  by (cases rule: cred_from_subject_cases[of s]) (auto simp: cleared_cred_def split: if_splits)

end
