(* ===== verification/Sfs_Geometry.thy ===== *)
theory Sfs_Geometry
  imports Sfs_Super
begin

unbundle bit_operations_syntax

section \<open>The geometry of an accepted superblock\<close>

text \<open>
  What \<open>parse_super\<close> guarantees when it accepts: the sizes and counts of the volume satisfy the exact
  (unbounded) arithmetic relations that the rest of the code relies on, although the checks are
  computed on machine integers. In particular the group count is the true quotient, although
  \<open>nblocks - first_data_block + bpg - 1\<close> may wrap around, and the volume's size in bytes does not overflow.
\<close>

lemma power_of_two_word:
  fixes x :: "'a::len word"
  assumes "x \<noteq> 0" "x AND (x - 1) = 0"
  shows "\<exists>n. unat x = 2 ^ n"
proof -
  have pos: "0 < unat x"
    using assms(1) by (simp add: unat_gt_0)
  obtain n where n: "2 ^ n \<le> unat x" "unat x < 2 ^ Suc n"
    using ex_power_ivl1[of 2 "unat x"] pos by auto
  have top: "2 ^ n \<le> unat y \<Longrightarrow> unat y < 2 ^ Suc n \<Longrightarrow> bit y n" for y :: "'a word"
  proof -
    assume y: "2 ^ n \<le> unat y" "unat y < 2 ^ Suc n"
    have "unat y div 2 ^ n = 1"
      using y by (auto intro: div_nat_eqI)
    hence "bit (unat y) n"
      by (simp add: bit_iff_odd)
    thus "bit y n"
      by (simp add: bit_unsigned_iff)
  qed
  have "unat x = 2 ^ n"
  proof (rule ccontr)
    assume "unat x \<noteq> 2 ^ n"
    moreover have "unat (x - 1) = unat x - 1"
      using assms(1) by (simp add: unat_minus_one)
    ultimately have "bit x n" "bit (x - 1) n"
      using n top by auto
    hence "bit (x AND (x - 1)) n"
      by (simp add: bit_and_iff)
    thus False
      using assms(2) by simp
  qed
  thus ?thesis ..
qed

lemma power_of_two_dvd: "unat (x :: u32) = 2 ^ n \<Longrightarrow> unat (y :: u32) = 2 ^ m \<Longrightarrow> x \<le> y \<Longrightarrow> unat x dvd unat y"
  by (simp add: word_le_nat_alt le_imp_power_dvd power_increasing_iff)

lemma and_7_dvd: "(x :: u32) AND 7 = 0 \<Longrightarrow> 8 dvd unat x"
proof -
  assume "x AND 7 = 0"
  hence "take_bit 3 x = 0"
    by (simp add: take_bit_eq_mask mask_eq_exp_minus_1)
  hence "take_bit 3 (unat x) = 0"
    by (metis unat_0 unsigned_take_bit_eq)
  thus ?thesis
    by (simp add: take_bit_eq_0_iff)
qed

subsection \<open>The stages\<close>

lemmas parse_simps = refuse_if_def set_geo_def Let_def chk_splits run_apply

text \<open>The fields that later stages leave alone.\<close>

definition blocks_part :: "'c sfs_fs \<Rightarrow> 'c sfs_ops \<times> u32 \<times> nat \<times> u64 \<times> u32" where
  "blocks_part s = (fs_ops s, g_bs (fs_geo s), g_bs_bits (fs_geo s), g_nblocks (fs_geo s), g_first_data_block (fs_geo s))"

definition groups_part :: "'c sfs_fs \<Rightarrow> u32 \<times> u32 \<times> u32 \<times> u32" where
  "groups_part s = (g_bpg (fs_geo s), g_ipg (fs_geo s), g_ngroups (fs_geo s), g_inodes_count (fs_geo s))"

definition inodes_part :: "'c sfs_fs \<Rightarrow> u32 \<times> u32 \<times> u32 \<times> u32" where
  "inodes_part s = (g_isize (fs_geo s), g_first_ino (fs_geo s), g_inodes_per_block (fs_geo s), g_itable_blocks (fs_geo s))"

definition desc_part :: "'c sfs_fs \<Rightarrow> u32 \<times> u32 \<times> u32" where
  "desc_part s = (g_gd_size (fs_geo s), g_desc_per_block (fs_geo s), g_gdt_blocks (fs_geo s))"

lemmas parts = blocks_part_def groups_part_def inodes_part_def desc_part_def

text \<open>What each stage checks, on machine integers.\<close>

definition bits_checked :: "sfs_geo \<Rightarrow> bool" where
  "bits_checked g = (unat (g_bs g) = 2 ^ g_bs_bits g \<and> g_bs_bits g \<in> {10, 11, 12})"

definition blocks_checked :: "u64 \<Rightarrow> sfs_geo \<Rightarrow> bool" where
  "blocks_checked sz g = (g_first_data_block g = (if g_bs g = 1024 then 1 else 0) \<and>
     ucast (g_first_data_block g + 1) < g_nblocks g \<and> (sz \<noteq> 0 \<longrightarrow> push_bit (g_bs_bits g) (g_nblocks g) \<le> sz))"

definition group_quotient :: "sfs_geo \<Rightarrow> u64" where
  "group_quotient g = (g_nblocks g - ucast (g_first_data_block g) + ucast (g_bpg g) - 1) div ucast (g_bpg g)"

definition groups_checked :: "sfs_geo \<Rightarrow> bool" where
  "groups_checked g = (g_bpg g \<noteq> 0 \<and> g_bpg g \<le> g_bs g * 8 \<and> g_bpg g AND 7 = 0 \<and>
     g_ipg g \<noteq> 0 \<and> g_ipg g \<le> g_bs g * 8 \<and> g_ipg g AND 7 = 0 \<and>
     group_quotient g \<noteq> 0 \<and> group_quotient g \<le> 0xFFFFFFFF div ucast (g_ipg g) \<and>
     g_ngroups g = ucast (group_quotient g) \<and> ucast (g_inodes_count g) = group_quotient g * ucast (g_ipg g))"

definition size_checked :: "u32 \<Rightarrow> u32 \<Rightarrow> bool" where
  "size_checked bs sz = (sz = 128 \<or> sz = 32 \<or> 32 \<le> sz \<and> sz \<le> bs \<and> sz AND (sz - 1) = 0)"

definition inodes_checked :: "sfs_geo \<Rightarrow> bool" where
  "inodes_checked g = (size_checked (g_bs g) (g_isize g) \<and> g_inodes_per_block g = g_bs g div g_isize g \<and>
     g_ipg g mod g_inodes_per_block g = 0 \<and> g_itable_blocks g = g_ipg g div g_inodes_per_block g)"

definition desc_checked :: "sfs_geo \<Rightarrow> bool" where
  "desc_checked g = (size_checked (g_bs g) (g_gd_size g) \<and> g_desc_per_block g = g_bs g div g_gd_size g \<and>
     g_gdt_blocks g = (g_ngroups g + g_desc_per_block g - 1) div g_desc_per_block g)"

lemmas checked = bits_checked_def blocks_checked_def group_quotient_def groups_checked_def inodes_checked_def desc_checked_def

lemma parts_checked:
  assumes "blocks_part t = blocks_part s"
  shows "bits_checked (fs_geo s) \<Longrightarrow> bits_checked (fs_geo t)"
    and "blocks_checked (ops_size (fs_ops s)) (fs_geo s) \<Longrightarrow> blocks_checked (ops_size (fs_ops t)) (fs_geo t)"
    and "groups_part t = groups_part s \<Longrightarrow> groups_checked (fs_geo s) \<Longrightarrow> groups_checked (fs_geo t)"
    and "groups_part t = groups_part s \<Longrightarrow> inodes_part t = inodes_part s \<Longrightarrow> inodes_checked (fs_geo s) \<Longrightarrow> inodes_checked (fs_geo t)"
    and "groups_part t = groups_part s \<Longrightarrow> desc_part t = desc_part s \<Longrightarrow> desc_checked (fs_geo s) \<Longrightarrow> desc_checked (fs_geo t)"
proof -
  have e: "fs_ops t = fs_ops s" "g_bs (fs_geo t) = g_bs (fs_geo s)" "g_bs_bits (fs_geo t) = g_bs_bits (fs_geo s)"
      "g_nblocks (fs_geo t) = g_nblocks (fs_geo s)" "g_first_data_block (fs_geo t) = g_first_data_block (fs_geo s)"
    using assms by (simp_all add: blocks_part_def)
  show "bits_checked (fs_geo s) \<Longrightarrow> bits_checked (fs_geo t)"
    "blocks_checked (ops_size (fs_ops s)) (fs_geo s) \<Longrightarrow> blocks_checked (ops_size (fs_ops t)) (fs_geo t)"
    unfolding bits_checked_def blocks_checked_def e by assumption+
  assume "groups_part t = groups_part s"
  hence e2: "g_bpg (fs_geo t) = g_bpg (fs_geo s)" "g_ipg (fs_geo t) = g_ipg (fs_geo s)"
      "g_ngroups (fs_geo t) = g_ngroups (fs_geo s)" "g_inodes_count (fs_geo t) = g_inodes_count (fs_geo s)"
    by (simp_all add: groups_part_def)
  show "groups_checked (fs_geo s) \<Longrightarrow> groups_checked (fs_geo t)"
    unfolding groups_checked_def group_quotient_def e e2 by assumption
  show "inodes_part t = inodes_part s \<Longrightarrow> inodes_checked (fs_geo s) \<Longrightarrow> inodes_checked (fs_geo t)"
    "desc_part t = desc_part s \<Longrightarrow> desc_checked (fs_geo s) \<Longrightarrow> desc_checked (fs_geo t)"
    unfolding inodes_checked_def inodes_part_def desc_checked_def desc_part_def prod.inject e e2 by metis+
qed

lemma block_size_exact:
  fixes l :: u32
  assumes "l \<le> 2"
  shows "unat (push_bit (10 + unat l) (1 :: u32)) = 2 ^ (10 + unat l) \<and> 10 + unat l \<in> {10, 11, 12}"
proof -
  have "unat l \<le> 2"
    using assms by (simp add: word_le_nat_alt)
  moreover have "unat l = 0 \<or> unat l = 1 \<or> unat l = 2 \<Longrightarrow> ?thesis"
    by (elim disjE) simp_all
  ultimately show ?thesis
    by linarith
qed

lemma parse_features_ok: "parse_features s = (Inr (), t) \<Longrightarrow> bits_checked (fs_geo t) \<and> fs_ops t = fs_ops s"
  using block_size_exact[of "rd32 (fs_sbraw s) SB_log_block_size"]
  by (auto simp: parse_features_def parse_simps bits_checked_def not_less split: if_splits)

lemma parse_blocks_ok:
  "parse_blocks s = (Inr (), t) \<Longrightarrow> fs_ops t = fs_ops s \<and> (bits_checked (fs_geo s) \<longrightarrow> bits_checked (fs_geo t)) \<and>
   blocks_checked (ops_size (fs_ops s)) (fs_geo t)"
  by (auto simp: parse_blocks_def parse_simps bits_checked_def blocks_checked_def not_le not_less split: if_splits)

lemma parse_groups_ok: "parse_groups s = (Inr (), t) \<Longrightarrow> blocks_part t = blocks_part s \<and> groups_checked (fs_geo t)"
  by (auto simp: parse_groups_def parse_simps parts groups_checked_def group_quotient_def not_less split: if_splits)

lemma parse_inodes_ok:
  "parse_inodes s = (Inr (), t) \<Longrightarrow> blocks_part t = blocks_part s \<and> groups_part t = groups_part s \<and> inodes_checked (fs_geo t)"
  by (auto simp: parse_inodes_def parse_simps parts inodes_checked_def size_checked_def word_less_nat_alt word_le_nat_alt
      del: mod_0_imp_dvd split: if_splits)

lemma parse_desc_ok:
  "parse_desc s = (Inr (), t) \<Longrightarrow> blocks_part t = blocks_part s \<and> groups_part t = groups_part s \<and> inodes_part t = inodes_part s \<and>
   (bits_checked (fs_geo t) \<longrightarrow> desc_checked (fs_geo t))"
  by (auto simp: parse_desc_def parse_simps parts desc_checked_def size_checked_def bits_checked_def word_less_nat_alt word_le_nat_alt split: if_splits)

definition same_parts :: "'c sfs_fs \<Rightarrow> 'c sfs_fs \<Rightarrow> bool" where
  "same_parts s t = (blocks_part t = blocks_part s \<and> groups_part t = groups_part s \<and> inodes_part t = inodes_part s \<and> desc_part t = desc_part s)"

lemma parse_flags_same: "parse_flags s = (Inr (), t) \<Longrightarrow> same_parts s t"
  by (auto simp: parse_flags_def parse_simps parts same_parts_def split: if_splits)

lemma parse_csum_same: "parse_csum s = (Inr (), t) \<Longrightarrow> same_parts s t"
  by (auto simp: parse_csum_def parse_simps parts same_parts_def split: if_splits)

lemma parse_rest_same: "same_parts s (snd (parse_rest s))"
  by (simp add: parse_rest_def parse_simps parts same_parts_def)

definition geo_checked :: "u64 \<Rightarrow> sfs_geo \<Rightarrow> bool" where
  "geo_checked sz g = (bits_checked g \<and> blocks_checked sz g \<and> groups_checked g \<and> inodes_checked g \<and> desc_checked g)"

lemma parse_super_checked:
  assumes "parse_super s = (Inr (), t)"
  shows "geo_checked (ops_size (fs_ops s)) (fs_geo t)"
proof -
  obtain s1 s2 s3 s4 s5 s6 s7 where st: "parse_features s = (Inr (), s1)" "parse_blocks s1 = (Inr (), s2)"
      "parse_groups s2 = (Inr (), s3)" "parse_inodes s3 = (Inr (), s4)" "parse_desc s4 = (Inr (), s5)"
      "parse_flags s5 = (Inr (), s6)" "parse_csum s6 = (Inr (), s7)" "t = snd (parse_rest s7)"
    using assms unfolding parse_super_def by (auto elim!: chk_okE simp: run_apply)
  note f = parse_features_ok[OF st(1)] parse_blocks_ok[OF st(2)] parse_groups_ok[OF st(3)] parse_inodes_ok[OF st(4)]
    parse_desc_ok[OF st(5)] parse_flags_same[OF st(6)] parse_csum_same[OF st(7)] parse_rest_same[of s7, folded st(8)]
  have same: "blocks_part t = blocks_part s2" "blocks_part t = blocks_part s3" "blocks_part t = blocks_part s4" "blocks_part t = blocks_part s5"
      "groups_part t = groups_part s3" "groups_part t = groups_part s4" "groups_part t = groups_part s5"
      "inodes_part t = inodes_part s4" "desc_part t = desc_part s5" "fs_ops s2 = fs_ops s"
    using f by (simp_all add: same_parts_def)
  have bits: "bits_checked (fs_geo s2)" "bits_checked (fs_geo s5)"
    using f parts_checked(1)[of s5 s2] same by simp_all
  have "ops_size (fs_ops t) = ops_size (fs_ops s)"
    using same(1,10) by (simp add: blocks_part_def)
  thus ?thesis
    unfolding geo_checked_def
    using f bits same parts_checked(1,2)[OF same(1)] parts_checked(3)[OF same(2)] parts_checked(4)[OF same(3)] parts_checked(5)[OF same(4)]
    by simp
qed

subsection \<open>Exact arithmetic\<close>

lemma ceil_div_wraps:
  fixes nb fd b :: u64
  assumes "fd < nb" "b \<noteq> 0" "(nb - fd + b - 1) div b \<noteq> 0"
  shows "unat ((nb - fd + b - 1) div b) = (unat nb - unat fd + unat b - 1) div unat b"
proof -
  let ?n = "unat nb - unat fd" and ?m = "unat nb - unat fd + (unat b - 1)"
  have nb: "unat nb < 2 ^ 64"
    by (rule order.strict_trans2[OF unsigned_less]) simp
  have b: "unat b < 2 ^ 64" "0 < unat b"
    by (rule order.strict_trans2[OF unsigned_less], simp) (simp add: unat_gt_0 assms(2))
  have n: "unat (nb - fd) = ?n" "?n < 2 ^ 64"
    using assms(1) nb by (simp_all add: unat_sub less_imp_le)
  have one: "unat (b - 1) = unat b - 1"
    using assms(2) by (simp add: unat_minus_one)
  have w: "unat (nb - fd + b - 1) = ?m mod 2 ^ 64"
    using unat_word_ariths(1)[of "nb - fd" "b - 1"] by (simp add: n one add_diff_eq)
  have "?m < 2 ^ 64"
  proof (rule ccontr)
    assume "\<not> ?thesis"
    hence "2 ^ 64 \<le> ?m" "?m - 2 ^ 64 < 2 ^ 64"
      using b n by linarith+
    hence "?m mod 2 ^ 64 = ?m - 2 ^ 64"
      by (metis le_mod_geq mod_less)
    also have "\<dots> < unat b"
      using b n by linarith
    finally have "unat (nb - fd + b - 1) div unat b = 0"
      unfolding w by (rule div_less)
    thus False
      using assms(3) by (metis unat_div unat_eq_zero)
  qed
  thus ?thesis
    using b by (simp add: unat_div w)
qed

definition geo_ok :: "sfs_geo \<Rightarrow> bool" where
  "geo_ok g = (let bs = unat (g_bs g); nb = unat (g_nblocks g); fd = unat (g_first_data_block g);
       bpg = unat (g_bpg g); ipg = unat (g_ipg g); ng = unat (g_ngroups g) in
     bs = 2 ^ g_bs_bits g \<and> g_bs_bits g \<in> {10, 11, 12} \<and> fd = (if bs = 1024 then 1 else 0) \<and> fd + 1 < nb \<and>
     0 < bpg \<and> bpg \<le> 8 * bs \<and> 8 dvd bpg \<and> 0 < ipg \<and> ipg \<le> 8 * bs \<and> 8 dvd ipg \<and>
     0 < ng \<and> (ng - 1) * bpg < nb - fd \<and> nb - fd \<le> ng * bpg \<and> nb * bs < 2 ^ 58 \<and>
     unat (g_inodes_count g) = ng * ipg \<and>
     unat (g_inodes_per_block g) * unat (g_isize g) = bs \<and>
     unat (g_itable_blocks g) * unat (g_inodes_per_block g) = ipg \<and>
     unat (g_desc_per_block g) * unat (g_gd_size g) = bs \<and>
     ng \<le> unat (g_gdt_blocks g) * unat (g_desc_per_block g))"

lemma size_divides:
  fixes bs sz :: u32
  assumes "unat bs = 2 ^ n" "10 \<le> n" "size_checked bs sz"
  shows "unat (bs div sz) * unat sz = unat bs \<and> 0 < unat (bs div sz)"
proof -
  have le: "2 ^ 10 \<le> unat bs"
    using assms(1,2) power_increasing[of 10 n "2::nat"] by simp
  obtain m where m: "unat sz = 2 ^ m" "sz \<le> bs"
    using assms(3) unfolding size_checked_def
  proof (elim disjE)
    assume "sz = 128" thus thesis using le by (intro that[of 7]) (auto simp: word_le_nat_alt)
  next
    assume "sz = 32" thus thesis using le by (intro that[of 5]) (auto simp: word_le_nat_alt)
  next
    assume "32 \<le> sz \<and> sz \<le> bs \<and> sz AND (sz - 1) = 0"
    moreover from this have "sz \<noteq> 0" by auto
    ultimately show thesis using power_of_two_word[of sz] that by blast
  qed
  have "unat sz dvd unat bs"
    by (rule power_of_two_dvd[OF m(1) assms(1) m(2)])
  hence e: "unat (bs div sz) * unat sz = unat bs"
    by (simp add: unat_div)
  moreover have "0 < unat bs"
    using assms(1) by simp
  ultimately show ?thesis
    by (metis mult_zero_left not_gr0)
qed

lemma ceil_div_bounds:
  fixes n b :: nat
  assumes "0 < b" "0 < n"
  shows "((n + b - 1) div b - 1) * b < n \<and> n \<le> (n + b - 1) div b * b"
proof -
  let ?q = "(n + b - 1) div b"
  have "?q * b + (n + b - 1) mod b = n + b - 1" "(n + b - 1) mod b < b"
    using assms by simp_all
  hence "?q * b < n + b" "n \<le> ?q * b"
    using assms by linarith+
  thus ?thesis
    using assms by (simp add: diff_mult_distrib)
qed

lemma groups_exact:
  fixes nb :: u64 and fd bpg ipg ic ng :: u32
  assumes fd: "ucast fd < nb" and bpg: "bpg \<noteq> 0" "unat bpg \<le> 2 ^ 15" and ipg: "ipg \<noteq> 0" "8 dvd unat ipg"
    and q: "q = (nb - ucast fd + ucast bpg - 1) div ucast bpg" "q \<noteq> 0" "q \<le> 0xFFFFFFFF div ucast ipg"
    and ng: "ng = ucast q" and ic: "ucast ic = q * ucast ipg"
  shows "0 < unat ng \<and> (unat ng - 1) * unat bpg < unat nb - unat fd \<and> unat nb - unat fd \<le> unat ng * unat bpg \<and>
    unat ic = unat ng * unat ipg \<and> unat nb \<le> unat fd + 2 ^ 44"
proof -
  note u = unat_widen
  have ipg0: "0 < unat ipg" and bpg0: "0 < unat bpg" and q0: "0 < unat q"
    using ipg bpg q by (simp_all add: unat_gt_0)
  have qle: "unat q \<le> (2 ^ 32 - 1) div unat ipg"
    using q(3) by (simp add: word_le_nat_alt unat_div u)
  hence prod: "unat q * unat ipg \<le> 2 ^ 32 - 1"
    by (metis div_times_less_eq_dividend le_trans mult_le_mono1)
  have eight: "8 \<le> unat ipg"
    using ipg ipg0 by (metis dvd_imp_le)
  have q29: "unat q \<le> 2 ^ 29"
    using order_trans[OF mult_le_mono2[OF eight, of "unat q"] prod] by simp
  have uq: "unat ng = unat q"
    using q29 unfolding ng by (simp add: unsigned_ucast_eq take_bit_nat_eq_self)
  have uic: "unat ic = unat q * unat ipg"
  proof -
    have "unat (q * ucast ipg) = unat q * unat ipg"
      using prod unat_mult_lem[of q "ucast ipg"] by (simp add: u)
    thus ?thesis
      using ic u by metis
  qed
  have uq': "unat q = (unat nb - unat fd + unat bpg - 1) div unat bpg"
    using ceil_div_wraps[OF fd, of "ucast bpg"] q bpg by (metis u unat_eq_zero)
  have lt: "unat fd < unat nb"
    using fd by (simp add: word_less_nat_alt u)
  have c: "(unat ng - 1) * unat bpg < unat nb - unat fd \<and> unat nb - unat fd \<le> unat ng * unat bpg"
    unfolding uq uq' by (rule ceil_div_bounds[OF bpg0]) (use lt in simp)
  moreover have "unat ng * unat bpg \<le> 2 ^ 29 * 2 ^ 15"
    using q29 bpg(2) unfolding uq by (intro mult_le_mono)
  moreover from calculation have "unat nb \<le> unat fd + 2 ^ 29 * 2 ^ 15"
    using lt by linarith
  ultimately show ?thesis
    using q0 uic uq by simp
qed

lemma push_bit_exact:
  fixes w :: u64
  assumes "unat w * 2 ^ n < 2 ^ 64"
  shows "unat (push_bit n w) = unat w * 2 ^ n"
  using assms by (simp add: unsigned_push_bit_eq take_bit_nat_eq_self push_bit_nat_def)

lemma gdt_exact:
  fixes ng d :: u32
  assumes "0 < unat d" "unat ng + unat d < 2 ^ 32"
  shows "unat ng \<le> unat ((ng + d - 1) div d) * unat d"
proof (cases "ng = 0")
  case False
  have "unat (ng + d) = unat ng + unat d"
    using assms unat_add_lem[of ng d] by simp
  hence "unat (ng + d - 1) = unat ng + unat d - 1"
    using assms by (metis add_gr_0 unat_0 unat_minus_one less_not_refl)
  thus ?thesis
    using ceil_div_bounds[of "unat d" "unat ng"] assms False by (simp add: unat_div unat_gt_0)
qed simp

lemma gdt_enough:
  assumes "g_ipg g \<noteq> 0" "g_ipg g AND 7 = 0" "unat (g_inodes_count g) = unat (g_ngroups g) * unat (g_ipg g)"
    and "0 < unat (g_desc_per_block g)" "g_desc_per_block g = g_bs g div g_gd_size g" "unat (g_bs g) \<le> 4096"
    and "g_gdt_blocks g = (g_ngroups g + g_desc_per_block g - 1) div g_desc_per_block g"
  shows "unat (g_ngroups g) \<le> unat (g_gdt_blocks g) * unat (g_desc_per_block g)"
proof -
  have "unat (g_desc_per_block g) \<le> 4096"
    using assms(5,6) div_le_dividend order_trans by (metis unat_div)
  moreover have "unat (g_ngroups g) * 8 \<le> unat (g_inodes_count g)"
    using assms(1,3) dvd_imp_le[OF and_7_dvd[OF assms(2)]] by (simp add: unat_gt_0)
  moreover have "unat (g_inodes_count g) < 2 ^ 32"
    by (rule order.strict_trans2[OF unsigned_less]) simp
  ultimately have "unat (g_ngroups g) + unat (g_desc_per_block g) < 2 ^ 32"
    by simp
  thus ?thesis
    unfolding assms(7) using assms(4) gdt_exact by blast
qed

lemma geo_checked_ok:
  assumes "geo_checked sz g"
  shows "geo_ok g \<and> (sz \<noteq> 0 \<longrightarrow> unat (g_nblocks g) * unat (g_bs g) \<le> unat sz)"
proof -
  note chk = assms[unfolded geo_checked_def bits_checked_def blocks_checked_def groups_checked_def inodes_checked_def desc_checked_def]
  have bits: "unat (g_bs g) = 2 ^ g_bs_bits g" "10 \<le> g_bs_bits g" and bs: "unat (g_bs g) \<le> 4096"
    using chk by auto
  have fdw: "g_first_data_block g = (if g_bs g = 1024 then 1 else 0)"
    using chk by blast
  have fd: "unat (g_first_data_block g) = (if unat (g_bs g) = 1024 then 1 else 0)"
    "unat (g_first_data_block g + 1) = unat (g_first_data_block g) + 1"
    by (simp_all add: fdw word_eq_iff_unsigned[where 'a = nat])
  have lt: "unat (g_first_data_block g) + 1 < unat (g_nblocks g)"
  proof -
    have "ucast (g_first_data_block g + 1) < g_nblocks g"
      using chk by blast
    thus ?thesis
      using fd(2) by (simp only: word_less_nat_alt unat_widen)
  qed
  hence "ucast (g_first_data_block g) < g_nblocks g"
    by (simp add: word_less_nat_alt unat_widen)
  moreover have bpg: "unat (g_bpg g) \<le> 8 * unat (g_bs g)" "unat (g_ipg g) \<le> 8 * unat (g_bs g)"
    using chk bs unat_mult_lem[of "g_bs g" 8] by (simp_all add: word_le_nat_alt)
  ultimately have ge: "0 < unat (g_ngroups g) \<and> (unat (g_ngroups g) - 1) * unat (g_bpg g) < unat (g_nblocks g) - unat (g_first_data_block g) \<and>
      unat (g_nblocks g) - unat (g_first_data_block g) \<le> unat (g_ngroups g) * unat (g_bpg g) \<and>
      unat (g_inodes_count g) = unat (g_ngroups g) * unat (g_ipg g) \<and> unat (g_nblocks g) \<le> unat (g_first_data_block g) + 2 ^ 44"
    using chk bs by (intro groups_exact[OF _ _ _ _ _ group_quotient_def]) (auto simp: and_7_dvd)
  have "unat (g_nblocks g) * unat (g_bs g) \<le> (1 + 2 ^ 44) * 4096"
    by (rule mult_le_mono) (use ge fd(1) bs in \<open>auto split: if_splits\<close>)
  hence bytes: "unat (g_nblocks g) * unat (g_bs g) < 2 ^ 58"
    by (rule order.strict_trans1) simp
  have sz: "sz \<noteq> 0 \<Longrightarrow> unat (g_nblocks g) * unat (g_bs g) \<le> unat sz"
    using chk push_bit_exact[of "g_nblocks g" "g_bs_bits g"] order.strict_trans[OF bytes, of "2 ^ 64"]
    by (simp add: bits(1) word_le_nat_alt)
  have isz: "unat (g_inodes_per_block g) * unat (g_isize g) = unat (g_bs g)"
    and dsz: "unat (g_desc_per_block g) * unat (g_gd_size g) = unat (g_bs g) \<and> 0 < unat (g_desc_per_block g)"
    using chk size_divides[OF bits] by simp_all
  have itb: "unat (g_itable_blocks g) * unat (g_inodes_per_block g) = unat (g_ipg g)"
    using chk by (metis add.right_neutral div_mult_mod_eq unat_0 unat_div unat_mod)
  have "unat (g_ngroups g) \<le> unat (g_gdt_blocks g) * unat (g_desc_per_block g)"
    using chk ge dsz bs by (intro gdt_enough) auto
  thus ?thesis
    unfolding geo_ok_def Let_def using chk bits lt fd(1) bpg ge bytes sz isz itb dsz by (simp add: unat_gt_0 and_7_dvd)
qed

lemma parse_super_geo:
  "parse_super s = (Inr (), t) \<Longrightarrow> geo_ok (fs_geo t) \<and> (ops_size (fs_ops s) \<noteq> 0 \<longrightarrow>
    unat (g_nblocks (fs_geo t)) * unat (g_bs (fs_geo t)) \<le> unat (ops_size (fs_ops s)))"
  by (intro geo_checked_ok parse_super_checked)

end
