(* ===== verification/Sfs_Names.thy ===== *)
theory Sfs_Names
  imports Sfs_Prelude
begin

section \<open>The interface of a block of names\<close>

text \<open>
  What the directory code relies on when it works on one block of names: a search gives the position of
  a name, a new name is entered when the search found nothing, a found position is cleared or
  given a new value. The laws say what each operation does to the block's map. The lemmas of the
  locale are proved from the laws alone: a history of accepted operations acts as the history of map
  updates, whatever the layout of the block. \<open>Sfs_Leaf_Map\<close> interprets the locale on directory leaves.
\<close>

datatype ('n, 'v) name_op = Enter 'n 'v | Replace 'n 'v | Drop 'n

fun op_name :: "('n, 'v) name_op \<Rightarrow> 'n" where
  "op_name (Enter n v) = n"
| "op_name (Replace n v) = n"
| "op_name (Drop n) = n"

locale name_block =
  fixes inv :: "'b \<Rightarrow> bool" and view :: "'b \<Rightarrow> 'n \<Rightarrow> 'v option"
    and okn :: "'n \<Rightarrow> bool" and okv :: "'v \<Rightarrow> bool" and norm :: "'v \<Rightarrow> 'v"
    and find :: "'b \<Rightarrow> 'n \<Rightarrow> 'p option" and val :: "'b \<Rightarrow> 'p \<Rightarrow> 'v"
    and enter :: "'b \<Rightarrow> 'n \<Rightarrow> 'v \<Rightarrow> 'b option" and change :: "'b \<Rightarrow> 'p \<Rightarrow> 'v \<Rightarrow> 'b" and drop_at :: "'b \<Rightarrow> 'p \<Rightarrow> 'b"
  assumes find_view: "inv b \<Longrightarrow> map_option (val b) (find b n) = view b n"
    and enter_view: "inv b \<Longrightarrow> find b n = None \<Longrightarrow> okn n \<Longrightarrow> okv v \<Longrightarrow> enter b n v = Some b' \<Longrightarrow> inv b' \<and> view b' = (view b)(n \<mapsto> norm v)"
    and change_view: "inv b \<Longrightarrow> find b n = Some p \<Longrightarrow> okv v \<Longrightarrow> inv (change b p v) \<and> view (change b p v) = (view b)(n \<mapsto> norm v)"
    and drop_view: "inv b \<Longrightarrow> find b n = Some p \<Longrightarrow> inv (drop_at b p) \<and> view (drop_at b p) = (view b)(n := None)"
begin

lemma find_None: "inv b \<Longrightarrow> find b n = None \<longleftrightarrow> view b n = None"
  by (metis find_view option.map_disc_iff)

lemma enter_find:
  assumes "inv b" "find b n = None" "okn n" "okv v" "enter b n v = Some b'"
  shows "map_option (val b') (find b' n) = Some (norm v)" "n' \<noteq> n \<Longrightarrow> map_option (val b') (find b' n') = map_option (val b) (find b n')"
  using enter_view[OF assms] by (simp_all add: find_view assms(1))

lemma drop_find:
  assumes "inv b" "find b n = Some p"
  shows "find (drop_at b p) n = None" "n' \<noteq> n \<Longrightarrow> map_option (val (drop_at b p)) (find (drop_at b p) n') = map_option (val b) (find b n')"
  using drop_view[OF assms] by (simp_all add: find_None find_view assms(1))

text \<open>An entry that is dropped again leaves the map as it was.\<close>

lemma enter_drop:
  assumes "inv b" "find b n = None" "okn n" "okv v" "enter b n v = Some b'" "find b' n = Some p"
  shows "view (drop_at b' p) = view b"
proof -
  have "inv b'" "view b' = (view b)(n \<mapsto> norm v)"
    using enter_view[OF assms(1-5)] by auto
  moreover have "view b n = None"
    using assms(1,2) by (simp add: find_None)
  ultimately show ?thesis
    using drop_view[OF _ assms(6)] by (auto simp: fun_eq_iff)
qed

fun step_block :: "('n, 'v) name_op \<Rightarrow> 'b \<Rightarrow> 'b option" where
  "step_block (Enter n v) b = (if find b n = None then enter b n v else None)"
| "step_block (Replace n v) b = (case find b n of None \<Rightarrow> None | Some p \<Rightarrow> Some (change b p v))"
| "step_block (Drop n) b = (case find b n of None \<Rightarrow> None | Some p \<Rightarrow> Some (drop_at b p))"

fun step_map :: "('n, 'v) name_op \<Rightarrow> ('n \<Rightarrow> 'v option) \<Rightarrow> 'n \<Rightarrow> 'v option" where
  "step_map (Enter n v) m = m(n \<mapsto> norm v)"
| "step_map (Replace n v) m = m(n \<mapsto> norm v)"
| "step_map (Drop n) m = m(n := None)"

fun ok_op :: "('n, 'v) name_op \<Rightarrow> bool" where
  "ok_op (Enter n v) = (okn n \<and> okv v)"
| "ok_op (Replace n v) = okv v"
| "ok_op (Drop n) = True"

lemma step_view: "inv b \<Longrightarrow> ok_op p \<Longrightarrow> step_block p b = Some b' \<Longrightarrow> inv b' \<and> view b' = step_map p (view b)"
  by (cases p) (auto simp: enter_view change_view drop_view split: option.splits if_splits)

lemma history_view:
  "inv b \<Longrightarrow> list_all ok_op ops \<Longrightarrow> fold (\<lambda>p r. Option.bind r (step_block p)) ops (Some b) = Some b' \<Longrightarrow>
   inv b' \<and> view b' = fold step_map ops (view b)"
proof (induction ops arbitrary: b)
  case (Cons p ops)
  have none: "fold (\<lambda>p r. Option.bind r (step_block p)) ops None = None" for ops
    by (induction ops) auto
  obtain b1 where b1: "step_block p b = Some b1"
    using Cons.prems(3) none by (cases "step_block p b") auto
  have "inv b1 \<and> view b1 = step_map p (view b)"
    using step_view[OF Cons.prems(1) _ b1] Cons.prems(2) by simp
  thus ?case
    using Cons.IH[of b1] Cons.prems(2,3) b1 by simp
qed simp

end

end
