(* ===== verification/Sfs_Agree.thy ===== *)
theory Sfs_Agree
  imports Sfs_Fields
begin

section \<open>Blocks that agree on a range\<close>

text \<open>
  \<open>agree a b d e\<close>: the blocks \<open>d\<close> and \<open>e\<close> have the same bytes from \<open>a\<close> up to \<open>b\<close>. What is read from the range is then the
  same; the proofs about directory leaves and journal descriptors frame their updates with it.
\<close>

definition agree :: "nat \<Rightarrow> nat \<Rightarrow> bytes \<Rightarrow> bytes \<Rightarrow> bool" where
  "agree a b d e = (\<forall>i. a \<le> i \<and> i < b \<longrightarrow> byte_at d i = byte_at e i)"

lemma agreeD: "agree a b d e \<Longrightarrow> a \<le> i \<Longrightarrow> i < b \<Longrightarrow> byte_at d i = byte_at e i"
  by (simp add: agree_def)

lemma agree_sub: "agree a b d e \<Longrightarrow> a \<le> a' \<Longrightarrow> b' \<le> b \<Longrightarrow> agree a' b' d e"
  by (auto simp: agree_def)

lemma agree_sym: "agree a b d e \<Longrightarrow> agree a b e d"
  by (simp add: agree_def)

lemma agree_rd:
  "agree a b d e \<Longrightarrow> a \<le> o' \<Longrightarrow> o' + 2 \<le> b \<Longrightarrow> rd16 d o' = rd16 e o'"
  "agree a b d e \<Longrightarrow> a \<le> o' \<Longrightarrow> o' + 4 \<le> b \<Longrightarrow> rd32 d o' = rd32 e o'"
  by (auto intro!: rd16_cong(1) rd32_cong(1) simp: agree_def)

lemma agree_rdbe:
  "agree a b d e \<Longrightarrow> a \<le> o' \<Longrightarrow> o' + 2 \<le> b \<Longrightarrow> rdbe16 d o' = rdbe16 e o'"
  "agree a b d e \<Longrightarrow> a \<le> o' \<Longrightarrow> o' + 4 \<le> b \<Longrightarrow> rdbe32 d o' = rdbe32 e o'"
  by (auto intro!: rd16_cong(2) rd32_cong(2) simp: agree_def)

lemma agree_refl: "agree a b d d"
  by (simp add: agree_def)

lemma agree_trans: "agree a b d e \<Longrightarrow> agree a b e f \<Longrightarrow> agree a b d f"
  by (simp add: agree_def)

lemma agree_slice: "agree a b d e \<Longrightarrow> a \<le> o' \<Longrightarrow> o' + n \<le> b \<Longrightarrow> slice d o' n = slice e o' n"
  by (rule slice_eqI) (auto simp: agree_def)

end
