(* ===== verification/Sfs_Leaf.thy ===== *)
theory Sfs_Leaf
  imports Sfs_Dirent Sfs_Agree
begin

unbundle bit_operations_syntax

section \<open>Directory leaves as finite maps\<close>

text \<open>
  The correctness of the leaf operations of sfs\_dir.c. The view \<open>leaf_list\<close> reads a leaf block as the list
  of its records (length, inode, name, type); on this view the code's scans are list functions, and the
  live records form a map from names to inodes and types. \<open>leaf_wf\<close> is the invariant of a leaf: the
  block passes the code's own check \<open>leaf_entries_ok\<close>, live names are not empty and no two are equal. This theory holds
  the view, the search, and what one insertion does to the records; \<open>Sfs_Leaf_Map\<close> holds the updates as map updates.
\<close>

subsection \<open>Records\<close>

type_synonym dent = "nat \<times> u32 \<times> bytes \<times> u8"

abbreviation (input) ent_rl :: "bytes \<Rightarrow> nat \<Rightarrow> nat" where "ent_rl d off \<equiv> unat (rd16 d (off + DE_rec_len))"

definition ent :: "sfs_geo \<Rightarrow> bytes \<Rightarrow> nat \<Rightarrow> dent" where
  "ent g d off = (ent_rl d off, rd32 d (off + DE_inode), slice d (off + DE_name) (name_len_of g d off),
     if g_filetype g then byte_at d (off + DE_file_type) else 0)"

function leaf_list :: "sfs_geo \<Rightarrow> bytes \<Rightarrow> nat \<Rightarrow> dent list" where
  "leaf_list g d off = (if off < leaf_limit g \<and> 0 < ent_rl d off
     then ent g d off # leaf_list g d (off + ent_rl d off) else [])"
  by auto
termination
  by (relation "measure (\<lambda>(g, _, off). leaf_limit g - off)") auto

declare leaf_list.simps [simp del]

lemma agree_name_len:
  "agree a b d e \<Longrightarrow> a \<le> off \<Longrightarrow> off + 8 \<le> b \<Longrightarrow> name_len_of g d off = name_len_of g e off"
  by (simp add: name_len_of_def agreeD agree_rd(1))

lemma agree_ent:
  assumes "agree off b d e" "off + 8 + name_len_of g d off \<le> b"
  shows "ent g d off = ent g e off"
proof -
  have b: "off + 8 \<le> b"
    using assms(2) by simp
  note nl = agree_name_len[OF assms(1) order_refl b, of g]
  show ?thesis
    unfolding ent_def
    using assms b agree_rd[OF assms(1)] agreeD[OF assms(1)] agree_slice[OF assms(1), of "off + 8" "name_len_of g d off"]
    by (simp flip: nl)
qed

text \<open>What the check of one record says.\<close>

definition ent_fits :: "sfs_geo \<Rightarrow> bytes \<Rightarrow> nat \<Rightarrow> bool" where
  "ent_fits g d off = (12 \<le> ent_rl d off \<and> ent_rl d off mod 4 = 0 \<and> off + ent_rl d off \<le> leaf_limit g \<and>
     8 + name_len_of g d off \<le> ent_rl d off \<and> name_len_of g d off \<le> SFS_NAME_MAX \<and> rd32 d (off + DE_inode) \<le> g_inodes_count g)"

lemma ent_check:
  fixes rl nl lim off :: nat and a b :: u32
  shows "(if lim - off < 8 then False
      else if rl < 12 \<or> rl mod 4 \<noteq> 0 \<or> lim - off < rl \<or> rl < 8 + nl \<or> m < nl then False
      else if b < a then False else R) =
    ((12 \<le> rl \<and> rl mod 4 = 0 \<and> off + rl \<le> lim \<and> 8 + nl \<le> rl \<and> nl \<le> m \<and> a \<le> b) \<and> R)"
  by (auto simp: not_less not_le)

lemma leaf_entries_ok_step:
  "off < leaf_limit g \<Longrightarrow> leaf_entries_ok g d off = (ent_fits g d off \<and> leaf_entries_ok g d (off + ent_rl d off))"
  by (subst leaf_entries_ok.simps) (simp only: Let_def if_True ent_fits_def ent_check)

lemma leaf_entries_ok_end: "\<not> off < leaf_limit g \<Longrightarrow> leaf_entries_ok g d off = (off = leaf_limit g)"
  by (subst leaf_entries_ok.simps) simp

lemma leaf_list_step: "off < leaf_limit g \<Longrightarrow> ent_fits g d off \<Longrightarrow>
    leaf_list g d off = ent g d off # leaf_list g d (off + ent_rl d off)"
  by (subst leaf_list.simps) (simp add: ent_fits_def)

lemma leaf_list_end: "\<not> off < leaf_limit g \<Longrightarrow> leaf_list g d off = []"
  by (subst leaf_list.simps) simp

lemma leaf_induct [consumes 1, case_names last step]:
  assumes "leaf_entries_ok g d off"
    and "P (leaf_limit g)"
    and "\<And>off. off < leaf_limit g \<Longrightarrow> ent_fits g d off \<Longrightarrow> leaf_entries_ok g d (off + ent_rl d off) \<Longrightarrow> P (off + ent_rl d off) \<Longrightarrow> P off"
  shows "P off"
  using assms(1)
proof (induction "leaf_limit g - off" arbitrary: off rule: less_induct)
  case less
  show ?case
  proof (cases "off < leaf_limit g")
    case True
    hence "ent_fits g d off" "leaf_entries_ok g d (off + ent_rl d off)"
      using less.prems leaf_entries_ok_step by blast+
    moreover from this have "leaf_limit g - (off + ent_rl d off) < leaf_limit g - off"
      using True unfolding ent_fits_def by linarith
    ultimately show ?thesis
      using less.hyps assms(3) True by blast
  qed (use less.prems assms(2) leaf_entries_ok_end in metis)
qed

lemma agree_fits: "agree off b d e \<Longrightarrow> off + 8 \<le> b \<Longrightarrow> ent_fits g d off = ent_fits g e off"
  using agree_rd[of off b d e] agree_name_len[of off b d e off g] by (simp add: ent_fits_def)

lemma leaf_agree:
  assumes "leaf_entries_ok g d off" "agree off (leaf_limit g) d e"
  shows "leaf_list g e off = leaf_list g d off \<and> leaf_entries_ok g e off"
  using assms
proof (induction rule: leaf_induct)
  case (step off)
  have b: "off + 8 \<le> leaf_limit g" "off + 8 + name_len_of g d off \<le> leaf_limit g"
    using step.hyps(2) by (auto simp: ent_fits_def)
  have e: "ent_fits g e off" "ent g e off = ent g d off" "ent_rl e off = ent_rl d off"
    using step.hyps(2) agree_fits[OF step.prems b(1), of g] agree_ent[OF step.prems b(2)] agree_rd(1)[OF step.prems, of "off + 4"] b
    by auto
  have "agree (off + ent_rl d off) (leaf_limit g) d e"
    using step.prems by (rule agree_sub) auto
  thus ?case
    using step e leaf_list_step leaf_entries_ok_step by metis
qed (simp add: leaf_list_end leaf_entries_ok_end)

subsection \<open>Positions\<close>

text \<open>\<open>reach g d off pre o'\<close>: the records \<open>pre\<close> lead from offset \<open>off\<close> to offset \<open>o'\<close>.\<close>

inductive reach :: "sfs_geo \<Rightarrow> bytes \<Rightarrow> nat \<Rightarrow> dent list \<Rightarrow> nat \<Rightarrow> bool" for g d where
  here: "reach g d off [] off"
| one: "off < leaf_limit g \<Longrightarrow> ent_fits g d off \<Longrightarrow> reach g d (off + ent_rl d off) pre o' \<Longrightarrow> reach g d off (ent g d off # pre) o'"

inductive_cases reach_NilE: "reach g d off [] o'"

lemma reach_snoc:
  "reach g d off pre o' \<Longrightarrow> o' < leaf_limit g \<Longrightarrow> ent_fits g d o' \<Longrightarrow> reach g d off (pre @ [ent g d o']) (o' + ent_rl d o')"
  by (induction rule: reach.induct) (auto intro: reach.intros)

lemma reach_le: "reach g d off pre o' \<Longrightarrow> off \<le> o'"
  by (induction rule: reach.induct) auto

lemma reach_list: "reach g d off pre o' \<Longrightarrow> leaf_list g d off = pre @ leaf_list g d o'"
  by (induction rule: reach.induct) (auto simp: leaf_list_step)

lemma reach_ok: "reach g d off pre o' \<Longrightarrow> leaf_entries_ok g d off = leaf_entries_ok g d o'"
  by (induction rule: reach.induct) (auto simp: leaf_entries_ok_step)

lemma reach_agree: "reach g d off pre o' \<Longrightarrow> agree off o' d e \<Longrightarrow> reach g e off pre o'"
proof (induction rule: reach.induct)
  case (one off pre o')
  have le: "off + ent_rl d off \<le> o'"
    using one.hyps(3) by (rule reach_le)
  have b: "off + 8 \<le> o'" "off + 8 + name_len_of g d off \<le> o'"
    using one.hyps(2) le unfolding ent_fits_def by linarith+
  have e: "ent_fits g e off" "ent g d off = ent g e off" "ent_rl e off = ent_rl d off"
    using one.hyps(2) agree_fits[OF one.prems b(1), of g] agree_ent[OF one.prems b(2)] agree_rd(1)[OF one.prems, of "off + 4"] b
    by auto
  have "reach g e (off + ent_rl e off) pre o'"
    using one.IH agree_sub[OF one.prems, of "off + ent_rl d off" o'] e by simp
  thus ?case
    unfolding e(2) using one.hyps(1) e(1) by (intro reach.one)
qed (rule reach.here)

lemma local_change:
  assumes "reach g d off pre o'" "agree off o' d e"
  shows "leaf_list g e off = pre @ leaf_list g e o'" "leaf_entries_ok g e off = leaf_entries_ok g e o'"
  using reach_agree[OF assms] reach_list reach_ok by blast+

subsection \<open>The map of a leaf\<close>

definition live :: "dent list \<Rightarrow> (bytes \<times> u32 \<times> u8) list" where
  "live es = map (\<lambda>(rl, i, n, t). (n, i, t)) (filter (\<lambda>(rl, i, n, t). i \<noteq> 0) es)"

lemma live_simps [simp]:
  "live [] = []" "live ((rl, i, n, t) # es) = (if i \<noteq> 0 then [(n, i, t)] else []) @ live es"
  "live (es @ fs) = live es @ live fs"
  by (auto simp: live_def)

definition leaf_map :: "sfs_geo \<Rightarrow> bytes \<Rightarrow> bytes \<Rightarrow> (u32 \<times> u8) option" where
  "leaf_map g d = map_of (live (leaf_list g d 0))"

definition leaf_wf :: "sfs_geo \<Rightarrow> bytes \<Rightarrow> bool" where
  "leaf_wf g d = (length d = unat (g_bs g) \<and> leaf_entries_ok g d 0 \<and>
     distinct (map fst (live (leaf_list g d 0))) \<and> (\<forall>n \<in> fst ` set (live (leaf_list g d 0)). n \<noteq> []))"

definition ent_is :: "sfs_geo \<Rightarrow> bytes \<Rightarrow> bytes \<Rightarrow> nat \<Rightarrow> bool" where
  "ent_is g d name off = (rd32 d (off + DE_inode) \<noteq> 0 \<and> name_len_of g d off = length name \<and>
     slice d (off + DE_name) (length name) = name)"

lemma ent_is_live: "live [ent g d off] = (if rd32 d off = 0 then [] else
    [(slice d (off + DE_name) (name_len_of g d off), rd32 d off, if g_filetype g then byte_at d (off + DE_file_type) else 0)])"
  by (simp add: ent_def)

lemma ent_is_iff: "ent_is g d name off \<longleftrightarrow> name \<in> fst ` set (live [ent g d off])"
  by (auto simp: ent_is_live ent_is_def)

text \<open>The scan of \<open>leaf_find\<close> gives the first matching record and the one before it.\<close>

definition found :: "sfs_geo \<Rightarrow> bytes \<Rightarrow> bytes \<Rightarrow> nat \<Rightarrow> nat option \<Rightarrow> nat \<Rightarrow> nat option \<Rightarrow> bool" where
  "found g d name off prev o' p = (\<exists>pre. reach g d off pre o' \<and> o' < leaf_limit g \<and> ent_fits g d o' \<and> ent_is g d name o' \<and>
     name \<notin> fst ` set (live pre) \<and>
     (if pre = [] then p = prev else \<exists>q pre'. p = Some q \<and> pre = pre' @ [ent g d q] \<and> reach g d off pre' q \<and>
        q < leaf_limit g \<and> ent_fits g d q \<and> o' = q + ent_rl d q))"

lemma live_Cons: "live (e # es) = live [e] @ live es"
  by (cases e) simp

lemma found_step:
  assumes "off < leaf_limit g" "ent_fits g d off" "\<not> ent_is g d name off"
    and "found g d name (off + ent_rl d off) (Some off) o' p"
  shows "found g d name off prev o' p"
proof -
  obtain pre where pre: "reach g d (off + ent_rl d off) pre o'" "o' < leaf_limit g" "ent_fits g d o'" "ent_is g d name o'"
      "name \<notin> fst ` set (live pre)" and
      p: "if pre = [] then p = Some off else \<exists>q pre'. p = Some q \<and> pre = pre' @ [ent g d q] \<and>
        reach g d (off + ent_rl d off) pre' q \<and> q < leaf_limit g \<and> ent_fits g d q \<and> o' = q + ent_rl d q"
    using assms(4) unfolding found_def by blast
  have "name \<notin> fst ` set (live (ent g d off # pre))"
    using assms(3) pre(5) unfolding ent_is_iff live_Cons[of _ pre] by auto
  moreover have "\<exists>q pre'. p = Some q \<and> ent g d off # pre = pre' @ [ent g d q] \<and> reach g d off pre' q \<and>
      q < leaf_limit g \<and> ent_fits g d q \<and> o' = q + ent_rl d q"
  proof (cases "pre = []")
    case True
    hence "o' = off + ent_rl d off" "p = Some off"
      using pre(1) p by (auto elim: reach_NilE)
    thus ?thesis
      using True assms(1,2) reach.here by (intro exI[of _ off] exI[of _ "[]"]) auto
  next
    case False
    then obtain q pre' where q: "p = Some q" "pre = pre' @ [ent g d q]" "reach g d (off + ent_rl d off) pre' q"
        "q < leaf_limit g" "ent_fits g d q" "o' = q + ent_rl d q"
      using p by auto
    thus ?thesis
      using reach.one[OF assms(1,2) q(3)] by (intro exI[of _ q] exI[of _ "ent g d off # pre'"]) auto
  qed
  ultimately show ?thesis
    unfolding found_def using reach.one[OF assms(1,2) pre(1)] pre(2,3,4) by (intro exI[of _ "ent g d off # pre"]) auto
qed

lemma leaf_find_loop_spec:
  assumes "leaf_entries_ok g d off" "leaf_limit g - off \<le> k"
  shows "case leaf_find_loop k g d name off prev of
      None \<Rightarrow> name \<notin> fst ` set (live (leaf_list g d off))
    | Some (o', p) \<Rightarrow> found g d name off prev o' p"
  using assms
proof (induction arbitrary: k prev rule: leaf_induct)
  case last
  thus ?case by (cases k) (auto simp: leaf_list_end)
next
  case (step off)
  then obtain k' where k: "k = Suc k'"
    by (cases k) auto
  show ?case
  proof (cases "ent_is g d name off")
    case True
    hence "leaf_find_loop k g d name off prev = Some (off, prev)"
      using step.hyps(1) by (simp add: k ent_is_def Let_def)
    moreover have "found g d name off prev off prev"
      unfolding found_def using step.hyps True reach.here by (intro exI[of _ "[]"]) auto
    ultimately show ?thesis
      by simp
  next
    case False
    hence "leaf_find_loop k g d name off prev = leaf_find_loop k' g d name (off + ent_rl d off) (Some off)"
      using step.hyps(1) by (auto simp: k ent_is_def Let_def)
    moreover have "leaf_limit g - (off + ent_rl d off) \<le> k'"
      using step.prems step.hyps(2) unfolding k ent_fits_def by linarith
    note IH = step.IH[OF this, of "Some off"]
    have "name \<notin> fst ` set (live (leaf_list g d (off + ent_rl d off))) \<Longrightarrow> name \<notin> fst ` set (live (leaf_list g d off))"
      using False by (simp add: leaf_list_step[OF step.hyps(1,2)] live_Cons[of _ "leaf_list g d (off + ent_rl d off)"] ent_is_iff image_Un)
    thus ?thesis
      using IH calculation found_step[OF step.hyps(1,2) False] by (auto split: option.splits)
  qed
qed

lemma leaf_find_spec:
  assumes "leaf_entries_ok g d 0"
  shows "case leaf_find g d name of None \<Rightarrow> leaf_map g d name = None
    | Some (o', p) \<Rightarrow> found g d name 0 None o' p"
  using leaf_find_loop_spec[OF assms, of "leaf_limit g" name None]
  by (auto simp: leaf_find_def leaf_map_def map_of_eq_None_iff split: option.splits)

lemma found_map:
  assumes "found g d name 0 None o' p"
  shows "leaf_map g d name = Some (rd32 d o', if g_filetype g then byte_at d (o' + DE_file_type) else 0)"
proof -
  obtain pre where pre: "reach g d 0 pre o'" "o' < leaf_limit g" "ent_fits g d o'" "ent_is g d name o'" "name \<notin> fst ` set (live pre)"
    using assms unfolding found_def by blast
  have "leaf_list g d 0 = pre @ ent g d o' # leaf_list g d (o' + ent_rl d o')"
    using reach_list[OF pre(1)] leaf_list_step[OF pre(2,3)] by simp
  moreover have "map_of (live pre) name = None"
    using pre(5) by (simp add: map_of_eq_None_iff)
  ultimately show ?thesis
    using pre(4) by (simp add: leaf_map_def ent_def ent_is_def map_add_def)
qed

theorem leaf_find_map:
  assumes "leaf_entries_ok g d 0"
  shows "map_option (\<lambda>(o', _). (rd32 d o', if g_filetype g then byte_at d (o' + DE_file_type) else 0)) (leaf_find g d name) = leaf_map g d name"
  using leaf_find_spec[OF assms, of name] found_map by (auto split: option.splits)

subsection \<open>Writing a record\<close>

lemma unat_of_nat_small: "n < 2 ^ LENGTH('a::len) \<Longrightarrow> unat (of_nat n :: 'a word) = n"
  by (simp add: unat_of_nat)

lemma rd_update_other:
  "j < off \<or> off + 2 \<le> j \<Longrightarrow> rd16 (d[j := v]) off = rd16 d off"
  "j < off \<or> off + 4 \<le> j \<Longrightarrow> rd32 (d[j := v]) off = rd32 d off"
  by (rule rd16_cong(1) rd32_cong(1); auto simp: byte_at_update)+

lemma length_de_set [simp]: "length (de_set g off ino rl name ty d) = length d"
  by (simp add: de_set_def Let_def)

lemma byte_at_de_set: "i < off \<or> off + 8 + length name \<le> i \<Longrightarrow> byte_at (de_set g off ino rl name ty d) i = byte_at d i"
  by (auto simp: de_set_def Let_def byte_at_blit byte_at_update byte_at_wr)

lemma slice_blit: "off + length xs \<le> length d \<Longrightarrow> slice (blit d off xs) off (length xs) = xs"
  by (auto simp: slice_def byte_at_blit intro: nth_equalityI)

lemma de_set_ent:
  assumes "off + 8 + length name \<le> length d" "length name \<le> SFS_NAME_MAX" "rl < 2 ^ 16"
  shows "ent g (de_set g off ino rl name ty d) off = (rl, ino, name, if g_filetype g then ty else 0)"
    and "name_len_of g (de_set g off ino rl name ty d) off = length name"
proof -
  let ?d = "de_set g off ino rl name ty d"
  have fields: "rd16 ?d (off + 4) = of_nat rl" "rd32 ?d off = ino"
    using assms(1) by (auto simp: de_set_def Let_def rd16_wr_other rd32_wr_other rd_update_other rd16_wr16 rd32_wr32)
  show nl: "name_len_of g ?d off = length name"
    using assms by (auto simp: name_len_of_def de_set_def Let_def byte_at_blit byte_at_update rd16_wr_other rd16_wr16
        unat_of_nat_small)
  have "slice ?d (off + 8) (length name) = name"
    using assms(1) unfolding de_set_def Let_def by (intro slice_blit) simp
  moreover have "g_filetype g \<Longrightarrow> byte_at ?d (off + 7) = ty"
    using assms(1) by (simp add: de_set_def Let_def byte_at_blit byte_at_update)
  ultimately show "ent g ?d off = (rl, ino, name, if g_filetype g then ty else 0)"
    using fields nl assms(3) by (simp add: ent_def unat_of_nat_small)
qed

subsection \<open>Insertion\<close>

definition leaf_geo :: "sfs_geo \<Rightarrow> bool" where
  "leaf_geo g = (unat (g_bs g) \<le> 4096 \<and> 12 \<le> unat (g_bs g) \<and> unat (g_bs g) mod 4 = 0)"

lemma leaf_limit_le: "leaf_limit g \<le> unat (g_bs g)"
  by (simp add: leaf_limit_def)

lemma rec_min_ge: "8 + n \<le> rec_min n" "0 < n \<Longrightarrow> 12 \<le> rec_min n" "rec_min n mod 4 = 0"
  unfolding rec_min_def by presburger+

definition used_of :: "sfs_geo \<Rightarrow> bytes \<Rightarrow> nat \<Rightarrow> nat" where
  "used_of g d off = (if rd32 d (off + DE_inode) \<noteq> 0 then rec_min (name_len_of g d off) else 0)"

definition insert_at :: "sfs_geo \<Rightarrow> bytes \<Rightarrow> bytes \<Rightarrow> u32 \<Rightarrow> u8 \<Rightarrow> nat \<Rightarrow> bytes" where
  "insert_at g d name ino ty off = (let used = used_of g d off in
     de_set g (off + used) ino (ent_rl d off - used) name ty (if used \<noteq> 0 then wr16 d (off + DE_rec_len) (of_nat used) else d))"

lemma leaf_insert_loop_at:
  "leaf_insert_loop k g d name ino ty off = Some d' \<Longrightarrow> leaf_entries_ok g d off \<Longrightarrow>
   \<exists>pre o'. reach g d off pre o' \<and> o' < leaf_limit g \<and> ent_fits g d o' \<and>
     used_of g d o' + rec_min (length name) \<le> ent_rl d o' \<and> d' = insert_at g d name ino ty o'"
proof (induction k arbitrary: off)
  case (Suc k)
  have lt: "off < leaf_limit g" and fits: "ent_fits g d off" and rest: "leaf_entries_ok g d (off + ent_rl d off)"
    using Suc.prems leaf_entries_ok_step[of off g d] by (auto split: if_splits)
  show ?case
  proof (cases "used_of g d off + rec_min (length name) \<le> ent_rl d off")
    case True
    hence "d' = insert_at g d name ino ty off"
      using Suc.prems(1) lt by (simp add: insert_at_def used_of_def Let_def)
    thus ?thesis
      using reach.here lt fits True by blast
  next
    case False
    hence "leaf_insert_loop k g d name ino ty (off + ent_rl d off) = Some d'"
      using Suc.prems(1) lt by (simp add: used_of_def Let_def split: if_splits)
    thus ?thesis
      using Suc.IH[OF _ rest] reach.one[OF lt fits] by blast
  qed
qed simp

lemma insert_at_free:
  assumes o': "o' < leaf_limit g" "ent_fits g d o'" "leaf_entries_ok g d (o' + ent_rl d o')" "rd32 d o' = 0"
    and room: "rec_min (length name) \<le> ent_rl d o'" and name: "length name \<le> SFS_NAME_MAX"
    and d: "length d = unat (g_bs g)" and ino: "ino \<le> g_inodes_count g"
  shows "leaf_entries_ok g (insert_at g d name ino ty o') o' \<and>
    leaf_list g (insert_at g d name ino ty o') o' =
      (ent_rl d o', ino, name, if g_filetype g then ty else 0) # leaf_list g d (o' + ent_rl d o')"
proof -
  let ?rl = "ent_rl d o'" and ?d = "insert_at g d name ino ty o'"
  have eq: "?d = de_set g o' ino ?rl name ty d"
    using o'(4) by (simp add: insert_at_def used_of_def)
  have b: "o' + 8 + length name \<le> o' + ?rl" "o' + ?rl \<le> leaf_limit g"
    using room rec_min_ge(1)[of "length name"] o'(2) by (auto simp: ent_fits_def)
  have "?rl < 2 ^ 16"
    using unsigned_less[of "rd16 d (o' + 4)", where 'a = nat] by simp
  note e = de_set_ent[where g = g and off = o' and ino = ino and ty = ty and d = d, OF _ name this, folded eq]
  have ent: "ent g ?d o' = (?rl, ino, name, if g_filetype g then ty else 0)" "name_len_of g ?d o' = length name"
    using e b leaf_limit_le[of g] d by simp_all
  hence fits: "ent_fits g ?d o'" "ent_rl ?d o' = ?rl"
    using o'(2) b name ino by (auto simp: ent_fits_def ent_def)
  have "agree (o' + ?rl) (leaf_limit g) d ?d"
    unfolding agree_def eq using b by (auto simp: byte_at_de_set)
  thus ?thesis
    using leaf_agree[OF o'(3)] fits ent(1) leaf_list_step[OF o'(1) fits(1)] leaf_entries_ok_step[OF o'(1), of ?d] by simp
qed

lemma insert_at_used:
  assumes o': "o' < leaf_limit g" "ent_fits g d o'" "leaf_entries_ok g d (o' + ent_rl d o')" "rd32 d o' \<noteq> 0" "0 < name_len_of g d o'"
    and room: "used_of g d o' + rec_min (length name) \<le> ent_rl d o'" and name: "length name \<le> SFS_NAME_MAX" "name \<noteq> []"
    and d: "length d = unat (g_bs g)" and ino: "ino \<le> g_inodes_count g"
  shows "leaf_entries_ok g (insert_at g d name ino ty o') o' \<and>
    leaf_list g (insert_at g d name ino ty o') o' = (case ent g d o' of (_, e) \<Rightarrow> (used_of g d o', e)) #
      (ent_rl d o' - used_of g d o', ino, name, if g_filetype g then ty else 0) # leaf_list g d (o' + ent_rl d o')"
proof -
  let ?rl = "ent_rl d o'" and ?d = "insert_at g d name ino ty o'" and ?u = "used_of g d o'" and ?nl = "name_len_of g d o'"
  have u: "?u = rec_min ?nl" "12 \<le> ?u" "8 + ?nl \<le> ?u" "?u mod 4 = 0"
    using o'(4,5) rec_min_ge[of ?nl] by (simp_all add: used_of_def)
  have need: "12 \<le> rec_min (length name)" "8 + length name \<le> rec_min (length name)"
    using name(2) rec_min_ge[of "length name"] by simp_all
  have rl: "?rl < 2 ^ 16"
    using unsigned_less[of "rd16 d (o' + 4)", where 'a = nat] by simp
  let ?w = "wr16 d (o' + DE_rec_len) (of_nat ?u)"
  have eq: "?d = de_set g (o' + ?u) ino (?rl - ?u) name ty ?w"
    using u by (simp add: insert_at_def Let_def)
  have b: "o' + ?rl \<le> leaf_limit g" "leaf_limit g \<le> length d"
    using o'(2) leaf_limit_le[of g] d by (auto simp: ent_fits_def)
  have keep: "i < o' + 4 \<or> o' + 6 \<le> i \<and> i < o' + ?u \<Longrightarrow> byte_at ?d i = byte_at d i" for i
    unfolding eq using u(2) by (subst byte_at_de_set) (auto simp: byte_at_wr)
  have h: "rd16 ?d (o' + 4) = of_nat ?u" "rd32 ?d o' = rd32 d o'" "name_len_of g ?d o' = ?nl" "byte_at ?d (o' + 7) = byte_at d (o' + 7)"
    "slice ?d (o' + 8) ?nl = slice d (o' + 8) ?nl"
  proof -
    have "rd16 ?d (o' + 4) = rd16 ?w (o' + 4)"
      by (rule rd16_cong(1)) (use u in \<open>auto simp: eq byte_at_de_set\<close>)
    thus "rd16 ?d (o' + 4) = of_nat ?u"
      using b room u need by (simp add: rd16_wr16)
    show "rd32 ?d o' = rd32 d o'"
      by (rule rd32_cong(1)) (use u in \<open>auto simp: keep\<close>)
    have "rd16 ?d (o' + 6) = rd16 d (o' + 6)"
      by (rule rd16_cong(1)) (use u in \<open>auto simp: keep\<close>)
    thus "name_len_of g ?d o' = ?nl" "byte_at ?d (o' + 7) = byte_at d (o' + 7)"
      using u by (auto simp: name_len_of_def keep)
    show "slice ?d (o' + 8) ?nl = slice d (o' + 8) ?nl"
      by (rule slice_eqI) (use u in \<open>auto simp: keep\<close>)
  qed
  have ru: "ent_rl ?d o' = ?u"
    using h(1) u room rl by (simp add: unat_of_nat_small)
  have ent: "ent g ?d o' = (case ent g d o' of (_, e) \<Rightarrow> (?u, e))"
    using h ru by (simp add: ent_def)
  have fits: "ent_fits g ?d o'"
    using o'(2) h ru u room b by (auto simp: ent_fits_def)
  have r2: "?rl - ?u < 2 ^ 16"
    using rl by simp
  note e2 = de_set_ent[where g = g and off = "o' + ?u" and ino = ino and ty = ty and d = ?w, OF _ name(1) r2, folded eq]
  have ent2: "ent g ?d (o' + ?u) = (?rl - ?u, ino, name, if g_filetype g then ty else 0)" "name_len_of g ?d (o' + ?u) = length name"
    using e2 b room need by simp_all
  have m4: "(?rl - ?u) mod 4 = 0"
    using u(4) o'(2) by (simp add: ent_fits_def mod_eq_0_iff_dvd)
  have fits2: "ent_fits g ?d (o' + ?u)" "ent_rl ?d (o' + ?u) = ?rl - ?u"
    using ent2 room need b name(1) ino m4 by (auto simp: ent_fits_def ent_def)
  have lt2: "o' + ?u < leaf_limit g"
    using b room need by linarith
  have at2: "o' + ?u + (?rl - ?u) = o' + ?rl"
    using room by simp
  have "agree (o' + ?rl) (leaf_limit g) d ?d"
    unfolding agree_def eq using room need u by (auto simp: byte_at_de_set byte_at_wr)
  hence "leaf_list g ?d (o' + ?rl) = leaf_list g d (o' + ?rl) \<and> leaf_entries_ok g ?d (o' + ?rl)"
    by (rule leaf_agree[OF o'(3)])
  thus ?thesis
    using fits fits2 ent ent2(1) ru at2 leaf_list_step[OF o'(1) fits] leaf_list_step[OF lt2 fits2(1)]
      leaf_entries_ok_step[OF o'(1), of ?d] leaf_entries_ok_step[OF lt2, of ?d] by simp
qed

end
