(* ===== verification/Sfs_Leaf_Map.thy ===== *)
theory Sfs_Leaf_Map
  imports Sfs_Leaf Sfs_Names
begin

unbundle bit_operations_syntax

section \<open>Updates of a directory leaf\<close>

text \<open>
  The updates of a leaf (\<open>leaf_insert\<close>, \<open>leaf_remove\<close>, \<open>leaf_set_inode\<close>) keep \<open>leaf_wf\<close> and act on
  \<open>leaf_map\<close> as the updates of a finite map. An insertion is refused only when no record of the
  leaf has room for the new one. The last section interprets the interface \<open>name_block\<close> on these operations.
\<close>

subsection \<open>Association lists\<close>

lemma map_of_mid_insert:
  "n \<notin> fst ` set (xs @ ys) \<Longrightarrow> map_of (xs @ (n, v) # ys) = (map_of (xs @ ys))(n \<mapsto> v)"
  by (induction xs) (auto simp: fun_upd_twist)

lemma map_of_mid_delete:
  "distinct (map fst (xs @ (n, v) # ys)) \<Longrightarrow> map_of (xs @ ys) = (map_of (xs @ (n, v) # ys))(n := None)"
  by (induction xs) (auto simp: fun_upd_twist fun_upd_idem map_of_eq_None_iff)

lemma map_of_mid_change:
  "distinct (map fst (xs @ (n, v) # ys)) \<Longrightarrow> map_of (xs @ (n, w) # ys) = (map_of (xs @ (n, v) # ys))(n \<mapsto> w)"
  by (induction xs) (auto simp: fun_upd_twist)

text \<open>A leaf is well formed when its records are, and the live names are distinct and not empty.\<close>

lemma leaf_wfI:
  assumes "length d = unat (g_bs g)" "leaf_entries_ok g d 0" "live (leaf_list g d 0) = es"
    and "distinct (map fst es)" "\<forall>n \<in> fst ` set es. n \<noteq> []"
  shows "leaf_wf g d"
  using assms by (simp add: leaf_wf_def)

subsection \<open>Insertion\<close>

lemma insert_at_live:
  assumes wf: "leaf_wf g d" and pre: "reach g d 0 pre o'"
    and o': "o' < leaf_limit g" "ent_fits g d o'" and room: "used_of g d o' + rec_min (length name) \<le> ent_rl d o'"
    and name: "length name \<le> SFS_NAME_MAX" "name \<noteq> []" and ino: "ino \<noteq> 0" "ino \<le> g_inodes_count g"
  shows "\<exists>xs ys. live (leaf_list g d 0) = xs @ ys \<and> leaf_entries_ok g (insert_at g d name ino ty o') 0 \<and>
    live (leaf_list g (insert_at g d name ino ty o') 0) = xs @ (name, ino, if g_filetype g then ty else 0) # ys"
proof -
  let ?d = "insert_at g d name ino ty o'"
  let ?rest = "leaf_list g d (o' + ent_rl d o')"
  have ok: "leaf_entries_ok g d (o' + ent_rl d o')" and len: "length d = unat (g_bs g)"
    using wf pre o' by (auto simp: leaf_wf_def reach_ok leaf_entries_ok_step)
  have all: "leaf_list g d 0 = pre @ ent g d o' # ?rest"
    using reach_list[OF pre] leaf_list_step[OF o'] by simp
  have "agree 0 o' d ?d"
    by (auto simp: agree_def insert_at_def Let_def byte_at_de_set byte_at_wr)
  note new = local_change[OF pre this]
  show ?thesis
  proof (cases "rd32 d o' = 0")
    case True
    hence "leaf_entries_ok g ?d o' \<and> leaf_list g ?d o' = (ent_rl d o', ino, name, if g_filetype g then ty else 0) # ?rest"
      using room by (intro insert_at_free o' ok name len ino) (simp_all add: used_of_def)
    thus ?thesis
      using new all True ino(1) by (intro exI[of _ "live pre"] exI[of _ "live ?rest"]) (simp add: ent_def)
  next
    case False
    have "slice d (o' + DE_name) (name_len_of g d o') \<noteq> []"
      using wf False unfolding leaf_wf_def all by (simp add: ent_def)
    hence "0 < name_len_of g d o'"
      by (cases "name_len_of g d o'") (auto simp: slice_def)
    hence "leaf_entries_ok g ?d o' \<and> leaf_list g ?d o' = (case ent g d o' of (_, e) \<Rightarrow> (used_of g d o', e)) #
        (ent_rl d o' - used_of g d o', ino, name, if g_filetype g then ty else 0) # ?rest"
      using False room by (intro insert_at_used o' ok name len ino) simp_all
    thus ?thesis
      using new all False ino(1) by (intro exI[of _ "live (pre @ [ent g d o'])"] exI[of _ "live ?rest"]) (simp add: ent_def)
  qed
qed

lemma leaf_insert_map:
  assumes "leaf_wf g d" "leaf_insert g d name ino ty = Some d'" "leaf_map g d name = None"
    and name: "length name \<le> SFS_NAME_MAX" "name \<noteq> []" and ino: "ino \<noteq> 0" "ino \<le> g_inodes_count g"
  shows "leaf_wf g d' \<and> leaf_map g d' = (leaf_map g d)(name \<mapsto> (ino, if g_filetype g then ty else 0))"
proof -
  obtain pre o' where p: "reach g d 0 pre o'" "o' < leaf_limit g" "ent_fits g d o'"
      "used_of g d o' + rec_min (length name) \<le> ent_rl d o'" and d': "d' = insert_at g d name ino ty o'"
    using leaf_insert_loop_at[of _ g d name ino ty 0 d'] assms(1,2) unfolding leaf_insert_def leaf_wf_def by blast
  obtain xs ys where xy: "live (leaf_list g d 0) = xs @ ys" "leaf_entries_ok g d' 0"
      "live (leaf_list g d' 0) = xs @ (name, ino, if g_filetype g then ty else 0) # ys"
    using insert_at_live[OF assms(1) p name ino, of ty] unfolding d' by blast
  have fresh: "name \<notin> fst ` set (xs @ ys)"
    using assms(3) xy(1) by (auto simp: leaf_map_def map_of_eq_None_iff)
  have "length d' = unat (g_bs g)"
    using assms(1) by (simp add: d' insert_at_def Let_def leaf_wf_def)
  hence "leaf_wf g d'"
    using xy assms(1) fresh name(2) by (intro leaf_wfI[OF _ xy(2,3)]) (auto simp: leaf_wf_def)
  thus ?thesis
    using map_of_mid_insert[OF fresh] by (simp add: leaf_map_def xy)
qed

text \<open>The insertion finds a record with room when there is one.\<close>

definition ent_room :: "dent \<Rightarrow> nat" where
  "ent_room e = (case e of (rl, i, n, t) \<Rightarrow> rl - (if i \<noteq> 0 then rec_min (length n) else 0))"

lemma leaf_insert_loop_None:
  assumes "leaf_entries_ok g d off" "leaf_limit g - off \<le> k" "leaf_insert_loop k g d name ino ty off = None"
  shows "\<forall>e \<in> set (leaf_list g d off). ent_room e < rec_min (length name)"
  using assms
proof (induction arbitrary: k rule: leaf_induct)
  case last
  thus ?case by (simp add: leaf_list_end)
next
  case (step off)
  then obtain k' where k: "k = Suc k'"
    by (cases k) auto
  have "leaf_insert_loop k' g d name ino ty (off + ent_rl d off) = None" and
    full: "\<not> used_of g d off + rec_min (length name) \<le> ent_rl d off"
    using step.prems(2) step.hyps(1) by (auto simp: k Let_def used_of_def split: if_splits)
  moreover have "leaf_limit g - (off + ent_rl d off) \<le> k'"
    using step.prems(1) step.hyps(2) unfolding k ent_fits_def by linarith
  moreover have "0 < rec_min (length name)"
    using rec_min_ge(1)[of "length name"] by linarith
  hence "ent_room (ent g d off) < rec_min (length name)"
    using full by (auto simp: ent_room_def ent_def used_of_def split: if_splits)
  ultimately show ?case
    using step.IH by (simp add: leaf_list_step[OF step.hyps(1,2)])
qed

lemma leaf_insert_None:
  "leaf_entries_ok g d 0 \<Longrightarrow> leaf_insert g d name ino ty = None \<Longrightarrow>
   \<forall>e \<in> set (leaf_list g d 0). ent_room e < rec_min (length name)"
  by (rule leaf_insert_loop_None[of g d 0 "leaf_limit g"]) (simp_all add: leaf_insert_def)

subsection \<open>Removal and replacement\<close>

text \<open>A record whose length, name length and name are kept still fits.\<close>

lemma leaf_remove_first:
  assumes o': "o' < leaf_limit g" "ent_fits g d o'" "leaf_entries_ok g d (o' + ent_rl d o')" and d: "length d = unat (g_bs g)"
  shows "leaf_entries_ok g (wr32 d o' 0) o' \<and> live (leaf_list g (wr32 d o' 0) o') = live (leaf_list g d (o' + ent_rl d o'))"
proof -
  let ?d = "wr32 d o' 0"
  have b: "o' + 12 \<le> length d"
    using o'(2) leaf_limit_le[of g] d by (auto simp: ent_fits_def)
  have h: "rd32 ?d o' = 0" "rd16 ?d (o' + 4) = rd16 d (o' + 4)" "name_len_of g ?d o' = name_len_of g d o'"
    using b by (simp_all add: rd32_wr32 rd16_wr_other name_len_of_def byte_at_wr)
  hence fits: "ent_fits g ?d o'"
    using o'(2) by (simp add: ent_fits_def)
  have "agree (o' + ent_rl d o') (leaf_limit g) d ?d"
    using o'(2) by (auto simp: agree_def ent_fits_def byte_at_wr)
  hence "leaf_list g ?d (o' + ent_rl d o') = leaf_list g d (o' + ent_rl d o') \<and> leaf_entries_ok g ?d (o' + ent_rl d o')"
    by (rule leaf_agree[OF o'(3)])
  thus ?thesis
    using h fits leaf_list_step[OF o'(1) fits] leaf_entries_ok_step[OF o'(1), of ?d] by (simp add: ent_def)
qed

lemma leaf_remove_merge:
  assumes q: "q < leaf_limit g" "ent_fits g d q" "o' = q + ent_rl d q"
    and o': "o' < leaf_limit g" "ent_fits g d o'" "leaf_entries_ok g d (o' + ent_rl d o')"
    and d: "length d = unat (g_bs g)" and geo: "leaf_geo g"
  shows "leaf_entries_ok g (leaf_remove o' (Some q) d) q \<and>
    live (leaf_list g (leaf_remove o' (Some q) d) q) = live (ent g d q # leaf_list g d (o' + ent_rl d o'))"
proof -
  let ?d = "leaf_remove o' (Some q) d" and ?rq = "ent_rl d q" and ?ro = "ent_rl d o'" and ?nl = "name_len_of g d q"
  let ?w = "wr16 d (q + 4) (rd16 d (q + 4) + rd16 d (o' + 4))"
  have eq: "?d = fill ?w o' 0 8"
    by (simp add: leaf_remove_def)
  have b: "12 \<le> ?rq" "12 \<le> ?ro" "8 + ?nl \<le> ?rq" "o' + ?ro \<le> leaf_limit g" "leaf_limit g \<le> length d" "length d \<le> 4096"
    using q(2) o'(2) leaf_limit_le[of g] d geo by (auto simp: ent_fits_def leaf_geo_def)
  have lt: "q + 12 \<le> o'" "q + 8 + ?nl \<le> o'"
    using b q(3) by simp_all
  have keep: "byte_at ?d i = byte_at d i" if "i < q + 4 \<or> q + 6 \<le> i \<and> i < o' \<or> o' + 8 \<le> i" for i
    using that b q(3) unfolding eq by (auto simp: byte_at_fill byte_at_wr)
  have "unat (rd16 d (q + 4) + rd16 d (o' + 4)) = ?rq + ?ro"
    using b q(3) by (subst unat_plus_simple[THEN iffD1]) (auto simp: word_le_nat_alt unat_word_ariths)
  moreover have "rd16 ?d (q + 4) = rd16 d (q + 4) + rd16 d (o' + 4)"
    using b q(3) unfolding eq by (subst rd16_wr_other(4)) (auto simp: rd16_wr16)
  ultimately have rl: "ent_rl ?d q = ?rq + ?ro"
    by simp
  have h: "rd32 ?d q = rd32 d q" "name_len_of g ?d q = ?nl" "byte_at ?d (q + 7) = byte_at d (q + 7)"
    "slice ?d (q + 8) ?nl = slice d (q + 8) ?nl"
  proof -
    show "rd32 ?d q = rd32 d q"
      by (rule rd32_cong(1)) (auto simp: keep)
    have "rd16 ?d (q + 6) = rd16 d (q + 6)"
      by (rule rd16_cong(1)) (use lt in \<open>auto simp: keep\<close>)
    thus "name_len_of g ?d q = ?nl" "byte_at ?d (q + 7) = byte_at d (q + 7)"
      using lt by (auto simp: name_len_of_def keep)
    show "slice ?d (q + 8) ?nl = slice d (q + 8) ?nl"
      by (rule slice_eqI) (use lt in \<open>auto simp: keep\<close>)
  qed
  have fits: "ent_fits g ?d q"
    using q(2,3) o'(2) h rl b by (auto simp: ent_fits_def mod_add_eq[symmetric] mod_eq_0_iff_dvd)
  have nxt: "q + ent_rl ?d q = o' + ?ro"
    using rl q(3) by simp
  have "agree (o' + ?ro) (leaf_limit g) d ?d"
    using b by (auto simp: agree_def keep)
  hence "leaf_list g ?d (o' + ?ro) = leaf_list g d (o' + ?ro) \<and> leaf_entries_ok g ?d (o' + ?ro)"
    by (rule leaf_agree[OF o'(3)])
  thus ?thesis
    using fits h leaf_list_step[OF q(1) fits] leaf_entries_ok_step[OF q(1), of ?d] by (simp add: nxt ent_def)
qed

text \<open>A record found by \<open>leaf_find\<close>, with what is before and after it.\<close>

lemma foundE:
  assumes "found g d name 0 None o' p" "leaf_wf g d"
  obtains pre where "reach g d 0 pre o'" "o' < leaf_limit g" "ent_fits g d o'" "leaf_entries_ok g d (o' + ent_rl d o')"
    "live (leaf_list g d 0) = live pre @ (name, rd32 d o', if g_filetype g then byte_at d (o' + DE_file_type) else 0) #
      live (leaf_list g d (o' + ent_rl d o'))" "rd32 d o' \<noteq> 0"
    "if pre = [] then p = None \<and> o' = 0 else \<exists>q pre'. p = Some q \<and> pre = pre' @ [ent g d q] \<and> reach g d 0 pre' q \<and>
        q < leaf_limit g \<and> ent_fits g d q \<and> o' = q + ent_rl d q"
proof -
  obtain pre where pre: "reach g d 0 pre o'" "o' < leaf_limit g" "ent_fits g d o'" "ent_is g d name o'" and
      p: "if pre = [] then p = None else \<exists>q pre'. p = Some q \<and> pre = pre' @ [ent g d q] \<and> reach g d 0 pre' q \<and>
        q < leaf_limit g \<and> ent_fits g d q \<and> o' = q + ent_rl d q"
    using assms(1) unfolding found_def by blast
  have "pre = [] \<Longrightarrow> o' = 0"
    using pre(1) by (auto elim: reach_NilE)
  moreover have "leaf_entries_ok g d (o' + ent_rl d o')"
    using assms(2) reach_ok[OF pre(1)] leaf_entries_ok_step[OF pre(2)] by (simp add: leaf_wf_def)
  moreover have "live (leaf_list g d 0) = live pre @ (name, rd32 d o', if g_filetype g then byte_at d (o' + DE_file_type) else 0) #
      live (leaf_list g d (o' + ent_rl d o'))"
    using reach_list[OF pre(1)] leaf_list_step[OF pre(2,3)] pre(4) by (simp add: ent_def ent_is_def)
  moreover have "rd32 d o' \<noteq> 0"
    using pre(4) by (simp add: ent_is_def)
  ultimately show ?thesis
    using that[OF pre(1-3)] p by presburger
qed

lemma leaf_remove_live:
  assumes "leaf_wf g d" "leaf_geo g" "found g d name 0 None o' p"
  shows "\<exists>xs v ys. live (leaf_list g d 0) = xs @ (name, v) # ys \<and> leaf_entries_ok g (leaf_remove o' p d) 0 \<and>
    live (leaf_list g (leaf_remove o' p d) 0) = xs @ ys"
  using assms(3,1)
proof (rule foundE)
  fix pre
  let ?rest = "live (leaf_list g d (o' + ent_rl d o'))" and ?d = "leaf_remove o' p d"
  assume o': "o' < leaf_limit g" "ent_fits g d o'" "leaf_entries_ok g d (o' + ent_rl d o')"
    and all: "live (leaf_list g d 0) = live pre @ (name, rd32 d o', if g_filetype g then byte_at d (o' + DE_file_type) else 0) # ?rest"
    and p: "if pre = [] then p = None \<and> o' = 0 else \<exists>q pre'. p = Some q \<and> pre = pre' @ [ent g d q] \<and> reach g d 0 pre' q \<and>
        q < leaf_limit g \<and> ent_fits g d q \<and> o' = q + ent_rl d q"
  have len: "length d = unat (g_bs g)"
    using assms(1) by (simp add: leaf_wf_def)
  have "leaf_entries_ok g ?d 0 \<and> live (leaf_list g ?d 0) = live pre @ ?rest"
  proof (cases "pre = []")
    case True
    thus ?thesis
      using leaf_remove_first[OF o' len] p by (simp add: leaf_remove_def)
  next
    case False
    then obtain q pre' where q: "p = Some q" "pre = pre' @ [ent g d q]" "reach g d 0 pre' q"
        "q < leaf_limit g" "ent_fits g d q" "o' = q + ent_rl d q"
      using p by auto
    have "agree 0 q d ?d"
      using q(1,6) by (auto simp: agree_def leaf_remove_def byte_at_fill byte_at_wr)
    note new = local_change[OF q(3) this]
    show ?thesis
      using leaf_remove_merge[OF q(4-6) o' len assms(2)] new
      by (simp add: q(1,2) live_Cons[of "ent g d q" "leaf_list g d (o' + ent_rl d o')"])
  qed
  thus ?thesis
    using all by blast
qed

lemma length_leaf_remove [simp]: "length (leaf_remove o' p d) = length d"
  by (simp add: leaf_remove_def split: option.splits)

lemma leaf_remove_map:
  assumes "leaf_wf g d" "leaf_geo g" "leaf_find g d name = Some (o', p)"
  shows "leaf_wf g (leaf_remove o' p d) \<and> leaf_map g (leaf_remove o' p d) = (leaf_map g d)(name := None)"
proof -
  let ?d = "leaf_remove o' p d"
  have "found g d name 0 None o' p"
    using leaf_find_spec[of g d name] assms(1,3) by (simp add: leaf_wf_def)
  then obtain xs v ys where xy: "live (leaf_list g d 0) = xs @ (name, v) # ys" "leaf_entries_ok g ?d 0"
      "live (leaf_list g ?d 0) = xs @ ys"
    using leaf_remove_live[OF assms(1,2)] by blast
  have dist: "distinct (map fst (xs @ (name, v) # ys))"
    using assms(1) by (simp add: leaf_wf_def flip: xy(1))
  have "leaf_wf g ?d"
    using xy assms(1) dist by (intro leaf_wfI[OF _ xy(2,3)]) (auto simp: leaf_wf_def)
  thus ?thesis
    using map_of_mid_delete[OF dist] by (simp add: leaf_map_def xy)
qed

lemma leaf_set_inode_live:
  assumes o': "o' < leaf_limit g" "ent_fits g d o'" "leaf_entries_ok g d (o' + ent_rl d o')" and d: "length d = unat (g_bs g)"
    and ino: "ino \<le> g_inodes_count g"
  shows "leaf_entries_ok g (leaf_set_inode g o' ino ty d) o' \<and> leaf_list g (leaf_set_inode g o' ino ty d) o' =
    (ent_rl d o', ino, slice d (o' + DE_name) (name_len_of g d o'), if g_filetype g then ty else 0) # leaf_list g d (o' + ent_rl d o')"
proof -
  let ?d = "leaf_set_inode g o' ino ty d"
  have b: "o' + 12 \<le> length d"
    using o'(2) leaf_limit_le[of g] d by (auto simp: ent_fits_def)
  have keep: "o' + 4 \<le> i \<Longrightarrow> i \<noteq> o' + 7 \<Longrightarrow> byte_at ?d i = byte_at d i" for i
    by (auto simp: leaf_set_inode_def Let_def byte_at_update byte_at_wr)
  have h: "rd32 ?d o' = ino" "rd16 ?d (o' + 4) = rd16 d (o' + 4)" "name_len_of g ?d o' = name_len_of g d o'"
    "g_filetype g \<Longrightarrow> byte_at ?d (o' + 7) = ty" "slice ?d (o' + 8) (name_len_of g d o') = slice d (o' + 8) (name_len_of g d o')"
    using b by (auto simp: leaf_set_inode_def Let_def rd_update_other rd32_wr32 rd16_wr_other name_len_of_def byte_at_update byte_at_wr
        intro!: slice_eqI)
  have fits: "ent_fits g ?d o'"
    using o'(2) h ino by (simp add: ent_fits_def)
  have "agree (o' + ent_rl d o') (leaf_limit g) d ?d"
    using o'(2) by (auto simp: agree_def ent_fits_def keep)
  hence "leaf_list g ?d (o' + ent_rl d o') = leaf_list g d (o' + ent_rl d o') \<and> leaf_entries_ok g ?d (o' + ent_rl d o')"
    by (rule leaf_agree[OF o'(3)])
  thus ?thesis
    using h fits leaf_list_step[OF o'(1) fits] leaf_entries_ok_step[OF o'(1), of ?d] by (simp add: ent_def)
qed

lemma leaf_set_inode_map:
  assumes "leaf_wf g d" "leaf_find g d name = Some (o', p)" and ino: "ino \<noteq> 0" "ino \<le> g_inodes_count g"
  shows "leaf_wf g (leaf_set_inode g o' ino ty d) \<and>
    leaf_map g (leaf_set_inode g o' ino ty d) = (leaf_map g d)(name \<mapsto> (ino, if g_filetype g then ty else 0))"
proof -
  let ?d = "leaf_set_inode g o' ino ty d"
  have f: "found g d name 0 None o' p"
    using leaf_find_spec[of g d name] assms(1,2) by (simp add: leaf_wf_def)
  obtain pre where pre: "reach g d 0 pre o'" "o' < leaf_limit g" "ent_fits g d o'" "leaf_entries_ok g d (o' + ent_rl d o')"
    "live (leaf_list g d 0) = live pre @ (name, rd32 d o', if g_filetype g then byte_at d (o' + DE_file_type) else 0) #
      live (leaf_list g d (o' + ent_rl d o'))" (is "_ = _ @ (_, ?v) # ?rest")
    by (rule foundE[OF f assms(1)])
  have len: "length d = unat (g_bs g)" "length ?d = unat (g_bs g)"
    using assms(1) by (simp_all add: leaf_wf_def leaf_set_inode_def Let_def)
  have "agree 0 o' d ?d"
    by (auto simp: agree_def leaf_set_inode_def Let_def byte_at_update byte_at_wr)
  note new = local_change[OF pre(1) this]
  note here = leaf_set_inode_live[OF pre(2-4) len(1) ino(2), of ty]
  have nm: "slice d (o' + 8) (name_len_of g d o') = name"
    using f by (auto simp: found_def ent_is_def)
  have ok: "leaf_entries_ok g ?d 0" and lst: "live (leaf_list g ?d 0) = live pre @ (name, ino, if g_filetype g then ty else 0) # ?rest"
    using new here nm ino(1) by simp_all
  have dist: "distinct (map fst (live pre @ (name, ?v) # ?rest))"
    using assms(1) by (simp add: leaf_wf_def flip: pre(5))
  have "\<forall>n \<in> fst ` set (live pre @ (name, ?v) # ?rest). n \<noteq> []"
    using assms(1) unfolding leaf_wf_def pre(5) by blast
  hence "leaf_wf g ?d"
    using dist by (intro leaf_wfI[OF len(2) ok lst]) (simp_all add: ball_Un)
  thus ?thesis
    unfolding leaf_map_def lst pre(5) using map_of_mid_change[OF dist] by blast
qed

subsection \<open>The interface\<close>

definition leaf_inv :: "sfs_geo \<Rightarrow> bytes \<Rightarrow> bool" where
  "leaf_inv g d = (leaf_wf g d \<and> leaf_geo g)"

definition leaf_okn :: "bytes \<Rightarrow> bool" where
  "leaf_okn name = (name \<noteq> [] \<and> length name \<le> SFS_NAME_MAX)"

definition leaf_okv :: "sfs_geo \<Rightarrow> u32 \<times> u8 \<Rightarrow> bool" where
  "leaf_okv g v = (fst v \<noteq> 0 \<and> fst v \<le> g_inodes_count g)"

definition leaf_norm :: "sfs_geo \<Rightarrow> u32 \<times> u8 \<Rightarrow> u32 \<times> u8" where
  "leaf_norm g v = (fst v, if g_filetype g then snd v else 0)"

definition leaf_val :: "sfs_geo \<Rightarrow> bytes \<Rightarrow> nat \<times> nat option \<Rightarrow> u32 \<times> u8" where
  "leaf_val g d p = (rd32 d (fst p), if g_filetype g then byte_at d (fst p + DE_file_type) else 0)"

interpretation lf: name_block "leaf_inv g" "leaf_map g" leaf_okn "leaf_okv g" "leaf_norm g" "leaf_find g" "leaf_val g"
    "\<lambda>d n v. leaf_insert g d n (fst v) (snd v)" "\<lambda>d p v. leaf_set_inode g (fst p) (fst v) (snd v) d" "\<lambda>d p. leaf_remove (fst p) (snd p) d" for g
proof
  fix d n v and p :: "nat \<times> nat option" and d'
  assume inv: "leaf_inv g d"
  hence wf: "leaf_wf g d" and geo: "leaf_geo g" and ok: "leaf_entries_ok g d 0"
    by (auto simp: leaf_inv_def leaf_wf_def)
  have eq: "leaf_val g d = (\<lambda>(o', _). (rd32 d o', if g_filetype g then byte_at d (o' + DE_file_type) else 0))"
    by (auto simp: leaf_val_def fun_eq_iff)
  show view: "map_option (leaf_val g d) (leaf_find g d n) = leaf_map g d n"
    unfolding eq by (rule leaf_find_map[OF ok])
  show "leaf_inv g d' \<and> leaf_map g d' = (leaf_map g d)(n \<mapsto> leaf_norm g v)"
    if "leaf_find g d n = None" "leaf_okn n" "leaf_okv g v" "leaf_insert g d n (fst v) (snd v) = Some d'"
    using leaf_insert_map[OF wf that(4)] view that geo by (simp add: leaf_inv_def leaf_okn_def leaf_okv_def leaf_norm_def)
  show "leaf_inv g (leaf_set_inode g (fst p) (fst v) (snd v) d) \<and>
      leaf_map g (leaf_set_inode g (fst p) (fst v) (snd v) d) = (leaf_map g d)(n \<mapsto> leaf_norm g v)"
    if "leaf_find g d n = Some p" "leaf_okv g v"
    using leaf_set_inode_map[OF wf, of n "fst p" "snd p" "fst v" "snd v"] that geo by (simp add: leaf_inv_def leaf_okv_def leaf_norm_def)
  show "leaf_inv g (leaf_remove (fst p) (snd p) d) \<and> leaf_map g (leaf_remove (fst p) (snd p) d) = (leaf_map g d)(n := None)"
    if "leaf_find g d n = Some p"
    using leaf_remove_map[OF wf geo, of n "fst p" "snd p"] that geo by (simp add: leaf_inv_def)
qed

end
