(* ===== verification/Sfs_Leaf_Split.thy ===== *)
theory Sfs_Leaf_Split
  imports Sfs_Leaf_Map Sfs_Dir
begin

unbundle bit_operations_syntax

section \<open>Splitting a directory leaf\<close>

text \<open>
  What \<open>split_leaf\<close> does with the names of a full leaf. \<open>leaf_dmap\<close> lists the live records with their
  hashes, \<open>dmap_sort\<close> orders them by hash, \<open>leaf_split_point\<close> chooses how many stay, and \<open>leaf_build\<close> packs
  the records of each half into a leaf of its own. No name is lost or invented, the halves are
  separated by the hash written into the index, and each half has room for one more name of any
  length.
\<close>

subsection \<open>The sort by hash\<close>

lemma mset_dmap_shift [simp]: "mset (dmap_shift t rs) = add_mset t (mset rs)"
  by (induction t rs rule: dmap_shift.induct) auto

lemma sorted_dmap_shift:
  "sorted_wrt (\<lambda>a b. m_hash b \<le> m_hash a) rs \<Longrightarrow> sorted_wrt (\<lambda>a b. m_hash b \<le> m_hash a) (dmap_shift t rs)"
proof (induction t rs rule: dmap_shift.induct)
  case (2 t r rs)
  have "set (dmap_shift t rs) = insert t (set rs)"
    using mset_dmap_shift[of t rs] by (metis set_mset_add_mset_insert set_mset_mset)
  thus ?case
    using 2 by (auto simp: not_less)
qed simp

lemma dmap_fold:
  "sorted_wrt (\<lambda>a b. m_hash b \<le> m_hash a) rs \<Longrightarrow>
   sorted_wrt (\<lambda>a b. m_hash b \<le> m_hash a) (fold dmap_shift m rs) \<and> mset (fold dmap_shift m rs) = mset m + mset rs"
  by (induction m arbitrary: rs) (auto simp: sorted_dmap_shift)

lemma dmap_sort_sorts: "mset (dmap_sort m) = mset m \<and> sorted (map m_hash (dmap_sort m))"
  using dmap_fold[of "[]" m] by (simp add: dmap_sort_def sorted_map sorted_wrt_rev)

subsection \<open>Packing records into a leaf\<close>

definition triple :: "sfs_geo \<Rightarrow> bytes \<Rightarrow> nat \<Rightarrow> bytes \<times> u32 \<times> u8" where
  "triple g d off = (slice d (off + DE_name) (name_len_of g d off), rd32 d off,
     if g_filetype g then byte_at d (off + DE_file_type) else 0)"

lemma triple_ent: "ent g d off = (rl, i, n, t) \<longleftrightarrow> rl = ent_rl d off \<and> triple g d off = (n, i, t)"
  by (auto simp: ent_def triple_def)

lemma live_step: "off < leaf_limit g \<Longrightarrow> ent_fits g d off \<Longrightarrow>
    live (leaf_list g d off) = live [ent g d off] @ live (leaf_list g d (off + ent_rl d off))"
  using live_Cons[of "ent g d off" "leaf_list g d (off + ent_rl d off)"] leaf_list_step[of off g d] by presburger

definition packable :: "sfs_geo \<Rightarrow> bytes \<Rightarrow> nat \<Rightarrow> bool" where
  "packable g d off = (rd32 d off \<noteq> 0 \<and> rd32 d off \<le> g_inodes_count g \<and> 0 < name_len_of g d off \<and> name_len_of g d off \<le> SFS_NAME_MAX)"

abbreviation ent_size :: "sfs_geo \<Rightarrow> bytes \<Rightarrow> nat \<Rightarrow> nat" where
  "ent_size g d off \<equiv> rec_min (name_len_of g d off)"

lemma leaf_limit_mod: "leaf_geo g \<Longrightarrow> leaf_limit g mod 4 = 0 \<and> leaf_limit g < 2 ^ 16"
  unfolding leaf_geo_def leaf_limit_def by auto

text \<open>One record, copied to \<open>off\<close> and given the length \<open>L\<close>.\<close>

definition packed :: "sfs_geo \<Rightarrow> bytes \<Rightarrow> nat \<Rightarrow> nat \<Rightarrow> nat \<Rightarrow> bytes \<Rightarrow> bytes" where
  "packed g src e off L dst = wr16 (blit dst off (slice src e (ent_size g src e))) (off + DE_rec_len) (of_nat L)"

lemma length_packed [simp]: "length (packed g src e off L dst) = length dst"
  by (simp add: packed_def)

lemma packed_outside: "i < off \<or> off + ent_size g src e \<le> i \<Longrightarrow> byte_at (packed g src e off L dst) i = byte_at dst i"
  using rec_min_ge(1)[of "name_len_of g src e"] by (auto simp: packed_def byte_at_wr byte_at_blit)

lemma packed_ent:
  assumes src: "packable g src e" and b: "off + ent_size g src e \<le> off + L" "off + L \<le> leaf_limit g" "L mod 4 = 0" "L < 2 ^ 16"
    and dst: "length dst = unat (g_bs g)" and d: "agree off (off + ent_size g src e) (packed g src e off L dst) d"
  shows "ent_fits g d off \<and> triple g d off = triple g src e \<and> ent_rl d off = L \<and> name_len_of g d off = name_len_of g src e"
proof -
  let ?n = "name_len_of g src e" and ?p = "packed g src e off L dst"
  have s: "12 \<le> rec_min ?n" "8 + ?n \<le> rec_min ?n" "off + rec_min ?n \<le> length dst"
    using src rec_min_ge[of ?n] b leaf_limit_le[of g] dst by (auto simp: packable_def)
  have copy: "byte_at d (off + k) = byte_at src (e + k)" if "k < rec_min ?n" "k < 4 \<or> 6 \<le> k" for k
    using agreeD[OF d, of "off + k"] that s by (auto simp: packed_def byte_at_wr byte_at_blit slice_def)
  have "rd16 d (off + 4) = rd16 ?p (off + 4)"
    using agree_rd(1)[OF d, of "off + 4"] s by simp
  hence rl: "ent_rl d off = L"
    using s b(4) by (simp add: packed_def rd16_wr16 unat_of_nat_small)
  have "rd32 d off = rd32 src e" "rd16 d (off + 6) = rd16 src (e + 6)"
    using s by (auto intro!: rd32_cong(1) rd16_cong(1) simp: copy add.assoc)
  moreover have "byte_at d (off + 6) = byte_at src (e + 6)" "byte_at d (off + 7) = byte_at src (e + 7)"
    using s by (auto simp: copy)
  moreover from calculation have nl: "name_len_of g d off = ?n"
    by (simp add: name_len_of_def)
  moreover have "slice d (off + 8) ?n = slice src (e + 8) ?n"
    using s by (intro slice_eqI) (simp add: copy add.assoc)
  ultimately show ?thesis
    using rl s b src by (auto simp: ent_fits_def triple_def packable_def)
qed

text \<open>The block that \<open>leaf_build\<close> makes: the records in order, the last one with all the space that is left.\<close>

lemma leaf_build_loop_outside:
  "length (leaf_build_loop g src es off dst) = length dst \<and>
   (\<forall>i < off. byte_at (leaf_build_loop g src es off dst) i = byte_at dst i)"
proof (induction g src es off dst rule: leaf_build_loop.induct)
  case (2 g src e es off dst)
  thus ?case
    using packed_outside[of _ off g src e] by (auto simp: Let_def simp flip: packed_def)
qed simp

lemma leaf_build_loop_live:
  assumes "es \<noteq> []" "\<forall>e \<in> set es. packable g src e" "off + (\<Sum>e\<leftarrow>es. ent_size g src e) \<le> leaf_limit g" "off mod 4 = 0"
    and "length dst = unat (g_bs g)" "leaf_geo g"
  shows "let d = leaf_build_loop g src es off dst in leaf_entries_ok g d off \<and> live (leaf_list g d off) = map (triple g src) es \<and>
     (\<exists>x \<in> set (leaf_list g d off). ent_room x = leaf_limit g - (off + (\<Sum>e\<leftarrow>es. ent_size g src e)))"
  using assms(1-5)
proof (induction es arbitrary: off dst)
  case (Cons e es)
  let ?n = "name_len_of g src e" and ?sz = "ent_size g src e"
  let ?L = "if es = [] then leaf_limit g - off else ?sz"
  let ?p = "packed g src e off ?L dst"
  let ?d = "leaf_build_loop g src es (off + ?sz) ?p"
  have d: "leaf_build_loop g src (e # es) off dst = ?d"
    by (simp add: Let_def packed_def)
  have src: "packable g src e" and fit: "off + ?sz \<le> leaf_limit g" and lt: "off < leaf_limit g"
    using Cons.prems rec_min_ge(1)[of ?n] by auto
  have lim: "leaf_limit g mod 4 = 0" "leaf_limit g < 2 ^ 16"
    using leaf_limit_mod[OF assms(6)] by auto
  have L: "off + ?sz \<le> off + ?L" "off + ?L \<le> leaf_limit g" "?L mod 4 = 0" "?L < 2 ^ 16"
    using fit lim Cons.prems(4) rec_min_ge(3)[of ?n] by (auto simp: mod_eq_0_iff_dvd)
  have "agree off (off + ?sz) ?p ?d"
    using leaf_build_loop_outside[of g src es "off + ?sz" ?p] by (simp add: agree_def)
  note e = packed_ent[OF src L Cons.prems(5) this]
  have fits: "ent_fits g ?d off" and rl: "ent_rl ?d off = ?L" and tr: "triple g ?d off = triple g src e"
    using e by auto
  have live1: "live [ent g ?d off] = [triple g src e]"
    using tr src by (simp add: ent_def triple_def packable_def)
  have room: "ent_room (ent g ?d off) = ?L - ?sz"
    using rl tr src by (simp add: ent_room_def ent_def triple_def packable_def e)
  show ?case
  proof (cases "es = []")
    case True
    have "leaf_list g ?d off = [ent g ?d off]" "leaf_entries_ok g ?d off"
      using leaf_list_step[OF lt fits] leaf_entries_ok_step[OF lt, of ?d] fits rl True lt
      by (auto simp: leaf_list_end leaf_entries_ok_end)
    thus ?thesis
      using live1 room True unfolding d by (simp add: Let_def)
  next
    case False
    have "(off + ?sz) mod 4 = 0"
      using Cons.prems(4) rec_min_ge(3)[of ?n] by (simp add: mod_eq_0_iff_dvd)
    note IH = Cons.IH[OF False _ _ this, of ?p]
    have "leaf_entries_ok g ?d (off + ?sz) \<and> live (leaf_list g ?d (off + ?sz)) = map (triple g src) es \<and>
     (\<exists>x \<in> set (leaf_list g ?d (off + ?sz)). ent_room x = leaf_limit g - (off + ?sz + (\<Sum>e\<leftarrow>es. ent_size g src e)))"
      using IH Cons.prems by (simp add: Let_def add.assoc)
    thus ?thesis
      using leaf_list_step[OF lt fits] live_step[OF lt fits] leaf_entries_ok_step[OF lt, of ?d] fits rl False live1 unfolding d
      by (simp add: Let_def add.assoc)
  qed
qed simp

lemma leaf_build_live:
  assumes "m \<noteq> []" "\<forall>x \<in> set m. packable g src (m_off x)" "(\<Sum>x\<leftarrow>m. ent_size g src (m_off x)) \<le> leaf_limit g" "leaf_geo g"
  shows "leaf_entries_ok g (leaf_build g src m) 0" "live (leaf_list g (leaf_build g src m) 0) = map (triple g src \<circ> m_off) m"
    "\<exists>x \<in> set (leaf_list g (leaf_build g src m) 0). ent_room x = leaf_limit g - (\<Sum>x\<leftarrow>m. ent_size g src (m_off x))"
    "length (leaf_build g src m) = unat (g_bs g)"
  using leaf_build_loop_live[of "map m_off m" g src 0 "replicate (unat (g_bs g)) 0"] assms
    leaf_build_loop_outside[of g src "map m_off m" 0 "replicate (unat (g_bs g)) 0"]
  by (auto simp: leaf_build_def Let_def comp_def)

subsection \<open>The records of the old leaf\<close>

definition dmap_of :: "sfs_geo \<Rightarrow> u8 \<Rightarrow> bytes \<Rightarrow> dmap \<Rightarrow> bool" where
  "dmap_of g ver d x = (m_size x = ent_size g d (m_off x) \<and> name_hash g ver (fst (triple g d (m_off x))) = Inr (m_hash x) \<and>
     rd32 d (m_off x) \<noteq> 0 \<and> rd32 d (m_off x) \<le> g_inodes_count g \<and> name_len_of g d (m_off x) \<le> SFS_NAME_MAX)"

lemma rec_min_le: "8 + n \<le> r \<Longrightarrow> r mod 4 = 0 \<Longrightarrow> rec_min n \<le> r"
  unfolding rec_min_def by presburger

lemma ent_size_le: "ent_fits g d off \<Longrightarrow> ent_size g d off \<le> ent_rl d off"
  by (simp add: ent_fits_def rec_min_le)

lemma leaf_dmap_live:
  assumes "leaf_entries_ok g d off" "leaf_limit g - off \<le> k" "leaf_limit g - off \<le> 12 * cap" "leaf_dmap k g ver d off cap = Inr m"
  shows "map (triple g d \<circ> m_off) m = live (leaf_list g d off) \<and> (\<forall>x \<in> set m. dmap_of g ver d x) \<and>
    off + (\<Sum>x\<leftarrow>m. m_size x) \<le> leaf_limit g"
  using assms
proof (induction arbitrary: k cap m rule: leaf_induct)
  case last
  thus ?case by (cases k) (auto simp: leaf_list_end)
next
  case (step off)
  then obtain k' where k: "k = Suc k'"
    by (cases k) auto
  have cap: "cap \<noteq> 0"
    using step.prems(2) step.hyps(1) by auto
  have b: "leaf_limit g - (off + ent_rl d off) \<le> k'" "leaf_limit g - (off + ent_rl d off) \<le> 12 * (cap - 1)"
    "leaf_limit g - (off + ent_rl d off) \<le> 12 * cap"
    using step.prems(1,2) step.hyps(2) unfolding k ent_fits_def by linarith+
  note lst = live_step[OF step.hyps(1,2)] and sz = ent_size_le[OF step.hyps(2)]
  show ?case
  proof (cases "rd32 d off = 0")
    case True
    hence "leaf_dmap k' g ver d (off + ent_rl d off) cap = Inr m"
      using step.prems(3) step.hyps(1) cap by (simp add: k Let_def)
    with step.IH[OF b(1,3) this] show ?thesis
      using True by (simp add: lst ent_is_live)
  next
    case False
    then obtain h m' where h: "name_hash g ver (slice d (off + DE_name) (name_len_of g d off)) = Inr h"
        "leaf_dmap k' g ver d (off + ent_rl d off) (cap - 1) = Inr m'"
        "m = \<lparr>m_hash = h, m_off = off, m_size = ent_size g d off\<rparr> # m'"
      using step.prems(3) step.hyps(1) cap by (auto simp: k Let_def split: sum.splits)
    have "dmap_of g ver d \<lparr>m_hash = h, m_off = off, m_size = ent_size g d off\<rparr>"
      using h(1) False step.hyps(2) by (simp add: dmap_of_def triple_def ent_fits_def)
    with step.IH[OF b(1,2) h(2)] show ?thesis
      using False sz by (simp add: lst ent_is_live h(3) triple_def)
  qed
qed

lemma wf_packable:
  assumes "leaf_wf g d" "map (triple g d \<circ> m_off) m = live (leaf_list g d 0)" "\<forall>x \<in> set m. dmap_of g ver d x"
  shows "\<forall>x \<in> set m. packable g d (m_off x)"
proof
  fix x
  assume x: "x \<in> set m"
  hence "triple g d (m_off x) \<in> set (live (leaf_list g d 0))"
    unfolding assms(2)[symmetric] by simp
  hence "fst (triple g d (m_off x)) \<noteq> []"
    using assms(1) by (auto simp: leaf_wf_def)
  hence "0 < name_len_of g d (m_off x)"
    by (cases "name_len_of g d (m_off x)") (auto simp: triple_def slice_def)
  thus "packable g d (m_off x)"
    using assms(3) x by (simp add: packable_def dmap_of_def)
qed

subsection \<open>The split point\<close>

lemma split_moves_spec:
  assumes "\<forall>e \<in> set es. m_size e \<le> 264" "sz \<le> half + 132"
  shows "\<exists>k \<le> length es. split_moves half es sz mv = mv + k \<and> sz + (\<Sum>x\<leftarrow>take k es. m_size x) \<le> half + 132 \<and>
     (k < length es \<longrightarrow> half < sz + (\<Sum>x\<leftarrow>take k es. m_size x) + 132 + 1)"
  using assms
proof (induction half es sz mv rule: split_moves.induct)
  case (2 half e es sz mv)
  show ?case
  proof (cases "half < sz + m_size e div 2")
    case True
    thus ?thesis
      using "2.prems" by (intro exI[of _ 0]) auto
  next
    case False
    moreover have "m_size e \<le> 264"
      using "2.prems"(1) by simp
    ultimately have le: "sz + m_size e \<le> half + 132"
      by presburger
    obtain k where "k \<le> length es" "split_moves half es (sz + m_size e) (mv + 1) = mv + 1 + k"
        "sz + m_size e + (\<Sum>x\<leftarrow>take k es. m_size x) \<le> half + 132"
        "k < length es \<longrightarrow> half < sz + m_size e + (\<Sum>x\<leftarrow>take k es. m_size x) + 132 + 1"
      using "2.IH"[OF False _ le] "2.prems"(1) by auto
    thus ?thesis
      using False by (intro exI[of _ "Suc k"]) (auto simp: add.assoc)
  qed
qed auto

lemma sum_take_drop: "(\<Sum>x\<leftarrow>take k m. f x) + (\<Sum>x\<leftarrow>drop k m. f x) = (\<Sum>x\<leftarrow>m. f x :: nat)"
  by (metis append_take_drop_id map_append sum_list_append)

lemma leaf_split_room:
  assumes "\<forall>e \<in> set m. m_size e \<le> 264" "(\<Sum>x\<leftarrow>m. m_size x) \<le> leaf_limit g" "2 \<le> length m" "1024 \<le> unat (g_bs g)"
  defines "sp \<equiv> leaf_split_point g m"
  shows "0 < sp \<and> sp < length m \<and> (\<Sum>x\<leftarrow>take sp m. m_size x) + 264 \<le> leaf_limit g \<and> (\<Sum>x\<leftarrow>drop sp m. m_size x) + 264 \<le> leaf_limit g"
proof -
  let ?half = "unat (g_bs g) div 2" and ?n = "length m"
  obtain k where k: "k \<le> ?n" "split_moves ?half (rev m) 0 0 = k" "(\<Sum>x\<leftarrow>take k (rev m). m_size x) \<le> ?half + 132"
      "k < ?n \<longrightarrow> ?half < (\<Sum>x\<leftarrow>take k (rev m). m_size x) + 133"
    using split_moves_spec[of "rev m" 0 ?half 0] assms(1) by auto
  have moved: "(\<Sum>x\<leftarrow>take k (rev m). m_size x) = (\<Sum>x\<leftarrow>drop (?n - k) m. m_size x)"
    by (simp add: take_rev sum_list_rev flip: rev_map)
  have lim: "unat (g_bs g) - 12 \<le> leaf_limit g"
    by (simp add: leaf_limit_def)
  have k0: "k \<noteq> 0"
    using k(4) assms(3,4) by (intro notI) auto
  show ?thesis
  proof (cases "k = ?n")
    case True
    hence sp: "sp = 1"
      using assms(3) by (simp add: sp_def leaf_split_point_def k(2) Let_def)
    obtain a m' where m: "m = a # m'"
      using assms(3) by (cases m) auto
    have "(\<Sum>x\<leftarrow>drop 1 m. m_size x) \<le> ?half + 132"
      using moved k(3) True by (simp add: m)
    thus ?thesis
      using assms(1,3,4) lim sp unfolding m by auto
  next
    case False
    hence sp: "sp = ?n - k"
      using k(1) k0 by (simp add: sp_def leaf_split_point_def k(2) Let_def)
    have "?half < (\<Sum>x\<leftarrow>drop sp m. m_size x) + 133" "(\<Sum>x\<leftarrow>drop sp m. m_size x) \<le> ?half + 132"
      using k moved False sp by auto
    moreover have "0 < sp" "sp < ?n"
      using sp k(1) k0 False by auto
    ultimately show ?thesis
      using sum_take_drop[of m_size sp m] assms(2,4) lim by linarith
  qed
qed

subsection \<open>The two halves\<close>

lemma rec_min_255: "n \<le> SFS_NAME_MAX \<Longrightarrow> rec_min n \<le> 264"
  unfolding rec_min_def by presburger

lemma leaf_build_half:
  assumes "leaf_wf g d" "leaf_geo g" "m \<noteq> []" "\<forall>x \<in> set m. packable g d (m_off x) \<and> dmap_of g ver d x"
    and "(\<Sum>x\<leftarrow>m. m_size x) + 264 \<le> leaf_limit g" "distinct (map (fst \<circ> triple g d \<circ> m_off) m)"
  shows "leaf_wf g (leaf_build g d m) \<and> leaf_map g (leaf_build g d m) = map_of (map (triple g d \<circ> m_off) m) \<and>
    (\<forall>name ino ty. length name \<le> SFS_NAME_MAX \<longrightarrow> leaf_insert g (leaf_build g d m) name ino ty \<noteq> None)"
proof -
  let ?b = "leaf_build g d m"
  have sum: "(\<Sum>x\<leftarrow>m. ent_size g d (m_off x)) = (\<Sum>x\<leftarrow>m. m_size x)"
    using assms(4) by (intro arg_cong[where f = sum_list] map_cong) (auto simp: dmap_of_def)
  have pk: "\<forall>x \<in> set m. packable g d (m_off x)" "(\<Sum>x\<leftarrow>m. ent_size g d (m_off x)) \<le> leaf_limit g"
    using assms(4,5) sum by auto
  note b = leaf_build_live[OF assms(3) pk assms(2)]
  have "leaf_wf g ?b"
  proof (rule leaf_wfI[OF b(4,1,2)])
    show "distinct (map fst (map (triple g d \<circ> m_off) m))"
      using assms(6) by (simp add: comp_assoc)
    show "\<forall>n \<in> fst ` set (map (triple g d \<circ> m_off) m). n \<noteq> []"
      using pk(1) by (auto simp: triple_def packable_def slice_def)
  qed
  moreover have "leaf_insert g ?b name ino ty \<noteq> None" if "length name \<le> SFS_NAME_MAX" for name ino ty
  proof
    assume "leaf_insert g ?b name ino ty = None"
    from leaf_insert_None[OF b(1) this] b(3) have "leaf_limit g - (\<Sum>x\<leftarrow>m. m_size x) < rec_min (length name)"
      unfolding sum by metis
    thus False
      using rec_min_255[OF that] assms(5) by linarith
  qed
  ultimately show ?thesis
    by (simp add: leaf_map_def b(2))
qed

lemma sorted_split:
  assumes "sorted (map f m)" "sp < length m"
  shows "(\<forall>x \<in> set (take sp m). f x \<le> f (m ! sp)) \<and> (\<forall>x \<in> set (drop sp m). f (m ! sp) \<le> f x)"
  using assms by (auto simp: in_set_conv_nth sorted_iff_nth_mono)

text \<open>The map of a leaf before and after the split, for the leaf as \<open>split_leaf\<close> reads it.\<close>

lemma leaf_split_map:
  assumes wf: "leaf_wf g d" and geo: "leaf_geo g" "1024 \<le> unat (g_bs g)"
    and m0: "leaf_dmap (leaf_limit g) g ver d 0 (SFS_MAX_ALLOC div 8) = Inr m0" "2 \<le> length m0"
  defines "m \<equiv> dmap_sort m0"
  defines "sp \<equiv> leaf_split_point g m"
  defines "lo \<equiv> leaf_build g d (take sp m)" and "hi \<equiv> leaf_build g d (drop sp m)"
  shows "leaf_wf g lo \<and> leaf_wf g hi \<and> dom (leaf_map g lo) \<inter> dom (leaf_map g hi) = {} \<and> leaf_map g lo ++ leaf_map g hi = leaf_map g d \<and>
    (\<forall>n \<in> dom (leaf_map g lo). \<exists>h \<le> m_hash (m ! sp). name_hash g ver n = Inr h) \<and>
    (\<forall>n \<in> dom (leaf_map g hi). \<exists>h \<ge> m_hash (m ! sp). name_hash g ver n = Inr h) \<and>
    (\<forall>name ino ty. length name \<le> SFS_NAME_MAX \<longrightarrow> leaf_insert g lo name ino ty \<noteq> None \<and> leaf_insert g hi name ino ty \<noteq> None)"
proof -
  let ?f = "triple g d \<circ> m_off"
  have "leaf_limit g - 0 \<le> 12 * (4096 div 8)"
    using leaf_limit_le[of g] geo(1) by (simp add: leaf_geo_def)
  from leaf_dmap_live[OF _ _ this m0(1)] wf have d0: "map ?f m0 = live (leaf_list g d 0)" "\<forall>x \<in> set m0. dmap_of g ver d x"
      "(\<Sum>x\<leftarrow>m0. m_size x) \<le> leaf_limit g"
    by (auto simp: leaf_wf_def)
  have ms: "mset m = mset m0" and srt: "sorted (map m_hash m)"
    using dmap_sort_sorts[of m0] by (auto simp: m_def)
  have set_m: "set m = set m0" and len: "length m = length m0"
    using ms mset_eq_setD mset_eq_length by blast+
  have all: "\<forall>x \<in> set m. packable g d (m_off x) \<and> dmap_of g ver d x"
    using wf_packable[OF wf d0(1,2)] d0(2) set_m by auto
  have size: "\<forall>e \<in> set m. m_size e \<le> 264"
    using all rec_min_255 by (auto simp: dmap_of_def)
  have sum: "(\<Sum>x\<leftarrow>m. m_size x) = (\<Sum>x\<leftarrow>m0. m_size x)"
    using ms by (metis mset_map sum_mset_sum_list)
  have sp: "0 < sp" "sp < length m" "(\<Sum>x\<leftarrow>take sp m. m_size x) + 264 \<le> leaf_limit g" "(\<Sum>x\<leftarrow>drop sp m. m_size x) + 264 \<le> leaf_limit g"
    using leaf_split_room[OF size _ _ geo(2)] sum d0(3) m0(2) len by (auto simp: sp_def)
  have "mset (map (fst \<circ> ?f) m) = mset (map fst (live (leaf_list g d 0)))"
    using ms by (simp flip: d0(1))
  hence dist: "distinct (map (fst \<circ> ?f) m)"
    using wf unfolding leaf_wf_def by (metis mset_eq_imp_distinct_iff)
  hence dist2: "distinct (map (fst \<circ> ?f) (take sp m) @ map (fst \<circ> ?f) (drop sp m))"
    by (simp only: append_take_drop_id flip: map_append)
  have lo: "leaf_wf g lo \<and> leaf_map g lo = map_of (map ?f (take sp m)) \<and> (\<forall>name ino ty. length name \<le> SFS_NAME_MAX \<longrightarrow> leaf_insert g lo name ino ty \<noteq> None)"
    unfolding lo_def using sp all dist2 by (intro leaf_build_half[OF wf geo(1)]) (auto dest: in_set_takeD simp: comp_assoc)
  have hi: "leaf_wf g hi \<and> leaf_map g hi = map_of (map ?f (drop sp m)) \<and> (\<forall>name ino ty. length name \<le> SFS_NAME_MAX \<longrightarrow> leaf_insert g hi name ino ty \<noteq> None)"
    unfolding hi_def using sp all dist2 by (intro leaf_build_half[OF wf geo(1)]) (auto dest: in_set_dropD simp: comp_assoc)
  have disj: "dom (leaf_map g lo) \<inter> dom (leaf_map g hi) = {}"
    using dist2 lo hi unfolding distinct_append by (simp add: dom_map_of_conv_image_fst image_comp comp_assoc)
  have "leaf_map g lo ++ leaf_map g hi = map_of (map ?f m)"
    using lo hi map_add_comm[OF disj] by (metis append_take_drop_id map_append map_of_append)
  also have "\<dots> = leaf_map g d"
    unfolding leaf_map_def using dist wf set_m
    by (intro map_of_inject_set[THEN iffD2]) (simp_all add: leaf_wf_def flip: d0(1))
  finally have union: "leaf_map g lo ++ leaf_map g hi = leaf_map g d" .
  have hash: "\<exists>x \<in> set ys. n = fst (?f x)" if "n \<in> dom (map_of (map ?f ys))" for n ys
    using that by (auto simp: dom_map_of_conv_image_fst)
  have "\<forall>n \<in> dom (leaf_map g lo). \<exists>h \<le> m_hash (m ! sp). name_hash g ver n = Inr h"
    using hash lo sorted_split[OF srt sp(2)] all by (fastforce simp: dmap_of_def dest: in_set_takeD)
  moreover have "\<forall>n \<in> dom (leaf_map g hi). \<exists>h \<ge> m_hash (m ! sp). name_hash g ver n = Inr h"
    using hash hi sorted_split[OF srt sp(2)] all by (fastforce simp: dmap_of_def dest: in_set_dropD)
  ultimately show ?thesis
    using lo hi disj union by blast
qed

end
