(* ===== verification/Sfs_Frame_Cache.thy ===== *)
theory Sfs_Frame_Cache
  imports Sfs_Inode
begin

unbundle bit_operations_syntax

section \<open>Frame conditions of the storage layers\<close>

text \<open>
  Many facts of libsfs relate the state before a call to the state after it, whatever the call did: what
  the host saw, that the caches are well formed. The locales of this theory and of \<open>Sfs_Frame_Core\<close> derive such a fact
  for every function from the same fact for a few: \<open>cache_frame\<close> asks for it for the host
  callbacks, for updates of single fields and of single buffers, and for the functions that change the structure of the
  block cache; \<open>vol_frame\<close> adds those that change the structure of the inode cache. \<open>cache_free\<close> and \<open>icache_free\<close> are for relations that do not look at those structures. Each lemma walks the body of one
  function with the rules of the collection \<open>keep\<close>; recursive functions go by induction on the argument they recurse on.
  \<open>Sfs_Host\<close> and \<open>Sfs_Cache_Wf\<close> interpret the locales.
\<close>

subsection \<open>The interface\<close>

text \<open>The fields that only the functions named in the locale assign; the read-only flag is never cleared.\<close>

definition core_same :: "'c sfs_fs \<Rightarrow> 'c sfs_fs \<Rightarrow> bool" where [simp]:
  "core_same s t = (fs_ctx t = fs_ctx s \<and> fs_ops t = fs_ops s \<and> fs_write_hit t = fs_write_hit s \<and> fs_geo t = fs_geo s \<and>
     fs_bufs t = fs_bufs s \<and> fs_lru t = fs_lru s \<and> fs_nbufs t = fs_nbufs s \<and>
     fs_inodes t = fs_inodes s \<and> fs_ilru t = fs_ilru s \<and> fs_ninodes t = fs_ninodes s \<and> (fs_ro s \<longrightarrow> fs_ro t))"

named_theorems keep

locale dev_frame = frame_rel R for R :: "'c sfs_fs \<Rightarrow> 'c sfs_fs \<Rightarrow> bool" +
  assumes upd_frame: "(\<And>s. core_same s (f s)) \<Longrightarrow> keeps R (upd f)"
    and buf_frame: "keeps R (upd_buf b fb)"
    and ino_frame: "keeps R (upd_ino i fi)"
    and host_frame: "keeps R (sfs_alloc n)" "keeps R (sfs_free n)" "keeps R sfs_now" "keeps R (sfs_log msg)"
    and dev_frame: "keeps R (sfs_dev_read blk cnt)" "keeps R (sfs_dev_write blk data cnt)" "keeps R (sfs_dev_writev blk bufs)"
      "keeps R sfs_dev_flush"
begin

declare keeps_rules [keep] upd_frame [keep] buf_frame [keep] ino_frame [keep] host_frame [keep] dev_frame [keep]

lemma keeps_list_case [keep]:
  "(xs = [] \<Longrightarrow> keeps R a) \<Longrightarrow> (\<And>y ys. xs = y # ys \<Longrightarrow> keeps R (b y ys)) \<Longrightarrow> keeps R (case xs of [] \<Rightarrow> a | y # ys \<Rightarrow> b y ys)"
  by (cases xs) auto

lemma upd_frames [keep]: "keeps R (upd_txn ft)" "keeps R (upd_st fs)" "keeps R (upd_jnl fj)" "keeps R (upd_pa fp)"
  unfolding upd_txn_def upd_st_def upd_jnl_def upd_pa_def by (intro keep; simp)+

lemma logu_frame [keep]: "keeps R (sfs_logu msg v)"
  unfolding sfs_logu_def by (intro keep)

lemma keeps_sfs_logu [keep]: "keeps R (sfs_logu a0 a1)"
  unfolding sfs_logu_def by (intro keep; simp)

lemma keeps_sfs_wrun_flush [keep]: "keeps R (sfs_wrun_flush a0)"
  unfolding sfs_wrun_flush_def by (intro keep; simp)

lemma keeps_sfs_wrun_add [keep]: "keeps R (sfs_wrun_add a0 a1 a2)"
  unfolding sfs_wrun_add_def by (intro keep; simp)

lemma keeps_wrun_adds [keep]: "keeps R (wrun_adds a0 xs)"
proof (induction xs arbitrary: a0)
  case Nil
  show ?case unfolding wrun_adds.simps by (intro keep)
next
  case (Cons x xs)
  show ?case by (cases x) (simp only: wrun_adds.simps, intro keep Cons.IH; simp)
qed

lemma keeps_wrun_write_all [keep]: "keeps R (wrun_write_all a0)"
  unfolding wrun_write_all_def by (intro keep; simp)

lemma keeps_write_buf [keep]: "keeps R (write_buf a0)"
  unfolding write_buf_def by (intro keep; simp)

lemma keeps_write_cluster [keep]: "keeps R (write_cluster a0)"
  unfolding write_cluster_def by (intro keep; simp)

end

text \<open>A relation that does not look at the host or at anything but the caches: the callbacks keep it.\<close>

definition caches_same :: "'c sfs_fs \<Rightarrow> 'c sfs_fs \<Rightarrow> bool" where [simp]:
  "caches_same s t = (fs_bufs t = fs_bufs s \<and> fs_lru t = fs_lru s \<and> fs_nbufs t = fs_nbufs s \<and>
     fs_inodes t = fs_inodes s \<and> fs_ilru t = fs_ilru s \<and> fs_ninodes t = fs_ninodes s)"

locale quiet_frame = frame_rel R for R :: "'c sfs_fs \<Rightarrow> 'c sfs_fs \<Rightarrow> bool" +
  assumes quiet_upd: "(\<And>s. caches_same s (f s)) \<Longrightarrow> keeps R (upd f)"
    and quiet_buf: "keeps R (upd_buf b fb)"
    and quiet_ino: "keeps R (upd_ino i fi)"
begin

lemma keeps_ctx_call: "keeps R (ctx_call f)"
proof -
  have "R s (s\<lparr>fs_ctx := c\<rparr>)" for s c
    using quiet_upd[of "\<lambda>s. s\<lparr>fs_ctx := c\<rparr>"] by (simp add: keeps_def)
  thus ?thesis
    by (simp add: keeps_def ctx_call_def split: prod.split)
qed

lemma keeps_callbacks: "keeps R (sfs_alloc n)" "keeps R (sfs_free n)" "keeps R sfs_now" "keeps R (sfs_log msg)"
  unfolding sfs_alloc_def sfs_free_def sfs_now_def sfs_log_def by (intro keeps_ctx_call keeps_rules)+

lemma keeps_stats: "keeps R (upd_st f)"
  unfolding upd_st_def by (rule quiet_upd) simp

lemma keeps_dev_write_quiet: "keeps R (sfs_dev_write blk data cnt)"
  unfolding sfs_dev_write_def by (intro keeps_stats keeps_ctx_call quiet_upd keeps_rules) simp

end

sublocale quiet_frame \<subseteq> dev_frame
proof
  show "keeps R (upd f)" if "\<And>s. core_same s (f s)" for f
    using that by (intro quiet_upd) simp
  show "keeps R (sfs_dev_read blk cnt)" for blk cnt
    unfolding sfs_dev_read_def by (intro keeps_stats keeps_ctx_call keeps_rules)
  show "keeps R (sfs_dev_writev blk bufs)" for blk bufs
    unfolding sfs_dev_writev_def by (intro keeps_stats keeps_ctx_call keeps_dev_write_quiet keeps_rules)
  show "keeps R sfs_dev_flush"
    unfolding sfs_dev_flush_def by (intro keeps_stats keeps_ctx_call keeps_rules)
qed (rule quiet_buf quiet_ino keeps_callbacks keeps_dev_write_quiet)+

locale cache_frame = dev_frame +
  assumes cache_frame: "keeps R (get_buf blk rd)" "keeps R (sfs_bforget blk)" "keeps R (binval_one blk)"
    "keeps R sfs_cache_drop_clean" "keeps R sfs_cache_destroy"
begin

declare cache_frame [keep]

end

text \<open>A relation that does not look at the structure of the block cache gets the frame of its functions for free.\<close>

definition non_buf_same :: "'c sfs_fs \<Rightarrow> 'c sfs_fs \<Rightarrow> bool" where [simp]:
  "non_buf_same s t = (fs_ctx t = fs_ctx s \<and> fs_ops t = fs_ops s \<and> fs_write_hit t = fs_write_hit s \<and> fs_geo t = fs_geo s \<and>
     fs_inodes t = fs_inodes s \<and> fs_ilru t = fs_ilru s \<and> fs_ninodes t = fs_ninodes s \<and> (fs_ro s \<longrightarrow> fs_ro t))"

locale cache_free = dev_frame +
  assumes non_buf_frame: "(\<And>s. non_buf_same s (f s)) \<Longrightarrow> keeps R (upd f)"
begin

lemma keeps_cache_lists: "keeps R (lru_unlink b)" "keeps R (lru_push_front b)" "keeps R (hash_unlink b)"
  unfolding lru_unlink_def lru_push_front_def hash_unlink_def by (intro non_buf_frame; simp)+

lemma keeps_buf_destroy: "keeps R buf_destroy"
  unfolding buf_destroy_def by (intro non_buf_frame keep; simp)

lemma keeps_buf_drop: "keeps R (buf_drop b)"
  unfolding buf_drop_def by (intro keeps_cache_lists keeps_buf_destroy keep)

lemma keeps_evict_loop: "keeps R (evict_loop k)"
proof (induction k)
  case (Suc k)
  show ?case
    unfolding evict_loop.simps evict_one_def by (intro keeps_buf_drop Suc.IH keep; simp)
qed (subst evict_loop.simps, rule keep)

lemma keeps_get_buf_free: "keeps R (get_buf blk rd)"
  unfolding get_buf_def get_buf_hit_def get_buf_miss_def buf_insert_def
  by (intro keeps_evict_loop keeps_cache_lists keeps_buf_destroy non_buf_frame keep; simp)

end

sublocale cache_free \<subseteq> cache_frame
proof
  show "keeps R (get_buf blk rd)" for blk rd
    by (rule keeps_get_buf_free)
  show "keeps R (sfs_bforget blk)" for blk
    unfolding sfs_bforget_def by (intro keeps_buf_drop keep; simp)
  show "keeps R (binval_one blk)" for blk
    unfolding binval_one_def late_unlink_def by (intro keeps_buf_drop keep; simp)
  show "keeps R sfs_cache_drop_clean"
    unfolding sfs_cache_drop_clean_def drop_clean_one_def by (intro keeps_buf_drop keep; simp)
  show "keeps R sfs_cache_destroy"
    unfolding sfs_cache_destroy_def by (intro keeps_buf_destroy keeps_cache_lists non_buf_frame keep; simp)
qed

subsection \<open>The block cache\<close>

context cache_frame
begin

lemma keeps_sfs_bread [keep]: "keeps R (sfs_bread a0)"
  unfolding sfs_bread_def by (intro keep; simp)

lemma keeps_sfs_bnew [keep]: "keeps R (sfs_bnew a0)"
  unfolding sfs_bnew_def by (intro keep; simp)

lemma keeps_sfs_bfind [keep]: "keeps R (sfs_bfind a0)"
  unfolding sfs_bfind_def by (intro keep; simp)

lemma keeps_sfs_bput [keep]: "keeps R (sfs_bput a0)"
  unfolding sfs_bput_def by (intro keep; simp)

lemma keeps_mods_inc [keep]: "keeps R mods_inc"
  unfolding mods_inc_def by (intro keep; simp)

lemma keeps_sfs_bdirty_meta [keep]: "keeps R (sfs_bdirty_meta a0)"
  unfolding sfs_bdirty_meta_def by (intro keep; simp)

lemma keeps_sfs_bdirty_data [keep]: "keeps R (sfs_bdirty_data a0)"
  unfolding sfs_bdirty_data_def by (intro keep; simp)

lemma keeps_sfs_bdirty_late [keep]: "keeps R (sfs_bdirty_late a0)"
  unfolding sfs_bdirty_late_def by (intro keep; simp)

lemma keeps_sfs_release_late [keep]: "keeps R sfs_release_late"
  unfolding sfs_release_late_def by (intro keep; simp)

lemma keeps_late_unlink [keep]: "keeps R (late_unlink a0)"
  unfolding late_unlink_def by (intro keep; simp)

lemma keeps_sfs_binval_data [keep]: "keeps R (sfs_binval_data a0 a1)"
  unfolding sfs_binval_data_def by (intro keep; simp)

lemma keeps_sfs_txn_sort [keep]: "keeps R sfs_txn_sort"
  unfolding sfs_txn_sort_def by (intro keep; simp)

lemma keeps_write_batches [keep]: "keeps R (write_batches k a1)"
proof (induction k arbitrary: a1)
  case 0
  show ?case unfolding write_batches.simps by (intro keep)
next
  case (Suc k)
  show ?case unfolding write_batches.simps by (intro keep Suc.IH; simp)
qed

lemma keeps_sfs_cache_write_data [keep]: "keeps R sfs_cache_write_data"
  unfolding sfs_cache_write_data_def by (intro keep; simp)

lemma keeps_sfs_cache_write_meta_direct [keep]: "keeps R sfs_cache_write_meta_direct"
  unfolding sfs_cache_write_meta_direct_def by (intro keep; simp)

lemma keeps_set_bdata [keep]: "keeps R (set_bdata a0 a1)"
  unfolding set_bdata_def by (intro keep; simp)

end

subsection \<open>Block groups\<close>

context cache_frame
begin

lemma keeps_gd_locate [keep]: "keeps R (gd_locate a0)"
  unfolding gd_locate_def by (intro keep; simp)

lemma keeps_sfs_gd_read [keep]: "keeps R (sfs_gd_read a0)"
  unfolding sfs_gd_read_def by (intro keep; simp)

lemma keeps_sfs_gd_write [keep]: "keeps R (sfs_gd_write a0 a1)"
  unfolding sfs_gd_write_def by (intro keep; simp)

lemma keeps_gd_check_loop [keep]: "keeps R (gd_check_loop xs a1)"
proof (induction xs arbitrary: a1)
  case Nil
  show ?case unfolding gd_check_loop.simps by (intro keep)
next
  case (Cons x xs)
  show ?case unfolding gd_check_loop.simps by (intro keep Cons.IH; simp)
qed

lemma keeps_gd_check_all [keep]: "keeps R gd_check_all"
  unfolding gd_check_all_def by (intro keep; simp)

lemma keeps_bitmap_refuse [keep]: "keeps R (bitmap_refuse a0 a1 a2)"
  unfolding bitmap_refuse_def by (intro keep; simp)

lemma keeps_bitmap_read [keep]: "keeps R (bitmap_read a0 a1 a2 a3 a4 a5)"
  unfolding bitmap_read_def by (intro keep; simp)

lemma keeps_bitmap_cached [keep]: "keeps R (bitmap_cached a0)"
  unfolding bitmap_cached_def by (intro keep; simp)

lemma keeps_sfs_block_bitmap [keep]: "keeps R (sfs_block_bitmap a0 a1)"
  unfolding sfs_block_bitmap_def by (intro keep; simp)

lemma keeps_sfs_inode_bitmap [keep]: "keeps R (sfs_inode_bitmap a0 a1)"
  unfolding sfs_inode_bitmap_def by (intro keep; simp)

lemma keeps_meta_block_loop [keep]: "keeps R (meta_block_loop a0 xs)"
proof (induction xs arbitrary: a0)
  case Nil
  show ?case unfolding meta_block_loop.simps by (intro keep)
next
  case (Cons x xs)
  show ?case unfolding meta_block_loop.simps by (intro keep Cons.IH; simp)
qed

lemma keeps_sfs_is_group_meta_block [keep]: "keeps R (sfs_is_group_meta_block a0)"
  unfolding sfs_is_group_meta_block_def by (intro keep; simp)

end

subsection \<open>Inodes\<close>

context cache_frame
begin

lemma keeps_sfs_inode_loc [keep]: "keeps R (sfs_inode_loc a0)"
  unfolding sfs_inode_loc_def by (intro keep; simp)

lemma keeps_sfs_idirty [keep]: "keeps R (sfs_idirty a0)"
  unfolding sfs_idirty_def by (intro keep; simp)

lemma keeps_sfs_add_blocks [keep]: "keeps R (sfs_add_blocks a0 a1)"
  unfolding sfs_add_blocks_def by (intro keep; simp)

lemma keeps_sfs_iflush [keep]: "keeps R (sfs_iflush a0)"
  unfolding sfs_iflush_def by (intro keep; simp)

lemma keeps_sfs_iput [keep]: "keeps R (sfs_iput a0)"
  unfolding sfs_iput_def by (intro keep; simp)

lemma keeps_sfs_inode_touch [keep]: "keeps R (sfs_inode_touch a0 a1 a2 a3)"
  unfolding sfs_inode_touch_def by (intro keep; simp)

end

end
