(* ===== verification/Sfs_Frame_Core.thy ===== *)
theory Sfs_Frame_Core
  imports Sfs_Frame_Cache Sfs_Txn
begin

unbundle bit_operations_syntax

section \<open>Frame conditions of allocation, block mapping and the journal\<close>

text \<open>The locale \<open>vol_frame\<close>, and its lemmas for the layers between the inodes and the files.\<close>

locale vol_frame = cache_frame +
  assumes icache_frame: "keeps R (sfs_iget ino)" "keeps R (sfs_iget_new ino mode)" "keeps R (sfs_iforget ino)"
      "keeps R sfs_iflush_all" "keeps R sfs_icache_destroy"
    and super_frame: "keeps R recover_super" "keeps R sfs_ondisk_state"
begin

declare icache_frame [keep] super_frame [keep]

end

text \<open>The same for a relation that does not look at the structure of the inode cache.\<close>

definition non_ino_same :: "'c sfs_fs \<Rightarrow> 'c sfs_fs \<Rightarrow> bool" where [simp]:
  "non_ino_same s t = (fs_ctx t = fs_ctx s \<and> fs_ops t = fs_ops s \<and> fs_write_hit t = fs_write_hit s \<and> fs_geo t = fs_geo s \<and>
     fs_bufs t = fs_bufs s \<and> fs_lru t = fs_lru s \<and> fs_nbufs t = fs_nbufs s \<and> (fs_ro s \<longrightarrow> fs_ro t))"

locale icache_free = cache_frame +
  assumes non_ino_frame: "(\<And>s. non_ino_same s (f s)) \<Longrightarrow> keeps R (upd f)"
    and super_free: "keeps R recover_super" "keeps R sfs_ondisk_state"
begin

lemma keeps_idestroy: "keeps R (idestroy i)"
  unfolding idestroy_def by (intro non_ino_frame keep; simp)

lemma keeps_evict_some: "keeps R evict_some"
proof -
  have "keeps R (evict_some_loop is)" for "is"
  proof (induction "is")
    case (Cons i "is")
    show ?case
      unfolding evict_some_loop.simps by (intro keeps_idestroy Cons.IH keep)
  qed (subst evict_some_loop.simps, rule keep)
  thus ?thesis
    unfolding evict_some_def by (intro keep)
qed

lemma keeps_iinsert_new: "keeps R (iinsert_new ino)"
  unfolding iinsert_new_def by (intro keeps_evict_some non_ino_frame keep; simp)

lemma keeps_iforget: "keeps R (sfs_iforget ino)"
  unfolding sfs_iforget_def by (intro keeps_idestroy keep)

lemma keeps_iflush_all_loop: "keeps R (iflush_all_loop is)"
proof (induction "is")
  case (Cons i "is")
  show ?case
    unfolding iflush_all_loop.simps by (intro keeps_idestroy Cons.IH keep)
qed (subst iflush_all_loop.simps, rule keep)

end

sublocale icache_free \<subseteq> vol_frame
proof
  show "keeps R (sfs_iget ino)" for ino
    unfolding sfs_iget_def by (intro keeps_iinsert_new keeps_idestroy non_ino_frame keep; simp)
  show "keeps R (sfs_iget_new ino mode)" for ino mode
    unfolding sfs_iget_new_def by (intro keeps_iinsert_new keeps_iforget keep; simp)
  show "keeps R (sfs_iforget ino)" for ino
    by (rule keeps_iforget)
  show "keeps R sfs_iflush_all"
    unfolding sfs_iflush_all_def by (intro keeps_iflush_all_loop keep)
  show "keeps R sfs_icache_destroy"
    unfolding sfs_icache_destroy_def by (intro keeps_idestroy keep)
qed (rule super_free)+

subsection \<open>Block lookup\<close>

context vol_frame
begin

lemma keeps_node_csum_set [keep]: "keeps R (node_csum_set a0 a1)"
  unfolding node_csum_set_def by (intro keep; simp)

lemma keeps_sfs_ext_verify_block [keep]: "keeps R (sfs_ext_verify_block a0 a1 a2)"
  unfolding sfs_ext_verify_block_def by (intro keep; simp)

lemma keeps_read_node [keep]: "keeps R (read_node a0 a1 a2)"
  unfolding read_node_def by (intro keep; simp)

lemma keeps_set_node [keep]: "keeps R (set_node a0 a1 a2)"
  unfolding set_node_def by (intro keep; simp)

lemma keeps_path_put [keep]: "keeps R (path_put a0)"
  unfolding path_put_def by (intro keep; simp)

lemma keeps_find_down [keep]: "keeps R (find_down a0 a1 k a3 a4)"
proof (induction k arbitrary: a0 a1 a3 a4)
  case 0
  show ?case unfolding find_down.simps by (intro keep)
next
  case (Suc k)
  show ?case unfolding find_down.simps by (intro keep Suc.IH; simp)
qed

lemma keeps_find_path [keep]: "keeps R (find_path a0 a1)"
  unfolding find_path_def by (intro keep; simp)

lemma keeps_node_dirty [keep]: "keeps R (node_dirty a0 a1)"
  unfolding node_dirty_def by (intro keep; simp)

lemma keeps_bmap_read_ptr [keep]: "keeps R (bmap_read_ptr a0 a1)"
  unfolding bmap_read_ptr_def by (intro keep; simp)

lemma keeps_bmap_walk [keep]: "keeps R (bmap_walk xs p)"
proof (induction xs arbitrary: p rule: induct_list012)
  case 1
  show ?case unfolding bmap_walk.simps by (intro keep)
next
  case (2 x)
  show ?case unfolding bmap_walk.simps by (intro keep; simp)
next
  case (3 x y xs)
  show ?case unfolding bmap_walk.simps by (intro keep "3.IH"; simp)
qed

lemma keeps_sfs_bmap_lookup [keep]: "keeps R (sfs_bmap_lookup a0 a1)"
  unfolding sfs_bmap_lookup_def by (intro keep; simp)

lemma keeps_sfs_map_block [keep]: "keeps R (sfs_map_block a0 a1)"
  unfolding sfs_map_block_def by (intro keep; simp)

lemma keeps_sfs_goal_for [keep]: "keeps R (sfs_goal_for a0 a1)"
  unfolding sfs_goal_for_def by (intro keep; simp)

end

subsection \<open>Allocation\<close>

context vol_frame
begin

lemma keeps_sfs_runpage_add [keep]: "keeps R (sfs_runpage_add a0 a1 a2 a3)"
  unfolding sfs_runpage_add_def by (intro keep; simp)

lemma keeps_sfs_runpage_free [keep]: "keeps R (sfs_runpage_free a0)"
  unfolding sfs_runpage_free_def by (intro keep; simp)

lemma keeps_sfs_pa_release [keep]: "keeps R (sfs_pa_release a0)"
  unfolding sfs_pa_release_def by (intro keep; simp)

lemma keeps_sb_dirty [keep]: "keeps R sb_dirty"
  unfolding sb_dirty_def by (intro keep; simp)

lemma keeps_take_run [keep]: "keeps R (take_run a0 a1 a2 a3 a4)"
  unfolding take_run_def by (intro keep; simp)

lemma keeps_search_group [keep]: "keeps R (search_group a0 a1 a2 a3 a4)"
  unfolding search_group_def by (intro keep; simp)

lemma keeps_alloc_attempts [keep]: "keeps R (alloc_attempts a0 a1 a2 a3 xs)"
proof (induction xs arbitrary: a0 a1 a2 a3)
  case Nil
  show ?case unfolding alloc_attempts.simps by (intro keep)
next
  case (Cons x xs)
  show ?case by (cases x) (simp only: alloc_attempts.simps, intro keep Cons.IH; simp)
qed

lemma keeps_alloc_search [keep]: "keeps R (alloc_search a0 a1 a2)"
  unfolding alloc_search_def by (intro keep; simp)

lemma keeps_alloc_from_window [keep]: "keeps R (alloc_from_window a0 a1 a2)"
  unfolding alloc_from_window_def by (intro keep; simp)

lemma keeps_reserve_window [keep]: "keeps R (reserve_window a0 a1 a2 a3)"
  unfolding reserve_window_def by (intro keep; simp)

lemma keeps_sfs_alloc_blocks [keep]: "keeps R (sfs_alloc_blocks a0 a1 a2 a3)"
  unfolding sfs_alloc_blocks_def by (intro keep; simp)

lemma keeps_sfs_alloc_meta_block [keep]: "keeps R (sfs_alloc_meta_block a0)"
  unfolding sfs_alloc_meta_block_def by (intro keep; simp)

lemma keeps_hits_meta_inner [keep]: "keeps R (hits_meta_inner a0 a1 xs)"
proof (induction xs arbitrary: a0 a1)
  case Nil
  show ?case unfolding hits_meta_inner.simps by (intro keep)
next
  case (Cons x xs)
  show ?case unfolding hits_meta_inner.simps by (intro keep Cons.IH; simp)
qed

lemma keeps_hits_meta_outer [keep]: "keeps R (hits_meta_outer a0 a1 xs)"
proof (induction xs arbitrary: a0 a1)
  case Nil
  show ?case unfolding hits_meta_outer.simps by (intro keep)
next
  case (Cons x xs)
  show ?case unfolding hits_meta_outer.simps by (intro keep Cons.IH; simp)
qed

lemma keeps_run_hits_meta [keep]: "keeps R (run_hits_meta a0 a1)"
  unfolding run_hits_meta_def by (intro keep; simp)

lemma keeps_sfs_free_blocks [keep]: "keeps R (sfs_free_blocks a0 a1 a2)"
  unfolding sfs_free_blocks_def by (intro keep; simp)

lemma keeps_free_run [keep]: "keeps R (free_run k a1 a2)"
proof (induction k arbitrary: a1 a2)
  case 0
  show ?case unfolding free_run.simps by (intro keep)
next
  case (Suc k)
  show ?case unfolding free_run.simps by (intro keep Suc.IH; simp)
qed

lemma keeps_sfs_apply_pending_frees [keep]: "keeps R sfs_apply_pending_frees"
  unfolding sfs_apply_pending_frees_def by (intro keep; simp)

lemma keeps_zero_inode_slots [keep]: "keeps R (zero_inode_slots a0 a1 a2)"
  unfolding zero_inode_slots_def by (intro keep; simp)

lemma keeps_try_group_inode [keep]: "keeps R (try_group_inode a0 a1)"
  unfolding try_group_inode_def by (intro keep; simp)

lemma keeps_dir_spread [keep]: "keeps R (dir_spread a0 a1 xs a3)"
proof (induction xs arbitrary: a0 a1 a3)
  case Nil
  show ?case unfolding dir_spread.simps by (intro keep)
next
  case (Cons x xs)
  show ?case unfolding dir_spread.simps by (intro keep Cons.IH; simp)
qed

lemma keeps_inode_attempts [keep]: "keeps R (inode_attempts xs a1)"
proof (induction xs arbitrary: a1)
  case Nil
  show ?case unfolding inode_attempts.simps by (intro keep)
next
  case (Cons x xs)
  show ?case unfolding inode_attempts.simps by (intro keep Cons.IH; simp)
qed

lemma keeps_sfs_alloc_inode [keep]: "keeps R (sfs_alloc_inode a0 a1)"
  unfolding sfs_alloc_inode_def by (intro keep; simp)

lemma keeps_sfs_free_inode [keep]: "keeps R (sfs_free_inode a0 a1)"
  unfolding sfs_free_inode_def by (intro keep; simp)

end

subsection \<open>Extent trees and block maps\<close>

context vol_frame
begin

lemma keeps_leaf_action [keep]:
  "keeps R a \<Longrightarrow> (\<And>h f. keeps R (b h f)) \<Longrightarrow> keeps R c \<Longrightarrow> keeps R (case x of LeafMapped \<Rightarrow> a | LeafSet h f \<Rightarrow> b h f | LeafFull \<Rightarrow> c)"
  by (cases x) auto

lemma keeps_fix_parents_loop [keep]: "keeps R (fix_parents_loop a0 a1 xs)"
proof (induction xs arbitrary: a0 a1)
  case Nil
  show ?case unfolding fix_parents_loop.simps by (intro keep)
next
  case (Cons x xs)
  show ?case by (cases x) (simp only: fix_parents_loop.simps, intro keep Cons.IH; simp)
qed

lemma keeps_fix_parents [keep]: "keeps R (fix_parents a0 a1 a2)"
  unfolding fix_parents_def by (intro keep; simp)

lemma keeps_new_node_block [keep]: "keeps R (new_node_block a0 a1)"
  unfolding new_node_block_def by (intro keep; simp)

lemma keeps_grow_root [keep]: "keeps R (grow_root a0)"
  unfolding grow_root_def by (intro keep; simp)

lemma keeps_split [keep]: "keeps R (split a0 a1 a2 k a4)"
proof (induction k arbitrary: a0 a1 a2 a4)
  case 0
  show ?case unfolding split.simps by (intro keep)
next
  case (Suc k)
  show ?case unfolding split.simps by (intro keep Suc.IH; simp)
qed

lemma keeps_insert_tries [keep]: "keeps R (insert_tries k a1 a2 a3 a4 a5)"
proof (induction k arbitrary: a1 a2 a3 a4 a5)
  case 0
  show ?case unfolding insert_tries.simps by (intro keep)
next
  case (Suc k)
  show ?case unfolding insert_tries.simps by (intro keep Suc.IH; simp)
qed

lemma keeps_insert_one [keep]: "keeps R (insert_one a0 a1 a2 a3 a4)"
  unfolding insert_one_def by (intro keep; simp)

lemma keeps_ext_insert_loop [keep]: "keeps R (ext_insert_loop k a1 a2 a3 a4)"
proof (induction k arbitrary: a1 a2 a3 a4)
  case 0
  show ?case unfolding ext_insert_loop.simps by (intro keep)
next
  case (Suc k)
  show ?case unfolding ext_insert_loop.simps by (intro keep Suc.IH; simp)
qed

lemma keeps_ec_drop [keep]: "keeps R (ec_drop a0)"
  unfolding ec_drop_def by (intro keep; simp)

lemma keeps_sfs_ext_insert [keep]: "keeps R (sfs_ext_insert a0 a1 a2 a3)"
  unfolding sfs_ext_insert_def by (intro keep; simp)

lemma keeps_sfs_ext_mark_written [keep]: "keeps R (sfs_ext_mark_written a0 a1)"
  unfolding sfs_ext_mark_written_def by (intro keep; simp)

lemma keeps_free_tree_block [keep]: "keeps R (free_tree_block a0 a1)"
  unfolding free_tree_block_def by (intro keep; simp)

lemma keeps_rm_leaf [keep]: "keeps R (rm_leaf a0 a1 a2 a3 xs a5)"
proof (induction xs arbitrary: a0 a1 a2 a3 a5)
  case Nil
  show ?case unfolding rm_leaf.simps by (intro keep)
next
  case (Cons x xs)
  show ?case unfolding rm_leaf.simps by (intro keep Cons.IH; simp)
qed

lemma keeps_rm_children [keep]:
  "(\<And>c. keeps R (rm c)) \<Longrightarrow> keeps R (rm_children rm i b d first xs changed)"
proof (induction xs arbitrary: changed)
  case Nil
  show ?case unfolding rm_children.simps by (intro keep)
next
  case (Cons x xs)
  show ?case unfolding rm_children.simps by (intro keep Cons.IH Cons.prems; simp)
qed

lemma keeps_rm_finish [keep]: "keeps R (rm_finish a0 a1 a2)"
  unfolding rm_finish_def by (intro keep; simp)

lemma keeps_rm_node [keep]: "keeps R (rm_node a0 a1 a2 k a4 a5)"
proof (induction k arbitrary: a0 a1 a2 a4 a5)
  case 0
  show ?case unfolding rm_node.simps by (intro keep)
next
  case (Suc k)
  show ?case unfolding rm_node.simps by (intro keep Suc.IH; simp)
qed

lemma keeps_collapse [keep]: "keeps R (collapse k a1)"
proof (induction k arbitrary: a1)
  case 0
  show ?case unfolding collapse.simps by (intro keep)
next
  case (Suc k)
  show ?case unfolding collapse.simps by (intro keep Suc.IH; simp)
qed

lemma keeps_sfs_ext_truncate [keep]: "keeps R (sfs_ext_truncate a0 a1 a2)"
  unfolding sfs_ext_truncate_def by (intro keep; simp)

lemma keeps_iter_entries [keep]:
  "(\<And>x k. keeps R (f x k)) \<Longrightarrow> keeps R (iter_entries f xs x)"
proof (induction xs arbitrary: x)
  case Nil
  show ?case unfolding iter_entries.simps by (intro keep)
next
  case (Cons k xs)
  show ?case unfolding iter_entries.simps by (intro keep Cons.IH Cons.prems)
qed

lemma keeps_iter_node [keep]:
  "(\<And>x a b c d. keeps R (fn x a b c d)) \<Longrightarrow> keeps R (iter_node i fn k level b x)"
proof (induction k arbitrary: level b x)
  case 0
  show ?case unfolding iter_node.simps by (intro keep "0")
next
  case (Suc k)
  show ?case unfolding iter_node.simps by (intro keep Suc.IH Suc.prems)
qed

lemma keeps_sfs_ext_iterate [keep]:
  "(\<And>x a b c d. keeps R (fn x a b c d)) \<Longrightarrow> keeps R (sfs_ext_iterate i fn x)"
  unfolding sfs_ext_iterate_def by (intro keep)

lemma keeps_acc_flush [keep]: "keeps R (acc_flush a0 a1)"
  unfolding acc_flush_def by (intro keep; simp)

lemma keeps_acc_add [keep]: "keeps R (acc_add a0 a1 a2)"
  unfolding acc_add_def by (intro keep; simp)

lemma keeps_bmap_rel_loop [keep]:
  "(\<And>p af. keeps R (rel p af)) \<Longrightarrow> keeps R (bmap_rel_loop get rel xs af)"
proof (induction xs arbitrary: af)
  case Nil
  show ?case unfolding bmap_rel_loop.simps by (intro keep)
next
  case (Cons k xs)
  show ?case unfolding bmap_rel_loop.simps by (intro keep Cons.IH Cons.prems)
qed

lemma keeps_rel_data [keep]: "keeps R (rel_data a0 a1 a2)"
  unfolding rel_data_def by (intro keep; simp)

lemma keeps_bmap_rel_block [keep]:
  "(\<And>p af. keeps R (rel p af)) \<Longrightarrow> keeps R (bmap_rel_block meta rel blk af)"
  unfolding bmap_rel_block_def by (intro keep; simp)

lemma keeps_bmap_rel_ind [keep]: "keeps R (bmap_rel_ind a0 k a2 a3)"
proof (induction k arbitrary: a0 a2 a3)
  case 0
  show ?case unfolding bmap_rel_ind.simps by (intro keep)
next
  case (Suc k)
  show ?case unfolding bmap_rel_ind.simps by (intro keep Suc.IH; simp)
qed

lemma keeps_bmap_ind_roots [keep]: "keeps R (bmap_ind_roots a0 a1 xs a3)"
proof (induction xs arbitrary: a0 a1 a3)
  case Nil
  show ?case unfolding bmap_ind_roots.simps by (intro keep)
next
  case (Cons x xs)
  show ?case unfolding bmap_ind_roots.simps by (intro keep Cons.IH; simp)
qed

lemma keeps_sfs_bmap_release [keep]: "keeps R (sfs_bmap_release a0 a1)"
  unfolding sfs_bmap_release_def by (intro keep; simp)

end

subsection \<open>The journal\<close>

context vol_frame
begin

lemma keeps_jread [keep]: "keeps R (jread a0)"
  unfolding jread_def by (intro keep; simp)

lemma keeps_jwrite [keep]: "keeps R (jwrite a0 a1)"
  unfolding jwrite_def by (intro keep; simp)

lemma keeps_jmap_cb [keep]: "keeps R (jmap_cb a0 a1 a2 a3 a4)"
  unfolding jmap_cb_def by (intro keep; simp)

lemma keeps_rvk_set [keep]: "keeps R (rvk_set a0 a1 a2)"
  unfolding rvk_set_def by (intro keep; simp)

lemma keeps_rvk_free [keep]: "keeps R (rvk_free a0)"
  unfolding rvk_free_def by (intro keep; simp)

lemma keeps_replay_tags [keep]: "keeps R (replay_tags k a1 a2 a3 a4 a5 a6)"
proof (induction k arbitrary: a1 a2 a3 a4 a5 a6)
  case 0
  show ?case unfolding replay_tags.simps by (intro keep)
next
  case (Suc k)
  show ?case unfolding replay_tags.simps by (intro keep Suc.IH; simp)
qed

lemma keeps_replay_desc [keep]: "keeps R (replay_desc a0 a1 a2 a3 a4)"
  unfolding replay_desc_def by (intro keep; simp)

lemma keeps_rvk_set_all [keep]: "keeps R (rvk_set_all xs a1 a2)"
proof (induction xs arbitrary: a1 a2)
  case Nil
  show ?case unfolding rvk_set_all.simps by (intro keep)
next
  case (Cons x xs)
  show ?case unfolding rvk_set_all.simps by (intro keep Cons.IH; simp)
qed

lemma keeps_revoke_block [keep]: "keeps R (revoke_block a0 a1 a2)"
  unfolding revoke_block_def by (intro keep; simp)

lemma keeps_do_pass_loop [keep]: "keeps R (do_pass_loop k a1 a2 a3 a4 a5)"
proof (induction k arbitrary: a1 a2 a3 a4 a5)
  case 0
  show ?case unfolding do_pass_loop.simps by (intro keep)
next
  case (Suc k)
  show ?case unfolding do_pass_loop.simps by (intro keep Suc.IH; simp)
qed

lemma keeps_do_pass [keep]: "keeps R (do_pass a0 a1 a2 a3 a4)"
  unfolding do_pass_def by (intro keep; simp)

lemma keeps_write_jsb [keep]: "keeps R (write_jsb a0 a1)"
  unfolding write_jsb_def by (intro keep; simp)

lemma keeps_recover [keep]: "keeps R (recover a0 a1)"
  unfolding recover_def by (intro keep; simp)

lemma keeps_sfs_journal_unload [keep]: "keeps R sfs_journal_unload"
  unfolding sfs_journal_unload_def by (intro keep; simp)

lemma keeps_set_ro [keep]: "keeps R (set_ro a0)"
  unfolding set_ro_def by (intro keep; simp)

lemma keeps_jmap_bmap_loop [keep]: "keeps R (jmap_bmap_loop k a1 a2 a3)"
proof (induction k arbitrary: a1 a2 a3)
  case 0
  show ?case unfolding jmap_bmap_loop.simps by (intro keep)
next
  case (Suc k)
  show ?case unfolding jmap_bmap_loop.simps by (intro keep Suc.IH; simp)
qed

lemma keeps_jsb_verify [keep]: "keeps R (jsb_verify a0 a1)"
  unfolding jsb_verify_def by (intro keep; simp)

lemma keeps_journal_map [keep]: "keeps R (journal_map a0)"
  unfolding journal_map_def by (intro keep; simp)

lemma keeps_journal_upgrade [keep]: "keeps R journal_upgrade"
  unfolding journal_upgrade_def by (intro keep; simp)

lemma keeps_journal_start [keep]: "keeps R (journal_start a0 a1)"
  unfolding journal_start_def by (intro keep; simp)

lemma keeps_sfs_journal_load [keep]: "keeps R (sfs_journal_load a0)"
  unfolding sfs_journal_load_def by (intro keep; simp)

lemma keeps_sfs_journal_mark_clean [keep]: "keeps R sfs_journal_mark_clean"
  unfolding sfs_journal_mark_clean_def by (intro keep; simp)

lemma keeps_revoke_emit [keep]: "keeps R (revoke_emit a0 a1 a2 a3)"
  unfolding revoke_emit_def by (intro keep; simp)

lemma keeps_write_revokes_loop [keep]: "keeps R (write_revokes_loop a0 xs a2 a3 a4)"
proof (induction xs arbitrary: a0 a2 a3 a4)
  case Nil
  show ?case unfolding write_revokes_loop.simps by (intro keep)
next
  case (Cons x xs)
  show ?case unfolding write_revokes_loop.simps by (intro keep Cons.IH; simp)
qed

lemma keeps_write_revokes [keep]: "keeps R (write_revokes a0 a1)"
  unfolding write_revokes_def by (intro keep; simp)

lemma keeps_log_blocks [keep]: "keeps R (log_blocks xs a1 a2)"
proof (induction xs arbitrary: a1 a2)
  case Nil
  show ?case unfolding log_blocks.simps by (intro keep)
next
  case (Cons x xs)
  show ?case by (cases x) (simp only: log_blocks.simps, intro keep Cons.IH; simp)
qed

lemma keeps_log_group [keep]: "keeps R (log_group a0 a1 a2)"
  unfolding log_group_def by (intro keep; simp)

lemma keeps_log_groups [keep]: "keeps R (log_groups k a1 a2 a3 a4)"
proof (induction k arbitrary: a1 a2 a3 a4)
  case 0
  show ?case unfolding log_groups.simps by (intro keep)
next
  case (Suc k)
  show ?case unfolding log_groups.simps by (intro keep Suc.IH; simp)
qed

lemma keeps_log_restart [keep]: "keeps R (log_restart a0 a1)"
  unfolding log_restart_def by (intro keep; simp)

lemma keeps_sfs_journal_commit [keep]: "keeps R sfs_journal_commit"
  unfolding sfs_journal_commit_def by (intro keep; simp)

end

subsection \<open>Transactions\<close>

context vol_frame
begin

lemma keeps_sb_fill [keep]: "keeps R sb_fill"
  unfolding sb_fill_def by (intro keep; simp)

lemma keeps_sfs_sb_write [keep]: "keeps R sfs_sb_write"
  unfolding sfs_sb_write_def by (intro keep; simp)

lemma keeps_sb_write_direct [keep]: "keeps R sb_write_direct"
  unfolding sb_write_direct_def by (intro keep; simp)

lemma keeps_set_mounted_state [keep]: "keeps R (set_mounted_state a0)"
  unfolding set_mounted_state_def by (intro keep; simp)

lemma keeps_sfs_op_begin [keep]: "keeps R sfs_op_begin"
  unfolding sfs_op_begin_def by (intro keep; simp)

lemma keeps_sfs_fail [keep]: "keeps R (sfs_fail a0)"
  unfolding sfs_fail_def by (intro keep; simp)

lemma keeps_commit_disk [keep]: "keeps R commit_disk"
  unfolding commit_disk_def by (intro keep; simp)

lemma keeps_commit_prepare [keep]: "keeps R commit_prepare"
  unfolding commit_prepare_def by (intro keep; simp)

lemma keeps_sfs_commit [keep]: "keeps R sfs_commit"
  unfolding sfs_commit_def by (intro keep; simp)

lemma keeps_sfs_safe_point [keep]: "keeps R sfs_safe_point"
  unfolding sfs_safe_point_def by (intro keep; simp)

lemma keeps_op_end_code [keep]: "keeps R (op_end_code a0)"
  unfolding op_end_code_def by (intro keep; simp)

lemma keeps_sfs_op_end [keep]: "keeps R (sfs_op_end a0)"
  unfolding sfs_op_end_def by (intro keep; simp)

lemma keeps_sb_set_orphan [keep]: "keeps R (sb_set_orphan a0)"
  unfolding sb_set_orphan_def by (intro keep; simp)

lemma keeps_sfs_orphan_add [keep]: "keeps R (sfs_orphan_add a0)"
  unfolding sfs_orphan_add_def by (intro keep; simp)

lemma keeps_orphan_del_loop [keep]: "keeps R (orphan_del_loop k a1 a2)"
proof (induction k arbitrary: a1 a2)
  case 0
  show ?case unfolding orphan_del_loop.simps by (intro keep)
next
  case (Suc k)
  show ?case unfolding orphan_del_loop.simps by (intro keep Suc.IH; simp)
qed

lemma keeps_sfs_orphan_del [keep]: "keeps R (sfs_orphan_del a0)"
  unfolding sfs_orphan_del_def by (intro keep; simp)

end

end
