(* ===== verification/Sfs_Frame_Ops.thy ===== *)
theory Sfs_Frame_Ops
  imports Sfs_Frame_Core Sfs_Access
begin

unbundle bit_operations_syntax

section \<open>Frame conditions of the operations\<close>

text \<open>
  The lemmas of \<open>vol_frame\<close> for file data, directories and the public operations of a mounted volume (the superblock parser
  is not among them: it sets the geometry). The last section makes a mounted volume a state machine.
\<close>

subsection \<open>File data\<close>

context vol_frame
begin

lemma keeps_write_step [keep]:
  "(\<And>e o'. keeps R (a e o')) \<Longrightarrow> (\<And>d o'. keeps R (b d o')) \<Longrightarrow> keeps R c \<Longrightarrow>
   keeps R (case x of WrBreak e o' \<Rightarrow> a e o' | WrNext d o' \<Rightarrow> b d o' | WrRetry \<Rightarrow> c)"
  by (cases x) auto

lemma keeps_inline_xattr_value [keep]: "keeps R (inline_xattr_value a0 a1 a2)"
  unfolding inline_xattr_value_def by (intro keep; simp)

lemma keeps_sfs_inline_read [keep]: "keeps R (sfs_inline_read a0 a1 a2)"
  unfolding sfs_inline_read_def by (intro keep; simp)

lemma keeps_file_read_loop [keep]: "keeps R (file_read_loop k a1 a2 a3 a4)"
proof (induction k arbitrary: a1 a2 a3 a4)
  case 0
  show ?case unfolding file_read_loop.simps by (intro keep)
next
  case (Suc k)
  show ?case unfolding file_read_loop.simps by (intro keep Suc.IH; simp)
qed

lemma keeps_sfs_file_read [keep]: "keeps R (sfs_file_read a0 a1 a2)"
  unfolding sfs_file_read_def by (intro keep; simp)

lemma keeps_walk_back [keep]: "keeps R (walk_back k a1 a2 a3 a4)"
proof (induction k arbitrary: a1 a2 a3 a4)
  case 0
  show ?case unfolding walk_back.simps by (intro keep)
next
  case (Suc k)
  show ?case unfolding walk_back.simps by (intro keep Suc.IH; simp)
qed

lemma keeps_zero_blocks [keep]: "keeps R (zero_blocks xs a1 a2 a3)"
proof (induction xs arbitrary: a1 a2 a3)
  case Nil
  show ?case unfolding zero_blocks.simps by (intro keep)
next
  case (Cons x xs)
  show ?case unfolding zero_blocks.simps by (intro keep Cons.IH; simp)
qed

lemma keeps_zero_unwritten [keep]: "keeps R (zero_unwritten a0 a1)"
  unfolding zero_unwritten_def by (intro keep; simp)

lemma keeps_write_new_blocks [keep]: "keeps R (write_new_blocks k a1 a2 a3 a4 a5 a6)"
proof (induction k arbitrary: a1 a2 a3 a4 a5 a6)
  case 0
  show ?case unfolding write_new_blocks.simps by (intro keep)
next
  case (Suc k)
  show ?case unfolding write_new_blocks.simps by (intro keep Suc.IH; simp)
qed

lemma keeps_grow_size [keep]: "keeps R (grow_size a0 a1)"
  unfolding grow_size_def by (intro keep; simp)

lemma keeps_write_mapped [keep]: "keeps R (write_mapped a0 a1 a2 a3 a4)"
  unfolding write_mapped_def by (intro keep; simp)

lemma keeps_write_hole [keep]: "keeps R (write_hole a0 a1 a2 a3 a4 a5 a6)"
  unfolding write_hole_def by (intro keep; simp)

lemma keeps_file_write_loop [keep]: "keeps R (file_write_loop k a1 a2 a3 a4)"
proof (induction k arbitrary: a1 a2 a3 a4)
  case 0
  show ?case unfolding file_write_loop.simps by (intro keep)
next
  case (Suc k)
  show ?case unfolding file_write_loop.simps by (intro keep Suc.IH; simp)
qed

lemma keeps_large_file [keep]: "keeps R large_file"
  unfolding large_file_def by (intro keep; simp)

lemma keeps_sfs_file_write [keep]: "keeps R (sfs_file_write a0 a1 a2)"
  unfolding sfs_file_write_def by (intro keep; simp)

lemma keeps_zero_tail [keep]: "keeps R (zero_tail a0 a1)"
  unfolding zero_tail_def by (intro keep; simp)

lemma keeps_last_cb [keep]: "keeps R (last_cb a0 a1 a2 a3 a4)"
  unfolding last_cb_def by (intro keep; simp)

lemma keeps_mapped_end [keep]: "keeps R (mapped_end a0)"
  unfolding mapped_end_def by (intro keep; simp)

lemma keeps_truncate_steps [keep]: "keeps R (truncate_steps k a1 a2 a3 a4 a5)"
proof (induction k arbitrary: a1 a2 a3 a4 a5)
  case 0
  show ?case unfolding truncate_steps.simps by (intro keep)
next
  case (Suc k)
  show ?case unfolding truncate_steps.simps by (intro keep Suc.IH; simp)
qed

lemma keeps_truncate_blocks_ex [keep]: "keeps R (truncate_blocks_ex a0 a1 a2 a3 a4)"
  unfolding truncate_blocks_ex_def by (intro keep; simp)

lemma keeps_truncate_blocks [keep]: "keeps R (truncate_blocks a0 a1 a2 a3)"
  unfolding truncate_blocks_def by (intro keep; simp)

lemma keeps_sfs_file_trim_orphan [keep]: "keeps R (sfs_file_trim_orphan a0)"
  unfolding sfs_file_trim_orphan_def by (intro keep; simp)

lemma keeps_set_isize [keep]: "keeps R (set_isize a0 a1)"
  unfolding set_isize_def by (intro keep; simp)

lemma keeps_truncate_bmap [keep]: "keeps R (truncate_bmap a0 a1)"
  unfolding truncate_bmap_def by (intro keep; simp)

lemma keeps_sfs_file_truncate [keep]: "keeps R (sfs_file_truncate a0 a1)"
  unfolding sfs_file_truncate_def by (intro keep; simp)

lemma keeps_release_xattr_block [keep]: "keeps R (release_xattr_block a0)"
  unfolding release_xattr_block_def by (intro keep; simp)

lemma keeps_sfs_inode_release_all [keep]: "keeps R (sfs_inode_release_all a0)"
  unfolding sfs_inode_release_all_def by (intro keep; simp)

lemma keeps_sfs_symlink_read [keep]: "keeps R (sfs_symlink_read a0 a1)"
  unfolding sfs_symlink_read_def by (intro keep; simp)

end

subsection \<open>Directories\<close>

context vol_frame
begin

lemma keeps_dx_room [keep]:
  "keeps R a \<Longrightarrow> keeps R b \<Longrightarrow> keeps R c \<Longrightarrow> keeps R (case x of RoomOk \<Rightarrow> a | RoomFull \<Rightarrow> b | RoomAgain \<Rightarrow> c)"
  by (cases x) auto

lemma keeps_dir_block [keep]: "keeps R (dir_block a0 a1 a2)"
  unfolding dir_block_def by (intro keep; simp)

lemma keeps_dir_block_req [keep]: "keeps R (dir_block_req a0 a1 a2)"
  unfolding dir_block_req_def by (intro keep; simp)

lemma keeps_dir_dirty [keep]: "keeps R (dir_dirty a0 a1 a2)"
  unfolding dir_dirty_def by (intro keep; simp)

lemma keeps_dir_append [keep]: "keeps R (dir_append a0)"
  unfolding dir_append_def by (intro keep; simp)

lemma keeps_frames_put [keep]: "keeps R (frames_put a0)"
  unfolding frames_put_def by (intro keep; simp)

lemma keeps_dx_probe_loop [keep]: "keeps R (dx_probe_loop k a1 a2 a3 a4 a5 a6)"
proof (induction k arbitrary: a1 a2 a3 a4 a5 a6)
  case 0
  show ?case unfolding dx_probe_loop.simps by (intro keep)
next
  case (Suc k)
  show ?case unfolding dx_probe_loop.simps by (intro keep Suc.IH; simp)
qed

lemma keeps_dx_probe [keep]: "keeps R (dx_probe a0 a1)"
  unfolding dx_probe_def by (intro keep; simp)

lemma keeps_dx_down [keep]: "keeps R (dx_down k a1 a2 a3)"
proof (induction k arbitrary: a1 a2 a3)
  case 0
  show ?case unfolding dx_down.simps by (intro keep)
next
  case (Suc k)
  show ?case unfolding dx_down.simps by (intro keep Suc.IH; simp)
qed

lemma keeps_dx_next [keep]: "keeps R (dx_next a0 a1 a2)"
  unfolding dx_next_def by (intro keep; simp)

lemma keeps_find_indexed_loop [keep]: "keeps R (find_indexed_loop k a1 a2 a3 a4 a5)"
proof (induction k arbitrary: a1 a2 a3 a4 a5)
  case 0
  show ?case unfolding find_indexed_loop.simps by (intro keep)
next
  case (Suc k)
  show ?case unfolding find_indexed_loop.simps by (intro keep Suc.IH; simp)
qed

lemma keeps_find_indexed [keep]: "keeps R (find_indexed a0 a1)"
  unfolding find_indexed_def by (intro keep; simp)

lemma keeps_find_linear_loop [keep]: "keeps R (find_linear_loop xs a1 a2)"
proof (induction xs arbitrary: a1 a2)
  case Nil
  show ?case unfolding find_linear_loop.simps by (intro keep)
next
  case (Cons x xs)
  show ?case unfolding find_linear_loop.simps by (intro keep Cons.IH; simp)
qed

lemma keeps_find_linear [keep]: "keeps R (find_linear a0 a1)"
  unfolding find_linear_def by (intro keep; simp)

lemma keeps_find_entry [keep]: "keeps R (find_entry a0 a1)"
  unfolding find_entry_def by (intro keep; simp)

lemma keeps_inline_dir_next [keep]: "keeps R (inline_dir_next a0 a1)"
  unfolding inline_dir_next_def by (intro keep; simp)

lemma keeps_inline_lookup [keep]: "keeps R (inline_lookup k a1 a2 a3)"
proof (induction k arbitrary: a1 a2 a3)
  case 0
  show ?case unfolding inline_lookup.simps by (intro keep)
next
  case (Suc k)
  show ?case unfolding inline_lookup.simps by (intro keep Suc.IH; simp)
qed

lemma keeps_sfs_dir_lookup [keep]: "keeps R (sfs_dir_lookup a0 a1)"
  unfolding sfs_dir_lookup_def by (intro keep; simp)

lemma keeps_dx_clear_inner [keep]: "keeps R (dx_clear_inner a0 a1 a2)"
  unfolding dx_clear_inner_def by (intro keep; simp)

lemma keeps_dx_clear_outer [keep]: "keeps R (dx_clear_outer a0 a1 a2 a3)"
  unfolding dx_clear_outer_def by (intro keep; simp)

lemma keeps_dx_clear [keep]: "keeps R (dx_clear a0)"
  unfolding dx_clear_def by (intro keep; simp)

lemma keeps_split_leaf [keep]: "keeps R (split_leaf a0 a1 a2 a3)"
  unfolding split_leaf_def by (intro keep; simp)

lemma keeps_dx_grow_root [keep]: "keeps R (dx_grow_root a0 a1)"
  unfolding dx_grow_root_def by (intro keep; simp)

lemma keeps_dx_split_node [keep]: "keeps R (dx_split_node a0 a1 a2)"
  unfolding dx_split_node_def by (intro keep; simp)

lemma keeps_dx_make_room [keep]: "keeps R (dx_make_room k a1 a2)"
proof (induction k arbitrary: a1 a2)
  case 0
  show ?case unfolding dx_make_room.simps by (intro keep)
next
  case (Suc k)
  show ?case unfolding dx_make_room.simps by (intro keep Suc.IH; simp)
qed

lemma keeps_leaf_put [keep]: "keeps R (leaf_put a0 a1 a2 a3)"
  unfolding leaf_put_def by (intro keep; simp)

lemma keeps_dx_add_tries [keep]: "keeps R (dx_add_tries k a1 a2 a3 a4)"
proof (induction k arbitrary: a1 a2 a3 a4)
  case 0
  show ?case unfolding dx_add_tries.simps by (intro keep)
next
  case (Suc k)
  show ?case unfolding dx_add_tries.simps by (intro keep Suc.IH; simp)
qed

lemma keeps_dx_add [keep]: "keeps R (dx_add a0 a1 a2 a3)"
  unfolding dx_add_def by (intro keep; simp)

lemma keeps_make_indexed [keep]: "keeps R (make_indexed a0 a1)"
  unfolding make_indexed_def by (intro keep; simp)

lemma keeps_dir_add_scan [keep]: "keeps R (dir_add_scan k a1 a2 a3 a4 a5 a6)"
proof (induction k arbitrary: a1 a2 a3 a4 a5 a6)
  case 0
  show ?case unfolding dir_add_scan.simps by (intro keep)
next
  case (Suc k)
  show ?case unfolding dir_add_scan.simps by (intro keep Suc.IH; simp)
qed

lemma keeps_dir_add_linear [keep]: "keeps R (dir_add_linear a0 a1 a2 a3)"
  unfolding dir_add_linear_def by (intro keep; simp)

lemma keeps_sfs_dir_add [keep]: "keeps R (sfs_dir_add a0 a1 a2 a3)"
  unfolding sfs_dir_add_def by (intro keep; simp)

lemma keeps_sfs_dir_remove [keep]: "keeps R (sfs_dir_remove a0 a1 a2)"
  unfolding sfs_dir_remove_def by (intro keep; simp)

lemma keeps_sfs_dir_set_inode [keep]: "keeps R (sfs_dir_set_inode a0 a1 a2 a3)"
  unfolding sfs_dir_set_inode_def by (intro keep; simp)

lemma keeps_sfs_dir_init [keep]: "keeps R (sfs_dir_init a0 a1)"
  unfolding sfs_dir_init_def by (intro keep; simp)

lemma keeps_dotdot [keep]: "keeps R (dotdot a0)"
  unfolding dotdot_def by (intro keep; simp)

lemma keeps_sfs_dir_get_parent [keep]: "keeps R (sfs_dir_get_parent a0)"
  unfolding sfs_dir_get_parent_def by (intro keep; simp)

lemma keeps_sfs_dir_set_parent [keep]: "keeps R (sfs_dir_set_parent a0 a1)"
  unfolding sfs_dir_set_parent_def by (intro keep; simp)

lemma keeps_dir_next_block [keep]: "keeps R (dir_next_block a0 a1 a2)"
  unfolding dir_next_block_def by (intro keep; simp)

lemma keeps_dir_next_loop [keep]: "keeps R (dir_next_loop k a1 a2)"
proof (induction k arbitrary: a1 a2)
  case 0
  show ?case unfolding dir_next_loop.simps by (intro keep)
next
  case (Suc k)
  show ?case unfolding dir_next_loop.simps by (intro keep Suc.IH; simp)
qed

lemma keeps_sfs_dir_next [keep]: "keeps R (sfs_dir_next a0 a1)"
  unfolding sfs_dir_next_def by (intro keep; simp)

lemma keeps_dir_empty_loop [keep]: "keeps R (dir_empty_loop k a1 a2)"
proof (induction k arbitrary: a1 a2)
  case 0
  show ?case unfolding dir_empty_loop.simps by (intro keep)
next
  case (Suc k)
  show ?case unfolding dir_empty_loop.simps by (intro keep Suc.IH; simp)
qed

lemma keeps_sfs_dir_is_empty [keep]: "keeps R (sfs_dir_is_empty a0)"
  unfolding sfs_dir_is_empty_def by (intro keep; simp)

end

subsection \<open>The life cycle of a volume\<close>

context vol_frame
begin

lemma keeps_refuse_if [keep]: "keeps R (refuse_if a0 a1)"
  unfolding refuse_if_def by (intro keep; simp)

lemma keeps_decide_read_only [keep]: "keeps R decide_read_only"
  unfolding decide_read_only_def by (intro keep; simp)

lemma keeps_orphan_finish [keep]: "keeps R (orphan_finish a0)"
  unfolding orphan_finish_def by (intro keep; simp)

lemma keeps_orphan_drop [keep]: "keeps R (orphan_drop a0)"
  unfolding orphan_drop_def by (intro keep; simp)

lemma keeps_orphan_loop [keep]: "keeps R (orphan_loop k)"
proof (induction k)
  case 0
  show ?case unfolding orphan_loop.simps by (intro keep)
next
  case (Suc k)
  show ?case unfolding orphan_loop.simps by (intro keep Suc.IH; simp)
qed

lemma keeps_sfs_orphan_cleanup [keep]: "keeps R sfs_orphan_cleanup"
  unfolding sfs_orphan_cleanup_def by (intro keep; simp)

lemma keeps_fs_release [keep]: "keeps R (fs_release a0 a1 a2 a3 a4)"
  unfolding fs_release_def by (intro keep; simp)

lemma keeps_mount_fail [keep]: "keeps R (mount_fail a0 a1 a2 a3 a4 a5)"
  unfolding mount_fail_def by (intro keep; simp)

lemma keeps_mount_mark [keep]: "keeps R mount_mark"
  unfolding mount_mark_def by (intro keep; simp)

lemma keeps_sfs_sync [keep]: "keeps R sfs_sync"
  unfolding sfs_sync_def by (intro keep; simp)

lemma keeps_sfs_unmount [keep]: "keeps R sfs_unmount"
  unfolding sfs_unmount_def by (intro keep; simp)

end

subsection \<open>Public operations\<close>

context vol_frame
begin

lemma keeps_get_dir [keep]: "keeps R (get_dir a0)"
  unfolding get_dir_def by (intro keep; simp)

lemma keeps_dir_link_inc [keep]: "keeps R (dir_link_inc a0)"
  unfolding dir_link_inc_def by (intro keep; simp)

lemma keeps_dir_link_dec [keep]: "keeps R (dir_link_dec a0)"
  unfolding dir_link_dec_def by (intro keep; simp)

lemma keeps_sfs_lookup [keep]: "keeps R (sfs_lookup a0 a1)"
  unfolding sfs_lookup_def by (intro keep; simp)

lemma keeps_sfs_stat [keep]: "keeps R (sfs_stat a0)"
  unfolding sfs_stat_def by (intro keep; simp)

lemma keeps_sfs_readdir [keep]: "keeps R (sfs_readdir a0 a1)"
  unfolding sfs_readdir_def by (intro keep; simp)

lemma keeps_sfs_read [keep]: "keeps R (sfs_read a0 a1 a2)"
  unfolding sfs_read_def by (intro keep; simp)

lemma keeps_sfs_readlink [keep]: "keeps R (sfs_readlink a0 a1)"
  unfolding sfs_readlink_def by (intro keep; simp)

lemma keeps_with_inode [keep]:
  "keeps R body \<Longrightarrow> keeps R (with_inode ino body)"
  unfolding with_inode_def by (intro keep; simp)

lemma keeps_sfs_write [keep]: "keeps R (sfs_write a0 a1 a2)"
  unfolding sfs_write_def by (intro keep; simp)

lemma keeps_sfs_truncate [keep]: "keeps R (sfs_truncate a0 a1)"
  unfolding sfs_truncate_def by (intro keep; simp)

lemma keeps_sfs_set_times [keep]: "keeps R (sfs_set_times a0 a1 a2)"
  unfolding sfs_set_times_def by (intro keep; simp)

lemma keeps_sfs_set_mode [keep]: "keeps R (sfs_set_mode a0 a1)"
  unfolding sfs_set_mode_def by (intro keep; simp)

lemma keeps_destroy_inode [keep]: "keeps R (destroy_inode a0)"
  unfolding destroy_inode_def by (intro keep; simp)

lemma keeps_slow_symlink [keep]: "keeps R (slow_symlink a0 a1)"
  unfolding slow_symlink_def by (intro keep; simp)

lemma keeps_create_alloc [keep]: "keeps R (create_alloc a0 a1 a2)"
  unfolding create_alloc_def by (intro keep; simp)

lemma keeps_create_fill [keep]: "keeps R (create_fill a0 a1 a2 a3)"
  unfolding create_fill_def by (intro keep; simp)

lemma keeps_create_undo [keep]: "keeps R (create_undo a0 a1 a2 a3)"
  unfolding create_undo_def by (intro keep; simp)

lemma keeps_create_in [keep]: "keeps R (create_in a0 a1 a2 a3)"
  unfolding create_in_def by (intro keep; simp)

lemma keeps_create_common [keep]: "keeps R (create_common a0 a1 a2 a3)"
  unfolding create_common_def by (intro keep; simp)

lemma keeps_sfs_create [keep]: "keeps R (sfs_create a0 a1 a2)"
  unfolding sfs_create_def by (intro keep; simp)

lemma keeps_sfs_mkdir [keep]: "keeps R (sfs_mkdir a0 a1 a2)"
  unfolding sfs_mkdir_def by (intro keep; simp)

lemma keeps_sfs_symlink [keep]: "keeps R (sfs_symlink a0 a1 a2)"
  unfolding sfs_symlink_def by (intro keep; simp)

lemma keeps_unlink_body [keep]: "keeps R (unlink_body a0 a1 a2)"
  unfolding unlink_body_def by (intro keep; simp)

lemma keeps_sfs_unlink [keep]: "keeps R (sfs_unlink a0 a1)"
  unfolding sfs_unlink_def by (intro keep; simp)

lemma keeps_empty_check [keep]: "keeps R (empty_check a0)"
  unfolding empty_check_def by (intro keep; simp)

lemma keeps_rmdir_body [keep]: "keeps R (rmdir_body a0 a1 a2)"
  unfolding rmdir_body_def by (intro keep; simp)

lemma keeps_sfs_rmdir [keep]: "keeps R (sfs_rmdir a0 a1)"
  unfolding sfs_rmdir_def by (intro keep; simp)

lemma keeps_ancestor_loop [keep]: "keeps R (ancestor_loop k a1 a2)"
proof (induction k arbitrary: a1 a2)
  case 0
  show ?case unfolding ancestor_loop.simps by (intro keep)
next
  case (Suc k)
  show ?case unfolding ancestor_loop.simps by (intro keep Suc.IH; simp)
qed

lemma keeps_is_ancestor [keep]: "keeps R (is_ancestor a0 a1)"
  unfolding is_ancestor_def by (intro keep; simp)

lemma keeps_rename_find [keep]: "keeps R (rename_find a0 a1 a2 a3)"
  unfolding rename_find_def by (intro keep; simp)

lemma keeps_rename_target_ok [keep]: "keeps R (rename_target_ok a0 a1)"
  unfolding rename_target_ok_def by (intro keep; simp)

lemma keeps_rename_enter [keep]: "keeps R (rename_enter a0 a1 a2 a3 a4)"
  unfolding rename_enter_def by (intro keep; simp)

lemma keeps_rename_drop_target [keep]: "keeps R (rename_drop_target a0 a1 a2 a3)"
  unfolding rename_drop_target_def by (intro keep; simp)

lemma keeps_rename_apply [keep]: "keeps R (rename_apply a0 a1 a2 a3 a4 a5)"
  unfolding rename_apply_def by (intro keep; simp)

lemma keeps_rename_out [keep]: "keeps R (rename_out a0 a1 a2 a3 a4)"
  unfolding rename_out_def by (intro keep; simp)

lemma keeps_rename_src [keep]: "keeps R (rename_src a0 a1 a2 a3 a4 a5)"
  unfolding rename_src_def by (intro keep; simp)

lemma keeps_sfs_rename [keep]: "keeps R (sfs_rename a0 a1 a2 a3 a4)"
  unfolding sfs_rename_def by (intro keep; simp)

lemma keeps_path_walk [keep]: "keeps R (path_walk xs a1 a2 a3)"
proof (induction xs arbitrary: a1 a2 a3)
  case Nil
  show ?case unfolding path_walk.simps by (intro keep)
next
  case (Cons x xs)
  show ?case unfolding path_walk.simps by (intro keep Cons.IH; simp)
qed

lemma keeps_sfs_path_lookup [keep]: "keeps R (sfs_path_lookup a0)"
  unfolding sfs_path_lookup_def by (intro keep; simp)

end

subsection \<open>Checked operations\<close>

context vol_frame
begin

lemma keeps_sfs_permission [keep]: "keeps R (sfs_permission a0 a1 a2)"
  unfolding sfs_permission_def by (intro keep; simp)

lemma keeps_dir_check [keep]: "keeps R (dir_check a0 a1 a2)"
  unfolding dir_check_def by (intro keep; simp)

lemma keeps_walk_parts [keep]: "keeps R (walk_parts a0 xs a2 a3 a4 a5)"
proof (induction xs arbitrary: a0 a2 a3 a4 a5)
  case Nil
  show ?case unfolding walk_parts.simps by (intro keep)
next
  case (Cons x xs)
  show ?case unfolding walk_parts.simps by (intro keep Cons.IH; simp)
qed

lemma keeps_sfs_walk_as [keep]: "keeps R (sfs_walk_as a0 a1)"
  unfolding sfs_walk_as_def by (intro keep; simp)

lemma keeps_set_owner_in_op [keep]: "keeps R (set_owner_in_op a0 a1 a2 a3)"
  unfolding set_owner_in_op_def by (intro keep; simp)

lemma keeps_sfs_set_owner [keep]: "keeps R (sfs_set_owner a0 a1 a2 a3)"
  unfolding sfs_set_owner_def by (intro keep; simp)

lemma keeps_create_owned [keep]: "keeps R (create_owned a0 a1 a2 a3 a4 a5)"
  unfolding create_owned_def by (intro keep; simp)

lemma keeps_open_existing [keep]: "keeps R (open_existing a0 a1 a2)"
  unfolding open_existing_def by (intro keep; simp)

lemma keeps_sfs_open_as [keep]: "keeps R (sfs_open_as a0 a1 a2 a3 a4)"
  unfolding sfs_open_as_def by (intro keep; simp)

lemma keeps_sfs_mkdir_as [keep]: "keeps R (sfs_mkdir_as a0 a1 a2 a3)"
  unfolding sfs_mkdir_as_def by (intro keep; simp)

lemma keeps_may_delete [keep]: "keeps R (may_delete a0 a1 a2)"
  unfolding may_delete_def by (intro keep; simp)

lemma keeps_sfs_unlink_as [keep]: "keeps R (sfs_unlink_as a0 a1 a2)"
  unfolding sfs_unlink_as_def by (intro keep; simp)

lemma keeps_sfs_rmdir_as [keep]: "keeps R (sfs_rmdir_as a0 a1 a2)"
  unfolding sfs_rmdir_as_def by (intro keep; simp)

lemma keeps_sfs_rename_as [keep]: "keeps R (sfs_rename_as a0 a1 a2 a3 a4 a5)"
  unfolding sfs_rename_as_def by (intro keep; simp)

lemma keeps_sfs_chmod_as [keep]: "keeps R (sfs_chmod_as a0 a1 a2)"
  unfolding sfs_chmod_as_def by (intro keep; simp)

lemma keeps_sfs_chown_as [keep]: "keeps R (sfs_chown_as a0 a1 a2 a3)"
  unfolding sfs_chown_as_def by (intro keep; simp)

end

subsection \<open>Histories\<close>

text \<open>
  \<open>sfs_step\<close> has one rule for every public operation of sfs.h and sfs\_access.h, with any arguments; a history is a
  path of steps.
\<close>

inductive sfs_step :: "'c sfs_fs \<Rightarrow> 'c sfs_fs \<Rightarrow> bool" where
  do_lookup: "sfs_step s (snd (sfs_lookup dir name s))"
| do_stat: "sfs_step s (snd (sfs_stat ino s))"
| do_readdir: "sfs_step s (snd (sfs_readdir dir pos s))"
| do_read: "sfs_step s (snd (sfs_read ino off len s))"
| do_readlink: "sfs_step s (snd (sfs_readlink ino n s))"
| do_path_lookup: "sfs_step s (snd (sfs_path_lookup path s))"
| do_write: "sfs_step s (snd (sfs_write ino off data s))"
| do_truncate: "sfs_step s (snd (sfs_truncate ino len s))"
| do_set_times: "sfs_step s (snd (sfs_set_times ino at mt s))"
| do_set_mode: "sfs_step s (snd (sfs_set_mode ino mode s))"
| do_set_owner: "sfs_step s (snd (sfs_set_owner ino uid gid mode s))"
| do_create: "sfs_step s (snd (sfs_create dir name mode s))"
| do_mkdir: "sfs_step s (snd (sfs_mkdir dir name mode s))"
| do_symlink: "sfs_step s (snd (sfs_symlink dir name tgt s))"
| do_unlink: "sfs_step s (snd (sfs_unlink dir name s))"
| do_rmdir: "sfs_step s (snd (sfs_rmdir dir name s))"
| do_rename: "sfs_step s (snd (sfs_rename od on nd nn repl s))"
| do_sync: "sfs_step s (snd (sfs_sync s))"
| do_unmount: "sfs_step s (snd (sfs_unmount s))"
| do_permission: "sfs_step s (snd (sfs_permission c ino want s))"
| do_walk_as: "sfs_step s (snd (sfs_walk_as c path s))"
| do_open_as: "sfs_step s (snd (sfs_open_as c dir name flags mode s))"
| do_mkdir_as: "sfs_step s (snd (sfs_mkdir_as c dir name mode s))"
| do_unlink_as: "sfs_step s (snd (sfs_unlink_as c dir name s))"
| do_rmdir_as: "sfs_step s (snd (sfs_rmdir_as c dir name s))"
| do_rename_as: "sfs_step s (snd (sfs_rename_as c od on nd nn repl s))"
| do_chmod_as: "sfs_step s (snd (sfs_chmod_as c ino mode s))"
| do_chown_as: "sfs_step s (snd (sfs_chown_as c ino uid gid s))"

context vol_frame
begin

lemma frame_app: "keeps R m \<Longrightarrow> R s (snd (m s))"
  by (simp add: keeps_def)

lemma step_frame: "sfs_step s t \<Longrightarrow> R s t"
  by (induction rule: sfs_step.induct) (rule frame_app, rule keep)+

lemma history_frame: "sfs_step\<^sup>*\<^sup>* s t \<Longrightarrow> R s t"
  by (induction rule: rtranclp_induct) (auto intro: R_refl R_trans step_frame)

end

subsection \<open>Mounting\<close>

text \<open>A relation that also admits a change of the geometry is kept by the mount code.\<close>

locale mount_frame = vol_frame +
  assumes geo_frame: "keeps R (set_geo f)" and sbraw_frame: "keeps R read_sbraw" and init_frame: "keeps R (sfs_cache_init n)"
begin

declare geo_frame [keep] sbraw_frame [keep] init_frame [keep]

lemma keeps_parse_features [keep]: "keeps R parse_features"
  unfolding parse_features_def by (intro keep; simp)

lemma keeps_parse_blocks [keep]: "keeps R parse_blocks"
  unfolding parse_blocks_def by (intro keep; simp)

lemma keeps_parse_groups [keep]: "keeps R parse_groups"
  unfolding parse_groups_def by (intro keep; simp)

lemma keeps_parse_inodes [keep]: "keeps R parse_inodes"
  unfolding parse_inodes_def by (intro keep; simp)

lemma keeps_parse_desc [keep]: "keeps R parse_desc"
  unfolding parse_desc_def by (intro keep; simp)

lemma keeps_parse_flags [keep]: "keeps R parse_flags"
  unfolding parse_flags_def by (intro keep; simp)

lemma keeps_parse_csum [keep]: "keeps R parse_csum"
  unfolding parse_csum_def by (intro keep; simp)

lemma keeps_parse_rest [keep]: "keeps R parse_rest"
  unfolding parse_rest_def by (intro keep; simp)

lemma keeps_parse_super [keep]: "keeps R parse_super"
  unfolding parse_super_def by (intro keep; simp)

lemma keeps_load_geometry [keep]: "keeps R load_geometry"
  unfolding load_geometry_def by (intro keep; simp)

lemma keeps_mount_journal [keep]: "keeps R mount_journal"
  unfolding mount_journal_def by (intro keep; simp)

lemma keeps_mount_load [keep]: "keeps R mount_load"
  unfolding mount_load_def by (intro keep; simp)

lemma keeps_mount_memory [keep]: "keeps R mount_memory"
  unfolding mount_memory_def by (intro keep; simp)

lemma keeps_mount_super [keep]: "keeps R mount_super"
  unfolding mount_super_def by (intro keep; simp)

end

end
