(* ===== verification/Sfs_Cache_Wf.thy ===== *)
theory Sfs_Cache_Wf
  imports Sfs_Frame_Ops
begin

unbundle bit_operations_syntax

section \<open>The caches are well formed\<close>

text \<open>
  The structural invariants of the two caches: the LRU list holds every cached block (inode) exactly once and the counter is its
  length. The functions that change the structure are treated by hand with the triples \<open>spec P m Q\<close>; the interpretations of
  \<open>vol_frame\<close> extend the invariants to every operation, and so to every history of a mounted volume.
\<close>

subsection \<open>Triples\<close>

definition spec :: "('s \<Rightarrow> bool) \<Rightarrow> ('s, 'a) act \<Rightarrow> ('a \<Rightarrow> 's \<Rightarrow> bool) \<Rightarrow> bool" where
  "spec P m Q = (\<forall>s. P s \<longrightarrow> Q (fst (m s)) (snd (m s)))"

lemma spec_run: "spec P m Q \<Longrightarrow> (\<And>x. spec (Q x) (k x) Q') \<Longrightarrow> spec P (run m k) Q'"
  by (auto simp: spec_def run_apply)

lemma spec_chk:
  "spec P m Q \<Longrightarrow> (\<And>e s. Q (Inl e) s \<Longrightarrow> Q' (Inl e) s) \<Longrightarrow> (\<And>x. spec (Q (Inr x)) (k x) Q') \<Longrightarrow> spec P (chk m k) Q'"
  unfolding chk_def by (rule spec_run, assumption) (auto simp: spec_def split: sum.split)

lemma spec_look: "(\<And>s. P s \<Longrightarrow> P' s s \<and> spec (P' s) (k s) Q) \<Longrightarrow> spec P (look k) Q"
  by (auto simp: spec_def)

lemma spec_ret: "(\<And>s. P s \<Longrightarrow> Q x s) \<Longrightarrow> spec P (ret x) Q"
  by (simp add: spec_def)

lemma spec_ok: "(\<And>s. P s \<Longrightarrow> Q (Inr x) s) \<Longrightarrow> spec P (ok x) Q"
  by (simp add: spec_def)

lemma spec_throw: "(\<And>s. P s \<Longrightarrow> Q (Inl e) s) \<Longrightarrow> spec P (throw e) Q"
  by (simp add: spec_def)

lemma spec_upd: "(\<And>s. P s \<Longrightarrow> Q () (f s)) \<Longrightarrow> spec P (upd f) Q"
  by (simp add: spec_def)

lemma spec_if: "(b \<Longrightarrow> spec P m Q) \<Longrightarrow> (\<not> b \<Longrightarrow> spec P n Q) \<Longrightarrow> spec P (if b then m else n) Q"
  by simp

lemma spec_sum_case:
  "(\<And>e. rc = Inl e \<Longrightarrow> spec P (f e) Q) \<Longrightarrow> (\<And>x. rc = Inr x \<Longrightarrow> spec P (g x) Q) \<Longrightarrow> spec P (case rc of Inl e \<Rightarrow> f e | Inr x \<Rightarrow> g x) Q"
  by (cases rc) auto

lemma spec_sum_both:
  "(\<And>e. spec (P1 e) (f e) Q) \<Longrightarrow> (\<And>x. spec (P2 x) (g x) Q) \<Longrightarrow>
   spec (case rc of Inl e \<Rightarrow> P1 e | Inr x \<Rightarrow> P2 x) (case rc of Inl e \<Rightarrow> f e | Inr x \<Rightarrow> g x) Q"
  by (cases rc) auto

lemma spec_prod_case: "(\<And>x y. spec P (f x y) Q) \<Longrightarrow> spec P (case p of (x, y) \<Rightarrow> f x y) Q"
  by (cases p) auto

lemma spec_look_any: "(\<And>s. spec P (k s) Q) \<Longrightarrow> spec P (look k) Q"
  by (auto simp: spec_def)

lemma spec_pre: "spec P' m Q \<Longrightarrow> (\<And>s. P s \<Longrightarrow> P' s) \<Longrightarrow> spec P m Q"
  by (auto simp: spec_def)

lemma spec_post: "spec P m Q' \<Longrightarrow> (\<And>x s. Q' x s \<Longrightarrow> Q x s) \<Longrightarrow> spec P m Q"
  by (auto simp: spec_def)

lemma spec_keeps: "keeps (\<lambda>s t. P s \<longrightarrow> P t) m \<Longrightarrow> spec P m (\<lambda>_. P)"
  by (simp add: spec_def keeps_def)

lemma keeps_spec: "spec P m (\<lambda>_. P) \<Longrightarrow> keeps (\<lambda>s t. P s \<longrightarrow> P t) m"
  by (simp add: spec_def keeps_def)

subsection \<open>The block cache\<close>

text \<open>\<open>cw n A\<close>: the counter is ahead of the list by \<open>n\<close> buffers, and \<open>A\<close> holds of the set of cached blocks.\<close>

definition cw :: "nat \<Rightarrow> (u64 set \<Rightarrow> bool) \<Rightarrow> 'c sfs_fs \<Rightarrow> bool" where
  "cw n A s = (distinct (fs_lru s) \<and> set (fs_lru s) = dom (fs_bufs s) \<and> fs_nbufs s = of_nat (length (fs_lru s) + n) \<and> A (dom (fs_bufs s)))"

definition cache_wf :: "'c sfs_fs \<Rightarrow> bool" where
  "cache_wf s = (distinct (fs_lru s) \<and> set (fs_lru s) = dom (fs_bufs s) \<and> fs_nbufs s = of_nat (length (fs_lru s)))"

lemma cache_wf_cw: "cache_wf = cw 0 (\<lambda>_. True)"
  by (simp add: cache_wf_def cw_def fun_eq_iff)

lemma cw_mono: "cw n A s \<Longrightarrow> (\<And>X. A X \<Longrightarrow> B X) \<Longrightarrow> cw n B s"
  by (simp add: cw_def)

definition shrinks :: "('x set \<Rightarrow> bool) \<Rightarrow> bool" where
  "shrinks A = (\<forall>X b. A X \<longrightarrow> A (X - {b}))"

lemma dom_upd_map_option [simp]: "dom (m(b := map_option f (m b))) = dom m"
  by auto

lemma cw_frame: "quiet_frame (\<lambda>s t. cw n A s \<longrightarrow> cw n A t)"
  by unfold_locales (auto simp: keeps_def cw_def upd_buf_def upd_ino_def simp del: fun_upd_apply dom_fun_upd)

interpretation cq: quiet_frame "\<lambda>s t. cw n A s \<longrightarrow> cw n A t" for n A
  by (rule cw_frame)

lemma spec_quiet [intro]: "keeps (\<lambda>s t. cw n A s \<longrightarrow> cw n A t) m \<Longrightarrow> spec (cw n A) m (\<lambda>_. cw n A)"
  by (rule spec_keeps)

lemma spec_buf_destroy: "spec (cw (Suc n) A) buf_destroy (\<lambda>_. cw n A)"
  unfolding buf_destroy_def
  by (rule spec_look[where P' = "\<lambda>_. cw (Suc n) A"], intro conjI, assumption)
    (intro spec_run[OF spec_keeps] spec_upd keep, simp add: cw_def)

lemma length_remove1_in: "x \<in> set xs \<Longrightarrow> Suc (length (remove1 x xs)) = length xs"
  by (simp add: length_remove1) (metis Suc_pred length_pos_if_in_set)

lemma spec_buf_drop:
  assumes "\<And>X. A X \<Longrightarrow> B (X - {b})" "\<And>X. A X \<Longrightarrow> b \<in> X"
  shows "spec (cw 0 A) (buf_drop b) (\<lambda>_. cw 0 B)"
proof -
  have "spec (cw 0 A) (run (lru_unlink b) (\<lambda>_. hash_unlink b)) (\<lambda>_. cw 1 B)"
    unfolding spec_def
  proof (intro allI impI)
    fix s :: "'c sfs_fs"
    assume s: "cw 0 A s"
    hence b: "b \<in> set (fs_lru s)"
      using assms(2) by (auto simp: cw_def)
    thus "cw 1 B (snd (run (lru_unlink b) (\<lambda>_. hash_unlink b) s))"
      using s assms(1) length_remove1_in[OF b] by (auto simp: cw_def run_apply lru_unlink_def hash_unlink_def set_remove1_eq)
  qed
  hence "spec (cw 0 A) (run (run (lru_unlink b) (\<lambda>_. hash_unlink b)) (\<lambda>_. buf_destroy)) (\<lambda>_. cw 0 B)"
    by (rule spec_run) (use spec_buf_destroy[of 0 B] in simp)
  thus ?thesis
    by (simp add: buf_drop_def run_def case_prod_beta)
qed

lemma spec_evict_one:
  assumes "shrinks A"
  shows "spec (cw 0 A) evict_one (\<lambda>_. cw 0 A)"
  unfolding evict_one_def
proof (rule spec_look[where P' = "\<lambda>s. cw 0 (\<lambda>X. A X \<and> X = dom (fs_bufs s))"], intro conjI)
  fix s :: "'c sfs_fs"
  assume s: "cw 0 A s"
  thus "cw 0 (\<lambda>X. A X \<and> X = dom (fs_bufs s)) s"
    by (simp add: cw_def)
  show "spec (cw 0 (\<lambda>X. A X \<and> X = dom (fs_bufs s)))
     (case find (\<lambda>b. evictable (buf_of s b)) (rev (fs_lru s)) of None \<Rightarrow> throw SFS_EBUSY
      | Some b \<Rightarrow> chk (if b_flags (buf_of s b) AND B_DIRTY \<noteq> 0 then write_cluster b else ok ()) (\<lambda>_.
         run (buf_drop b) (\<lambda>_. run (upd_st (\<lambda>t. t\<lparr>st_cache_evictions := st_cache_evictions t + 1\<rparr>)) (\<lambda>_. ok ()))))
     (\<lambda>_. cw 0 A)"
  proof (cases "find (\<lambda>b. evictable (buf_of s b)) (rev (fs_lru s))")
    case None
    show ?thesis
      unfolding None option.case by (rule spec_throw, erule cw_mono) blast
  next
    case (Some b)
    then obtain i where "i < length (rev (fs_lru s))" "b = rev (fs_lru s) ! i"
      unfolding find_Some_iff by blast
    hence "b \<in> set (fs_lru s)"
      using nth_mem[of i "rev (fs_lru s)"] by simp
    hence "b \<in> dom (fs_bufs s)"
      using s unfolding cw_def by argo
    hence drop: "spec (cw 0 (\<lambda>X. A X \<and> X = dom (fs_bufs s))) (buf_drop b) (\<lambda>_. cw 0 A)"
      using assms by (intro spec_buf_drop) (auto simp: shrinks_def)
    show ?thesis
      unfolding Some option.case
    proof (rule spec_chk[OF spec_keeps])
      show "keeps (\<lambda>u v. cw 0 (\<lambda>X. A X \<and> X = dom (fs_bufs s)) u \<longrightarrow> cw 0 (\<lambda>X. A X \<and> X = dom (fs_bufs s)) v)
          (if b_flags (buf_of s b) AND B_DIRTY \<noteq> 0 then write_cluster b else ok ())"
        by (intro keep)
      show "spec (cw 0 (\<lambda>X. A X \<and> X = dom (fs_bufs s))) (run (buf_drop b) (\<lambda>_. run (upd_st f) (\<lambda>_. ok ()))) (\<lambda>_. cw 0 A)" for f
        by (rule spec_run[OF drop], rule spec_run[OF spec_keeps]) (rule keep, rule spec_ok)
    qed (erule cw_mono, blast)
  qed
qed

lemma spec_evict_loop:
  assumes "shrinks A"
  shows "spec (cw 0 A) (evict_loop k) (\<lambda>_. cw 0 A)"
proof (induction k)
  case (Suc k)
  show ?case
    unfolding evict_loop.simps
    by (rule spec_look[where P' = "\<lambda>_. cw 0 A"])
      (auto intro!: spec_run[OF spec_evict_one[OF assms]] spec_ok spec_throw Suc.IH split: sum.split)
qed (subst evict_loop.simps, rule spec_ok)

text \<open>A hit moves the buffer to the front of the list.\<close>

lemma keeps_lru_front: "keeps (\<lambda>s t. cw 0 (\<lambda>X. blk \<in> X) s \<longrightarrow> cw 0 (\<lambda>X. blk \<in> X) t) (run (lru_unlink blk) (\<lambda>_. lru_push_front blk))"
  unfolding keeps_def
proof (intro allI impI)
  fix s :: "'c sfs_fs"
  assume s: "cw 0 (\<lambda>X. blk \<in> X) s"
  hence "blk \<in> set (fs_lru s)" "distinct (fs_lru s)"
    by (simp_all add: cw_def)
  thus "cw 0 (\<lambda>X. blk \<in> X) (snd (run (lru_unlink blk) (\<lambda>_. lru_push_front blk) s))"
    using s length_remove1_in[of blk "fs_lru s"]
    by (auto simp: cw_def run_apply lru_unlink_def lru_push_front_def set_remove1_eq)
qed

lemma keeps_get_buf_hit: "keeps (\<lambda>s t. cw 0 (\<lambda>X. blk \<in> X) s \<longrightarrow> cw 0 (\<lambda>X. blk \<in> X) t) (get_buf_hit blk rd)"
  unfolding get_buf_hit_def by (intro keeps_lru_front keep)

lemma spec_buf_insert: "spec (cw 1 (\<lambda>X. blk \<notin> X)) (buf_insert blk d flags) (\<lambda>_. cw 0 (\<lambda>_. True))"
  by (auto simp: spec_def cw_def buf_insert_def run_apply lru_push_front_def)

lemma spec_get_buf_miss: "spec (cw 0 (\<lambda>X. blk \<notin> X)) (get_buf_miss blk rd) (\<lambda>_. cw 0 (\<lambda>_. True))"
proof -
  have sh: "shrinks (\<lambda>X. blk \<notin> X)"
    by (simp add: shrinks_def)
  have tail: "spec (cw 1 (\<lambda>X. blk \<notin> X)) (if rd then run (sfs_dev_read blk 1) (\<lambda>rc. case rc of
        Inl e \<Rightarrow> run buf_destroy (\<lambda>_. throw e) | Inr d \<Rightarrow> run (buf_insert blk d f) (\<lambda>_. ok blk))
      else run (buf_insert blk d' f') (\<lambda>_. ok blk)) (\<lambda>_. cw 0 (\<lambda>_. True))" for f d' f'
  proof -
    have ins: "spec (cw 1 (\<lambda>X. blk \<notin> X)) (run (buf_insert blk d fl) (\<lambda>_. ok blk)) (\<lambda>_. cw 0 (\<lambda>_. True))" for d fl
      by (rule spec_run[OF spec_buf_insert]) (rule spec_ok)
    have des: "spec (cw 1 (\<lambda>X. blk \<notin> X)) (run buf_destroy (\<lambda>_. throw e)) (\<lambda>_. cw 0 (\<lambda>_. True))" for e
      unfolding One_nat_def by (rule spec_run[OF spec_buf_destroy], rule spec_throw, erule cw_mono) simp
    show ?thesis
      by (intro spec_if spec_sum_case ins des spec_run[OF spec_keeps[OF cq.dev_frame(1)]])
  qed
  show ?thesis
    unfolding get_buf_miss_def
    apply (rule spec_run[OF spec_keeps], rule keep)
    apply (rule spec_look[where P' = "\<lambda>_. cw 0 (\<lambda>X. blk \<notin> X)"], intro conjI, assumption)
    apply (rule spec_chk[OF spec_evict_loop[OF sh]], erule cw_mono, simp)
    apply (rule spec_run[OF spec_keeps], rule keep)
    apply (split if_split, intro conjI impI, rule spec_throw, erule cw_mono, simp)
    apply (rule spec_look[where P' = "\<lambda>_. cw 0 (\<lambda>X. blk \<notin> X)"], intro conjI, assumption)
    apply (rule spec_run[OF spec_keeps], rule keep)
    apply (split if_split, intro conjI impI)
     apply (rule spec_run[OF spec_keeps], rule keep, rule spec_throw, erule cw_mono, simp)
    apply (rule spec_run[where Q = "\<lambda>_. cw 1 (\<lambda>X. blk \<notin> X)"], rule spec_upd, simp add: cw_def, rule tail)
    done
qed

lemma cache_wf_get_buf: "keeps (\<lambda>s t. cache_wf s \<longrightarrow> cache_wf t) (get_buf blk rd)"
  unfolding cache_wf_cw
proof (rule keeps_spec, unfold get_buf_def, rule spec_look[where P' = "\<lambda>s. cw 0 (\<lambda>X. X = dom (fs_bufs s))"], intro conjI)
  fix s :: "'c sfs_fs"
  assume "cw 0 (\<lambda>_. True) s"
  thus "cw 0 (\<lambda>X. X = dom (fs_bufs s)) s"
    by (simp add: cw_def)
  show "spec (cw 0 (\<lambda>X. X = dom (fs_bufs s))) (case fs_bufs s blk of None \<Rightarrow> get_buf_miss blk rd | Some x \<Rightarrow> get_buf_hit blk rd)
      (\<lambda>_. cw 0 (\<lambda>_. True))"
  proof (cases "fs_bufs s blk")
    case None
    show ?thesis
      unfolding None option.case by (rule spec_pre[OF spec_get_buf_miss], erule cw_mono) (use None in auto)
  next
    case (Some b)
    show ?thesis
      unfolding Some option.case
      by (rule spec_post[OF spec_pre[OF spec_keeps[OF keeps_get_buf_hit]]]; erule cw_mono) (use Some in auto)
  qed
qed

text \<open>The functions that drop one buffer: its block is cached when they get that far.\<close>

lemma spec_present:
  assumes "\<And>b. spec (cw 0 (\<lambda>X. blk \<in> X)) (f b) (\<lambda>_. cw 0 (\<lambda>_. True))"
  shows "keeps (\<lambda>s t. cache_wf s \<longrightarrow> cache_wf t) (look (\<lambda>s. case fs_bufs s blk of None \<Rightarrow> ret () | Some b \<Rightarrow> f b))"
  unfolding cache_wf_cw
proof (rule keeps_spec, rule spec_look[where P' = "\<lambda>s. cw 0 (\<lambda>X. X = dom (fs_bufs s))"], intro conjI)
  fix s :: "'a sfs_fs"
  assume "cw 0 (\<lambda>_. True) s"
  thus "cw 0 (\<lambda>X. X = dom (fs_bufs s)) s"
    by (simp add: cw_def)
  show "spec (cw 0 (\<lambda>X. X = dom (fs_bufs s))) (case fs_bufs s blk of None \<Rightarrow> ret () | Some b \<Rightarrow> f b) (\<lambda>_. cw 0 (\<lambda>_. True))"
  proof (cases "fs_bufs s blk")
    case None
    show ?thesis
      unfolding None option.case by (rule spec_ret, erule cw_mono) simp
  next
    case (Some b)
    show ?thesis
      unfolding Some option.case by (rule spec_pre[OF assms], erule cw_mono) (use Some in auto)
  qed
qed

lemma spec_drop_present: "spec (cw 0 (\<lambda>X. blk \<in> X)) (if c then ret () else buf_drop blk) (\<lambda>_. cw 0 (\<lambda>_. True))"
  by (intro spec_if spec_ret spec_buf_drop) (auto elim: cw_mono)

lemma cache_wf_bforget: "keeps (\<lambda>s t. cache_wf s \<longrightarrow> cache_wf t) (sfs_bforget blk)"
  unfolding sfs_bforget_def
  by (rule spec_present, rule spec_run[OF spec_keeps], intro keep, rule spec_run[OF spec_keeps], rule keep, rule spec_drop_present)

lemma cache_wf_binval_one: "keeps (\<lambda>s t. cache_wf s \<longrightarrow> cache_wf t) (binval_one blk)"
  unfolding binval_one_def late_unlink_def
  by (rule spec_present, rule spec_if, rule spec_ret, erule cw_mono, simp)
    (rule spec_run[OF spec_keeps], intro keep, rule spec_run[OF spec_keeps], rule keep, rule spec_drop_present)

lemma spec_drop_clean:
  "distinct bs \<Longrightarrow> spec (cw 0 (\<lambda>X. set bs \<subseteq> X)) (forA bs drop_clean_one) (\<lambda>_. cw 0 (\<lambda>_. True))"
proof (induction bs)
  case Nil
  show ?case
    unfolding forA.simps by (rule spec_ret, erule cw_mono) simp
next
  case (Cons b bs)
  have "spec (cw 0 (\<lambda>X. set (b # bs) \<subseteq> X)) (drop_clean_one b) (\<lambda>_. cw 0 (\<lambda>X. set bs \<subseteq> X))"
    unfolding drop_clean_one_def
    by (rule spec_look[where P' = "\<lambda>_. cw 0 (\<lambda>X. set (b # bs) \<subseteq> X)"], intro conjI, assumption)
      (intro spec_if spec_ret spec_buf_drop; use Cons.prems in \<open>auto elim: cw_mono\<close>)
  thus ?case
    unfolding forA.simps by (rule spec_run) (use Cons in simp)
qed

lemma cache_wf_drop_clean: "keeps (\<lambda>s t. cache_wf s \<longrightarrow> cache_wf t) sfs_cache_drop_clean"
  unfolding cache_wf_cw sfs_cache_drop_clean_def
proof (rule keeps_spec, rule spec_look[where P' = "\<lambda>s. cw 0 (\<lambda>X. set (rev (fs_lru s)) \<subseteq> X)"])
  fix s :: "'a sfs_fs"
  assume "cw 0 (\<lambda>_. True) s"
  thus "cw 0 (\<lambda>X. set (rev (fs_lru s)) \<subseteq> X) s \<and>
      spec (cw 0 (\<lambda>X. set (rev (fs_lru s)) \<subseteq> X)) (forA (rev (fs_lru s)) drop_clean_one) (\<lambda>_. cw 0 (\<lambda>_. True))"
    by (intro conjI spec_drop_clean) (simp_all add: cw_def)
qed

lemma spec_destroy_all:
  "distinct bs \<Longrightarrow> spec (\<lambda>s. dom (fs_bufs s) = set bs \<and> fs_nbufs s = of_nat (length bs)) (forA bs (\<lambda>b. run buf_destroy (\<lambda>_. hash_unlink b)))
     (\<lambda>_ s. dom (fs_bufs s) = {} \<and> fs_nbufs s = 0)"
proof (induction bs)
  case (Cons b bs)
  have "spec (\<lambda>s. dom (fs_bufs s) = set (b # bs) \<and> fs_nbufs s = of_nat (length (b # bs))) (run buf_destroy (\<lambda>_. hash_unlink b))
     (\<lambda>_ s. dom (fs_bufs s) = set bs \<and> fs_nbufs s = of_nat (length bs))"
    using Cons.prems
    by (auto simp: spec_def run_apply buf_destroy_def hash_unlink_def sfs_free_def ctx_call_def)
  thus ?case
    unfolding forA.simps by (rule spec_run) (use Cons in simp)
qed (simp add: spec_def)

lemma cache_wf_destroy: "keeps (\<lambda>s t. cache_wf s \<longrightarrow> cache_wf t) sfs_cache_destroy"
  unfolding cache_wf_cw sfs_cache_destroy_def
proof (rule keeps_spec, rule spec_look[where P' = "\<lambda>s t. dom (fs_bufs t) = set (fs_lru s) \<and> fs_nbufs t = of_nat (length (fs_lru s))"], intro conjI)
  fix s :: "'a sfs_fs"
  assume s: "cw 0 (\<lambda>_. True) s"
  show "dom (fs_bufs s) = set (fs_lru s)" "fs_nbufs s = of_nat (length (fs_lru s))"
    using s by (simp_all add: cw_def)
  have d: "distinct (fs_lru s)"
    using s by (simp add: cw_def)
  show "spec (\<lambda>t. dom (fs_bufs t) = set (fs_lru s) \<and> fs_nbufs t = of_nat (length (fs_lru s)))
     (run (forA (fs_lru s) (\<lambda>b. run buf_destroy (\<lambda>_. hash_unlink b))) (\<lambda>_. run (upd (\<lambda>s. s\<lparr>fs_lru := []\<rparr>)) (\<lambda>_.
        run (upd_txn (\<lambda>t. t\<lparr>t_late := []\<rparr>)) (\<lambda>_. sfs_free (BUF_HASH * 8))))) (\<lambda>_. cw 0 (\<lambda>_. True))"
    by (rule spec_run[OF spec_destroy_all[OF d]], rule spec_run[where Q = "\<lambda>_. cw 0 (\<lambda>_. True)"], rule spec_upd, simp add: cw_def)
      (rule spec_run[OF spec_keeps], rule keep, rule spec_keeps, rule keep)
qed

lemma cache_wf_eq: "(\<lambda>s t. cache_wf s \<longrightarrow> cache_wf t) = (\<lambda>s t. cw 0 (\<lambda>_. True) s \<longrightarrow> cw 0 (\<lambda>_. True) t)"
  by (simp add: cache_wf_cw)

interpretation cd: quiet_frame "\<lambda>s t. cache_wf s \<longrightarrow> cache_wf t"
  unfolding cache_wf_eq by (rule cw_frame)

interpretation cc: cache_frame "\<lambda>s t. cache_wf s \<longrightarrow> cache_wf t"
  by unfold_locales (rule cache_wf_get_buf cache_wf_bforget cache_wf_binval_one cache_wf_drop_clean cache_wf_destroy)+

interpretation cv: icache_free "\<lambda>s t. cache_wf s \<longrightarrow> cache_wf t"
proof
  show "keeps (\<lambda>s t. cache_wf s \<longrightarrow> cache_wf t) (upd f)" if "\<And>s. non_ino_same s (f s)" for f
    using that by (auto simp: keeps_def cache_wf_def)
  show "keeps (\<lambda>s t. cache_wf s \<longrightarrow> cache_wf t) recover_super"
    unfolding recover_super_def by (intro cd.keeps_ctx_call keep; simp)
  show "keeps (\<lambda>s t. cache_wf s \<longrightarrow> cache_wf t) sfs_ondisk_state"
    unfolding sfs_ondisk_state_def jread_def by (intro cd.keeps_ctx_call keep; simp)
qed

lemma history_cache_wf: "sfs_step\<^sup>*\<^sup>* s t \<Longrightarrow> cache_wf s \<Longrightarrow> cache_wf t"
  using cv.history_frame by blast

subsection \<open>The inode cache\<close>

definition iw :: "(u32 set \<Rightarrow> bool) \<Rightarrow> 'c sfs_fs \<Rightarrow> bool" where
  "iw A s = (distinct (fs_ilru s) \<and> set (fs_ilru s) = dom (fs_inodes s) \<and> fs_ninodes s = of_nat (length (fs_ilru s)) \<and> A (dom (fs_inodes s)))"

definition icache_wf :: "'c sfs_fs \<Rightarrow> bool" where
  "icache_wf s = (distinct (fs_ilru s) \<and> set (fs_ilru s) = dom (fs_inodes s) \<and> fs_ninodes s = of_nat (length (fs_ilru s)))"

lemma icache_wf_iw: "icache_wf = iw (\<lambda>_. True)"
  by (simp add: icache_wf_def iw_def fun_eq_iff)

lemma iw_mono: "iw A s \<Longrightarrow> (\<And>X. A X \<Longrightarrow> B X) \<Longrightarrow> iw B s"
  by (simp add: iw_def)

interpretation iq: quiet_frame "\<lambda>s t. iw A s \<longrightarrow> iw A t" for A
  by unfold_locales (auto simp: keeps_def iw_def upd_buf_def upd_ino_def simp del: fun_upd_apply dom_fun_upd)

text \<open>The block cache does not touch the inode cache, so reading and writing blocks keeps any \<open>iw A\<close>.\<close>

interpretation ic: cache_free "\<lambda>s t. iw A s \<longrightarrow> iw A t" for A
  by unfold_locales (auto simp: keeps_def iw_def)

lemma spec_idestroy:
  assumes "\<And>X. A X \<Longrightarrow> B (X - {i})" "\<And>X. A X \<Longrightarrow> i \<in> X"
  shows "spec (iw A) (idestroy i) (\<lambda>_. iw B)"
  unfolding spec_def
proof (intro allI impI)
  fix s :: "'c sfs_fs"
  assume s: "iw A s"
  hence "i \<in> set (fs_ilru s)"
    using assms(2) by (auto simp: iw_def)
  note len = length_remove1_in[OF this]
  show "iw B (snd (idestroy i s))"
    using s assms(1) len[symmetric]
    by (auto simp: iw_def idestroy_def run_apply sfs_free_def ctx_call_def set_remove1_eq split: prod.split)
qed

lemma spec_evict_some_loop:
  assumes "distinct is" "shrinks B"
  shows "spec (iw (\<lambda>X. set is \<subseteq> X \<and> B X)) (evict_some_loop is) (\<lambda>_. iw B)"
  using assms(1)
proof (induction "is")
  case Nil
  show ?case
    unfolding evict_some_loop.simps by (rule spec_ok, erule iw_mono) simp
next
  case (Cons i "is")
  let ?A = "\<lambda>X. set (i # is) \<subseteq> X \<and> B X"
  have "distinct is"
    using Cons.prems by simp
  note IH = Cons.IH[OF this]
  have des: "spec (iw ?A) (idestroy i) (\<lambda>_. iw (\<lambda>X. set is \<subseteq> X \<and> B X))"
    using Cons.prems assms(2) by (intro spec_idestroy) (auto simp: shrinks_def)
  show ?case
    unfolding evict_some_loop.simps
    by (rule spec_look[where P' = "\<lambda>_. iw ?A"], intro conjI, assumption)
      (intro spec_if spec_ok spec_pre[OF IH] spec_chk[OF spec_keeps] spec_run[OF des] IH keep; erule iw_mono, simp)
qed

lemma spec_iinsert_new:
  "spec (iw (\<lambda>X. ino \<notin> X)) (iinsert_new ino) (\<lambda>r. case r of Inl _ \<Rightarrow> iw (\<lambda>_. True) | Inr _ \<Rightarrow> iw (\<lambda>X. ino \<in> X))"
proof -
  have ev: "spec (iw (\<lambda>X. ino \<notin> X)) evict_some (\<lambda>_. iw (\<lambda>X. ino \<notin> X))"
    unfolding evict_some_def
  proof (rule spec_look[where P' = "\<lambda>s. iw (\<lambda>X. set (rev (fs_ilru s)) \<subseteq> X \<and> ino \<notin> X)"], intro conjI)
    fix s :: "'c sfs_fs"
    assume s: "iw (\<lambda>X. ino \<notin> X) s"
    thus "iw (\<lambda>X. set (rev (fs_ilru s)) \<subseteq> X \<and> ino \<notin> X) s"
      by (simp add: iw_def)
    show "spec (iw (\<lambda>X. set (rev (fs_ilru s)) \<subseteq> X \<and> ino \<notin> X)) (evict_some_loop (rev (fs_ilru s))) (\<lambda>_. iw (\<lambda>X. ino \<notin> X))"
      by (rule spec_evict_some_loop) (use s in \<open>simp_all add: iw_def shrinks_def\<close>)
  qed
  have ins: "spec (iw (\<lambda>X. ino \<notin> X)) (upd (\<lambda>s. s\<lparr>fs_inodes := (fs_inodes s)(ino \<mapsto> x), fs_ilru := ino # fs_ilru s, fs_ninodes := fs_ninodes s + 1\<rparr>))
      (\<lambda>_. iw (\<lambda>X. ino \<in> X))" for x
    by (rule spec_upd) (auto simp: iw_def)
  show ?thesis
    unfolding iinsert_new_def
    by (rule spec_look[where P' = "\<lambda>_. iw (\<lambda>X. ino \<notin> X)"], intro conjI, assumption)
      (intro spec_chk[where Q = "\<lambda>_. iw (\<lambda>X. ino \<notin> X)"] spec_if ev spec_ok spec_throw spec_run[OF ins] spec_run[OF spec_keeps] keep;
        auto elim: iw_mono)
qed

text \<open>The result of the test at the start of \<open>sfs_iget\<close>.\<close>

lemma spec_look_dom:
  assumes "\<And>s. iw (\<lambda>_. True) s \<Longrightarrow> spec (iw (\<lambda>X. X = dom (fs_inodes s))) (k s) Q"
  shows "spec (iw (\<lambda>_. True)) (look k) Q"
  by (rule spec_look[where P' = "\<lambda>s. iw (\<lambda>X. X = dom (fs_inodes s))"]) (use assms in \<open>simp add: iw_def\<close>)

lemma spec_look_absent:
  assumes "\<And>s. spec (iw (\<lambda>X. ino \<in> X)) (f s) Q" "\<And>s. spec (iw (\<lambda>X. ino \<notin> X)) (g s) Q"
  shows "spec (iw (\<lambda>_. True)) (look (\<lambda>s. if fs_inodes s ino \<noteq> None then f s else g s)) Q"
  by (intro spec_look_dom spec_if spec_pre[OF assms(1)] spec_pre[OF assms(2)]; erule iw_mono) auto

lemma spec_look_ino:
  assumes "\<And>s. spec (iw (\<lambda>X. ino \<in> X)) (f s) Q" "\<And>s. spec (iw (\<lambda>X. ino \<notin> X)) (g s) Q" "\<And>s. spec (iw (\<lambda>_. True)) (h s) Q"
  shows "spec (iw (\<lambda>_. True)) (look (\<lambda>s. if c s then h s else if fs_inodes s ino \<noteq> None then f s else g s)) Q"
  by (intro spec_look_dom spec_if spec_pre[OF assms(1)] spec_pre[OF assms(2)] spec_pre[OF assms(3)]; erule iw_mono) auto

lemma keeps_ilru_front:
  "keeps (\<lambda>s t. iw (\<lambda>X. ino \<in> X) s \<longrightarrow> iw (\<lambda>X. ino \<in> X) t) (upd (\<lambda>s. s\<lparr>fs_ilru := ino # remove1 ino (fs_ilru s)\<rparr>))"
  unfolding keeps_def
proof (intro allI impI)
  fix s :: "'c sfs_fs"
  assume s: "iw (\<lambda>X. ino \<in> X) s"
  hence "ino \<in> set (fs_ilru s)" "distinct (fs_ilru s)"
    by (simp_all add: iw_def)
  thus "iw (\<lambda>X. ino \<in> X) (snd (upd (\<lambda>s. s\<lparr>fs_ilru := ino # remove1 ino (fs_ilru s)\<rparr>) s))"
    using s length_remove1_in[of ino "fs_ilru s", symmetric] by (auto simp: iw_def set_remove1_eq)
qed

lemma spec_idestroy_any: "spec (iw (\<lambda>X. ino \<in> X)) (run (idestroy ino) (\<lambda>_. throw e)) (\<lambda>_. iw (\<lambda>_. True))"
  by (rule spec_run[OF spec_idestroy[where B = "\<lambda>_. True"]]) (auto intro: spec_throw)

lemma icache_wf_iget: "keeps (\<lambda>s t. icache_wf s \<longrightarrow> icache_wf t) (sfs_iget ino)"
proof -
  let ?in = "iw (\<lambda>X. ino \<in> X)" and ?out = "iw (\<lambda>X. ino \<notin> X)" and ?any = "\<lambda>_. iw (\<lambda>_. True)"
  have fill: "spec ?in (let r = f s in run (sfs_bput b) (\<lambda>_. case r of Inl e \<Rightarrow> run (idestroy ino) (\<lambda>_. throw e)
       | Inr x \<Rightarrow> if in_mode x = 0 then run (idestroy ino) (\<lambda>_. throw SFS_ENOENT) else run (upd_ino ino (\<lambda>_. x)) (\<lambda>_. ok ino))) ?any"
    for f :: "'c sfs_fs \<Rightarrow> sfs_err + sfs_inode" and s b
    unfolding Let_def
    by (rule spec_run[OF spec_keeps], rule keep)
      (intro spec_sum_case spec_if spec_idestroy_any spec_run[OF spec_keeps[OF iq.quiet_ino]] spec_ok; erule iw_mono, simp)
  have new: "spec ?out (run (iinsert_new ino) (\<lambda>rc. case rc of Inl e \<Rightarrow> run (sfs_bput b) (\<lambda>_. throw e)
       | Inr _ \<Rightarrow> look (\<lambda>s. let r = f s in run (sfs_bput b) (\<lambda>_. case r of Inl e \<Rightarrow> run (idestroy ino) (\<lambda>_. throw e)
       | Inr x \<Rightarrow> if in_mode x = 0 then run (idestroy ino) (\<lambda>_. throw SFS_ENOENT) else run (upd_ino ino (\<lambda>_. x)) (\<lambda>_. ok ino))))) ?any"
    for f :: "'c sfs_fs \<Rightarrow> sfs_err + sfs_inode" and b
    by (rule spec_run[OF spec_iinsert_new], rule spec_sum_both, rule spec_run[OF spec_keeps], rule keep, rule spec_throw, assumption)
      (rule spec_look_any, rule fill)
  show ?thesis
    unfolding icache_wf_iw
  proof (rule keeps_spec, unfold sfs_iget_def, rule spec_look_ino)
    show "spec ?in (run (upd_ino ino (\<lambda>x. x\<lparr>in_refs := in_refs x + 1\<rparr>)) (\<lambda>_.
        run (whenA (fs_ilru s = [] \<or> hd (fs_ilru s) \<noteq> ino) (upd (\<lambda>s. s\<lparr>fs_ilru := ino # remove1 ino (fs_ilru s)\<rparr>))) (\<lambda>_. ok ino)))
        ?any" for s :: "'c sfs_fs"
      by (intro spec_run[OF spec_keeps] spec_ok keeps_ilru_front keep; auto elim: iw_mono)
  qed (intro spec_throw spec_chk[OF spec_keeps] spec_prod_case spec_look_any spec_if spec_run[OF spec_keeps] new keep; auto elim: iw_mono)+
qed

lemma spec_iforget: "spec (iw (\<lambda>_. True)) (sfs_iforget ino) (\<lambda>_. iw (\<lambda>_. True))"
  unfolding sfs_iforget_def
proof (rule spec_look_dom)
  fix s :: "'a sfs_fs"
  let ?P = "iw (\<lambda>X. X = dom (fs_inodes s))"
  have out: "keeps (\<lambda>u v. ?P u \<longrightarrow> ?P v) m \<Longrightarrow> spec ?P m (\<lambda>_. iw (\<lambda>_. True))" for m
    by (rule spec_post[OF spec_keeps], assumption, erule iw_mono) simp
  show "spec ?P (case fs_inodes s ino of None \<Rightarrow> ret () | Some x \<Rightarrow> if in_refs x \<noteq> 0 then ret ()
      else run (if in_dirty x then sfs_iflush ino else ok ()) (\<lambda>rc. case rc of
        Inl _ \<Rightarrow> sfs_logu ''sfs: could not write back inode before dropping it: '' (ucast ino) | Inr _ \<Rightarrow> idestroy ino)) (\<lambda>_. iw (\<lambda>_. True))"
  proof (cases "fs_inodes s ino")
    case None
    show ?thesis
      unfolding None option.case by (intro out keep)
  next
    case (Some x)
    have des: "spec ?P (idestroy ino) (\<lambda>_. iw (\<lambda>_. True))"
      by (rule spec_idestroy) (use Some in auto)
    show ?thesis
      unfolding Some option.case by (rule spec_if, intro out keep, rule spec_run[OF spec_keeps], intro keep) (intro spec_sum_case des out keep)
  qed
qed

lemma icache_wf_iget_new: "keeps (\<lambda>s t. icache_wf s \<longrightarrow> icache_wf t) (sfs_iget_new ino mode)"
proof -
  let ?in = "iw (\<lambda>X. ino \<in> X)" and ?out = "iw (\<lambda>X. ino \<notin> X)" and ?any = "\<lambda>_. iw (\<lambda>_. True)"
  have fill: "spec ?in (look (\<lambda>s. run (upd_ino ino (fi s)) (\<lambda>_. run (upd (\<lambda>s. s\<lparr>fs_next_generation := fs_next_generation s + 1\<rparr>)) (\<lambda>_.
      run mods_inc (\<lambda>_. ok ino))))) ?any" for fi :: "'c sfs_fs \<Rightarrow> sfs_inode \<Rightarrow> sfs_inode"
    by (intro spec_look_any spec_run[OF spec_keeps] spec_ok keep; auto elim: iw_mono)
  have new: "spec ?out (chk (iinsert_new ino) (\<lambda>_. look (\<lambda>s. run (upd_ino ino (fi s)) (\<lambda>_. run (upd (\<lambda>s. s\<lparr>fs_next_generation := fs_next_generation s + 1\<rparr>)) (\<lambda>_.
      run mods_inc (\<lambda>_. ok ino)))))) ?any" for fi :: "'c sfs_fs \<Rightarrow> sfs_inode \<Rightarrow> sfs_inode"
    by (rule spec_chk[OF spec_iinsert_new], simp) (rule spec_pre[OF fill], simp)
  show ?thesis
    unfolding icache_wf_iw
    apply (rule keeps_spec, unfold sfs_iget_new_def, rule spec_run[OF spec_keeps], rule keep, rule spec_run[OF spec_iforget])
    apply (rule spec_look_absent, rule spec_throw, erule iw_mono, simp)
    apply (intro new spec_chk[OF spec_keeps] spec_prod_case spec_run[OF spec_keeps] keep; auto elim: iw_mono)
    done
qed

lemma spec_iflush_all_loop:
  assumes "distinct is"
  shows "spec (iw (\<lambda>X. set is \<subseteq> X)) (iflush_all_loop is) (\<lambda>_. iw (\<lambda>_. True))"
  using assms
proof (induction "is")
  case Nil
  show ?case
    unfolding iflush_all_loop.simps by (rule spec_ok, erule iw_mono) simp
next
  case (Cons i "is")
  have "distinct is"
    using Cons.prems by simp
  note IH = Cons.IH[OF this]
  have des: "spec (iw (\<lambda>X. set (i # is) \<subseteq> X)) (whenA c (idestroy i)) (\<lambda>_. iw (\<lambda>X. set is \<subseteq> X))" for c
    unfolding whenA_def using Cons.prems by (intro spec_if spec_idestroy spec_ret) (auto elim: iw_mono)
  show ?case
    unfolding iflush_all_loop.simps
    by (rule spec_chk[OF spec_keeps], rule keep, erule iw_mono, simp) (intro spec_look_any spec_run[OF des] IH)
qed

lemma spec_idestroy_all:
  assumes "distinct is"
  shows "spec (iw (\<lambda>X. set is \<subseteq> X)) (forA is idestroy) (\<lambda>_. iw (\<lambda>_. True))"
  using assms
proof (induction "is")
  case Nil
  show ?case
    unfolding forA.simps by (rule spec_ret, erule iw_mono) simp
next
  case (Cons i "is")
  have "distinct is"
    using Cons.prems by simp
  note IH = Cons.IH[OF this]
  have des: "spec (iw (\<lambda>X. set (i # is) \<subseteq> X)) (idestroy i) (\<lambda>_. iw (\<lambda>X. set is \<subseteq> X))"
    using Cons.prems by (intro spec_idestroy) auto
  show ?case
    unfolding forA.simps by (rule spec_run[OF des IH])
qed

text \<open>A loop over the list as it is at the start.\<close>

lemma spec_over_ilru:
  assumes "\<And>xs. distinct xs \<Longrightarrow> spec (iw (\<lambda>X. set xs \<subseteq> X)) (loop xs) (\<lambda>_. iw (\<lambda>_. True))"
  shows "keeps (\<lambda>s t. icache_wf s \<longrightarrow> icache_wf t) (look (\<lambda>s. loop (fs_ilru s)))"
    "keeps (\<lambda>s t. icache_wf s \<longrightarrow> icache_wf t) (look (\<lambda>s. loop (rev (fs_ilru s))))"
proof -
  have l: "iw (\<lambda>_. True) s \<Longrightarrow> spec (iw (\<lambda>X. X = dom (fs_inodes s))) (loop xs) (\<lambda>_. iw (\<lambda>_. True))"
    if "distinct xs \<longleftrightarrow> distinct (fs_ilru s)" "set xs = set (fs_ilru s)" for s xs
    using that by (intro spec_pre[OF assms]) (auto simp: iw_def)
  show "keeps (\<lambda>s t. icache_wf s \<longrightarrow> icache_wf t) (look (\<lambda>s. loop (fs_ilru s)))"
    unfolding icache_wf_iw by (rule keeps_spec, rule spec_look_dom, rule l[rotated -1]) simp_all
  show "keeps (\<lambda>s t. icache_wf s \<longrightarrow> icache_wf t) (look (\<lambda>s. loop (rev (fs_ilru s))))"
    unfolding icache_wf_iw by (rule keeps_spec, rule spec_look_dom, rule l[rotated -1]) simp_all
qed

lemma icache_wf_eq: "(\<lambda>s t. icache_wf s \<longrightarrow> icache_wf t) = (\<lambda>s t. iw (\<lambda>_. True) s \<longrightarrow> iw (\<lambda>_. True) t)"
  by (simp add: icache_wf_iw)

lemma icache_wf_ctx: "keeps (\<lambda>s t. icache_wf s \<longrightarrow> icache_wf t) (ctx_call f)"
  unfolding icache_wf_eq by (rule iq.keeps_ctx_call)

interpretation id: cache_free "\<lambda>s t. icache_wf s \<longrightarrow> icache_wf t"
  unfolding icache_wf_eq by (rule ic.cache_free_axioms)

interpretation iv: vol_frame "\<lambda>s t. icache_wf s \<longrightarrow> icache_wf t"
proof
  show "keeps (\<lambda>s t. icache_wf s \<longrightarrow> icache_wf t) (sfs_iforget ino)" for ino
    unfolding icache_wf_iw by (rule keeps_spec, rule spec_iforget)
  show "keeps (\<lambda>s t. icache_wf s \<longrightarrow> icache_wf t) sfs_iflush_all"
    unfolding sfs_iflush_all_def by (rule spec_over_ilru(2), rule spec_iflush_all_loop)
  show "keeps (\<lambda>s t. icache_wf s \<longrightarrow> icache_wf t) sfs_icache_destroy"
    unfolding sfs_icache_destroy_def by (rule spec_over_ilru(1), rule spec_idestroy_all)
  show "keeps (\<lambda>s t. icache_wf s \<longrightarrow> icache_wf t) recover_super"
    unfolding recover_super_def by (intro icache_wf_ctx keep; simp)
  show "keeps (\<lambda>s t. icache_wf s \<longrightarrow> icache_wf t) sfs_ondisk_state"
    unfolding sfs_ondisk_state_def jread_def by (intro icache_wf_ctx keep; simp)
qed (rule icache_wf_iget icache_wf_iget_new)+

lemma history_icache_wf: "sfs_step\<^sup>*\<^sup>* s t \<Longrightarrow> icache_wf s \<Longrightarrow> icache_wf t"
  using iv.history_frame by blast

subsection \<open>From the mount on\<close>

interpretation cm: mount_frame "\<lambda>s t. cache_wf s \<longrightarrow> cache_wf t"
proof
  show "keeps (\<lambda>s t. cache_wf s \<longrightarrow> cache_wf t) (set_geo f)" for f
    unfolding set_geo_def by (rule cd.quiet_upd) simp
  show "keeps (\<lambda>s t. cache_wf s \<longrightarrow> cache_wf t) read_sbraw"
    unfolding read_sbraw_def by (intro cd.keeps_ctx_call keep; simp)
  show "keeps (\<lambda>s t. cache_wf s \<longrightarrow> cache_wf t) (sfs_cache_init n)" for n
  proof -
    have init: "keeps (\<lambda>s t. cache_wf s \<longrightarrow> cache_wf t) (upd (\<lambda>s. s\<lparr>fs_max_bufs := m, fs_nbufs := 0, fs_bufs := Map.empty, fs_lru := []\<rparr>))" for m
      by (simp add: keeps_def cache_wf_def)
    show ?thesis
      unfolding sfs_cache_init_def by (intro init keep)
  qed
qed

interpretation im: mount_frame "\<lambda>s t. icache_wf s \<longrightarrow> icache_wf t"
proof
  show "keeps (\<lambda>s t. icache_wf s \<longrightarrow> icache_wf t) (set_geo f)" for f
    by (simp add: set_geo_def keeps_def icache_wf_def)
  show "keeps (\<lambda>s t. icache_wf s \<longrightarrow> icache_wf t) read_sbraw"
    unfolding read_sbraw_def by (intro icache_wf_ctx keep; simp)
  show "keeps (\<lambda>s t. icache_wf s \<longrightarrow> icache_wf t) (sfs_cache_init n)" for n
  proof -
    have init: "keeps (\<lambda>s t. icache_wf s \<longrightarrow> icache_wf t) (upd (\<lambda>s. s\<lparr>fs_max_bufs := m, fs_nbufs := 0, fs_bufs := Map.empty, fs_lru := []\<rparr>))" for m
      by (simp add: keeps_def icache_wf_def)
    show ?thesis
      unfolding sfs_cache_init_def by (intro init keep)
  qed
qed

lemma mount_wf:
  assumes "sfs_mount ops flags c = (Inr f, c')"
  shows "cache_wf f \<and> icache_wf f"
proof -
  obtain c1 m where m: "mount_super (zero_fs ops c1 m) = (Inr (), f)"
    using assms by (auto simp: sfs_mount_def Let_def split: prod.splits if_splits sum.splits)
  have "cache_wf (zero_fs ops c1 m)" "icache_wf (zero_fs ops c1 m)"
    by (simp_all add: cache_wf_def icache_wf_def zero_fs_def)
  thus ?thesis
    using keepsD[OF cm.keeps_mount_super m] keepsD[OF im.keeps_mount_super m] by blast
qed

lemma mounted_history_wf:
  "sfs_mount ops flags c = (Inr f, c') \<Longrightarrow> sfs_step\<^sup>*\<^sup>* f t \<Longrightarrow> cache_wf t \<and> icache_wf t"
  using mount_wf[of ops flags c f c'] history_cache_wf[of f t] history_icache_wf[of f t] by simp

end
