(* ===== verification/Sfs_Host.thy ===== *)
theory Sfs_Host
  imports Sfs_Geometry Sfs_Frame_Ops
begin

unbundle bit_operations_syntax

section \<open>What a volume does to its host\<close>

text \<open>
  The host is a parameter of the model: a context \<open>'c\<close> and the callbacks of \<open>sfs_ops\<close>. This theory states
  what libsfs asks of it. \<open>D ro c c'\<close> stands for a relation between two host contexts, for a
  volume that is or is not read-only; \<open>host_ok\<close> says that \<open>D\<close> is a preorder that contains every
  callback made within the bounds of the device, and the write callbacks only for a volume that is not
  read-only. \<open>frame\<close> is then the relation between the states before and after a piece of libsfs: the
  host contexts are related by \<open>D\<close>, the callbacks and the geometry stay, and a read-only volume stays
  read-only. The interpretation of \<open>vol_frame\<close> at \<open>frame\<close> extends this to every function that works on a mounted volume and to
  every history of operations; the last two sections draw the consequences for a read-only volume and for the bounds of the
  device.
\<close>

subsection \<open>Admissible relations\<close>

definition in_dev :: "'c sfs_ops \<Rightarrow> u64 \<Rightarrow> nat \<Rightarrow> bool" where
  "in_dev ops off n = (unat off + n \<le> unat (ops_size ops))"

definition host_rel :: "(bool \<Rightarrow> 'c \<Rightarrow> 'c \<Rightarrow> bool) \<Rightarrow> bool" where
  "host_rel D = ((\<forall>b. reflp (D b)) \<and> (\<forall>b. transp (D b)) \<and> (\<forall>c d. D True c d \<longrightarrow> D False c d))"

definition host_ok :: "(bool \<Rightarrow> 'c \<Rightarrow> 'c \<Rightarrow> bool) \<Rightarrow> 'c sfs_ops \<Rightarrow> ('c \<Rightarrow> 'c) option \<Rightarrow> bool" where
  "host_ok D ops hit = (host_rel D \<and>
     (\<forall>b c n. D b c (snd (ops_alloc ops c n))) \<and> (\<forall>b c n. D b c (ops_free ops c n)) \<and>
     (\<forall>b c f. ops_now ops = Some f \<longrightarrow> D b c (snd (f c))) \<and> (\<forall>b c f m. ops_log ops = Some f \<longrightarrow> D b c (f c m)) \<and>
     (\<forall>b c f. ops_flush ops = Some f \<longrightarrow> D b c (snd (f c))) \<and> (\<forall>b c f. hit = Some f \<longrightarrow> D b c (f c)) \<and>
     (\<forall>b c off n. in_dev ops off (unat n) \<longrightarrow> D b c (snd (ops_read ops c off n))) \<and>
     (\<forall>c f off d n. ops_write ops = Some f \<longrightarrow> in_dev ops off (unat n) \<longrightarrow> D False c (snd (f c off d n))) \<and>
     (\<forall>c f off ds n bs. ops_writev ops = Some f \<longrightarrow> in_dev ops off (unat n * unat bs) \<longrightarrow> D False c (snd (f c off ds n bs))))"

lemma host_relD:
  assumes "host_ok D ops hit"
  shows "D b c c" "D b c d \<Longrightarrow> D b d e \<Longrightarrow> D b c e" "D True c d \<Longrightarrow> D b c d"
proof -
  have r: "host_rel D"
    using assms by (simp add: host_ok_def)
  thus "D b c c" "D b c d \<Longrightarrow> D b d e \<Longrightarrow> D b c e"
    by (auto simp: host_rel_def dest: reflpD transpD)
  show "D True c d \<Longrightarrow> D b c d"
    using r by (cases b) (auto simp: host_rel_def)
qed

lemma host_okD:
  assumes "host_ok D ops hit"
  shows "D b c (snd (ops_alloc ops c n))" "D b c (ops_free ops c n)"
    "ops_now ops = Some fn \<Longrightarrow> D b c (snd (fn c))" "ops_log ops = Some fl \<Longrightarrow> D b c (fl c m)"
    "ops_flush ops = Some fu \<Longrightarrow> D b c (snd (fu c))" "hit = Some fh \<Longrightarrow> D b c (fh c)"
    "in_dev ops off (unat k) \<Longrightarrow> D b c (snd (ops_read ops c off k))"
    "ops_write ops = Some fw \<Longrightarrow> in_dev ops off (unat k) \<Longrightarrow> D False c (snd (fw c off d k))"
    "ops_writev ops = Some fv \<Longrightarrow> in_dev ops off (unat k * unat bs) \<Longrightarrow> D False c (snd (fv c off ds k bs))"
  using assms by (simp_all add: host_ok_def)

text \<open>The volume lies on its device; \<open>parse_super_geo\<close> gives this for every accepted superblock.\<close>

definition fits_dev :: "'c sfs_ops \<Rightarrow> sfs_geo \<Rightarrow> bool" where
  "fits_dev ops g = (geo_ok g \<and> unat (g_nblocks g) * unat (g_bs g) \<le> unat (ops_size ops))"

definition frame :: "(bool \<Rightarrow> 'c \<Rightarrow> 'c \<Rightarrow> bool) \<Rightarrow> 'c sfs_ops \<Rightarrow> ('c \<Rightarrow> 'c) option \<Rightarrow> 'c sfs_fs \<Rightarrow> 'c sfs_fs \<Rightarrow> bool" where
  "frame D ops hit s t = (host_ok D ops hit \<longrightarrow> fs_ops s = ops \<longrightarrow> fs_write_hit s = hit \<longrightarrow> fits_dev ops (fs_geo s) \<longrightarrow>
     fs_ops t = ops \<and> fs_write_hit t = hit \<and> fs_geo t = fs_geo s \<and> (fs_ro s \<longrightarrow> fs_ro t) \<and> D (fs_ro s) (fs_ctx s) (fs_ctx t))"

lemma frame_rel_frame: "frame_rel (frame D ops hit)"
proof
  show "frame D ops hit s s" for s
    by (simp add: frame_def host_relD)
  show "frame D ops hit s u" if a: "frame D ops hit s t" and b: "frame D ops hit t u" for s t u
    unfolding frame_def
  proof (intro impI)
    assume ok: "host_ok D ops hit" and s: "fs_ops s = ops" "fs_write_hit s = hit" "fits_dev ops (fs_geo s)"
    have t: "fs_ops t = ops" "fs_write_hit t = hit" "fs_geo t = fs_geo s" "fs_ro s \<longrightarrow> fs_ro t" "D (fs_ro s) (fs_ctx s) (fs_ctx t)"
      using a ok s by (auto simp: frame_def)
    have u: "fs_ops u = ops" "fs_write_hit u = hit" "fs_geo u = fs_geo t" "fs_ro t \<longrightarrow> fs_ro u" "D (fs_ro t) (fs_ctx t) (fs_ctx u)"
      using b ok s t by (auto simp: frame_def)
    have "D (fs_ro s) (fs_ctx t) (fs_ctx u)"
      using u(5) t(4) host_relD(3)[OF ok] by (cases "fs_ro s"; cases "fs_ro t") auto
    thus "fs_ops u = ops \<and> fs_write_hit u = hit \<and> fs_geo u = fs_geo s \<and> (fs_ro s \<longrightarrow> fs_ro u) \<and> D (fs_ro s) (fs_ctx s) (fs_ctx u)"
      using t u host_relD(2)[OF ok t(5)] by simp
  qed
qed

interpretation fr: frame_rel "frame D ops hit" for D ops hit
  by (rule frame_rel_frame)

subsection \<open>Updates of the state\<close>

lemma frame_same:
  "fs_ops t = fs_ops s \<Longrightarrow> fs_write_hit t = fs_write_hit s \<Longrightarrow> fs_geo t = fs_geo s \<Longrightarrow> fs_ctx t = fs_ctx s \<Longrightarrow>
   (fs_ro s \<Longrightarrow> fs_ro t) \<Longrightarrow> frame D ops hit s t"
  by (auto simp: frame_def host_relD)

lemma keeps_upd_frame:
  "(\<And>s. fs_ops (f s) = fs_ops s \<and> fs_write_hit (f s) = fs_write_hit s \<and> fs_geo (f s) = fs_geo s \<and> fs_ctx (f s) = fs_ctx s \<and>
     (fs_ro s \<longrightarrow> fs_ro (f s))) \<Longrightarrow> keeps (frame D ops hit) (upd f)"
  by (intro fr.keeps_upd frame_same) auto

subsection \<open>Callbacks\<close>

text \<open>A callback made with the operations of the current state.\<close>

lemma keeps_call:
  fixes k :: "'c sfs_fs \<Rightarrow> ('c, 'a) fsact"
  assumes "\<And>s. host_ok D ops hit \<Longrightarrow> fs_ops s = ops \<Longrightarrow> fs_write_hit s = hit \<Longrightarrow> fits_dev ops (fs_geo s) \<Longrightarrow>
      keeps (\<lambda>u v. u = s \<longrightarrow> D (fs_ro s) (fs_ctx s) (fs_ctx v) \<and> fs_ops v = ops \<and> fs_write_hit v = hit \<and> fs_geo v = fs_geo s \<and> (fs_ro s \<longrightarrow> fs_ro v)) (k s)"
  shows "keeps (frame D ops hit) (look k)"
  unfolding keeps_def look_apply frame_def
proof (intro allI impI)
  fix s :: "'c sfs_fs"
  assume "host_ok D ops hit" "fs_ops s = ops" "fs_write_hit s = hit" "fits_dev ops (fs_geo s)"
  from assms[OF this] show "fs_ops (snd (k s s)) = ops \<and> fs_write_hit (snd (k s s)) = hit \<and> fs_geo (snd (k s s)) = fs_geo s \<and>
      (fs_ro s \<longrightarrow> fs_ro (snd (k s s))) \<and> D (fs_ro s) (fs_ctx s) (fs_ctx (snd (k s s)))"
    by (auto simp: keeps_def)
qed

lemma snd_ctx_call: "snd (ctx_call f s) = s\<lparr>fs_ctx := snd (f (fs_ctx s))\<rparr>"
  by (simp add: ctx_call_def split: prod.split)

lemma keeps_alloc: "keeps (frame D ops hit) (sfs_alloc n)"
  unfolding sfs_alloc_def
  by (rule keeps_call) (auto simp: keeps_def snd_ctx_call host_relD(1) host_okD)

lemma keeps_free: "keeps (frame D ops hit) (sfs_free n)"
  unfolding sfs_free_def
  by (rule keeps_call) (auto simp: keeps_def snd_ctx_call host_relD(1) host_okD)

lemma keeps_now: "keeps (frame D ops hit) sfs_now"
  unfolding sfs_now_def
  by (rule keeps_call) (auto simp: keeps_def snd_ctx_call host_relD(1) host_okD split: option.splits)

lemma keeps_log: "keeps (frame D ops hit) (sfs_log msg)"
  unfolding sfs_log_def
  by (rule keeps_call) (auto simp: keeps_def snd_ctx_call host_relD(1) host_okD split: option.splits)

subsection \<open>Reads and writes\<close>

lemma in_range:
  assumes geo: "geo_ok (fs_geo s)" and "\<not> dev_out_of_range s blk cnt nbytes" and "unat nbytes < 2 ^ 60"
  shows "in_dev (fs_ops s) (push_bit (g_bs_bits (fs_geo s)) blk) (unat nbytes)"
proof -
  let ?g = "fs_geo s" and ?off = "push_bit (g_bs_bits (fs_geo s)) blk"
  have g: "unat (g_bs ?g) = 2 ^ g_bs_bits ?g" "unat (g_nblocks ?g) * unat (g_bs ?g) < 2 ^ 58"
    using geo by (auto simp: geo_ok_def Let_def)
  have "unat blk < unat (g_nblocks ?g)" and le: "?off + nbytes \<le> ops_size (fs_ops s)"
    using assms(2) by (auto simp: dev_out_of_range_def Let_def not_le not_less simp flip: word_less_nat_alt)
  hence lt: "unat blk * unat (g_bs ?g) < 2 ^ 58"
    using g(2) by (meson less_imp_le mult_le_mono1 order_le_less_trans)
  have "unat ?off = take_bit 64 (push_bit (g_bs_bits ?g) (unat blk))"
    by (simp add: unsigned_push_bit_eq)
  also have "\<dots> = unat blk * unat (g_bs ?g)"
    using lt by (simp add: push_bit_eq_mult take_bit_nat_eq_self g(1))
  finally have off: "unat ?off < 2 ^ 58"
    using lt by simp
  hence "unat (?off + nbytes) = unat ?off + unat nbytes"
    using assms(3) by (simp add: unat_word_ariths)
  thus ?thesis
    using le by (simp add: in_dev_def word_le_nat_alt)
qed

lemma keeps_at:
  "keeps (\<lambda>u v. u = s \<longrightarrow> Q v) m \<longleftrightarrow> Q (snd (m s))"
  by (auto simp: keeps_def)

lemma unat_shift_lt: "unat (ucast (push_bit n (cnt :: u32)) :: u64) < 2 ^ 60"
  using unsigned_less[of "push_bit n cnt", where 'a = nat] by (simp add: unsigned_ucast_eq take_bit_nat_eq_self)

lemma keeps_dev_read: "keeps (frame D ops hit) (sfs_dev_read blk cnt)"
  unfolding sfs_dev_read_def
proof (rule keeps_call, unfold keeps_at Let_def, goal_cases)
  case (1 s)
  have "\<not> dev_out_of_range s blk cnt (ucast (push_bit (g_bs_bits (fs_geo s)) cnt)) \<Longrightarrow>
      in_dev ops (push_bit (g_bs_bits (fs_geo s)) blk) (unat (push_bit (g_bs_bits (fs_geo s)) cnt))"
    using in_range[OF _ _ unat_shift_lt, of s blk cnt "g_bs_bits (fs_geo s)" cnt] 1 by (simp add: unat_widen fits_dev_def)
  thus ?case
    using 1 by (auto simp: run_apply upd_st_def snd_ctx_call host_relD(1) host_okD split: option.splits)
qed

lemma keeps_dev_write: "keeps (frame D ops hit) (sfs_dev_write blk data cnt)"
  unfolding sfs_dev_write_def
proof (rule keeps_call, unfold keeps_at Let_def, goal_cases)
  case (1 s)
  have "\<not> dev_out_of_range s blk cnt (ucast (push_bit (g_bs_bits (fs_geo s)) cnt)) \<Longrightarrow>
      in_dev ops (push_bit (g_bs_bits (fs_geo s)) blk) (unat (push_bit (g_bs_bits (fs_geo s)) cnt))"
    using in_range[OF _ _ unat_shift_lt, of s blk cnt "g_bs_bits (fs_geo s)" cnt] 1 by (simp add: unat_widen fits_dev_def)
  thus ?case
    using 1 by (auto simp: run_apply upd_st_def snd_ctx_call host_relD(1) host_okD split: option.splits)
qed

lemma keeps_dev_flush: "keeps (frame D ops hit) sfs_dev_flush"
  unfolding sfs_dev_flush_def
proof (rule keeps_call, unfold keeps_at Let_def, goal_cases)
  case (1 s)
  thus ?case
    by (auto simp: run_apply upd_st_def snd_ctx_call host_relD(1) host_okD split: option.splits)
qed

lemma unat_blocks:
  assumes "geo_ok g"
  shows "unat (push_bit (g_bs_bits g) (ucast (cnt :: u32)) :: u64) = unat cnt * unat (g_bs g) \<and> unat cnt * unat (g_bs g) < 2 ^ 60"
proof -
  have g: "unat (g_bs g) = 2 ^ g_bs_bits g" "g_bs_bits g \<le> 12"
    using assms by (auto simp: geo_ok_def Let_def)
  have "unat cnt \<le> 2 ^ 32"
    using unsigned_less[of cnt, where 'a = nat] by simp
  hence "unat cnt * unat (g_bs g) \<le> 2 ^ 32 * 2 ^ 12"
    unfolding g(1) using g(2) by (intro mult_le_mono power_increasing) auto
  hence lt: "unat cnt * unat (g_bs g) < 2 ^ 60"
    by simp
  have "unat (push_bit (g_bs_bits g) (ucast cnt) :: u64) = take_bit 64 (push_bit (g_bs_bits g) (unat cnt))"
    by (simp add: unsigned_push_bit_eq unat_widen)
  thus ?thesis
    using lt by (simp add: push_bit_eq_mult take_bit_nat_eq_self g(1))
qed

lemma keeps_dev_writev: "keeps (frame D ops hit) (sfs_dev_writev blk bufs)"
proof (rule keepsI)
  fix s :: "'a sfs_fs"
  let ?cnt = "of_nat (length bufs) :: u32" and ?n = "push_bit (g_bs_bits (fs_geo s)) (ucast (of_nat (length bufs) :: u32)) :: u64"
  show "frame D ops hit s (snd (sfs_dev_writev blk bufs s))"
  proof (cases "fs_ro s \<or> dev_out_of_range s blk ?cnt ?n \<or> ops_writev (fs_ops s) = None \<or> fs_write_limit s \<noteq> 0 \<or> fs_write_stopped s")
    case True
    have "frame D ops hit s (snd (forE (zip [0..<length bufs] bufs) (\<lambda>(i, d). sfs_dev_write (blk + of_nat i) d 1) s))"
      by (rule keeps_app) (intro fr.keeps_rules keeps_dev_write)
    thus ?thesis
      using True by (auto simp: sfs_dev_writev_def Let_def fr.R_refl)
  next
    case False
    show ?thesis
      unfolding frame_def
    proof (intro impI, goal_cases)
      case 1
      have n: "unat ?n = unat ?cnt * unat (g_bs (fs_geo s))" "unat ?n < 2 ^ 60"
        using 1(4) unat_blocks[of "fs_geo s" ?cnt] by (auto simp: fits_dev_def)
      hence "in_dev ops (push_bit (g_bs_bits (fs_geo s)) blk) (unat ?cnt * unat (g_bs (fs_geo s)))"
        using in_range[of s blk ?cnt ?n] 1 False by (simp add: fits_dev_def)
      thus ?case
        using 1 False by (auto simp: sfs_dev_writev_def run_apply upd_st_def snd_ctx_call Let_def host_okD)
    qed
  qed
qed

text \<open>The superblock is read at its byte offset, outside the block interface.\<close>

lemma keeps_look_ops:
  "(\<And>s. fs_ops s = ops \<Longrightarrow> keeps (frame D ops hit) (k s)) \<Longrightarrow> keeps (frame D ops hit) (look k)"
  unfolding keeps_def frame_def by auto

lemma keeps_sb_read:
  assumes "fs_ops s = ops"
  shows "keeps (frame D ops hit) (ctx_call (\<lambda>c. ops_read (fs_ops s) c (of_nat SB_OFFSET) 1024))"
proof -
  have dev: "fits_dev ops g \<Longrightarrow> in_dev ops 1024 1024" for g
  proof -
    assume g: "fits_dev ops g"
    hence b: "g_bs_bits g \<in> {10, 11, 12}" "unat (g_bs g) = 2 ^ g_bs_bits g"
      and nb: "unat (g_nblocks g) * unat (g_bs g) \<le> unat (ops_size ops)" "(if unat (g_bs g) = 1024 then 1 else 0) + 1 < unat (g_nblocks g)"
      by (auto simp: fits_dev_def geo_ok_def Let_def)
    have "2 * 1024 \<le> unat (g_nblocks g) * unat (g_bs g)"
      using b nb(2) by (intro mult_le_mono) auto
    thus "in_dev ops 1024 1024"
      using nb(1) by (simp add: in_dev_def)
  qed
  show ?thesis
  proof (rule keepsI)
    fix t
    show "frame D ops hit t (snd (ctx_call (\<lambda>c. ops_read (fs_ops s) c (of_nat SB_OFFSET) 1024) t))"
      using assms dev host_okD(7)[of D ops hit 1024 1024] by (simp add: frame_def snd_ctx_call)
  qed
qed

subsection \<open>Every function\<close>

interpretation fc: cache_free "frame D ops hit" for D ops hit
  by unfold_locales
    (auto intro: keeps_upd_frame keeps_alloc keeps_free keeps_now keeps_log keeps_dev_read keeps_dev_write keeps_dev_writev
      keeps_dev_flush simp: upd_buf_def upd_ino_def)

interpretation fv: icache_free "frame D ops hit" for D ops hit
proof
  show "keeps (frame D ops hit) (upd f)" if "\<And>s. non_ino_same s (f s)" for f
    using that by (intro keeps_upd_frame) auto
  show "keeps (frame D ops hit) recover_super"
    unfolding recover_super_def by (rule keeps_look_ops) (intro keeps_sb_read keep; simp)
  show "keeps (frame D ops hit) sfs_ondisk_state"
    unfolding sfs_ondisk_state_def jread_def by (rule keeps_look_ops) (intro keeps_sb_read keep; simp)
qed

subsection \<open>A read-only volume\<close>

text \<open>A host with a disk: only the write callbacks change what \<open>disk\<close> shows of its context.\<close>

definition quiet_host :: "('c \<Rightarrow> 'd) \<Rightarrow> 'c sfs_ops \<Rightarrow> ('c \<Rightarrow> 'c) option \<Rightarrow> bool" where
  "quiet_host disk ops hit = (
     (\<forall>c n. disk (snd (ops_alloc ops c n)) = disk c) \<and> (\<forall>c n. disk (ops_free ops c n) = disk c) \<and>
     (\<forall>c off n. disk (snd (ops_read ops c off n)) = disk c) \<and>
     (\<forall>c f. ops_now ops = Some f \<longrightarrow> disk (snd (f c)) = disk c) \<and> (\<forall>c f m. ops_log ops = Some f \<longrightarrow> disk (f c m) = disk c) \<and>
     (\<forall>c f. ops_flush ops = Some f \<longrightarrow> disk (snd (f c)) = disk c) \<and> (\<forall>c f. hit = Some f \<longrightarrow> disk (f c) = disk c))"

lemma quiet_host_ok: "quiet_host disk ops hit \<Longrightarrow> host_ok (\<lambda>b c c'. b \<longrightarrow> disk c' = disk c) ops hit"
  by (auto simp: quiet_host_def host_ok_def host_rel_def reflp_def transp_def)

lemma history_readonly:
  assumes "quiet_host disk (fs_ops s) (fs_write_hit s)" "fits_dev (fs_ops s) (fs_geo s)" "fs_ro s" "sfs_step\<^sup>*\<^sup>* s t"
  shows "disk (fs_ctx t) = disk (fs_ctx s) \<and> fs_ro t"
  using fv.history_frame[OF assms(4), of "\<lambda>b c c'. b \<longrightarrow> disk c' = disk c" "fs_ops s" "fs_write_hit s"] quiet_host_ok[OF assms(1)] assms(2,3)
  by (auto simp: frame_def)

subsection \<open>The bounds of the device\<close>

text \<open>A host that records the byte ranges it is asked for: a callback adds at most the range of its own request.\<close>

definition tracing_host :: "('c \<Rightarrow> (u64 \<times> nat) set) \<Rightarrow> 'c sfs_ops \<Rightarrow> ('c \<Rightarrow> 'c) option \<Rightarrow> bool" where
  "tracing_host acc ops hit = (
     (\<forall>c n. acc (snd (ops_alloc ops c n)) = acc c) \<and> (\<forall>c n. acc (ops_free ops c n) = acc c) \<and>
     (\<forall>c off n. acc (snd (ops_read ops c off n)) \<subseteq> insert (off, unat n) (acc c)) \<and>
     (\<forall>c f off d n. ops_write ops = Some f \<longrightarrow> acc (snd (f c off d n)) \<subseteq> insert (off, unat n) (acc c)) \<and>
     (\<forall>c f off ds n bs. ops_writev ops = Some f \<longrightarrow> acc (snd (f c off ds n bs)) \<subseteq> insert (off, unat n * unat bs) (acc c)) \<and>
     (\<forall>c f. ops_now ops = Some f \<longrightarrow> acc (snd (f c)) = acc c) \<and> (\<forall>c f m. ops_log ops = Some f \<longrightarrow> acc (f c m) = acc c) \<and>
     (\<forall>c f. ops_flush ops = Some f \<longrightarrow> acc (snd (f c)) = acc c) \<and> (\<forall>c f. hit = Some f \<longrightarrow> acc (f c) = acc c))"

lemma tracing_host_ok:
  assumes "tracing_host acc ops hit"
  shows "host_ok (\<lambda>b c c'. acc c' \<subseteq> acc c \<union> {(off, n). in_dev ops off n}) ops hit"
proof -
  let ?D = "\<lambda>c c'. acc c' \<subseteq> acc c \<union> {(off, n). in_dev ops off n}"
  have add: "in_dev ops off n \<Longrightarrow> acc c' \<subseteq> insert (off, n) (acc c) \<Longrightarrow> ?D c c'" for c c' off n
    by auto
  have same: "acc c' = acc c \<Longrightarrow> ?D c c'" for c c'
    by simp
  have "host_rel (\<lambda>b. ?D)"
    unfolding host_rel_def by (auto intro!: reflpI transpI)
  thus ?thesis
    using assms unfolding host_ok_def tracing_host_def
    by (elim conjE, intro conjI allI impI) (assumption | (rule same, simp; fail) | (rule add, assumption, simp))+
qed

lemma history_in_range:
  assumes "tracing_host acc (fs_ops s) (fs_write_hit s)" "fits_dev (fs_ops s) (fs_geo s)" "sfs_step\<^sup>*\<^sup>* s t"
  shows "acc (fs_ctx t) \<subseteq> acc (fs_ctx s) \<union> {(off, n). unat off + n \<le> unat (ops_size (fs_ops s))}"
  using fv.history_frame[OF assms(3), of "\<lambda>b c c'. acc c' \<subseteq> acc c \<union> {(off, n). in_dev (fs_ops s) off n}" "fs_ops s" "fs_write_hit s"]
    tracing_host_ok[OF assms(1)] assms(2)
  by (simp add: frame_def in_dev_def)

end
