(* ===== verification/Sfs_Mounted.thy ===== *)
theory Sfs_Mounted
  imports Sfs_Cache_Wf Sfs_Host
begin

unbundle bit_operations_syntax

section \<open>Mounted volumes\<close>

text \<open>
  What a successful \<open>sfs_mount\<close> establishes: the volume lies on its device (every block of it within \<open>ops_size\<close>), the callbacks are those of the
  caller and no fault injection is set. With the histories of \<open>Sfs_Host\<close> and \<open>Sfs_Cache_Wf\<close> the safety facts hold from
  the mount on, without further assumptions about the state.
\<close>

definition geo_kept :: "'c sfs_fs \<Rightarrow> 'c sfs_fs \<Rightarrow> bool" where
  "geo_kept s t = (fs_ops t = fs_ops s \<and> fs_geo t = fs_geo s \<and> fs_write_hit t = fs_write_hit s)"

lemma keeps_geo_ctx: "keeps geo_kept (ctx_call f)"
  by (simp add: keeps_def ctx_call_def geo_kept_def split: prod.split)

lemma frame_rel_geo: "frame_rel geo_kept"
  by unfold_locales (auto simp: geo_kept_def)

interpretation gr: frame_rel geo_kept
  by (rule frame_rel_geo)

lemma keeps_geo_upd: "(\<And>s. geo_kept s (f s)) \<Longrightarrow> keeps geo_kept (upd f)"
  by (simp add: keeps_def)

lemma keeps_geo_st: "keeps geo_kept (upd_st f)"
  by (simp add: upd_st_def keeps_def geo_kept_def)

lemma keeps_geo_write: "keeps geo_kept (sfs_dev_write blk d n)"
  unfolding sfs_dev_write_def by (intro keeps_geo_st keeps_geo_ctx keeps_geo_upd gr.keeps_rules) (simp add: geo_kept_def)

interpretation gf: cache_free geo_kept
proof
  show "keeps geo_kept (upd f)" if "\<And>s. core_same s (f s)" for f
    using that by (intro keeps_geo_upd) (simp add: geo_kept_def)
  show "keeps geo_kept (upd f)" if "\<And>s. non_buf_same s (f s)" for f
    using that by (intro keeps_geo_upd) (simp add: geo_kept_def)
  show "keeps geo_kept (sfs_dev_read blk cnt)" for blk cnt
    unfolding sfs_dev_read_def by (intro keeps_geo_st keeps_geo_ctx gr.keeps_rules)
  show "keeps geo_kept (sfs_dev_writev blk bufs)" for blk bufs
    unfolding sfs_dev_writev_def by (intro keeps_geo_st keeps_geo_ctx keeps_geo_write gr.keeps_rules)
  show "keeps geo_kept sfs_dev_flush"
    unfolding sfs_dev_flush_def by (intro keeps_geo_st keeps_geo_ctx gr.keeps_rules)
  show "keeps geo_kept (sfs_alloc n)" "keeps geo_kept (sfs_free n)" "keeps geo_kept sfs_now" "keeps geo_kept (sfs_log msg)" for n msg
    unfolding sfs_alloc_def sfs_free_def sfs_now_def sfs_log_def by (intro keeps_geo_ctx gr.keeps_rules)+
qed (simp_all add: upd_buf_def upd_ino_def keeps_def geo_kept_def keeps_geo_write[unfolded keeps_def geo_kept_def])

interpretation gv: icache_free geo_kept
proof
  show "keeps geo_kept (upd f)" if "\<And>s. non_ino_same s (f s)" for f
    using that by (intro keeps_geo_upd) (simp add: geo_kept_def)
  show "keeps geo_kept recover_super"
    unfolding recover_super_def by (intro keeps_geo_ctx keep; simp)
  show "keeps geo_kept sfs_ondisk_state"
    unfolding sfs_ondisk_state_def jread_def by (intro keeps_geo_ctx keep; simp)
qed

subsection \<open>The geometry of a mounted volume\<close>

definition ops_are :: "'c sfs_ops \<Rightarrow> 'c sfs_fs \<Rightarrow> bool" where
  "ops_are ops s = (fs_ops s = ops \<and> fs_write_hit s = None)"

definition lies_on :: "'c sfs_ops \<Rightarrow> 'c sfs_fs \<Rightarrow> bool" where
  "lies_on ops s = (ops_are ops s \<and> geo_ok (fs_geo s) \<and>
     (ops_size ops \<noteq> 0 \<longrightarrow> unat (g_nblocks (fs_geo s)) * unat (g_bs (fs_geo s)) \<le> unat (ops_size ops)))"

abbreviation (input) if_ok :: "('s \<Rightarrow> bool) \<Rightarrow> sfs_err + 'a \<Rightarrow> 's \<Rightarrow> bool" where
  "if_ok P r s \<equiv> (case r of Inl _ \<Rightarrow> True | Inr _ \<Rightarrow> P s)"

lemma spec_geo: "keeps geo_kept m \<Longrightarrow> spec (lies_on ops) m (\<lambda>_. lies_on ops)"
  by (auto simp: spec_def keeps_def geo_kept_def lies_on_def ops_are_def)

lemma spec_geo_ok: "keeps geo_kept m \<Longrightarrow> spec (lies_on ops) m (if_ok (lies_on ops))"
  by (rule spec_post[OF spec_geo]) (auto split: sum.split)

lemma spec_if_ok:
  "(\<And>e. spec (\<lambda>_. True) (f e) Q) \<Longrightarrow> (\<And>x. spec P (g x) Q) \<Longrightarrow> spec (if_ok P rc) (case rc of Inl e \<Rightarrow> f e | Inr x \<Rightarrow> g x) Q"
  by (cases rc) auto

lemma spec_geo_ops: "keeps geo_kept m \<Longrightarrow> spec (ops_are ops) m (\<lambda>_. ops_are ops)"
  by (auto simp: spec_def keeps_def geo_kept_def ops_are_def)

lemma keeps_parse_ops: "keeps (\<lambda>s t. ops_are ops s \<longrightarrow> ops_are ops t) parse_super"
proof -
  have rel: "frame_rel (\<lambda>s t. ops_are ops s \<longrightarrow> ops_are ops t)"
    by unfold_locales auto
  have upd: "(\<And>s. fs_ops (f s) = fs_ops s \<and> fs_write_hit (f s) = fs_write_hit s) \<Longrightarrow> keeps (\<lambda>s t. ops_are ops s \<longrightarrow> ops_are ops t) (upd f)" for f
    by (simp add: keeps_def ops_are_def)
  have geo: "keeps (\<lambda>s t. ops_are ops s \<longrightarrow> ops_are ops t) (set_geo f)" for f
    unfolding set_geo_def by (rule upd) simp
  have log: "keeps (\<lambda>s t. ops_are ops s \<longrightarrow> ops_are ops t) (sfs_log msg)" for msg
    using gf.host_frame(4) by (auto simp: keeps_def geo_kept_def ops_are_def)
  show ?thesis
    unfolding parse_super_def parse_features_def parse_blocks_def parse_groups_def parse_inodes_def parse_desc_def parse_flags_def
      parse_csum_def parse_rest_def refuse_if_def
    by (intro frame_rel.keeps_rules[OF rel] upd geo log) simp_all
qed

lemma spec_parse: "spec (ops_are ops) parse_super (if_ok (lies_on ops))"
  unfolding spec_def
proof (intro allI impI)
  fix s
  assume s: "ops_are ops s"
  show "if_ok (lies_on ops) (fst (parse_super s)) (snd (parse_super s))"
  proof (cases "fst (parse_super s)")
    case (Inr x)
    hence "parse_super s = (Inr (), snd (parse_super s))"
      by (simp add: prod_eq_iff)
    from parse_super_geo[OF this] keepsD[OF keeps_parse_ops this, of ops] show ?thesis
      using s Inr by (simp add: lies_on_def ops_are_def)
  qed simp
qed

lemma spec_load_geometry: "spec (ops_are ops) load_geometry (if_ok (lies_on ops))"
  unfolding load_geometry_def
  by (rule spec_chk[OF spec_parse], simp, simp, rule spec_post[OF spec_geo], intro keep; simp split: sum.split)

lemma keeps_geo_sbraw: "keeps geo_kept read_sbraw"
  unfolding read_sbraw_def by (intro keeps_geo_ctx keep; simp)

lemma lies_on_ops: "spec (ops_are ops) m Q \<Longrightarrow> spec (lies_on ops) m Q"
  by (erule spec_pre) (simp add: lies_on_def)

text \<open>The replay may have rewritten the superblock, which is then parsed again.\<close>

lemma spec_mount_journal: "spec (lies_on ops) mount_journal (if_ok (lies_on ops))"
proof -
  have again: "spec (lies_on ops) (chk read_sbraw (\<lambda>_. chk load_geometry (\<lambda>_. run (upd (\<lambda>f. f\<lparr>fs_feat_incompat := x f\<rparr>)) (\<lambda>_. ok ()))))
      (if_ok (lies_on ops))" for x
    apply (rule spec_chk[OF spec_geo[OF keeps_geo_sbraw]], simp)
    apply (rule lies_on_ops, rule spec_chk[OF spec_load_geometry], simp, simp)
    apply (rule spec_run[OF spec_geo], intro keep, simp, rule spec_ok, simp)
    done
  show ?thesis
    unfolding mount_journal_def
    apply (rule spec_look_any, rule spec_if)
     apply (rule spec_chk[OF spec_geo], intro keep, simp)
     apply (rule spec_if)
      apply (rule spec_run[OF spec_geo], intro keep, rule spec_run[OF spec_geo], intro keep, rule again)
     apply (rule spec_geo_ok, intro keep)+
    done
qed

lemma spec_mount_load: "spec (lies_on ops) mount_load (if_ok (lies_on ops))"
proof -
  show ?thesis
    unfolding mount_load_def
    apply (rule spec_run[OF spec_geo], intro keep, simp)
    apply (rule lies_on_ops, rule spec_chk[OF spec_load_geometry], simp, simp)
    apply (rule spec_run[OF spec_geo], intro keep)+
    apply (simp, rule spec_chk[OF spec_mount_journal], simp, simp)
    apply (rule spec_run[OF spec_geo], intro keep, simp)
    apply (rule spec_geo_ok, intro keep)
    done
qed

lemma spec_mount_fail: "spec P (mount_fail a b c d e err) (if_ok Q)"
  by (simp add: spec_def mount_fail_def run_apply)

lemma keeps_geo_init: "keeps geo_kept (sfs_cache_init n)"
  unfolding sfs_cache_init_def by (intro gf.non_buf_frame keep; simp)

lemma spec_mount_memory: "spec (lies_on ops) mount_memory (if_ok (lies_on ops))"
  unfolding mount_memory_def Let_def
  by (intro spec_look_any spec_if spec_mount_fail spec_run[OF spec_geo[OF gf.host_frame(1)]] spec_run[OF spec_geo[OF keeps_geo_init]]
      spec_sum_case spec_run[OF spec_mount_load] spec_if_ok spec_ok) simp

lemma spec_mount_super: "spec (ops_are ops) mount_super (if_ok (lies_on ops))"
proof -
  have parse: "spec (ops_are ops) (chk read_sbraw (\<lambda>_. parse_super)) (if_ok (lies_on ops))"
    by (rule spec_chk[OF spec_geo_ops[OF keeps_geo_sbraw]], simp, rule spec_parse)
  show ?thesis
    unfolding mount_super_def
    by (intro spec_look_any spec_if spec_mount_fail spec_run[OF spec_geo_ops[OF gf.host_frame(1)]] spec_run[OF parse] spec_if_ok spec_mount_memory)
qed

lemma mount_lies_on:
  assumes "sfs_mount ops flags c = (Inr f, c')"
  shows "lies_on ops f"
proof -
  obtain c1 m where m: "mount_super (zero_fs ops c1 m) = (Inr (), f)"
    using assms by (auto simp: sfs_mount_def Let_def split: prod.splits if_splits sum.splits)
  have "ops_are ops (zero_fs ops c1 m)"
    by (simp add: ops_are_def zero_fs_def)
  thus ?thesis
    using spec_mount_super[of ops] m unfolding spec_def by fastforce
qed

subsection \<open>Safety from the mount on\<close>

lemma mounted_in_range:
  assumes "sfs_mount ops flags c = (Inr f, c')" "ops_size ops \<noteq> 0" "tracing_host acc ops None" "sfs_step\<^sup>*\<^sup>* f t"
  shows "acc (fs_ctx t) \<subseteq> acc (fs_ctx f) \<union> {(off, n). unat off + n \<le> unat (ops_size ops)}"
  using mount_lies_on[OF assms(1)] assms(2,3) history_in_range[of acc f t, OF _ _ assms(4)]
  by (simp add: lies_on_def ops_are_def fits_dev_def)

lemma mounted_readonly:
  assumes "sfs_mount ops flags c = (Inr f, c')" "ops_size ops \<noteq> 0" "quiet_host disk ops None" "fs_ro f" "sfs_step\<^sup>*\<^sup>* f t"
  shows "disk (fs_ctx t) = disk (fs_ctx f) \<and> fs_ro t"
  using mount_lies_on[OF assms(1)] assms(2-4) history_readonly[of disk f t, OF _ _ _ assms(5)]
  by (simp add: lies_on_def ops_are_def fits_dev_def)

end
