(* ===== verification/Sfs_Samples.thy ===== *)
theory Sfs_Samples
  imports Sfs_Mounted Sfs_Leaf_Split
begin

unbundle bit_operations_syntax

section \<open>A concrete volume and host\<close>

text \<open>
  Concrete inputs on which the theorems are applied: a host whose context is the list of the requests it
  has received, the geometry of a volume of 64 blocks of 1024 bytes with 16 inodes, and leaves of such a volume.
\<close>

type_synonym requests = "(u64 \<times> nat) list"

definition sample_ops :: "requests sfs_ops" where
  "sample_ops = \<lparr>ops_read = (\<lambda>c off n. (Some (replicate (unat n) 0), (off, unat n) # c)),
     ops_write = Some (\<lambda>c off d n. (True, (off, unat n) # c)), ops_flush = Some (\<lambda>c. (True, c)),
     ops_alloc = (\<lambda>c n. (True, c)), ops_free = (\<lambda>c n. c), ops_now = None, ops_log = None,
     ops_size = 65536, ops_cache_blocks = 0, ops_writev = None\<rparr>"

definition sample_geo :: sfs_geo where
  "sample_geo = zero_geo\<lparr>g_bs := 1024, g_bs_bits := 10, g_nblocks := 64, g_ngroups := 1, g_bpg := 8192, g_ipg := 16,
     g_isize := 128, g_gd_size := 32, g_first_data_block := 1, g_inodes_count := 16, g_first_ino := 11,
     g_desc_per_block := 32, g_inodes_per_block := 8, g_itable_blocks := 2, g_gdt_blocks := 1,
     g_filetype := True, g_extents := True\<rparr>"

definition sample_fs :: "requests sfs_fs" where
  "sample_fs = (zero_fs sample_ops [] 0)\<lparr>fs_geo := sample_geo, fs_max_bufs := 64, fs_max_inodes := 16\<rparr>"

lemma sample_geo_ok: "geo_ok sample_geo"
  by (simp add: geo_ok_def sample_geo_def)

lemma sample_fs_fields: "fs_ops sample_fs = sample_ops" "fs_geo sample_fs = sample_geo" "fs_write_hit sample_fs = None"
    "fs_ctx sample_fs = []" "fs_ro sample_fs = False" "ops_size sample_ops = 65536"
  by (simp_all add: sample_fs_def zero_fs_def sample_ops_def)

lemma sample_fits: "fits_dev sample_ops sample_geo"
  using sample_geo_ok by (simp add: fits_dev_def sample_ops_def) (simp add: sample_geo_def)

lemma sample_tracing: "tracing_host set sample_ops None"
  by (auto simp: tracing_host_def sample_ops_def)

text \<open>A host with a disk that only its write callback changes; the disk is the number of writes.\<close>

definition counting_ops :: "nat sfs_ops" where
  "counting_ops = \<lparr>ops_read = (\<lambda>c off n. (Some (replicate (unat n) 0), c)),
     ops_write = Some (\<lambda>c off d n. (True, Suc c)), ops_flush = Some (\<lambda>c. (True, c)),
     ops_alloc = (\<lambda>c n. (True, c)), ops_free = (\<lambda>c n. c), ops_now = None, ops_log = None,
     ops_size = 65536, ops_cache_blocks = 0, ops_writev = None\<rparr>"

definition counting_fs :: "nat sfs_fs" where
  "counting_fs = (zero_fs counting_ops 0 SFS_MOUNT_RDONLY)\<lparr>fs_geo := sample_geo, fs_max_bufs := 64, fs_max_inodes := 16, fs_ro := True\<rparr>"

lemma counting_fs_fields: "fs_ops counting_fs = counting_ops" "fs_geo counting_fs = sample_geo" "fs_write_hit counting_fs = None"
    "fs_ctx counting_fs = 0" "fs_ro counting_fs"
  by (simp_all add: counting_fs_def zero_fs_def)

lemma counting_fits: "fits_dev counting_ops sample_geo"
  using sample_geo_ok by (simp add: fits_dev_def counting_ops_def) (simp add: sample_geo_def)

lemma counting_quiet: "quiet_host id counting_ops None"
  by (simp add: quiet_host_def counting_ops_def)

text \<open>A leaf with the two entries of an empty root directory.\<close>

definition sample_leaf :: bytes where
  "sample_leaf = [2,0,0,0, 12,0, 1, 2, 46,0,0,0,  2,0,0,0, 0xF4,3, 2, 2, 46,46,0,0] @ replicate 1000 0"

lemma sample_leaf_ok: "leaf_entries_ok sample_geo sample_leaf 0"
  by code_simp

lemma sample_leaf_live: "live (leaf_list sample_geo sample_leaf 0) = [([46], 2, 2), ([46, 46], 2, 2)]"
  by code_simp

lemma sample_leaf_inv: "leaf_inv sample_geo sample_leaf"
  unfolding leaf_inv_def leaf_wf_def leaf_geo_def sample_leaf_live using sample_leaf_ok
  by (simp add: sample_geo_def sample_leaf_def)

lemma sample_leaf_list: "leaf_list sample_geo sample_leaf 0 = [(12, 2, [46], 2), (1012, 2, [46, 46], 2)]"
  by code_simp

lemma sample_insert: "leaf_insert sample_geo sample_leaf [65] 12 1 \<noteq> None"
  using leaf_insert_None[OF sample_leaf_ok, of "[65]" 12 1] by (auto simp: sample_leaf_list ent_room_def rec_min_def)

definition sample_dmap :: "dmap list" where
  "sample_dmap = [\<lparr>m_hash = 1909931592, m_off = 0, m_size = 12\<rparr>, \<lparr>m_hash = 2084022942, m_off = 12, m_size = 12\<rparr>]"

lemma sample_dmap: "leaf_dmap (leaf_limit sample_geo) sample_geo 0 sample_leaf 0 (SFS_MAX_ALLOC div 8) = Inr sample_dmap"
  by code_simp

end
