(* ===== verification/Sfs_Faults.thy ===== *)
theory Sfs_Faults
  imports Sfs_Samples Sfs_File
begin

unbundle bit_operations_syntax

section \<open>Where the code does not do what it means to\<close>

text \<open>
  Behaviour of the code that departs from its comments, shown on the model: the conversion of unwritten extents never succeeds, a device of
  unknown size cannot be read, and an insertion next to an entry with an empty name breaks the leaf.
\<close>

subsection \<open>Unwritten extents\<close>

lemma zero_blocks_one: "zero_blocks ks pblk z (Inr (Suc 0)) s = (Inr (Suc 0), s)"
  by (cases ks) auto

text \<open>The loop that should zero the blocks starts with the 1 of the mapping in its condition.\<close>

lemma zero_unwritten_never:
  assumes "fst (sfs_map_block i lblk s) = Inr (Some pblk, rn, True)"
  shows "fst (zero_unwritten i lblk s) \<noteq> Inr 0"
proof -
  have look: "fst (look (\<lambda>s. let bs = unat (g_bs (fs_geo s)) in
       run (sfs_alloc bs) (\<lambda>good. if \<not> good then throw SFS_ENOMEM
       else run (zero_blocks ks p (replicate bs 0) (Inr 1)) (\<lambda>rc. run (sfs_free bs) (\<lambda>_. if rc \<noteq> Inr 0 then ret rc else k)))) t) \<noteq> Inr (0 :: nat)"
    for ks p k and t :: "'a sfs_fs"
    by (auto simp: Let_def run_apply zero_blocks_one)
  show ?thesis
    using assms look
    by (cases "sfs_map_block i lblk s") (auto simp: zero_unwritten_def run_apply split: sum.split prod.split option.split)
qed

text \<open>A block that the extent cache of the inode shows as unwritten.\<close>

definition ec_unwritten :: "'c sfs_fs \<Rightarrow> u32 \<Rightarrow> u32 \<Rightarrow> bool" where
  "ec_unwritten s i lblk = (let x = ino_of s i in in_flags x AND IFL_EXTENTS \<noteq> 0 \<and> in_ec_valid x \<and>
     in_ec_lblk x \<le> lblk \<and> lblk - in_ec_lblk x < in_ec_len x \<and> in_ec_unwritten x)"

lemma map_unwritten:
  assumes "ec_unwritten s i lblk"
  shows "\<exists>p rn t. sfs_map_block i lblk s = (Inr (Some p, rn, True), t) \<and> ec_unwritten t i lblk"
  using assms by (simp add: ec_unwritten_def sfs_map_block_def Let_def run_apply upd_st_def)

lemma file_write_unwritten:
  assumes "ec_unwritten s i (ucast (drop_bit (g_bs_bits (fs_geo s)) off))" "src \<noteq> []"
  shows "fst (fst (file_write_loop (Suc k) i src off retried s)) \<noteq> Inr 0 \<and> snd (fst (file_write_loop (Suc k) i src off retried s)) = off"
proof -
  let ?lblk = "ucast (drop_bit (g_bs_bits (fs_geo s)) off) :: u32"
  obtain p rn t where m: "sfs_map_block i ?lblk s = (Inr (Some p, rn, True), t)" "ec_unwritten t i ?lblk"
    using map_unwritten[OF assms(1)] by blast
  hence "fst (zero_unwritten i ?lblk t) \<noteq> Inr 0"
    using map_unwritten[OF m(2)] zero_unwritten_never by (metis fst_conv)
  thus ?thesis
    using assms(2) m by (simp add: Let_def run_apply)
qed

subsection \<open>A device of unknown size\<close>

lemma unknown_size_unreadable:
  assumes "ops_size (fs_ops s) = 0" "geo_ok (fs_geo s)"
  shows "sfs_dev_read blk 1 s = (Inl SFS_EIO, s)"
proof -
  have "g_bs_bits (fs_geo s) \<in> {10, 11, 12}"
    using assms(2) by (simp add: geo_ok_def Let_def)
  hence n: "unat (ucast (push_bit (g_bs_bits (fs_geo s)) (1 :: u32)) :: u64) = 2 ^ g_bs_bits (fs_geo s)"
    by auto
  have "dev_out_of_range s blk 1 (ucast (push_bit (g_bs_bits (fs_geo s)) (1 :: u32)))"
    using in_range[OF assms(2) _ unat_shift_lt, of blk 1 "g_bs_bits (fs_geo s)" 1] n assms(1) by (auto simp: in_dev_def)
  thus ?thesis
    by (simp add: sfs_dev_read_def Let_def)
qed

subsection \<open>Entries without a name\<close>

definition nameless_leaf :: bytes where
  "nameless_leaf = [12,0,0,0, 0,4, 0, 1] @ replicate 1016 0"

lemma nameless_ok: "leaf_entries_ok sample_geo nameless_leaf 0"
  by code_simp

lemma nameless_fields: "rd16 nameless_leaf 4 = 1024" "rd32 nameless_leaf 0 = 12" "name_len_of sample_geo nameless_leaf 0 = 0"
    "leaf_limit sample_geo = 1024"
  by code_simp+

text \<open>The record of the nameless entry is cut to 8 bytes, fewer than the 12 that \<open>leaf_ok\<close> asks for.\<close>

lemma nameless_insert: "\<exists>d. leaf_insert sample_geo nameless_leaf [65] 13 1 = Some d \<and> \<not> leaf_entries_ok sample_geo d 0"
proof -
  let ?w = "wr16 nameless_leaf 4 8" and ?d = "de_set sample_geo 8 13 1016 [65] 1 (wr16 nameless_leaf 4 8)"
  have ins: "leaf_insert sample_geo nameless_leaf [65] 13 1 = Some ?d"
    using leaf_insert_loop.simps(2)[of 1023 sample_geo nameless_leaf "[65]" 13 1 0]
    by (simp add: leaf_insert_def nameless_fields rec_min_def)
  have "agree 0 8 ?d ?w"
    by (simp add: agree_def byte_at_de_set nameless_leaf_def)
  hence "rd16 ?d 4 = rd16 ?w 4"
    by (rule agree_rd) auto
  also have "\<dots> = 8"
    by (simp add: rd16_wr16 nameless_leaf_def)
  finally have "\<not> leaf_entries_ok sample_geo ?d 0"
    using nameless_fields(4) by (simp add: leaf_entries_ok.simps[of _ _ 0] Let_def)
  with ins show ?thesis by blast
qed

end
