(* ===== verification/Blk_Part.thy ===== *)
theory Blk_Part
  imports Sfs_Crc
begin

unbundle bit_operations_syntax

section \<open>Partition tables (kernel64/blk\_part.c)\<close>

text \<open>
  The scanner that finds the partitions of a whole device: GPT (primary and backup header, entry array with its CRC), MBR and the chain of
  extended boot records. \<open>scan_dev\<close> holds the constant fields of \<open>scan_t\<close> (the read callback, the sector size, the number of
  sectors and the capacity of \<open>out\<close>), \<open>scan\<close> the ones that change: the callback context, the \<open>n\<close> partitions stored so
  far and the notes. A sector buffer is the byte list the last read stored in it; a buffer whose read failed is not looked at.

  The lemmas: the CRC loop meets the contract of \<open>Sfs_Crc\<close> and can be continued; every partition that is stored lies within the
  device, in the order of its index; every sector read lies within the device; the checksum that decides about an entry array is the one over
  exactly its bytes, so the number of sectors is enough fuel. The chain of extended boot records ends by construction.
\<close>

subsection \<open>Constants and data\<close>

abbreviation (input) PART_SCHEME_MBR :: u32 where "PART_SCHEME_MBR \<equiv> 1"
abbreviation (input) PART_SCHEME_GPT :: u32 where "PART_SCHEME_GPT \<equiv> 2"
abbreviation (input) PARTF_BOOTABLE :: u8 where "PARTF_BOOTABLE \<equiv> 1"
abbreviation (input) PARTF_LOGICAL :: u8 where "PARTF_LOGICAL \<equiv> 2"
abbreviation (input) PARTF_FROM_BACKUP_GPT :: u8 where "PARTF_FROM_BACKUP_GPT \<equiv> 4"
abbreviation (input) PSCAN_MBR_VALID :: u32 where "PSCAN_MBR_VALID \<equiv> 1"
abbreviation (input) PSCAN_PROTECTIVE_MBR :: u32 where "PSCAN_PROTECTIVE_MBR \<equiv> 2"
abbreviation (input) PSCAN_GPT_PRIMARY_OK :: u32 where "PSCAN_GPT_PRIMARY_OK \<equiv> 4"
abbreviation (input) PSCAN_GPT_PRIMARY_BAD :: u32 where "PSCAN_GPT_PRIMARY_BAD \<equiv> 8"
abbreviation (input) PSCAN_GPT_BACKUP_OK :: u32 where "PSCAN_GPT_BACKUP_OK \<equiv> 16"
abbreviation (input) PSCAN_GPT_BACKUP_BAD :: u32 where "PSCAN_GPT_BACKUP_BAD \<equiv> 32"
abbreviation (input) PSCAN_GPT_USED_BACKUP :: u32 where "PSCAN_GPT_USED_BACKUP \<equiv> 64"
abbreviation (input) PSCAN_GPT_ENTRIES_CRC_BAD :: u32 where "PSCAN_GPT_ENTRIES_CRC_BAD \<equiv> 128"
abbreviation (input) PSCAN_EBR_CHAIN :: u32 where "PSCAN_EBR_CHAIN \<equiv> 256"
abbreviation (input) PSCAN_OUT_OF_RANGE :: u32 where "PSCAN_OUT_OF_RANGE \<equiv> 512"
abbreviation (input) PSCAN_HYBRID_MBR :: u32 where "PSCAN_HYBRID_MBR \<equiv> 1024"
abbreviation (input) PSCAN_READ_ERROR :: u32 where "PSCAN_READ_ERROR \<equiv> 2048"
abbreviation (input) PSCAN_TRUNCATED :: u32 where "PSCAN_TRUNCATED \<equiv> 4096"
abbreviation (input) PSCAN_EBR_LOOP :: u32 where "PSCAN_EBR_LOOP \<equiv> 8192"

record blk_part =
  p_start :: u64
  p_sectors :: u64
  p_index :: u32
  p_scheme :: u32
  p_mbr_type :: u8
  p_flags :: u8
  p_type_guid :: bytes
  p_part_guid :: bytes
  p_name :: bytes

definition zero_part :: blk_part where
  "zero_part = \<lparr>p_start = 0, p_sectors = 0, p_index = 0, p_scheme = 0, p_mbr_type = 0, p_flags = 0,
     p_type_guid = replicate 16 0, p_part_guid = replicate 16 0, p_name = []\<rparr>"

record 'c scan_dev =
  sd_read :: "'c \<Rightarrow> u64 \<Rightarrow> u32 \<Rightarrow> bytes option \<times> 'c"
  sd_ss :: u32
  sd_sectors :: u64
  sd_max :: nat

record 'c scan =
  sc_ctx :: 'c
  sc_out :: "blk_part list"
  sc_notes :: u32

type_synonym ('c, 'a) scanact = "('c scan, 'a) act"

subsection \<open>The CRC\<close>

definition crc32_step :: "u32 \<Rightarrow> u32" where
  "crc32_step c = (if c AND 1 \<noteq> 0 then 0xEDB88320 XOR drop_bit 1 c else drop_bit 1 c)"

definition crc_table :: "u32 list" where
  "crc_table = map (\<lambda>i. (crc32_step ^^ 8) (of_nat i)) [0..<256]"

fun crc32_loop :: "u32 \<Rightarrow> bytes \<Rightarrow> u32" where
  "crc32_loop crc [] = crc"
| "crc32_loop crc (p # ps) = crc32_loop (crc_table ! unat ((crc XOR ucast p) AND 0xFF) XOR drop_bit 8 crc) ps"

definition blk_crc32 :: "u32 \<Rightarrow> bytes \<Rightarrow> u32" where
  "blk_crc32 crc data = NOT (crc32_loop (NOT crc) data)"

subsection \<open>Storing a partition\<close>

definition note_it :: "u32 \<Rightarrow> ('c, unit) scanact" where
  "note_it m = upd (\<lambda>s. s\<lparr>sc_notes := sc_notes s OR m\<rparr>)"

text \<open>\<open>True\<close> is the 0 of \<open>add\<close>, \<open>False\<close> its -1 (no room left).\<close>

definition add :: "'c scan_dev \<Rightarrow> blk_part \<Rightarrow> ('c, bool) scanact" where
  "add d p = (if sd_sectors d \<le> p_start p \<or> p_sectors p = 0 \<or> sd_sectors d - p_start p < p_sectors p
     then run (note_it PSCAN_OUT_OF_RANGE) (\<lambda>_. ret True)
     else look (\<lambda>s. if sd_max d \<le> length (sc_out s)
       then run (note_it PSCAN_TRUNCATED) (\<lambda>_. ret False)
       else run (upd (\<lambda>s. s\<lparr>sc_out := sc_out s @ [p\<lparr>p_index := of_nat (length (sc_out s)) + 1\<rparr>]\<rparr>)) (\<lambda>_. ret True)))"

definition sector_read :: "'c scan_dev \<Rightarrow> u64 \<Rightarrow> ('c, bytes option) scanact" where
  "sector_read d lba = look (\<lambda>s. case sd_read d (sc_ctx s) lba 1 of (r, c) \<Rightarrow> run (upd (\<lambda>s. s\<lparr>sc_ctx := c\<rparr>)) (\<lambda>_. ret r))"

subsection \<open>GPT\<close>

record gpt_hdr =
  h_entries_crc :: u32
  h_num_entries :: u32
  h_entry_size :: u32
  h_entries_lba :: u64

definition EFI_PART :: bytes where
  "EFI_PART = [0x45, 0x46, 0x49, 0x20, 0x50, 0x41, 0x52, 0x54]"

text \<open>The header's checks in the order of the source, on the sector \<open>b\<close> read from \<open>lba\<close>. The CRC is computed over \<open>header_size\<close> bytes
  with the CRC field zeroed, on a copy or in place.\<close>

definition gpt_array_sectors :: "'c scan_dev \<Rightarrow> gpt_hdr \<Rightarrow> u64" where
  "gpt_array_sectors d h = (ucast (h_num_entries h) * ucast (h_entry_size h) + ucast (sd_ss d) - 1) div ucast (sd_ss d)"

definition gpt_header_ok :: "'c scan_dev \<Rightarrow> u64 \<Rightarrow> bytes \<Rightarrow> bool" where
  "gpt_header_ok d lba b = (let hsize = rd32 b 12 in
     slice b 0 8 = EFI_PART \<and> rd32 b 8 = 0x10000 \<and> 92 \<le> hsize \<and> hsize \<le> sd_ss d \<and>
     blk_crc32 0 (slice (fill b 16 0 4) 0 (unat hsize)) = rd32 b 16 \<and> rd64 b 24 = lba)"

definition gpt_geometry_ok :: "'c scan_dev \<Rightarrow> u64 \<Rightarrow> bytes \<Rightarrow> gpt_hdr \<Rightarrow> bool" where
  "gpt_geometry_ok d lba b h = (let nsec = gpt_array_sectors d h in
     128 \<le> h_entry_size h \<and> h_entry_size h AND 7 = 0 \<and> h_entry_size h \<le> sd_ss d \<and>
     h_num_entries h \<noteq> 0 \<and> h_num_entries h \<le> 4096 \<and>
     h_entries_lba h \<noteq> 0 \<and> h_entries_lba h < sd_sectors d \<and> nsec \<le> sd_sectors d - h_entries_lba h \<and>
     \<not> (h_entries_lba h \<le> lba \<and> lba < h_entries_lba h + nsec) \<and>
     rd64 b 40 \<le> rd64 b 48 \<and> rd64 b 48 < sd_sectors d)"

definition gpt_header :: "'c scan_dev \<Rightarrow> u64 \<Rightarrow> ('c, gpt_hdr option) scanact" where
  "gpt_header d lba = (if sd_sectors d \<le> lba then ret None
     else run (sector_read d lba) (\<lambda>r. case r of
       None \<Rightarrow> run (note_it PSCAN_READ_ERROR) (\<lambda>_. ret None)
     | Some b \<Rightarrow> let h = \<lparr>h_entries_crc = rd32 b 88, h_num_entries = rd32 b 80, h_entry_size = rd32 b 84, h_entries_lba = rd64 b 72\<rparr>
         in ret (if gpt_header_ok d lba b \<and> gpt_geometry_ok d lba b h then Some h else None)))"

definition fold_name :: "bytes \<Rightarrow> nat \<Rightarrow> bytes" where
  "fold_name b off = map (\<lambda>c. if 0x20 \<le> c \<and> c < 0x7F then ucast c else 0x3F)
     (takeWhile (\<lambda>c. c \<noteq> 0) (map (\<lambda>i. rd16 b (off + 2 * i)) [0..<36]))"

definition gpt_part :: "bytes \<Rightarrow> nat \<Rightarrow> u8 \<Rightarrow> blk_part" where
  "gpt_part b ent flags = (let start = rd64 b (ent + 32) in
     zero_part\<lparr>p_type_guid := slice b ent 16, p_part_guid := slice b (ent + 16) 16, p_start := start,
       p_sectors := (if start \<le> rd64 b (ent + 40) then rd64 b (ent + 40) - start + 1 else 0),
       p_scheme := PART_SCHEME_GPT, p_flags := flags, p_name := fold_name b (ent + 56)\<rparr>)"

text \<open>The entries of one sector: the loop variable \<open>e\<close> ends at the sector or at the end of the array. The result is
  \<open>truncated\<close>.\<close>

primrec gpt_sector :: "'c scan_dev \<Rightarrow> gpt_hdr \<Rightarrow> u8 \<Rightarrow> bytes \<Rightarrow> nat list \<Rightarrow> bool \<Rightarrow> ('c, bool) scanact" where
  "gpt_sector d h flags b [] truncated = ret truncated"
| "gpt_sector d h flags b (e # es) truncated = (let ent = e * unat (h_entry_size h) in
     if slice b ent 16 = replicate 16 0 then gpt_sector d h flags b es truncated
     else if truncated then gpt_sector d h flags b es truncated
     else run (add d (gpt_part b ent flags)) (\<lambda>good. gpt_sector d h flags b es (\<not> good)))"

text \<open>The \<open>while (done < bytes)\<close> loop. Each turn but the last advances by a whole sector, so the number of sectors of the
  array bounds the turns.\<close>

primrec gpt_sectors :: "nat \<Rightarrow> 'c scan_dev \<Rightarrow> gpt_hdr \<Rightarrow> u8 \<Rightarrow> u64 \<Rightarrow> u64 \<Rightarrow> u32 \<Rightarrow> bool \<Rightarrow> ('c, u32 option) scanact" where
  "gpt_sectors 0 d h flags at lba crc truncated = ret (Some crc)"
| "gpt_sectors (Suc k) d h flags at lba crc truncated = (let total = ucast (h_num_entries h) * ucast (h_entry_size h) :: u64 in
     if total \<le> at then ret (Some crc)
     else let chunk = (if total - at < ucast (sd_ss d) then ucast (total - at) else sd_ss d) :: u32 in
       run (sector_read d lba) (\<lambda>r. case r of
         None \<Rightarrow> run (note_it PSCAN_READ_ERROR) (\<lambda>_. ret None)
       | Some b \<Rightarrow>
           run (gpt_sector d h flags b (takeWhile (\<lambda>e. at + of_nat e * ucast (h_entry_size h) < total) [0..<unat (sd_ss d div h_entry_size h)])
                 truncated) (\<lambda>truncated.
           gpt_sectors k d h flags (at + ucast chunk) (lba + 1) (blk_crc32 crc (slice b 0 (unat chunk))) truncated)))"

definition drop_to :: "nat \<Rightarrow> ('c, unit) scanact" where
  "drop_to n = upd (\<lambda>s. s\<lparr>sc_out := take n (sc_out s)\<rparr>)"

definition gpt_entries :: "'c scan_dev \<Rightarrow> gpt_hdr \<Rightarrow> u8 \<Rightarrow> ('c, bool) scanact" where
  "gpt_entries d h flags = look (\<lambda>s. let first = length (sc_out s) in
     run (gpt_sectors (unat (gpt_array_sectors d h)) d h flags 0 (h_entries_lba h) 0 False) (\<lambda>r. case r of
       None \<Rightarrow> run (drop_to first) (\<lambda>_. ret False)
     | Some crc \<Rightarrow> if crc \<noteq> h_entries_crc h
         then run (note_it PSCAN_GPT_ENTRIES_CRC_BAD) (\<lambda>_. run (drop_to first) (\<lambda>_. ret False))
         else ret True))"

definition scan_gpt :: "'c scan_dev \<Rightarrow> ('c, bool) scanact" where
  "scan_gpt d = run (gpt_header d 1) (\<lambda>h.
     run (case h of Some h \<Rightarrow> run (note_it PSCAN_GPT_PRIMARY_OK) (\<lambda>_. gpt_entries d h 0)
          | None \<Rightarrow> run (note_it PSCAN_GPT_PRIMARY_BAD) (\<lambda>_. ret False)) (\<lambda>good.
     if good then ret True
     else run (gpt_header d (sd_sectors d - 1)) (\<lambda>h. case h of
         Some h \<Rightarrow> run (note_it PSCAN_GPT_BACKUP_OK) (\<lambda>_. run (gpt_entries d h PARTF_FROM_BACKUP_GPT) (\<lambda>good.
           if good then run (note_it PSCAN_GPT_USED_BACKUP) (\<lambda>_. ret True) else ret False))
       | None \<Rightarrow> run (note_it PSCAN_GPT_BACKUP_BAD) (\<lambda>_. ret False))))"

subsection \<open>MBR\<close>

definition is_extended :: "u8 \<Rightarrow> bool" where
  "is_extended t = (t = 0x05 \<or> t = 0x0F \<or> t = 0x85)"

text \<open>The partition of the entry at offset \<open>e\<close> of the sector \<open>b\<close>; \<open>base\<close> is what its start is relative to.\<close>

definition mbr_part :: "bytes \<Rightarrow> nat \<Rightarrow> u64 \<Rightarrow> u8 \<Rightarrow> blk_part" where
  "mbr_part b e base flags = zero_part\<lparr>p_start := base + ucast (rd32 b (e + 8)), p_sectors := ucast (rd32 b (e + 12)),
     p_scheme := PART_SCHEME_MBR, p_mbr_type := byte_at b (e + 4),
     p_flags := flags OR (if byte_at b e AND 0x80 \<noteq> 0 then PARTF_BOOTABLE else 0)\<rparr>"

text \<open>The first entry of an extended boot record; \<open>False\<close> ends the chain.\<close>

definition ebr_entry :: "'c scan_dev \<Rightarrow> u64 \<Rightarrow> u64 \<Rightarrow> u64 \<Rightarrow> bytes \<Rightarrow> ('c, bool) scanact" where
  "ebr_entry d ext_start ext_sectors ebr b = (if byte_at b 450 \<noteq> 0 \<and> \<not> is_extended (byte_at b 450) \<and> rd32 b 458 \<noteq> 0
     then let p = mbr_part b 446 ebr PARTF_LOGICAL in
       if p_start p < ext_start \<or> ext_sectors \<le> p_start p - ext_start
       then run (note_it PSCAN_OUT_OF_RANGE) (\<lambda>_. ret True)
       else add d p
     else ret True)"

function scan_ebr_loop :: "'c scan_dev \<Rightarrow> u64 \<Rightarrow> u64 \<Rightarrow> u64 \<Rightarrow> u64 list \<Rightarrow> ('c, unit) scanact" where
  "scan_ebr_loop d ext_start ext_sectors ebr seen =
     (if 32 \<le> length seen then note_it PSCAN_EBR_LOOP
      else if ebr \<in> set seen then note_it PSCAN_EBR_LOOP
      else if sd_sectors d \<le> ebr then note_it PSCAN_OUT_OF_RANGE
      else run (sector_read d ebr) (\<lambda>r. case r of
        None \<Rightarrow> note_it PSCAN_READ_ERROR
      | Some b \<Rightarrow> if rd16 b 510 \<noteq> 0xAA55 then ret ()
          else run (ebr_entry d ext_start ext_sectors ebr b) (\<lambda>more.
            if \<not> more then ret ()
            else if \<not> is_extended (byte_at b 466) \<or> rd32 b 474 = 0 then ret ()
            else scan_ebr_loop d ext_start ext_sectors (ext_start + ucast (rd32 b 470)) (seen @ [ebr]))))"
  by auto
termination
  by (relation "measure (\<lambda>(d, _, _, _, seen). 32 - length seen)") auto

declare scan_ebr_loop.simps [simp del]

definition scan_ebr :: "'c scan_dev \<Rightarrow> u64 \<Rightarrow> u64 \<Rightarrow> ('c, unit) scanact" where
  "scan_ebr d ext_start ext_sectors = run (note_it PSCAN_EBR_CHAIN) (\<lambda>_. scan_ebr_loop d ext_start ext_sectors ext_start [])"

text \<open>The four primary entries. The result is the extended partition, \<open>None\<close> when the loop returned early.\<close>

primrec mbr_entries :: "'c scan_dev \<Rightarrow> bytes \<Rightarrow> nat list \<Rightarrow> u64 \<times> u64 \<Rightarrow> ('c, (u64 \<times> u64) option) scanact" where
  "mbr_entries d m [] ext = ret (Some ext)"
| "mbr_entries d m (i # is) ext = (let e = 446 + 16 * i in
     if byte_at m (e + 4) = 0 \<or> rd32 m (e + 12) = 0 then mbr_entries d m is ext
     else if is_extended (byte_at m (e + 4))
     then mbr_entries d m is (if snd ext = 0 then (ucast (rd32 m (e + 8)), ucast (rd32 m (e + 12))) else ext)
     else run (add d (mbr_part m e 0 0)) (\<lambda>good. if good then mbr_entries d m is ext else ret None))"

definition scan_mbr :: "'c scan_dev \<Rightarrow> bytes \<Rightarrow> ('c, unit) scanact" where
  "scan_mbr d m = run (mbr_entries d m [0, 1, 2, 3] (0, 0)) (\<lambda>r. case r of
     None \<Rightarrow> ret ()
   | Some (ext_start, ext_sectors) \<Rightarrow> if ext_sectors \<noteq> 0 \<and> ext_start < sd_sectors d then scan_ebr d ext_start ext_sectors else ret ())"

subsection \<open>The scan\<close>

text \<open>The result is \<open>Some n\<close> for the \<open>n\<close> partitions in \<open>sc_out\<close>, \<open>None\<close> for -1.\<close>

definition mbr_types :: "bytes \<Rightarrow> u8 list" where
  "mbr_types b = map (\<lambda>i. byte_at b (446 + 16 * i + 4)) [0..<4]"

definition scan_tables :: "'c scan_dev \<Rightarrow> ('c, nat option) scanact" where
  "scan_tables d = run (sector_read d 0) (\<lambda>r. case r of
     None \<Rightarrow> run (note_it PSCAN_READ_ERROR) (\<lambda>_. ret None)
   | Some b \<Rightarrow> let mbr_ok = (rd16 b 510 = 0xAA55); protective = (mbr_ok \<and> 0xEE \<in> set (mbr_types b));
         other = (mbr_ok \<and> (\<exists>t \<in> set (mbr_types b). t \<noteq> 0xEE \<and> t \<noteq> 0)) in
       run (whenA mbr_ok (note_it PSCAN_MBR_VALID)) (\<lambda>_.
       run (whenA protective (note_it PSCAN_PROTECTIVE_MBR)) (\<lambda>_.
       run (scan_gpt d) (\<lambda>gpt.
       if gpt then run (whenA (mbr_ok \<and> other) (note_it PSCAN_HYBRID_MBR)) (\<lambda>_. look (\<lambda>s. ret (Some (length (sc_out s)))))
       else if \<not> mbr_ok then ret None
       else if protective then ret (Some 0)
       else run (sector_read d 0) (\<lambda>r. case r of
              None \<Rightarrow> run (note_it PSCAN_READ_ERROR) (\<lambda>_. ret None)
            | Some m \<Rightarrow> run (scan_mbr d m) (\<lambda>_. look (\<lambda>s. ret (Some (length (sc_out s))))))))))"

definition blk_part_scan :: "'c scan_dev \<Rightarrow> 'c \<Rightarrow> nat option \<times> blk_part list \<times> u32 \<times> 'c" where
  "blk_part_scan d c = (if sd_ss d < 512 \<or> sd_ss d AND (sd_ss d - 1) \<noteq> 0 \<or> sd_sectors d < 2 then (None, [], 0, c)
     else case scan_tables d \<lparr>sc_ctx = c, sc_out = [], sc_notes = 0\<rparr> of
       (r, s) \<Rightarrow> (r, sc_out s, sc_notes s, sc_ctx s))"

subsection \<open>The CRC is a CRC\<close>

interpretation blk32: crc_loop crc32_step crc_table crc32_loop
proof unfold_locales
  show "crc32_step (a XOR b) = crc32_step a XOR crc32_step b" for a b
    unfolding crc32_step_def and_1_odd
    by (cases "even a"; cases "even b") (simp_all add: drop_bit_xor ac_simps even_xor_iff)
  show "crc32_step a = drop_bit 1 a" if "even a" for a
    using that by (simp add: crc32_step_def and_1_odd)
  show "a = 0" if "crc32_step a = 0" for a
  proof (cases "even a")
    case True
    with that show ?thesis
      by (simp add: crc32_step_def and_1_odd shift_zero_even)
  next
    case False
    with that have "drop_bit 1 a = 0xEDB88320"
      by (simp add: crc32_step_def and_1_odd word_xor_eq_0)
    then have "bit (drop_bit 1 a) 31"
      by simp
    then show ?thesis
      by (auto simp: bit_simps dest: bit_imp_le_length)
  qed
qed (auto simp: crc_table_def)

lemma blk_crc32_append: "blk_crc32 (blk_crc32 c xs) ys = blk_crc32 c (xs @ ys)"
  by (simp add: blk_crc32_def blk32.crc_append)

lemma blk_crc32_Nil: "blk_crc32 c [] = c"
  by (simp add: blk_crc32_def)

subsection \<open>Frames of the scan\<close>

text \<open>
  What a relation between the states before and after has to admit so that the whole scan stays within it: the notes, the
  stored partitions, and the reads of sectors within the device.
\<close>

locale scan_frame = frame_rel R for R :: "'c scan \<Rightarrow> 'c scan \<Rightarrow> bool" +
  fixes d :: "'c scan_dev"
  assumes read_frame: "lba < sd_sectors d \<Longrightarrow> keeps R (sector_read d lba)"
    and note_frame: "keeps R (note_it m)"
    and add_frame: "keeps R (add d p)"
    and drop_frame: "keeps R (drop_to n)"
begin

lemma keeps_run_val: "keeps R m \<Longrightarrow> (\<And>s. keeps R (k (fst (m s)))) \<Longrightarrow> keeps R (run m k)"
  unfolding keeps_def run_apply by (blast intro: R_trans)

lemmas scan_rules = read_frame note_frame add_frame drop_frame keeps_rules

lemma gpt_header_frame: "keeps R (gpt_header d lba)"
  unfolding gpt_header_def by (intro scan_rules) simp

lemma gpt_sector_frame: "keeps R (gpt_sector d h flags b es tr)"
  by (induction es arbitrary: tr) (auto simp: Let_def intro!: scan_rules)

lemma gpt_sectors_frame: "unat lba + k \<le> unat (sd_sectors d) \<Longrightarrow> keeps R (gpt_sectors k d h flags at lba crc tr)"
proof (induction k arbitrary: lba at crc tr)
  case (Suc k)
  have lt: "lba < sd_sectors d"
    using Suc.prems by (simp add: word_less_nat_alt)
  hence "unat (lba + 1) = unat lba + 1"
    using unsigned_less[of "sd_sectors d", where ?'a = nat] by (simp add: word_less_nat_alt unat_word_ariths)
  hence "unat (lba + 1) + k \<le> unat (sd_sectors d)"
    using Suc.prems by simp
  from Suc.IH[OF this] show ?case
    unfolding gpt_sectors.simps using lt by (intro scan_rules gpt_sector_frame) auto
qed (simp add: keeps_ret)

lemma gpt_header_geo:
  assumes "fst (gpt_header d lba s) = Some h"
  shows "unat (h_entries_lba h) + unat (gpt_array_sectors d h) \<le> unat (sd_sectors d)"
proof -
  have "h_entries_lba h < sd_sectors d" "gpt_array_sectors d h \<le> sd_sectors d - h_entries_lba h"
    using assms by (auto simp: gpt_header_def gpt_geometry_ok_def run_apply Let_def split: if_splits option.splits)
  thus ?thesis
    by (simp add: word_le_nat_alt unat_sub[OF less_imp_le] word_less_nat_alt)
qed

lemma gpt_entries_frame:
  "unat (h_entries_lba h) + unat (gpt_array_sectors d h) \<le> unat (sd_sectors d) \<Longrightarrow> keeps R (gpt_entries d h flags)"
  unfolding gpt_entries_def by (intro scan_rules gpt_sectors_frame) auto

lemma scan_gpt_frame: "keeps R (scan_gpt d)"
  unfolding scan_gpt_def
  by (rule keeps_run_val[OF gpt_header_frame], intro keeps_run keeps_option_case keeps_if keeps_ret note_frame keeps_run_val[OF gpt_header_frame]
      gpt_entries_frame gpt_header_geo; assumption)

lemma ebr_entry_frame: "keeps R (ebr_entry d a b e x)"
  unfolding ebr_entry_def by (intro scan_rules)

lemma scan_ebr_loop_frame: "keeps R (scan_ebr_loop d a b ebr seen)"
proof (induction "32 - length seen" arbitrary: ebr seen rule: less_induct)
  case less
  show ?case
    by (subst scan_ebr_loop.simps)
      (intro scan_rules ebr_entry_frame less.hyps; simp add: not_le)
qed

lemma mbr_entries_frame: "keeps R (mbr_entries d m is ext)"
  by (induction "is" arbitrary: ext) (auto simp: Let_def intro!: scan_rules)

lemma scan_mbr_frame: "keeps R (scan_mbr d m)"
  unfolding scan_mbr_def scan_ebr_def by (intro scan_rules mbr_entries_frame scan_ebr_loop_frame)

lemma scan_tables_frame: "2 \<le> sd_sectors d \<Longrightarrow> keeps R (scan_tables d)"
  unfolding scan_tables_def
  by (intro scan_rules scan_gpt_frame scan_mbr_frame) (auto simp: word_le_nat_alt word_less_nat_alt)

end

subsection \<open>Stored partitions\<close>

definition part_in :: "u64 \<Rightarrow> blk_part \<Rightarrow> bool" where
  "part_in n p = (0 < unat (p_sectors p) \<and> unat (p_start p) + unat (p_sectors p) \<le> unat n)"

definition parts_wf :: "'c scan_dev \<Rightarrow> 'c scan \<Rightarrow> bool" where
  "parts_wf d s = (length (sc_out s) \<le> sd_max d \<and> (\<forall>p \<in> set (sc_out s). part_in (sd_sectors d) p) \<and>
     map p_index (sc_out s) = map (\<lambda>i. of_nat i + 1) [0..<length (sc_out s)])"

lemma add_in_range:
  "\<not> (sd_sectors d \<le> p_start p \<or> p_sectors p = 0 \<or> sd_sectors d - p_start p < p_sectors p) \<Longrightarrow> part_in (sd_sectors d) (p\<lparr>p_index := i\<rparr>)"
  by (auto simp: part_in_def word_le_nat_alt word_less_nat_alt unat_sub unat_gt_0 not_le)

lemma add_parts_wf: "parts_wf d s \<Longrightarrow> parts_wf d (snd (add d p s))"
  using add_in_range[of d p] by (auto simp: add_def note_it_def parts_wf_def)

lemma drop_parts_wf: "parts_wf d s \<Longrightarrow> parts_wf d (snd (drop_to n s))"
  by (auto simp: drop_to_def parts_wf_def take_map[symmetric] dest: in_set_takeD) (simp add: take_map min_def)

interpretation pw: scan_frame "\<lambda>s t. parts_wf d s \<longrightarrow> parts_wf d t" d for d :: "'c scan_dev"
  by unfold_locales
    (simp_all add: keeps_def add_parts_wf drop_parts_wf, simp_all add: sector_read_def note_it_def parts_wf_def run_apply case_prod_beta)

lemma scan_parts_wf:
  "case blk_part_scan d c of (r, out, notes, c') \<Rightarrow> length out \<le> sd_max d \<and> (\<forall>p \<in> set out. part_in (sd_sectors d) p) \<and>
     map p_index out = map (\<lambda>i. of_nat i + 1) [0..<length out]"
proof (cases "sd_ss d < 512 \<or> sd_ss d AND (sd_ss d - 1) \<noteq> 0 \<or> sd_sectors d < 2")
  case False
  hence "keeps (\<lambda>s t. parts_wf d s \<longrightarrow> parts_wf d t) (scan_tables d)"
    by (intro pw.scan_tables_frame) (simp add: not_less)
  moreover have "parts_wf d \<lparr>sc_ctx = c, sc_out = [], sc_notes = 0\<rparr>"
    by (simp add: parts_wf_def)
  ultimately have "parts_wf d (snd (scan_tables d \<lparr>sc_ctx = c, sc_out = [], sc_notes = 0\<rparr>))"
    unfolding keeps_def by blast
  thus ?thesis
    using False by (auto simp: blk_part_scan_def parts_wf_def split: prod.split)
qed (simp add: blk_part_scan_def)

subsection \<open>Reads\<close>

text \<open>A preorder on the callback context that contains every read of one sector within the device contains the whole scan.\<close>

definition reads_in :: "('c \<Rightarrow> 'c \<Rightarrow> bool) \<Rightarrow> 'c scan_dev \<Rightarrow> bool" where
  "reads_in D d = (reflp D \<and> transp D \<and> (\<forall>c lba. lba < sd_sectors d \<longrightarrow> D c (snd (sd_read d c lba 1))))"

lemma scan_reads:
  assumes "reads_in D d"
  shows "D c (snd (snd (snd (blk_part_scan d c))))"
proof -
  have D: "D x x" "D x y \<Longrightarrow> D y z \<Longrightarrow> D x z" "lba < sd_sectors d \<Longrightarrow> D x (snd (sd_read d x lba 1))" for x y z lba
    using assms by (auto simp: reads_in_def dest: reflpD transpD)
  have "scan_frame (\<lambda>s t. D (sc_ctx s) (sc_ctx t)) d"
    by unfold_locales (auto simp: keeps_def sector_read_def note_it_def add_def drop_to_def run_apply case_prod_beta intro: D)
  from scan_frame.scan_tables_frame[OF this] show ?thesis
    by (auto simp: blk_part_scan_def keeps_def D(1) not_less split: prod.split) (metis scan.select_convs(1) snd_conv)
qed

subsection \<open>The checksum of the entry array\<close>

text \<open>A callback that always reads the same disk, whatever its context.\<close>

definition reads_disk :: "(u64 \<Rightarrow> bytes) \<Rightarrow> 'c scan_dev \<Rightarrow> bool" where
  "reads_disk disk d = (\<forall>c lba. fst (sd_read d c lba 1) = Some (disk lba) \<and> length (disk lba) = unat (sd_ss d))"

definition array_bytes :: "gpt_hdr \<Rightarrow> nat" where
  "array_bytes h = unat (h_num_entries h) * unat (h_entry_size h)"

lemma array_bytes_word:
  assumes "h_num_entries h \<le> 4096"
  shows "unat (ucast (h_num_entries h) * ucast (h_entry_size h) :: u64) = array_bytes h" "array_bytes h < 2 ^ 45"
proof -
  have a: "unat (h_num_entries h) \<le> 4096" "unat (h_entry_size h) < 2 ^ 32"
    using assms unsigned_less[of "h_entry_size h", where ?'a = nat] by (simp_all add: word_le_nat_alt)
  have "array_bytes h \<le> 4096 * (2 ^ 32)"
    unfolding array_bytes_def using a by (intro mult_le_mono) auto
  thus "array_bytes h < 2 ^ 45"
    by simp
  thus "unat (ucast (h_num_entries h) * ucast (h_entry_size h) :: u64) = array_bytes h"
    by (simp add: unat_word_ariths unat_widen array_bytes_def)
qed

lemma gpt_sectors_crc:
  assumes "reads_disk disk d" "h_num_entries h \<le> 4096"
    and "unat at \<le> array_bytes h" "array_bytes h \<le> unat at + k * unat (sd_ss d)"
  shows "fst (gpt_sectors k d h flags at lba crc tr s) =
    Some (blk_crc32 crc (take (array_bytes h - unat at) (concat (map (\<lambda>i. disk (lba + of_nat i)) [0..<k]))))"
  using assms(3,4)
proof (induction k arbitrary: at lba crc tr s)
  case (Suc k)
  let ?total = "ucast (h_num_entries h) * ucast (h_entry_size h) :: u64" and ?ss = "unat (sd_ss d)"
  note total = array_bytes_word[OF assms(2)]
  have read: "fst (sector_read d lba s) = Some (disk lba)" "length (disk lba) = ?ss" for s
    using assms(1) by (auto simp: reads_disk_def sector_read_def run_apply case_prod_beta)
  have ss: "?ss < 2 ^ 32"
    using unsigned_less[of "sd_ss d", where ?'a = nat] by simp
  show ?case
  proof (cases "?total \<le> at")
    case True
    hence "unat at = array_bytes h"
      using Suc.prems(1) total by (simp add: word_le_nat_alt)
    thus ?thesis
      using True by (simp add: blk_crc32_Nil)
  next
    case False
    hence lt: "unat at < array_bytes h" and le: "at \<le> ?total"
      using total by (simp_all add: word_le_nat_alt not_le)
    define chunk where "chunk = (if ?total - at < ucast (sd_ss d) then ucast (?total - at) else sd_ss d)"
    have sub: "unat (?total - at) = array_bytes h - unat at"
      using le total by (simp add: unat_sub)
    have uss: "unat (ucast (sd_ss d) :: u64) = ?ss"
      by (rule unat_widen)
    have chunk: "unat chunk = min ?ss (array_bytes h - unat at)"
      unfolding chunk_def using sub uss ss
      by (auto simp: word_less_nat_alt unsigned_ucast_eq take_bit_nat_eq_self min_def)
    have at': "unat (at + ucast chunk) = unat at + unat chunk"
      using chunk lt total(2) by (simp add: unat_word_ariths unat_widen)
    have bytes: "take (array_bytes h - unat at) (concat (map (\<lambda>i. disk (lba + of_nat i)) [0..<Suc k])) =
        slice (disk lba) 0 (unat chunk) @
        take (array_bytes h - unat (at + ucast chunk)) (concat (map (\<lambda>i. disk (lba + 1 + of_nat i)) [0..<k]))"
    proof -
      have "slice (disk lba) 0 (unat chunk) = take (array_bytes h - unat at) (disk lba)"
        using read(2) chunk by (auto intro!: nth_equalityI simp: nth_slice byte_at_def)
      moreover have "array_bytes h - unat (at + ucast chunk) = array_bytes h - unat at - ?ss"
        using at' chunk by simp
      moreover have "map (\<lambda>i. disk (lba + of_nat i)) [0..<Suc k] = disk lba # map (\<lambda>i. disk (lba + 1 + of_nat i)) [0..<k]"
        by (simp add: upt_conv_Cons map_Suc_upt[symmetric] del: upt_Suc) (simp add: add.assoc)
      ultimately show ?thesis
        using read(2) by (simp del: upt_Suc)
    qed
    have "array_bytes h \<le> unat (at + ucast chunk) + k * ?ss"
      using Suc.prems(2) at' chunk by auto
    moreover have "unat (at + ucast chunk) \<le> array_bytes h"
      using at' chunk lt by simp
    ultimately show ?thesis
      unfolding bytes blk_crc32_append[symmetric] using False read(1)
      by (simp add: run_apply Let_def Suc.IH flip: chunk_def del: upt_Suc)
  qed
qed (simp add: blk_crc32_Nil)

lemma ceil_mult: "0 < s \<Longrightarrow> (n :: nat) \<le> (n + s - 1) div s * s"
  using div_mult_mod_eq[of "n + s - 1" s] mod_less_divisor[of s "n + s - 1"] by linarith

lemma array_sectors_enough:
  assumes "h_num_entries h \<le> 4096" "sd_ss d \<noteq> 0"
  shows "array_bytes h \<le> unat (gpt_array_sectors d h) * unat (sd_ss d)"
proof -
  let ?ss = "unat (sd_ss d)"
  have ss: "0 < ?ss" "?ss < 2 ^ 32"
    using assms(2) unsigned_less[of "sd_ss d", where ?'a = nat] by (simp_all add: unat_gt_0)
  let ?w = "ucast (h_num_entries h) * ucast (h_entry_size h) + ucast (sd_ss d) :: u64"
  have w: "unat ?w = array_bytes h + ?ss"
    using array_bytes_word[OF assms(1)] ss by (subst unat_plus_simple[THEN iffD1]) (simp_all add: unat_widen no_olen_add_nat)
  hence "unat (?w - 1) = array_bytes h + ?ss - 1"
    using ss by (subst unat_minus_one) auto
  hence "unat (gpt_array_sectors d h) = (array_bytes h + ?ss - 1) div ?ss"
    by (simp add: gpt_array_sectors_def unat_div unat_widen)
  thus ?thesis
    using ceil_mult[OF ss(1), of "array_bytes h"] by simp
qed

lemma gpt_entries_crc:
  assumes "reads_disk disk d" "h_num_entries h \<le> 4096" "sd_ss d \<noteq> 0"
  shows "fst (gpt_entries d h flags s) \<longleftrightarrow>
    blk_crc32 0 (take (array_bytes h) (concat (map (\<lambda>i. disk (h_entries_lba h + of_nat i)) [0..<unat (gpt_array_sectors d h)]))) = h_entries_crc h"
  using gpt_sectors_crc[OF assms(1,2), of 0 "unat (gpt_array_sectors d h)" flags "h_entries_lba h" 0 False s]
    array_sectors_enough[OF assms(2,3)]
  by (simp add: gpt_entries_def run_apply Let_def)

end
