(* ===== verification/Blk_Archive.thy ===== *)
theory Blk_Archive
  imports Sfs_Fields
begin

unbundle bit_operations_syntax

section \<open>Storage locators and archive sources\<close>

text \<open>
  The hardware identity of a storage unit (\<^verbatim>\<open>boot_profile/storage/provenance.h\<close>) and the table of archive
  sources (\<^verbatim>\<open>kernel64/archive_source.c\<close>): private snapshots of files of the boot archive, named by a slot, an owner, a random
  identity and a generation. An owner is the address of a kernel object, 0 for none. Each operation holds the lock of the
  table, so it is one step. The pages of a snapshot and the search of the name space are not part of the model:
  \<open>archive_source_open\<close> takes the extent that the search found.
\<close>

subsection \<open>Locators\<close>

record locator =
  l_version :: u16
  l_size :: u16
  l_transport :: u16
  l_reserved0 :: u16
  l_segment :: u32
  l_bus :: u8
  l_device :: u8
  l_function :: u8
  l_reserved1 :: u8
  l_unit :: u32
  l_multiplier :: u16
  l_lun :: u16
  l_sectors :: u64
  l_block_size :: u32
  l_media_id :: u32
  l_namespace_eui :: bytes
  l_media_flags :: u32
  l_reserved2 :: u32

abbreviation (input) SHZ_STORAGE_MAGIC :: u32 where "SHZ_STORAGE_MAGIC \<equiv> 0x505A4853"
abbreviation (input) SHZ_STORAGE_SATA :: u16 where "SHZ_STORAGE_SATA \<equiv> 1"
abbreviation (input) SHZ_STORAGE_NVME :: u16 where "SHZ_STORAGE_NVME \<equiv> 2"

record provenance =
  pr_magic :: u32
  pr_version :: u16
  pr_size :: u16
  pr_flags :: u32
  pr_reserved :: u32
  pr_boot :: locator
  pr_archive :: locator
  pr_archive_gpa :: u64
  pr_archive_size :: u64

definition shz_storage_locator_valid :: "locator \<Rightarrow> bool" where
  "shz_storage_locator_valid x = (l_version x = 1 \<and> l_size x = 56 \<and> l_reserved0 x = 0 \<and> l_reserved1 x = 0 \<and> l_reserved2 x = 0 \<and>
     l_segment x = 0 \<and> l_device x < 32 \<and> l_function x < 8 \<and> l_sectors x \<noteq> 0 \<and>
     (l_block_size x = 512 \<or> l_block_size x = 2048 \<or> l_block_size x = 4096) \<and> l_media_flags x AND NOT 3 = 0 \<and>
     (l_transport x = SHZ_STORAGE_SATA \<and> l_unit x < 32 \<and> l_multiplier x = 0xFFFF \<and> l_lun x = 0 \<or>
      l_transport x = SHZ_STORAGE_NVME \<and> l_unit x \<noteq> 0 \<and> l_unit x \<noteq> 0xFFFFFFFF \<and> l_multiplier x = 0 \<and> l_lun x = 0))"

text \<open>\<open>same_unit\<close> of \<^verbatim>\<open>blk_authority.c\<close>.\<close>

definition same_unit :: "locator \<Rightarrow> locator \<Rightarrow> bool" where
  "same_unit a b = (l_transport a = l_transport b \<and> l_segment a = l_segment b \<and> l_bus a = l_bus b \<and> l_device a = l_device b \<and>
     l_function a = l_function b \<and> l_unit a = l_unit b \<and> l_multiplier a = l_multiplier b \<and> l_lun a = l_lun b)"

definition shz_storage_match :: "locator \<Rightarrow> locator \<Rightarrow> bool" where
  "shz_storage_match a b = (shz_storage_locator_valid a \<and> shz_storage_locator_valid b \<and> same_unit a b \<and>
     l_sectors a = l_sectors b \<and> l_block_size a = l_block_size b \<and> l_namespace_eui a = l_namespace_eui b)"

subsection \<open>The boot archive\<close>

primrec archive_name_end :: "nat \<Rightarrow> bytes \<Rightarrow> nat \<Rightarrow> nat \<Rightarrow> nat" where
  "archive_name_end 0 p e j = j"
| "archive_name_end (Suc k) p e j = (if byte_at p (e + j) = 0 then j else archive_name_end k p e (j + 1))"

definition archive_entry_ok :: "bytes \<Rightarrow> u64 \<Rightarrow> u64 \<Rightarrow> nat \<Rightarrow> bool" where
  "archive_entry_ok p nbytes table i = (let e = 16 + i * 136; off = rd64 p (e + 120); len = rd64 p (e + 128);
       j = archive_name_end 120 p e 0
     in \<not> (j = 120 \<or> j = 0 \<or> off < table \<or> nbytes < off \<or> nbytes - off < len))"

definition SHZARC :: bytes where
  "SHZARC = [0x53, 0x48, 0x5A, 0x41, 0x52, 0x43, 0x30, 0x31]"

definition archive_valid :: "bytes \<Rightarrow> u64 \<Rightarrow> bool" where
  "archive_valid p nbytes = (\<not> (nbytes < 16 \<or> slice p 0 8 \<noteq> SHZARC \<or> rd32 p 12 \<noteq> 0) \<and>
     (let cnt = rd32 p 8; table = 16 + ucast cnt * 136 in
      cnt \<le> 4096 \<and> table \<le> nbytes \<and> list_all (archive_entry_ok p nbytes table) [0..<unat cnt]))"

subsection \<open>Archive sources\<close>

abbreviation (input) ARCHIVE_SOURCE_SLOTS :: nat where "ARCHIVE_SOURCE_SLOTS \<equiv> 8"

record ar_info =
  ai_id :: bytes
  ai_generation :: u64
  ai_bytes :: u64

record ar_slot =
  as_owner :: nat
  as_refs :: u32
  as_info :: ar_info

record ar_table =
  at_slots :: "ar_slot list"
  at_epoch :: u64
  at_origin :: "provenance option"

definition empty_slot :: ar_slot where
  "empty_slot = \<lparr>as_owner = 0, as_refs = 0, as_info = \<lparr>ai_id = replicate 16 0, ai_generation = 0, ai_bytes = 0\<rparr>\<rparr>"

definition ar_start :: ar_table where
  "ar_start = \<lparr>at_slots = replicate ARCHIVE_SOURCE_SLOTS empty_slot, at_epoch = 0, at_origin = None\<rparr>"

definition ar_find :: "ar_table \<Rightarrow> nat \<Rightarrow> ar_slot option" where
  "ar_find t p = (if p < length (at_slots t) \<and> as_refs (at_slots t ! p) \<noteq> 0 then Some (at_slots t ! p) else None)"

definition ar_equal :: "ar_slot \<Rightarrow> bytes \<Rightarrow> u64 \<Rightarrow> u64 \<Rightarrow> bool" where
  "ar_equal s i gen n = (ai_generation (as_info s) = gen \<and> ai_bytes (as_info s) = n \<and> ai_id (as_info s) = i)"

definition set_slot :: "nat \<Rightarrow> ar_slot \<Rightarrow> ar_table \<Rightarrow> ar_table" where
  "set_slot p s t = t\<lparr>at_slots := (at_slots t)[p := s]\<rparr>"

text \<open>\<open>if (!--s->refs) destroy(s)\<close>.\<close>

definition drop_ref :: "nat \<Rightarrow> ar_slot \<Rightarrow> ar_table \<Rightarrow> ar_table" where
  "drop_ref p s t = set_slot p (if as_refs s - 1 = 0 then empty_slot else s\<lparr>as_refs := as_refs s - 1\<rparr>) t"

text \<open>The fields of the boot information that are checked; \<open>bi_has_storage\<close> is \<open>SHZ_BOOTINFO_HAS(bi, storage)\<close>, and \<open>bi_mapped\<close> that the
  archive is where the kernel maps \<open>initrd_gpa\<close>.\<close>

record bootinfo =
  bi_magic :: u32
  bi_abi_major :: u16
  bi_domain_id :: u32
  bi_flags :: u32
  bi_has_storage :: bool
  bi_storage :: provenance
  bi_initrd_gpa :: u64
  bi_initrd_size :: u64
  bi_ram_size :: u64
  bi_mapped :: bool

definition bootinfo_ok :: "bootinfo \<Rightarrow> u64 \<Rightarrow> bool" where
  "bootinfo_ok bi nbytes = (bi_magic bi = 0x544F4F42 \<and> bi_abi_major bi = 1 \<and> bi_domain_id bi = 4 \<and> bi_flags bi = 1 \<and> bi_has_storage bi \<and>
     nbytes \<noteq> 0 \<and> bi_initrd_gpa bi < bi_ram_size bi \<and> nbytes \<le> bi_ram_size bi - bi_initrd_gpa bi \<and> nbytes = bi_initrd_size bi \<and> bi_mapped bi)"

definition origin_ok :: "bootinfo \<Rightarrow> bytes \<Rightarrow> u64 \<Rightarrow> bool" where
  "origin_ok bi data nbytes = (let p = bi_storage bi in
     pr_magic p = SHZ_STORAGE_MAGIC \<and> pr_version p = 1 \<and> pr_size p = 144 \<and> pr_reserved p = 0 \<and> pr_flags p = 1 \<and>
     pr_archive_gpa p = bi_initrd_gpa bi \<and> pr_archive_size p = nbytes \<and> shz_storage_match (pr_boot p) (pr_archive p) \<and> archive_valid data nbytes)"

text \<open>\<open>good\<close>: the copy of the table could be allocated.\<close>

definition archive_source_bind_origin :: "bool \<Rightarrow> bootinfo \<Rightarrow> bytes \<Rightarrow> u64 \<Rightarrow> ar_table \<Rightarrow> bool \<times> ar_table" where
  "archive_source_bind_origin good bi data nbytes t = (if \<not> bootinfo_ok bi nbytes \<or> \<not> origin_ok bi data nbytes then (False, t)
     else if (\<exists>s \<in> set (at_slots t). as_refs s \<noteq> 0) \<or> at_origin t \<noteq> None \<or> \<not> good then (False, t)
     else (True, t\<lparr>at_origin := Some (bi_storage bi)\<rparr>))"

definition archive_source_origin :: "ar_table \<Rightarrow> provenance option" where
  "archive_source_origin t = at_origin t"

text \<open>\<open>extent\<close> is the size of the file the search found, \<open>i\<close> the identity that was drawn (zero after eight zero draws),
  \<open>copied\<close> whether the snapshot could be made.\<close>

fun free_slot :: "ar_slot list \<Rightarrow> nat \<Rightarrow> nat option" where
  "free_slot [] k = None"
| "free_slot (s # ss) k = (if as_refs s = 0 then Some k else free_slot ss (Suc k))"

definition archive_source_open :: "nat \<Rightarrow> u64 option \<Rightarrow> bool \<Rightarrow> bytes \<Rightarrow> ar_table \<Rightarrow> (nat \<times> ar_info) option \<times> ar_table" where
  "archive_source_open owner extent copied i t = (case (free_slot (at_slots t) 0, extent) of
       (Some p, Some n) \<Rightarrow> if owner = 0 \<or> at_origin t = None \<or> at_epoch t = 0xFFFFFFFFFFFFFFFF then (None, t)
         else if \<not> copied \<or> (\<forall>b \<in> set i. b = 0) then (None, set_slot p empty_slot t)
         else let info = \<lparr>ai_id = i, ai_generation = at_epoch t + 1, ai_bytes = n\<rparr>
           in (Some (p, info), set_slot p \<lparr>as_owner = owner, as_refs = 1, as_info = info\<rparr> (t\<lparr>at_epoch := at_epoch t + 1\<rparr>))
     | _ \<Rightarrow> (None, t))"

definition archive_source_info :: "nat \<Rightarrow> nat \<Rightarrow> ar_info \<Rightarrow> ar_table \<Rightarrow> ar_info option" where
  "archive_source_info owner p review t = (case ar_find t p of None \<Rightarrow> None
     | Some s \<Rightarrow> if owner \<noteq> 0 \<and> as_owner s = owner \<and> ar_equal s (ai_id review) (ai_generation review) (ai_bytes review)
         then Some (as_info s) else None)"

definition archive_source_close :: "nat \<Rightarrow> nat \<Rightarrow> ar_info \<Rightarrow> ar_table \<Rightarrow> bool \<times> ar_table" where
  "archive_source_close owner p review t = (case ar_find t p of None \<Rightarrow> (False, t)
     | Some s \<Rightarrow> if owner \<noteq> 0 \<and> as_owner s = owner \<and> ar_equal s (ai_id review) (ai_generation review) (ai_bytes review)
         then (True, drop_ref p (s\<lparr>as_owner := 0\<rparr>) t) else (False, t))"

definition archive_source_match :: "nat \<Rightarrow> bytes \<Rightarrow> u64 \<Rightarrow> u64 \<Rightarrow> ar_table \<Rightarrow> bool" where
  "archive_source_match p i gen n t = (case ar_find t p of None \<Rightarrow> False | Some s \<Rightarrow> ar_equal s i gen n)"

definition archive_source_retain :: "nat \<Rightarrow> nat \<Rightarrow> bytes \<Rightarrow> u64 \<Rightarrow> u64 \<Rightarrow> ar_table \<Rightarrow> bool \<times> ar_table" where
  "archive_source_retain owner p i gen n t = (case ar_find t p of None \<Rightarrow> (False, t)
     | Some s \<Rightarrow> if owner \<noteq> 0 \<and> ar_equal s i gen n \<and> as_owner s = owner \<and> as_refs s < 0xFFFFFFFF
         then (True, set_slot p (s\<lparr>as_refs := as_refs s + 1\<rparr>) t) else (False, t))"

definition archive_source_release :: "nat \<Rightarrow> bytes \<Rightarrow> u64 \<Rightarrow> ar_table \<Rightarrow> ar_table" where
  "archive_source_release p i gen t = (case ar_find t p of None \<Rightarrow> t
     | Some s \<Rightarrow> if ar_equal s i gen (ai_bytes (as_info s)) \<and> (if as_owner s \<noteq> 0 then 1 else 0) < as_refs s
         then drop_ref p s t else t)"

end
