(* ===== verification/Blk_Dev.thy ===== *)
theory Blk_Dev
  imports Blk_Part Blk_Archive
begin

unbundle bit_operations_syntax

section \<open>Block devices and their authority (kernel64/blk.c, blk\_authority.c)\<close>

text \<open>
  The registry of block devices with its partition devices, and the authority that serialises their use and gives
  exclusive claims to a whole device.

  A device is named by its address: \<open>Whole n\<close> is a structure of a driver, \<open>Part i\<close> is the element \<open>i\<close> of \<^verbatim>\<open>parts\<close>. \<open>k_dev\<close> is the
  content of the structures, \<open>k_list\<close> the registry list in the order of registration. A function pointer is a number, 0 for null, and
  the drivers are the parameter \<open>'c drivers\<close>: what the function behind a pointer does to the driver world \<open>'c\<close> and to the device
  structures. A claim is the number of its entry in \<open>a_entries\<close>, whose length is \<^verbatim>\<open>used\<close>; an owner is an address, 0 for none.

  The mutex of the authority is held from \<open>blk_authority_enter\<close> to \<open>blk_authority_leave\<close> and within every other
  function of the authority, so each public operation is one step. The driver result is an \<open>int\<close>, 0 for success.
\<close>

subsection \<open>Devices\<close>

datatype dev = Whole nat | Part nat

abbreviation (input) BLK_MAX_DEVICES :: nat where "BLK_MAX_DEVICES \<equiv> 32"
abbreviation (input) BLK_NAME_MAX :: nat where "BLK_NAME_MAX \<equiv> 16"
abbreviation (input) BLK_F_READONLY :: u32 where "BLK_F_READONLY \<equiv> 1"
abbreviation (input) BLK_F_PARTITION :: u32 where "BLK_F_PARTITION \<equiv> 2"
abbreviation (input) BLK_F_REMOVABLE :: u32 where "BLK_F_REMOVABLE \<equiv> 4"
abbreviation (input) BLK_F_MOUNTED :: u32 where "BLK_F_MOUNTED \<equiv> 8"
abbreviation (input) BLK_F_FLUSH :: u32 where "BLK_F_FLUSH \<equiv> 16"
abbreviation (input) BLK_F_DISCARD :: u32 where "BLK_F_DISCARD \<equiv> 32"

record blk_dev =
  d_name :: bytes
  d_sector_size :: u32
  d_sectors :: u64
  d_start_lba :: u64
  d_parent :: "dev option"
  d_flags :: u32
  d_mbr_type :: u8
  d_type_guid :: bytes
  d_index :: u32
  d_read :: nat
  d_write :: nat
  d_flush :: nat
  d_read_async :: nat
  d_priv :: nat
  d_reads :: u64
  d_writes :: u64
  d_write_async :: nat
  d_discard :: nat
  d_control :: nat
  d_driver :: nat
  d_irq_mode :: nat
  d_model :: bytes
  d_serial :: bytes
  d_queue_depth :: u32
  d_max_sectors :: u32
  d_read_ops :: u64
  d_write_ops :: u64
  d_flushes :: u64
  d_discards :: u64
  d_errors :: u64
  d_reg_index :: u32
  d_part_scheme :: u32
  d_scan_notes :: u32
  d_scan_result :: int
  d_storage :: locator
  d_part_name :: bytes

definition has_flag :: "u32 \<Rightarrow> blk_dev \<Rightarrow> bool" where
  "has_flag m x = (d_flags x AND m \<noteq> 0)"

text \<open>What the code behind the driver pointers, the kernel heap and the random generator do.\<close>

type_synonym 'c world = "'c \<times> (dev \<Rightarrow> blk_dev)"

record 'c drivers =
  dv_read :: "nat \<Rightarrow> dev \<Rightarrow> u64 \<Rightarrow> u32 \<Rightarrow> 'c world \<Rightarrow> (int \<times> bytes) \<times> 'c world"
  dv_write :: "nat \<Rightarrow> dev \<Rightarrow> u64 \<Rightarrow> u32 \<Rightarrow> bytes \<Rightarrow> 'c world \<Rightarrow> int \<times> 'c world"
  dv_flush :: "nat \<Rightarrow> dev \<Rightarrow> 'c world \<Rightarrow> int \<times> 'c world"
  dv_discard :: "nat \<Rightarrow> dev \<Rightarrow> u64 \<Rightarrow> u32 \<Rightarrow> 'c world \<Rightarrow> int \<times> 'c world"
  dv_control :: "nat \<Rightarrow> dev \<Rightarrow> u32 \<Rightarrow> u64 \<Rightarrow> 'c world \<Rightarrow> (int \<times> u64) \<times> 'c world"
  dv_read_async :: "nat \<Rightarrow> dev \<Rightarrow> u64 \<Rightarrow> u32 \<Rightarrow> 'c world \<Rightarrow> int \<times> 'c world"
  dv_write_async :: "nat \<Rightarrow> dev \<Rightarrow> u64 \<Rightarrow> u32 \<Rightarrow> bytes \<Rightarrow> 'c world \<Rightarrow> int \<times> 'c world"
  dv_random :: "'c \<Rightarrow> bytes \<times> 'c"
  dv_kmalloc :: "'c \<Rightarrow> bool \<times> 'c"

subsection \<open>The state\<close>

record identity =
  id_whole :: bytes
  id_generation :: u64
  id_sectors :: u64
  id_sector_size :: u32
  id_flags :: u32

record source =
  so_whole :: "dev option"
  so_archive :: "nat option"
  so_identity :: identity

record claim =
  cl_device :: dev
  cl_identity :: identity
  cl_snapshot :: blk_dev
  cl_owner :: nat
  cl_sources :: "source \<times> source"
  cl_poisoned :: bool

record 'c blk =
  k_ctx :: 'c
  k_dev :: "dev \<Rightarrow> blk_dev"
  k_list :: "dev list"
  k_nparts :: nat
  a_entries :: "claim list"
  a_epoch :: u64
  a_boot :: source
  a_system :: source
  a_roles :: nat
  a_origin :: provenance
  a_archive :: ar_table

type_synonym ('c, 'a) blkact = "('c blk, 'a) act"

definition null_source :: source where
  "null_source = \<lparr>so_whole = None, so_archive = None,
     so_identity = \<lparr>id_whole = replicate 16 0, id_generation = 0, id_sectors = 0, id_sector_size = 0, id_flags = 0\<rparr>\<rparr>"

definition upd_dev :: "dev \<Rightarrow> (blk_dev \<Rightarrow> blk_dev) \<Rightarrow> ('c, unit) blkact" where
  "upd_dev d f = upd (\<lambda>s. s\<lparr>k_dev := (k_dev s)(d := f (k_dev s d))\<rparr>)"

definition upd_claim :: "nat \<Rightarrow> (claim \<Rightarrow> claim) \<Rightarrow> ('c, unit) blkact" where
  "upd_claim i f = upd (\<lambda>s. s\<lparr>a_entries := (a_entries s)[i := f (a_entries s ! i)]\<rparr>)"

definition call :: "('c world \<Rightarrow> 'a \<times> 'c world) \<Rightarrow> ('c, 'a) blkact" where
  "call f = (\<lambda>s. case f (k_ctx s, k_dev s) of (r, c, m) \<Rightarrow> (r, s\<lparr>k_ctx := c, k_dev := m\<rparr>))"

subsection \<open>The registry (blk.c)\<close>

definition blk_find :: "'c blk \<Rightarrow> bytes \<Rightarrow> dev option" where
  "blk_find s name = List.find (\<lambda>d. d_name (k_dev s d) = name) (k_list s)"

definition blk_first :: "'c blk \<Rightarrow> dev option" where
  "blk_first s = (case k_list s of [] \<Rightarrow> None | d # _ \<Rightarrow> Some d)"

definition blk_count :: "'c blk \<Rightarrow> nat" where
  "blk_count s = length (k_list s)"

definition blk_get :: "'c blk \<Rightarrow> nat \<Rightarrow> dev option" where
  "blk_get s i = (if i < length (k_list s) then Some (k_list s ! i) else None)"

text \<open>The loop of \<open>blk_whole\<close> (and of \<open>resolve\<close>, which adds up the starts) has no bound; a partition's parent is a whole device, so
  \<open>BLK_MAX_DEVICES\<close> turns are more than enough.\<close>

primrec blk_whole_loop :: "nat \<Rightarrow> (dev \<Rightarrow> blk_dev) \<Rightarrow> dev \<Rightarrow> dev" where
  "blk_whole_loop 0 m d = d"
| "blk_whole_loop (Suc k) m d = (case d_parent (m d) of None \<Rightarrow> d | Some p \<Rightarrow> blk_whole_loop k m p)"

definition blk_whole :: "'c blk \<Rightarrow> dev \<Rightarrow> dev" where
  "blk_whole s d = blk_whole_loop BLK_MAX_DEVICES (k_dev s) d"

definition blk_user_write_busy :: "'c blk \<Rightarrow> dev \<Rightarrow> bool" where
  "blk_user_write_busy s d = (\<exists>x \<in> set (k_list s). has_flag BLK_F_MOUNTED (k_dev s x) \<and>
     (x = d \<or> x = blk_whole s d \<or> blk_whole s x = d))"

definition in_range :: "blk_dev \<Rightarrow> u64 \<Rightarrow> u32 \<Rightarrow> bool" where
  "in_range x lba n = (n \<noteq> 0 \<and> lba < d_sectors x \<and> ucast n \<le> d_sectors x - lba)"

text \<open>At most \<open>BLK_MAX_DEVICES\<close> hops; the result is the whole device and the sector on it.\<close>

primrec io_whole_loop :: "nat \<Rightarrow> (dev \<Rightarrow> blk_dev) \<Rightarrow> dev \<Rightarrow> u64 \<Rightarrow> u32 \<Rightarrow> (dev \<times> u64) option" where
  "io_whole_loop 0 m d lba n = (if d_parent (m d) = None \<and> in_range (m d) lba n then Some (d, lba) else None)"
| "io_whole_loop (Suc k) m d lba n = (case d_parent (m d) of
     None \<Rightarrow> if in_range (m d) lba n then Some (d, lba) else None
   | Some p \<Rightarrow> if \<not> in_range (m d) lba n \<or> 0xFFFFFFFFFFFFFFFF - lba < d_start_lba (m d) then None
       else io_whole_loop k m p (lba + d_start_lba (m d)) n)"

definition io_whole :: "'c blk \<Rightarrow> dev \<Rightarrow> u64 \<Rightarrow> u32 \<Rightarrow> (dev \<times> u64) option" where
  "io_whole s d lba n = io_whole_loop BLK_MAX_DEVICES (k_dev s) d lba n"

primrec resolve_loop :: "nat \<Rightarrow> (dev \<Rightarrow> blk_dev) \<Rightarrow> dev \<Rightarrow> u64 \<Rightarrow> dev \<times> u64" where
  "resolve_loop 0 m d lba = (d, lba)"
| "resolve_loop (Suc k) m d lba = (case d_parent (m d) of None \<Rightarrow> (d, lba) | Some p \<Rightarrow> resolve_loop k m p (lba + d_start_lba (m d)))"

definition resolve :: "'c blk \<Rightarrow> dev \<Rightarrow> u64 \<Rightarrow> dev \<times> u64" where
  "resolve s d lba = resolve_loop BLK_MAX_DEVICES (k_dev s) d lba"

subsection \<open>Entries of the authority (blk\_authority.c)\<close>

definition is_whole :: "blk_dev \<Rightarrow> bool" where
  "is_whole x = (d_parent x = None \<and> \<not> has_flag BLK_F_PARTITION x)"

fun entry_index :: "claim list \<Rightarrow> dev \<Rightarrow> nat \<Rightarrow> nat option" where
  "entry_index [] d i = None"
| "entry_index (e # es) d i = (if cl_device e = d then Some i else entry_index es d (Suc i))"

definition entry :: "'c blk \<Rightarrow> dev \<Rightarrow> nat option" where
  "entry s d = (if \<not> is_whole (k_dev s d) then None else entry_index (a_entries s) d 0)"

primrec whole_loop :: "nat \<Rightarrow> (dev \<Rightarrow> blk_dev) \<Rightarrow> dev \<Rightarrow> dev option" where
  "whole_loop 0 m d = (if d_parent (m d) = None then Some d else None)"
| "whole_loop (Suc k) m d = (case d_parent (m d) of None \<Rightarrow> Some d | Some p \<Rightarrow> whole_loop k m p)"

text \<open>\<open>entry(whole(d))\<close>.\<close>

definition entry_of :: "'c blk \<Rightarrow> dev \<Rightarrow> nat option" where
  "entry_of s d = (case whole_loop BLK_MAX_DEVICES (k_dev s) d of None \<Rightarrow> None | Some w \<Rightarrow> entry s w)"

definition observed :: "'c blk \<Rightarrow> claim \<Rightarrow> bool" where
  "observed s e = (let d = k_dev s (cl_device e); n = cl_snapshot e in
     is_whole d \<and> d_sector_size d = d_sector_size n \<and> d_sectors d = d_sectors n \<and> d_start_lba d = d_start_lba n \<and>
     d_priv d = d_priv n \<and> d_read d = d_read n \<and> d_write d = d_write n \<and> d_flush d = d_flush n \<and>
     d_read_async d = d_read_async n \<and> d_write_async d = d_write_async n \<and> d_discard d = d_discard n \<and> d_control d = d_control n \<and>
     d_storage d = d_storage n \<and> (d_flags d XOR d_flags n) AND NOT BLK_F_MOUNTED = 0)"

definition free_entry :: "'c blk \<Rightarrow> nat option \<Rightarrow> bool" where
  "free_entry s i = (case i of None \<Rightarrow> False
     | Some i \<Rightarrow> observed s (a_entries s ! i) \<and> cl_owner (a_entries s ! i) = 0 \<and> \<not> cl_poisoned (a_entries s ! i))"

definition pin_ok :: "'c blk \<Rightarrow> source \<Rightarrow> bool" where
  "pin_ok s p = (case so_archive p of
     Some a \<Rightarrow> so_whole p = None \<and> id_sector_size (so_identity p) = 1 \<and> id_flags (so_identity p) = 0 \<and>
       archive_source_match a (id_whole (so_identity p)) (id_generation (so_identity p)) (id_sectors (so_identity p)) (a_archive s)
   | None \<Rightarrow> (case so_whole p of None \<Rightarrow> False | Some d \<Rightarrow> (case entry s d of None \<Rightarrow> False
       | Some i \<Rightarrow> free_entry s (Some i) \<and> so_identity p = cl_identity (a_entries s ! i))))"

text \<open>\<open>True\<close> is the 0 of \<open>bump\<close>.\<close>

definition bump :: "nat \<Rightarrow> ('c, bool) blkact" where
  "bump i = look (\<lambda>s. if a_epoch s = 0xFFFFFFFFFFFFFFFF
     then run (upd_claim i (\<lambda>e. e\<lparr>cl_poisoned := True\<rparr>)) (\<lambda>_. ret False)
     else run (upd (\<lambda>s. s\<lparr>a_epoch := a_epoch s + 1\<rparr>)) (\<lambda>_.
          run (upd_claim i (\<lambda>e. e\<lparr>cl_identity := (cl_identity e)\<lparr>id_generation := a_epoch s + 1\<rparr>\<rparr>)) (\<lambda>_. ret True)))"

text \<open>Eight draws of an identity that is not zero and not in use.\<close>

primrec mint :: "nat \<Rightarrow> 'c drivers \<Rightarrow> ('c, bytes option) blkact" where
  "mint 0 v = ret None"
| "mint (Suc n) v = (\<lambda>s. case dv_random v (k_ctx s) of (r, c) \<Rightarrow>
     if (\<exists>b \<in> set r. b \<noteq> 0) \<and> (\<forall>e \<in> set (a_entries s). id_whole (cl_identity e) \<noteq> r)
     then (Some r, s\<lparr>k_ctx := c\<rparr>) else mint n v (s\<lparr>k_ctx := c\<rparr>))"

definition same_unit_used :: "'c blk \<Rightarrow> dev \<Rightarrow> bool" where
  "same_unit_used s d = (shz_storage_locator_valid (d_storage (k_dev s d)) \<and> (\<exists>e \<in> set (a_entries s).
     shz_storage_locator_valid (d_storage (cl_snapshot e)) \<and> same_unit (d_storage (k_dev s d)) (d_storage (cl_snapshot e))))"

definition blk_authority_register :: "'c drivers \<Rightarrow> dev \<Rightarrow> ('c, bool) blkact" where
  "blk_authority_register v d = look (\<lambda>s.
     if \<not> is_whole (k_dev s d) then ret False
     else if length (a_entries s) = BLK_MAX_DEVICES \<or> entry s d \<noteq> None \<or> a_epoch s = 0xFFFFFFFFFFFFFFFF then ret False
     else if same_unit_used s d then ret False
     else run (mint 8 v) (\<lambda>r. case r of None \<Rightarrow> ret False
       | Some w \<Rightarrow> let x = k_dev s d; i = length (a_entries s) in
           run (upd (\<lambda>s. s\<lparr>a_entries := a_entries s @ [\<lparr>cl_device = d,
                   cl_identity = \<lparr>id_whole = w, id_generation = 0, id_sectors = d_sectors x, id_sector_size = d_sector_size x,
                     id_flags = d_flags x AND NOT BLK_F_MOUNTED\<rparr>,
                   cl_snapshot = x, cl_owner = 0, cl_sources = (null_source, null_source), cl_poisoned = False\<rparr>]\<rparr>)) (\<lambda>_.
           run (bump i) (\<lambda>_. ret True))))"

definition protects :: "claim \<Rightarrow> dev \<Rightarrow> bool" where
  "protects e d = (cl_owner e \<noteq> 0 \<and> (so_whole (fst (cl_sources e)) = Some d \<or> so_whole (snd (cl_sources e)) = Some d))"

definition protected_source :: "'c blk \<Rightarrow> dev \<Rightarrow> bool" where
  "protected_source s d = (\<exists>e \<in> set (a_entries s). protects e d)"

definition blk_authority_enter :: "'c blk \<Rightarrow> dev \<Rightarrow> bool \<Rightarrow> bool" where
  "blk_authority_enter s d mutation = (case entry_of s d of None \<Rightarrow> False
     | Some i \<Rightarrow> free_entry s (Some i) \<and> \<not> (mutation \<and> protected_source s (cl_device (a_entries s ! i))))"

definition blk_authority_leave :: "dev \<Rightarrow> int \<Rightarrow> bool \<Rightarrow> ('c, unit) blkact" where
  "blk_authority_leave d result changed = look (\<lambda>s. case entry_of s d of None \<Rightarrow> ret ()
     | Some i \<Rightarrow> if result \<noteq> 0 \<or> changed then run (bump i) (\<lambda>_. ret ()) else ret ())"

definition blk_authority_mark_mounted :: "dev \<Rightarrow> ('c, bool) blkact" where
  "blk_authority_mark_mounted d = look (\<lambda>s. if \<not> blk_authority_enter s d True then ret False
     else run (upd_dev d (\<lambda>x. x\<lparr>d_flags := d_flags x OR BLK_F_MOUNTED\<rparr>)) (\<lambda>_.
          run (blk_authority_leave d 0 False) (\<lambda>_. ret True)))"

subsection \<open>Registration\<close>

definition blk_register :: "'c drivers \<Rightarrow> dev \<Rightarrow> ('c, bool) blkact" where
  "blk_register v d = look (\<lambda>s. let x = k_dev s d in
     if d_name x = [] \<or> d_sector_size x = 0 \<or> d_sectors x = 0 \<or> d_read x = 0 \<or> blk_find s (d_name x) \<noteq> None then ret False
     else run (if is_whole x then blk_authority_register v d else ret True) (\<lambda>good.
       if \<not> good then ret False
       else run (upd_dev d (\<lambda>x. x\<lparr>d_reg_index := of_nat (length (k_list s))\<rparr>)) (\<lambda>_.
            run (upd (\<lambda>s. s\<lparr>k_list := k_list s @ [d]\<rparr>)) (\<lambda>_.
            run (whenA (\<not> has_flag BLK_F_PARTITION x) (upd_dev d (\<lambda>x. x\<lparr>d_scan_result := -1\<rparr>))) (\<lambda>_. ret True)))))"

subsection \<open>Input and output\<close>

text \<open>The counters: on success those of the device and, when it differs, of the whole device; on failure the errors of the device.\<close>

definition count_read :: "dev \<Rightarrow> dev option \<Rightarrow> u32 \<Rightarrow> int \<Rightarrow> ('c, unit) blkact" where
  "count_read d w n rc = (if rc = 0
     then let f = (\<lambda>x. x\<lparr>d_reads := d_reads x + ucast n, d_read_ops := d_read_ops x + 1\<rparr>) in
       run (upd_dev d f) (\<lambda>_. case w of None \<Rightarrow> ret () | Some w \<Rightarrow> whenA (w \<noteq> d) (upd_dev w f))
     else upd_dev d (\<lambda>x. x\<lparr>d_errors := d_errors x + 1\<rparr>))"

definition count_write :: "dev \<Rightarrow> dev option \<Rightarrow> u32 \<Rightarrow> int \<Rightarrow> ('c, unit) blkact" where
  "count_write d w n rc = (if rc = 0
     then let f = (\<lambda>x. x\<lparr>d_writes := d_writes x + ucast n, d_write_ops := d_write_ops x + 1\<rparr>) in
       run (upd_dev d f) (\<lambda>_. case w of None \<Rightarrow> ret () | Some w \<Rightarrow> whenA (w \<noteq> d) (upd_dev w f))
     else upd_dev d (\<lambda>x. x\<lparr>d_errors := d_errors x + 1\<rparr>))"

definition blk_read :: "'c drivers \<Rightarrow> dev \<Rightarrow> u64 \<Rightarrow> u32 \<Rightarrow> ('c, int \<times> bytes) blkact" where
  "blk_read v d lba n = look (\<lambda>s.
     if \<not> in_range (k_dev s d) lba n \<or> \<not> blk_authority_enter s d False then ret (-1, [])
     else let w = io_whole s d lba n in
       run (case w of None \<Rightarrow> ret (-1, []) | Some (w, at) \<Rightarrow> call (dv_read v (d_read (k_dev s w)) w at n)) (\<lambda>(rc, buf).
       run (count_read d (map_option fst w) n rc) (\<lambda>_.
       run (blk_authority_leave d rc False) (\<lambda>_. ret (rc, buf)))))"

definition blk_write :: "'c drivers \<Rightarrow> dev \<Rightarrow> u64 \<Rightarrow> u32 \<Rightarrow> bytes \<Rightarrow> ('c, int) blkact" where
  "blk_write v d lba n buf = look (\<lambda>s. let x = k_dev s d in
     if d_write x = 0 \<or> has_flag BLK_F_READONLY x \<or> \<not> in_range x lba n \<or> \<not> blk_authority_enter s d True then ret (-1)
     else let w = io_whole s d lba n in
       run (case w of None \<Rightarrow> ret (-1)
            | Some (w, at) \<Rightarrow> if d_write (k_dev s w) \<noteq> 0 \<and> \<not> has_flag BLK_F_READONLY (k_dev s w)
                then call (dv_write v (d_write (k_dev s w)) w at n buf) else ret (-1)) (\<lambda>rc.
       run (count_write d (map_option fst w) n rc) (\<lambda>_.
       run (blk_authority_leave d rc True) (\<lambda>_. ret rc))))"

definition blk_flush :: "'c drivers \<Rightarrow> dev \<Rightarrow> ('c, int) blkact" where
  "blk_flush v d = look (\<lambda>s. if \<not> blk_authority_enter s d True then ret (-1)
     else let w = blk_whole s d in
       run (if d_flush (k_dev s w) \<noteq> 0 then call (dv_flush v (d_flush (k_dev s w)) w) else ret 0) (\<lambda>rc.
       run (upd_dev d (\<lambda>x. if rc = 0 then x\<lparr>d_flushes := d_flushes x + 1\<rparr> else x\<lparr>d_errors := d_errors x + 1\<rparr>)) (\<lambda>_.
       run (blk_authority_leave d rc False) (\<lambda>_. ret rc))))"

definition blk_discard :: "'c drivers \<Rightarrow> dev \<Rightarrow> u64 \<Rightarrow> u32 \<Rightarrow> ('c, int) blkact" where
  "blk_discard v d lba n = look (\<lambda>s. let x = k_dev s d; (w, at) = resolve s d lba in
     if \<not> in_range x lba n \<or> has_flag BLK_F_READONLY x then ret (-1)
     else if d_discard (k_dev s w) = 0 \<or> \<not> blk_authority_enter s d True then ret (-1)
     else run (call (dv_discard v (d_discard (k_dev s w)) w at n)) (\<lambda>rc.
          run (upd_dev d (\<lambda>x. if rc = 0 then x\<lparr>d_discards := d_discards x + 1\<rparr> else x\<lparr>d_errors := d_errors x + 1\<rparr>)) (\<lambda>_.
          run (blk_authority_leave d rc True) (\<lambda>_. ret rc))))"

definition blk_control :: "'c drivers \<Rightarrow> dev \<Rightarrow> u32 \<Rightarrow> u64 \<Rightarrow> ('c, int \<times> u64) blkact" where
  "blk_control v d op' arg = look (\<lambda>s. let w = blk_whole s d in
     if d_control (k_dev s w) = 0 then ret (-2, 0)
     else if \<not> blk_authority_enter s d True then ret (-1, 0)
     else run (call (dv_control v (d_control (k_dev s w)) w op' arg)) (\<lambda>(rc, out).
          run (blk_authority_leave d rc True) (\<lambda>_. ret (rc, out))))"

text \<open>An asynchronous request is refused, queued with the driver, or done at once; \<open>done\<close> is then called with the result.\<close>

datatype async = Refused | Queued | Done int bytes

definition async_enter :: "dev \<Rightarrow> bool \<Rightarrow> ('c, bool) blkact" where
  "async_enter d mutation = look (\<lambda>s. if \<not> blk_authority_enter s d mutation then ret False
     else run (blk_authority_leave d 0 False) (\<lambda>_. ret True))"

definition blk_read_async :: "'c drivers \<Rightarrow> dev \<Rightarrow> u64 \<Rightarrow> u32 \<Rightarrow> ('c, async) blkact" where
  "blk_read_async v d lba n = look (\<lambda>s. let (w, at) = resolve s d lba; f = d_read_async (k_dev s w) in
     if \<not> in_range (k_dev s d) lba n then ret Refused
     else run (if f \<noteq> 0 then async_enter d False else ret True) (\<lambda>good.
       if \<not> good then ret Refused
       else run (if f \<noteq> 0 then call (dv_read_async v f w at n) else ret (-1)) (\<lambda>rc.
         if f \<noteq> 0 \<and> rc = 0
         then run (upd_dev d (\<lambda>x. x\<lparr>d_reads := d_reads x + ucast n, d_read_ops := d_read_ops x + 1\<rparr>)) (\<lambda>_. ret Queued)
         else run (blk_read v d lba n) (\<lambda>(rc, buf). ret (Done rc buf)))))"

definition blk_write_async :: "'c drivers \<Rightarrow> dev \<Rightarrow> u64 \<Rightarrow> u32 \<Rightarrow> bytes \<Rightarrow> ('c, async) blkact" where
  "blk_write_async v d lba n buf = look (\<lambda>s. let x = k_dev s d; (w, at) = resolve s d lba; f = d_write_async (k_dev s w) in
     if d_write x = 0 \<or> has_flag BLK_F_READONLY x \<or> \<not> in_range x lba n then ret Refused
     else run (if f \<noteq> 0 then async_enter d True else ret True) (\<lambda>good.
       if \<not> good then ret Refused
       else run (if f \<noteq> 0 then call (dv_write_async v f w at n buf) else ret (-1)) (\<lambda>rc.
         if f \<noteq> 0 \<and> rc = 0
         then run (upd_dev d (\<lambda>x. x\<lparr>d_writes := d_writes x + ucast n, d_write_ops := d_write_ops x + 1\<rparr>)) (\<lambda>_. ret Queued)
         else run (blk_write v d lba n buf) (\<lambda>rc. ret (Done rc [])))))"

subsection \<open>Partition devices\<close>

text \<open>The numbers of the functions \<open>part_read\<close>, \<open>part_write\<close> and \<open>part_flush\<close>. They forward to the parent; the input and output
  functions resolve a partition themselves and never call them.\<close>

abbreviation (input) PART_READ :: nat where "PART_READ \<equiv> 1"
abbreviation (input) PART_WRITE :: nat where "PART_WRITE \<equiv> 2"
abbreviation (input) PART_FLUSH :: nat where "PART_FLUSH \<equiv> 3"

definition part_read :: "'c drivers \<Rightarrow> dev \<Rightarrow> u64 \<Rightarrow> u32 \<Rightarrow> ('c, int \<times> bytes) blkact" where
  "part_read v d lba n = look (\<lambda>s. case d_parent (k_dev s d) of None \<Rightarrow> ret (-1, [])
     | Some p \<Rightarrow> blk_read v p (d_start_lba (k_dev s d) + lba) n)"

definition part_write :: "'c drivers \<Rightarrow> dev \<Rightarrow> u64 \<Rightarrow> u32 \<Rightarrow> bytes \<Rightarrow> ('c, int) blkact" where
  "part_write v d lba n buf = look (\<lambda>s. case d_parent (k_dev s d) of None \<Rightarrow> ret (-1)
     | Some p \<Rightarrow> blk_write v p (d_start_lba (k_dev s d) + lba) n buf)"

definition part_flush :: "'c drivers \<Rightarrow> dev \<Rightarrow> ('c, int) blkact" where
  "part_flush v d = look (\<lambda>s. case d_parent (k_dev s d) of None \<Rightarrow> ret (-1) | Some p \<Rightarrow> blk_flush v p)"

definition part_dev_name :: "bytes \<Rightarrow> u32 \<Rightarrow> bytes" where
  "part_dev_name name i = take (BLK_NAME_MAX - 4) name @ [0x70] @
     (if 10 \<le> i then [0x30 + ucast (i div 10 mod 10)] else []) @ [0x30 + ucast (i mod 10)]"

definition zero_locator :: locator where
  "zero_locator = \<lparr>l_version = 0, l_size = 0, l_transport = 0, l_reserved0 = 0, l_segment = 0, l_bus = 0, l_device = 0, l_function = 0,
     l_reserved1 = 0, l_unit = 0, l_multiplier = 0, l_lun = 0, l_sectors = 0, l_block_size = 0, l_media_id = 0,
     l_namespace_eui = replicate 8 0, l_media_flags = 0, l_reserved2 = 0\<rparr>"

definition part_dev :: "dev \<Rightarrow> blk_dev \<Rightarrow> blk_part \<Rightarrow> blk_dev" where
  "part_dev whole x bp = \<lparr>d_name = part_dev_name (d_name x) (p_index bp), d_sector_size = d_sector_size x, d_sectors = p_sectors bp,
     d_start_lba = p_start bp, d_parent = Some whole,
     d_flags = BLK_F_PARTITION OR (d_flags x AND (BLK_F_READONLY OR BLK_F_REMOVABLE OR BLK_F_FLUSH OR BLK_F_DISCARD)),
     d_mbr_type = (if p_scheme bp = PART_SCHEME_GPT then 0xEE else p_mbr_type bp), d_type_guid = p_type_guid bp, d_index = p_index bp,
     d_read = PART_READ, d_write = (if d_write x \<noteq> 0 then PART_WRITE else 0), d_flush = PART_FLUSH, d_read_async = 0, d_priv = 0,
     d_reads = 0, d_writes = 0, d_write_async = 0, d_discard = 0, d_control = 0, d_driver = d_driver x, d_irq_mode = d_irq_mode x,
     d_model = d_model x, d_serial = d_serial x, d_queue_depth = d_queue_depth x, d_max_sectors = d_max_sectors x,
     d_read_ops = 0, d_write_ops = 0, d_flushes = 0, d_discards = 0, d_errors = 0, d_reg_index = 0, d_part_scheme = p_scheme bp,
     d_scan_notes = 0, d_scan_result = 0, d_storage = zero_locator, d_part_name = p_name bp\<rparr>"

definition add_partition :: "'c drivers \<Rightarrow> dev \<Rightarrow> blk_part \<Rightarrow> ('c, dev option) blkact" where
  "add_partition v whole bp = look (\<lambda>s. let x = k_dev s whole; p = Part (k_nparts s) in
     if BLK_MAX_DEVICES \<le> k_nparts s \<or> p_sectors bp = 0 \<or> d_sectors x \<le> p_start bp \<or> d_sectors x - p_start bp < p_sectors bp then ret None
     else run (upd_dev p (\<lambda>_. part_dev whole x bp)) (\<lambda>_. run (blk_register v p) (\<lambda>good.
       if \<not> good then ret None
       else run (upd (\<lambda>s. s\<lparr>k_nparts := k_nparts s + 1\<rparr>)) (\<lambda>_. ret (Some p)))))"

primrec add_partitions :: "'c drivers \<Rightarrow> dev \<Rightarrow> blk_part list \<Rightarrow> nat \<Rightarrow> ('c, nat) blkact" where
  "add_partitions v whole [] found = ret found"
| "add_partitions v whole (bp # bps) found = run (add_partition v whole bp) (\<lambda>r. add_partitions v whole bps (if r \<noteq> None then found + 1 else found))"

text \<open>The scanner runs with the state of the registry as its callback context; \<open>kmalloc\<close> is called twice.\<close>

definition scan_dev_of :: "'c drivers \<Rightarrow> dev \<Rightarrow> blk_dev \<Rightarrow> 'c blk scan_dev" where
  "scan_dev_of v whole x = \<lparr>sd_read = (\<lambda>s lba n. case blk_read v whole lba n s of ((rc, buf), s') \<Rightarrow> (if rc = 0 then Some buf else None, s')),
     sd_ss = d_sector_size x, sd_sectors = d_sectors x, sd_max = 16\<rparr>"

definition superfloppy :: "blk_dev \<Rightarrow> bytes \<Rightarrow> bool" where
  "superfloppy x b = (byte_at b 510 = 0x55 \<and> byte_at b 511 = 0xAA \<and> (byte_at b 0 = 0xEB \<or> byte_at b 0 = 0xE9) \<and>
     ucast (rd16 b 11) = d_sector_size x \<and> byte_at b 13 \<noteq> 0 \<and> byte_at b 13 AND (byte_at b 13 - 1) = 0)"

definition kmalloc :: "'c drivers \<Rightarrow> ('c, bool) blkact" where
  "kmalloc v = (\<lambda>s. case dv_kmalloc v (k_ctx s) of (r, c) \<Rightarrow> (r, s\<lparr>k_ctx := c\<rparr>))"

definition scan_found :: "'c drivers \<Rightarrow> dev \<Rightarrow> ('c, int) blkact" where
  "scan_found v whole = (\<lambda>s. case blk_part_scan (scan_dev_of v whole (k_dev s whole)) s of (r, tab, notes, s) \<Rightarrow>
     run (upd_dev whole (\<lambda>x. x\<lparr>d_scan_notes := notes, d_scan_result := (case r of None \<Rightarrow> -1 | Some n \<Rightarrow> int n)\<rparr>)) (\<lambda>_.
     run (case r of None \<Rightarrow> ret 0 | Some n \<Rightarrow> add_partitions v whole (take n tab) 0) (\<lambda>found.
     ret (case r of None \<Rightarrow> if notes AND PSCAN_READ_ERROR \<noteq> 0 then -1 else 0 | Some _ \<Rightarrow> int found))) s)"

definition blk_scan_partitions :: "'c drivers \<Rightarrow> dev \<Rightarrow> ('c, int) blkact" where
  "blk_scan_partitions v whole = look (\<lambda>s. let x = k_dev s whole in
     if has_flag BLK_F_PARTITION x \<or> d_sector_size x < 512 \<or> 4096 < d_sector_size x then ret 0
     else run (kmalloc v) (\<lambda>a. run (kmalloc v) (\<lambda>b.
       if \<not> a \<or> \<not> b then ret (-1)
       else run (blk_read v whole 0 1) (\<lambda>(rc, buf).
         if rc \<noteq> 0 then ret (-1)
         else look (\<lambda>s. if superfloppy (k_dev s whole) buf
           then run (upd_dev whole (\<lambda>x. x\<lparr>d_scan_result := 0\<rparr>)) (\<lambda>_. ret 0)
           else scan_found v whole)))))"

subsection \<open>Roles, pins and claims\<close>

text \<open>\<open>True\<close> is 0, \<open>False\<close> is -1.\<close>

definition blk_authority_bind_boot_roles :: "dev \<Rightarrow> dev \<Rightarrow> ('c, bool) blkact" where
  "blk_authority_bind_boot_roles boot system = look (\<lambda>s. case (entry_of s boot, entry_of s system) of
       (Some a, Some b) \<Rightarrow> if a_roles s \<noteq> 0 \<or> (\<exists>e \<in> set (a_entries s). cl_owner e \<noteq> 0) \<or> \<not> observed s (a_entries s ! a) \<or> \<not> observed s (a_entries s ! b)
         then ret False
         else run (upd (\<lambda>s. s\<lparr>
                a_boot := (a_boot s)\<lparr>so_whole := Some (cl_device (a_entries s ! a)), so_identity := cl_identity (a_entries s ! a)\<rparr>,
                a_system := (a_system s)\<lparr>so_whole := Some (cl_device (a_entries s ! b)), so_identity := cl_identity (a_entries s ! b)\<rparr>,
                a_roles := 1\<rparr>)) (\<lambda>_. ret True)
     | _ \<Rightarrow> ret False)"

definition blk_authority_pin_source :: "'c blk \<Rightarrow> dev \<Rightarrow> source option" where
  "blk_authority_pin_source s d = (case entry_of s d of None \<Rightarrow> None
     | Some i \<Rightarrow> if free_entry s (Some i)
         then Some \<lparr>so_whole = Some (cl_device (a_entries s ! i)), so_archive = None, so_identity = cl_identity (a_entries s ! i)\<rparr>
         else None)"

definition blk_authority_bind_archive_origin :: "('c, bool) blkact" where
  "blk_authority_bind_archive_origin = look (\<lambda>s. case archive_source_origin (a_archive s) of None \<Rightarrow> ret False
     | Some pr \<Rightarrow> if l_block_size (pr_boot pr) \<noteq> 2048 \<or> l_media_flags (pr_boot pr) \<noteq> 3 then ret False
         else if (\<exists>e \<in> set (a_entries s). cl_owner e \<noteq> 0) \<or> a_roles s \<noteq> 0 then ret False
         else run (upd (\<lambda>s. s\<lparr>a_origin := pr, a_roles := 2\<rparr>)) (\<lambda>_. ret True))"

definition blk_authority_pin_archive :: "'c blk \<Rightarrow> nat \<Rightarrow> nat \<Rightarrow> ar_info \<Rightarrow> source option" where
  "blk_authority_pin_archive s owner cap review = (case archive_source_info owner cap review (a_archive s) of None \<Rightarrow> None
     | Some info \<Rightarrow> Some \<lparr>so_whole = None, so_archive = Some cap,
         so_identity = \<lparr>id_whole = ai_id info, id_generation = ai_generation info, id_sectors = ai_bytes info, id_sector_size = 1, id_flags = 0\<rparr>\<rparr>)"

definition roles_ok :: "'c blk \<Rightarrow> bool" where
  "roles_ok s = (if a_roles s = 1 then pin_ok s (a_boot s) \<and> pin_ok s (a_system s)
     else a_roles s = 2 \<and> archive_source_origin (a_archive s) = Some (a_origin s))"

definition target_excluded :: "'c blk \<Rightarrow> dev \<Rightarrow> bool" where
  "target_excluded s d = (let x = k_dev s d in
     if a_roles s = 1 then Some d = so_whole (a_boot s) \<or> Some d = so_whole (a_system s)
     else a_roles s \<noteq> 2 \<or> \<not> shz_storage_locator_valid (d_storage x) \<or> l_sectors (d_storage x) \<noteq> d_sectors x \<or>
       l_block_size (d_storage x) \<noteq> d_sector_size x \<or> same_unit (pr_boot (a_origin s)) (d_storage x))"

definition source_async :: "'c blk \<Rightarrow> source \<Rightarrow> bool" where
  "source_async s p = (case so_whole p of None \<Rightarrow> False | Some d \<Rightarrow> d_read_async (k_dev s d) \<noteq> 0 \<or> d_write_async (k_dev s d) \<noteq> 0)"

definition retain_source :: "nat \<Rightarrow> source \<Rightarrow> ('c, bool) blkact" where
  "retain_source owner p = (\<lambda>s. case so_archive p of None \<Rightarrow> (True, s)
     | Some a \<Rightarrow> (case archive_source_retain owner a (id_whole (so_identity p)) (id_generation (so_identity p)) (id_sectors (so_identity p)) (a_archive s) of
         (r, t) \<Rightarrow> (r, s\<lparr>a_archive := t\<rparr>)))"

definition release_source :: "source \<Rightarrow> ('c, unit) blkact" where
  "release_source p = upd (\<lambda>s. case so_archive p of None \<Rightarrow> s
     | Some a \<Rightarrow> s\<lparr>a_archive := archive_source_release a (id_whole (so_identity p)) (id_generation (so_identity p)) (a_archive s)\<rparr>)"

definition eligible :: "'c blk \<Rightarrow> nat option \<Rightarrow> source \<times> source \<Rightarrow> bool" where
  "eligible s i src = (case i of None \<Rightarrow> False | Some j \<Rightarrow> let d = cl_device (a_entries s ! j); x = k_dev s d in
     free_entry s i \<and> \<not> protected_source s d \<and> d_sector_size x = 512 \<and> d_write x \<noteq> 0 \<and> d_flush x \<noteq> 0 \<and> has_flag BLK_F_FLUSH x \<and>
     \<not> has_flag (BLK_F_READONLY OR BLK_F_PARTITION OR BLK_F_REMOVABLE) x \<and> d_start_lba x = 0 \<and> d_read_async x = 0 \<and> d_write_async x = 0 \<and>
     \<not> blk_user_write_busy s d \<and> roles_ok s \<and> \<not> target_excluded s d \<and> pin_ok s (fst src) \<and> pin_ok s (snd src) \<and>
     Some d \<noteq> so_whole (a_boot s) \<and> Some d \<noteq> so_whole (a_system s) \<and> Some d \<noteq> so_whole (fst src) \<and> Some d \<noteq> so_whole (snd src) \<and>
     \<not> source_async s (fst src) \<and> \<not> source_async s (snd src))"

definition blk_authority_review :: "'c blk \<Rightarrow> dev \<Rightarrow> source \<times> source \<Rightarrow> identity option" where
  "blk_authority_review s d src = (case entry s d of None \<Rightarrow> None
     | Some i \<Rightarrow> if eligible s (Some i) src then Some (cl_identity (a_entries s ! i)) else None)"

text \<open>The result is the claim's number.\<close>

definition blk_authority_claim_target :: "nat \<Rightarrow> dev \<Rightarrow> identity \<Rightarrow> source \<times> source \<Rightarrow> ('c, nat option) blkact" where
  "blk_authority_claim_target owner d review src = look (\<lambda>s. case entry s d of None \<Rightarrow> ret None
     | Some i \<Rightarrow> if owner = 0 \<or> \<not> eligible s (Some i) src \<or> review \<noteq> cl_identity (a_entries s ! i) then ret None
         else run (retain_source owner (fst src)) (\<lambda>first. if \<not> first then ret None
         else run (retain_source owner (snd src)) (\<lambda>second. if \<not> second then run (release_source (fst src)) (\<lambda>_. ret None)
         else run (upd_claim i (\<lambda>e. e\<lparr>cl_owner := owner, cl_sources := src\<rparr>)) (\<lambda>_. ret (Some i)))))"

definition held :: "'c blk \<Rightarrow> nat \<Rightarrow> nat \<Rightarrow> identity \<Rightarrow> bool" where
  "held s owner c ident = (c < length (a_entries s) \<and> (let e = a_entries s ! c in
     owner \<noteq> 0 \<and> cl_owner e = owner \<and> \<not> cl_poisoned e \<and> observed s e \<and> ident = cl_identity e \<and>
     roles_ok s \<and> \<not> target_excluded s (cl_device e) \<and> pin_ok s (fst (cl_sources e)) \<and> pin_ok s (snd (cl_sources e)) \<and>
     Some (cl_device e) \<noteq> so_whole (a_boot s) \<and> Some (cl_device e) \<noteq> so_whole (a_system s) \<and> \<not> blk_user_write_busy s (cl_device e)))"

definition blk_authority_check :: "'c blk \<Rightarrow> nat \<Rightarrow> nat \<Rightarrow> identity \<Rightarrow> bool" where
  "blk_authority_check s owner c ident = held s owner c ident"

text \<open>The poisoning after a driver call: an error, or a device that no longer looks as registered.\<close>

definition after_io :: "nat \<Rightarrow> int \<Rightarrow> ('c, int) blkact" where
  "after_io c rc = run (whenA (rc \<noteq> 0) (upd_claim c (\<lambda>e. e\<lparr>cl_poisoned := True\<rparr>))) (\<lambda>_. look (\<lambda>s.
     if \<not> observed s (a_entries s ! c) then run (upd_claim c (\<lambda>e. e\<lparr>cl_poisoned := True\<rparr>)) (\<lambda>_. ret (-1)) else ret rc))"

definition io_refused :: "'c blk \<Rightarrow> nat \<Rightarrow> nat \<Rightarrow> identity \<Rightarrow> u64 \<Rightarrow> u32 \<Rightarrow> bool" where
  "io_refused s owner c ident lba n = (\<not> held s owner c ident \<or> n = 0 \<or> 2048 < n \<or>
     (let x = k_dev s (cl_device (a_entries s ! c)) in d_sectors x \<le> lba \<or> d_sectors x - lba < ucast n))"

definition blk_authority_read :: "'c drivers \<Rightarrow> nat \<Rightarrow> nat \<Rightarrow> identity \<Rightarrow> u64 \<Rightarrow> u32 \<Rightarrow> ('c, int \<times> bytes) blkact" where
  "blk_authority_read v owner c ident lba n = look (\<lambda>s. if io_refused s owner c ident lba n then ret (-1, [])
     else let d = cl_device (a_entries s ! c) in
       run (call (dv_read v (d_read (k_dev s d)) d lba n)) (\<lambda>(rc, buf). run (after_io c rc) (\<lambda>rc. ret (rc, buf))))"

definition blk_authority_write :: "'c drivers \<Rightarrow> nat \<Rightarrow> nat \<Rightarrow> identity \<Rightarrow> u64 \<Rightarrow> u32 \<Rightarrow> bytes \<Rightarrow> ('c, int) blkact" where
  "blk_authority_write v owner c ident lba n buf = look (\<lambda>s. if io_refused s owner c ident lba n then ret (-1)
     else let d = cl_device (a_entries s ! c) in run (call (dv_write v (d_write (k_dev s d)) d lba n buf)) (after_io c))"

definition blk_authority_flush :: "'c drivers \<Rightarrow> nat \<Rightarrow> nat \<Rightarrow> identity \<Rightarrow> ('c, int) blkact" where
  "blk_authority_flush v owner c ident = look (\<lambda>s. if \<not> held s owner c ident then ret (-1)
     else let d = cl_device (a_entries s ! c) in run (call (dv_flush v (d_flush (k_dev s d)) d)) (\<lambda>rc. look (\<lambda>s.
       if rc \<noteq> 0 \<or> \<not> observed s (a_entries s ! c) then run (upd_claim c (\<lambda>e. e\<lparr>cl_poisoned := True\<rparr>)) (\<lambda>_. ret (-1)) else ret rc)))"

definition blk_authority_release :: "nat \<Rightarrow> nat \<Rightarrow> identity \<Rightarrow> ('c, bool) blkact" where
  "blk_authority_release owner c ident = look (\<lambda>s. let e = a_entries s ! c in
     if c < length (a_entries s) \<and> owner \<noteq> 0 \<and> cl_owner e = owner \<and> \<not> cl_poisoned e \<and> observed s e \<and> ident = cl_identity e
     then run (bump c) (\<lambda>good. if \<not> good then ret False
       else run (release_source (fst (cl_sources e))) (\<lambda>_. run (release_source (snd (cl_sources e))) (\<lambda>_.
            run (upd_claim c (\<lambda>e. e\<lparr>cl_owner := 0\<rparr>)) (\<lambda>_. ret True))))
     else ret False)"

end
