(* ===== verification/Blk_Authority.thy ===== *)
theory Blk_Authority
  imports Blk_Dev
begin

unbundle bit_operations_syntax

section \<open>Custody of block devices\<close>

text \<open>
  What the authority guarantees over every history of operations, whatever the drivers do. The locale \<open>blk_frame\<close> collects what the ordinary
  operations are made of; it is interpreted with the relation \<open>custody\<close>, which says how the table of claims may evolve. \<open>blk_step\<close> has
  one rule for every public operation.
\<close>

subsection \<open>The ordinary operations\<close>

locale blk_frame = frame_rel R for R :: "'c blk \<Rightarrow> 'c blk \<Rightarrow> bool" +
  fixes v :: "'c drivers"
  assumes dev_frame: "keeps R (upd_dev d f)"
    and call_frame: "\<And>h :: 'c world \<Rightarrow> int \<times> 'c world. keeps R (call h)"
    and call_read_frame: "\<And>h :: 'c world \<Rightarrow> (int \<times> bytes) \<times> 'c world. keeps R (call h)"
    and call_control_frame: "\<And>h :: 'c world \<Rightarrow> (int \<times> u64) \<times> 'c world. keeps R (call h)"
    and kmalloc_frame: "keeps R (kmalloc v)"
    and list_frame: "keeps R (upd (\<lambda>s. s\<lparr>k_list := k_list s @ [d]\<rparr>))"
    and nparts_frame: "keeps R (upd (\<lambda>s. s\<lparr>k_nparts := k_nparts s + 1\<rparr>))"
    and bump_frame: "keeps R (bump i)"
    and poison_frame: "keeps R (upd_claim i (\<lambda>e. e\<lparr>cl_poisoned := True\<rparr>))"
    and enrol_frame: "keeps R (blk_authority_register v d)"
begin

lemmas parts = dev_frame call_frame call_read_frame call_control_frame kmalloc_frame list_frame nparts_frame bump_frame poison_frame
  enrol_frame keeps_rules

lemma frame_holds: "keeps R m \<Longrightarrow> R s (snd (m s))"
  by (rule keeps_app)

lemma leave_frame: "keeps R (blk_authority_leave d rc b)"
  unfolding blk_authority_leave_def by (intro parts)

lemma count_frame: "keeps R (count_read d w n rc)" "keeps R (count_write d w n rc)"
  unfolding count_read_def count_write_def by (intro parts)+

lemma mark_frame: "keeps R (blk_authority_mark_mounted d)"
  unfolding blk_authority_mark_mounted_def by (intro parts leave_frame)

lemma register_frame: "keeps R (blk_register v d)"
  unfolding blk_register_def by (intro parts)

lemma read_frame: "keeps R (blk_read v d lba n)"
  unfolding blk_read_def by (intro parts leave_frame count_frame)

lemma write_frame: "keeps R (blk_write v d lba n buf)"
  unfolding blk_write_def by (intro parts leave_frame count_frame)

lemma flush_frame: "keeps R (blk_flush v d)"
  unfolding blk_flush_def by (intro parts leave_frame)

lemma discard_frame: "keeps R (blk_discard v d lba n)"
  unfolding blk_discard_def by (intro parts leave_frame)

lemma control_frame: "keeps R (blk_control v d op' arg)"
  unfolding blk_control_def by (intro parts leave_frame)

lemma async_frame: "keeps R (blk_read_async v d lba n)" "keeps R (blk_write_async v d lba n buf)"
  unfolding blk_read_async_def blk_write_async_def async_enter_def by (intro parts leave_frame read_frame write_frame)+

lemma part_frame: "keeps R (part_read v d lba n)" "keeps R (part_write v d lba n buf)" "keeps R (part_flush v d)"
  unfolding part_read_def part_write_def part_flush_def by (intro parts read_frame write_frame flush_frame)+

lemma add_partitions_frame: "keeps R (add_partitions v d bps found)"
  by (induction bps arbitrary: found) (auto simp: add_partition_def intro!: parts register_frame)

text \<open>The scanner reads through \<open>blk_read\<close>.\<close>

lemma scan_frame: "keeps R (blk_scan_partitions v d)"
proof -
  have "reads_in R (scan_dev_of v d x)" for x
    using read_frame unfolding reads_in_def scan_dev_of_def keeps_def
    by (auto intro!: reflpI transpI R_refl intro: R_trans simp: case_prod_beta)
  hence scan: "R s (snd (snd (snd (blk_part_scan (scan_dev_of v d x) s))))" for s x
    by (rule scan_reads)
  have "keeps R (scan_found v d)"
    unfolding keeps_def
  proof
    fix s
    obtain r tab nt s' where b: "blk_part_scan (scan_dev_of v d (k_dev s d)) s = (r, tab, nt, s')"
      by (metis prod_cases4)
    have "R s s'"
      using scan[of s "k_dev s d"] by (simp add: b)
    thus "R s (snd (scan_found v d s))"
      unfolding scan_found_def b prod.case by (rule R_trans[OF _ frame_holds]) (intro parts add_partitions_frame)
  qed
  thus ?thesis
    unfolding blk_scan_partitions_def by (intro parts read_frame)
qed

lemma authority_io_frame:
  "keeps R (blk_authority_read v ow c ident lba n)" "keeps R (blk_authority_write v ow c ident lba n buf)"
  "keeps R (blk_authority_flush v ow c ident)"
  unfolding blk_authority_read_def blk_authority_write_def blk_authority_flush_def after_io_def by (intro parts)+

end

subsection \<open>The table of claims\<close>

text \<open>
  The invariant: devices, identities and generations are unique; no generation is ahead of the epoch; a claimed device is neither a source of
  a claim nor a device the system was started from.
\<close>

definition uniq_inv :: "claim list \<Rightarrow> u64 \<Rightarrow> bool" where
  "uniq_inv es ep = (length es \<le> BLK_MAX_DEVICES \<and> distinct (map cl_device es) \<and> distinct (map (\<lambda>e. id_whole (cl_identity e)) es) \<and>
     distinct (map (\<lambda>e. id_generation (cl_identity e)) es) \<and>
     (\<forall>i < length es. id_generation (cl_identity (es ! i)) \<le> ep \<and> id_generation (cl_identity (es ! i)) \<noteq> 0))"

definition custody_inv :: "claim list \<Rightarrow> dev option set \<Rightarrow> bool" where
  "custody_inv es roles = (\<forall>i < length es. cl_owner (es ! i) \<noteq> 0 \<longrightarrow> Some (cl_device (es ! i)) \<notin> roles \<and>
     (\<forall>j < length es. \<not> protects (es ! j) (cl_device (es ! i))))"

definition role_devs :: "'c blk \<Rightarrow> dev option set" where
  "role_devs s = {so_whole (a_boot s), so_whole (a_system s)}"

definition auth_inv :: "'c blk \<Rightarrow> bool" where
  "auth_inv s = (uniq_inv (a_entries s) (a_epoch s) \<and> custody_inv (a_entries s) (role_devs s))"

text \<open>How an entry may change: its device, its snapshot and its identity but for the generation never, the generation only upwards; a poisoned
  entry stays poisoned, and if it is claimed it stays with its owner.\<close>

definition entry_grows :: "claim \<Rightarrow> claim \<Rightarrow> bool" where
  "entry_grows e e' = (cl_device e' = cl_device e \<and> cl_snapshot e' = cl_snapshot e \<and>
     (\<exists>g \<ge> id_generation (cl_identity e). cl_identity e' = (cl_identity e)\<lparr>id_generation := g\<rparr>) \<and>
     (cl_poisoned e \<longrightarrow> cl_poisoned e' \<and> (cl_owner e \<noteq> 0 \<longrightarrow> cl_owner e' = cl_owner e \<and> cl_sources e' = cl_sources e)))"

definition evolves :: "'c blk \<Rightarrow> 'c blk \<Rightarrow> bool" where
  "evolves s t = (length (a_entries s) \<le> length (a_entries t) \<and> a_epoch s \<le> a_epoch t \<and>
     (\<forall>i < length (a_entries s). entry_grows (a_entries s ! i) (a_entries t ! i)))"

definition custody :: "'c blk \<Rightarrow> 'c blk \<Rightarrow> bool" where
  "custody s t = (auth_inv s \<longrightarrow> auth_inv t \<and> evolves s t)"

lemma entry_grows_refl: "entry_grows e e"
  unfolding entry_grows_def by (auto intro!: exI[of _ "id_generation (cl_identity e)"])

lemma entry_grows_trans: "entry_grows a b \<Longrightarrow> entry_grows b c \<Longrightarrow> entry_grows a c"
  unfolding entry_grows_def by (elim conjE exE) (auto intro: order_trans)

lemma evolves_refl: "evolves s s"
  by (simp add: evolves_def entry_grows_refl)

lemma evolves_trans: "evolves s t \<Longrightarrow> evolves t u \<Longrightarrow> evolves s u"
  unfolding evolves_def by (auto intro: entry_grows_trans order_trans)

lemma custody_rel: "frame_rel custody"
  by unfold_locales (auto simp: custody_def evolves_refl intro: evolves_trans)

lemma custody_same:
  "a_entries t = a_entries s \<Longrightarrow> a_epoch t = a_epoch s \<Longrightarrow> role_devs t = role_devs s \<Longrightarrow> custody s t"
  by (simp add: custody_def auth_inv_def evolves_def entry_grows_refl)

lemma nth_update: "j < length xs \<Longrightarrow> xs[i := x] ! j = (if i = j then x else xs ! j)"
  by simp

lemma map_update_same: "f x = f (xs ! i) \<Longrightarrow> map f (xs[i := x]) = map f xs"
  by (rule nth_equalityI) (auto simp: nth_update)

text \<open>The change of one entry that keeps its device, owner and sources.\<close>

lemma custody_update:
  assumes grows: "auth_inv s \<Longrightarrow> i < length (a_entries s) \<Longrightarrow> entry_grows (a_entries s ! i) e'"
    and same: "cl_device e' = cl_device (a_entries s ! i)" "cl_owner e' = cl_owner (a_entries s ! i)" "cl_sources e' = cl_sources (a_entries s ! i)"
    and t: "a_entries t = (a_entries s)[i := e']" "a_epoch s \<le> a_epoch t" "role_devs t = role_devs s"
    and uniq: "uniq_inv (a_entries s) (a_epoch s) \<Longrightarrow> uniq_inv ((a_entries s)[i := e']) (a_epoch t)"
  shows "custody s t"
proof -
  have "protects e' d = protects (a_entries s ! i) d" for d
    using same by (simp add: protects_def)
  hence "custody_inv (a_entries s) r \<Longrightarrow> custody_inv ((a_entries s)[i := e']) r" for r
    using same by (simp add: custody_inv_def nth_update)
  hence "auth_inv s \<Longrightarrow> auth_inv t"
    using t uniq by (auto simp: auth_inv_def)
  moreover have "auth_inv s \<Longrightarrow> evolves s t"
    using t grows by (simp add: evolves_def nth_update entry_grows_refl)
  ultimately show ?thesis
    by (simp add: custody_def)
qed

lemma uniq_poison: "uniq_inv es ep \<Longrightarrow> uniq_inv (es[i := (es ! i)\<lparr>cl_poisoned := True\<rparr>]) ep"
  unfolding uniq_inv_def length_list_update by (subst map_update_same, simp)+ (simp add: nth_update)

lemma epoch_less: "(ep :: u64) \<noteq> 0xFFFFFFFFFFFFFFFF \<Longrightarrow> ep < ep + 1"
proof -
  assume "ep \<noteq> 0xFFFFFFFFFFFFFFFF"
  hence "ep + 1 \<noteq> 0"
    using max_word_wrap[of ep] by auto
  hence "unat (ep + 1) = unat ep + 1"
    using unatSuc[of ep] by (simp add: add.commute)
  thus ?thesis
    by (simp add: word_less_nat_alt)
qed

lemma uniq_bump:
  assumes "uniq_inv es ep" "ep \<noteq> 0xFFFFFFFFFFFFFFFF"
  shows "uniq_inv (es[i := (es ! i)\<lparr>cl_identity := (cl_identity (es ! i))\<lparr>id_generation := ep + 1\<rparr>\<rparr>]) (ep + 1)"
proof -
  have lt: "ep < ep + 1"
    by (rule epoch_less[OF assms(2)])
  let ?g = "\<lambda>e. id_generation (cl_identity e)"
  have fresh: "ep + 1 \<notin> set (map ?g es)" "ep + 1 \<noteq> 0"
  proof
    assume "ep + 1 \<in> set (map ?g es)"
    then obtain j where "j < length es" "?g (es ! j) = ep + 1"
      by (auto simp: in_set_conv_nth)
    thus False
      using assms(1) lt unfolding uniq_inv_def by (metis not_le)
  qed (use lt in auto)
  have "distinct (map ?g (es[i := (es ! i)\<lparr>cl_identity := (cl_identity (es ! i))\<lparr>id_generation := ep + 1\<rparr>\<rparr>]))"
    using assms(1) fresh by (cases "i < length es") (auto simp: uniq_inv_def map_update distinct_list_update)
  thus ?thesis
    using assms(1) lt fresh(2) unfolding uniq_inv_def length_list_update
    by (subst map_update_same[of cl_device], simp, subst map_update_same[of "\<lambda>e. id_whole (cl_identity e)"], simp)
      (auto simp: nth_update intro: order_trans[OF _ less_imp_le])
qed

lemma bump_cases:
  "snd (bump i s) = (if a_epoch s = 0xFFFFFFFFFFFFFFFF then s\<lparr>a_entries := (a_entries s)[i := (a_entries s ! i)\<lparr>cl_poisoned := True\<rparr>]\<rparr>
     else s\<lparr>a_epoch := a_epoch s + 1, a_entries := (a_entries s)[i :=
       (a_entries s ! i)\<lparr>cl_identity := (cl_identity (a_entries s ! i))\<lparr>id_generation := a_epoch s + 1\<rparr>\<rparr>]\<rparr>)"
  by (simp add: bump_def upd_claim_def run_apply)

lemma custody_poison: "custody s (s\<lparr>a_entries := (a_entries s)[i := (a_entries s ! i)\<lparr>cl_poisoned := True\<rparr>]\<rparr>)"
  by (rule custody_update[of s i]) (auto simp: entry_grows_def role_devs_def uniq_poison intro!: exI[of _ "id_generation (cl_identity (a_entries s ! i))"])

lemma gen_le: "auth_inv s \<Longrightarrow> i < length (a_entries s) \<Longrightarrow> id_generation (cl_identity (a_entries s ! i)) \<le> a_epoch s"
  by (simp add: auth_inv_def uniq_inv_def)

lemma custody_bump: "custody s (snd (bump i s))"
proof (cases "a_epoch s = 0xFFFFFFFFFFFFFFFF")
  case True
  thus ?thesis
    by (simp add: bump_cases custody_poison)
next
  case False
  have le: "a_epoch s \<le> a_epoch s + 1"
    using epoch_less[OF False] by simp
  have "entry_grows e (e\<lparr>cl_identity := (cl_identity e)\<lparr>id_generation := a_epoch s + 1\<rparr>\<rparr>)" if "id_generation (cl_identity e) \<le> a_epoch s" for e
    using that le unfolding entry_grows_def by (auto intro: order_trans)
  with False le show ?thesis
    by (intro custody_update[of s i "(a_entries s ! i)\<lparr>cl_identity := (cl_identity (a_entries s ! i))\<lparr>id_generation := a_epoch s + 1\<rparr>\<rparr>"])
      (simp_all add: bump_cases role_devs_def uniq_bump gen_le)
qed

lemma same_auth_call: "custody s (snd (call h s))"
  by (rule custody_same) (simp_all add: call_def role_devs_def split: prod.split)

lemma mint_same: "a_entries (snd (mint n v s)) = a_entries s \<and> a_epoch (snd (mint n v s)) = a_epoch s \<and>
    a_boot (snd (mint n v s)) = a_boot s \<and> a_system (snd (mint n v s)) = a_system s"
  by (induction n arbitrary: s) (auto split: prod.split)

lemma mint_fresh: "fst (mint n v s) = Some w \<Longrightarrow> \<forall>e \<in> set (a_entries s). id_whole (cl_identity e) \<noteq> w"
  by (induction n arbitrary: s) (auto split: prod.splits if_splits)

lemma entry_index_None: "entry_index es d i = None \<longleftrightarrow> d \<notin> cl_device ` set es"
  by (induction es arbitrary: i) auto

lemma uniq_snoc:
  assumes "uniq_inv es ep" "ep \<noteq> 0xFFFFFFFFFFFFFFFF" "length es < BLK_MAX_DEVICES" "cl_device e \<notin> cl_device ` set es"
    and "\<forall>x \<in> set es. id_whole (cl_identity x) \<noteq> id_whole (cl_identity e)" "id_generation (cl_identity e) = ep + 1"
  shows "uniq_inv (es @ [e]) (ep + 1)"
proof -
  have lt: "ep < ep + 1"
    by (rule epoch_less[OF assms(2)])
  have "\<forall>x \<in> set es. id_generation (cl_identity x) \<le> ep"
    using assms(1) by (auto simp: uniq_inv_def in_set_conv_nth)
  hence "\<forall>x \<in> set es. id_generation (cl_identity x) < ep + 1"
    using lt by (auto intro: order_le_less_trans)
  thus ?thesis
    using assms lt by (auto simp: uniq_inv_def nth_append less_Suc_eq dest: nth_mem)
qed

lemma custody_enrol: "custody s (snd (blk_authority_register v d s))"
proof -
  obtain r s1 where m: "mint 8 v s = (r, s1)"
    by (cases "mint 8 v s")
  note same = mint_same[of 8 v s, unfolded m snd_conv]
  have kept: "custody s s1"
    using same by (intro custody_same) (auto simp: role_devs_def)
  let ?x = "k_dev s d"
  let ?e = "\<lambda>w g. \<lparr>cl_device = d, cl_identity = \<lparr>id_whole = w, id_generation = g, id_sectors = d_sectors ?x, id_sector_size = d_sector_size ?x,
      id_flags = d_flags ?x AND NOT BLK_F_MOUNTED\<rparr>, cl_snapshot = ?x, cl_owner = 0, cl_sources = (null_source, null_source), cl_poisoned = False\<rparr>"
  show ?thesis
  proof (cases "is_whole ?x \<and> length (a_entries s) \<noteq> BLK_MAX_DEVICES \<and> entry s d = None \<and> a_epoch s \<noteq> 0xFFFFFFFFFFFFFFFF \<and> \<not> same_unit_used s d \<and> r \<noteq> None")
    case True
    then obtain w where w: "r = Some w"
      by auto
    have fresh: "d \<notin> cl_device ` set (a_entries s)" "\<forall>e \<in> set (a_entries s). id_whole (cl_identity e) \<noteq> w"
      using True mint_fresh[of 8 v s w] m w by (auto simp: entry_def entry_index_None)
    have t: "a_entries (snd (blk_authority_register v d s)) = a_entries s @ [?e w (a_epoch s + 1)]"
        "a_epoch (snd (blk_authority_register v d s)) = a_epoch s + 1" "role_devs (snd (blk_authority_register v d s)) = role_devs s"
      using True m w same by (simp_all add: blk_authority_register_def run_apply Let_def bump_cases role_devs_def)
    have "auth_inv s \<Longrightarrow> uniq_inv (a_entries s @ [?e w (a_epoch s + 1)]) (a_epoch s + 1)"
      using True fresh by (intro uniq_snoc) (auto simp: auth_inv_def uniq_inv_def)
    moreover have "custody_inv es rs \<Longrightarrow> custody_inv (es @ [?e w g]) rs" for es rs g
      by (auto simp: custody_inv_def nth_append less_Suc_eq protects_def)
    ultimately show ?thesis
      using t epoch_less[of "a_epoch s"] True
      by (auto simp: custody_def auth_inv_def evolves_def nth_append entry_grows_refl)
  next
    case False
    hence "snd (blk_authority_register v d s) \<in> {s, s1}"
      using m by (auto simp: blk_authority_register_def run_apply)
    thus ?thesis
      using kept custody_same[of s s] by auto
  qed
qed

interpretation cu: blk_frame custody v for v :: "'c drivers"
  by (intro blk_frame.intro custody_rel blk_frame_axioms.intro)
    (auto simp: keeps_def custody_bump custody_poison custody_enrol same_auth_call upd_claim_def intro!: custody_same
      simp: upd_dev_def kmalloc_def role_devs_def split: prod.split)

subsection \<open>Claims\<close>

lemma entry_index_Some:
  "entry_index es d i = Some k \<Longrightarrow> i \<le> k \<and> k < i + length es \<and> cl_device (es ! (k - i)) = d"
proof (induction es arbitrary: i)
  case (Cons e es)
  thus ?case
    using Cons.IH[of "Suc i"] by (auto split: if_splits simp: nth_Cons' Suc_le_eq)
qed simp

lemma entry_Some: "entry s d = Some k \<Longrightarrow> k < length (a_entries s) \<and> cl_device (a_entries s ! k) = d"
  using entry_index_Some[of "a_entries s" d 0 k] by (auto simp: entry_def split: if_splits)

text \<open>A valid pin on a device names an entry that nobody has claimed.\<close>

lemma pin_unclaimed:
  assumes "auth_inv s" "pin_ok s p" "so_whole p = Some d" "i < length (a_entries s)" "cl_device (a_entries s ! i) = d"
  shows "cl_owner (a_entries s ! i) = 0"
proof -
  obtain k where k: "entry s d = Some k" "cl_owner (a_entries s ! k) = 0"
    using assms(2,3) by (auto simp: pin_ok_def free_entry_def split: option.splits)
  note e = entry_Some[OF k(1)]
  have "distinct (map cl_device (a_entries s))"
    using assms(1) by (simp add: auth_inv_def uniq_inv_def)
  hence "i = k"
    using e assms(4,5) by (simp add: distinct_conv_nth) metis
  with k(2) show ?thesis by simp
qed

lemma custody_inv_claim:
  assumes inv: "auth_inv s" and e: "entry s d = Some i" and el: "eligible s (Some i) src"
  shows "custody_inv ((a_entries s)[i := (a_entries s ! i)\<lparr>cl_owner := ow, cl_sources := src\<rparr>]) (role_devs s)"
proof -
  let ?es = "a_entries s" and ?e = "(a_entries s ! i)\<lparr>cl_owner := ow, cl_sources := src\<rparr>"
  note i = entry_Some[OF e]
  have el': "\<not> protected_source s d" "Some d \<notin> role_devs s" "Some d \<noteq> so_whole (fst src)" "Some d \<noteq> so_whole (snd src)"
      "pin_ok s (fst src)" "pin_ok s (snd src)"
    using el i by (auto simp: eligible_def role_devs_def Let_def)
  have old: "cl_owner (?es ! k) \<noteq> 0 \<Longrightarrow> Some (cl_device (?es ! k)) \<notin> role_devs s \<and> \<not> protects (?es ! j) (cl_device (?es ! k))"
    if "k < length ?es" "j < length ?es" for k j
    using inv that by (auto simp: auth_inv_def custody_inv_def)
  have new: "\<not> protects ?e (cl_device (?es ! k))" if "k < length ?es" "cl_owner (?es ! k) \<noteq> 0" for k
    using pin_unclaimed[OF inv el'(5) _ that(1)] pin_unclaimed[OF inv el'(6) _ that(1)] that(2) by (auto simp: protects_def)
  have self: "\<not> protects ?e d" "\<not> protects (?es ! j) d" if "j < length ?es" for j
    using el' that by (auto simp: protects_def protected_source_def)
  show ?thesis
    unfolding custody_inv_def length_list_update
    using old new self el'(2) i by (auto simp: nth_update)
qed

lemma retain_same: "custody s (snd (retain_source ow p s)) \<and> a_entries (snd (retain_source ow p s)) = a_entries s \<and>
    a_epoch (snd (retain_source ow p s)) = a_epoch s \<and> role_devs (snd (retain_source ow p s)) = role_devs s"
  by (auto simp: retain_source_def role_devs_def split: option.split prod.split intro!: custody_same)

lemma release_same: "custody s (snd (release_source p s)) \<and> a_entries (snd (release_source p s)) = a_entries s \<and>
    a_epoch (snd (release_source p s)) = a_epoch s \<and> role_devs (snd (release_source p s)) = role_devs s"
  by (auto simp: release_source_def role_devs_def split: option.split intro!: custody_same)

lemma custody_set_claim:
  assumes e: "entry s d = Some i" and el: "eligible s (Some i) src"
    and t: "a_entries t = (a_entries s)[i := (a_entries s ! i)\<lparr>cl_owner := ow, cl_sources := src\<rparr>]" "a_epoch t = a_epoch s" "role_devs t = role_devs s"
  shows "custody s t"
proof -
  have "\<not> cl_poisoned (a_entries s ! i)"
    using el by (simp add: eligible_def free_entry_def Let_def)
  hence "entry_grows (a_entries s ! i) ((a_entries s ! i)\<lparr>cl_owner := ow, cl_sources := src\<rparr>)"
    unfolding entry_grows_def by (auto intro!: exI[of _ "id_generation (cl_identity (a_entries s ! i))"])
  moreover have "uniq_inv es ep \<Longrightarrow> uniq_inv (es[i := (es ! i)\<lparr>cl_owner := ow, cl_sources := src\<rparr>]) ep" for es ep
    unfolding uniq_inv_def length_list_update by (subst map_update_same, simp)+ (simp add: nth_update)
  ultimately show ?thesis
    using t custody_inv_claim[OF _ e el, of ow]
    by (simp add: custody_def auth_inv_def[of t] auth_inv_def[of s, THEN iffD1] evolves_def nth_update entry_grows_refl)
qed

lemma custody_claim: "custody s (snd (blk_authority_claim_target ow d review src s))"
proof (cases "entry s d")
  case None
  thus ?thesis by (simp add: blk_authority_claim_target_def custody_same)
next
  case (Some i)
  let ?s1 = "snd (retain_source ow (fst src) s)" and ?s2 = "snd (retain_source ow (snd src) (snd (retain_source ow (fst src) s)))"
  note r1 = retain_same[of s ow "fst src"] and r2 = retain_same[of ?s1 ow "snd src"] and r3 = release_same[of ?s2 "fst src"]
  have t: "custody s ?s1" "custody s ?s2" "custody s (snd (release_source (fst src) ?s2))"
    using r1 r2 r3 frame_rel.R_trans[OF custody_rel] by blast+
  have "eligible s (Some i) src \<Longrightarrow> custody s (?s2\<lparr>a_entries := (a_entries ?s2)[i := (a_entries ?s2 ! i)\<lparr>cl_owner := ow, cl_sources := src\<rparr>]\<rparr>)"
    using r1 r2 by (intro custody_set_claim[OF Some]) (auto simp: role_devs_def)
  thus ?thesis
    using Some t custody_same[of s s] by (simp add: blk_authority_claim_target_def run_apply upd_claim_def)
qed

lemma custody_drop_owner:
  assumes "\<not> cl_poisoned (a_entries s ! c)"
  shows "custody s (s\<lparr>a_entries := (a_entries s)[c := (a_entries s ! c)\<lparr>cl_owner := 0\<rparr>]\<rparr>)"
proof -
  have "entry_grows (a_entries s ! c) ((a_entries s ! c)\<lparr>cl_owner := 0\<rparr>)"
    using assms unfolding entry_grows_def by (auto intro!: exI[of _ "id_generation (cl_identity (a_entries s ! c))"])
  moreover have "uniq_inv es ep \<Longrightarrow> uniq_inv (es[c := (es ! c)\<lparr>cl_owner := 0\<rparr>]) ep" for es ep
    unfolding uniq_inv_def length_list_update by (subst map_update_same, simp)+ (simp add: nth_update)
  moreover have "custody_inv es rs \<Longrightarrow> custody_inv (es[c := (es ! c)\<lparr>cl_owner := 0\<rparr>]) rs" for es rs
    unfolding custody_inv_def length_list_update by (auto simp: nth_update protects_def split: if_splits)
  ultimately show ?thesis
    by (simp add: custody_def auth_inv_def evolves_def nth_update entry_grows_refl role_devs_def)
qed

lemma bump_good: "fst (bump c s) \<Longrightarrow> \<not> cl_poisoned (a_entries s ! c) \<Longrightarrow> c < length (a_entries s) \<Longrightarrow> \<not> cl_poisoned (a_entries (snd (bump c s)) ! c)"
  by (auto simp: bump_def run_apply upd_claim_def)

lemma custody_release: "custody s (snd (blk_authority_release ow c ident s))"
proof (cases "c < length (a_entries s) \<and> ow \<noteq> 0 \<and> cl_owner (a_entries s ! c) = ow \<and> \<not> cl_poisoned (a_entries s ! c) \<and>
    observed s (a_entries s ! c) \<and> ident = cl_identity (a_entries s ! c)")
  case True
  let ?e = "a_entries s ! c" and ?b = "snd (bump c s)"
  let ?t = "snd (release_source (snd (cl_sources ?e)) (snd (release_source (fst (cl_sources ?e)) ?b)))"
  have t: "custody ?b ?t" "a_entries ?t = a_entries ?b"
    using release_same[of ?b "fst (cl_sources ?e)"] release_same[of "snd (release_source (fst (cl_sources ?e)) ?b)" "snd (cl_sources ?e)"]
      frame_rel.R_trans[OF custody_rel] by auto
  have "fst (bump c s) \<Longrightarrow> custody ?t (?t\<lparr>a_entries := (a_entries ?t)[c := (a_entries ?t ! c)\<lparr>cl_owner := 0\<rparr>]\<rparr>)"
    using bump_good[of c s] True t(2) by (intro custody_drop_owner) simp
  hence "fst (bump c s) \<Longrightarrow> custody s (?t\<lparr>a_entries := (a_entries ?t)[c := (a_entries ?t ! c)\<lparr>cl_owner := 0\<rparr>]\<rparr>)"
    using t(1) custody_bump[of s c] frame_rel.R_trans[OF custody_rel] by blast
  with True show ?thesis
    using custody_bump[of s c] by (simp add: blk_authority_release_def run_apply upd_claim_def Let_def)
next
  case False
  thus ?thesis by (auto simp: blk_authority_release_def Let_def custody_same)
qed

lemma custody_roles: "custody s (snd (blk_authority_bind_boot_roles a b s))"
proof -
  have "\<forall>e \<in> set es. cl_owner e = 0 \<Longrightarrow> custody_inv es rs" for es rs
    by (simp add: custody_inv_def)
  thus ?thesis
    by (auto simp: blk_authority_bind_boot_roles_def custody_def auth_inv_def evolves_def entry_grows_refl split: option.split)
qed

lemma custody_origin: "custody s (snd (blk_authority_bind_archive_origin s))"
  by (auto simp: blk_authority_bind_archive_origin_def role_devs_def split: option.split intro!: custody_same)

subsection \<open>Histories\<close>

text \<open>One rule for every operation, and one for a driver that prepares the structure of a device before it registers it.\<close>

inductive blk_step :: "'c drivers \<Rightarrow> 'c blk \<Rightarrow> 'c blk \<Rightarrow> bool" for v where
  do_prepare: "Whole n \<notin> set (k_list s) \<Longrightarrow> blk_step v s (s\<lparr>k_dev := (k_dev s)(Whole n := x)\<rparr>)"
| do_register: "blk_step v s (snd (blk_register v d s))"
| do_scan: "blk_step v s (snd (blk_scan_partitions v d s))"
| do_mark_mounted: "blk_step v s (snd (blk_authority_mark_mounted d s))"
| do_blk_read: "blk_step v s (snd (blk_read v d lba n s))"
| do_blk_write: "blk_step v s (snd (blk_write v d lba n buf s))"
| do_blk_flush: "blk_step v s (snd (blk_flush v d s))"
| do_blk_discard: "blk_step v s (snd (blk_discard v d lba n s))"
| do_blk_control: "blk_step v s (snd (blk_control v d op' arg s))"
| do_read_async: "blk_step v s (snd (blk_read_async v d lba n s))"
| do_write_async: "blk_step v s (snd (blk_write_async v d lba n buf s))"
| do_bind_roles: "blk_step v s (snd (blk_authority_bind_boot_roles boot system s))"
| do_bind_origin: "blk_step v s (snd (blk_authority_bind_archive_origin s))"
| do_claim: "blk_step v s (snd (blk_authority_claim_target ow d review src s))"
| do_claim_read: "blk_step v s (snd (blk_authority_read v ow c ident lba n s))"
| do_claim_write: "blk_step v s (snd (blk_authority_write v ow c ident lba n buf s))"
| do_claim_flush: "blk_step v s (snd (blk_authority_flush v ow c ident s))"
| do_release: "blk_step v s (snd (blk_authority_release ow c ident s))"
| do_archive: "blk_step v s (s\<lparr>a_archive := t\<rparr>)"

lemma step_custody: "blk_step v s t \<Longrightarrow> custody s t"
proof (induction rule: blk_step.induct)
  case (do_prepare n s x)
  show ?case by (rule custody_same) (simp_all add: role_devs_def)
next
  case (do_archive s t)
  show ?case by (rule custody_same) (simp_all add: role_devs_def)
qed (rule custody_claim custody_release custody_roles custody_origin cu.frame_holds,
    (rule cu.register_frame cu.scan_frame cu.mark_frame cu.read_frame cu.write_frame cu.flush_frame cu.discard_frame cu.control_frame
      cu.async_frame cu.authority_io_frame)?)+

lemma history_custody: "(blk_step v)\<^sup>*\<^sup>* s t \<Longrightarrow> custody s t"
  by (induction rule: rtranclp_induct) (auto intro: frame_rel.R_refl[OF custody_rel] frame_rel.R_trans[OF custody_rel] step_custody)

lemma custody_holds: "(blk_step v)\<^sup>*\<^sup>* s t \<Longrightarrow> auth_inv s \<Longrightarrow> auth_inv t \<and> evolves s t"
  using history_custody[of v s t] by (simp add: custody_def)

lemma no_entries_inv: "a_entries s = [] \<Longrightarrow> auth_inv s"
  by (simp add: auth_inv_def uniq_inv_def custody_inv_def)

lemma poisoned_kept:
  assumes "(blk_step v)\<^sup>*\<^sup>* s t" "auth_inv s" "i < length (a_entries s)" "cl_poisoned (a_entries s ! i)" "cl_owner (a_entries s ! i) \<noteq> 0"
  shows "cl_poisoned (a_entries t ! i) \<and> cl_owner (a_entries t ! i) = cl_owner (a_entries s ! i)"
  using custody_holds[OF assms(1,2)] assms(3-5) by (auto simp: evolves_def entry_grows_def)

subsection \<open>Exclusive use\<close>

lemma enter_claimed: "entry_of s d = Some i \<Longrightarrow> cl_owner (a_entries s ! i) \<noteq> 0 \<Longrightarrow> \<not> blk_authority_enter s d b"
  by (simp add: blk_authority_enter_def free_entry_def)

lemma enter_protected:
  "entry_of s d = Some i \<Longrightarrow> protected_source s (cl_device (a_entries s ! i)) \<Longrightarrow> \<not> blk_authority_enter s d True"
  by (simp add: blk_authority_enter_def)

lemma refused_mutation:
  assumes "\<not> blk_authority_enter s d True"
  shows "blk_write v d lba n buf s = (-1, s)" "blk_flush v d s = (-1, s)" "blk_discard v d lba n s = (-1, s)"
    "snd (blk_control v d op' arg s) = s" "blk_authority_mark_mounted d s = (False, s)"
  using assms by (simp_all add: blk_write_def blk_flush_def blk_discard_def blk_control_def blk_authority_mark_mounted_def Let_def
      split: prod.split)

lemma refused_read: "\<not> blk_authority_enter s d False \<Longrightarrow> blk_read v d lba n s = ((-1, []), s)"
  by (simp add: blk_read_def)

lemma not_holder:
  assumes "cl_owner (a_entries s ! c) \<noteq> ow \<or> ident \<noteq> cl_identity (a_entries s ! c)"
  shows "blk_authority_read v ow c ident lba n s = ((-1, []), s)" "blk_authority_write v ow c ident lba n buf s = (-1, s)"
    "blk_authority_flush v ow c ident s = (-1, s)" "blk_authority_release ow c ident s = (False, s)"
  using assms by (auto simp: blk_authority_read_def blk_authority_write_def blk_authority_flush_def blk_authority_release_def
      io_refused_def held_def Let_def)

lemma claimed_unchanged:
  assumes "entry_of s d = Some i" "cl_owner (a_entries s ! i) \<noteq> 0"
  shows "blk_read v d lba n s = ((-1, []), s)" "blk_write v d lba n buf s = (-1, s)" "blk_flush v d s = (-1, s)"
    "blk_discard v d lba n s = (-1, s)" "snd (blk_control v d op' arg s) = s" "blk_authority_mark_mounted d s = (False, s)"
    "snd (blk_read_async v d lba n s) = s" "snd (blk_write_async v d lba n buf s) = s"
    "fst (blk_read_async v d lba n s) \<noteq> Queued" "fst (blk_write_async v d lba n buf s) \<noteq> Queued"
proof -
  have r: "\<not> blk_authority_enter s d b" for b
    using assms by (rule enter_claimed)
  note m = refused_mutation[OF r] refused_read[OF r]
  show "blk_read v d lba n s = ((-1, []), s)" "blk_write v d lba n buf s = (-1, s)" "blk_flush v d s = (-1, s)"
    "blk_discard v d lba n s = (-1, s)" "snd (blk_control v d op' arg s) = s" "blk_authority_mark_mounted d s = (False, s)"
    by (rule m)+
  show "snd (blk_read_async v d lba n s) = s" "snd (blk_write_async v d lba n buf s) = s"
    "fst (blk_read_async v d lba n s) \<noteq> Queued" "fst (blk_write_async v d lba n buf s) \<noteq> Queued"
    using r by (auto simp: blk_read_async_def blk_write_async_def async_enter_def run_apply Let_def m split: prod.split)
qed

lemma protected_unchanged:
  assumes "entry_of s d = Some i" "protected_source s (cl_device (a_entries s ! i))"
  shows "blk_write v d lba n buf s = (-1, s)" "blk_flush v d s = (-1, s)" "blk_discard v d lba n s = (-1, s)" "snd (blk_control v d op' arg s) = s"
    "blk_authority_mark_mounted d s = (False, s)" "snd (blk_write_async v d lba n buf s) = s" "fst (blk_write_async v d lba n buf s) \<noteq> Queued"
proof -
  have r: "\<not> blk_authority_enter s d True"
    using assms by (rule enter_protected)
  note m = refused_mutation[OF r]
  show "blk_write v d lba n buf s = (-1, s)" "blk_flush v d s = (-1, s)" "blk_discard v d lba n s = (-1, s)" "snd (blk_control v d op' arg s) = s"
    "blk_authority_mark_mounted d s = (False, s)"
    by (rule m)+
  show "snd (blk_write_async v d lba n buf s) = s" "fst (blk_write_async v d lba n buf s) \<noteq> Queued"
    using r by (auto simp: blk_write_async_def async_enter_def run_apply Let_def m split: prod.split)
qed

text \<open>A claimed device whose driver failed or that changed under the claim is quarantined.\<close>

lemma poison_claim: "c < length (a_entries s) \<Longrightarrow> cl_poisoned (a_entries (snd (upd_claim c (\<lambda>e. e\<lparr>cl_poisoned := True\<rparr>) s)) ! c) \<and>
   cl_owner (a_entries (snd (upd_claim c (\<lambda>e. e\<lparr>cl_poisoned := True\<rparr>) s)) ! c) = cl_owner (a_entries s ! c)"
  by (simp add: upd_claim_def)

lemma after_io_poisons:
  "c < length (a_entries s) \<Longrightarrow> fst (after_io c rc s) \<noteq> 0 \<Longrightarrow>
   cl_poisoned (a_entries (snd (after_io c rc s)) ! c) \<and> cl_owner (a_entries (snd (after_io c rc s)) ! c) = cl_owner (a_entries s ! c)"
  by (auto simp: after_io_def run_apply whenA_def upd_claim_def split: if_splits)

lemma call_entries: "a_entries (snd (call h s)) = a_entries s"
  by (simp add: call_def split: prod.split)

lemma write_poisons:
  assumes "\<not> io_refused s ow c ident lba n" "fst (blk_authority_write v ow c ident lba n buf s) \<noteq> 0"
  shows "c < length (a_entries s) \<and> cl_poisoned (a_entries (snd (blk_authority_write v ow c ident lba n buf s)) ! c) \<and>
     cl_owner (a_entries (snd (blk_authority_write v ow c ident lba n buf s)) ! c) = ow \<and> ow \<noteq> 0"
proof -
  let ?d = "cl_device (a_entries s ! c)"
  let ?h = "dv_write v (d_write (k_dev s ?d)) ?d lba n buf"
  have held: "c < length (a_entries s)" "cl_owner (a_entries s ! c) = ow" "ow \<noteq> 0"
    using assms(1) by (auto simp: io_refused_def held_def Let_def)
  have w: "blk_authority_write v ow c ident lba n buf s = after_io c (fst (call ?h s)) (snd (call ?h s))"
    using assms(1) by (simp add: blk_authority_write_def run_apply Let_def)
  show ?thesis
    using after_io_poisons[of c "snd (call ?h s)" "fst (call ?h s)"] assms(2) held unfolding w by (simp add: call_entries)
qed

subsection \<open>Partitions\<close>

lemma in_range_exact: "in_range x lba n \<longleftrightarrow> n \<noteq> 0 \<and> unat lba + unat n \<le> unat (d_sectors x)"
proof (cases "n = 0")
  case False
  hence n: "0 < unat n" "unat (ucast n :: u64) = unat n"
    by (simp_all add: unat_widen unat_gt_0)
  show ?thesis
  proof (cases "lba < d_sectors x")
    case True
    hence "unat (d_sectors x - lba) = unat (d_sectors x) - unat lba"
      by (simp add: unat_sub)
    thus ?thesis
      using True False n by (auto simp: in_range_def word_le_nat_alt word_less_nat_alt)
  next
    case False
    thus ?thesis
      using n(1) by (auto simp: in_range_def word_less_nat_alt)
  qed
qed (simp add: in_range_def)

lemma io_whole_partition:
  assumes "d_parent (k_dev s d) = Some w" "d_parent (k_dev s w) = None" "io_whole s d lba n = Some (w', a)"
  shows "w' = w \<and> unat a = unat (d_start_lba (k_dev s d)) + unat lba \<and>
    unat a + unat n \<le> unat (d_start_lba (k_dev s d)) + unat (d_sectors (k_dev s d)) \<and> unat a + unat n \<le> unat (d_sectors (k_dev s w))"
proof -
  let ?st = "d_start_lba (k_dev s d)"
  have top: "io_whole_loop (Suc k) (k_dev s) w at n = (if in_range (k_dev s w) at n then Some (w, at) else None)" for k at
    using assms(2) by simp
  obtain k where k: "32 = Suc (Suc k)"
    by (rule that[of 30]) simp
  hence "io_whole_loop (Suc (Suc k)) (k_dev s) d lba n = Some (w', a)"
    using assms(3) by (simp only: io_whole_def)
  note eq = this[unfolded io_whole_loop.simps(2)[of "Suc k"] assms(1) option.case top]
  hence 1: "in_range (k_dev s d) lba n" "?st \<le> 0xFFFFFFFFFFFFFFFF - lba" "a = lba + ?st" "w' = w" "in_range (k_dev s w) a n"
    by (simp_all only: not_less[symmetric] split: if_splits) simp_all
  have lt: "unat lba < 2 ^ 64"
    using unsigned_less[of lba, where ?'a = nat] by simp
  hence "unat (0xFFFFFFFFFFFFFFFF - lba) = 2 ^ 64 - 1 - unat lba"
    by (subst unat_sub) (simp_all add: word_le_nat_alt)
  hence "unat ?st + unat lba < 2 ^ 64"
    using 1(2) lt by (simp add: word_le_nat_alt)
  hence "unat a = unat ?st + unat lba"
    unfolding 1(3) by (simp add: unat_word_ariths)
  thus ?thesis
    using 1(1,4,5) by (simp add: in_range_exact)
qed

text \<open>What a partition device asks of the driver lies in its window: drivers that agree there cannot be told apart.\<close>

definition agree_in :: "'c drivers \<Rightarrow> 'c drivers \<Rightarrow> dev \<Rightarrow> nat \<Rightarrow> nat \<Rightarrow> bool" where
  "agree_in v v' w a b = (\<forall>f at n. a \<le> unat at \<and> unat at + unat n \<le> b \<longrightarrow>
     dv_read v f w at n = dv_read v' f w at n \<and> dv_write v f w at n = dv_write v' f w at n)"

lemma partition_window:
  assumes "d_parent (k_dev s d) = Some w" "d_parent (k_dev s w) = None"
    and "agree_in v v' w (unat (d_start_lba (k_dev s d))) (unat (d_start_lba (k_dev s d)) + unat (d_sectors (k_dev s d)))"
  shows "blk_read v d lba n s = blk_read v' d lba n s" "blk_write v d lba n buf s = blk_write v' d lba n buf s"
proof -
  have io: "w' = w \<and> dv_read v f w a n = dv_read v' f w a n \<and> dv_write v f w a n = dv_write v' f w a n" if "io_whole s d lba n = Some (w', a)" for w' a f
    using io_whole_partition[OF assms(1,2) that] assms(3) by (simp add: agree_in_def)
  show "blk_read v d lba n s = blk_read v' d lba n s" "blk_write v d lba n buf s = blk_write v' d lba n buf s"
    by (cases "io_whole s d lba n"; use io in \<open>force simp: blk_read_def blk_write_def Let_def\<close>)+
qed

text \<open>A partition that is added lies on its whole device.\<close>

lemma add_partition_inside:
  assumes "add_partition v whole bp s = (Some p, t)"
  shows "d_parent (k_dev t p) = Some whole \<and>
    unat (d_start_lba (k_dev t p)) + unat (d_sectors (k_dev t p)) \<le> unat (d_sectors (k_dev s whole)) \<and> p \<in> set (k_list t)"
proof -
  let ?p = "Part (k_nparts s)" and ?x = "part_dev whole (k_dev s whole) bp"
  let ?s = "s\<lparr>k_dev := (k_dev s)(?p := ?x)\<rparr>"
  have part: "\<not> is_whole ?x" "has_flag BLK_F_PARTITION ?x" and fields: "d_parent ?x = Some whole" "d_start_lba ?x = p_start bp" "d_sectors ?x = p_sectors bp"
    by (simp_all add: is_whole_def part_dev_def has_flag_def bit.conj_disj_distrib2)
  have c: "p = ?p" "\<not> d_sectors (k_dev s whole) \<le> p_start bp" "\<not> d_sectors (k_dev s whole) - p_start bp < p_sectors bp"
      "fst (blk_register v ?p ?s)" "p_sectors bp \<noteq> 0" "t = (snd (blk_register v ?p ?s))\<lparr>k_nparts := k_nparts (snd (blk_register v ?p ?s)) + 1\<rparr>"
    using assms by (auto simp: add_partition_def Let_def run_apply upd_dev_def split: if_splits)
  have "k_dev (snd (blk_register v ?p ?s)) ?p = ?x\<lparr>d_reg_index := of_nat (length (k_list s))\<rparr> \<and> ?p \<in> set (k_list (snd (blk_register v ?p ?s)))"
  proof (cases "d_name ?x = [] \<or> d_sector_size ?x = 0 \<or> d_sectors ?x = 0 \<or> d_read ?x = 0 \<or> blk_find ?s (d_name ?x) \<noteq> None")
    case True
    with c(4) show ?thesis
      by (simp add: blk_register_def Let_def)
  next
    case False
    with part show ?thesis
      by (simp add: blk_register_def run_apply upd_dev_def Let_def)
  qed
  moreover have "unat (p_start bp) + unat (p_sectors bp) \<le> unat (d_sectors (k_dev s whole))"
    using add_in_range[of "\<lparr>sd_read = undefined, sd_ss = 0, sd_sectors = d_sectors (k_dev s whole), sd_max = 0\<rparr>" bp 0] c(2,3,5)
    by (simp add: part_in_def)
  ultimately show ?thesis
    using c(1,6) fields by simp
qed

end
