(* ===== verification/Blk_Samples.thy ===== *)
theory Blk_Samples
  imports Blk_Authority
begin

unbundle bit_operations_syntax

section \<open>Concrete disks and a concrete registry\<close>

text \<open>A disk of 100 sectors of 512 bytes whose master boot record has one partition of 40 sectors at sector 16, and a callback that
  records the sectors it reads.\<close>

definition mbr_disk :: "u64 \<Rightarrow> bytes" where
  "mbr_disk lba = (if lba = 0 then replicate 446 0 @ [0x80,0,0,0, 0x83,0,0,0, 16,0,0,0, 40,0,0,0] @ replicate 48 0 @ [0x55, 0xAA] else replicate 512 0)"

definition mbr_dev :: "unit scan_dev" where
  "mbr_dev = \<lparr>sd_read = (\<lambda>c lba n. (Some (mbr_disk lba), c)), sd_ss = 512, sd_sectors = 100, sd_max = 16\<rparr>"

definition log_dev :: "u64 list scan_dev" where
  "log_dev = \<lparr>sd_read = (\<lambda>c lba n. (Some (mbr_disk lba), lba # c)), sd_ss = 512, sd_sectors = 100, sd_max = 16\<rparr>"

lemma mbr_dev_disk: "reads_disk mbr_disk mbr_dev"
  by (simp add: reads_disk_def mbr_dev_def mbr_disk_def)

lemma log_dev_reads: "reads_in (\<lambda>c c'. set c' \<subseteq> set c \<union> {lba. lba < 100}) log_dev"
  by (auto simp: reads_in_def log_dev_def intro!: reflpI transpI)

lemma mbr_dev_scan: "case blk_part_scan mbr_dev () of (r, out, _) \<Rightarrow> r = Some 1 \<and> map p_start out = [16]"
  by code_simp

subsection \<open>A registry\<close>

text \<open>Three disks of 100 sectors, each with its own name and unit, and drivers that read zeros, fail every write on the disk \<open>Whole 2\<close> and
  draw the random identities 1, 2, 3, ...\<close>

definition sample_disk :: "nat \<Rightarrow> blk_dev" where
  "sample_disk k = \<lparr>d_name = [of_nat (97 + k)], d_sector_size = 512, d_sectors = 100, d_start_lba = 0, d_parent = None, d_flags = BLK_F_FLUSH,
     d_mbr_type = 0, d_type_guid = [], d_index = 0, d_read = 10, d_write = 11, d_flush = 12, d_read_async = 0, d_priv = 0, d_reads = 0,
     d_writes = 0, d_write_async = 0, d_discard = 0, d_control = 0, d_driver = 0, d_irq_mode = 0, d_model = [], d_serial = [],
     d_queue_depth = 1, d_max_sectors = 8, d_read_ops = 0, d_write_ops = 0, d_flushes = 0, d_discards = 0, d_errors = 0, d_reg_index = 0,
     d_part_scheme = 0, d_scan_notes = 0, d_scan_result = 0, d_storage = zero_locator, d_part_name = []\<rparr>"

definition sample_drivers :: "nat drivers" where
  "sample_drivers = \<lparr>dv_read = (\<lambda>f d lba n w. ((0, replicate (512 * unat n) 0), w)),
     dv_write = (\<lambda>f d lba n buf w. (if d = Whole 2 then 5 else 0, w)), dv_flush = (\<lambda>f d w. (0, w)), dv_discard = (\<lambda>f d lba n w. (0, w)),
     dv_control = (\<lambda>f d p a w. ((0, 0), w)), dv_read_async = (\<lambda>f d lba n w. (0, w)), dv_write_async = (\<lambda>f d lba n buf w. (0, w)),
     dv_random = (\<lambda>c. (of_nat (c + 1) # replicate 15 0, c + 1)), dv_kmalloc = (\<lambda>c. (True, c))\<rparr>"

definition sample_blk :: "nat blk" where
  "sample_blk = \<lparr>k_ctx = 0, k_dev = (\<lambda>d. case d of Whole k \<Rightarrow> sample_disk k | Part _ \<Rightarrow> sample_disk 0), k_list = [], k_nparts = 0,
     a_entries = [], a_epoch = 0, a_boot = null_source, a_system = null_source, a_roles = 0,
     a_origin = \<lparr>pr_magic = 0, pr_version = 0, pr_size = 0, pr_flags = 0, pr_reserved = 0, pr_boot = zero_locator, pr_archive = zero_locator,
       pr_archive_gpa = 0, pr_archive_size = 0\<rparr>, a_archive = ar_start\<rparr>"

definition sample_ident :: "nat \<Rightarrow> identity" where
  "sample_ident k = \<lparr>id_whole = of_nat (k + 1) # replicate 15 0, id_generation = of_nat (k + 1), id_sectors = 100, id_sector_size = 512, id_flags = BLK_F_FLUSH\<rparr>"

definition sample_pin :: "nat \<Rightarrow> source" where
  "sample_pin k = \<lparr>so_whole = Some (Whole k), so_archive = None, so_identity = sample_ident k\<rparr>"

text \<open>The state in which the owner 7 has claimed the third disk, with the second one as its source, and the first one is the
  boot and system disk.\<close>

definition sample_entry :: "nat \<Rightarrow> claim" where
  "sample_entry k = \<lparr>cl_device = Whole k, cl_identity = sample_ident k, cl_snapshot = sample_disk k, cl_owner = (if k = 2 then 7 else 0),
     cl_sources = (if k = 2 then (sample_pin 1, sample_pin 1) else (null_source, null_source)), cl_poisoned = False\<rparr>"

definition sample_claimed :: "nat blk" where
  "sample_claimed = sample_blk\<lparr>k_list := [Whole 0, Whole 1, Whole 2], a_entries := [sample_entry 0, sample_entry 1, sample_entry 2], a_epoch := 3,
     a_boot := sample_pin 0, a_system := sample_pin 0, a_roles := 1\<rparr>"

lemma sample_claim:
  "entry_of sample_claimed (Whole 2) = Some 2" "cl_owner (a_entries sample_claimed ! 2) = 7"
  by code_simp+

lemma sample_source: "entry_of sample_claimed (Whole 1) = Some 1" "protected_source sample_claimed (cl_device (a_entries sample_claimed ! 1))"
  by code_simp+

lemma sample_io: "\<not> io_refused sample_claimed 7 2 (sample_ident 2) 3 1"
  by code_simp

lemma sample_failure: "fst (blk_authority_write sample_drivers 7 2 (sample_ident 2) 3 1 [] sample_claimed) \<noteq> 0"
  by code_simp

lemma sample_auth: "auth_inv sample_claimed"
  by code_simp

text \<open>The first disk with a partition of 40 sectors at sector 16.\<close>

definition sample_split :: "nat blk" where
  "sample_split = sample_claimed\<lparr>k_dev := (k_dev sample_claimed)(Part 0 := part_dev (Whole 0) (sample_disk 0) (zero_part\<lparr>p_start := 16, p_sectors := 40, p_index := 1\<rparr>)),
     k_list := k_list sample_claimed @ [Part 0], k_nparts := 1\<rparr>"

lemma sample_partition:
  "d_parent (k_dev sample_split (Part 0)) = Some (Whole 0)" "d_parent (k_dev sample_split (Whole 0)) = None"
  "d_start_lba (k_dev sample_split (Part 0)) = 16" "d_sectors (k_dev sample_split (Part 0)) = 40"
  by code_simp+

end
