(* ===== verification/Acc_Sha256.thy ===== *)
theory Acc_Sha256
  imports Sfs_Fields
begin

unbundle bit_operations_syntax

section \<open>SHA-256 (accounts/sha256.c)\<close>

text \<open>
  The hash that the account store uses: the compression function, and the streaming interface \<open>sha256_init\<close>, \<open>sha256_update\<close>,
  \<open>sha256_final\<close>. A context is \<open>sha256_ctx\<close>; its \<open>s_buf\<close> holds the first \<^verbatim>\<open>n\<close> bytes of \<^verbatim>\<open>buf\<close>, the ones that are
  still to be hashed (the others are never read), so \<^verbatim>\<open>n\<close> is its length.

  The lemmas: however a message is cut into pieces, the result is the digest \<open>sha256\<close> of FIPS 180-4, which pads the whole message
  and folds the compression function over its blocks; the padding loop of \<open>sha256_final\<close> takes at most 63 turns.
\<close>

subsection \<open>The compression function\<close>

definition SHA_K :: "u32 list" where
  "SHA_K =
    [0x428a2f98, 0x71374491, 0xb5c0fbcf, 0xe9b5dba5, 0x3956c25b, 0x59f111f1, 0x923f82a4, 0xab1c5ed5,
     0xd807aa98, 0x12835b01, 0x243185be, 0x550c7dc3, 0x72be5d74, 0x80deb1fe, 0x9bdc06a7, 0xc19bf174,
     0xe49b69c1, 0xefbe4786, 0x0fc19dc6, 0x240ca1cc, 0x2de92c6f, 0x4a7484aa, 0x5cb0a9dc, 0x76f988da,
     0x983e5152, 0xa831c66d, 0xb00327c8, 0xbf597fc7, 0xc6e00bf3, 0xd5a79147, 0x06ca6351, 0x14292967,
     0x27b70a85, 0x2e1b2138, 0x4d2c6dfc, 0x53380d13, 0x650a7354, 0x766a0abb, 0x81c2c92e, 0x92722c85,
     0xa2bfe8a1, 0xa81a664b, 0xc24b8b70, 0xc76c51a3, 0xd192e819, 0xd6990624, 0xf40e3585, 0x106aa070,
     0x19a4c116, 0x1e376c08, 0x2748774c, 0x34b0bcb5, 0x391c0cb3, 0x4ed8aa4a, 0x5b9cca4f, 0x682e6ff3,
     0x748f82ee, 0x78a5636f, 0x84c87814, 0x8cc70208, 0x90befffa, 0xa4506ceb, 0xbef9a3f7, 0xc67178f2]"

definition ROR :: "u32 \<Rightarrow> nat \<Rightarrow> u32" where
  "ROR x n = (drop_bit n x OR push_bit (32 - n) x)"

text \<open>The schedule: the 16 words of the block, extended to 64.\<close>

definition sha_word :: "u32 list \<Rightarrow> u32" where
  "sha_word w = (let i = length w;
       s0 = ROR (w ! (i - 15)) 7 XOR ROR (w ! (i - 15)) 18 XOR drop_bit 3 (w ! (i - 15));
       s1 = ROR (w ! (i - 2)) 17 XOR ROR (w ! (i - 2)) 19 XOR drop_bit 10 (w ! (i - 2))
     in w ! (i - 16) + s0 + w ! (i - 7) + s1)"

primrec sha_extend :: "nat \<Rightarrow> u32 list \<Rightarrow> u32 list" where
  "sha_extend 0 w = w"
| "sha_extend (Suc k) w = sha_extend k (w @ [sha_word w])"

definition sha_schedule :: "bytes \<Rightarrow> u32 list" where
  "sha_schedule p = sha_extend 48 (map (\<lambda>i. rdbe32 p (4 * i)) [0..<16])"

type_synonym sha_vars = "u32 \<times> u32 \<times> u32 \<times> u32 \<times> u32 \<times> u32 \<times> u32 \<times> u32"

definition sha_round :: "u32 \<times> u32 \<Rightarrow> sha_vars \<Rightarrow> sha_vars" where
  "sha_round kw v = (case kw of (k, w) \<Rightarrow> case v of (a, b, cc, d, e, f, g, h) \<Rightarrow>
     let t1 = h + (ROR e 6 XOR ROR e 11 XOR ROR e 25) + ((e AND f) XOR (NOT e AND g)) + k + w;
         t2 = (ROR a 2 XOR ROR a 13 XOR ROR a 22) + ((a AND b) XOR (a AND cc) XOR (b AND cc))
     in (t1 + t2, a, b, cc, d + t1, e, f, g))"

definition sha_block :: "u32 list \<Rightarrow> bytes \<Rightarrow> u32 list" where
  "sha_block hs p = (case fold sha_round (zip SHA_K (sha_schedule p)) (hs ! 0, hs ! 1, hs ! 2, hs ! 3, hs ! 4, hs ! 5, hs ! 6, hs ! 7) of
     (a, b, cc, d, e, f, g, h) \<Rightarrow> map2 (+) hs [a, b, cc, d, e, f, g, h])"

subsection \<open>The streaming interface\<close>

record sha256_ctx =
  s_h :: "u32 list"
  s_len :: u64
  s_buf :: bytes

definition SHA_H0 :: "u32 list" where
  "SHA_H0 = [0x6a09e667, 0xbb67ae85, 0x3c6ef372, 0xa54ff53a, 0x510e527f, 0x9b05688c, 0x1f83d9ab, 0x5be0cd19]"

definition sha256_init :: sha256_ctx where
  "sha256_init = \<lparr>s_h = SHA_H0, s_len = 0, s_buf = []\<rparr>"

text \<open>The \<open>while (len >= 64)\<close> loop: the hash state and the bytes that are left.\<close>

function sha_blocks :: "u32 list \<Rightarrow> bytes \<Rightarrow> u32 list \<times> bytes" where
  "sha_blocks hs p = (if 64 \<le> length p then sha_blocks (sha_block hs (take 64 p)) (drop 64 p) else (hs, p))"
  by pat_completeness auto
termination
  by (relation "measure (\<lambda>(hs, p). length p)") auto

declare sha_blocks.simps [simp del]

definition sha256_update :: "bytes \<Rightarrow> sha256_ctx \<Rightarrow> sha256_ctx" where
  "sha256_update p c = (let c = c\<lparr>s_len := s_len c + of_nat (length p)\<rparr>;
       (c, p) = (if s_buf c \<noteq> []
         then let k = (if 64 - length (s_buf c) < length p then 64 - length (s_buf c) else length p); b = s_buf c @ take k p
           in (if length b = 64 then c\<lparr>s_h := sha_block (s_h c) b, s_buf := []\<rparr> else c\<lparr>s_buf := b\<rparr>, drop k p)
         else (c, p));
       (hs, p) = sha_blocks (s_h c) p;
       c = c\<lparr>s_h := hs\<rparr>
     in if p \<noteq> [] then c\<lparr>s_buf := p\<rparr> else c)"

text \<open>The padding loop of \<open>sha256_final\<close>; from any position, 63 turns reach position 56.\<close>

primrec sha_pad :: "nat \<Rightarrow> sha256_ctx \<Rightarrow> sha256_ctx" where
  "sha_pad 0 c = c"
| "sha_pad (Suc k) c = (if length (s_buf c) = 56 then c else sha_pad k (sha256_update [0] c))"

definition be64 :: "u64 \<Rightarrow> bytes" where
  "be64 x = map (\<lambda>i. ucast (drop_bit (56 - 8 * i) x)) [0..<8]"

definition be32 :: "u32 \<Rightarrow> bytes" where
  "be32 x = [ucast (drop_bit 24 x), ucast (drop_bit 16 x), ucast (drop_bit 8 x), ucast x]"

definition sha256_final :: "sha256_ctx \<Rightarrow> bytes" where
  "sha256_final c = (let bits = s_len c * 8; c = sha_pad 63 (sha256_update [0x80] c); c = sha256_update (be64 bits) c
     in concat (map be32 (s_h c)))"

definition sha256_hex :: "bytes \<Rightarrow> string" where
  "sha256_hex d = concat (map (\<lambda>b. [''0123456789abcdef'' ! unat (drop_bit 4 b), ''0123456789abcdef'' ! unat (b AND 15)]) (take 32 d))"

subsection \<open>The digest of a whole message\<close>

definition sha_padding :: "nat \<Rightarrow> bytes" where
  "sha_padding n = 0x80 # replicate ((119 - n mod 64) mod 64) 0 @ be64 (of_nat n * 8)"

definition sha256 :: "bytes \<Rightarrow> bytes" where
  "sha256 m = concat (map be32 (fst (sha_blocks SHA_H0 (m @ sha_padding (length m)))))"

subsection \<open>Correctness of the streaming interface\<close>

lemma sha_blocks_short [simp]: "length p < 64 \<Longrightarrow> sha_blocks hs p = (hs, p)"
  by (simp add: sha_blocks.simps)

lemma sha_blocks_append: "sha_blocks hs (p @ q) = (case sha_blocks hs p of (hs', r) \<Rightarrow> sha_blocks hs' (r @ q))"
proof (induction hs p rule: sha_blocks.induct)
  case (1 hs p)
  show ?case
  proof (cases "64 \<le> length p")
    case True
    thus ?thesis
      using 1 by (subst (1 2) sha_blocks.simps) simp
  qed simp
qed

lemma sha_blocks_rest: "length (snd (sha_blocks hs p)) = length p mod 64"
  by (induction hs p rule: sha_blocks.induct) (subst sha_blocks.simps, auto simp: le_mod_geq)

lemma sha_blocks_64: "length p = 64 \<Longrightarrow> sha_blocks hs p = (sha_block hs p, [])"
  by (simp add: sha_blocks.simps)

text \<open>A context that has taken the message \<open>m\<close>.\<close>

definition ctx_of :: "bytes \<Rightarrow> sha256_ctx" where
  "ctx_of m = (case sha_blocks SHA_H0 m of (hs, r) \<Rightarrow> \<lparr>s_h = hs, s_len = of_nat (length m), s_buf = r\<rparr>)"

lemma ctx_of_buf: "length (s_buf (ctx_of m)) = length m mod 64"
  using sha_blocks_rest[of SHA_H0 m] by (auto simp: ctx_of_def split: prod.split)

lemma ctx_of_len: "s_len (ctx_of m) = of_nat (length m)"
  by (simp add: ctx_of_def split: prod.split)

lemma ctx_init: "sha256_init = ctx_of []"
  by (simp add: sha256_init_def ctx_of_def)

lemma sha_blocks_fill:
  assumes "length b = 64"
  shows "sha_blocks hs (b @ q) = sha_blocks (sha_block hs b) q"
  using sha_blocks_append[of hs b q] by (simp add: sha_blocks_64[OF assms])

lemma update_split:
  assumes "length r < 64" "k = (if 64 - length r < length p then 64 - length r else length p)"
  shows "(if length (r @ take k p) = 64 then sha_blocks (sha_block hs (r @ take k p)) (drop k p) else (hs, r @ take k p)) = sha_blocks hs (r @ p)"
proof (cases "64 \<le> length r + length p")
  case True
  hence "length (r @ take k p) = 64"
    using assms by auto
  with sha_blocks_fill[OF this, of hs "drop k p"] show ?thesis
    by simp
next
  case False
  hence "take k p = p" "length r + length p < 64"
    using assms by auto
  thus ?thesis by simp
qed

text \<open>The three ways through \<open>sha256_update\<close>: nothing buffered, the buffer is filled, the buffer only grows.\<close>

lemma update_empty: "sha256_update p \<lparr>s_h = hs, s_len = l, s_buf = []\<rparr> =
    (case sha_blocks hs p of (hs', r') \<Rightarrow> \<lparr>s_h = hs', s_len = l + of_nat (length p), s_buf = r'\<rparr>)"
  by (simp add: sha256_update_def Let_def split: prod.split)

lemma update_fill:
  assumes "r \<noteq> []" "k = (if 64 - length r < length p then 64 - length r else length p)" "length (r @ take k p) = 64"
  shows "sha256_update p \<lparr>s_h = hs, s_len = l, s_buf = r\<rparr> =
    (case sha_blocks (sha_block hs (r @ take k p)) (drop k p) of (hs', r') \<Rightarrow> \<lparr>s_h = hs', s_len = l + of_nat (length p), s_buf = r'\<rparr>)"
  using assms(1,3) unfolding assms(2) sha256_update_def by (simp add: Let_def split: prod.split if_splits)

lemma update_grow:
  assumes "r \<noteq> []" "length r + length p < 64"
  shows "sha256_update p \<lparr>s_h = hs, s_len = l, s_buf = r\<rparr> = \<lparr>s_h = hs, s_len = l + of_nat (length p), s_buf = r @ p\<rparr>"
  unfolding sha256_update_def using assms by (auto simp: Let_def)

lemma update_ctx: "sha256_update p (ctx_of m) = ctx_of (m @ p)"
proof -
  obtain hs r where b: "sha_blocks SHA_H0 m = (hs, r)"
    by (cases "sha_blocks SHA_H0 m")
  have r: "length r < 64"
    using sha_blocks_rest[of SHA_H0 m] b by simp
  have m: "ctx_of m = \<lparr>s_h = hs, s_len = of_nat (length m), s_buf = r\<rparr>"
    by (simp add: ctx_of_def b)
  have goal: "ctx_of (m @ p) = (case sha_blocks hs (r @ p) of (hs', r') \<Rightarrow> \<lparr>s_h = hs', s_len = of_nat (length m) + of_nat (length p), s_buf = r'\<rparr>)"
    unfolding ctx_of_def sha_blocks_append[of SHA_H0 m] b by (simp split: prod.split)
  define k where "k = (if 64 - length r < length p then 64 - length r else length p)"
  consider "r = []" | "r \<noteq> []" "length (r @ take k p) = 64" | "r \<noteq> []" "length r + length p < 64"
  proof -
    have "length (r @ take k p) = 64" if "64 \<le> length r + length p"
      using that r by (auto simp: k_def)
    thus thesis
      using that by (meson not_le)
  qed
  thus ?thesis
  proof cases
    case 1
    thus ?thesis
      unfolding m goal by (simp add: update_empty)
  next
    case 2
    have "sha_blocks (sha_block hs (r @ take k p)) (drop k p) = sha_blocks hs (r @ p)"
      using update_split[OF r k_def, of hs] unfolding if_P[OF 2(2)] .
    thus ?thesis
      unfolding m goal update_fill[OF 2(1) k_def 2(2)] by (rule arg_cong)
  next
    case 3
    thus ?thesis
      unfolding m goal by (simp add: update_grow)
  qed
qed

text \<open>The number of zeros up to position 56.\<close>

lemma pad_count_step:
  fixes n :: nat
  assumes "n mod 64 \<noteq> 56"
  shows "(120 - n mod 64) mod 64 = Suc ((120 - (n + 1) mod 64) mod 64)"
proof -
  define x where "x = n mod 64"
  have x: "x < 64" "x \<noteq> 56" "(n + 1) mod 64 = (if x = 63 then 0 else x + 1)"
    using assms by (simp_all add: x_def mod_Suc)
  have low: "(120 - y) mod 64 = 56 - y" if "y \<le> 56" for y :: nat
  proof -
    have "120 - y = (56 - y) + 64"
      using that by simp
    thus ?thesis
      by (simp only: mod_add_self2) simp
  qed
  consider "x < 56" | "56 < x" "x < 63" | "x = 63"
    using x(1,2) by linarith
  thus ?thesis
    unfolding x(3) x_def[symmetric]
  proof cases
    case 1
    hence "(120 - x) mod 64 = 56 - x" "(120 - (x + 1)) mod 64 = 56 - (x + 1)"
      by (simp_all only: low less_imp_le_nat Suc_leI Suc_eq_plus1[symmetric])
    with 1 show "(120 - x) mod 64 = Suc ((120 - (if x = 63 then 0 else x + 1)) mod 64)"
      by simp
  qed simp_all
qed

lemma pad_ctx:
  "(120 - length m mod 64) mod 64 \<le> k \<Longrightarrow> sha_pad k (ctx_of m) = ctx_of (m @ replicate ((120 - length m mod 64) mod 64) 0)"
proof (induction k arbitrary: m)
  case 0
  thus ?case by simp
next
  case (Suc k)
  show ?case
  proof (cases "length m mod 64 = 56")
    case True
    thus ?thesis by (simp add: ctx_of_buf)
  next
    case False
    note step = pad_count_step[OF False]
    have "sha_pad k (ctx_of (m @ [0])) = ctx_of ((m @ [0]) @ replicate ((120 - length (m @ [0]) mod 64) mod 64) 0)"
      using Suc.prems step by (intro Suc.IH) simp
    thus ?thesis
      using False step by (simp add: ctx_of_buf update_ctx)
  qed
qed

lemma final_ctx: "sha256_final (ctx_of m) = sha256 m"
proof -
  have "sha_pad 63 (ctx_of (m @ [0x80])) = ctx_of ((m @ [0x80]) @ replicate ((120 - length (m @ [0x80]) mod 64) mod 64) 0)"
    by (rule pad_ctx) (simp add: less_Suc_eq_le[symmetric])
  moreover have "(120 - (length m + 1) mod 64) mod 64 = (119 - length m mod 64) mod 64"
  proof (cases "length m mod 64 = 63")
    case True
    hence "(length m + 1) mod 64 = 0" by (simp add: mod_Suc)
    with True show ?thesis by simp
  next
    case False
    hence "(length m + 1) mod 64 = length m mod 64 + 1" by (simp add: mod_Suc)
    thus ?thesis by simp
  qed
  ultimately have "sha_pad 63 (ctx_of (m @ [0x80])) = ctx_of ((m @ [0x80]) @ replicate ((119 - length m mod 64) mod 64) 0)"
    by simp
  hence pad: "sha256_update (be64 (s_len (ctx_of m) * 8)) (sha_pad 63 (sha256_update [0x80] (ctx_of m))) = ctx_of (m @ sha_padding (length m))"
    by (simp only: update_ctx ctx_of_len) (simp add: sha_padding_def)
  show ?thesis
    unfolding sha256_final_def Let_def pad sha256_def
    by (simp add: ctx_of_def split: prod.split)
qed

end
