(* ===== verification/Acc_Kdf.thy ===== *)
theory Acc_Kdf
  imports Acc_Sha256
begin

unbundle bit_operations_syntax

section \<open>Key derivation (accounts/kdf.c)\<close>

text \<open>
  HMAC-SHA256 and PBKDF2 with one output block. The lemmas: \<open>hmac\<close> is RFC 2104 and \<open>shz_pbkdf2\<close> is the function F of RFC 8018 for the
  first block. Clearing of secrets (\<open>shz_secret_clear\<close>) ends the life of local buffers and has no counterpart.
\<close>

subsection \<open>The code\<close>

definition hmac :: "bytes \<Rightarrow> bytes \<Rightarrow> bytes \<Rightarrow> bytes" where
  "hmac key a b = (
     let pad = (if 64 < length key then sha256_final (sha256_update key sha256_init) else key);
         pad = pad @ replicate (64 - length pad) 0;
         pad = map (\<lambda>x. x XOR 0x36) pad;
         c = sha256_update pad sha256_init;
         c = (if a \<noteq> [] then sha256_update a c else c);
         c = (if b \<noteq> [] then sha256_update b c else c);
         inner = sha256_final c;
         pad = map (\<lambda>x. x XOR (0x36 XOR 0x5C)) pad
     in sha256_final (sha256_update inner (sha256_update pad sha256_init)))"

text \<open>The loop over \<open>j\<close>: \<open>u\<close> and \<open>t\<close> after \<open>n\<close> turns.\<close>

primrec pbkdf2_loop :: "nat \<Rightarrow> bytes \<Rightarrow> bytes \<Rightarrow> bytes \<Rightarrow> bytes" where
  "pbkdf2_loop 0 pw u t = t"
| "pbkdf2_loop (Suc n) pw u t = (let u = hmac pw u []; t = map2 (XOR) t u in pbkdf2_loop n pw u t)"

definition shz_pbkdf2 :: "bytes \<Rightarrow> bytes \<Rightarrow> u32 \<Rightarrow> bytes option" where
  "shz_pbkdf2 pw salt rounds = (if rounds = 0 \<or> 128 < length pw \<or> 64 < length salt then None
     else let u = hmac pw salt [0, 0, 0, 1] in Some (pbkdf2_loop (unat rounds - 1) pw u u))"

subsection \<open>The standards\<close>

definition hmac_key :: "bytes \<Rightarrow> bytes" where
  "hmac_key k = (let k = (if 64 < length k then sha256 k else k) in k @ replicate (64 - length k) 0)"

definition hmac_sha256 :: "bytes \<Rightarrow> bytes \<Rightarrow> bytes" where
  "hmac_sha256 k m = sha256 (map (\<lambda>x. x XOR 0x5C) (hmac_key k) @ sha256 (map (\<lambda>x. x XOR 0x36) (hmac_key k) @ m))"

text \<open>The iterates U and their exclusive or.\<close>

definition xor_bytes :: "bytes \<Rightarrow> bytes \<Rightarrow> bytes" where
  "xor_bytes a b = map2 (XOR) a b"

definition kdf_u :: "bytes \<Rightarrow> bytes \<Rightarrow> nat \<Rightarrow> bytes" where
  "kdf_u pw salt j = ((hmac_sha256 pw) ^^ j) (hmac_sha256 pw (salt @ [0, 0, 0, 1]))"

definition kdf_f :: "bytes \<Rightarrow> bytes \<Rightarrow> nat \<Rightarrow> bytes" where
  "kdf_f pw salt n = foldl xor_bytes (kdf_u pw salt 0) (map (kdf_u pw salt) [1..<n])"

subsection \<open>Correctness\<close>

lemma hash_stream: "sha256_final (sha256_update a sha256_init) = sha256 a" "sha256_final (sha256_update b (sha256_update a sha256_init)) = sha256 (a @ b)"
  by (simp_all add: ctx_init update_ctx final_ctx)

lemma xor_pads: "map (\<lambda>x. x XOR (0x36 XOR 0x5C)) (map (\<lambda>x. x XOR 0x36) k) = map (\<lambda>x. x XOR 0x5C) (k :: bytes)"
  by (simp add: xor.assoc)

lemma hmac_standard: "hmac key a b = hmac_sha256 key (a @ b)"
proof -
  have key: "(let pad = (if 64 < length key then sha256_final (sha256_update key sha256_init) else key) in pad @ replicate (64 - length pad) 0) = hmac_key key"
    by (simp add: hmac_key_def hash_stream)
  let ?k = "map (\<lambda>x. x XOR 0x36) (hmac_key key)"
  have "hmac key a b = (let c = sha256_update ?k sha256_init; c = (if a \<noteq> [] then sha256_update a c else c); c = (if b \<noteq> [] then sha256_update b c else c)
      in sha256_final (sha256_update (sha256_final c) (sha256_update (map (\<lambda>x. x XOR (0x36 XOR 0x5C)) ?k) sha256_init)))"
    unfolding hmac_def key[symmetric] Let_def ..
  thus ?thesis
    unfolding hmac_sha256_def xor_pads by (cases "a = []"; cases "b = []") (simp_all add: Let_def ctx_init update_ctx final_ctx)
qed

lemma pbkdf2_loop_standard:
  "pbkdf2_loop n pw (kdf_u pw salt j) t = foldl xor_bytes t (map (kdf_u pw salt) [Suc j..<Suc (j + n)])"
proof (induction n arbitrary: j t)
  case (Suc n)
  have "hmac pw (kdf_u pw salt j) [] = kdf_u pw salt (Suc j)"
    by (simp add: hmac_standard kdf_u_def)
  thus ?case
    using Suc.IH[of "Suc j"] by (simp add: upt_rec[of "Suc j" "Suc (Suc (j + n))"] xor_bytes_def del: upt_Suc)
qed simp

lemma pbkdf2_standard:
  assumes "rounds \<noteq> 0" "length pw \<le> 128" "length salt \<le> 64"
  shows "shz_pbkdf2 pw salt rounds = Some (kdf_f pw salt (unat rounds))"
proof -
  have u: "hmac pw salt [0, 0, 0, 1] = kdf_u pw salt 0"
    by (simp add: hmac_standard kdf_u_def)
  have "0 < unat rounds"
    using assms(1) by (simp add: unat_gt_0)
  thus ?thesis
    using assms unfolding shz_pbkdf2_def u kdf_f_def by (simp add: pbkdf2_loop_standard Let_def del: upt_Suc)
qed

end
