(* ===== verification/Acc_Account.thy ===== *)
theory Acc_Account
  imports Acc_Kdf
begin

unbundle bit_operations_syntax

section \<open>Accounts and subjects (accounts/account.c)\<close>

text \<open>
  The account store of the kernel: registration, login with its lockout, elevation, and the two decisions that are made on an
  authenticated subject (access to another subject's objects, access to a path). \<open>ad_accounts\<close> holds the first \<^verbatim>\<open>count\<close> entries of
  \<^verbatim>\<open>accounts\<close>; the random generator is \<open>ad_entropy\<close>, a function on its context. A name, a password or a path is the list of its
  bytes without the terminating NUL; pointers are not null. Every call is one step (the kernel calls the store under its authority lock).
\<close>

abbreviation (input) SHZ_ACCOUNT_LIMIT :: nat where "SHZ_ACCOUNT_LIMIT \<equiv> 16"
abbreviation (input) SHZ_KDF_ROUNDS :: u32 where "SHZ_KDF_ROUNDS \<equiv> 600000"
abbreviation (input) SHZ_ROLE_ADMIN :: u32 where "SHZ_ROLE_ADMIN \<equiv> 1"

datatype auth_err = SHZ_AUTH_DENIED | SHZ_AUTH_INVALID | SHZ_AUTH_FULL | SHZ_AUTH_LOCKED | SHZ_AUTH_ENTROPY

record shz_subject =
  sj_uid :: u32
  sj_session :: u32
  sj_integrity :: u32
  sj_roles :: u32
  sj_flags :: u32
  sj_reserved :: u32
  sj_auth_id :: u64

record shz_account =
  ac_name :: bytes
  ac_uid :: u32
  ac_roles :: u32
  ac_failures :: u32
  ac_locked_until :: u64
  ac_salt :: bytes
  ac_digest :: bytes

record 'c shz_accounts =
  ad_accounts :: "shz_account list"
  ad_next_session :: u32
  ad_entropy :: "('c \<Rightarrow> bytes option \<times> 'c) option"
  ad_ctx :: 'c

type_synonym ('c, 'a) accact = "('c shz_accounts, 'a) act"

subsection \<open>Names\<close>

definition to_lower :: "u8 \<Rightarrow> u8" where
  "to_lower c = (if 0x41 \<le> c \<and> c \<le> 0x5A then c + 32 else c)"

definition name_byte :: "u8 \<Rightarrow> bool" where
  "name_byte c = (0x61 \<le> c \<and> c \<le> 0x7A \<or> 0x30 \<le> c \<and> c \<le> 0x39 \<or> c = 0x5F \<or> c = 0x2D)"

fun name_copy_loop :: "nat \<Rightarrow> bytes \<Rightarrow> bytes option" where
  "name_copy_loop 0 s = None"
| "name_copy_loop (Suc k) [] = Some []"
| "name_copy_loop (Suc k) (c # s) = (if name_byte (to_lower c) then map_option ((#) (to_lower c)) (name_copy_loop k s) else None)"

definition name_copy :: "bytes \<Rightarrow> bytes option" where
  "name_copy name = (if name = [] then None else name_copy_loop 32 name)"

subsection \<open>Registration\<close>

definition shz_accounts_init :: "('c \<Rightarrow> bytes option \<times> 'c) option \<Rightarrow> 'c \<Rightarrow> 'c shz_accounts" where
  "shz_accounts_init e c = \<lparr>ad_accounts = [], ad_next_session = 1, ad_entropy = e, ad_ctx = c\<rparr>"

text \<open>The elevated administrator: the only subject that may enrol others, reach every subject and every path.\<close>

definition is_admin :: "shz_subject \<Rightarrow> bool" where
  "is_admin s = (sj_uid s \<noteq> 0 \<and> sj_roles s = SHZ_ROLE_ADMIN \<and> 0x3000 \<le> sj_integrity s \<and> sj_flags s = 0)"

text \<open>What the generator stores in the 32 zeroed bytes of \<open>a.salt\<close>.\<close>

definition fill32 :: "bytes \<Rightarrow> bytes" where
  "fill32 b = take 32 (b @ replicate 32 0)"

definition draw_salt :: "('c, bytes option) accact" where
  "draw_salt = (\<lambda>d. case ad_entropy d of None \<Rightarrow> (None, d)
     | Some e \<Rightarrow> (case e (ad_ctx d) of (r, c) \<Rightarrow> (map_option fill32 r, d\<lparr>ad_ctx := c\<rparr>)))"

definition shz_account_register :: "shz_subject \<Rightarrow> bool \<Rightarrow> bytes \<Rightarrow> bytes \<Rightarrow> u32 \<Rightarrow> ('c, auth_err + unit) accact" where
  "shz_account_register who bootstrap name pw roles = look (\<lambda>d. case (if length pw < 8 \<or> 128 < length pw \<or> roles AND NOT SHZ_ROLE_ADMIN \<noteq> 0 then None else name_copy name) of
       None \<Rightarrow> ret (Inl SHZ_AUTH_INVALID)
     | Some n \<Rightarrow>
       if \<not> (ad_accounts d = [] \<and> bootstrap \<or> ad_accounts d \<noteq> [] \<and> is_admin who) then ret (Inl SHZ_AUTH_DENIED)
       else if ad_accounts d = [] \<and> roles \<noteq> SHZ_ROLE_ADMIN then ret (Inl SHZ_AUTH_DENIED)
       else if SHZ_ACCOUNT_LIMIT \<le> length (ad_accounts d) then ret (Inl SHZ_AUTH_FULL)
       else if \<exists>a \<in> set (ad_accounts d). ac_name a = n then ret (Inl SHZ_AUTH_DENIED)
       else run draw_salt (\<lambda>salt. case salt of None \<Rightarrow> ret (Inl SHZ_AUTH_ENTROPY)
         | Some salt \<Rightarrow> (case shz_pbkdf2 pw salt SHZ_KDF_ROUNDS of None \<Rightarrow> ret (Inl SHZ_AUTH_INVALID)
           | Some digest \<Rightarrow> run (upd (\<lambda>d. d\<lparr>ad_accounts := ad_accounts d @ [\<lparr>ac_name = n, ac_uid = 1000 + of_nat (length (ad_accounts d)), ac_roles = roles,
               ac_failures = 0, ac_locked_until = 0, ac_salt = salt, ac_digest = digest\<rparr>]\<rparr>)) (\<lambda>_. ret (Inr ())))))"

subsection \<open>Login\<close>

text \<open>The index of the last account with the name.\<close>

fun account_find :: "bytes \<Rightarrow> shz_account list \<Rightarrow> nat \<Rightarrow> nat option \<Rightarrow> nat option" where
  "account_find n [] i r = r"
| "account_find n (a # as) i r = account_find n as (Suc i) (if ac_name a = n then Some i else r)"

text \<open>A password of at most 128 bytes with a salt of 32 always has a digest.\<close>

definition account_digest :: "bytes \<Rightarrow> bytes \<Rightarrow> bytes" where
  "account_digest pw salt = (case shz_pbkdf2 pw salt SHZ_KDF_ROUNDS of Some h \<Rightarrow> h | None \<Rightarrow> [])"

definition digest_diff :: "bytes \<Rightarrow> bytes \<Rightarrow> u8" where
  "digest_diff a b = foldl (OR) 0 (map (\<lambda>i. byte_at a i XOR byte_at b i) [0..<32])"

definition note_failure :: "u64 \<Rightarrow> shz_account \<Rightarrow> shz_account" where
  "note_failure now a = (let f = ac_failures a + 1 in
     if 5 \<le> f then a\<lparr>ac_failures := 0, ac_locked_until := (if 0xFFFFFFFFFFFFFFFF - 30000 < now then 0xFFFFFFFFFFFFFFFF else now + 30000)\<rparr>
     else a\<lparr>ac_failures := f\<rparr>)"

definition upd_account :: "nat \<Rightarrow> (shz_account \<Rightarrow> shz_account) \<Rightarrow> ('c, unit) accact" where
  "upd_account i f = upd (\<lambda>d. d\<lparr>ad_accounts := (ad_accounts d)[i := f (ad_accounts d ! i)]\<rparr>)"

definition session_subject :: "shz_account \<Rightarrow> u32 \<Rightarrow> shz_subject" where
  "session_subject a n = \<lparr>sj_uid = ac_uid a, sj_session = n, sj_integrity = 0x2000, sj_roles = ac_roles a, sj_flags = 0, sj_reserved = 0,
     sj_auth_id = push_bit 32 (ucast (ac_uid a)) OR ucast n\<rparr>"

definition shz_account_login :: "bytes \<Rightarrow> bytes \<Rightarrow> u64 \<Rightarrow> ('c, auth_err + shz_subject) accact" where
  "shz_account_login name pw now = look (\<lambda>d. case (if length pw < 8 \<or> 128 < length pw then None else name_copy name) of
       None \<Rightarrow> ret (Inl SHZ_AUTH_DENIED)
     | Some n \<Rightarrow> (case account_find n (ad_accounts d) 0 None of
         None \<Rightarrow> ret (Inl SHZ_AUTH_DENIED)
       | Some i \<Rightarrow> let a = ad_accounts d ! i in
           if now < ac_locked_until a then ret (Inl SHZ_AUTH_LOCKED)
           else if digest_diff (account_digest pw (ac_salt a)) (ac_digest a) \<noteq> 0
             then run (upd_account i (note_failure now)) (\<lambda>_. ret (Inl SHZ_AUTH_DENIED))
           else if ad_next_session d = 0 then ret (Inl SHZ_AUTH_FULL)
           else run (upd_account i (\<lambda>a. a\<lparr>ac_failures := 0, ac_locked_until := 0\<rparr>)) (\<lambda>_.
                run (upd (\<lambda>d. d\<lparr>ad_next_session := ad_next_session d + 1\<rparr>)) (\<lambda>_.
                ret (Inr (session_subject a (ad_next_session d)))))))"

definition shz_account_elevate :: "bytes \<Rightarrow> bytes \<Rightarrow> u64 \<Rightarrow> ('c, auth_err + shz_subject) accact" where
  "shz_account_elevate name pw now = run (shz_account_login name pw now) (\<lambda>st. case st of Inl e \<Rightarrow> ret (Inl e)
     | Inr s \<Rightarrow> if sj_roles s \<noteq> SHZ_ROLE_ADMIN then ret (Inl SHZ_AUTH_DENIED) else ret (Inr (s\<lparr>sj_integrity := 0x3000\<rparr>)))"

subsection \<open>Decisions\<close>

definition shz_subject_access :: "shz_subject \<Rightarrow> shz_subject \<Rightarrow> bool" where
  "shz_subject_access a b = (is_admin a \<or> sj_uid a = sj_uid b \<and> sj_session a = sj_session b \<and> sj_integrity b \<le> sj_integrity a)"

definition nt_prefix :: bytes where "nt_prefix = [0x5C, 0x3F, 0x3F, 0x5C]"

definition path_norm :: "bytes \<Rightarrow> bytes" where
  "path_norm path = map to_lower (if take 4 path = nt_prefix then drop 4 path else path)"

text \<open>The loop over \<open>i\<close> from 3 to \<open>n\<close>; the byte at \<open>n\<close> is the terminating 0.\<close>

primrec path_scan :: "nat \<Rightarrow> bytes \<Rightarrow> nat \<Rightarrow> nat \<Rightarrow> bool" where
  "path_scan 0 p i start = True"
| "path_scan (Suc k) p i start = (let c = byte_at p i in
     if c = 0x3A \<or> c = 0x2F \<or> c < 32 \<and> c \<noteq> 0 then False
     else if c = 0x5C \<or> c = 0
       then if i = start \<or> start < i \<and> (byte_at p (i - 1) = 0x2E \<or> byte_at p (i - 1) = 0x20) then False else path_scan k p (i + 1) (i + 1)
     else path_scan k p (i + 1) start)"

fun path_uid :: "bytes \<Rightarrow> u32 \<Rightarrow> (u32 \<times> bytes) option" where
  "path_uid (c # s) uid = (if 0x30 \<le> c \<and> c \<le> 0x39 then if (0xFFFFFFFF - 9) div 10 < uid then None else path_uid s (uid * 10 + ucast (c - 0x30))
     else Some (uid, c # s))"
| "path_uid [] uid = Some (uid, [])"

definition users_dir :: bytes where "users_dir = [0x75, 0x73, 0x65, 0x72, 0x73, 0x5C]"

text \<open>The account number of a profile path: \<open>None\<close> is a refusal, \<open>Some None\<close> a path outside the profiles.\<close>

definition path_profile :: "bytes \<Rightarrow> u32 option option" where
  "path_profile p = (if 9 \<le> length p \<and> slice p 3 6 = users_dir
     then case path_uid (drop 9 p) 0 of None \<Rightarrow> None
       | Some (uid, rest) \<Rightarrow> if rest = drop 9 p \<or> uid = 0 \<or> rest \<noteq> [] \<and> hd rest \<noteq> 0x5C then None else Some (Some uid)
     else Some None)"

definition shz_subject_path :: "shz_subject \<Rightarrow> bytes \<Rightarrow> bool \<Rightarrow> bool" where
  "shz_subject_path s path wr = (let p = path_norm path; n = length p in
     if 299 < n \<or> n < 3 then False
     else if byte_at p 0 < 0x61 \<or> 0x7A < byte_at p 0 \<or> byte_at p 1 \<noteq> 0x3A \<or> byte_at p 2 \<noteq> 0x5C then False
     else if \<not> path_scan (n - 2) p 3 3 then False
     else case path_profile p of None \<Rightarrow> False
       | Some profile \<Rightarrow> if is_admin s then True
           else if profile \<noteq> None \<and> profile \<noteq> Some (sj_uid s) then False
           else if wr then profile \<noteq> None \<and> sj_uid s \<noteq> 0 \<and> 0x2000 \<le> sj_integrity s \<and> sj_flags s = 0
           else True)"

text \<open>The profile directory the kernel makes for an account (\<open>profile_path\<close> of \<^verbatim>\<open>kernel64/sysk32_auth.c\<close>). The loop writes the digits from
  the last one on; a 32-bit number has at most 10.\<close>

primrec profile_digits :: "nat \<Rightarrow> u32 \<Rightarrow> bytes" where
  "profile_digits 0 uid = []"
| "profile_digits (Suc k) uid = (0x30 + ucast (uid mod 10)) # (if uid div 10 = 0 then [] else profile_digits k (uid div 10))"

definition profile_path :: "u32 \<Rightarrow> bytes" where
  "profile_path uid = [0x43, 0x3A, 0x5C, 0x55, 0x73, 0x65, 0x72, 0x73, 0x5C] @ rev (profile_digits 10 uid)"

end
