(* ===== verification/Acc_Policy.thy ===== *)
theory Acc_Policy
  imports Acc_Account
begin

unbundle bit_operations_syntax

section \<open>Properties of the account store\<close>

text \<open>
  What the store guarantees: a password that was registered logs in and no other digest does; the invariant of the store over
  every history of calls (\<open>acc_step\<close>); sessions are never issued twice; five failures lock an account, and the lock ends; a subject writes
  only below its own profile.
\<close>

subsection \<open>Names\<close>

lemma to_lower_idem [simp]: "name_byte c \<Longrightarrow> to_lower c = c"
  by (auto simp: name_byte_def to_lower_def word_le_nat_alt)

lemma name_copy_loop_Some: "name_copy_loop k s = Some n \<Longrightarrow> n = map to_lower s \<and> list_all name_byte n \<and> length n < k"
  by (induction k s arbitrary: n rule: name_copy_loop.induct) (auto split: if_splits)

lemma name_copy_loop_fixed: "list_all name_byte n \<Longrightarrow> length n < k \<Longrightarrow> name_copy_loop k n = Some n"
proof (induction n arbitrary: k)
  case Nil
  thus ?case by (cases k) auto
next
  case (Cons c n)
  thus ?case by (cases k) auto
qed

lemma name_copy_Some: "name_copy s = Some n \<Longrightarrow> n = map to_lower s \<and> list_all name_byte n \<and> length n < 32 \<and> n \<noteq> []"
  using name_copy_loop_Some[of 32 s n] by (auto simp: name_copy_def split: if_splits)

subsection \<open>The store\<close>

lemma or_eq_0: "a OR b = 0 \<longleftrightarrow> a = 0 \<and> b = (0 :: u8)"
  by (auto simp: bit_eq_iff bit_or_iff)

lemma digest_diff_zero: "digest_diff a b = 0 \<longleftrightarrow> (\<forall>i < 32. byte_at a i = byte_at b i)"
proof -
  have or0: "foldl (OR) c xs = 0 \<longleftrightarrow> c = 0 \<and> (\<forall>x \<in> set xs. x = 0)" for c :: u8 and xs
    by (induction xs arbitrary: c) (auto simp: or_eq_0)
  show ?thesis
    by (auto simp: digest_diff_def or0 word_xor_eq_0)
qed

lemma account_find_spec:
  "account_find n as i r = (if \<exists>a \<in> set as. ac_name a = n then account_find n as i None else r)"
proof (induction as arbitrary: i r)
  case (Cons a as)
  show ?case
    using Cons.IH[of "Suc i" "Some i"] Cons.IH[of "Suc i" r] Cons.IH[of "Suc i" None] by (cases "ac_name a = n") auto
qed simp

lemma account_find_Some: "account_find n as i None = Some j \<Longrightarrow> i \<le> j \<and> j < i + length as \<and> ac_name (as ! (j - i)) = n"
proof (induction as arbitrary: i)
  case (Cons a as)
  show ?case
  proof (cases "\<exists>b \<in> set as. ac_name b = n")
    case True
    hence "account_find n as (Suc i) None = Some j"
      using Cons.prems account_find_spec[of n as "Suc i" "Some i"] by (cases "ac_name a = n") auto
    from Cons.IH[OF this] show ?thesis
      by (auto simp: nth_Cons' Suc_le_eq)
  next
    case False
    thus ?thesis
      using Cons.prems account_find_spec[of n as "Suc i"] by (auto split: if_splits)
  qed
qed simp

lemma account_find_None: "account_find n as i None = None \<longleftrightarrow> (\<forall>a \<in> set as. ac_name a \<noteq> n)"
proof (induction as arbitrary: i)
  case (Cons a as)
  show ?case
    using Cons.IH[of "Suc i"] account_find_spec[of n as "Suc i" "Some i"] by auto
qed simp

lemma account_find_distinct:
  assumes "distinct (map ac_name as)" "j < length as" "ac_name (as ! j) = n"
  shows "account_find n as 0 None = Some j"
proof -
  have "account_find n as 0 None \<noteq> None"
    using assms(2,3) nth_mem[of j as] by (auto simp: account_find_None)
  then obtain k where k: "account_find n as 0 None = Some k"
    by auto
  with account_find_Some[OF k] assms show ?thesis
    by (auto simp: distinct_conv_nth)
qed

definition valid_account :: "shz_account \<Rightarrow> bool" where
  "valid_account a = (list_all name_byte (ac_name a) \<and> ac_name a \<noteq> [] \<and> length (ac_name a) < 32 \<and> (ac_roles a = 0 \<or> ac_roles a = SHZ_ROLE_ADMIN) \<and>
     ac_failures a < 5 \<and> length (ac_salt a) = 32)"

definition accounts_inv :: "'c shz_accounts \<Rightarrow> bool" where
  "accounts_inv d = (length (ad_accounts d) \<le> SHZ_ACCOUNT_LIMIT \<and> distinct (map ac_name (ad_accounts d)) \<and>
     map ac_uid (ad_accounts d) = map (\<lambda>i. 1000 + of_nat i) [0..<length (ad_accounts d)] \<and> list_all valid_account (ad_accounts d) \<and>
     (ad_accounts d \<noteq> [] \<longrightarrow> ac_roles (hd (ad_accounts d)) = SHZ_ROLE_ADMIN))"

text \<open>The part of an account that never changes, and the number of sessions issued so far (a store that has issued all stays there).\<close>

definition account_key :: "shz_account \<Rightarrow> bytes \<times> u32 \<times> u32 \<times> bytes \<times> bytes" where
  "account_key a = (ac_name a, ac_uid a, ac_roles a, ac_salt a, ac_digest a)"

definition issued :: "'c shz_accounts \<Rightarrow> nat" where
  "issued d = (if ad_next_session d = 0 then 2 ^ 32 else unat (ad_next_session d))"

definition later :: "'c shz_accounts \<Rightarrow> 'c shz_accounts \<Rightarrow> bool" where
  "later d d' = ((\<exists>ks. map account_key (ad_accounts d') = map account_key (ad_accounts d) @ ks) \<and> issued d \<le> issued d' \<and>
     ad_entropy d' = ad_entropy d)"

inductive acc_step :: "'c shz_accounts \<Rightarrow> 'c shz_accounts \<Rightarrow> bool" where
  do_register: "acc_step d (snd (shz_account_register who boot name pw roles d))"
| do_login: "acc_step d (snd (shz_account_login name pw now d))"
| do_elevate: "acc_step d (snd (shz_account_elevate name pw now d))"

lemma elevate_state: "snd (shz_account_elevate name pw now d) = snd (shz_account_login name pw now d)"
  by (simp add: shz_account_elevate_def run_apply split: prod.split sum.split)

text \<open>What a login does to the store.\<close>

lemma login_cases:
  obtains (refused) e where "shz_account_login name pw now d = (Inl e, d)" "e \<noteq> SHZ_AUTH_INVALID"
  | (failed) n i where "name_copy name = Some n" "account_find n (ad_accounts d) 0 None = Some i" "ac_locked_until (ad_accounts d ! i) \<le> now"
      "digest_diff (account_digest pw (ac_salt (ad_accounts d ! i))) (ac_digest (ad_accounts d ! i)) \<noteq> 0"
      "shz_account_login name pw now d = (Inl SHZ_AUTH_DENIED, d\<lparr>ad_accounts := (ad_accounts d)[i := note_failure now (ad_accounts d ! i)]\<rparr>)"
  | (entered) n i where "name_copy name = Some n" "account_find n (ad_accounts d) 0 None = Some i" "ac_locked_until (ad_accounts d ! i) \<le> now"
      "8 \<le> length pw" "length pw \<le> 128" "digest_diff (account_digest pw (ac_salt (ad_accounts d ! i))) (ac_digest (ad_accounts d ! i)) = 0"
      "ad_next_session d \<noteq> 0"
      "shz_account_login name pw now d = (Inr (session_subject (ad_accounts d ! i) (ad_next_session d)),
         d\<lparr>ad_accounts := (ad_accounts d)[i := (ad_accounts d ! i)\<lparr>ac_failures := 0, ac_locked_until := 0\<rparr>], ad_next_session := ad_next_session d + 1\<rparr>)"
proof -
  note d = shz_account_login_def upd_account_def run_apply Let_def
  consider "length pw < 8 \<or> 128 < length pw \<or> name_copy name = None"
    | n where "8 \<le> length pw" "length pw \<le> 128" "name_copy name = Some n" "account_find n (ad_accounts d) 0 None = None"
    | n i where "8 \<le> length pw" "length pw \<le> 128" "name_copy name = Some n" "account_find n (ad_accounts d) 0 None = Some i"
    by (metis not_le option.exhaust)
  thus thesis
  proof cases
    case 1
    thus thesis by (intro refused[of SHZ_AUTH_DENIED]) (auto simp: d)
  next
    case 2
    thus thesis by (intro refused[of SHZ_AUTH_DENIED]) (auto simp: d)
  next
    case (3 n i)
    let ?a = "ad_accounts d ! i"
    consider "now < ac_locked_until ?a" | "ac_locked_until ?a \<le> now" "digest_diff (account_digest pw (ac_salt ?a)) (ac_digest ?a) \<noteq> 0"
      | "ac_locked_until ?a \<le> now" "digest_diff (account_digest pw (ac_salt ?a)) (ac_digest ?a) = 0" "ad_next_session d = 0"
      | "ac_locked_until ?a \<le> now" "digest_diff (account_digest pw (ac_salt ?a)) (ac_digest ?a) = 0" "ad_next_session d \<noteq> 0"
      by fastforce
    thus thesis
    proof cases
      case 1
      with 3 show thesis by (intro refused[of SHZ_AUTH_LOCKED]) (auto simp: d)
    next
      case 2
      with 3 show thesis by (intro failed[of n i]) (auto simp: d not_less)
    next
      case 31: 3
      with 3 show thesis by (intro refused[of SHZ_AUTH_FULL]) (auto simp: d not_less)
    next
      case 4
      with 3 show thesis by (intro entered[of n i]) (auto simp: d not_less)
    qed
  qed
qed

lemma register_cases:
  obtains (refused) e c where "shz_account_register who boot name pw roles d = (Inl e, d\<lparr>ad_ctx := c\<rparr>)"
  | (enrolled) n salt h c where "name_copy name = Some n" "8 \<le> length pw" "length pw \<le> 128" "roles = 0 \<or> roles = SHZ_ROLE_ADMIN"
      "if ad_accounts d = [] then boot \<and> roles = SHZ_ROLE_ADMIN else is_admin who" "length (ad_accounts d) < SHZ_ACCOUNT_LIMIT"
      "\<forall>a \<in> set (ad_accounts d). ac_name a \<noteq> n" "length salt = 32" "shz_pbkdf2 pw salt SHZ_KDF_ROUNDS = Some h"
      "shz_account_register who boot name pw roles d = (Inr (), d\<lparr>ad_ctx := c, ad_accounts := ad_accounts d @ [\<lparr>ac_name = n,
         ac_uid = 1000 + of_nat (length (ad_accounts d)), ac_roles = roles, ac_failures = 0, ac_locked_until = 0, ac_salt = salt, ac_digest = h\<rparr>]\<rparr>)"
proof -
  note def = shz_account_register_def run_apply
  have id: "d = d\<lparr>ad_ctx := ad_ctx d\<rparr>"
    by simp
  let ?bad = "length pw < 8 \<or> 128 < length pw \<or> roles AND NOT SHZ_ROLE_ADMIN \<noteq> 0"
  let ?deny = "\<lambda>n. \<not> (ad_accounts d = [] \<and> boot \<or> ad_accounts d \<noteq> [] \<and> is_admin who) \<or> ad_accounts d = [] \<and> roles \<noteq> SHZ_ROLE_ADMIN \<or>
    SHZ_ACCOUNT_LIMIT \<le> length (ad_accounts d) \<or> (\<exists>a \<in> set (ad_accounts d). ac_name a = n)"
  consider "?bad \<or> name_copy name = None" | n where "\<not> ?bad" "name_copy name = Some n" "?deny n"
    | n where "\<not> ?bad" "name_copy name = Some n" "\<not> ?deny n"
    by (cases "name_copy name") blast+
  thus thesis
  proof cases
    case 1
    hence "shz_account_register who boot name pw roles d = (Inl SHZ_AUTH_INVALID, d)"
      by (auto simp: def)
    with id show thesis by (metis refused)
  next
    case (2 n)
    hence "\<exists>e. shz_account_register who boot name pw roles d = (Inl e, d)"
      by (auto simp: def)
    with id show thesis by (metis refused)
  next
    case (3 n)
    obtain r c where s: "draw_salt d = (r, d\<lparr>ad_ctx := c\<rparr>)" "\<forall>salt. r = Some salt \<longrightarrow> length salt = 32"
    proof (cases "ad_entropy d")
      case None
      hence "draw_salt d = (None, d\<lparr>ad_ctx := ad_ctx d\<rparr>)"
        by (simp add: draw_salt_def)
      thus thesis using that by blast
    next
      case (Some e)
      obtain r c where "e (ad_ctx d) = (r, c)"
        by (cases "e (ad_ctx d)")
      with Some have "draw_salt d = (map_option fill32 r, d\<lparr>ad_ctx := c\<rparr>)"
        by (simp add: draw_salt_def)
      thus thesis by (rule that) (auto simp: fill32_def)
    qed
    have roles: "roles = 0 \<or> roles = SHZ_ROLE_ADMIN"
    proof -
      have "roles = roles AND (1 OR NOT 1)"
        by simp
      also have "\<dots> = roles AND 1"
        unfolding bit.conj_disj_distrib using 3(1) by simp
      finally show ?thesis
        by (metis and_one_eq mod2_eq_if)
    qed
    show thesis
    proof (cases r)
      case None
      hence "shz_account_register who boot name pw roles d = (Inl SHZ_AUTH_ENTROPY, d\<lparr>ad_ctx := c\<rparr>)"
        using 3 s(1) by (auto simp: def)
      thus thesis by (rule refused)
    next
      case (Some salt)
      hence "length salt = 32" using s(2) by simp
      with pbkdf2_standard[of SHZ_KDF_ROUNDS pw salt] 3(1) obtain h where h: "shz_pbkdf2 pw salt SHZ_KDF_ROUNDS = Some h"
        by auto
      have "shz_account_register who boot name pw roles d = (Inr (), d\<lparr>ad_ctx := c, ad_accounts := ad_accounts d @ [\<lparr>ac_name = n,
         ac_uid = 1000 + of_nat (length (ad_accounts d)), ac_roles = roles, ac_failures = 0, ac_locked_until = 0, ac_salt = salt, ac_digest = h\<rparr>]\<rparr>)"
        using 3 s(1) Some h by (auto simp: def)
      with 3 roles h \<open>length salt = 32\<close> show thesis
        by (intro enrolled[of n salt h c]) (auto split: if_splits)
    qed
  qed
qed

subsection \<open>The invariant\<close>

lemma valid_update:
  "valid_account a \<Longrightarrow> valid_account (note_failure now a)" "valid_account a \<Longrightarrow> valid_account (a\<lparr>ac_failures := 0, ac_locked_until := u\<rparr>)"
proof -
  have "f + 1 < 5" if "f < 5" "\<not> 5 \<le> f + 1" for f :: u32
    using that by simp
  thus "valid_account a \<Longrightarrow> valid_account (note_failure now a)"
    by (auto simp: valid_account_def note_failure_def Let_def not_le)
qed (simp add: valid_account_def)

lemma note_failure_key [simp]: "account_key (note_failure now a) = account_key a"
  by (simp add: note_failure_def account_key_def Let_def)

text \<open>An account is replaced by one with the same key.\<close>

lemma inv_update:
  fixes d d' :: "'c shz_accounts"
  assumes "accounts_inv d" "i < length (ad_accounts d)" "account_key a = account_key (ad_accounts d ! i)" "valid_account a"
    and "ad_accounts d' = (ad_accounts d)[i := a]"
  shows "accounts_inv d' \<and> map account_key (ad_accounts d') = map account_key (ad_accounts d)"
proof -
  have same: "map f ((ad_accounts d)[i := a]) = map f (ad_accounts d)" if "f a = f (ad_accounts d ! i)" for f :: "shz_account \<Rightarrow> 'z"
    using that assms(2) by (metis list_update_id map_update)
  have "ac_roles (hd ((ad_accounts d)[i := a])) = ac_roles (hd (ad_accounts d))" if "ad_accounts d \<noteq> []"
  proof -
    have "map ac_roles ((ad_accounts d)[i := a]) = map ac_roles (ad_accounts d)"
      by (rule same) (use assms(3) in \<open>simp add: account_key_def\<close>)
    from arg_cong[OF this, of hd] that show ?thesis
      by (simp add: hd_map)
  qed
  moreover have "list_all valid_account ((ad_accounts d)[i := a])"
    using assms(1,4) unfolding accounts_inv_def list_all_iff by (auto dest!: subsetD[OF set_update_subset_insert])
  ultimately show ?thesis
    using assms same[of ac_name] same[of ac_uid] same[of account_key] by (simp add: accounts_inv_def account_key_def)
qed

lemma issued_next: "ad_next_session d \<noteq> 0 \<Longrightarrow> ad_next_session d' = ad_next_session d + 1 \<Longrightarrow> issued d' = Suc (issued d)"
proof -
  assume a: "ad_next_session d \<noteq> 0" "ad_next_session d' = ad_next_session d + 1"
  show ?thesis
  proof (cases "ad_next_session d + 1 = 0")
    case True
    hence "ad_next_session d = - 1"
      by (simp add: eq_neg_iff_add_eq_0)
    moreover have "unat (- 1 :: u32) = 2 ^ 32 - 1"
      by (simp add: unsigned_minus_1_eq_mask mask_eq_exp_minus_1)
    ultimately show ?thesis
      using a True by (simp add: issued_def)
  next
    case False
    thus ?thesis
      using a unatSuc[of "ad_next_session d"] by (simp add: issued_def add.commute)
  qed
qed

lemma login_step: "accounts_inv d \<Longrightarrow> accounts_inv (snd (shz_account_login name pw now d)) \<and> later d (snd (shz_account_login name pw now d))"
proof (cases rule: login_cases[of name pw now d])
  case (refused e)
  thus "accounts_inv d \<Longrightarrow> ?thesis" by (simp add: later_def)
next
  case (failed n i)
  assume inv: "accounts_inv d"
  let ?t = "snd (shz_account_login name pw now d)"
  have i: "i < length (ad_accounts d)"
    using account_find_Some[OF failed(2)] by simp
  hence "valid_account (note_failure now (ad_accounts d ! i))"
    using inv by (intro valid_update) (simp add: accounts_inv_def list_all_length)
  from inv_update[OF inv i note_failure_key this, of ?t] failed(5) show ?thesis
    by (simp add: later_def issued_def)
next
  case (entered n i)
  assume inv: "accounts_inv d"
  let ?a = "(ad_accounts d ! i)\<lparr>ac_failures := 0, ac_locked_until := 0\<rparr>" and ?t = "snd (shz_account_login name pw now d)"
  have i: "i < length (ad_accounts d)"
    using account_find_Some[OF entered(2)] by simp
  hence "valid_account ?a"
    using inv by (intro valid_update) (simp add: accounts_inv_def list_all_length)
  moreover have "account_key ?a = account_key (ad_accounts d ! i)"
    by (simp add: account_key_def)
  ultimately show ?thesis
    using inv_update[OF inv i, of ?a ?t] entered(8) issued_next[OF entered(7), of ?t] by (simp add: later_def)
qed

lemma register_step:
  assumes "accounts_inv d"
  shows "accounts_inv (snd (shz_account_register who boot name pw roles d)) \<and> later d (snd (shz_account_register who boot name pw roles d))"
proof (cases rule: register_cases[of who boot name pw roles d])
  case (refused e c)
  thus ?thesis
    using assms by (simp add: accounts_inv_def later_def issued_def)
next
  case (enrolled n salt h c)
  have "valid_account \<lparr>ac_name = n, ac_uid = u, ac_roles = roles, ac_failures = 0, ac_locked_until = 0, ac_salt = salt, ac_digest = h\<rparr>" for u
    using enrolled name_copy_Some[of name n] by (auto simp: valid_account_def)
  thus ?thesis
    using assms enrolled by (cases "ad_accounts d = []") (auto simp: accounts_inv_def later_def issued_def)
qed

lemma step_inv: "acc_step d d' \<Longrightarrow> accounts_inv d \<Longrightarrow> accounts_inv d' \<and> later d d'"
  by (induction rule: acc_step.induct) (simp_all only: elevate_state login_step register_step simp_thms)

lemma later_refl: "later d d"
  by (simp add: later_def)

lemma later_trans: "later a b \<Longrightarrow> later b c \<Longrightarrow> later a c"
  unfolding later_def by (elim conjE exE) (auto intro: order_trans)

lemma history_inv: "acc_step\<^sup>*\<^sup>* d d' \<Longrightarrow> accounts_inv d \<Longrightarrow> accounts_inv d' \<and> later d d'"
  by (induction rule: rtranclp_induct) (use step_inv later_refl later_trans in blast)+

lemma init_inv: "accounts_inv (shz_accounts_init e c)"
  by (simp add: accounts_inv_def shz_accounts_init_def)

subsection \<open>Sessions\<close>

definition issues :: "'c shz_accounts \<Rightarrow> shz_subject \<Rightarrow> 'c shz_accounts \<Rightarrow> bool" where
  "issues d s d' = (\<exists>name pw now. shz_account_login name pw now d = (Inr s, d') \<or> shz_account_elevate name pw now d = (Inr s, d'))"

lemma login_session: "shz_account_login name pw now d = (Inr s, d') \<Longrightarrow> unat (sj_session s) = issued d \<and> issued d' = Suc (issued d)"
proof (cases rule: login_cases[of name pw now d])
  case (entered n i)
  assume "shz_account_login name pw now d = (Inr s, d')"
  with entered have "sj_session s = ad_next_session d" "ad_next_session d' = ad_next_session d + 1"
    by (auto simp: session_subject_def)
  thus ?thesis
    using issued_next[OF entered(7)] entered(7) by (simp add: issued_def[of d])
qed auto

lemma elevate_login: "shz_account_elevate name pw now d = (Inr s, d') \<Longrightarrow>
   \<exists>s0. shz_account_login name pw now d = (Inr s0, d') \<and> s = s0\<lparr>sj_integrity := 0x3000\<rparr> \<and> sj_roles s0 = SHZ_ROLE_ADMIN"
  by (cases "shz_account_login name pw now d") (auto simp: shz_account_elevate_def run_apply split: sum.splits if_splits)

lemma issues_session: "issues d s d' \<Longrightarrow> unat (sj_session s) = issued d \<and> issued d' = Suc (issued d)"
  unfolding issues_def by (auto dest!: login_session elevate_login)

lemma sessions_grow:
  assumes "issues d s d1" "accounts_inv d1" "acc_step\<^sup>*\<^sup>* d1 t" "issues t u t'"
  shows "sj_session s < sj_session u"
  using issues_session[OF assms(1)] issues_session[OF assms(4)] history_inv[OF assms(3,2)]
  by (simp add: later_def word_less_nat_alt)

subsection \<open>Passwords\<close>

lemma login_authentic:
  assumes "shz_account_login name pw now d = (Inr s, d')"
  shows "\<exists>i < length (ad_accounts d). let a = ad_accounts d ! i in name_copy name = Some (ac_name a) \<and> ac_locked_until a \<le> now \<and>
     (\<forall>k < 32. byte_at (account_digest pw (ac_salt a)) k = byte_at (ac_digest a) k) \<and> s = session_subject a (ad_next_session d)"
proof (cases rule: login_cases[of name pw now d])
  case (entered n i)
  thus ?thesis
    using assms account_find_Some[OF entered(2)] by (intro exI[of _ i]) (simp add: digest_diff_zero Let_def)
qed (use assms in auto)

text \<open>Enough for a login.\<close>

lemma login_succeeds:
  assumes "accounts_inv d" "i < length (ad_accounts d)" "name_copy name = Some (ac_name (ad_accounts d ! i))" "8 \<le> length pw" "length pw \<le> 128"
    and "shz_pbkdf2 pw (ac_salt (ad_accounts d ! i)) SHZ_KDF_ROUNDS = Some (ac_digest (ad_accounts d ! i))"
    and "ac_locked_until (ad_accounts d ! i) \<le> now" "ad_next_session d \<noteq> 0"
  shows "fst (shz_account_login name pw now d) = Inr (session_subject (ad_accounts d ! i) (ad_next_session d))"
proof -
  have "account_find (ac_name (ad_accounts d ! i)) (ad_accounts d) 0 None = Some i"
    using assms(1,2) by (intro account_find_distinct) (simp_all add: accounts_inv_def)
  moreover have "digest_diff (account_digest pw (ac_salt (ad_accounts d ! i))) (ac_digest (ad_accounts d ! i)) = 0"
    using assms(6) by (simp add: account_digest_def digest_diff_zero)
  ultimately show ?thesis
    using assms by (simp add: shz_account_login_def run_apply Let_def not_less)
qed

lemma registered_login:
  assumes inv: "accounts_inv d" and reg: "shz_account_register who boot name pw roles d = (Inr (), d')" and hist: "acc_step\<^sup>*\<^sup>* d' t"
    and name: "name_copy name' = name_copy name" and time: "ac_locked_until (ad_accounts t ! length (ad_accounts d)) \<le> now" and "ad_next_session t \<noteq> 0"
  shows "\<exists>s. fst (shz_account_login name' pw now t) = Inr s \<and> sj_uid s = 1000 + of_nat (length (ad_accounts d)) \<and> sj_roles s = roles"
proof (cases rule: register_cases[of who boot name pw roles d])
  case (enrolled n salt h c)
  let ?i = "length (ad_accounts d)"
  have d': "account_key (ad_accounts d' ! ?i) = (n, 1000 + of_nat ?i, roles, salt, h)" "?i < length (ad_accounts d')"
    using reg enrolled(10) by (auto simp: account_key_def)
  have inv': "accounts_inv d'"
    using register_step[OF inv, of who boot name pw roles] reg by simp
  note t = history_inv[OF hist inv']
  then obtain ks where ks: "map account_key (ad_accounts t) = map account_key (ad_accounts d') @ ks"
    by (auto simp: later_def)
  hence i: "?i < length (ad_accounts t)"
    using d'(2) by (metis length_append length_map trans_less_add1)
  have "account_key (ad_accounts t ! ?i) = account_key (ad_accounts d' ! ?i)"
    using ks d'(2) i by (metis nth_append length_map nth_map)
  hence key: "ac_name (ad_accounts t ! ?i) = n" "ac_uid (ad_accounts t ! ?i) = 1000 + of_nat ?i" "ac_roles (ad_accounts t ! ?i) = roles"
      "ac_salt (ad_accounts t ! ?i) = salt" "ac_digest (ad_accounts t ! ?i) = h"
    unfolding d'(1) by (simp_all add: account_key_def)
  have "fst (shz_account_login name' pw now t) = Inr (session_subject (ad_accounts t ! ?i) (ad_next_session t))"
    using t i enrolled(1,2,3,9) name time assms(6) by (intro login_succeeds) (simp_all add: key)
  thus ?thesis
    by (simp add: session_subject_def key)
qed (use reg in simp)

subsection \<open>Lockout\<close>

definition lock_end :: "u64 \<Rightarrow> u64" where
  "lock_end now = (if 0xFFFFFFFFFFFFFFFF - 30000 < now then 0xFFFFFFFFFFFFFFFF else now + 30000)"

definition wrong_password :: "shz_account \<Rightarrow> bytes \<Rightarrow> bool" where
  "wrong_password a pw = (8 \<le> length pw \<and> length pw \<le> 128 \<and> digest_diff (account_digest pw (ac_salt a)) (ac_digest a) \<noteq> 0)"

definition login_all :: "bytes \<Rightarrow> (bytes \<times> u64) list \<Rightarrow> 'c shz_accounts \<Rightarrow> 'c shz_accounts" where
  "login_all name tries d = fold (\<lambda>(pw, now) d. snd (shz_account_login name pw now d)) tries d"

lemma wrong_login:
  assumes "accounts_inv d" "i < length (ad_accounts d)" "name_copy name = Some (ac_name (ad_accounts d ! i))"
    and "wrong_password (ad_accounts d ! i) pw" "ac_locked_until (ad_accounts d ! i) \<le> now"
  shows "shz_account_login name pw now d = (Inl SHZ_AUTH_DENIED, d\<lparr>ad_accounts := (ad_accounts d)[i := note_failure now (ad_accounts d ! i)]\<rparr>)"
proof -
  have "account_find (ac_name (ad_accounts d ! i)) (ad_accounts d) 0 None = Some i"
    using assms(1,2) by (intro account_find_distinct) (simp_all add: accounts_inv_def)
  thus ?thesis
    using assms by (simp add: shz_account_login_def upd_account_def wrong_password_def run_apply Let_def not_less)
qed

lemma locked_login:
  assumes "accounts_inv d" "i < length (ad_accounts d)" "name_copy name = Some (ac_name (ad_accounts d ! i))"
    and "8 \<le> length pw" "length pw \<le> 128" "now < ac_locked_until (ad_accounts d ! i)"
  shows "shz_account_login name pw now d = (Inl SHZ_AUTH_LOCKED, d)"
proof -
  have "account_find (ac_name (ad_accounts d ! i)) (ad_accounts d) 0 None = Some i"
    using assms(1,2) by (intro account_find_distinct) (simp_all add: accounts_inv_def)
  thus ?thesis
    using assms by (simp add: shz_account_login_def Let_def)
qed

lemma wrong_logins_lock:
  assumes "accounts_inv d" "i < length (ad_accounts d)" "name_copy name = Some (ac_name (ad_accounts d ! i))" "tries \<noteq> []"
    and "unat (ac_failures (ad_accounts d ! i)) + length tries = 5"
    and "\<forall>(pw, now) \<in> set tries. wrong_password (ad_accounts d ! i) pw \<and> ac_locked_until (ad_accounts d ! i) \<le> now"
  shows "accounts_inv (login_all name tries d) \<and> length (ad_accounts (login_all name tries d)) = length (ad_accounts d) \<and>
    ac_name (ad_accounts (login_all name tries d) ! i) = ac_name (ad_accounts d ! i) \<and>
    ac_locked_until (ad_accounts (login_all name tries d) ! i) = lock_end (snd (last tries))"
  using assms
proof (induction tries arbitrary: d)
  case (Cons x tries)
  obtain pw now where x: "x = (pw, now)"
    by (cases x)
  let ?a = "ad_accounts d ! i" and ?d = "snd (shz_account_login name pw now d)"
  have l: "shz_account_login name pw now d = (Inl SHZ_AUTH_DENIED, d\<lparr>ad_accounts := (ad_accounts d)[i := note_failure now ?a]\<rparr>)"
    using Cons.prems x by (intro wrong_login) auto
  have inv: "accounts_inv ?d"
    using login_step[OF Cons.prems(1)] by blast
  have a: "ad_accounts ?d ! i = note_failure now ?a" "length (ad_accounts ?d) = length (ad_accounts d)"
    using Cons.prems(2) by (simp_all add: l)
  have step: "login_all name (x # tries) d = login_all name tries ?d"
    by (simp add: login_all_def x)
  have f: "unat (ac_failures ?a + 1) = unat (ac_failures ?a) + 1"
  proof (rule trans[OF unat_add_lem[THEN iffD1]])
    show "unat (ac_failures ?a) + unat (1 :: u32) < 2 ^ LENGTH(32)"
      using Cons.prems(5) by simp
  qed simp
  show ?case
  proof (cases "tries = []")
    case True
    hence "5 \<le> ac_failures ?a + 1"
      using Cons.prems(5) f by (simp add: word_le_nat_alt)
    thus ?thesis
      using True inv a unfolding step by (simp add: login_all_def x note_failure_def lock_end_def)
  next
    case False
    hence "\<not> 5 \<le> ac_failures ?a + 1"
      using Cons.prems(5) f by (cases tries) (simp_all add: word_le_nat_alt)
    hence n: "note_failure now ?a = ?a\<lparr>ac_failures := ac_failures ?a + 1\<rparr>"
      by (simp add: note_failure_def)
    have "accounts_inv (login_all name tries ?d) \<and> length (ad_accounts (login_all name tries ?d)) = length (ad_accounts ?d) \<and>
      ac_name (ad_accounts (login_all name tries ?d) ! i) = ac_name (ad_accounts ?d ! i) \<and>
      ac_locked_until (ad_accounts (login_all name tries ?d) ! i) = lock_end (snd (last tries))"
      using Cons.prems f False inv a n by (intro Cons.IH) (auto simp: wrong_password_def)
    with False a n show ?thesis
      unfolding step by simp
  qed
qed simp

subsection \<open>Paths\<close>

text \<open>The components of a path.\<close>

fun comps :: "bytes \<Rightarrow> bytes \<Rightarrow> bytes list" where
  "comps acc [] = [acc]"
| "comps acc (c # s) = (if c = 0x5C then acc # comps [] s else comps (acc @ [c]) s)"

definition components :: "bytes \<Rightarrow> bytes list" where
  "components p = comps [] (drop 3 p)"

definition canonical :: "bytes \<Rightarrow> bool" where
  "canonical c = (c \<noteq> [] \<and> last c \<noteq> 0x2E \<and> last c \<noteq> 0x20 \<and> 0x3A \<notin> set c \<and> 0x2F \<notin> set c \<and> (\<forall>b \<in> set c. 32 \<le> b))"

definition digits :: "bytes \<Rightarrow> bool" where
  "digits ds = (ds \<noteq> [] \<and> (\<forall>c \<in> set ds. 0x30 \<le> c \<and> c \<le> 0x39))"

definition decimal :: "bytes \<Rightarrow> nat" where
  "decimal ds = foldl (\<lambda>n c. 10 * n + (unat c - 48)) 0 ds"

lemma comps_append: "0x5C \<notin> set a \<Longrightarrow> comps acc (a @ b) = comps (acc @ a) b"
  by (induction a arbitrary: acc) auto

lemma comps_plain: "0x5C \<notin> set a \<Longrightarrow> comps acc a = [acc @ a]"
  using comps_append[of a acc "[]"] by simp

lemma comps_sep: "0x5C \<notin> set a \<Longrightarrow> comps acc (a @ 0x5C # b) = (acc @ a) # comps [] b"
  by (simp add: comps_append)

lemma slice_last: "start < i \<Longrightarrow> slice p start (i - start) \<noteq> [] \<and> last (slice p start (i - start)) = byte_at p (i - 1)"
proof -
  assume "start < i"
  hence "[0..<i - start] ! (i - Suc start) = i - Suc start"
    by (subst nth_upt) simp_all
  with \<open>start < i\<close> show ?thesis
    by (simp add: slice_def last_conv_nth)
qed

lemma slice_Suc: "start \<le> i \<Longrightarrow> slice p start (Suc i - start) = slice p start (i - start) @ [byte_at p i]"
  by (simp add: slice_def Suc_diff_le)

text \<open>The scan accepts only paths all of whose components are canonical.\<close>

lemma path_scan_comps:
  assumes "0 \<notin> set p" "start \<le> i" "i \<le> length p" "acc = slice p start (i - start)" "\<forall>b \<in> set acc. b \<noteq> 0x3A \<and> b \<noteq> 0x2F \<and> 32 \<le> b"
    and "path_scan (Suc (length p - i)) p i start"
  shows "\<forall>c \<in> set (comps acc (drop i p)). canonical c"
  using assms
proof (induction "length p - i" arbitrary: i start acc)
  case 0
  hence i: "i = length p" "byte_at p i = 0"
    by (simp_all add: byte_at_def)
  have "start < i \<and> byte_at p (i - 1) \<noteq> 0x2E \<and> byte_at p (i - 1) \<noteq> 0x20"
    using 0 i by (auto split: if_splits)
  moreover from this have "acc \<noteq> []" "last acc = byte_at p (i - 1)"
    using slice_last[of start i p] 0 by auto
  ultimately show ?case
    using 0(6) i by (auto simp: canonical_def)
next
  case (Suc k)
  hence i: "i < length p" and p: "drop i p = byte_at p i # drop (Suc i) p" and k: "k = length p - Suc i"
    by (simp_all add: byte_at_def Cons_nth_drop_Suc)
  let ?c = "byte_at p i"
  have c: "?c \<noteq> 0"
    using Suc.prems(1) i by (metis byte_at_def nth_mem)
  have acc': "slice p start (Suc i - start) = acc @ [?c]"
    using Suc.prems(2,4) by (simp add: slice_Suc)
  have scan: "path_scan (Suc (Suc (length p - Suc i))) p i start"
    using Suc.prems(6) Suc.hyps(2) k by simp
  show ?case
  proof (cases "?c = 0x5C")
    case True
    have "path_scan (Suc (length p - Suc i)) p (Suc i) (Suc i)" and last: "start < i \<and> byte_at p (i - 1) \<noteq> 0x2E \<and> byte_at p (i - 1) \<noteq> 0x20"
      using scan True Suc.prems(2) by (auto simp: Let_def split: if_splits)
    hence "\<forall>c \<in> set (comps [] (drop (Suc i) p)). canonical c"
      using Suc.prems(1) i k by (intro Suc.hyps(1)) (auto simp: slice_def)
    moreover have "acc \<noteq> []" "last acc = byte_at p (i - 1)"
      using slice_last[of start i p] Suc.prems(4) last by auto
    ultimately show ?thesis
      using Suc.prems(5) last True p by (auto simp: canonical_def)
  next
    case False
    have "path_scan (Suc (length p - Suc i)) p (Suc i) start" "?c \<noteq> 0x3A \<and> ?c \<noteq> 0x2F \<and> 32 \<le> ?c"
      using scan False c by (auto simp: Let_def not_less split: if_splits)
    hence "\<forall>c \<in> set (comps (acc @ [?c]) (drop (Suc i) p)). canonical c"
      using Suc.prems i k acc' by (intro Suc.hyps(1)[of "Suc i" start]) auto
    thus ?thesis
      using False p by simp
  qed
qed

text \<open>The account number of a profile is the decimal value, without wrap-around.\<close>

lemma path_uid_Some:
  assumes "path_uid s uid = Some (u, rest)"
  shows "\<exists>ds. s = ds @ rest \<and> (\<forall>c \<in> set ds. 0x30 \<le> c \<and> c \<le> 0x39) \<and> unat u = foldl (\<lambda>n c. 10 * n + (unat c - 48)) (unat uid) ds \<and>
    (rest = [] \<or> \<not> (0x30 \<le> hd rest \<and> hd rest \<le> 0x39))"
  using assms
proof (induction s uid rule: path_uid.induct)
  case (1 c s uid)
  show ?case
  proof (cases "0x30 \<le> c \<and> c \<le> 0x39")
    case True
    let ?v = "uid * 10 + ucast (c - 0x30) :: u32"
    have le: "\<not> (0xFFFFFFFF - 9) div 10 < uid" "path_uid s ?v = Some (u, rest)"
      using 1(2) True by (auto split: if_splits)
    have d: "unat (ucast (c - 0x30) :: u32) = unat c - 48" "unat c - 48 \<le> 9"
      using True by (auto simp: unat_sub word_le_nat_alt unsigned_ucast_eq take_bit_nat_eq_self)
    have "unat uid \<le> 429496728"
      using le(1) by (simp add: word_less_nat_alt not_less)
    hence v: "unat ?v = 10 * unat uid + (unat c - 48)"
      using d by (simp add: unat_word_ariths)
    from 1(1)[OF True le(1,2)] obtain ds where "s = ds @ rest" "\<forall>c \<in> set ds. 0x30 \<le> c \<and> c \<le> 0x39"
        "unat u = foldl (\<lambda>n c. 10 * n + (unat c - 48)) (unat ?v) ds" "rest = [] \<or> \<not> (0x30 \<le> hd rest \<and> hd rest \<le> 0x39)"
      by auto
    with True v show ?thesis
      by (intro exI[of _ "c # ds"]) simp
  next
    case False
    thus ?thesis
      using 1(2) by (intro exI[of _ "[]"]) (auto split: if_splits)
  qed
qed simp

lemma users_component: "components p = users # rest \<Longrightarrow> rest \<noteq> [] \<Longrightarrow> drop 3 p = users @ 0x5C # drop (length users + 4) p"
proof -
  have gen: "comps acc s = x # rest \<Longrightarrow> rest \<noteq> [] \<Longrightarrow> \<exists>a b. x = acc @ a \<and> s = a @ 0x5C # b" for acc s x
  proof (induction acc s rule: comps.induct)
    case (2 acc c s)
    show ?case
    proof (cases "c = 0x5C")
      case True
      thus ?thesis
        using 2(3) by (intro exI[of _ "[]"] exI[of _ s]) simp
    next
      case False
      with 2 obtain a b where "x = (acc @ [c]) @ a" "s = a @ 0x5C # b"
        by auto
      thus ?thesis
        by (intro exI[of _ "c # a"] exI[of _ b]) simp
    qed
  qed simp
  assume "components p = users # rest" "rest \<noteq> []"
  from gen[OF this[unfolded components_def]] obtain b where d: "drop 3 p = users @ 0x5C # b"
    by auto
  have "drop (length users + 4) p = b"
    using arg_cong[OF d, of "drop (length users + 1)"] by (simp add: add.commute add.left_commute)
  with d show ?thesis by simp
qed

definition users_name :: bytes where "users_name = [0x75, 0x73, 0x65, 0x72, 0x73]"

lemma users_slice:
  assumes "9 \<le> length p"
  shows "slice p 3 6 = users_dir \<longleftrightarrow> drop 3 p = users_name @ 0x5C # drop 9 p"
proof -
  have "slice p 3 6 = take 6 (drop 3 p)"
    using assms by (intro nth_equalityI) (auto simp: slice_def byte_at_def)
  moreover have "drop 3 p = take 6 (drop 3 p) @ drop 9 p"
    using append_take_drop_id[of 6 "drop 3 p"] by simp
  moreover have "users_dir = users_name @ [0x5C]"
    by (simp add: users_dir_def users_name_def)
  ultimately show ?thesis
    by (metis append.assoc append_Cons append_Nil append_same_eq)
qed

lemma profile_components:
  assumes "path_profile p = Some (Some u)"
  shows "\<exists>ds rest. components p = users_name # ds # rest \<and> digits ds \<and> decimal ds = unat u \<and> u \<noteq> 0"
proof -
  obtain r where r: "9 \<le> length p" "slice p 3 6 = users_dir" "path_uid (drop 9 p) 0 = Some (u, r)" "r \<noteq> drop 9 p" "u \<noteq> 0" "r = [] \<or> hd r = 0x5C"
    using assms by (auto simp: path_profile_def split: if_splits option.splits)
  obtain ds where ds: "drop 9 p = ds @ r" "\<forall>c \<in> set ds. 0x30 \<le> c \<and> c \<le> 0x39" "unat u = decimal ds"
    using path_uid_Some[OF r(3)] by (auto simp: decimal_def)
  have sep: "0x5C \<notin> set ds" "0x5C \<notin> set users_name"
    using ds(2) by (auto simp: users_name_def)
  have "components p = users_name # comps [] (ds @ r)"
    unfolding components_def users_slice[OF r(1), THEN iffD1, OF r(2)] ds(1) using comps_sep[OF sep(2), of "[]"] by simp
  moreover have "\<exists>rest. comps [] (ds @ r) = ds # rest"
    using r(6) comps_plain[OF sep(1), of "[]"] comps_sep[OF sep(1), of "[]" "tl r"] by (cases r) auto
  moreover have "ds \<noteq> []"
    using r(4) ds(1) by auto
  ultimately show ?thesis
    using ds r(5) by (auto simp: digits_def)
qed

lemma components_profile:
  assumes "components p = users_name # ds # rest"
  shows "path_profile p \<noteq> Some None"
proof -
  have d: "drop 3 p = users_name @ 0x5C # drop 9 p"
    using users_component[of p users_name "ds # rest"] assms by (simp add: users_name_def)
  from arg_cong[OF d, of length] have "9 \<le> length p"
    by (simp add: users_name_def)
  with users_slice[of p] d show ?thesis
    by (auto simp: path_profile_def split: option.split)
qed

lemma to_lower_zero: "to_lower c = 0 \<Longrightarrow> c = 0"
proof -
  have "c \<le> 0x5A \<Longrightarrow> unat (c + 32) = unat c + 32"
    by (simp add: unat_word_ariths word_le_nat_alt)
  thus "to_lower c = 0 \<Longrightarrow> c = 0"
    by (auto simp: to_lower_def split: if_splits)
qed

lemma path_confined:
  assumes "0 \<notin> set path" "shz_subject_path s path wr" "p = path_norm path"
  shows "\<forall>c \<in> set (components p). canonical c"
    and "\<not> is_admin s \<Longrightarrow> components p = users_name # ds # rest \<Longrightarrow> digits ds \<and> decimal ds = unat (sj_uid s)"
    and "\<not> is_admin s \<Longrightarrow> wr \<Longrightarrow> (\<exists>ds rest. components p = users_name # ds # rest) \<and> 0x2000 \<le> sj_integrity s \<and> sj_flags s = 0"
proof -
  have f: "3 \<le> length p" "path_scan (length p - 2) p 3 3" "path_profile p \<noteq> None"
    using assms(2) unfolding shz_subject_path_def Let_def assms(3)[symmetric] by (auto split: if_splits option.splits)
  have "0 \<notin> set p"
  proof
    assume "0 \<in> set p"
    then obtain c where c: "c \<in> set (if take 4 path = nt_prefix then drop 4 path else path)" "to_lower c = 0"
      unfolding assms(3) path_norm_def set_map by (metis imageE)
    have "c \<in> set path"
      using c(1) in_set_dropD[of c 4 path] by (simp split: if_splits)
    with assms(1) to_lower_zero[OF c(2)] show False
      by simp
  qed
  moreover have "Suc (length p - 3) = length p - 2"
    using f(1) by simp
  ultimately show "\<forall>c \<in> set (components p). canonical c"
    using path_scan_comps[of p 3 3 "[]"] f by (simp add: components_def slice_def)
  have acc: "\<not> is_admin s \<Longrightarrow> path_profile p = Some None \<and> \<not> wr \<or> path_profile p = Some (Some (sj_uid s)) \<and> (wr \<longrightarrow> 0x2000 \<le> sj_integrity s \<and> sj_flags s = 0)"
    using assms(2) unfolding shz_subject_path_def Let_def assms(3)[symmetric] by (auto split: if_splits option.splits)
  show "\<not> is_admin s \<Longrightarrow> components p = users_name # ds # rest \<Longrightarrow> digits ds \<and> decimal ds = unat (sj_uid s)"
    using acc components_profile[of p ds rest] profile_components[of p "sj_uid s"] by auto
  show "\<not> is_admin s \<Longrightarrow> wr \<Longrightarrow> (\<exists>ds rest. components p = users_name # ds # rest) \<and> 0x2000 \<le> sj_integrity s \<and> sj_flags s = 0"
    using acc profile_components[of p "sj_uid s"] by auto
qed

text \<open>The kernel's profile path of an account is recognised as its profile, for every number that the parser can read.\<close>

lemma path_uid_append: "path_uid ds v = Some (x, []) \<Longrightarrow> path_uid (ds @ s) v = path_uid s x"
  by (induction ds v rule: path_uid.induct) (auto split: if_splits)

lemma digit_value:
  fixes u :: u32
  shows "ucast ((0x30 + ucast (u mod 10) :: u8) - 0x30) = u mod 10" "0x30 \<le> (0x30 + ucast (u mod 10) :: u8) \<and> (0x30 + ucast (u mod 10) :: u8) \<le> 0x39"
proof -
  have m: "unat (u mod 10) < 10"
    by (simp add: unat_mod)
  hence c: "unat (ucast (u mod 10) :: u8) = unat (u mod 10)"
    unfolding unsigned_ucast_eq by (intro take_bit_nat_eq_self) simp
  have "unat (ucast (ucast (u mod 10) :: u8) :: u32) = unat (u mod 10)"
    by (subst unsigned_ucast_eq, subst c, rule take_bit_nat_eq_self) (use m in simp)
  thus "ucast ((0x30 + ucast (u mod 10) :: u8) - 0x30) = u mod 10"
    by (simp only: add_diff_cancel_left' word_unat_eq_iff)
  show "0x30 \<le> (0x30 + ucast (u mod 10) :: u8) \<and> (0x30 + ucast (u mod 10) :: u8) \<le> 0x39"
    using m c by (simp add: word_le_nat_alt unat_word_ariths)
qed

lemma profile_digits_value:
  "unat uid < 10 ^ k \<Longrightarrow> unat uid \<le> 4294967289 \<Longrightarrow> 0 < k \<Longrightarrow> path_uid (rev (profile_digits k uid)) 0 = Some (uid, [])"
proof (induction k arbitrary: uid)
  case (Suc k)
  have u: "uid div 10 * 10 + uid mod 10 = uid"
    by (metis word_mod_div_equality)
  show ?case
  proof (cases "uid div 10 = 0")
    case True
    hence "uid mod 10 = uid"
      using u by simp
    with True digit_value[of uid] show ?thesis
      by simp
  next
    case False
    have q: "unat (uid div 10) = unat uid div 10"
      by (simp add: unat_div)
    hence "0 < k"
      using False Suc.prems(1) by (cases k) (auto simp: word_unat_eq_iff)
    hence "path_uid (rev (profile_digits k (uid div 10))) 0 = Some (uid div 10, [])"
      using Suc.prems q by (intro Suc.IH) auto
    moreover have "\<not> (0xFFFFFFFF - 9) div 10 < uid div 10"
      using Suc.prems(2) q by (simp add: word_less_nat_alt)
    ultimately show ?thesis
      using False digit_value[of uid] u by (simp add: path_uid_append)
  qed
qed simp

lemma profile_digits_chars: "c \<in> set (profile_digits k uid) \<Longrightarrow> 0x30 \<le> c \<and> c \<le> 0x39"
  by (induction k arbitrary: uid) (use digit_value(2) in \<open>auto split: if_splits\<close>)

lemma profile_path_read:
  assumes "unat uid \<le> 4294967289" "uid \<noteq> 0" "r = [] \<or> hd r = 0x5C"
  shows "path_profile (path_norm (profile_path uid @ r)) = Some (Some uid)"
proof -
  let ?ds = "rev (profile_digits 10 uid)"
  have ds: "path_uid ?ds 0 = Some (uid, [])"
    using assms(1) unsigned_less[of uid, where ?'a = nat] by (intro profile_digits_value) auto
  have low: "map to_lower ?ds = ?ds"
    by (rule map_idI) (auto dest!: profile_digits_chars simp: to_lower_def word_le_nat_alt)
  have r: "map to_lower r = [] \<or> hd (map to_lower r) = 0x5C" "path_uid (map to_lower r) uid = Some (uid, map to_lower r)"
    using assms(3) by (cases r; auto simp: to_lower_def)+
  have p: "path_norm (profile_path uid @ r) = [0x63, 0x3A, 0x5C] @ users_dir @ ?ds @ map to_lower r"
    by (simp add: path_norm_def profile_path_def nt_prefix_def low users_dir_def to_lower_def)
  have "path_uid (?ds @ map to_lower r) 0 = Some (uid, map to_lower r)"
    using path_uid_append[OF ds] r(2) by simp
  moreover have "map to_lower r \<noteq> ?ds @ map to_lower r"
    using ds assms(2) by auto
  moreover have "slice ([0x63, 0x3A, 0x5C] @ users_dir @ ?ds @ map to_lower r) 3 6 = users_dir"
    by (simp add: slice_def users_dir_def byte_at_def upt_rec)
  ultimately show ?thesis
    unfolding p path_profile_def using r(1) assms(2) by (simp add: users_dir_def del: rev_is_Nil_conv)
qed

end
