(* ===== verification/Acc_Files.thy ===== *)
theory Acc_Files
  imports Acc_Policy Sfs_Access
begin

unbundle bit_operations_syntax

section \<open>From accounts to file credentials\<close>

text \<open>
  The account store and the access layer of libsfs meet in a subject: the store makes it, \<open>sfs_cred_from_subject\<close> turns it into a
  credential. Every subject the store issues is accepted. The last section holds concrete stores.
\<close>

text \<open>The plain copy that sfs\_subject.h asks for.\<close>

definition subject_in :: "shz_subject \<Rightarrow> sfs_subject_in" where
  "subject_in s = \<lparr>su_uid = sj_uid s, su_session = sj_session s, su_integrity = sj_integrity s, su_roles = sj_roles s, su_flags = sj_flags s,
     su_reserved = sj_reserved s, su_auth_id = sj_auth_id s, su_accounts_active = 1\<rparr>"

lemma login_subject:
  assumes "accounts_inv d" "shz_account_login name pw now d = (Inr s, d')"
  shows "1000 \<le> sj_uid s \<and> sj_uid s - 1000 < 16 \<and> sj_session s \<noteq> 0 \<and> sj_integrity s = 0x2000 \<and> (sj_roles s = 0 \<or> sj_roles s = 1) \<and> sj_flags s = 0 \<and>
     sj_reserved s = 0 \<and> sj_auth_id s = push_bit 32 (ucast (sj_uid s)) OR ucast (sj_session s)"
proof (cases rule: login_cases[of name pw now d])
  case (entered n i)
  have i: "i < length (ad_accounts d)"
    using account_find_Some[OF entered(2)] by simp
  have "map ac_uid (ad_accounts d) ! i = map (\<lambda>i. 1000 + of_nat i) [0..<length (ad_accounts d)] ! i"
    using assms(1) by (simp add: accounts_inv_def)
  hence "ac_uid (ad_accounts d ! i) = 1000 + of_nat i" "i < 16" "valid_account (ad_accounts d ! i)"
    using i assms(1) by (auto simp: accounts_inv_def list_all_length)
  moreover from this have "(of_nat i :: u32) < 16" "unat (1000 + of_nat i :: u32) = 1000 + i"
    by (simp_all add: word_less_nat_alt unat_of_nat unat_word_ariths)
  ultimately show ?thesis
    using assms(2) entered(7,8) by (auto simp: session_subject_def valid_account_def word_le_nat_alt)
qed (use assms in auto)

lemma issued_subject:
  assumes "accounts_inv d" "issues d s d'"
  shows "\<exists>c. sfs_cred_from_subject (subject_in s) = (Inr (), c) \<and> cr_uid c = sj_uid s \<and> 1000 \<le> sj_uid s \<and>
     cr_caps c = (if is_admin s then SFS_CAP_ALL else 0)"
proof -
  obtain name pw now s0 where l: "shz_account_login name pw now d = (Inr s0, d')"
    and s: "s = s0 \<or> s = s0\<lparr>sj_integrity := 0x3000\<rparr> \<and> sj_roles s0 = SHZ_ROLE_ADMIN"
    using assms(2) unfolding issues_def by (auto dest: elevate_login)
  note f = login_subject[OF assms(1) l]
  have uid: "\<not> sj_uid s0 < 1000" "\<not> 16 \<le> sj_uid s0 - 1000" "sj_uid s0 \<noteq> 0"
    using f by (auto simp: not_less not_le)
  have roles: "sj_roles s0 = 0 \<or> sj_roles s0 = 1"
    using f by blast
  show ?thesis
    using s
  proof
    assume "s = s0"
    thus ?thesis
      using roles f uid by (elim disjE) (simp_all add: sfs_cred_from_subject_def subject_in_def Let_def is_admin_def cleared_cred_def)
  next
    assume "s = s0\<lparr>sj_integrity := 0x3000\<rparr> \<and> sj_roles s0 = SHZ_ROLE_ADMIN"
    thus ?thesis
      using f uid by (simp add: sfs_cred_from_subject_def subject_in_def Let_def is_admin_def cleared_cred_def)
  qed
qed

subsection \<open>Concrete stores\<close>

definition guest :: shz_subject where
  "guest = \<lparr>sj_uid = 0, sj_session = 0, sj_integrity = 0x2000, sj_roles = 0, sj_flags = 0, sj_reserved = 0, sj_auth_id = 0\<rparr>"

definition empty_store :: "nat shz_accounts" where
  "empty_store = shz_accounts_init (Some (\<lambda>c. (Some (replicate 32 (of_nat c)), c + 1))) 7"

text \<open>An administrator whose digest is \<open>h\<close>.\<close>

definition root_account :: "bytes \<Rightarrow> shz_account" where
  "root_account h = \<lparr>ac_name = [114, 111, 111, 116], ac_uid = 1000, ac_roles = 1, ac_failures = 0, ac_locked_until = 0, ac_salt = replicate 32 7, ac_digest = h\<rparr>"

definition root_store :: "bytes \<Rightarrow> nat shz_accounts" where
  "root_store h = empty_store\<lparr>ad_accounts := [root_account h]\<rparr>"

text \<open>The password, its digest, and a digest that differs from it in the first byte.\<close>

definition root_pw :: bytes where "root_pw = [112, 97, 115, 115, 119, 111, 114, 100]"

definition root_digest :: bytes where "root_digest = kdf_f root_pw (replicate 32 7) 600000"

definition other_digest :: bytes where "other_digest = [byte_at root_digest 0 + 1]"

lemma root_name: "name_copy [114, 111, 111, 116] = Some [114, 111, 111, 116]" "name_copy [82, 111, 111, 116] = Some [114, 111, 111, 116]"
  by code_simp+

lemma root_inv: "accounts_inv (root_store h)"
  by (simp add: accounts_inv_def root_store_def root_account_def valid_account_def name_byte_def)

lemma root_kdf: "shz_pbkdf2 root_pw (replicate 32 7) SHZ_KDF_ROUNDS = Some root_digest"
  by (subst pbkdf2_standard) (simp_all add: root_pw_def root_digest_def)

lemma root_login: "ad_accounts d = [root_account root_digest] \<Longrightarrow> accounts_inv d \<Longrightarrow> ad_next_session d \<noteq> 0 \<Longrightarrow>
    fst (shz_account_login [114, 111, 111, 116] root_pw now d) = Inr (session_subject (root_account root_digest) (ad_next_session d))"
  using login_succeeds[of d 0 "[114, 111, 111, 116]" root_pw now] root_kdf
  by (simp add: root_account_def root_name) (simp add: root_pw_def)

lemma root_wrong: "wrong_password (root_account other_digest) root_pw"
proof -
  have "account_digest root_pw (replicate 32 7) = root_digest"
    by (simp add: account_digest_def root_kdf)
  moreover have "byte_at root_digest 0 \<noteq> byte_at other_digest 0"
    by (simp add: other_digest_def byte_at_def[of "[_]"])
  ultimately have "digest_diff (account_digest root_pw (replicate 32 7)) other_digest \<noteq> 0"
    by (auto simp: digest_diff_zero intro!: exI[of _ 0])
  thus ?thesis
    unfolding wrong_password_def by (simp add: root_account_def) (simp add: root_pw_def)
qed

lemma root_registers: "fst (shz_account_register guest True [82, 111, 111, 116] root_pw 1 empty_store) = Inr ()"
  using pbkdf2_standard[of SHZ_KDF_ROUNDS root_pw "replicate 32 7"]
  by (simp add: shz_account_register_def run_apply draw_salt_def empty_store_def shz_accounts_init_def fill32_def root_name) (simp add: root_pw_def)

definition registered_store :: "nat shz_accounts" where
  "registered_store = snd (shz_account_register guest True [82, 111, 111, 116] root_pw 1 empty_store)"

lemma registered_root: "shz_account_register guest True [82, 111, 111, 116] root_pw 1 empty_store = (Inr (), registered_store)"
  using root_registers by (simp add: registered_store_def prod_eq_iff)

lemma registered_fields: "ad_next_session registered_store = 1" "ac_locked_until (ad_accounts registered_store ! 0) = 0"
  using pbkdf2_standard[of SHZ_KDF_ROUNDS root_pw "replicate 32 7"]
  by (simp_all add: registered_store_def shz_account_register_def run_apply draw_salt_def empty_store_def shz_accounts_init_def fill32_def root_name)
    (simp_all add: root_pw_def)

lemma empty_inv: "accounts_inv empty_store"
  by (simp add: empty_store_def init_inv)

lemma root_path: "shz_subject_path (session_subject (root_account []) 1) [67, 58, 92, 85, 115, 101, 114, 115, 92, 49, 48, 48, 48, 92, 97] True"
  by code_simp

text \<open>Two logins in a row.\<close>

lemma root_issues:
  assumes "ad_accounts d = [root_account root_digest]" "accounts_inv d" "ad_next_session d \<noteq> 0"
  shows "issues d (session_subject (root_account root_digest) (ad_next_session d)) (snd (shz_account_login [114, 111, 111, 116] root_pw 0 d))"
  using root_login[OF assms, of 0] unfolding issues_def by (metis prod.collapse)

lemma root_twice:
  assumes "ad_accounts d = [root_account root_digest]" "accounts_inv d" "ad_next_session d = 1"
  shows "ad_accounts (snd (shz_account_login [114, 111, 111, 116] root_pw 0 d)) = [root_account root_digest] \<and>
    ad_next_session (snd (shz_account_login [114, 111, 111, 116] root_pw 0 d)) = 2"
proof (cases rule: login_cases[of "[114, 111, 111, 116]" root_pw 0 d])
  case (entered n i)
  thus ?thesis
    using assms account_find_Some[OF entered(2)] by (simp add: root_account_def)
qed (use root_login[OF assms(1,2), of 0] assms(3) in auto)

end
