(* ===== verification/Vm_Pages.thy ===== *)
theory Vm_Pages
  imports Sfs_Prelude
begin

unbundle bit_operations_syntax

section \<open>Physical pages and page tables (kernel64/mem.c)\<close>

text \<open>
  The page allocator of Kernel64 and the four-level page tables it builds from its pages. \<open>phys\<close> is the physical memory with the state of the
  allocator: \<open>ph_mem\<close> gives the 64-bit word at an 8-aligned physical address, \<open>ph_map\<close> and \<open>ph_allocated\<close> are the bits of
  \<^verbatim>\<open>page_map\<close> and \<^verbatim>\<open>page_allocated\<close>. A failed \<^verbatim>\<open>KASSERT\<close> stops the machine: it sets \<open>ph_panic\<close> and the function does nothing more. The
  locks are held for the length of a call, so a call is one step; the invalidation of the translation cache has no counterpart.
\<close>

abbreviation (input) PAGE_SIZE :: u64 where "PAGE_SIZE \<equiv> 4096"
abbreviation (input) PMM_BASE :: u64 where "PMM_BASE \<equiv> 0xF00000"
abbreviation (input) PT_P :: u64 where "PT_P \<equiv> 1"
abbreviation (input) PT_W :: u64 where "PT_W \<equiv> 2"
abbreviation (input) PT_U :: u64 where "PT_U \<equiv> 4"
abbreviation (input) PT_PWT :: u64 where "PT_PWT \<equiv> 8"
abbreviation (input) PT_PCD :: u64 where "PT_PCD \<equiv> 16"
abbreviation (input) PT_NX :: u64 where "PT_NX \<equiv> 0x8000000000000000"
abbreviation (input) PT_ADDR :: u64 where "PT_ADDR \<equiv> 0x000ffffffffff000"

record phys =
  ph_mem :: "u64 \<Rightarrow> u64"
  ph_map :: "u64 \<Rightarrow> bool"
  ph_allocated :: "u64 \<Rightarrow> bool"
  ph_pages :: u64
  ph_free_pages :: u64
  ph_hint :: u64
  ph_contig_hint :: u64
  ph_kpml4 :: u64
  ph_panic :: bool

type_synonym 'a physact = "(phys, 'a) act"

definition panic :: "unit physact" where
  "panic = upd (\<lambda>h. h\<lparr>ph_panic := True\<rparr>)"

definition zero_pages :: "u64 \<Rightarrow> nat \<Rightarrow> (u64 \<Rightarrow> u64) \<Rightarrow> u64 \<Rightarrow> u64" where
  "zero_pages pa n m = (\<lambda>a. if pa \<le> a \<and> unat (a - pa) < n * 4096 then 0 else m a)"

definition page_addr :: "u64 \<Rightarrow> u64" where "page_addr i = PMM_BASE + i * PAGE_SIZE"

definition take_page :: "u64 \<Rightarrow> phys \<Rightarrow> phys" where
  "take_page i h = h\<lparr>ph_map := (ph_map h)(i := True), ph_allocated := (ph_allocated h)(i := True)\<rparr>"

definition drop_page :: "u64 \<Rightarrow> phys \<Rightarrow> phys" where
  "drop_page i h = h\<lparr>ph_map := (ph_map h)(i := False), ph_allocated := (ph_allocated h)(i := False), ph_free_pages := ph_free_pages h + 1\<rparr>"

subsection \<open>The initial state\<close>

definition reserve_page :: "u64 \<Rightarrow> phys \<Rightarrow> phys" where
  "reserve_page i h = h\<lparr>ph_map := (ph_map h)(i := True), ph_free_pages := ph_free_pages h - 1\<rparr>"

text \<open>The indexes \<^verbatim>\<open>for (i = first; i <= last && i < pmm_pages; ++i)\<close>.\<close>

definition initrd_stop :: "u64 \<Rightarrow> u64 \<Rightarrow> u64" where
  "initrd_stop z p = (if p \<le> z then p else z + 1)"

definition initrd_pages :: "u64 \<Rightarrow> u64 \<Rightarrow> u64 \<Rightarrow> u64 list" where
  "initrd_pages a z p = map (\<lambda>k. a + of_nat k) [0..<unat (initrd_stop z p) - unat a]"

text \<open>The allocator's part of \<open>mem_init\<close>, in the build without firmware memory holes.\<close>

definition pmm_init :: "u64 \<Rightarrow> u64 \<Rightarrow> u64 \<Rightarrow> unit physact" where
  "pmm_init ram gpa n = (let p = (ram - PMM_BASE) div PAGE_SIZE in
     if \<not> (0x1000000 < ram \<and> ram \<le> 0x100000000 \<and> ram AND 0x1fffff = 0) then panic
     else run (upd (\<lambda>h. h\<lparr>ph_pages := p, ph_free_pages := p, ph_map := (\<lambda>_. False), ph_allocated := (\<lambda>_. False)\<rparr>)) (\<lambda>_.
       if n = 0 then ret ()
       else upd (fold reserve_page (initrd_pages ((gpa - PMM_BASE) div PAGE_SIZE) ((gpa + n - 1 - PMM_BASE) div PAGE_SIZE) p))))"

subsection \<open>Single pages\<close>

text \<open>The index \<^verbatim>\<open>(pmm_hint + n) % pmm_pages\<close> of the first clear bit, from \<open>n\<close> on.\<close>

primrec pmm_scan :: "nat \<Rightarrow> u64 \<Rightarrow> phys \<Rightarrow> u64 option" where
  "pmm_scan 0 n h = None"
| "pmm_scan (Suc k) n h = (let i = (ph_hint h + n) mod ph_pages h in if \<not> ph_map h i then Some i else pmm_scan k (n + 1) h)"

text \<open>The address of a page, 0 when there is none.\<close>

definition pmm_alloc :: "u64 physact" where
  "pmm_alloc = look (\<lambda>h. case pmm_scan (unat (ph_pages h)) 0 h of None \<Rightarrow> ret 0
     | Some i \<Rightarrow> run (upd (\<lambda>h. (take_page i h)\<lparr>ph_hint := i + 1, ph_free_pages := ph_free_pages h - 1,
                                            ph_mem := zero_pages (page_addr i) 1 (ph_mem h)\<rparr>)) (\<lambda>_.
         ret (page_addr i)))"

definition pmm_free :: "u64 \<Rightarrow> unit physact" where
  "pmm_free pa = look (\<lambda>h. let i = (pa - PMM_BASE) div PAGE_SIZE in
     if pa < PMM_BASE \<or> pa AND 0xfff \<noteq> 0 then panic
     else if \<not> (i < ph_pages h \<and> ph_map h i \<and> ph_allocated h i) then panic
     else upd (drop_page i))"

subsection \<open>Runs of pages\<close>

text \<open>The search of \<open>pmm_alloc_contig\<close> downwards from \<open>i\<close>: the result is the first page of the run. A byte of the map that is full is passed over as a whole.\<close>

fun contig_scan :: "nat \<Rightarrow> (u64 \<Rightarrow> bool) \<Rightarrow> nat \<Rightarrow> nat \<Rightarrow> u64 option" where
  "contig_scan i m n r = (if i = 0 then None
     else let j = i - 1 in
       if j mod 8 = 7 \<and> list_all (\<lambda>k. m (of_nat (j - k))) [0..<8] then contig_scan (j - 7) m n 0
       else if m (of_nat j) then contig_scan j m n 0
       else if r + 1 = n then Some (of_nat j)
       else contig_scan j m n (r + 1))"

definition contig_find :: "u32 \<Rightarrow> phys \<Rightarrow> u64 option" where
  "contig_find n h = (let first = (if ph_contig_hint h \<noteq> 0 \<and> ph_contig_hint h \<le> ph_pages h then ph_contig_hint h else ph_pages h) in
     case contig_scan (unat first) (ph_map h) (unat n) 0 of Some b \<Rightarrow> Some b
     | None \<Rightarrow> contig_scan (unat (ph_pages h)) (ph_map h) (unat n) 0)"

definition run_pages :: "u64 \<Rightarrow> u32 \<Rightarrow> u64 list" where
  "run_pages b n = map (\<lambda>k. b + of_nat k) [0..<unat n]"

definition pmm_alloc_contig :: "u32 \<Rightarrow> u64 physact" where
  "pmm_alloc_contig n = look (\<lambda>h. if n = 0 \<or> ph_pages h < ucast n then ret 0
     else case contig_find n h of None \<Rightarrow> ret 0
     | Some b \<Rightarrow> run (upd (\<lambda>h. (fold take_page (run_pages b n) h)\<lparr>ph_free_pages := ph_free_pages h - ucast n, ph_contig_hint := b,
                                   ph_mem := zero_pages (page_addr b) (unat n) (ph_mem h)\<rparr>)) (\<lambda>_.
         ret (page_addr b)))"

definition pmm_free_contig :: "u64 \<Rightarrow> u32 \<Rightarrow> unit physact" where
  "pmm_free_contig pa n = look (\<lambda>h. let i = (pa - PMM_BASE) div PAGE_SIZE in
     if pa < PMM_BASE \<or> pa AND 0xfff \<noteq> 0 then panic
     else if \<not> (i \<le> ph_pages h \<and> ucast n \<le> ph_pages h - i) then panic
     else if \<not> list_all (\<lambda>j. ph_map h j \<and> ph_allocated h j) (run_pages i n) then panic
     else upd (\<lambda>h. let h' = fold drop_page (run_pages i n) h; e = i + ucast n in
            if ph_contig_hint h' < e then h'\<lparr>ph_contig_hint := e\<rparr> else h'))"

subsection \<open>Page tables\<close>

definition table_index :: "nat \<Rightarrow> u64 \<Rightarrow> u64" where
  "table_index level va = drop_bit (12 + 9 * level) va AND 511"

definition entry_at :: "u64 \<Rightarrow> u64 \<Rightarrow> u64" where "entry_at t idx = t + 8 * idx"

definition store :: "u64 \<Rightarrow> u64 \<Rightarrow> unit physact" where
  "store a v = upd (\<lambda>h. h\<lparr>ph_mem := (ph_mem h)(a := v)\<rparr>)"

text \<open>The address of the entry of the last level. \<open>k\<close> is the level.\<close>

primrec walk_loop :: "nat \<Rightarrow> u64 \<Rightarrow> u64 \<Rightarrow> bool \<Rightarrow> bool \<Rightarrow> u64 option physact" where
  "walk_loop 0 t va create user = ret (Some (entry_at t (table_index 0 va)))"
| "walk_loop (Suc k) t va create user = look (\<lambda>h. let a = entry_at t (table_index (Suc k) va);
       down = look (\<lambda>h. walk_loop k (ph_mem h a AND PT_ADDR) va create user) in
     if ph_mem h a AND PT_P = 0
     then if \<not> create then ret None
       else run pmm_alloc (\<lambda>pa. if pa = 0 then ret None
            else run (store a (pa OR PT_P OR PT_W OR (if user then PT_U else 0))) (\<lambda>_. down))
     else if user \<and> ph_mem h a AND PT_U = 0 then run (store a (ph_mem h a OR PT_U)) (\<lambda>_. down)
     else down)"

definition walk :: "u64 \<Rightarrow> u64 \<Rightarrow> bool \<Rightarrow> bool \<Rightarrow> u64 option physact" where
  "walk pml4 va create user = walk_loop 3 pml4 va create user"

definition vm_map :: "u64 \<Rightarrow> u64 \<Rightarrow> u64 \<Rightarrow> u64 \<Rightarrow> bool physact" where
  "vm_map pml4 va pa flags = run (walk pml4 va True (flags AND PT_U \<noteq> 0)) (\<lambda>r. case r of None \<Rightarrow> ret False
     | Some pte \<Rightarrow> run (store pte ((pa AND PT_ADDR) OR (flags AND (PT_W OR PT_U OR PT_NX OR PT_PWT OR PT_PCD)) OR PT_P)) (\<lambda>_. ret True))"

definition vm_unmap :: "u64 \<Rightarrow> u64 \<Rightarrow> u64 option physact" where
  "vm_unmap pml4 va = run (walk pml4 va False False) (\<lambda>r. look (\<lambda>h. case r of None \<Rightarrow> ret None
     | Some pte \<Rightarrow> if ph_mem h pte AND PT_P = 0 then ret None
         else run (store pte 0) (\<lambda>_. ret (Some (ph_mem h pte AND PT_ADDR)))))"

definition vm_protect :: "u64 \<Rightarrow> u64 \<Rightarrow> u64 \<Rightarrow> bool physact" where
  "vm_protect pml4 va flags = run (walk pml4 va False False) (\<lambda>r. look (\<lambda>h. case r of None \<Rightarrow> ret False
     | Some pte \<Rightarrow> if ph_mem h pte AND PT_P = 0 then ret False
         else run (store pte ((ph_mem h pte AND PT_ADDR) OR (flags AND (PT_W OR PT_U OR PT_NX)) OR PT_P)) (\<lambda>_. ret True)))"

text \<open>The physical address of \<open>va\<close>, 0 when it is not mapped, and the flags. The walk changes nothing.\<close>

definition vm_lookup :: "u64 \<Rightarrow> u64 \<Rightarrow> phys \<Rightarrow> u64 \<times> u64" where
  "vm_lookup pml4 va h = (case fst (walk pml4 va False False h) of None \<Rightarrow> (0, 0)
     | Some pte \<Rightarrow> let e = ph_mem h pte in
         if e AND PT_P = 0 then (0, 0) else ((e AND PT_ADDR) OR (va AND 0xfff), e AND (PT_W OR PT_U OR PT_NX)))"

definition vm_new_space :: "u64 physact" where
  "vm_new_space = run pmm_alloc (\<lambda>pa. if pa = 0 then ret 0
     else run (forA [256..<512] (\<lambda>i. look (\<lambda>h. store (entry_at pa (of_nat i)) (ph_mem h (entry_at (ph_kpml4 h) (of_nat i)))))) (\<lambda>_. ret pa))"

definition level_entries :: "nat \<Rightarrow> u64 list" where
  "level_entries level = map of_nat [0..<(if level = 4 then 256 else 512)]"

primrec free_level :: "nat \<Rightarrow> u64 \<Rightarrow> unit physact" where
  "free_level 0 t = ret ()"
| "free_level (Suc k) t = run (forA (level_entries (Suc k)) (\<lambda>i. look (\<lambda>h. let e = ph_mem h (entry_at t i) in
       if e AND PT_P = 0 then ret () else if k = 0 then pmm_free (e AND PT_ADDR) else free_level k (e AND PT_ADDR)))) (\<lambda>_.
     pmm_free t)"

definition vm_free_space :: "u64 \<Rightarrow> unit physact" where
  "vm_free_space pml4 = free_level 4 pml4"

primrec count_level :: "nat \<Rightarrow> u64 \<Rightarrow> phys \<Rightarrow> nat" where
  "count_level 0 t h = 0"
| "count_level (Suc k) t h = sum_list (map (\<lambda>i. let e = ph_mem h (entry_at t i) in
     if e AND PT_P = 0 \<or> e AND PT_U = 0 then 0 else if k = 0 then 1 else count_level k (e AND PT_ADDR) h) (level_entries (Suc k)))"

definition vm_count_user_pages :: "u64 \<Rightarrow> phys \<Rightarrow> nat" where
  "vm_count_user_pages pml4 h = count_level 4 pml4 h"

end
