(* ===== verification/Vm_Vad.thy ===== *)
theory Vm_Vad
  imports Vm_Pages
begin

unbundle bit_operations_syntax

section \<open>User address space (kernel64/vad.c)\<close>

text \<open>
  The address descriptors of a process: an array sorted by address, with reserve, commit, decommit, release, protect and query, the
  population of pages on a fault, and the copies between kernel and user memory. Every entry point runs with interrupts off, so a call is one step.

  What other files supply is the parameter \<open>vm_env\<close>, over a context \<open>'c\<close>: whether the kernel heap can grow the array, the statistics that
  are taken before pages go (\<^verbatim>\<open>k32_before_unmap\<close>), the pages of file-backed images (the part of \<^verbatim>\<open>ldr_image_fault\<close> that reads the file)
  and of section views (the part of \<^verbatim>\<open>view_fault\<close> that finds the section's page). Indexes into the array are \<open>nat\<close>; it never has 2^31 entries.
\<close>

abbreviation (input) USER_TOP :: u64 where "USER_TOP \<equiv> 0x00007ffffffef000"
abbreviation (input) USER_MIN :: u64 where "USER_MIN \<equiv> 0x10000"
abbreviation (input) PAGE_MASK :: u64 where "PAGE_MASK \<equiv> 0xfffffffffffff000"
abbreviation (input) PAGE_NOACCESS :: u32 where "PAGE_NOACCESS \<equiv> 1"
abbreviation (input) PAGE_READONLY :: u32 where "PAGE_READONLY \<equiv> 2"
abbreviation (input) PAGE_READWRITE :: u32 where "PAGE_READWRITE \<equiv> 4"
abbreviation (input) PAGE_WRITECOPY :: u32 where "PAGE_WRITECOPY \<equiv> 8"
abbreviation (input) PAGE_EXECUTE :: u32 where "PAGE_EXECUTE \<equiv> 16"
abbreviation (input) PAGE_EXECUTE_READ :: u32 where "PAGE_EXECUTE_READ \<equiv> 32"
abbreviation (input) PAGE_EXECUTE_READWRITE :: u32 where "PAGE_EXECUTE_READWRITE \<equiv> 64"
abbreviation (input) PAGE_EXECUTE_WRITECOPY :: u32 where "PAGE_EXECUTE_WRITECOPY \<equiv> 128"
abbreviation (input) PAGE_GUARD :: u32 where "PAGE_GUARD \<equiv> 0x100"
abbreviation (input) MEM_COMMIT :: u32 where "MEM_COMMIT \<equiv> 0x1000"
abbreviation (input) MEM_RESERVE :: u32 where "MEM_RESERVE \<equiv> 0x2000"
abbreviation (input) MEM_DECOMMIT :: u32 where "MEM_DECOMMIT \<equiv> 0x4000"
abbreviation (input) MEM_RELEASE :: u32 where "MEM_RELEASE \<equiv> 0x8000"
abbreviation (input) MEM_TOP_DOWN :: u32 where "MEM_TOP_DOWN \<equiv> 0x100000"

datatype nt_err = STATUS_INVALID_PARAMETER | STATUS_NO_MEMORY | STATUS_CONFLICTING_ADDRESSES | STATUS_UNABLE_TO_FREE_VM
  | STATUS_FREE_VM_NOT_AT_BASE | STATUS_UNABLE_TO_DELETE_SECTION | STATUS_NOT_MAPPED_VIEW | STATUS_ACCESS_VIOLATION
  | STATUS_GUARD_PAGE_VIOLATION | STATUS_IN_PAGE_ERROR

datatype vad_state = VAD_RESERVED | VAD_COMMITTED
datatype vad_kind = VK_PRIVATE | VK_IMAGE | VK_STACK | VK_TEB | VK_VIEW

text \<open>\<open>v_img\<close> is a pointer, 0 when it is null.\<close>

record vad =
  v_start :: u64
  v_end :: u64
  v_state :: vad_state
  v_prot :: u32
  v_kind :: vad_kind
  v_alloc_prot :: u32
  v_alloc_base :: u64
  v_img :: u64

record 'c process =
  pr_vads :: "vad list"
  pr_cap :: nat
  pr_mmap_hint :: u64
  pr_pml4 :: u64
  pr_teardown :: bool
  pr_phys :: phys
  pr_ctx :: 'c

type_synonym ('c, 'a) vmact = "('c process, 'a) act"

record 'c vm_env =
  ev_kzalloc :: "nat \<Rightarrow> 'c \<Rightarrow> bool \<times> 'c"
  ev_before_unmap :: "vad list \<Rightarrow> phys \<Rightarrow> u64 \<Rightarrow> u64 \<Rightarrow> bool \<Rightarrow> 'c \<Rightarrow> 'c"
  ev_image_page :: "u64 \<Rightarrow> u64 \<Rightarrow> phys \<times> 'c \<Rightarrow> (nt_err + u64) \<times> phys \<times> 'c"
  ev_image_retired :: "u64 \<Rightarrow> 'c \<Rightarrow> bool"
  ev_view_at :: "u64 \<Rightarrow> 'c \<Rightarrow> bool"
  ev_view_page :: "u64 \<Rightarrow> bool \<Rightarrow> phys \<times> 'c \<Rightarrow> (nt_err + u64 \<times> bool) \<times> phys \<times> 'c"

definition on_phys :: "'a physact \<Rightarrow> ('c, 'a) vmact" where
  "on_phys m = (\<lambda>p. case m (pr_phys p) of (r, h) \<Rightarrow> (r, p\<lparr>pr_phys := h\<rparr>))"

definition on_env :: "(phys \<times> 'c \<Rightarrow> 'a \<times> phys \<times> 'c) \<Rightarrow> ('c, 'a) vmact" where
  "on_env m = (\<lambda>p. case m (pr_phys p, pr_ctx p) of (r, h, c) \<Rightarrow> (r, p\<lparr>pr_phys := h, pr_ctx := c\<rparr>))"

definition upd_vad :: "nat \<Rightarrow> (vad \<Rightarrow> vad) \<Rightarrow> ('c, unit) vmact" where
  "upd_vad i f = upd (\<lambda>p. p\<lparr>pr_vads := (pr_vads p)[i := f (pr_vads p ! i)]\<rparr>)"

definition up :: "u64 \<Rightarrow> u64" where
  "up v = (v + PAGE_SIZE - 1) AND PAGE_MASK"

subsection \<open>The array of descriptors\<close>

definition vad_init :: "'c vm_env \<Rightarrow> ('c, unit) vmact" where
  "vad_init v = look (\<lambda>p. case ev_kzalloc v 64 (pr_ctx p) of (r, c) \<Rightarrow>
     run (upd (\<lambda>p. p\<lparr>pr_cap := 64, pr_vads := [], pr_ctx := c\<rparr>)) (\<lambda>_. if r then ret () else on_phys panic))"

definition vad_destroy :: "('c, unit) vmact" where
  "vad_destroy = upd (\<lambda>p. p\<lparr>pr_vads := [], pr_cap := 0\<rparr>)"

definition vad_insert_at :: "'c vm_env \<Rightarrow> nat \<Rightarrow> vad \<Rightarrow> ('c, bool) vmact" where
  "vad_insert_at v idx n = look (\<lambda>p. case (if length (pr_vads p) = pr_cap p then ev_kzalloc v (pr_cap p * 2) (pr_ctx p) else (True, pr_ctx p)) of
     (r, c) \<Rightarrow> run (upd (\<lambda>p. p\<lparr>pr_ctx := c\<rparr>)) (\<lambda>_. if \<not> r then ret False
       else run (upd (\<lambda>p. p\<lparr>pr_cap := (if length (pr_vads p) = pr_cap p then pr_cap p * 2 else pr_cap p),
                             pr_vads := take idx (pr_vads p) @ n # drop idx (pr_vads p)\<rparr>)) (\<lambda>_. ret True)))"

definition vad_remove_at :: "nat \<Rightarrow> ('c, unit) vmact" where
  "vad_remove_at idx = upd (\<lambda>p. p\<lparr>pr_vads := take idx (pr_vads p) @ drop (Suc idx) (pr_vads p)\<rparr>)"

text \<open>The index of the first descriptor that ends after \<open>addr\<close>.\<close>

function vad_lower_loop :: "vad list \<Rightarrow> u64 \<Rightarrow> nat \<Rightarrow> nat \<Rightarrow> nat" where
  "vad_lower_loop vs addr lo hi = (if lo < hi then let mid = (lo + hi) div 2 in
     if v_end (vs ! mid) \<le> addr then vad_lower_loop vs addr (mid + 1) hi else vad_lower_loop vs addr lo mid else lo)"
  by auto
termination by (relation "measure (\<lambda>(vs, addr, lo, hi). hi - lo)") auto

declare vad_lower_loop.simps [simp del]

definition vad_lower :: "vad list \<Rightarrow> u64 \<Rightarrow> nat" where
  "vad_lower vs addr = vad_lower_loop vs addr 0 (length vs)"

definition vad_find :: "vad list \<Rightarrow> u64 \<Rightarrow> nat option" where
  "vad_find vs addr = (let i = vad_lower vs addr in if i < length vs \<and> v_start (vs ! i) \<le> addr then Some i else None)"

definition vad_split :: "'c vm_env \<Rightarrow> u64 \<Rightarrow> ('c, bool) vmact" where
  "vad_split v at = look (\<lambda>p. let vs = pr_vads p; i = vad_lower vs at in
     if length vs \<le> i \<or> at \<le> v_start (vs ! i) \<or> v_end (vs ! i) \<le> at then ret True
     else run (upd_vad i (\<lambda>w. w\<lparr>v_end := at\<rparr>)) (\<lambda>_. vad_insert_at v (i + 1) ((vs ! i)\<lparr>v_start := at\<rparr>)))"

definition same_run :: "vad \<Rightarrow> vad \<Rightarrow> bool" where
  "same_run a b = (v_end a = v_start b \<and> v_state a = v_state b \<and> v_prot a = v_prot b \<and> v_kind a = v_kind b \<and>
     v_alloc_base a = v_alloc_base b \<and> v_alloc_prot a = v_alloc_prot b \<and> v_img a = v_img b)"

fun coalesce :: "vad list \<Rightarrow> vad list" where
  "coalesce (a # b # vs) = (if same_run a b then coalesce (a\<lparr>v_end := v_end b\<rparr> # vs) else a # coalesce (b # vs))"
| "coalesce vs = vs"

definition vad_coalesce :: "('c, unit) vmact" where
  "vad_coalesce = upd (\<lambda>p. p\<lparr>pr_vads := coalesce (pr_vads p)\<rparr>)"

definition range_free :: "vad list \<Rightarrow> u64 \<Rightarrow> u64 \<Rightarrow> bool" where
  "range_free vs start stop = (let i = vad_lower vs start in \<not> (i < length vs \<and> v_start (vs ! i) < stop))"

subsection \<open>Protections and pages\<close>

definition prot_to_ptflags :: "u32 \<Rightarrow> u64" where
  "prot_to_ptflags prot = (let b = prot AND 0xff;
       f = (if b = PAGE_READONLY then PT_U OR PT_NX
            else if b = PAGE_READWRITE \<or> b = PAGE_WRITECOPY then PT_U OR PT_W OR PT_NX
            else if b = PAGE_EXECUTE \<or> b = PAGE_EXECUTE_READ then PT_U
            else if b = PAGE_EXECUTE_READWRITE \<or> b = PAGE_EXECUTE_WRITECOPY then PT_U OR PT_W
            else 0) in
     if prot AND 0x200 \<noteq> 0 then f OR PT_PCD else f)"

definition prot_valid :: "u32 \<Rightarrow> bool" where
  "prot_valid prot = (let b = prot AND 0xff in
     b = PAGE_NOACCESS \<or> b = PAGE_READONLY \<or> b = PAGE_READWRITE \<or> b = PAGE_WRITECOPY \<or> b = PAGE_EXECUTE \<or>
     b = PAGE_EXECUTE_READ \<or> b = PAGE_EXECUTE_READWRITE \<or> b = PAGE_EXECUTE_WRITECOPY)"

definition parked :: "u32 \<Rightarrow> bool" where
  "parked prot = (prot AND 0xff = PAGE_NOACCESS \<or> prot AND 0x100 \<noteq> 0)"

definition before_unmap :: "'c vm_env \<Rightarrow> u64 \<Rightarrow> u64 \<Rightarrow> bool \<Rightarrow> ('c, unit) vmact" where
  "before_unmap v start stop released = upd (\<lambda>p. p\<lparr>pr_ctx := ev_before_unmap v (pr_vads p) (pr_phys p) start stop released (pr_ctx p)\<rparr>)"

text \<open>The values of a \<open>for\<close> loop from \<open>start\<close> in steps of a page.\<close>

definition page_list :: "u64 \<Rightarrow> u64 \<Rightarrow> u64 list" where
  "page_list start stop = (if start < stop then map (\<lambda>k. start + of_nat k * PAGE_SIZE) [0..<(unat (stop - start) + 4095) div 4096] else [])"

definition unmap_pages :: "'c vm_env \<Rightarrow> u64 \<Rightarrow> u64 \<Rightarrow> ('c, unit) vmact" where
  "unmap_pages v start stop = run (before_unmap v start stop True) (\<lambda>_. look (\<lambda>p. let root = pr_pml4 p in
     forA (page_list start stop) (\<lambda>a. on_phys (run (vm_unmap root a) (\<lambda>r. case r of None \<Rightarrow> ret () | Some pa \<Rightarrow> pmm_free pa)))))"

definition apply_page :: "u64 \<Rightarrow> u32 \<Rightarrow> u64 \<Rightarrow> unit physact" where
  "apply_page root prot va = look (\<lambda>h. if fst (vm_lookup root va h) = 0 then ret ()
     else if parked prot then run (vm_unmap root va) (\<lambda>r. case r of None \<Rightarrow> ret () | Some pa \<Rightarrow> run (vm_map root va pa 0) (\<lambda>_. ret ()))
     else run (vm_map root va (fst (vm_lookup root va h) AND PAGE_MASK) (prot_to_ptflags prot)) (\<lambda>_. ret ()))"

definition vad_apply_prot :: "nat \<Rightarrow> u32 \<Rightarrow> ('c, unit) vmact" where
  "vad_apply_prot i prot = run (upd_vad i (\<lambda>w. w\<lparr>v_prot := prot\<rparr>)) (\<lambda>_. look (\<lambda>p. let w = pr_vads p ! i; root = pr_pml4 p in
     if v_kind w = VK_VIEW then forA (page_list (v_start w) (v_end w)) (\<lambda>va. on_phys (run (vm_unmap root va) (\<lambda>_. ret ())))
     else forA (page_list (v_start w) (v_end w)) (\<lambda>va. on_phys (apply_page root prot va))))"


text \<open>The checks \<^verbatim>\<open>for (a = start; a < end; a = vad_find(p, a)->end)\<close>, and the loops of the same form that change each descriptor found. Every turn
  goes on to a later descriptor, so the number of descriptors is enough fuel. The first loop has established that the second finds
  a descriptor each time.\<close>

primrec covered_loop :: "nat \<Rightarrow> vad list \<Rightarrow> (vad \<Rightarrow> bool) \<Rightarrow> u64 \<Rightarrow> u64 \<Rightarrow> bool" where
  "covered_loop 0 vs P a stop = (stop \<le> a)"
| "covered_loop (Suc k) vs P a stop = (if stop \<le> a then True else case vad_find vs a of None \<Rightarrow> False
     | Some i \<Rightarrow> P (vs ! i) \<and> covered_loop k vs P (v_end (vs ! i)) stop)"

definition covered :: "vad list \<Rightarrow> (vad \<Rightarrow> bool) \<Rightarrow> u64 \<Rightarrow> u64 \<Rightarrow> bool" where
  "covered vs P start stop = covered_loop (length vs) vs P start stop"

primrec each_vad_loop :: "nat \<Rightarrow> (nat \<Rightarrow> ('c, unit) vmact) \<Rightarrow> u64 \<Rightarrow> u64 \<Rightarrow> ('c, unit) vmact" where
  "each_vad_loop 0 f a stop = ret ()"
| "each_vad_loop (Suc k) f a stop = (if stop \<le> a then ret () else look (\<lambda>p. case vad_find (pr_vads p) a of None \<Rightarrow> ret ()
     | Some i \<Rightarrow> run (f i) (\<lambda>_. look (\<lambda>p. case vad_find (pr_vads p) a of None \<Rightarrow> ret ()
         | Some j \<Rightarrow> each_vad_loop k f (v_end (pr_vads p ! j)) stop))))"

definition each_vad :: "(nat \<Rightarrow> ('c, unit) vmact) \<Rightarrow> u64 \<Rightarrow> u64 \<Rightarrow> ('c, unit) vmact" where
  "each_vad f start stop = look (\<lambda>p. each_vad_loop (length (pr_vads p)) f start stop)"

text \<open>Split at both ends of a range.\<close>

definition split_range :: "'c vm_env \<Rightarrow> u64 \<Rightarrow> u64 \<Rightarrow> ('c, bool) vmact" where
  "split_range v start stop = run (vad_split v start) (\<lambda>r. if r then vad_split v stop else ret False)"

subsection \<open>Allocation\<close>

definition has :: "u32 \<Rightarrow> u32 \<Rightarrow> bool" where "has type f = (type AND f \<noteq> 0)"

definition new_vad :: "u64 \<Rightarrow> u64 \<Rightarrow> bool \<Rightarrow> u32 \<Rightarrow> vad_kind \<Rightarrow> vad" where
  "new_vad start stop commit prot kind = \<lparr>v_start = start, v_end = stop, v_state = (if commit then VAD_COMMITTED else VAD_RESERVED),
     v_prot = prot, v_kind = kind, v_alloc_prot = prot, v_alloc_base = start, v_img = 0\<rparr>"

definition insert_vad :: "'c vm_env \<Rightarrow> vad \<Rightarrow> ('c, bool) vmact" where
  "insert_vad v n = look (\<lambda>p. vad_insert_at v (vad_lower (pr_vads p) (v_start n)) n)"

definition commit_vad :: "u32 \<Rightarrow> nat \<Rightarrow> ('c, unit) vmact" where
  "commit_vad prot i = look (\<lambda>p. let w = pr_vads p ! i in
     run (upd_vad i (\<lambda>w. w\<lparr>v_state := VAD_COMMITTED\<rparr>)) (\<lambda>_.
       if v_state w = VAD_COMMITTED \<and> v_prot w \<noteq> prot then vad_apply_prot i prot else upd_vad i (\<lambda>w. w\<lparr>v_prot := prot\<rparr>)))"

definition vad_commit :: "'c vm_env \<Rightarrow> u64 \<Rightarrow> u64 \<Rightarrow> u32 \<Rightarrow> ('c, nt_err + unit) vmact" where
  "vad_commit v start stop prot = look (\<lambda>p. if \<not> covered (pr_vads p) (\<lambda>_. True) start stop then ret (Inl STATUS_INVALID_PARAMETER)
     else run (split_range v start stop) (\<lambda>r. if \<not> r then ret (Inl STATUS_NO_MEMORY)
     else run (if parked prot then before_unmap v start stop False else ret ()) (\<lambda>_.
          run (each_vad (commit_vad prot) start stop) (\<lambda>_. ret (Inr ())))))"

text \<open>The address that is chosen when the caller names none. \<open>k\<close> counts the tries: the code gives up when \<^verbatim>\<open>++tries > 4096\<close>.\<close>

primrec choose_base :: "nat \<Rightarrow> vad list \<Rightarrow> bool \<Rightarrow> u64 \<Rightarrow> u64 \<Rightarrow> u64 option" where
  "choose_base 0 vs down len cand = None"
| "choose_base (Suc k) vs down len cand = (if cand < USER_MIN \<or> USER_TOP < cand + len then None
     else let i = vad_lower vs cand in
       if \<not> (i < length vs \<and> v_start (vs ! i) < cand + len) then Some cand
       else choose_base k vs down len (if down then (v_start (vs ! i) - len) AND 0xffffffffffff0000 else (v_end (vs ! i) + 0xffff) AND 0xffffffffffff0000))"

definition first_base :: "bool \<Rightarrow> u64 \<Rightarrow> u64 \<Rightarrow> u64" where
  "first_base down len hint = (if down then (USER_TOP - len) AND 0xffffffffffff0000 else (hint + 0xffff) AND 0xffffffffffff0000)"

definition vad_alloc_any :: "'c vm_env \<Rightarrow> bool \<Rightarrow> u64 \<Rightarrow> bool \<Rightarrow> u32 \<Rightarrow> vad_kind \<Rightarrow> ('c, nt_err + u64) vmact" where
  "vad_alloc_any v down len commit prot kind = look (\<lambda>p. case choose_base 4097 (pr_vads p) down len (first_base down len (pr_mmap_hint p)) of
       None \<Rightarrow> ret (Inl STATUS_NO_MEMORY)
     | Some cand \<Rightarrow> run (insert_vad v (new_vad cand (cand + len) commit prot kind)) (\<lambda>r. if \<not> r then ret (Inl STATUS_NO_MEMORY)
         else run (if down then ret () else upd (\<lambda>p. p\<lparr>pr_mmap_hint := cand + len\<rparr>)) (\<lambda>_. ret (Inr cand))))"

definition vad_alloc_at :: "'c vm_env \<Rightarrow> u64 \<Rightarrow> u64 \<Rightarrow> bool \<Rightarrow> bool \<Rightarrow> u32 \<Rightarrow> vad_kind \<Rightarrow> ('c, nt_err + u64) vmact" where
  "vad_alloc_at v base len commit reserve prot kind = look (\<lambda>p. let start = base AND PAGE_MASK;
       start = (if reserve \<and> start AND 0xffff \<noteq> 0 then start AND 0xffffffffffff0000 else start); stop = start + len in
     if start < USER_MIN \<or> USER_TOP < stop \<or> stop < start then ret (Inl STATUS_INVALID_PARAMETER)
     else if reserve then
       if \<not> range_free (pr_vads p) start stop then ret (Inl STATUS_CONFLICTING_ADDRESSES)
       else run (insert_vad v (new_vad start stop commit prot kind)) (\<lambda>r. if \<not> r then ret (Inl STATUS_NO_MEMORY) else ret (Inr start))
     else chk (vad_commit v start stop prot) (\<lambda>_. ret (Inr start)))"

text \<open>The result is the base and the size that the caller gets back.\<close>

definition vad_alloc :: "'c vm_env \<Rightarrow> u64 \<Rightarrow> u64 \<Rightarrow> u32 \<Rightarrow> u32 \<Rightarrow> vad_kind \<Rightarrow> ('c, nt_err + u64 \<times> u64) vmact" where
  "vad_alloc v base sz type prot kind = (let commit = has type MEM_COMMIT; reserve = has type MEM_RESERVE; len = up (sz + (base AND 0xfff)) in
     if \<not> (commit \<or> reserve) \<or> sz = 0 \<or> \<not> prot_valid prot then ret (Inl STATUS_INVALID_PARAMETER)
     else if type AND NOT (MEM_COMMIT OR MEM_RESERVE OR MEM_TOP_DOWN) \<noteq> 0 then ret (Inl STATUS_INVALID_PARAMETER)
     else if len = 0 \<or> USER_TOP < len then ret (Inl STATUS_INVALID_PARAMETER)
     else chk (if base \<noteq> 0 then vad_alloc_at v base len commit reserve prot kind
               else vad_alloc_any v (has type MEM_TOP_DOWN) len commit prot kind) (\<lambda>start.
          run vad_coalesce (\<lambda>_. ret (Inr (start, len)))))"

definition vad_insert_fixed :: "'c vm_env \<Rightarrow> u64 \<Rightarrow> u64 \<Rightarrow> vad_state \<Rightarrow> u32 \<Rightarrow> vad_kind \<Rightarrow> u64 \<Rightarrow> ('c, nt_err + unit) vmact" where
  "vad_insert_fixed v start sz state prot kind alloc_base = look (\<lambda>p. let stop = start + up sz in
     if start AND 0xfff \<noteq> 0 \<or> start < USER_MIN \<or> USER_TOP < stop \<or> stop \<le> start then ret (Inl STATUS_INVALID_PARAMETER)
     else if \<not> range_free (pr_vads p) start stop then ret (Inl STATUS_CONFLICTING_ADDRESSES)
     else run (insert_vad v \<lparr>v_start = start, v_end = stop, v_state = state, v_prot = prot, v_kind = kind,
                             v_alloc_prot = prot, v_alloc_base = alloc_base, v_img = 0\<rparr>) (\<lambda>r.
          ret (if r then Inr () else Inl STATUS_NO_MEMORY)))"

definition vad_insert_image :: "'c vm_env \<Rightarrow> u64 \<Rightarrow> u64 \<Rightarrow> u32 \<Rightarrow> u64 \<Rightarrow> u64 \<Rightarrow> ('c, nt_err + unit) vmact" where
  "vad_insert_image v start sz prot alloc_base img = chk (vad_insert_fixed v start sz VAD_COMMITTED prot VK_IMAGE alloc_base) (\<lambda>_.
     look (\<lambda>p. case vad_find (pr_vads p) start of None \<Rightarrow> ret (Inr ())
       | Some i \<Rightarrow> run (upd_vad i (\<lambda>w. w\<lparr>v_img := img\<rparr>)) (\<lambda>_. ret (Inr ()))))"

definition vad_range_is_free :: "'c process \<Rightarrow> u64 \<Rightarrow> u64 \<Rightarrow> bool" where
  "vad_range_is_free p start sz = range_free (pr_vads p) start (start + up sz)"

subsection \<open>Release, decommit, protect and query\<close>

text \<open>The descriptors from index \<open>i\<close> on that belong to the allocation; the result is the end of the last one.\<close>

primrec release_loop :: "nat \<Rightarrow> 'c vm_env \<Rightarrow> nat \<Rightarrow> u64 \<Rightarrow> u64 \<Rightarrow> ('c, u64) vmact" where
  "release_loop 0 v i base stop = ret stop"
| "release_loop (Suc k) v i base stop = look (\<lambda>p. if i < length (pr_vads p) \<and> v_alloc_base (pr_vads p ! i) = base
     then let w = pr_vads p ! i in run (unmap_pages v (v_start w) (v_end w)) (\<lambda>_.
          run (vad_remove_at i) (\<lambda>_. release_loop k v i base (v_end w)))
     else ret stop)"

definition decommit_vad :: "'c vm_env \<Rightarrow> nat \<Rightarrow> ('c, unit) vmact" where
  "decommit_vad v i = look (\<lambda>p. let w = pr_vads p ! i in
     run (if v_state w = VAD_COMMITTED then unmap_pages v (v_start w) (v_end w) else ret ()) (\<lambda>_.
       upd_vad i (\<lambda>w. w\<lparr>v_state := VAD_RESERVED\<rparr>)))"

definition vad_release :: "'c vm_env \<Rightarrow> u64 \<Rightarrow> u64 \<Rightarrow> ('c, nt_err + u64 \<times> u64) vmact" where
  "vad_release v base sz = look (\<lambda>p. case vad_find (pr_vads p) base of None \<Rightarrow> ret (Inl STATUS_UNABLE_TO_FREE_VM)
     | Some i \<Rightarrow> let w = pr_vads p ! i; start = v_start w in
         if v_alloc_base w \<noteq> base then ret (Inl STATUS_FREE_VM_NOT_AT_BASE)
         else if sz \<noteq> 0 then ret (Inl STATUS_INVALID_PARAMETER)
         else run (release_loop (length (pr_vads p)) v (vad_lower (pr_vads p) start) base start) (\<lambda>stop. ret (Inr (base, stop - start))))"

definition vad_decommit :: "'c vm_env \<Rightarrow> u64 \<Rightarrow> u64 \<Rightarrow> ('c, nt_err + u64 \<times> u64) vmact" where
  "vad_decommit v base sz = look (\<lambda>p. let start = base AND PAGE_MASK; stop = up (base + sz) in
     if sz = 0 \<or> stop \<le> start then ret (Inl STATUS_INVALID_PARAMETER)
     else if \<not> covered (pr_vads p) (\<lambda>_. True) start stop then ret (Inl STATUS_INVALID_PARAMETER)
     else run (split_range v start stop) (\<lambda>r. if \<not> r then ret (Inl STATUS_NO_MEMORY)
     else run (each_vad (decommit_vad v) start stop) (\<lambda>_. run vad_coalesce (\<lambda>_. ret (Inr (start, stop - start))))))"

definition vad_free :: "'c vm_env \<Rightarrow> u64 \<Rightarrow> u64 \<Rightarrow> u32 \<Rightarrow> ('c, nt_err + u64 \<times> u64) vmact" where
  "vad_free v base sz type = look (\<lambda>p. if base = 0 then ret (Inl STATUS_INVALID_PARAMETER)
     else if (case vad_find (pr_vads p) base of None \<Rightarrow> False | Some i \<Rightarrow> v_kind (pr_vads p ! i) = VK_VIEW)
       then ret (Inl STATUS_UNABLE_TO_DELETE_SECTION)
     else if type = MEM_RELEASE then vad_release v base sz
     else if type = MEM_DECOMMIT then vad_decommit v base sz
     else ret (Inl STATUS_INVALID_PARAMETER))"

text \<open>The result is the old protection of the first page.\<close>

definition vad_protect :: "'c vm_env \<Rightarrow> u64 \<Rightarrow> u64 \<Rightarrow> u32 \<Rightarrow> ('c, nt_err + u32) vmact" where
  "vad_protect v base sz prot = look (\<lambda>p. let start = base AND PAGE_MASK; stop = up (base + sz) in
     if sz = 0 \<or> stop \<le> start \<or> \<not> prot_valid prot then ret (Inl STATUS_INVALID_PARAMETER)
     else if \<not> covered (pr_vads p) (\<lambda>w. v_state w = VAD_COMMITTED) start stop then ret (Inl STATUS_INVALID_PARAMETER)
     else let old = (case vad_find (pr_vads p) start of None \<Rightarrow> 0 | Some i \<Rightarrow> v_prot (pr_vads p ! i)) in
       run (split_range v start stop) (\<lambda>r. if \<not> r then ret (Inl STATUS_NO_MEMORY)
       else run (if parked prot then before_unmap v start stop False else ret ()) (\<lambda>_.
            run (each_vad (\<lambda>i. vad_apply_prot i prot) start stop) (\<lambda>_. run vad_coalesce (\<lambda>_. ret (Inr old))))))"

text \<open>What a query gives: the region of the address with its state and type.\<close>

datatype mem_state = MS_FREE | MS_RESERVE | MS_COMMIT
datatype mem_type = MT_NONE | MT_IMAGE | MT_MAPPED | MT_PRIVATE

record mem_info =
  mi_base :: u64
  mi_alloc_base :: u64
  mi_alloc_prot :: u32
  mi_size :: u64
  mi_state :: mem_state
  mi_prot :: u32
  mi_type :: mem_type

definition vad_query :: "'c process \<Rightarrow> u64 \<Rightarrow> nt_err + mem_info" where
  "vad_query p addr = (let vs = pr_vads p in if USER_TOP \<le> addr then Inl STATUS_INVALID_PARAMETER
     else case vad_find vs (addr AND PAGE_MASK) of
       None \<Rightarrow> let i = vad_lower vs addr; start = addr AND PAGE_MASK; stop = (if i < length vs then v_start (vs ! i) else USER_TOP) in
         Inr \<lparr>mi_base = start, mi_alloc_base = 0, mi_alloc_prot = 0, mi_size = stop - start, mi_state = MS_FREE, mi_prot = PAGE_NOACCESS,
              mi_type = MT_NONE\<rparr>
     | Some i \<Rightarrow> let w = vs ! i; c = (v_state w = VAD_COMMITTED) in
         Inr \<lparr>mi_base = v_start w, mi_alloc_base = v_alloc_base w, mi_alloc_prot = v_alloc_prot w, mi_size = v_end w - v_start w,
              mi_state = (if c then MS_COMMIT else MS_RESERVE), mi_prot = (if c then v_prot w else 0),
              mi_type = (case v_kind w of VK_IMAGE \<Rightarrow> MT_IMAGE | VK_VIEW \<Rightarrow> MT_MAPPED | _ \<Rightarrow> MT_PRIVATE)\<rparr>)"

primrec remove_view_loop :: "nat \<Rightarrow> nat \<Rightarrow> u64 \<Rightarrow> bool \<Rightarrow> ('c, bool) vmact" where
  "remove_view_loop 0 i base found = ret found"
| "remove_view_loop (Suc k) i base found = look (\<lambda>p. if i < length (pr_vads p) \<and> v_alloc_base (pr_vads p ! i) = base \<and>
       v_kind (pr_vads p ! i) = VK_VIEW
     then run (vad_remove_at i) (\<lambda>_. remove_view_loop k i base True) else ret found)"

definition vad_remove_view :: "u64 \<Rightarrow> ('c, nt_err + unit) vmact" where
  "vad_remove_view base = look (\<lambda>p. run (remove_view_loop (length (pr_vads p)) (vad_lower (pr_vads p) base) base False) (\<lambda>found.
     ret (if found then Inr () else Inl STATUS_NOT_MAPPED_VIEW)))"

end
