(* ===== verification/Vm_Fault.thy ===== *)
theory Vm_Fault
  imports Vm_Vad
begin

unbundle bit_operations_syntax

section \<open>Page faults and user copies (kernel64/vad.c, ldr.c, ipc\_section.c)\<close>

text \<open>
  The population of a page on a fault, and the copies between kernel and user memory that rest on it. Of \<^verbatim>\<open>view_fault\<close> and
  \<^verbatim>\<open>ldr_image_fault\<close> the model has the decision and the mapping; finding the section's page, or reading the image's page from its
  file, is the environment's.
\<close>

subsection \<open>Faults\<close>

definition prot_base :: "u32 \<Rightarrow> u32" where "prot_base prot = prot AND 0xff"

definition prot_writable :: "u32 \<Rightarrow> bool" where
  "prot_writable b = (b = PAGE_READWRITE \<or> b = PAGE_EXECUTE_READWRITE)"

definition prot_cow :: "u32 \<Rightarrow> bool" where
  "prot_cow b = (b = PAGE_WRITECOPY \<or> b = PAGE_EXECUTE_WRITECOPY)"

definition prot_exec :: "u32 \<Rightarrow> bool" where
  "prot_exec b = (PAGE_EXECUTE \<le> b \<and> b \<le> PAGE_EXECUTE_WRITECOPY)"

definition clear_guard :: "nat \<Rightarrow> ('c, unit) vmact" where
  "clear_guard i = upd_vad i (\<lambda>w. w\<lparr>v_prot := v_prot w AND NOT 0x100\<rparr>)"

text \<open>The page of a view: the environment gives its address and whether it is the private copy of a copy-on-write view.\<close>

definition view_fault :: "'c vm_env \<Rightarrow> nat \<Rightarrow> u64 \<Rightarrow> bool \<Rightarrow> bool \<Rightarrow> ('c, nt_err + unit) vmact" where
  "view_fault v i addr write exec = look (\<lambda>p. let w = pr_vads p ! i; prot = v_prot w; b = prot_base prot; page = addr AND PAGE_MASK; root = pr_pml4 p;
       (cur, flags) = vm_lookup root page (pr_phys p) in
     if \<not> ev_view_at v addr (pr_ctx p) then ret (Inl STATUS_ACCESS_VIOLATION)
     else if b = PAGE_NOACCESS then ret (Inl STATUS_ACCESS_VIOLATION)
     else if prot AND 0x100 \<noteq> 0 then run (clear_guard i) (\<lambda>_. ret (Inl STATUS_GUARD_PAGE_VIOLATION))
     else if write \<and> \<not> prot_writable b \<and> \<not> prot_cow b then ret (Inl STATUS_ACCESS_VIOLATION)
     else if exec \<and> \<not> prot_exec b then ret (Inl STATUS_ACCESS_VIOLATION)
     else if cur \<noteq> 0 \<and> (\<not> write \<or> flags AND PT_W \<noteq> 0) then ret (Inr ())
     else chk (on_env (ev_view_page v page (write \<and> prot_cow b))) (\<lambda>(pa, own).
       let fl = prot_to_ptflags prot; fl = (if prot_cow b \<and> \<not> own then fl AND NOT PT_W else fl) in
       run (if cur \<noteq> 0 then on_phys (run (vm_unmap root page) (\<lambda>_. ret ())) else ret ()) (\<lambda>_.
       run (on_phys (vm_map root page pa fl)) (\<lambda>r. ret (if r then Inr () else Inl STATUS_NO_MEMORY)))))"

text \<open>The page of a file-backed image: after the read, the descriptor is looked up again.\<close>

definition ldr_image_fault :: "'c vm_env \<Rightarrow> u64 \<Rightarrow> u64 \<Rightarrow> ('c, nt_err + unit) vmact" where
  "ldr_image_fault v img addr = look (\<lambda>p. let va = addr AND PAGE_MASK; root = pr_pml4 p in
     if pr_teardown p \<or> img = 0 then ret (Inl STATUS_ACCESS_VIOLATION)
     else chk (on_env (ev_image_page v img va)) (\<lambda>pa. look (\<lambda>p.
       let give_up = (\<lambda>r. run (on_phys (pmm_free pa)) (\<lambda>_. ret r)) in
       case (if pr_teardown p \<or> ev_image_retired v img (pr_ctx p) then None else vad_find (pr_vads p) va) of
         None \<Rightarrow> give_up (Inl STATUS_ACCESS_VIOLATION)
       | Some i \<Rightarrow> let w = pr_vads p ! i in
           if v_img w \<noteq> img \<or> v_state w \<noteq> VAD_COMMITTED then give_up (Inl STATUS_ACCESS_VIOLATION)
           else if fst (vm_lookup root va (pr_phys p)) \<noteq> 0 then give_up (Inr ())
           else run (on_phys (vm_map root va pa (prot_to_ptflags (v_prot w)))) (\<lambda>r. if r then ret (Inr ()) else give_up (Inl STATUS_NO_MEMORY)))))"

text \<open>A zeroed page for a committed address.\<close>

definition demand_zero :: "u64 \<Rightarrow> u64 \<Rightarrow> u64 \<Rightarrow> bool physact" where
  "demand_zero root page flags = run pmm_alloc (\<lambda>pa. if pa = 0 then ret False
     else run (vm_map root page pa flags) (\<lambda>r. if r then ret True else run (pmm_free pa) (\<lambda>_. ret False)))"

text \<open>A mapped page whose entry lacks what the descriptor grants is brought in line.\<close>

definition lacks :: "u64 \<Rightarrow> u64 \<Rightarrow> bool \<Rightarrow> bool \<Rightarrow> bool" where
  "lacks flags want write exec = (write \<and> flags AND PT_W = 0 \<and> want AND PT_W \<noteq> 0 \<or> exec \<and> flags AND PT_NX \<noteq> 0 \<and> want AND PT_NX = 0 \<or>
     flags AND PT_U = 0 \<and> want AND PT_U \<noteq> 0)"

definition user_fault_in :: "'c vm_env \<Rightarrow> u64 \<Rightarrow> bool \<Rightarrow> bool \<Rightarrow> ('c, nt_err + unit) vmact" where
  "user_fault_in v addr write exec = look (\<lambda>p. let page = addr AND PAGE_MASK; root = pr_pml4 p in
     if pr_teardown p then ret (Inl STATUS_ACCESS_VIOLATION)
     else if addr < USER_MIN \<or> USER_TOP \<le> addr then ret (Inl STATUS_ACCESS_VIOLATION)
     else case vad_find (pr_vads p) page of None \<Rightarrow> ret (Inl STATUS_ACCESS_VIOLATION)
     | Some i \<Rightarrow> let w = pr_vads p ! i; b = prot_base (v_prot w); want = prot_to_ptflags (v_prot w);
           (cur, flags) = vm_lookup root addr (pr_phys p) in
         if v_state w \<noteq> VAD_COMMITTED then ret (Inl STATUS_ACCESS_VIOLATION)
         else if v_kind w = VK_VIEW then view_fault v i addr write exec
         else if b = PAGE_NOACCESS then ret (Inl STATUS_ACCESS_VIOLATION)
         else if v_prot w AND 0x100 \<noteq> 0 then run (clear_guard i) (\<lambda>_. ret (Inl STATUS_GUARD_PAGE_VIOLATION))
         else if write \<and> \<not> (prot_writable b \<or> prot_cow b) then ret (Inl STATUS_ACCESS_VIOLATION)
         else if exec \<and> \<not> PAGE_EXECUTE \<le> b then ret (Inl STATUS_ACCESS_VIOLATION)
         else if cur \<noteq> 0 then
           run (if v_img w = 0 \<and> lacks flags want write exec then on_phys (run (vm_map root page (cur AND PAGE_MASK) want) (\<lambda>_. ret ()))
                else ret ()) (\<lambda>_. ret (Inr ()))
         else if v_img w \<noteq> 0 then ldr_image_fault v (v_img w) addr
         else run (on_phys (demand_zero root page want)) (\<lambda>r. ret (if r then Inr () else Inl STATUS_NO_MEMORY)))"

subsection \<open>Access to user memory\<close>

text \<open>The byte at a physical address, in the little-endian word that holds it.\<close>

definition phys_byte :: "(u64 \<Rightarrow> u64) \<Rightarrow> u64 \<Rightarrow> u8" where
  "phys_byte m a = ucast (drop_bit (8 * unat (a AND 7)) (m (a AND NOT 7)))"

definition put_byte :: "u64 \<Rightarrow> u8 \<Rightarrow> (u64 \<Rightarrow> u64) \<Rightarrow> u64 \<Rightarrow> u64" where
  "put_byte a b m = (let k = 8 * unat (a AND 7); w = a AND NOT 7 in m(w := (m w AND NOT (push_bit k 0xff)) OR push_bit k (ucast b)))"

definition load_bytes :: "u64 \<Rightarrow> nat \<Rightarrow> phys \<Rightarrow> bytes" where
  "load_bytes pa n h = map (\<lambda>k. phys_byte (ph_mem h) (pa + of_nat k)) [0..<n]"

definition save_bytes :: "u64 \<Rightarrow> bytes \<Rightarrow> unit physact" where
  "save_bytes pa bs = forA (enumerate 0 bs) (\<lambda>(k, b). upd (\<lambda>h. h\<lparr>ph_mem := put_byte (pa + of_nat k) b (ph_mem h)\<rparr>))"

text \<open>\<open>user_page\<close> gives the physical address (the kernel's address of it is fixed by the direct map).\<close>

definition page_usable :: "u64 \<times> u64 \<Rightarrow> bool \<Rightarrow> bool" where
  "page_usable pf write = (fst pf \<noteq> 0 \<and> snd pf AND PT_U \<noteq> 0 \<and> (write \<longrightarrow> snd pf AND PT_W \<noteq> 0))"

definition user_page :: "'c vm_env \<Rightarrow> u64 \<Rightarrow> bool \<Rightarrow> ('c, u64 option) vmact" where
  "user_page v uva write = look (\<lambda>p. if uva < USER_MIN \<or> USER_TOP \<le> uva \<or> pr_teardown p then ret None
     else let pf = vm_lookup (pr_pml4 p) uva (pr_phys p) in
       if page_usable pf write then ret (Some (fst pf))
       else run (user_fault_in v uva write False) (\<lambda>r. case r of Inl _ \<Rightarrow> ret None
         | Inr _ \<Rightarrow> look (\<lambda>p. let pf = vm_lookup (pr_pml4 p) uva (pr_phys p) in ret (if page_usable pf write then Some (fst pf) else None))))"

definition chunk_of :: "u64 \<Rightarrow> nat \<Rightarrow> nat" where
  "chunk_of va n = min (4096 - unat (va AND 0xfff)) n"

text \<open>The copy loops: a turn copies at least one byte, so \<open>n\<close> turns are enough.\<close>

primrec copy_from_loop :: "nat \<Rightarrow> 'c vm_env \<Rightarrow> u64 \<Rightarrow> nat \<Rightarrow> ('c, bytes option) vmact" where
  "copy_from_loop 0 v uva n = ret (if n = 0 then Some [] else None)"
| "copy_from_loop (Suc k) v uva n = (if n = 0 then ret (Some []) else let c = chunk_of uva n in
     run (user_page v uva False) (\<lambda>r. case r of None \<Rightarrow> ret None
       | Some pa \<Rightarrow> look (\<lambda>p. let bs = load_bytes pa c (pr_phys p) in
           run (copy_from_loop k v (uva + of_nat c) (n - c)) (\<lambda>r. ret (case r of None \<Rightarrow> None | Some rest \<Rightarrow> Some (bs @ rest))))))"

definition copy_from_user :: "'c vm_env \<Rightarrow> u64 \<Rightarrow> u64 \<Rightarrow> ('c, bytes option) vmact" where
  "copy_from_user v uva n = (if uva + n < uva then ret None else copy_from_loop (unat n) v uva (unat n))"

primrec copy_to_loop :: "nat \<Rightarrow> 'c vm_env \<Rightarrow> u64 \<Rightarrow> bytes \<Rightarrow> ('c, bool) vmact" where
  "copy_to_loop 0 v uva bs = ret (bs = [])"
| "copy_to_loop (Suc k) v uva bs = (if bs = [] then ret True else let c = chunk_of uva (length bs) in
     run (user_page v uva True) (\<lambda>r. case r of None \<Rightarrow> ret False
       | Some pa \<Rightarrow> run (on_phys (save_bytes pa (take c bs))) (\<lambda>_. copy_to_loop k v (uva + of_nat c) (drop c bs))))"

definition copy_to_user :: "'c vm_env \<Rightarrow> u64 \<Rightarrow> bytes \<Rightarrow> ('c, bool) vmact" where
  "copy_to_user v uva bs = (if uva + of_nat (length bs) < uva then ret False else copy_to_loop (length bs) v uva bs)"

primrec string_len_loop :: "nat \<Rightarrow> 'c vm_env \<Rightarrow> u64 \<Rightarrow> nat \<Rightarrow> ('c, nat option) vmact" where
  "string_len_loop 0 v uva n = ret None"
| "string_len_loop (Suc k) v uva n = run (user_page v (uva + of_nat n) False) (\<lambda>r. case r of None \<Rightarrow> ret None
     | Some pa \<Rightarrow> look (\<lambda>p. if phys_byte (ph_mem (pr_phys p)) pa = 0 then ret (Some n) else string_len_loop k v uva (n + 1)))"

definition user_string_len :: "'c vm_env \<Rightarrow> u64 \<Rightarrow> u64 \<Rightarrow> ('c, nat option) vmact" where
  "user_string_len v uva most = string_len_loop (unat most) v uva 0"

text \<open>The loader's access: the page is produced, and used whatever its protection.\<close>

definition image_kpage :: "'c vm_env \<Rightarrow> u64 \<Rightarrow> ('c, u64 option) vmact" where
  "image_kpage v va = look (\<lambda>p. let page = va AND PAGE_MASK; root = pr_pml4 p;
       found = look (\<lambda>p. let pa = fst (vm_lookup (pr_pml4 p) page (pr_phys p)) in ret (if pa = 0 then None else Some (pa AND PAGE_MASK))) in
     if va < USER_MIN \<or> USER_TOP \<le> va then ret None
     else if fst (vm_lookup root page (pr_phys p)) \<noteq> 0 then found
     else case vad_find (pr_vads p) page of None \<Rightarrow> ret None
     | Some i \<Rightarrow> let w = pr_vads p ! i in
         if v_state w \<noteq> VAD_COMMITTED then ret None
         else if v_img w \<noteq> 0 then run (ldr_image_fault v (v_img w) page) (\<lambda>r. case r of Inl _ \<Rightarrow> ret None | Inr _ \<Rightarrow> found)
         else run (on_phys (demand_zero root page (if prot_base (v_prot w) = PAGE_NOACCESS then 0 else prot_to_ptflags (v_prot w)))) (\<lambda>r.
              if r then found else ret None))"

primrec image_poke_loop :: "nat \<Rightarrow> 'c vm_env \<Rightarrow> u64 \<Rightarrow> bytes \<Rightarrow> ('c, bool) vmact" where
  "image_poke_loop 0 v va bs = ret (bs = [])"
| "image_poke_loop (Suc k) v va bs = (if bs = [] then ret True else let c = chunk_of va (length bs) in
     run (image_kpage v va) (\<lambda>r. case r of None \<Rightarrow> ret False
       | Some pa \<Rightarrow> run (on_phys (save_bytes (pa + (va AND 0xfff)) (take c bs))) (\<lambda>_. image_poke_loop k v (va + of_nat c) (drop c bs))))"

definition image_poke :: "'c vm_env \<Rightarrow> u64 \<Rightarrow> bytes \<Rightarrow> ('c, bool) vmact" where
  "image_poke v va bs = (if va + of_nat (length bs) < va then ret False else image_poke_loop (length bs) v va bs)"

primrec image_peek_loop :: "nat \<Rightarrow> 'c vm_env \<Rightarrow> u64 \<Rightarrow> nat \<Rightarrow> ('c, bytes option) vmact" where
  "image_peek_loop 0 v va n = ret (if n = 0 then Some [] else None)"
| "image_peek_loop (Suc k) v va n = (if n = 0 then ret (Some []) else let c = chunk_of va n in
     run (image_kpage v va) (\<lambda>r. case r of None \<Rightarrow> ret None
       | Some pa \<Rightarrow> look (\<lambda>p. let bs = load_bytes (pa + (va AND 0xfff)) c (pr_phys p) in
           run (image_peek_loop k v (va + of_nat c) (n - c)) (\<lambda>r. ret (case r of None \<Rightarrow> None | Some rest \<Rightarrow> Some (bs @ rest))))))"

definition image_peek :: "'c vm_env \<Rightarrow> u64 \<Rightarrow> u64 \<Rightarrow> ('c, bytes option) vmact" where
  "image_peek v va n = (if va + n < va then ret None else image_peek_loop (unat n) v va (unat n))"

end
