(* ===== verification/Vm_Space.thy ===== *)
theory Vm_Space
  imports Vm_Fault
begin

unbundle bit_operations_syntax

section \<open>The descriptors implement a map of addresses\<close>

text \<open>
  The well-formed arrays of descriptors, and what an array means: the attributes of every address.
\<close>

subsection \<open>Well-formed arrays\<close>

definition aligned :: "u64 \<Rightarrow> bool" where "aligned a = (a AND 0xfff = 0)"

definition vad_ok :: "vad \<Rightarrow> bool" where
  "vad_ok w = (USER_MIN \<le> v_start w \<and> v_start w < v_end w \<and> v_end w \<le> USER_TOP \<and> aligned (v_start w) \<and> aligned (v_end w))"

definition vads_wf :: "vad list \<Rightarrow> bool" where
  "vads_wf vs = (sorted_wrt (\<lambda>a b. v_end a \<le> v_start b) vs \<and> list_all vad_ok vs)"

type_synonym attr = "vad_state \<times> u32 \<times> vad_kind \<times> u32 \<times> u64 \<times> u64"

definition attr_of :: "vad \<Rightarrow> attr" where
  "attr_of w = (v_state w, v_prot w, v_kind w, v_alloc_prot w, v_alloc_base w, v_img w)"

definition holds :: "vad \<Rightarrow> u64 \<Rightarrow> bool" where
  "holds w x = (v_start w \<le> x \<and> x < v_end w)"

definition space :: "vad list \<Rightarrow> u64 \<Rightarrow> attr option" where
  "space vs x = map_option attr_of (List.find (\<lambda>w. holds w x) vs)"

lemma wf_nth: "vads_wf vs \<Longrightarrow> i < length vs \<Longrightarrow> vad_ok (vs ! i)"
  by (simp add: vads_wf_def list_all_length)

lemma wf_order: "vads_wf vs \<Longrightarrow> i < j \<Longrightarrow> j < length vs \<Longrightarrow> v_end (vs ! i) \<le> v_start (vs ! j)"
  by (simp add: vads_wf_def sorted_wrt_iff_nth_less)

lemma ok_less: "vad_ok w \<Longrightarrow> v_start w < v_end w"
  by (simp add: vad_ok_def)

lemma wf_ends: "vads_wf vs \<Longrightarrow> i \<le> j \<Longrightarrow> j < length vs \<Longrightarrow> v_end (vs ! i) \<le> v_end (vs ! j)"
  using wf_order[of vs i j] ok_less[OF wf_nth, of vs j] by (cases "i = j") force+

lemma holds_unique:
  assumes "vads_wf vs" "i < length vs" "j < length vs" "holds (vs ! i) x" "holds (vs ! j) x"
  shows "i = j"
  using assms wf_order[of vs i j] wf_order[of vs j i] by (cases i j rule: linorder_cases) (auto simp: holds_def)

subsection \<open>Binary search\<close>

lemma lower_loop:
  assumes "vads_wf vs" "lo \<le> hi" "hi \<le> length vs" "\<And>i. i < lo \<Longrightarrow> v_end (vs ! i) \<le> a" "\<And>i. hi \<le> i \<Longrightarrow> i < length vs \<Longrightarrow> a < v_end (vs ! i)"
  shows "vad_lower_loop vs a lo hi \<le> length vs \<and> (\<forall>i < length vs. v_end (vs ! i) \<le> a \<longleftrightarrow> i < vad_lower_loop vs a lo hi)"
  using assms
proof (induction vs a lo hi rule: vad_lower_loop.induct)
  case (1 vs a lo hi)
  show ?case
  proof (cases "lo < hi")
    case False
    hence "vad_lower_loop vs a lo hi = lo" by (simp add: vad_lower_loop.simps[of vs a lo hi])
    with False 1(4-7) show ?thesis
      by (auto simp: not_less[symmetric])
  next
    case True
    define mid where "mid = (lo + hi) div 2"
    have mid: "lo \<le> mid" "mid < hi" "mid < length vs" using True 1(5) by (auto simp: mid_def)
    show ?thesis
    proof (cases "v_end (vs ! mid) \<le> a")
      case low: True
      have "v_end (vs ! i) \<le> a" if "i < mid + 1" for i
        using wf_ends[OF 1(3), of i mid] that mid(3) low by simp
      with 1(1)[OF True mid_def low 1(3)] mid 1(5,7) show ?thesis
        by (simp add: vad_lower_loop.simps[of vs a lo hi] True low mid_def[symmetric] Let_def)
    next
      case high: False
      have "a < v_end (vs ! i)" if "mid \<le> i" "i < length vs" for i
        using wf_ends[OF 1(3), of mid i] that high by simp
      with 1(2)[OF True mid_def high 1(3)] mid 1(6) show ?thesis
        by (simp add: vad_lower_loop.simps[of vs a lo hi] True high mid_def[symmetric] Let_def)
    qed
  qed
qed

lemma lower_le: "vads_wf vs \<Longrightarrow> vad_lower vs a \<le> length vs"
  and lower_iff: "vads_wf vs \<Longrightarrow> i < length vs \<Longrightarrow> i < vad_lower vs a \<longleftrightarrow> v_end (vs ! i) \<le> a"
  using lower_loop[of vs 0 "length vs" a] by (auto simp: vad_lower_def not_le)

lemma lower_eqI:
  assumes wf: "vads_wf vs" and "i \<le> length vs" "\<And>j. j < i \<Longrightarrow> v_end (vs ! j) \<le> a" "i < length vs \<Longrightarrow> a < v_end (vs ! i)"
  shows "vad_lower vs a = i"
proof (rule antisym)
  show "vad_lower vs a \<le> i"
  proof (rule ccontr)
    assume "\<not> vad_lower vs a \<le> i"
    hence "i < vad_lower vs a" "i < length vs" using lower_le[OF wf, of a] by simp_all
    with lower_iff[OF wf, of i a] assms(4) show False by simp
  qed
  show "i \<le> vad_lower vs a"
  proof (rule ccontr)
    assume "\<not> i \<le> vad_lower vs a"
    hence "vad_lower vs a < i" "vad_lower vs a < length vs" using assms(2) by simp_all
    with lower_iff[OF wf, of "vad_lower vs a" a] assms(3) show False by simp
  qed
qed

lemma lower_holds: "vads_wf vs \<Longrightarrow> i < length vs \<Longrightarrow> holds (vs ! i) a \<Longrightarrow> vad_lower vs a = i"
  using wf_order[of vs _ i] by (intro lower_eqI) (auto simp: holds_def intro: order_trans)

lemma vad_find_Some: "vads_wf vs \<Longrightarrow> vad_find vs a = Some i \<longleftrightarrow> i < length vs \<and> holds (vs ! i) a"
  using lower_holds[of vs i a] lower_iff[of vs i a] by (auto simp: vad_find_def Let_def holds_def not_le)

lemma vad_find_None:
  assumes "vads_wf vs"
  shows "vad_find vs a = None \<longleftrightarrow> (\<forall>w \<in> set vs. \<not> holds w a)"
proof (cases "vad_find vs a")
  case None
  with vad_find_Some[OF assms, of a] show ?thesis by (simp add: all_set_conv_all_nth)
next
  case (Some i)
  with vad_find_Some[OF assms, of a i] show ?thesis by (auto intro: nth_mem)
qed

lemma space_nth:
  assumes "vads_wf vs" "i < length vs" "holds (vs ! i) x"
  shows "space vs x = Some (attr_of (vs ! i))"
proof -
  have "List.find (\<lambda>w. holds w x) vs = Some (vs ! i)"
  proof (unfold find_Some_iff, intro exI[of _ i] conjI allI impI)
    fix j assume "j < i"
    with holds_unique[OF assms(1) _ assms(2) _ assms(3), of j] assms(2) show "\<not> holds (vs ! j) x" by auto
  qed (use assms in simp_all)
  thus ?thesis by (simp add: space_def)
qed

lemma space_None: "space vs x = None \<longleftrightarrow> (\<forall>w \<in> set vs. \<not> holds w x)"
  by (auto simp: space_def find_None_iff)

lemma space_all: "space vs x = None \<longleftrightarrow> list_all (\<lambda>w. \<not> holds w x) vs"
  by (simp add: space_None list_all_iff)

lemma space_Some:
  assumes "vads_wf vs"
  shows "space vs x = Some a \<longleftrightarrow> (\<exists>w \<in> set vs. holds w x \<and> attr_of w = a)"
proof
  assume "space vs x = Some a"
  then obtain w where "w \<in> set vs" "holds w x" using space_None[of vs x] by auto
  with space_nth[OF assms, of _ x] \<open>space vs x = Some a\<close> show "\<exists>w \<in> set vs. holds w x \<and> attr_of w = a"
    by (metis in_set_conv_nth option.sel)
next
  assume "\<exists>w \<in> set vs. holds w x \<and> attr_of w = a"
  with space_nth[OF assms] show "space vs x = Some a" by (auto simp: in_set_conv_nth)
qed

lemma space_find:
  assumes "vads_wf vs"
  shows "space vs x = map_option (\<lambda>i. attr_of (vs ! i)) (vad_find vs x)"
proof (cases "vad_find vs x")
  case None
  with vad_find_None[OF assms, of x] space_None[of vs x] show ?thesis by simp
next
  case (Some i)
  with vad_find_Some[OF assms, of x i] space_nth[OF assms, of i x] show ?thesis by simp
qed

subsection \<open>Changes of the array\<close>

text \<open>A lookup depends on the descriptors as a set.\<close>

lemma space_eqI:
  assumes "vads_wf vs" "vads_wf vs'" "\<And>a. (\<exists>w \<in> set vs. holds w x \<and> attr_of w = a) \<longleftrightarrow> (\<exists>w \<in> set vs'. holds w y \<and> attr_of w = a)"
  shows "space vs x = space vs' y"
proof -
  have same: "space vs x = Some a \<longleftrightarrow> space vs' y = Some a" for a
    using assms by (simp add: space_Some)
  show ?thesis using same[of "the (space vs x)"] same[of "the (space vs' y)"] by (cases "space vs x"; cases "space vs' y") simp_all
qed

text \<open>Insertion at the place of the search, when nothing is there.\<close>

definition apart :: "u64 \<Rightarrow> u64 \<Rightarrow> vad \<Rightarrow> bool" where
  "apart start stop w = (v_end w \<le> start \<or> stop \<le> v_start w)"

lemma range_free_apart: "vads_wf vs \<Longrightarrow> range_free vs start stop \<Longrightarrow> w \<in> set vs \<Longrightarrow> apart start stop w"
proof -
  assume wf: "vads_wf vs" and free: "range_free vs start stop" and "w \<in> set vs"
  then obtain i where i: "i < length vs" "w = vs ! i" by (auto simp: in_set_conv_nth)
  define l where "l = vad_lower vs start"
  show "apart start stop w"
  proof (cases "i < l")
    case True
    with lower_iff[OF wf i(1), of start] i show ?thesis by (simp add: apart_def l_def)
  next
    case False
    with free i have "stop \<le> v_start (vs ! l)" by (auto simp: range_free_def l_def[symmetric] Let_def)
    moreover have "v_start (vs ! l) \<le> v_start (vs ! i)"
      using False wf_order[OF wf, of l i] ok_less[OF wf_nth[OF wf], of l] i(1) by (cases "l = i") force+
    ultimately have "stop \<le> v_start (vs ! i)" by (rule order_trans)
    thus ?thesis using i by (simp add: apart_def)
  qed
qed

definition insert_in :: "vad \<Rightarrow> vad list \<Rightarrow> vad list" where
  "insert_in n vs = (let i = vad_lower vs (v_start n) in take i vs @ n # drop i vs)"

lemma set_insert_in: "set (insert_in n vs) = insert n (set vs)"
proof -
  have "set vs = set (take i vs) \<union> set (drop i vs)" for i by (metis append_take_drop_id set_append)
  thus ?thesis by (auto simp: insert_in_def Let_def)
qed

lemma insert_in_wf:
  assumes wf: "vads_wf vs" and n: "vad_ok n" and free: "\<And>w. w \<in> set vs \<Longrightarrow> apart (v_start n) (v_end n) w"
  shows "vads_wf (insert_in n vs)"
proof -
  define i where "i = vad_lower vs (v_start n)"
  have before: "v_end w \<le> v_start n" if "w \<in> set (take i vs)" for w
    using that lower_iff[OF wf, of _ "v_start n"] by (auto simp: in_set_conv_nth i_def)
  have after: "v_end n \<le> v_start w" if w: "w \<in> set (drop i vs)" for w
  proof -
    from w obtain k where "k < length vs - i" "w = vs ! (i + k)" by (auto simp: in_set_conv_nth)
    then obtain j where j: "j < length vs" "i \<le> j" "w = vs ! j" by (intro that[of "i + k"]) simp_all
    with lower_iff[OF wf j(1), of "v_start n"] have "\<not> v_end w \<le> v_start n" by (simp add: i_def)
    with free[of w] j show ?thesis by (simp add: apart_def)
  qed
  have "v_end w \<le> v_start w'" if "w \<in> set (take i vs)" "w' \<in> set (drop i vs)" for w w'
    using before[OF that(1)] ok_less[OF n] after[OF that(2)] by force
  with wf n before after show ?thesis
    by (auto simp: insert_in_def i_def[symmetric] Let_def vads_wf_def sorted_wrt_append sorted_wrt_take sorted_wrt_drop list_all_iff
        dest: in_set_takeD in_set_dropD)
qed

lemma insert_in_space:
  assumes wf: "vads_wf vs" and n: "vad_ok n" and free: "\<And>w. w \<in> set vs \<Longrightarrow> apart (v_start n) (v_end n) w"
  shows "space (insert_in n vs) x = (if holds n x then Some (attr_of n) else space vs x)"
proof (cases "holds n x")
  case True
  thus ?thesis using insert_in_wf[OF assms] by (simp add: space_Some set_insert_in)
next
  case False
  thus ?thesis by (auto intro!: space_eqI insert_in_wf assms simp: set_insert_in)
qed


text \<open>One descriptor replaced by others within it.\<close>

lemma wf_around:
  assumes "vads_wf vs" "i < length vs"
  shows "vads_wf (take i vs)" "vads_wf (drop (Suc i) vs)"
    and "\<And>w. w \<in> set (take i vs) \<Longrightarrow> v_end w \<le> v_start (vs ! i)" "\<And>w. w \<in> set (drop (Suc i) vs) \<Longrightarrow> v_end (vs ! i) \<le> v_start w"
proof -
  have vs: "vs = take i vs @ vs ! i # drop (Suc i) vs" by (rule id_take_nth_drop[OF assms(2)])
  from assms(1) have wf: "vads_wf (take i vs @ vs ! i # drop (Suc i) vs)" by (subst (asm) vs)
  thus "vads_wf (take i vs)" "vads_wf (drop (Suc i) vs)"
    and "\<And>w. w \<in> set (take i vs) \<Longrightarrow> v_end w \<le> v_start (vs ! i)" "\<And>w. w \<in> set (drop (Suc i) vs) \<Longrightarrow> v_end (vs ! i) \<le> v_start w"
    by (auto simp: vads_wf_def sorted_wrt_append list_all_iff)
qed

lemma set_around: "i < length vs \<Longrightarrow> set vs = insert (vs ! i) (set (take i vs) \<union> set (drop (Suc i) vs))"
  by (subst id_take_nth_drop, assumption) auto

lemma replace_wf:
  assumes "vads_wf vs" "i < length vs" "vads_wf ws" "\<And>w. w \<in> set ws \<Longrightarrow> v_start (vs ! i) \<le> v_start w \<and> v_end w \<le> v_end (vs ! i)"
  shows "vads_wf (take i vs @ ws @ drop (Suc i) vs)"
proof -
  note around = wf_around[OF assms(1,2)]
  have "v_end u \<le> v_start w" if "u \<in> set (take i vs)" "w \<in> set ws" for u w
    using order_trans[OF around(3)[OF that(1)] conjunct1[OF assms(4)[OF that(2)]]] .
  moreover have "v_end w \<le> v_start u" if "u \<in> set (drop (Suc i) vs)" "w \<in> set ws" for u w
    using order_trans[OF conjunct2[OF assms(4)[OF that(2)]] around(4)[OF that(1)]] .
  moreover have "v_end u \<le> v_start u'" if "u \<in> set (take i vs)" "u' \<in> set (drop (Suc i) vs)" for u u'
    using around(3)[OF that(1)] ok_less[OF wf_nth[OF assms(1,2)]] around(4)[OF that(2)] by force
  ultimately show ?thesis
    using around(1,2) assms(3) by (auto simp: vads_wf_def sorted_wrt_append)
qed

lemma replace_space:
  assumes "vads_wf vs" "i < length vs" "vads_wf ws" "\<And>w. w \<in> set ws \<Longrightarrow> v_start (vs ! i) \<le> v_start w \<and> v_end w \<le> v_end (vs ! i)"
    and "\<And>a. (\<exists>w \<in> set ws. holds w x \<and> attr_of w = a) \<longleftrightarrow> holds (vs ! i) x \<and> attr_of (vs ! i) = a"
  shows "space (take i vs @ ws @ drop (Suc i) vs) x = space vs x"
proof (rule space_eqI[OF replace_wf[OF assms(1-4)] assms(1)])
  fix a
  show "(\<exists>w \<in> set (take i vs @ ws @ drop (Suc i) vs). holds w x \<and> attr_of w = a) \<longleftrightarrow> (\<exists>w \<in> set vs. holds w x \<and> attr_of w = a)"
    unfolding set_around[OF assms(2)] using assms(5)[of a] by (simp add: bex_Un) blast
qed

definition split_in :: "u64 \<Rightarrow> vad list \<Rightarrow> vad list" where
  "split_in at vs = (let i = vad_lower vs at in if length vs \<le> i \<or> at \<le> v_start (vs ! i) \<or> v_end (vs ! i) \<le> at then vs
     else take i vs @ [(vs ! i)\<lparr>v_end := at\<rparr>, (vs ! i)\<lparr>v_start := at\<rparr>] @ drop (Suc i) vs)"

definition boundary :: "u64 \<Rightarrow> vad list \<Rightarrow> bool" where
  "boundary at vs = list_all (\<lambda>w. v_end w \<le> at \<or> at \<le> v_start w) vs"

lemma split_in:
  assumes wf: "vads_wf vs" and at: "aligned at"
  shows "vads_wf (split_in at vs) \<and> space (split_in at vs) = space vs \<and> boundary at (split_in at vs) \<and> (boundary b vs \<longrightarrow> boundary b (split_in at vs))"
proof -
  define i where "i = vad_lower vs at"
  show ?thesis
  proof (cases "i < length vs \<and> v_start (vs ! i) < at \<and> at < v_end (vs ! i)")
    case True
    define ws where "ws = [(vs ! i)\<lparr>v_end := at\<rparr>, (vs ! i)\<lparr>v_start := at\<rparr>]"
    have ws: "vads_wf ws"
      using True wf_nth[OF wf, of i] at by (auto simp: vads_wf_def ws_def vad_ok_def)
    have inside: "v_start (vs ! i) \<le> v_start w \<and> v_end w \<le> v_end (vs ! i)" if "w \<in> set ws" for w
      using that True by (auto simp: ws_def)
    have eq: "split_in at vs = take i vs @ ws @ drop (Suc i) vs"
      using True by (simp add: split_in_def i_def[symmetric] Let_def ws_def not_le[symmetric])
    have "space (split_in at vs) = space vs"
      unfolding eq using True wf ws inside
      by (intro ext replace_space) (auto simp: ws_def holds_def attr_of_def not_le)
    moreover have "boundary at (split_in at vs)"
      using wf_around(3,4)[OF wf, of i] True by (fastforce simp: eq boundary_def ws_def list_all_iff)
    moreover have "boundary b (split_in at vs)" if "boundary b vs"
    proof -
      have "v_end w \<le> b \<or> b \<le> v_start w" if "w = vs ! i \<or> w \<in> set (take i vs) \<or> w \<in> set (drop (Suc i) vs)" for w
        using \<open>boundary b vs\<close> that set_around[of i vs] True by (auto simp: boundary_def list_all_iff)
      with True show ?thesis by (fastforce simp: eq boundary_def ws_def list_all_iff)
    qed
    ultimately show ?thesis
      using replace_wf[OF wf _ ws inside] True eq by simp
  next
    case False
    have "v_end (vs ! j) \<le> at \<or> at \<le> v_start (vs ! j)" if j: "j < length vs" for j
    proof (rule ccontr)
      assume "\<not> ?thesis"
      hence less: "v_start (vs ! j) < at" "at < v_end (vs ! j)" by (simp_all add: not_le)
      hence "i = j" using lower_holds[OF wf j, of at] by (simp add: holds_def i_def)
      with False less j show False by simp
    qed
    with False wf show ?thesis
      by (auto simp: split_in_def i_def[symmetric] Let_def boundary_def list_all_length not_less)
  qed
qed

lemma coalesce_start: "coalesce (a # vs) \<noteq> [] \<and> v_start (hd (coalesce (a # vs))) = v_start a"
  by (induction "a # vs" arbitrary: a vs rule: coalesce.induct) auto

lemma merge_wf:
  assumes "vads_wf (a # b # vs)" "same_run a b"
  shows "vads_wf (a\<lparr>v_end := v_end b\<rparr> # vs)"
  using assms by (auto simp: vads_wf_def vad_ok_def same_run_def)

lemma merge_space:
  assumes "vads_wf (a # b # vs)" "same_run a b"
  shows "space (a\<lparr>v_end := v_end b\<rparr> # vs) = space (a # b # vs)"
proof (rule ext, rule space_eqI[OF merge_wf[OF assms] assms(1)])
  fix x c
  have "holds (a\<lparr>v_end := v_end b\<rparr>) x \<longleftrightarrow> holds a x \<or> holds b x" "attr_of (a\<lparr>v_end := v_end b\<rparr>) = attr_of a" "attr_of b = attr_of a"
    using assms by (auto simp: holds_def same_run_def vads_wf_def vad_ok_def attr_of_def)
  thus "(\<exists>w \<in> set (a\<lparr>v_end := v_end b\<rparr> # vs). holds w x \<and> attr_of w = c) \<longleftrightarrow> (\<exists>w \<in> set (a # b # vs). holds w x \<and> attr_of w = c)"
    by auto
qed

lemma wf_Cons: "vads_wf (a # vs) \<longleftrightarrow> vad_ok a \<and> (\<forall>w \<in> set vs. v_end a \<le> v_start w) \<and> vads_wf vs"
  by (auto simp: vads_wf_def)

lemma space_Cons: "space (a # vs) x = (if holds a x then Some (attr_of a) else space vs x)"
  by (simp add: space_def)

lemma coalesce_sound: "vads_wf vs \<Longrightarrow> vads_wf (coalesce vs) \<and> space (coalesce vs) = space vs \<and> (\<forall>w \<in> set (coalesce vs). \<exists>u \<in> set vs. v_start u = v_start w)"
proof (induction vs rule: coalesce.induct)
  case (1 a b vs)
  show ?case
  proof (cases "same_run a b")
    case True
    with 1(1)[OF True merge_wf[OF 1(3) True]] merge_space[OF 1(3) True] show ?thesis by fastforce
  next
    case False
    from 1(3) have wf: "vads_wf (b # vs)" by (simp add: wf_Cons)
    note IH = 1(2)[OF False wf]
    have "v_end a \<le> v_start w" if "w \<in> set (coalesce (b # vs))" for w
      using IH that 1(3) by (metis wf_Cons)
    with IH 1(3) False show ?thesis by (auto simp: wf_Cons space_Cons fun_eq_iff)
  qed
qed (simp_all add: vads_wf_def)


text \<open>A change of the attributes of all descriptors in a range that starts and ends at boundaries.\<close>

definition keeps_place :: "(vad \<Rightarrow> vad) \<Rightarrow> bool" where
  "keeps_place g = (\<forall>w. v_start (g w) = v_start w \<and> v_end (g w) = v_end w)"

definition upd_range :: "(vad \<Rightarrow> vad) \<Rightarrow> u64 \<Rightarrow> u64 \<Rightarrow> vad list \<Rightarrow> vad list" where
  "upd_range g start stop vs = map (\<lambda>w. if start \<le> v_start w \<and> v_start w < stop then g w else w) vs"

lemma place_if:
  "keeps_place g \<Longrightarrow> v_start (if b then g w else w) = v_start w" "keeps_place g \<Longrightarrow> v_end (if b then g w else w) = v_end w"
  by (simp_all add: keeps_place_def)

lemma ok_if: "keeps_place g \<Longrightarrow> vad_ok (if b then g w else w) = vad_ok w"
  by (simp add: vad_ok_def place_if del: if_split)

lemma map_wf: "keeps_place g \<Longrightarrow> vads_wf (map (\<lambda>w. if P w then g w else w) vs) = vads_wf vs"
  by (simp add: vads_wf_def sorted_wrt_map list.pred_map o_def ok_if place_if del: if_split)

lemma upd_range_wf: "keeps_place g \<Longrightarrow> vads_wf (upd_range g start stop vs) = vads_wf vs"
  by (simp add: upd_range_def map_wf)

lemma holds_place: "keeps_place g \<Longrightarrow> holds (if P then g w else w) x = holds w x"
  by (simp add: holds_def place_if del: if_split)

lemma boundary_side:
  assumes "boundary start vs" "boundary stop vs" "w \<in> set vs" "holds w x" "start \<le> stop"
  shows "start \<le> v_start w \<and> v_start w < stop \<longleftrightarrow> start \<le> x \<and> x < stop"
  using assms by (fastforce simp: boundary_def list_all_iff holds_def)

lemma upd_range_space:
  assumes wf: "vads_wf vs" and g: "keeps_place g" "\<And>w. attr_of (g w) = G (attr_of w)" and b: "boundary start vs" "boundary stop vs" and "start \<le> stop"
  shows "space (upd_range g start stop vs) x = (if start \<le> x \<and> x < stop then map_option G (space vs x) else space vs x)"
proof (cases "vad_find vs x")
  case None
  hence "\<forall>w \<in> set vs. \<not> holds w x" using vad_find_None[OF wf, of x] by simp
  hence "space (upd_range g start stop vs) x = None" "space vs x = None"
    by (simp_all add: space_all list_all_iff[symmetric, of vs] upd_range_def list.pred_map o_def holds_place[OF g(1)] del: if_split)
  thus ?thesis by simp
next
  case (Some i)
  hence i: "i < length vs" "holds (vs ! i) x" using vad_find_Some[OF wf, of x i] by simp_all
  have "space (upd_range g start stop vs) x = Some (attr_of (upd_range g start stop vs ! i))"
    using i by (intro space_nth) (simp_all add: upd_range_wf[OF g(1)] wf, simp_all add: upd_range_def holds_place[OF g(1)] del: if_split)
  moreover have "start \<le> v_start (vs ! i) \<and> v_start (vs ! i) < stop \<longleftrightarrow> start \<le> x \<and> x < stop"
    using boundary_side[OF b nth_mem[OF i(1)] i(2) \<open>start \<le> stop\<close>] .
  ultimately show ?thesis
    using i space_nth[OF wf i] g(2) by (simp add: upd_range_def)
qed

lemma upd_range_empty: "stop \<le> start \<Longrightarrow> upd_range g start stop vs = vs"
  by (auto simp: upd_range_def intro!: map_idI)

lemma update_nth: "(vs[i := g (vs ! i)]) = map (\<lambda>j. if j = i then g (vs ! j) else vs ! j) [0..<length vs]"
  by (rule nth_equalityI) (auto simp: nth_list_update)

lemma update_wf: "keeps_place g \<Longrightarrow> vads_wf (vs[i := g (vs ! i)]) = vads_wf vs"
  unfolding vads_wf_def sorted_wrt_iff_nth_less list_all_length update_nth
  by (simp add: vad_ok_def place_if del: if_split)

lemma update_boundary: "keeps_place g \<Longrightarrow> boundary b (vs[i := g (vs ! i)]) = boundary b vs"
  unfolding boundary_def list_all_length update_nth by (simp add: place_if del: if_split)

subsection \<open>The loops over a range\<close>

lemma no_holds: "vads_wf vs \<Longrightarrow> length vs \<le> vad_lower vs a \<Longrightarrow> w \<in> set vs \<Longrightarrow> \<not> holds w a"
  using lower_holds[of vs _ a] by (metis in_set_conv_nth not_le)

lemma holds_here: "vads_wf vs \<Longrightarrow> i < length vs \<Longrightarrow> holds (vs ! i) x \<Longrightarrow> (\<exists>w \<in> set vs. holds w x \<and> P w) \<longleftrightarrow> P (vs ! i)"
  by (metis holds_unique in_set_conv_nth nth_mem)

text \<open>Every address of a range lies in a descriptor with \<open>P\<close>.\<close>

definition all_in :: "vad list \<Rightarrow> (vad \<Rightarrow> bool) \<Rightarrow> u64 \<Rightarrow> u64 \<Rightarrow> bool" where
  "all_in vs P a stop = (\<forall>x. a \<le> x \<longrightarrow> x < stop \<longrightarrow> (\<exists>w \<in> set vs. holds w x \<and> P w))"

lemma all_in_empty: "stop \<le> a \<Longrightarrow> all_in vs P a stop"
  by (auto simp: all_in_def)

lemma all_in_first: "all_in vs P a stop \<Longrightarrow> a < stop \<Longrightarrow> \<exists>w \<in> set vs. holds w a \<and> P w"
  by (simp add: all_in_def)

lemma all_in_step:
  assumes wf: "vads_wf vs" and i: "i < length vs" "holds (vs ! i) a" and "a < stop"
  shows "all_in vs P a stop \<longleftrightarrow> P (vs ! i) \<and> all_in vs P (v_end (vs ! i)) stop" (is "?L \<longleftrightarrow> ?R")
proof
  have e: "a < v_end (vs ! i)" using i by (simp add: holds_def)
  assume L: ?L
  have "P (vs ! i)" using all_in_first[OF L \<open>a < stop\<close>] holds_here[OF wf i] by simp
  moreover have "all_in vs P (v_end (vs ! i)) stop"
    using L order_trans[OF less_imp_le[OF e]] by (simp add: all_in_def)
  ultimately show ?R ..
next
  assume R: ?R
  show ?L
    unfolding all_in_def
  proof (intro allI impI)
    fix x assume x: "a \<le> x" "x < stop"
    show "\<exists>w \<in> set vs. holds w x \<and> P w"
    proof (cases "x < v_end (vs ! i)")
      case True
      with i x have "holds (vs ! i) x" by (auto simp: holds_def)
      with R holds_here[OF wf i(1)] show ?thesis by simp
    next
      case False
      with R x show ?thesis by (simp add: all_in_def not_less)
    qed
  qed
qed

lemma covered_loop_iff:
  assumes wf: "vads_wf vs"
  shows "length vs \<le> k + vad_lower vs a \<Longrightarrow> covered_loop k vs P a stop \<longleftrightarrow> all_in vs P a stop"
proof (induction k arbitrary: a)
  case 0
  with no_holds[OF wf] all_in_first[of vs P a stop] show ?case
    by (cases "stop \<le> a") (auto simp: all_in_empty not_le)
next
  case (Suc k)
  show ?case
  proof (cases "stop \<le> a")
    case False
    show ?thesis
    proof (cases "vad_find vs a")
      case None
      with False all_in_first[of vs P a stop] vad_find_None[OF wf, of a] show ?thesis by (auto simp: not_le)
    next
      case (Some i)
      hence i: "i < length vs" "holds (vs ! i) a" using vad_find_Some[OF wf] by simp_all
      have "i < vad_lower vs (v_end (vs ! i))" using lower_iff[OF wf i(1)] by simp
      with Suc(2) lower_holds[OF wf i] have "length vs \<le> k + vad_lower vs (v_end (vs ! i))" by simp
      with Some False Suc(1) all_in_step[OF wf i, of stop P] show ?thesis by (auto dest: leD)
    qed
  qed (simp add: all_in_empty)
qed

lemma covered_iff: "vads_wf vs \<Longrightarrow> covered vs P start stop \<longleftrightarrow> all_in vs P start stop"
  unfolding covered_def by (rule covered_loop_iff) simp_all


text \<open>The loops that change descriptors: their bodies act on the array as a function on one descriptor.\<close>

definition acts :: "(nat \<Rightarrow> ('c, unit) vmact) \<Rightarrow> (vad \<Rightarrow> vad) \<Rightarrow> bool" where
  "acts f g = (\<forall>i p. pr_vads (snd (f i p)) = (pr_vads p)[i := g (pr_vads p ! i)] \<and> pr_cap (snd (f i p)) = pr_cap p \<and>
    pr_mmap_hint (snd (f i p)) = pr_mmap_hint p)"

lemma boundary_next: "vads_wf vs \<Longrightarrow> i < length vs \<Longrightarrow> boundary (v_end (vs ! i)) vs"
proof -
  assume wf: "vads_wf vs" and i: "i < length vs"
  have "v_end (vs ! j) \<le> v_end (vs ! i) \<or> v_end (vs ! i) \<le> v_start (vs ! j)" if "j < length vs" for j
    using wf_ends[OF wf, of j i] wf_order[OF wf, of i j] that i by (cases "j \<le> i") auto
  thus ?thesis by (simp add: boundary_def list_all_length)
qed

lemma upd_range_step:
  assumes wf: "vads_wf vs" and i: "i < length vs" "v_start (vs ! i) < stop" and g: "keeps_place g"
  shows "upd_range g (v_end (vs ! i)) stop (vs[i := g (vs ! i)]) = upd_range g (v_start (vs ! i)) stop vs"
proof (rule nth_equalityI)
  fix j assume "j < length (upd_range g (v_end (vs ! i)) stop (vs[i := g (vs ! i)]))"
  hence j: "j < length vs" by (simp add: upd_range_def)
  show "upd_range g (v_end (vs ! i)) stop (vs[i := g (vs ! i)]) ! j = upd_range g (v_start (vs ! i)) stop vs ! j"
  proof (cases j i rule: linorder_cases)
    case equal
    have "v_start (g (vs ! i)) < v_end (vs ! i)"
      using ok_less[OF wf_nth[OF wf i(1)]] g by (simp add: keeps_place_def)
    hence "\<not> v_end (vs ! i) \<le> v_start (g (vs ! i))" by (simp only: not_le)
    with equal i j show ?thesis by (simp add: upd_range_def nth_list_update)
  next
    case less
    have "v_start (vs ! j) < v_start (vs ! i)" "v_start (vs ! j) < v_end (vs ! i)"
      using ok_less[OF wf_nth[OF wf j]] wf_order[OF wf less i(1)] ok_less[OF wf_nth[OF wf i(1)]] by auto
    hence "\<not> v_start (vs ! i) \<le> v_start (vs ! j)" "\<not> v_end (vs ! i) \<le> v_start (vs ! j)" by (simp_all only: not_le)
    with less i j show ?thesis by (simp add: upd_range_def nth_list_update)
  next
    case greater
    have "v_end (vs ! i) \<le> v_start (vs ! j)" "v_start (vs ! i) \<le> v_start (vs ! j)"
      using wf_order[OF wf greater j] ok_less[OF wf_nth[OF wf i(1)]] by auto
    with greater i j show ?thesis by (simp add: upd_range_def nth_list_update)
  qed
qed (simp add: upd_range_def)

lemma each_vad_loop:
  assumes "acts f g" "keeps_place g"
  shows "vads_wf (pr_vads p) \<Longrightarrow> boundary a (pr_vads p) \<Longrightarrow> length (pr_vads p) \<le> k + vad_lower (pr_vads p) a \<Longrightarrow>
    (\<And>x. a \<le> x \<Longrightarrow> x < stop \<Longrightarrow> \<exists>w \<in> set (pr_vads p). holds w x) \<Longrightarrow>
    pr_vads (snd (each_vad_loop k f a stop p)) = upd_range g a stop (pr_vads p)"
proof (induction k arbitrary: a p)
  case 0
  have "stop \<le> a"
  proof (rule ccontr)
    assume "\<not> stop \<le> a"
    then obtain w where "w \<in> set (pr_vads p)" "holds w a" using 0(4)[of a] by (auto simp: not_le)
    then obtain i where "i < length (pr_vads p)" "holds (pr_vads p ! i) a" by (metis in_set_conv_nth)
    with lower_holds[OF 0(1)] 0(3) show False by fastforce
  qed
  thus ?case by (simp add: upd_range_empty)
next
  case (Suc k)
  let ?vs = "pr_vads p"
  show ?case
  proof (cases "stop \<le> a")
    case True
    thus ?thesis by (simp add: upd_range_empty)
  next
    case False
    then obtain w where "w \<in> set ?vs" "holds w a" using Suc(5)[of a] by (auto simp: not_le)
    then obtain i where i: "i < length ?vs" "holds (?vs ! i) a" by (metis in_set_conv_nth)
    have a: "v_start (?vs ! i) = a"
      using Suc(3) i by (fastforce simp: boundary_def list_all_length holds_def)
    define p' where "p' = snd (f i p)"
    have vs': "pr_vads p' = ?vs[i := g (?vs ! i)]" using assms(1) by (simp add: acts_def p'_def)
    have wf': "vads_wf (pr_vads p')" using Suc(2) by (simp add: vs' update_wf[OF assms(2)])
    have place: "v_end (pr_vads p' ! j) = v_end (?vs ! j)" "v_start (pr_vads p' ! j) = v_start (?vs ! j)" if "j < length ?vs" for j
      using that assms(2) by (cases "i = j"; simp add: vs' nth_list_update keeps_place_def)+
    have find: "vad_find ?vs a = Some i" "vad_find (pr_vads p') a = Some i"
      using i vad_find_Some[OF Suc(2)] vad_find_Some[OF wf'] place[OF i(1)] by (simp_all add: vs' holds_def)
    let ?e = "v_end (?vs ! i)"
    have le: "a \<le> ?e" using i by (simp add: holds_def less_imp_le)
    have "i < vad_lower (pr_vads p') ?e" using lower_iff[OF wf', of i ?e] i place[OF i(1)] by (simp add: vs')
    with Suc(4) lower_holds[OF Suc(2) i] have fuel: "length (pr_vads p') \<le> k + vad_lower (pr_vads p') ?e" by (simp add: vs')
    have cover: "\<exists>w \<in> set (pr_vads p'). holds w x" if e: "?e \<le> x" "x < stop" for x
    proof -
      obtain w where "w \<in> set ?vs" "holds w x" using Suc(5)[OF order_trans[OF le e(1)] e(2)] by auto
      then obtain j where "j < length ?vs" "holds (?vs ! j) x" by (metis in_set_conv_nth)
      with place[of j] have "j < length (pr_vads p')" "holds (pr_vads p' ! j) x" by (simp_all add: holds_def vs')
      thus ?thesis by (metis nth_mem)
    qed
    have "boundary ?e (pr_vads p')"
      using boundary_next[OF Suc(2) i(1)] by (simp add: vs' update_boundary[OF assms(2)])
    from Suc(1)[OF wf' this fuel cover]
    have "pr_vads (snd (each_vad_loop k f ?e stop p')) = upd_range g ?e stop (?vs[i := g (?vs ! i)])" by (simp add: vs')
    with upd_range_step[OF Suc(2) i(1) _ assms(2), of stop] a False find place[OF i(1)] show ?thesis
      by (auto simp: run_apply p'_def[symmetric] not_le dest: leD)
  qed
qed

lemma each_vad:
  assumes "acts f g" "keeps_place g" "vads_wf (pr_vads p)" "boundary start (pr_vads p)" "all_in (pr_vads p) (\<lambda>_. True) start stop"
  shows "pr_vads (snd (each_vad f start stop p)) = upd_range g start stop (pr_vads p)"
  using each_vad_loop[OF assms(1-4), of "length (pr_vads p)" stop] assms(5) by (simp add: each_vad_def all_in_def)

lemma each_vad_cap: "acts f g \<Longrightarrow> pr_cap (snd (each_vad f start stop p)) = pr_cap p \<and> pr_mmap_hint (snd (each_vad f start stop p)) = pr_mmap_hint p"
proof -
  assume "acts f g"
  hence "pr_cap (snd (each_vad_loop k f a stop p)) = pr_cap p \<and> pr_mmap_hint (snd (each_vad_loop k f a stop p)) = pr_mmap_hint p" for k a p
    by (induction k arbitrary: a p) (auto simp: run_apply acts_def split: option.split)
  thus ?thesis by (simp add: each_vad_def)
qed

end
