(* ===== verification/Vm_Refine.thy ===== *)
theory Vm_Refine
  imports Vm_Space
begin

unbundle bit_operations_syntax

section \<open>The operations on the address space\<close>

text \<open>
  Which actions leave the array of descriptors alone (\<open>kept\<close>), and what insertion, removal, splitting and joining do to the map.
\<close>

subsection \<open>What leaves the array alone\<close>

definition same_shape :: "'c process \<Rightarrow> 'c process \<Rightarrow> bool" where
  "same_shape p p' = (pr_vads p' = pr_vads p \<and> pr_cap p' = pr_cap p \<and> pr_mmap_hint p' = pr_mmap_hint p)"

interpretation sh: frame_rel same_shape
  by unfold_locales (simp_all add: same_shape_def)

abbreviation kept :: "('c, 'a) vmact \<Rightarrow> bool" where "kept \<equiv> keeps same_shape"

lemma keptD: "kept m \<Longrightarrow> pr_vads (snd (m p)) = pr_vads p" "kept m \<Longrightarrow> pr_cap (snd (m p)) = pr_cap p"
  "kept m \<Longrightarrow> pr_mmap_hint (snd (m p)) = pr_mmap_hint p"
  by (simp_all add: keeps_def same_shape_def)

lemma kept_phys: "kept (on_phys m)"
  by (simp add: keeps_def same_shape_def on_phys_def split: prod.split)

lemma kept_env: "kept (on_env m)"
  by (simp add: keeps_def same_shape_def on_env_def split: prod.split)

lemma kept_before: "kept (before_unmap v a b c)"
  by (simp add: keeps_def same_shape_def before_unmap_def)

lemmas kept_intros = sh.keeps_rules kept_phys kept_env kept_before

lemma kept_unmap: "kept (unmap_pages v a b)"
  unfolding unmap_pages_def Let_def by (intro kept_intros)

subsection \<open>The loop bodies\<close>

lemma acts_then: "(\<And>i. kept (m i)) \<Longrightarrow> acts (\<lambda>i. run (upd_vad i g) (\<lambda>_. m i)) g"
  by (simp add: acts_def run_apply keptD upd_vad_def)

lemma acts_prot: "acts (\<lambda>i. vad_apply_prot i prot) (\<lambda>w. w\<lparr>v_prot := prot\<rparr>)"
  unfolding vad_apply_prot_def Let_def by (intro acts_then kept_intros)

lemma update_twice: "vs[i := g (vs[i := f (vs ! i)] ! i)] = vs[i := g (f (vs ! i))]"
  by (cases "i < length vs") (simp_all add: list_update_beyond)

lemma acts_commit: "acts (commit_vad prot) (\<lambda>w. w\<lparr>v_state := VAD_COMMITTED, v_prot := prot\<rparr>)"
  using update_twice[where f = "\<lambda>w :: vad. w\<lparr>v_state := VAD_COMMITTED\<rparr>" and g = "\<lambda>w. w\<lparr>v_prot := prot\<rparr>"]
  by (simp add: acts_def commit_vad_def run_apply Let_def upd_vad_def acts_prot[unfolded acts_def, rule_format])

lemma acts_decommit: "acts (decommit_vad v) (\<lambda>w. w\<lparr>v_state := VAD_RESERVED\<rparr>)"
proof -
  have "kept (if c then unmap_pages v a b else ret ())" for c a b
    by (intro kept_intros kept_unmap)
  note keptD[OF this]
  thus ?thesis by (simp add: acts_def decommit_vad_def run_apply Let_def upd_vad_def)
qed

subsection \<open>Insertion and splitting\<close>

definition sized :: "'c process \<Rightarrow> bool" where
  "sized p = (length (pr_vads p) \<le> pr_cap p \<and> 0 < pr_cap p \<and> pr_mmap_hint p \<le> USER_TOP)"

definition proc_wf :: "'c process \<Rightarrow> bool" where
  "proc_wf p = (vads_wf (pr_vads p) \<and> sized p)"

lemma insert_at_state:
  assumes "vad_insert_at v i n p = (r, p')"
  shows "pr_vads p' = (if r then take i (pr_vads p) @ n # drop i (pr_vads p) else pr_vads p)"
    and "sized p \<Longrightarrow> sized p'"
  using assms by (auto simp: vad_insert_at_def run_apply sized_def split: prod.splits if_splits)

lemma insert_vad_state:
  assumes "insert_vad v n p = (r, p')"
  shows "pr_vads p' = (if r then insert_in n (pr_vads p) else pr_vads p)"
    and "sized p \<Longrightarrow> sized p'"
  using insert_at_state[of v "vad_lower (pr_vads p) (v_start n)" n p r p'] assms by (simp_all add: insert_vad_def insert_in_def Let_def split: if_splits)

text \<open>When the array cannot grow, the descriptor has lost its upper part already.\<close>

definition cut_in :: "u64 \<Rightarrow> vad list \<Rightarrow> vad list" where
  "cut_in at vs = (let i = vad_lower vs at in vs[i := (vs ! i)\<lparr>v_end := at\<rparr>])"

lemma take_Suc_update: "i < length vs \<Longrightarrow> take (Suc i) (vs[i := a]) = take i vs @ [a]"
  by (simp add: take_Suc_conv_app_nth)

lemma split_state:
  assumes "vad_split v at p = (r, p')"
  shows "r \<Longrightarrow> pr_vads p' = split_in at (pr_vads p)"
    and "\<not> r \<Longrightarrow> split_in at (pr_vads p) \<noteq> pr_vads p \<and> pr_vads p' = cut_in at (pr_vads p)"
    and "sized p \<Longrightarrow> sized p'"
proof -
  define vs where "vs = pr_vads p"
  define i where "i = vad_lower vs at"
  have *: "(r \<longrightarrow> pr_vads p' = split_in at vs) \<and> (\<not> r \<longrightarrow> split_in at vs \<noteq> vs \<and> pr_vads p' = cut_in at vs) \<and>
    (sized p \<longrightarrow> sized p')"
  proof (cases "length vs \<le> i \<or> at \<le> v_start (vs ! i) \<or> v_end (vs ! i) \<le> at")
    case True
    with assms show ?thesis unfolding vs_def i_def by (auto simp: vad_split_def Let_def split_in_def)
  next
    case False
    define p1 where "p1 = snd (upd_vad i (\<lambda>w. w\<lparr>v_end := at\<rparr>) p)"
    have p1: "pr_vads p1 = vs[i := (vs ! i)\<lparr>v_end := at\<rparr>]" "sized p \<Longrightarrow> sized p1" by (simp_all add: p1_def upd_vad_def vs_def sized_def)
    have ins: "vad_insert_at v (i + 1) ((vs ! i)\<lparr>v_start := at\<rparr>) p1 = (r, p')"
      using assms False by (simp add: vad_split_def run_apply Let_def vs_def[symmetric] i_def[symmetric] p1_def)
    have i: "i < length vs" using False by simp
    have eq: "split_in at vs = take i vs @ [(vs ! i)\<lparr>v_end := at\<rparr>, (vs ! i)\<lparr>v_start := at\<rparr>] @ drop (Suc i) vs"
      using False by (simp add: split_in_def i_def[symmetric] Let_def)
    hence "length (split_in at vs) = Suc (length vs)" using i by simp
    hence "split_in at vs \<noteq> vs" by (metis n_not_Suc_n)
    with insert_at_state[OF ins] p1 i show ?thesis
      by (simp add: take_Suc_update eq cut_in_def i_def[symmetric])
  qed
  thus "r \<Longrightarrow> pr_vads p' = split_in at (pr_vads p)"
    and "\<not> r \<Longrightarrow> split_in at (pr_vads p) \<noteq> pr_vads p \<and> pr_vads p' = cut_in at (pr_vads p)"
    and "sized p \<Longrightarrow> sized p'"
    by (simp_all add: vs_def)
qed

lemma cut_in:
  assumes wf: "vads_wf vs" and at: "aligned at" and "split_in at vs \<noteq> vs"
  shows "vads_wf (cut_in at vs) \<and> space (cut_in at vs) \<subseteq>\<^sub>m space vs"
proof -
  define i where "i = vad_lower vs at"
  from assms(3) have i: "i < length vs" "v_start (vs ! i) < at" "at < v_end (vs ! i)"
    by (auto simp: split_in_def i_def[symmetric] Let_def not_le split: if_splits)
  let ?w = "(vs ! i)\<lparr>v_end := at\<rparr>"
  have eq: "cut_in at vs = take i vs @ [?w] @ drop (Suc i) vs"
    using i by (simp add: cut_in_def i_def[symmetric] upd_conv_take_nth_drop)
  have w: "vads_wf [?w]" using i wf_nth[OF wf i(1)] at by (auto simp: vads_wf_def vad_ok_def)
  have wf': "vads_wf (cut_in at vs)"
    unfolding eq using i by (intro replace_wf[OF wf i(1) w]) auto
  have "space vs x = Some a" if some: "space (cut_in at vs) x = Some a" for x a
  proof -
    from some obtain u where u: "u \<in> set (cut_in at vs)" "holds u x" "attr_of u = a" by (auto simp: space_Some[OF wf'])
    show ?thesis
    proof (cases "u = ?w")
      case True
      with u i have "holds (vs ! i) x" "attr_of (vs ! i) = a" by (auto simp: holds_def attr_of_def)
      thus ?thesis using i(1) by (auto simp: space_Some[OF wf])
    next
      case False
      with u have "u \<in> set vs" by (auto simp: eq set_around[OF i(1)])
      with u show ?thesis by (auto simp: space_Some[OF wf])
    qed
  qed
  with wf' show ?thesis by (auto simp: map_le_def)
qed


subsection \<open>Ranges\<close>

lemma aligned_mask: "aligned (a AND PAGE_MASK)" "aligned (a AND 0xffffffffffff0000)"
  by (simp_all add: aligned_def and.assoc)

lemma aligned_up: "aligned (up a)"
  by (simp add: up_def aligned_mask)

lemma aligned_iff: "aligned a \<longleftrightarrow> 4096 dvd unat a"
proof -
  have "a AND 0xfff = take_bit 12 a" by (simp add: take_bit_eq_mask mask_eq_exp_minus_1)
  hence "unat (a AND 0xfff) = unat a mod 4096" by (simp add: take_bit_eq_mod unat_mod)
  thus ?thesis by (metis aligned_def dvd_eq_mod_eq_0 unat_eq_zero)
qed

lemma aligned_add: "aligned a \<Longrightarrow> aligned b \<Longrightarrow> aligned (a + b)"
  unfolding aligned_iff unat_word_ariths by (rule dvd_mod) simp_all

text \<open>The range of a commit, a decommit or a protection: after the splits, it is the union of whole descriptors.\<close>

lemma split_range_state:
  assumes "split_range v start stop p = (r, p')" "proc_wf p" "aligned start" "aligned stop"
  shows "proc_wf p' \<and> (if r then space (pr_vads p') = space (pr_vads p) \<and> boundary start (pr_vads p') \<and> boundary stop (pr_vads p')
    else space (pr_vads p') \<subseteq>\<^sub>m space (pr_vads p))"
proof -
  obtain r1 p1 where s1: "vad_split v start p = (r1, p1)" by (cases "vad_split v start p")
  have wf: "vads_wf (pr_vads p)" using assms(2) by (simp add: proc_wf_def)
  note S = split_state[OF s1]
  show ?thesis
  proof (cases r1)
    case False
    with S cut_in[OF wf assms(3)] assms(1,2) s1 show ?thesis by (auto simp: split_range_def run_apply proc_wf_def)
  next
    case True
    from True assms(1) s1 have s2: "vad_split v stop p1 = (r, p')" by (simp add: split_range_def run_apply)
    have 1: "vads_wf (pr_vads p1)" "space (pr_vads p1) = space (pr_vads p)" "boundary start (pr_vads p1)"
      using S(1)[OF True] split_in[OF wf assms(3)] by simp_all
    have 2: "sized p1" using S(3) assms(2) by (simp add: proc_wf_def)
    note S2 = split_state[OF s2]
    show ?thesis
    proof (cases r)
      case True
      with S2(1)[OF True] S2(3) 1 2 split_in[OF 1(1) assms(4), of start] show ?thesis by (simp add: proc_wf_def)
    next
      case False
      with S2(2)[OF False] S2(3) 1 2 cut_in[OF 1(1) assms(4)] show ?thesis by (simp add: proc_wf_def)
    qed
  qed
qed

lemma all_in_space: "vads_wf vs \<Longrightarrow> all_in vs (\<lambda>_. True) a stop \<longleftrightarrow> (\<forall>x. a \<le> x \<longrightarrow> x < stop \<longrightarrow> space vs x \<noteq> None)"
  by (auto simp: all_in_def space_None)

text \<open>The common part of the three operations.\<close>

definition change :: "u64 \<Rightarrow> u64 \<Rightarrow> (attr \<Rightarrow> attr) \<Rightarrow> (u64 \<Rightarrow> attr option) \<Rightarrow> u64 \<Rightarrow> attr option" where
  "change start stop G S = (\<lambda>x. if start \<le> x \<and> x < stop then map_option G (S x) else S x)"

lemma change_range:
  assumes split: "split_range v start stop p = (r, p1)" "r" and wf: "proc_wf p" and "aligned start" "aligned stop" "start < stop"
    and cover: "all_in (pr_vads p) (\<lambda>_. True) start stop"
    and vads: "pr_vads p2 = pr_vads p1" "pr_cap p2 = pr_cap p1" "pr_mmap_hint p2 = pr_mmap_hint p1"
    and acts: "acts f g" "keeps_place g" "\<And>w. attr_of (g w) = G (attr_of w)"
  defines "p3 \<equiv> snd (each_vad f start stop p2)"
  shows "proc_wf p3 \<and> space (pr_vads p3) = change start stop G (space (pr_vads p))"
proof -
  note S = split_range_state[OF split(1) wf assms(4,5)]
  have wf2: "vads_wf (pr_vads p2)" and b: "boundary start (pr_vads p2)" "boundary stop (pr_vads p2)" and sp: "space (pr_vads p2) = space (pr_vads p)"
    using S split(2) vads by (simp_all add: proc_wf_def)
  have "all_in (pr_vads p2) (\<lambda>_. True) start stop"
    using cover wf wf2 sp by (simp add: all_in_space proc_wf_def)
  from each_vad[OF acts(1,2) wf2 b(1) this]
  have eq: "pr_vads p3 = upd_range g start stop (pr_vads p2)" by (simp add: p3_def)
  have "space (pr_vads p3) = change start stop G (space (pr_vads p))"
    unfolding eq change_def sp[symmetric]
    by (rule ext, rule upd_range_space[OF wf2 acts(2,3) b less_imp_le[OF \<open>start < stop\<close>]])
  moreover have "pr_cap p3 = pr_cap p2" "pr_mmap_hint p3 = pr_mmap_hint p2" using each_vad_cap[OF acts(1), of start stop p2] by (simp_all add: p3_def)
  moreover have "length (pr_vads p3) = length (pr_vads p2)" by (simp add: eq upd_range_def)
  ultimately show ?thesis
    using S split(2) vads wf2 by (simp add: proc_wf_def sized_def eq upd_range_wf[OF acts(2)])
qed

lemma length_coalesce: "length (coalesce vs) \<le> length vs"
  by (induction vs rule: coalesce.induct) auto

lemma coalesce_state: "proc_wf p \<Longrightarrow> proc_wf (snd (vad_coalesce p)) \<and> space (pr_vads (snd (vad_coalesce p))) = space (pr_vads p)"
  using coalesce_sound[of "pr_vads p"] length_coalesce[of "pr_vads p"] by (auto simp: vad_coalesce_def proc_wf_def sized_def)

end
