(* ===== verification/Vm_Spec.thy ===== *)
theory Vm_Spec
  imports Vm_Refine
begin

unbundle bit_operations_syntax

section \<open>Reservation, commit, release and protection of addresses\<close>

text \<open>
  The contract of the operations over the map from addresses to attributes, and the proof that the descriptors implement it.
\<close>

subsection \<open>Places for new descriptors\<close>

definition within :: "u64 \<Rightarrow> u64 \<Rightarrow> u64 \<Rightarrow> bool" where
  "within b n x = (b \<le> x \<and> x < b + n)"

definition filled :: "u64 \<Rightarrow> u64 \<Rightarrow> attr \<Rightarrow> (u64 \<Rightarrow> attr option) \<Rightarrow> u64 \<Rightarrow> attr option" where
  "filled b n a S = (\<lambda>x. if within b n x then Some a else S x)"

definition emptied :: "u64 \<Rightarrow> u64 \<Rightarrow> (u64 \<Rightarrow> attr option) \<Rightarrow> u64 \<Rightarrow> attr option" where
  "emptied b n S = (\<lambda>x. if within b n x then None else S x)"

lemma apart_None: "vads_wf vs \<Longrightarrow> (\<And>w. w \<in> set vs \<Longrightarrow> apart b e w) \<Longrightarrow> b \<le> x \<Longrightarrow> x < e \<Longrightarrow> space vs x = None"
  by (fastforce simp: space_None apart_def holds_def)

lemma insert_vad_refines:
  assumes "insert_vad v n p = (r, p')" "proc_wf p" "vad_ok n" "range_free (pr_vads p) (v_start n) (v_end n)"
  shows "proc_wf p' \<and> (if r then (\<forall>x. holds n x \<longrightarrow> space (pr_vads p) x = None) \<and>
      space (pr_vads p') = (\<lambda>x. if holds n x then Some (attr_of n) else space (pr_vads p) x)
    else space (pr_vads p') = space (pr_vads p))"
proof -
  have wf: "vads_wf (pr_vads p)" using assms(2) by (simp add: proc_wf_def)
  note free = range_free_apart[OF wf assms(4)]
  have "space (pr_vads p) x = None" if "holds n x" for x
    using apart_None[OF wf free] that by (simp add: holds_def)
  with insert_vad_state[OF assms(1)] insert_in_wf[OF wf assms(3) free] insert_in_space[OF wf assms(3) free] assms(2) show ?thesis
    by (simp add: proc_wf_def fun_eq_iff)
qed

text \<open>The search for a place does not wrap around: upwards because no descriptor ends above \<open>USER_TOP\<close>, downwards when the length is at most the start of
  every descriptor.\<close>

lemma sum_le: "a \<le> 0x800000000000 \<Longrightarrow> b \<le> 0x800000000000 \<Longrightarrow> a \<le> a + (b :: u64)"
  by (simp add: word_le_nat_alt unat_word_ariths)

lemma and_le: "a AND b \<le> (a :: u64)"
  by (metis and.commute word_and_le1)

lemma choose_base:
  assumes "vads_wf vs" "len \<noteq> 0" "len \<le> USER_TOP" "down \<Longrightarrow> (\<And>w. w \<in> set vs \<Longrightarrow> len \<le> v_start w)"
  shows "choose_base k vs down len cand = Some b \<Longrightarrow> aligned cand \<Longrightarrow> cand \<le> 0x7fffffffffff \<Longrightarrow>
    aligned b \<and> USER_MIN \<le> b \<and> b < b + len \<and> b + len \<le> USER_TOP \<and> range_free vs b (b + len)"
proof (induction k arbitrary: cand)
  case (Suc k)
  let ?i = "vad_lower vs cand"
  have top: "v_end (vs ! ?i) \<le> USER_TOP" "v_start (vs ! ?i) \<le> USER_TOP" if "?i < length vs"
    using wf_nth[OF assms(1) that] by (auto simp: vad_ok_def)
  have "cand \<le> 0x800000000000" "len \<le> 0x800000000000" using Suc(4) assms(3) by (auto intro: order_trans)
  hence "cand \<le> cand + len" by (rule sum_le)
  hence less: "cand < cand + len" using assms(2) by (simp add: order_less_le)
  show ?case
  proof (cases "?i < length vs \<and> v_start (vs ! ?i) < cand + len")
    case False
    with Suc less show ?thesis by (auto simp: range_free_def Let_def not_le split: if_splits)
  next
    case True
    let ?c = "if down then (v_start (vs ! ?i) - len) AND 0xffffffffffff0000 else (v_end (vs ! ?i) + 0xffff) AND 0xffffffffffff0000"
    have "choose_base k vs down len ?c = Some b" using Suc(2) True by (simp add: Let_def split: if_splits)
    moreover have "aligned ?c" by (simp add: aligned_mask)
    moreover have "?c \<le> 0x7fffffffffff"
    proof (cases down)
      case True
      have "len \<le> v_start (vs ! ?i)" using assms(4)[OF True] \<open>?i < length vs \<and> _\<close> by simp
      hence "v_start (vs ! ?i) - len \<le> v_start (vs ! ?i)" by (simp add: word_sub_le)
      also have "\<dots> \<le> USER_TOP" using top \<open>?i < length vs \<and> _\<close> by simp
      finally have "v_start (vs ! ?i) - len \<le> 0x7fffffffffff" by (rule order_trans) simp
      with True show ?thesis by (auto intro: order_trans[OF and_le])
    next
      case False
      have "v_end (vs ! ?i) + 0xffff \<le> 0x7fffffffffff"
        using top(1) True by (simp add: word_le_nat_alt unat_word_ariths)
      with False show ?thesis by (auto intro: order_trans[OF and_le])
    qed
    ultimately show ?thesis by (rule Suc(1))
  qed
qed simp

lemma first_base: "hint \<le> USER_TOP \<Longrightarrow> len \<le> USER_TOP \<Longrightarrow> aligned (first_base down len hint) \<and> first_base down len hint \<le> 0x7fffffffffff"
proof -
  assume "hint \<le> USER_TOP" "len \<le> USER_TOP"
  hence "hint + 0xffff \<le> 0x7fffffffffff" "USER_TOP - len \<le> 0x7fffffffffff"
    by (simp_all add: word_le_nat_alt unat_word_ariths unat_sub)
  thus ?thesis by (auto simp: first_base_def aligned_mask intro: order_trans[OF and_le])
qed


subsection \<open>Allocation\<close>

definition new_attr :: "bool \<Rightarrow> u32 \<Rightarrow> vad_kind \<Rightarrow> u64 \<Rightarrow> attr" where
  "new_attr commit prot kind b = ((if commit then VAD_COMMITTED else VAD_RESERVED), prot, kind, prot, b, 0)"

fun commit_attr :: "u32 \<Rightarrow> attr \<Rightarrow> attr" where
  "commit_attr prot (st, pr, rest) = (VAD_COMMITTED, prot, rest)"

text \<open>An operation that fails leaves the space as it was, except that a lack of kernel memory may have lost addresses.\<close>

definition failed :: "nt_err \<Rightarrow> (u64 \<Rightarrow> attr option) \<Rightarrow> (u64 \<Rightarrow> attr option) \<Rightarrow> bool" where
  "failed e S S' = (if e = STATUS_NO_MEMORY then S' \<subseteq>\<^sub>m S else S' = S)"

lemma failed_refl: "failed e S S"
  by (simp add: failed_def)

definition commit_ok :: "u64 \<Rightarrow> u64 \<Rightarrow> u32 \<Rightarrow> nt_err + unit \<Rightarrow> (u64 \<Rightarrow> attr option) \<Rightarrow> (u64 \<Rightarrow> attr option) \<Rightarrow> bool" where
  "commit_ok start stop prot r S S' = (case r of Inl e \<Rightarrow> failed e S S'
     | Inr _ \<Rightarrow> (\<forall>x. start \<le> x \<and> x < stop \<longrightarrow> S x \<noteq> None) \<and> S' = change start stop (commit_attr prot) S)"

lemma vad_commit_refines:
  assumes "vad_commit v start stop prot p = (r, p')" "proc_wf p" "aligned start" "aligned stop" "start < stop"
  shows "proc_wf p' \<and> commit_ok start stop prot r (space (pr_vads p)) (space (pr_vads p'))"
proof (cases "covered (pr_vads p) (\<lambda>_. True) start stop")
  case False
  with assms(1,2) show ?thesis by (auto simp: vad_commit_def commit_ok_def failed_def)
next
  case True
  have wf: "vads_wf (pr_vads p)" using assms(2) by (simp add: proc_wf_def)
  have cover: "all_in (pr_vads p) (\<lambda>_. True) start stop" using True covered_iff[OF wf] by simp
  obtain r1 p1 where s: "split_range v start stop p = (r1, p1)" by (cases "split_range v start stop p")
  note S = split_range_state[OF s assms(2-4)]
  show ?thesis
  proof (cases r1)
    case False
    with assms(1) True s S show ?thesis by (auto simp: vad_commit_def run_apply commit_ok_def failed_def)
  next
    case r1: True
    define p2 where "p2 = snd ((if parked prot then before_unmap v start stop False else ret ()) p1)"
    have "kept (if parked prot then before_unmap v start stop False else ret ())" by (intro kept_intros)
    note same = keptD[OF this, of p1, folded p2_def]
    have eq: "r = Inr ()" "p' = snd (each_vad (commit_vad prot) start stop p2)"
      using assms(1) True s r1 by (auto simp: vad_commit_def run_apply p2_def)
    have g: "keeps_place (\<lambda>w. w\<lparr>v_state := VAD_COMMITTED, v_prot := prot\<rparr>)"
      "attr_of (w\<lparr>v_state := VAD_COMMITTED, v_prot := prot\<rparr>) = commit_attr prot (attr_of w)" for w :: vad
      by (simp_all add: keeps_place_def attr_of_def)
    from change_range[OF s r1 assms(2-5) cover same acts_commit g] show ?thesis
      using cover all_in_space[OF wf] by (auto simp: eq commit_ok_def)
  qed
qed

text \<open>The base and the place of an allocation, before the coalescing.\<close>

definition alloc_ok :: "bool \<Rightarrow> bool \<Rightarrow> u64 \<Rightarrow> u32 \<Rightarrow> vad_kind \<Rightarrow> nt_err + u64 \<Rightarrow> (u64 \<Rightarrow> attr option) \<Rightarrow> (u64 \<Rightarrow> attr option) \<Rightarrow> bool" where
  "alloc_ok reserve commit n prot kind r S S' = (case r of Inl e \<Rightarrow> failed e S S'
     | Inr b \<Rightarrow> aligned b \<and> USER_MIN \<le> b \<and> b < b + n \<and> b + n \<le> USER_TOP \<and>
         (if reserve then (\<forall>x. within b n x \<longrightarrow> S x = None) \<and> S' = filled b n (new_attr commit prot kind b) S
          else (\<forall>x. within b n x \<longrightarrow> S x \<noteq> None) \<and> S' = change b (b + n) (commit_attr prot) S))"

lemma new_vad: "v_start (new_vad b e c prot kind) = b" "v_end (new_vad b e c prot kind) = e"
  "attr_of (new_vad b e c prot kind) = new_attr c prot kind b" "holds (new_vad b (b + n) c prot kind) x = within b n x"
  by (simp_all add: new_vad_def attr_of_def new_attr_def holds_def within_def)

lemma vad_alloc_any_refines:
  assumes "vad_alloc_any v down n commit prot kind p = (r, p')" "proc_wf p" "aligned n" "n \<noteq> 0" "n \<le> USER_TOP"
    and "down \<Longrightarrow> (\<And>w. w \<in> set (pr_vads p) \<Longrightarrow> n \<le> v_start w)"
  shows "proc_wf p' \<and> alloc_ok True commit n prot kind r (space (pr_vads p)) (space (pr_vads p'))"
proof (cases "choose_base 4097 (pr_vads p) down n (first_base down n (pr_mmap_hint p))")
  case None
  with assms(1,2) show ?thesis by (auto simp: vad_alloc_any_def alloc_ok_def failed_refl)
next
  case (Some b)
  have wf: "vads_wf (pr_vads p)" "pr_mmap_hint p \<le> USER_TOP" using assms(2) by (simp_all add: proc_wf_def sized_def)
  have b: "aligned b" "USER_MIN \<le> b" "b < b + n" "b + n \<le> USER_TOP" "range_free (pr_vads p) b (b + n)"
    using choose_base[OF wf(1) assms(4-6) Some] first_base[OF wf(2) assms(5)] by simp_all
  obtain r1 p1 where i: "insert_vad v (new_vad b (b + n) commit prot kind) p = (r1, p1)"
    by (cases "insert_vad v (new_vad b (b + n) commit prot kind) p")
  have "vad_ok (new_vad b (b + n) commit prot kind)"
    using b aligned_add[OF b(1) assms(3)] by (simp add: vad_ok_def new_vad)
  from insert_vad_refines[OF i assms(2) this] b(5)
  have S: "proc_wf p1 \<and> (if r1 then (\<forall>x. within b n x \<longrightarrow> space (pr_vads p) x = None) \<and>
      space (pr_vads p1) = filled b n (new_attr commit prot kind b) (space (pr_vads p)) else space (pr_vads p1) = space (pr_vads p))"
    by (simp add: new_vad filled_def cong: if_cong)
  with assms(1) Some i b show ?thesis
    by (auto simp: vad_alloc_any_def run_apply alloc_ok_def failed_refl proc_wf_def sized_def split: if_splits)
qed

lemma vad_alloc_at_refines:
  assumes "vad_alloc_at v base n commit reserve prot kind p = (r, p')" "proc_wf p" "aligned n" "n \<noteq> 0"
  shows "proc_wf p' \<and> alloc_ok reserve commit n prot kind r (space (pr_vads p)) (space (pr_vads p'))"
proof -
  define b where "b = (let start = base AND PAGE_MASK in if reserve \<and> start AND 0xffff \<noteq> 0 then start AND 0xffffffffffff0000 else start)"
  have b: "aligned b" by (simp add: b_def aligned_mask Let_def)
  have E: "vad_alloc_at v base n commit reserve prot kind p = (if b < USER_MIN \<or> USER_TOP < b + n \<or> b + n < b then (Inl STATUS_INVALID_PARAMETER, p)
     else if reserve then
       if \<not> range_free (pr_vads p) b (b + n) then (Inl STATUS_CONFLICTING_ADDRESSES, p)
       else run (insert_vad v (new_vad b (b + n) commit prot kind)) (\<lambda>r. if \<not> r then ret (Inl STATUS_NO_MEMORY) else ret (Inr b)) p
     else chk (vad_commit v b (b + n) prot) (\<lambda>_. ret (Inr b)) p)"
    unfolding vad_alloc_at_def look_apply Let_def b_def[unfolded Let_def, symmetric] by (simp add: if_distribR)
  consider (bad) "b < USER_MIN \<or> USER_TOP < b + n \<or> b + n < b" | (ok) "USER_MIN \<le> b" "b + n \<le> USER_TOP" "b \<le> b + n"
    by (meson not_less)
  thus ?thesis
  proof cases
    case bad
    hence "r = Inl STATUS_INVALID_PARAMETER" "p' = p" using assms(1)[unfolded E] by (simp_all split: if_splits)
    with assms(2) show ?thesis by (simp add: alloc_ok_def failed_refl)
  next
    case ok
    hence in_user: "\<not> (b < USER_MIN \<or> USER_TOP < b + n \<or> b + n < b)" by (simp add: not_less)
    have less: "b < b + n" using ok(3) assms(4) by (simp add: order_less_le)
    note place = b ok(1) less ok(2) aligned_add[OF b assms(3)]
    show ?thesis
    proof (cases reserve)
      case False
      obtain r1 p1 where c: "vad_commit v b (b + n) prot p = (r1, p1)" by (cases "vad_commit v b (b + n) prot p")
      have "r = (case r1 of Inl e \<Rightarrow> Inl e | Inr _ \<Rightarrow> Inr b)" "p' = p1"
        using assms(1)[unfolded E] in_user False c by (auto simp: chk_def run_apply split: sum.splits)
      with vad_commit_refines[OF c assms(2) b place(5) less] False place show ?thesis
        by (auto simp: alloc_ok_def commit_ok_def within_def split: sum.splits)
    next
      case True
      obtain r1 p1 where i: "insert_vad v (new_vad b (b + n) commit prot kind) p = (r1, p1)"
        by (cases "insert_vad v (new_vad b (b + n) commit prot kind) p")
      have "vad_ok (new_vad b (b + n) commit prot kind)" using place by (simp add: vad_ok_def new_vad)
      note S = insert_vad_refines[OF i assms(2) this]
      show ?thesis
      proof (cases "range_free (pr_vads p) b (b + n)")
        case False
        hence "r = Inl STATUS_CONFLICTING_ADDRESSES" "p' = p" using assms(1)[unfolded E] in_user True by simp_all
        with assms(2) show ?thesis by (simp add: alloc_ok_def failed_refl)
      next
        case free: True
        have "r = (if r1 then Inr b else Inl STATUS_NO_MEMORY)" "p' = p1"
          using assms(1)[unfolded E] in_user True free i by (auto simp: run_apply split: if_splits)
        with S free True place show ?thesis
          by (simp add: new_vad filled_def alloc_ok_def failed_refl cong: if_cong split: if_splits)
      qed
    qed
  qed
qed


text \<open>The search downwards stays in user space when the length is at most the start of every descriptor.\<close>

definition no_wrap :: "u64 \<Rightarrow> u32 \<Rightarrow> u64 \<Rightarrow> vad list \<Rightarrow> bool" where
  "no_wrap base type n vs = (base = 0 \<and> has type MEM_TOP_DOWN \<longrightarrow> list_all (\<lambda>w. n \<le> v_start w) vs)"

definition alloc_len :: "u64 \<Rightarrow> u64 \<Rightarrow> u64" where
  "alloc_len base sz = up (sz + (base AND 0xfff))"

lemma coalesced:
  assumes "proc_wf p1" "p' = snd (vad_coalesce p1)"
  shows "proc_wf p' \<and> space (pr_vads p') = space (pr_vads p1)"
  using coalesce_state[OF assms(1)] assms(2) by simp

lemma vad_alloc_refines:
  assumes "vad_alloc v base sz type prot kind p = (r, p')" "proc_wf p" "no_wrap base type (alloc_len base sz) (pr_vads p)"
  defines "n \<equiv> alloc_len base sz" and "reserve \<equiv> base = 0 \<or> has type MEM_RESERVE"
  shows "proc_wf p' \<and> (case r of Inl e \<Rightarrow> failed e (space (pr_vads p)) (space (pr_vads p'))
    | Inr (b, m) \<Rightarrow> m = n \<and> alloc_ok reserve (has type MEM_COMMIT) n prot kind (Inr b) (space (pr_vads p)) (space (pr_vads p')))"
proof -
  define m where "m = (if base \<noteq> 0 then vad_alloc_at v base n (has type MEM_COMMIT) (has type MEM_RESERVE) prot kind
               else vad_alloc_any v (has type MEM_TOP_DOWN) n (has type MEM_COMMIT) prot kind)"
  obtain r1 p1 where m: "m p = (r1, p1)" by (cases "m p")
  consider (bad) "r = Inl STATUS_INVALID_PARAMETER" "p' = p"
    | (ok) "n \<noteq> 0" "n \<le> USER_TOP" "r = (case r1 of Inl e \<Rightarrow> Inl e | Inr b \<Rightarrow> Inr (b, n))"
        "p' = (case r1 of Inl e \<Rightarrow> p1 | Inr b \<Rightarrow> snd (vad_coalesce p1))"
  proof (cases "\<not> (has type MEM_COMMIT \<or> has type MEM_RESERVE) \<or> sz = 0 \<or> \<not> prot_valid prot \<or>
      type AND NOT (MEM_COMMIT OR MEM_RESERVE OR MEM_TOP_DOWN) \<noteq> 0 \<or> n = 0 \<or> USER_TOP < n")
    case True
    hence "r = Inl STATUS_INVALID_PARAMETER" "p' = p"
      using assms(1) by (auto simp: vad_alloc_def Let_def n_def alloc_len_def split: if_splits)
    thus thesis by (rule bad)
  next
    case False
    have "vad_alloc v base sz type prot kind = chk m (\<lambda>start. run vad_coalesce (\<lambda>_. ret (Inr (start, n))))"
      using False unfolding vad_alloc_def Let_def m_def n_def alloc_len_def by (simp only: de_Morgan_disj not_not simp_thms if_False)
    with assms(1) m have "r = (case r1 of Inl e \<Rightarrow> Inl e | Inr b \<Rightarrow> Inr (b, n))" "p' = (case r1 of Inl e \<Rightarrow> p1 | Inr b \<Rightarrow> snd (vad_coalesce p1))"
      by (auto simp: chk_def run_apply split: sum.splits)
    with False show thesis by (intro ok) (simp_all add: not_less)
  qed
  thus ?thesis
  proof cases
    case bad
    with assms(2) show ?thesis by (simp add: failed_refl)
  next
    case ok
    have al: "aligned n" by (simp add: n_def alloc_len_def aligned_up)
    have "proc_wf p1 \<and> alloc_ok reserve (has type MEM_COMMIT) n prot kind r1 (space (pr_vads p)) (space (pr_vads p1))"
    proof (cases "base = 0")
      case True
      with assms(3) have "n \<le> v_start w" if "has type MEM_TOP_DOWN" "w \<in> set (pr_vads p)" for w
        using that by (simp add: no_wrap_def n_def list_all_iff)
      with True m al ok assms(2) vad_alloc_any_refines[of v "has type MEM_TOP_DOWN" n "has type MEM_COMMIT" prot kind p r1 p1]
      show ?thesis by (simp add: m_def reserve_def)
    next
      case False
      with m al ok assms(2) vad_alloc_at_refines[of v base n "has type MEM_COMMIT" "has type MEM_RESERVE" prot kind p r1 p1]
      show ?thesis by (simp add: m_def reserve_def)
    qed
    with ok coalesce_state[of p1] show ?thesis by (auto simp: alloc_ok_def split: sum.splits)
  qed
qed

subsection \<open>Descriptors at fixed places\<close>

definition fixed_ok :: "u64 \<Rightarrow> u64 \<Rightarrow> attr \<Rightarrow> nt_err + unit \<Rightarrow> (u64 \<Rightarrow> attr option) \<Rightarrow> (u64 \<Rightarrow> attr option) \<Rightarrow> bool" where
  "fixed_ok b n a r S S' = (case r of Inl e \<Rightarrow> failed e S S'
     | Inr _ \<Rightarrow> aligned b \<and> USER_MIN \<le> b \<and> b < b + n \<and> b + n \<le> USER_TOP \<and> (\<forall>x. within b n x \<longrightarrow> S x = None) \<and> S' = filled b n a S)"

lemma vad_insert_fixed_refines:
  assumes "vad_insert_fixed v start sz state prot kind abase p = (r, p')" "proc_wf p"
  shows "proc_wf p' \<and> fixed_ok start (up sz) (state, prot, kind, prot, abase, 0) r (space (pr_vads p)) (space (pr_vads p')) \<and>
    (r = Inr () \<longrightarrow> (\<exists>w \<in> set (pr_vads p'). v_start w = start \<and> v_end w = start + up sz))"
proof -
  define b n where "b = start" and "n = up sz"
  define w where "w = \<lparr>v_start = b, v_end = b + n, v_state = state, v_prot = prot, v_kind = kind, v_alloc_prot = prot, v_alloc_base = abase, v_img = 0\<rparr>"
  have w: "v_start w = b" "v_end w = b + n" "attr_of w = (state, prot, kind, prot, abase, 0)" "holds w x = within b n x" for x
    by (simp_all add: w_def attr_of_def holds_def within_def)
  have E: "vad_insert_fixed v start sz state prot kind abase p = (if b AND 0xfff \<noteq> 0 \<or> b < USER_MIN \<or> USER_TOP < b + n \<or> b + n \<le> b
      then (Inl STATUS_INVALID_PARAMETER, p) else if \<not> range_free (pr_vads p) b (b + n) then (Inl STATUS_CONFLICTING_ADDRESSES, p)
      else run (insert_vad v w) (\<lambda>r. ret (if r then Inr () else Inl STATUS_NO_MEMORY)) p)"
    by (simp add: vad_insert_fixed_def Let_def b_def n_def w_def)
  show ?thesis
  proof (cases "b AND 0xfff \<noteq> 0 \<or> b < USER_MIN \<or> USER_TOP < b + n \<or> b + n \<le> b \<or> \<not> range_free (pr_vads p) b (b + n)")
    case True
    hence "r = Inl STATUS_INVALID_PARAMETER \<or> r = Inl STATUS_CONFLICTING_ADDRESSES" "p' = p" using assms(1)[unfolded E] by (auto split: if_splits)
    with assms(2) show ?thesis by (auto simp: fixed_ok_def failed_refl)
  next
    case False
    obtain r1 p1 where i: "insert_vad v w p = (r1, p1)" by (cases "insert_vad v w p")
    have eq: "r = (if r1 then Inr () else Inl STATUS_NO_MEMORY)" "p' = p1" using assms(1)[unfolded E] False i by (simp_all add: run_apply)
    have place: "aligned b" "USER_MIN \<le> b" "b < b + n" "b + n \<le> USER_TOP" using False by (simp_all add: aligned_def not_less not_le)
    have "vad_ok w" using place aligned_add[OF place(1) aligned_up[of sz]] by (simp add: vad_ok_def w n_def)
    from insert_vad_refines[OF i assms(2) this] insert_vad_state(1)[OF i] False w eq place show ?thesis
      by (simp add: set_insert_in fixed_ok_def failed_refl filled_def b_def[symmetric] n_def[symmetric] cong: if_cong)
  qed
qed

text \<open>A change of one descriptor is a change of its addresses.\<close>

lemma upd_one:
  assumes wf: "vads_wf vs" and i: "i < length vs" and g: "keeps_place g" "\<And>w. attr_of (g w) = G (attr_of w)"
  shows "vads_wf (vs[i := g (vs ! i)]) \<and> space (vs[i := g (vs ! i)]) = change (v_start (vs ! i)) (v_end (vs ! i)) G (space vs)"
proof -
  have less: "v_start (vs ! i) < v_end (vs ! i)" by (rule ok_less[OF wf_nth[OF wf i]])
  have eq: "vs[i := g (vs ! i)] = upd_range g (v_start (vs ! i)) (v_end (vs ! i)) vs"
    using upd_range_step[OF wf i less g(1)] by (simp add: upd_range_empty)
  have "v_end (vs ! j) \<le> v_start (vs ! i) \<or> v_start (vs ! i) \<le> v_start (vs ! j)" if "j < length vs" for j
    using wf_order[OF wf, of j i] wf_order[OF wf, of i j] less that i by (cases j i rule: linorder_cases) auto
  hence "boundary (v_start (vs ! i)) vs" by (simp add: boundary_def list_all_length)
  with upd_range_space[OF wf g(1,2) _ boundary_next[OF wf i] less_imp_le[OF less]] wf show ?thesis
    by (simp add: eq upd_range_wf[OF g(1)] change_def fun_eq_iff)
qed


fun set_img :: "u64 \<Rightarrow> attr \<Rightarrow> attr" where
  "set_img img (st, pr, k, ap, ab, _) = (st, pr, k, ap, ab, img)"

lemma vad_insert_image_refines:
  assumes "vad_insert_image v start sz prot abase img p = (r, p')" "proc_wf p"
  shows "proc_wf p' \<and> fixed_ok start (up sz) (VAD_COMMITTED, prot, VK_IMAGE, prot, abase, img) r (space (pr_vads p)) (space (pr_vads p'))"
proof -
  obtain r1 p1 where i: "vad_insert_fixed v start sz VAD_COMMITTED prot VK_IMAGE abase p = (r1, p1)"
    by (cases "vad_insert_fixed v start sz VAD_COMMITTED prot VK_IMAGE abase p")
  note F = vad_insert_fixed_refines[OF i assms(2)]
  show ?thesis
  proof (cases r1)
    case (Inl e)
    with F assms(1) i show ?thesis by (auto simp: vad_insert_image_def chk_def run_apply fixed_ok_def)
  next
    case (Inr u)
    let ?n = "up sz" and ?a = "(VAD_COMMITTED, prot, VK_IMAGE, prot, abase, 0)"
    have F1: "start < start + ?n" "space (pr_vads p1) = filled start ?n ?a (space (pr_vads p))" and wf: "vads_wf (pr_vads p1)"
      using F Inr by (simp_all add: fixed_ok_def proc_wf_def)
    obtain w where w: "w \<in> set (pr_vads p1)" "v_start w = start" "v_end w = start + ?n" using F Inr by auto
    then obtain j where j: "j < length (pr_vads p1)" "pr_vads p1 ! j = w" by (metis in_set_conv_nth)
    have find: "vad_find (pr_vads p1) start = Some j" using vad_find_Some[OF wf] j w F1(1) by (simp add: holds_def)
    let ?g = "\<lambda>w :: vad. w\<lparr>v_img := img\<rparr>"
    have g: "keeps_place ?g" "attr_of (?g w) = set_img img (attr_of w)" for w :: vad by (simp_all add: keeps_place_def attr_of_def)
    have eq: "r = Inr ()" "pr_vads p' = (pr_vads p1)[j := ?g (pr_vads p1 ! j)]" "sized p1 \<Longrightarrow> sized p'"
      using assms(1) i Inr find by (auto simp: vad_insert_image_def chk_def run_apply upd_vad_def sized_def)
    from upd_one[OF wf j(1) g] F Inr F1(2) w j(2) eq show ?thesis
      by (auto simp: fixed_ok_def proc_wf_def change_def filled_def within_def)
  qed
qed


subsection \<open>Decommit and protection\<close>

fun decommit_attr :: "attr \<Rightarrow> attr" where
  "decommit_attr (st, rest) = (VAD_RESERVED, rest)"

fun protect_attr :: "u32 \<Rightarrow> attr \<Rightarrow> attr" where
  "protect_attr prot (st, pr, rest) = (st, prot, rest)"

lemma split_change:
  assumes split: "split_range v start stop p = (r1, p1)" and wf: "proc_wf p" "aligned start" "aligned stop" "start < stop"
    and cover: "all_in (pr_vads p) (\<lambda>_. True) start stop"
    and m: "kept m" and acts: "acts f g" "keeps_place g" "\<And>w. attr_of (g w) = G (attr_of w)"
    and run: "r1 \<Longrightarrow> p' = snd (vad_coalesce (snd (each_vad f start stop (snd (m p1)))))" "\<not> r1 \<Longrightarrow> p' = p1"
  shows "proc_wf p' \<and> (if r1 then space (pr_vads p') = change start stop G (space (pr_vads p)) else space (pr_vads p') \<subseteq>\<^sub>m space (pr_vads p))"
proof (cases r1)
  case True
  from change_range[OF split True wf cover keptD[OF m] acts] coalesce_state run(1)[OF True] True show ?thesis by auto
next
  case False
  with split_range_state[OF split wf(1-3)] run(2) show ?thesis by simp
qed

definition range_ok :: "u64 \<Rightarrow> u64 \<Rightarrow> (attr \<Rightarrow> bool) \<Rightarrow> (attr \<Rightarrow> attr) \<Rightarrow> nt_err + 'a \<Rightarrow> (u64 \<Rightarrow> attr option) \<Rightarrow> (u64 \<Rightarrow> attr option) \<Rightarrow> bool" where
  "range_ok start stop P G r S S' = (case r of Inl e \<Rightarrow> failed e S S'
     | Inr _ \<Rightarrow> start < stop \<and> (\<forall>x. start \<le> x \<and> x < stop \<longrightarrow> (\<exists>a. S x = Some a \<and> P a)) \<and> S' = change start stop G S)"

lemma all_in_attr:
  assumes wf: "vads_wf vs" and P: "\<And>w. P w \<longleftrightarrow> Q (attr_of w)"
    and all: "all_in vs P start stop" and x: "start \<le> x \<and> x < stop"
  shows "\<exists>a. space vs x = Some a \<and> Q a"
proof -
  from all x obtain w where "w \<in> set vs" "holds w x" "P w" unfolding all_in_def by blast
  with P have "space vs x = Some (attr_of w) \<and> Q (attr_of w)" by (auto simp: space_Some[OF wf])
  thus ?thesis ..
qed

lemma all_in_mono: "all_in vs P a b \<Longrightarrow> all_in vs (\<lambda>_. True) a b"
  by (auto simp: all_in_def)

lemma vad_decommit_refines:
  assumes "vad_decommit v base sz p = (r, p')" "proc_wf p"
  shows "proc_wf p' \<and> range_ok (base AND PAGE_MASK) (up (base + sz)) (\<lambda>_. True) decommit_attr r (space (pr_vads p)) (space (pr_vads p')) \<and>
    (\<forall>b n. r = Inr (b, n) \<longrightarrow> b = base AND PAGE_MASK \<and> n = up (base + sz) - b)"
proof -
  define start stop where "start = base AND PAGE_MASK" and "stop = up (base + sz)"
  have al: "aligned start" "aligned stop" by (simp_all add: start_def stop_def aligned_mask aligned_up)
  have wf: "vads_wf (pr_vads p)" using assms(2) by (simp add: proc_wf_def)
  have E: "vad_decommit v base sz p = (if sz = 0 \<or> stop \<le> start then (Inl STATUS_INVALID_PARAMETER, p)
     else if \<not> covered (pr_vads p) (\<lambda>_. True) start stop then (Inl STATUS_INVALID_PARAMETER, p)
     else run (split_range v start stop) (\<lambda>r. if \<not> r then ret (Inl STATUS_NO_MEMORY)
       else run (each_vad (decommit_vad v) start stop) (\<lambda>_. run vad_coalesce (\<lambda>_. ret (Inr (start, stop - start))))) p)"
    unfolding vad_decommit_def look_apply Let_def start_def[symmetric] stop_def[symmetric] by (simp add: if_distribR)
  show ?thesis
    unfolding start_def[symmetric] stop_def[symmetric]
  proof (cases "sz = 0 \<or> stop \<le> start \<or> \<not> covered (pr_vads p) (\<lambda>_. True) start stop")
    case True
    hence "r = Inl STATUS_INVALID_PARAMETER" "p' = p" using assms(1)[unfolded E] by (auto split: if_splits)
    with assms(2) show "proc_wf p' \<and> range_ok start stop (\<lambda>_. True) decommit_attr r (space (pr_vads p)) (space (pr_vads p')) \<and>
        (\<forall>b n. r = Inr (b, n) \<longrightarrow> b = start \<and> n = stop - b)" by (simp add: range_ok_def failed_refl)
  next
    case False
    obtain r1 p1 where s: "split_range v start stop p = (r1, p1)" by (cases "split_range v start stop p")
    have cover: "all_in (pr_vads p) (\<lambda>_. True) start stop" using False covered_iff[OF wf] by simp
    have less: "start < stop" using False by (simp add: not_le)
    have run: "r = (if r1 then Inr (start, stop - start) else Inl STATUS_NO_MEMORY)"
      "r1 \<Longrightarrow> p' = snd (vad_coalesce (snd (each_vad (decommit_vad v) start stop (snd (ret () p1)))))" "\<not> r1 \<Longrightarrow> p' = p1"
      using assms(1)[unfolded E] False s by (auto simp: run_apply split: if_splits)
    let ?g = "\<lambda>w :: vad. w\<lparr>v_state := VAD_RESERVED\<rparr>"
    have g: "keeps_place ?g" "attr_of (?g w) = decommit_attr (attr_of w)" for w :: vad by (simp_all add: keeps_place_def attr_of_def)
    from split_change[OF s assms(2) al less cover sh.keeps_ret acts_decommit g run(2,3)]
    have S: "proc_wf p' \<and> (if r1 then space (pr_vads p') = change start stop decommit_attr (space (pr_vads p)) else space (pr_vads p') \<subseteq>\<^sub>m space (pr_vads p))" .
    have "\<exists>a. space (pr_vads p) x = Some a" if "start \<le> x \<and> x < stop" for x
      using all_in_attr[OF wf _ cover that, of "\<lambda>_. True"] by simp
    with S run(1) less show "proc_wf p' \<and> range_ok start stop (\<lambda>_. True) decommit_attr r (space (pr_vads p)) (space (pr_vads p')) \<and>
        (\<forall>b n. r = Inr (b, n) \<longrightarrow> b = start \<and> n = stop - b)" by (auto simp: range_ok_def failed_def)
  qed
qed

lemma vad_protect_refines:
  assumes "vad_protect v base sz prot p = (r, p')" "proc_wf p"
  shows "proc_wf p' \<and> range_ok (base AND PAGE_MASK) (up (base + sz)) (\<lambda>a. fst a = VAD_COMMITTED) (protect_attr prot) r (space (pr_vads p)) (space (pr_vads p')) \<and>
    (\<forall>old. r = Inr old \<longrightarrow> prot_valid prot \<and> (\<exists>a. space (pr_vads p) (base AND PAGE_MASK) = Some a \<and> fst (snd a) = old))"
proof -
  define start stop where "start = base AND PAGE_MASK" and "stop = up (base + sz)"
  define old where "old = (case vad_find (pr_vads p) start of None \<Rightarrow> 0 | Some i \<Rightarrow> v_prot (pr_vads p ! i))"
  have al: "aligned start" "aligned stop" by (simp_all add: start_def stop_def aligned_mask aligned_up)
  have wf: "vads_wf (pr_vads p)" using assms(2) by (simp add: proc_wf_def)
  define m :: "('a, unit) vmact" where "m = (if parked prot then before_unmap v start stop False else ret ())"
  have E: "vad_protect v base sz prot p = (if sz = 0 \<or> stop \<le> start \<or> \<not> prot_valid prot then (Inl STATUS_INVALID_PARAMETER, p)
     else if \<not> covered (pr_vads p) (\<lambda>w. v_state w = VAD_COMMITTED) start stop then (Inl STATUS_INVALID_PARAMETER, p)
     else run (split_range v start stop) (\<lambda>r. if \<not> r then ret (Inl STATUS_NO_MEMORY)
       else run m (\<lambda>_. run (each_vad (\<lambda>i. vad_apply_prot i prot) start stop) (\<lambda>_. run vad_coalesce (\<lambda>_. ret (Inr old))))) p)"
    unfolding vad_protect_def look_apply Let_def start_def[symmetric] stop_def[symmetric] old_def[symmetric] m_def[symmetric] by (simp add: if_distribR)
  have "proc_wf p' \<and> range_ok start stop (\<lambda>a. fst a = VAD_COMMITTED) (protect_attr prot) r (space (pr_vads p)) (space (pr_vads p')) \<and>
    (\<forall>old. r = Inr old \<longrightarrow> prot_valid prot \<and> (\<exists>a. space (pr_vads p) start = Some a \<and> fst (snd a) = old))"
  proof (cases "sz = 0 \<or> stop \<le> start \<or> \<not> prot_valid prot \<or> \<not> covered (pr_vads p) (\<lambda>w. v_state w = VAD_COMMITTED) start stop")
    case True
    hence "r = Inl STATUS_INVALID_PARAMETER" "p' = p" using assms(1)[unfolded E] by (auto split: if_splits)
    with assms(2) show ?thesis by (simp add: range_ok_def failed_refl)
  next
    case False
    obtain r1 p1 where s: "split_range v start stop p = (r1, p1)" by (cases "split_range v start stop p")
    have cover: "all_in (pr_vads p) (\<lambda>w. v_state w = VAD_COMMITTED) start stop" using False covered_iff[OF wf] by simp
    have less: "start < stop" using False by (simp add: not_le)
    have run: "r = (if r1 then Inr old else Inl STATUS_NO_MEMORY)"
      "r1 \<Longrightarrow> p' = snd (vad_coalesce (snd (each_vad (\<lambda>i. vad_apply_prot i prot) start stop (snd (m p1)))))" "\<not> r1 \<Longrightarrow> p' = p1"
      using assms(1)[unfolded E] False s by (auto simp: run_apply split: if_splits)
    have m: "kept m" unfolding m_def by (intro kept_intros)
    let ?g = "\<lambda>w :: vad. w\<lparr>v_prot := prot\<rparr>"
    have g: "keeps_place ?g" "attr_of (?g w) = protect_attr prot (attr_of w)" for w :: vad by (simp_all add: keeps_place_def attr_of_def)
    from split_change[OF s assms(2) al less all_in_mono[OF cover] m acts_prot g run(2,3)]
    have S: "proc_wf p' \<and> (if r1 then space (pr_vads p') = change start stop (protect_attr prot) (space (pr_vads p)) else space (pr_vads p') \<subseteq>\<^sub>m space (pr_vads p))" .
    have C: "\<exists>a. space (pr_vads p) x = Some a \<and> fst a = VAD_COMMITTED" if "start \<le> x \<and> x < stop" for x
      by (rule all_in_attr[OF wf _ cover that]) (simp add: attr_of_def)
    have "space (pr_vads p) start \<noteq> None" using C[of start] less by auto
    hence "\<exists>a. space (pr_vads p) start = Some a \<and> fst (snd a) = old"
      by (auto simp: space_find[OF wf] old_def attr_of_def split: option.splits)
    with S run(1) less C False show ?thesis by (auto simp: range_ok_def failed_def)
  qed
  thus ?thesis by (simp add: start_def stop_def)
qed


subsection \<open>Release\<close>

lemma space_append: "space (a @ b) x = (case space a x of None \<Rightarrow> space b x | Some s \<Rightarrow> Some s)"
  by (induction a) (auto simp: space_Cons space_def)

lemma wf_append: "vads_wf (a @ b) \<longleftrightarrow> vads_wf a \<and> vads_wf b \<and> (\<forall>u \<in> set a. \<forall>w \<in> set b. v_end u \<le> v_start w)"
  by (auto simp: vads_wf_def sorted_wrt_append)

lemma wf_drop_middle: "vads_wf (a @ b @ c) \<Longrightarrow> vads_wf (a @ c)"
  by (auto simp: wf_append)

lemma wf_bounds:
  assumes "vads_wf (u # us)" "w \<in> set (u # us)"
  shows "v_start u \<le> v_start w \<and> v_end w \<le> v_end (last (u # us))"
proof -
  obtain i where i: "i < length (u # us)" "w = (u # us) ! i" using assms(2) by (metis in_set_conv_nth)
  have "v_start u \<le> v_start w"
    using i wf_order[OF assms(1), of 0 i] ok_less[OF wf_nth[OF assms(1), of 0]] by (cases i) (auto intro: order_trans[OF less_imp_le])
  moreover have "v_end w \<le> v_end (last (u # us))"
    using wf_ends[OF assms(1), of i "length us"] i last_conv_nth[of "u # us"] by (simp del: last.simps)
  ultimately show ?thesis ..
qed

lemma space_drop_middle:
  assumes wf: "vads_wf (a @ b @ c)" and "b \<noteq> []"
  shows "space (a @ c) x = (if v_start (hd b) \<le> x \<and> x < v_end (last b) then None else space (a @ b @ c) x)"
proof (cases "v_start (hd b) \<le> x \<and> x < v_end (last b)")
  case True
  have "\<not> holds w x" if "w \<in> set a" for w
    using wf \<open>b \<noteq> []\<close> that True by (auto simp: wf_append holds_def not_less intro: order_trans[OF _ conjunct1[OF True]])
  moreover have "\<not> holds w x" if "w \<in> set c" for w
    using wf \<open>b \<noteq> []\<close> that True by (auto simp: wf_append holds_def not_le intro: less_le_trans[OF conjunct2[OF True]])
  ultimately have "space (a @ c) x = None" by (auto simp: space_None)
  with True show ?thesis by simp
next
  case False
  have "vads_wf b" using wf by (simp add: wf_append)
  hence "\<not> holds w x" if "w \<in> set b" for w
    using wf_bounds[of "hd b" "tl b" w] that False \<open>b \<noteq> []\<close> by (auto simp: holds_def intro: order_trans less_le_trans)
  hence "space b x = None" by (simp add: space_None)
  with False show ?thesis by (auto simp: space_append split: option.split)
qed

text \<open>The loops that remove the descriptors of an allocation, from the index \<open>i\<close> on.\<close>

definition run_of :: "(vad \<Rightarrow> bool) \<Rightarrow> nat \<Rightarrow> vad list \<Rightarrow> vad list" where
  "run_of P i vs = takeWhile P (drop i vs)"

definition without_run :: "(vad \<Rightarrow> bool) \<Rightarrow> nat \<Rightarrow> vad list \<Rightarrow> vad list" where
  "without_run P i vs = take i vs @ dropWhile P (drop i vs)"

lemma run_split: "vs = take i vs @ run_of P i vs @ dropWhile P (drop i vs)"
  by (simp add: run_of_def)

lemma without_run_space:
  assumes wf: "vads_wf vs" and "run_of P i vs \<noteq> []"
  shows "vads_wf (without_run P i vs) \<and>
    space (without_run P i vs) x = (if v_start (hd (run_of P i vs)) \<le> x \<and> x < v_end (last (run_of P i vs)) then None else space vs x)"
proof -
  have wf': "vads_wf (take i vs @ run_of P i vs @ dropWhile P (drop i vs))" using wf run_split[of vs i P] by simp
  from wf_drop_middle[OF wf'] space_drop_middle[OF wf' assms(2), of x] show ?thesis
    by (simp add: without_run_def run_split[of vs i P, symmetric])
qed

lemma without_run_step:
  assumes "i < length vs" "P (vs ! i)"
  shows "run_of P i vs = vs ! i # run_of P i (take i vs @ drop (Suc i) vs)" "without_run P i vs = without_run P i (take i vs @ drop (Suc i) vs)"
  using assms by (simp_all add: run_of_def without_run_def Cons_nth_drop_Suc[symmetric])

lemma without_run_stop: "\<not> (i < length vs \<and> P (vs ! i)) \<Longrightarrow> run_of P i vs = [] \<and> without_run P i vs = vs"
  by (cases "i < length vs") (auto simp: run_of_def without_run_def Cons_nth_drop_Suc[symmetric] id_take_nth_drop[symmetric])

lemma release_loop_state:
  fixes base :: u64
  assumes "length (pr_vads p) \<le> k + i"
  defines "P \<equiv> \<lambda>w. v_alloc_base w = base"
  shows "pr_vads (snd (release_loop k v i base stop p)) = without_run P i (pr_vads p) \<and> pr_cap (snd (release_loop k v i base stop p)) = pr_cap p \<and>
    pr_mmap_hint (snd (release_loop k v i base stop p)) = pr_mmap_hint p \<and>
    fst (release_loop k v i base stop p) = (if run_of P i (pr_vads p) = [] then stop else v_end (last (run_of P i (pr_vads p))))"
  using assms(1)
proof (induction k arbitrary: p stop)
  case 0
  thus ?case using without_run_stop[of i "pr_vads p" P] by simp
next
  case (Suc k)
  show ?case
  proof (cases "i < length (pr_vads p) \<and> v_alloc_base (pr_vads p ! i) = base")
    case False
    thus ?thesis using without_run_stop[of i "pr_vads p" P] by (auto simp: P_def)
  next
    case True
    let ?w = "pr_vads p ! i"
    note same = keptD[OF kept_unmap[of v "v_start ?w" "v_end ?w"], of p]
    define p2 where "p2 = snd (vad_remove_at i (snd (unmap_pages v (v_start ?w) (v_end ?w) p)))"
    have p2: "pr_vads p2 = take i (pr_vads p) @ drop (Suc i) (pr_vads p)" "pr_cap p2 = pr_cap p" "pr_mmap_hint p2 = pr_mmap_hint p"
      by (simp_all add: p2_def vad_remove_at_def same)
    have "length (pr_vads p2) \<le> k + i" using Suc(2) True by (simp add: p2)
    from Suc(1)[OF this, of "v_end ?w"] True without_run_step[of i "pr_vads p" P] p2 show ?thesis
      by (simp add: run_apply Let_def p2_def[symmetric] P_def)
  qed
qed

lemma remove_view_loop_state:
  fixes base :: u64
  assumes "length (pr_vads p) \<le> k + i"
  defines "P \<equiv> \<lambda>w. v_alloc_base w = base \<and> v_kind w = VK_VIEW"
  shows "pr_vads (snd (remove_view_loop k i base found p)) = without_run P i (pr_vads p) \<and> pr_cap (snd (remove_view_loop k i base found p)) = pr_cap p \<and>
    pr_mmap_hint (snd (remove_view_loop k i base found p)) = pr_mmap_hint p \<and>
    fst (remove_view_loop k i base found p) = (found \<or> run_of P i (pr_vads p) \<noteq> [])"
  using assms(1)
proof (induction k arbitrary: p found)
  case 0
  thus ?case using without_run_stop[of i "pr_vads p" P] by simp
next
  case (Suc k)
  show ?case
  proof (cases "i < length (pr_vads p) \<and> v_alloc_base (pr_vads p ! i) = base \<and> v_kind (pr_vads p ! i) = VK_VIEW")
    case False
    thus ?thesis using without_run_stop[of i "pr_vads p" P] by (auto simp: P_def)
  next
    case True
    define p2 where "p2 = snd (vad_remove_at i p)"
    have p2: "pr_vads p2 = take i (pr_vads p) @ drop (Suc i) (pr_vads p)" "pr_cap p2 = pr_cap p" "pr_mmap_hint p2 = pr_mmap_hint p"
      by (simp_all add: p2_def vad_remove_at_def)
    have "length (pr_vads p2) \<le> k + i" using Suc(2) True by (simp add: p2)
    from Suc(1)[OF this, of True] True without_run_step[of i "pr_vads p" P] p2 show ?thesis
      by (simp add: run_apply p2_def[symmetric] P_def)
  qed
qed


fun attr_base :: "attr \<Rightarrow> u64" where "attr_base (_, _, _, _, ab, _) = ab"
fun attr_kind :: "attr \<Rightarrow> vad_kind" where "attr_kind (_, _, k, _) = k"

definition removed_ok :: "(attr \<Rightarrow> bool) \<Rightarrow> u64 \<Rightarrow> u64 \<Rightarrow> (u64 \<Rightarrow> attr option) \<Rightarrow> (u64 \<Rightarrow> attr option) \<Rightarrow> bool" where
  "removed_ok Q start n S S' = (start < start + n \<and> S' = emptied start n S \<and> (\<forall>x a. within start n x \<longrightarrow> S x = Some a \<longrightarrow> Q a) \<and> (\<exists>a. S start = Some a \<and> Q a))"

lemma without_run_removed:
  assumes wf: "vads_wf vs" and ne: "run_of P i vs \<noteq> []" and P: "\<And>w. P w \<longleftrightarrow> Q (attr_of w)"
  defines "start \<equiv> v_start (hd (run_of P i vs))" and "stop \<equiv> v_end (last (run_of P i vs))"
  shows "removed_ok Q start (stop - start) (space vs) (space (without_run P i vs))"
proof -
  let ?b = "run_of P i vs"
  have wf': "vads_wf (take i vs @ ?b @ dropWhile P (drop i vs))" using wf run_split[of vs i P] by simp
  hence b: "vads_wf ?b" by (simp add: wf_append)
  have b_in: "w \<in> set vs" "P w" if "w \<in> set ?b" for w
    using that run_split[of vs i P] set_takeWhileD[of w P "drop i vs"] by (auto simp: run_of_def dest: in_set_dropD)
  have hd: "hd ?b \<in> set ?b" using ne by simp
  have h: "start < stop"
    using wf_bounds[of "hd ?b" "tl ?b" "hd ?b"] b ne ok_less[of "hd ?b"] by (auto simp: start_def stop_def vads_wf_def list_all_iff)
  have "space (without_run P i vs) = emptied start (stop - start) (space vs)"
    using without_run_space[OF wf ne] by (simp add: emptied_def within_def start_def stop_def fun_eq_iff)
  moreover have "Q a" if "within start (stop - start) x" "space vs x = Some a" for x a
  proof -
    from that(2) obtain w where w: "w \<in> set vs" "holds w x" "attr_of w = a" by (auto simp: space_Some[OF wf])
    have "w \<in> set ?b"
    proof (rule ccontr)
      assume "w \<notin> set ?b"
      hence "w \<in> set (take i vs @ dropWhile P (drop i vs))" using w(1) run_split[of vs i P] by (metis Un_iff set_append)
      hence "space (take i vs @ dropWhile P (drop i vs)) x \<noteq> None" using w(2) by (simp only: space_None) blast
      with space_drop_middle[OF wf' ne, of x] that(1) show False by (simp add: within_def start_def stop_def)
    qed
    with b_in(2) P w(3) show ?thesis by auto
  qed
  moreover have "space vs start = Some (attr_of (hd ?b))" "Q (attr_of (hd ?b))"
    using b_in[OF hd] P ok_less[of "hd ?b"] b hd by (auto simp: space_Some[OF wf] holds_def start_def vads_wf_def list_all_iff)
  ultimately show ?thesis using h by (simp add: removed_ok_def)
qed

definition release_ok :: "u64 \<Rightarrow> nt_err + u64 \<times> u64 \<Rightarrow> (u64 \<Rightarrow> attr option) \<Rightarrow> (u64 \<Rightarrow> attr option) \<Rightarrow> bool" where
  "release_ok base r S S' = (case r of Inl e \<Rightarrow> S' = S
     | Inr (b, n) \<Rightarrow> b = base \<and> (\<exists>start. within start n base \<and> removed_ok (\<lambda>a. attr_base a = base) start n S S'))"

lemma proc_wf_removed:
  assumes "proc_wf p" "pr_vads p' = without_run P i (pr_vads p)" "pr_cap p' = pr_cap p" "pr_mmap_hint p' = pr_mmap_hint p"
  shows "proc_wf p'"
proof (cases "run_of P i (pr_vads p) = []")
  case True
  hence "pr_vads p' = pr_vads p" using assms(2) run_split[of "pr_vads p" i P] by (simp add: without_run_def run_of_def)
  with assms show ?thesis by (simp add: proc_wf_def sized_def)
next
  case False
  have "length (without_run P i (pr_vads p)) \<le> length (pr_vads p)"
    using arg_cong[OF run_split[of "pr_vads p" i P], of length] by (simp add: without_run_def)
  with assms without_run_space[OF _ False] show ?thesis by (auto simp: proc_wf_def sized_def)
qed

lemma vad_release_refines:
  assumes "vad_release v base sz p = (r, p')" "proc_wf p"
  shows "proc_wf p' \<and> release_ok base r (space (pr_vads p)) (space (pr_vads p'))"
proof -
  have wf: "vads_wf (pr_vads p)" using assms(2) by (simp add: proc_wf_def)
  let ?P = "\<lambda>w. v_alloc_base w = base"
  consider (err) "\<exists>e. r = Inl e" "p' = p"
    | (ok) i where "vad_find (pr_vads p) base = Some i" "?P (pr_vads p ! i)"
        "(r, p') = run (release_loop (length (pr_vads p)) v (vad_lower (pr_vads p) (v_start (pr_vads p ! i))) base (v_start (pr_vads p ! i)))
           (\<lambda>stop. ret (Inr (base, stop - v_start (pr_vads p ! i)))) p"
    using assms(1) by (cases "vad_find (pr_vads p) base") (auto simp: vad_release_def Let_def split: if_splits)
  thus ?thesis
  proof cases
    case err
    with assms(2) show ?thesis by (auto simp: release_ok_def)
  next
    case ok
    let ?w = "pr_vads p ! i"
    have i: "i < length (pr_vads p)" "holds ?w base" using vad_find_Some[OF wf] ok(1) by simp_all
    have "holds ?w (v_start ?w)" using ok_less[OF wf_nth[OF wf i(1)]] by (simp add: holds_def)
    hence low: "vad_lower (pr_vads p) (v_start ?w) = i" by (rule lower_holds[OF wf i(1)])
    note L = release_loop_state[of p "length (pr_vads p)" i v base "v_start ?w"]
    have ne: "run_of ?P i (pr_vads p) \<noteq> []" and hd: "hd (run_of ?P i (pr_vads p)) = ?w"
      using without_run_step(1)[of i "pr_vads p" ?P] i(1) ok(2) by simp_all
    let ?stop = "v_end (last (run_of ?P i (pr_vads p)))"
    have eq: "r = Inr (base, ?stop - v_start ?w)" "pr_vads p' = without_run ?P i (pr_vads p)" "pr_cap p' = pr_cap p" "pr_mmap_hint p' = pr_mmap_hint p"
      using ok(3) low L ne by (simp_all add: run_apply)
    have rem: "removed_ok (\<lambda>a. attr_base a = base) (v_start ?w) (?stop - v_start ?w) (space (pr_vads p)) (space (pr_vads p'))"
      using without_run_removed[OF wf ne, of "\<lambda>a. attr_base a = base"] by (simp add: hd eq attr_of_def)
    have "within (v_start ?w) (?stop - v_start ?w) base"
    proof -
      have "vads_wf (run_of ?P i (pr_vads p))" using wf run_split[of "pr_vads p" i ?P] by (metis wf_append)
      moreover have "?w \<in> set (run_of ?P i (pr_vads p))" using ne hd by (metis hd_in_set)
      ultimately have "v_end ?w \<le> ?stop" using wf_bounds[of "hd (run_of ?P i (pr_vads p))" "tl (run_of ?P i (pr_vads p))" ?w] ne by simp
      with i(2) show ?thesis by (auto simp: within_def holds_def intro: less_le_trans)
    qed
    with rem eq proc_wf_removed[OF assms(2) eq(2-4)] show ?thesis by (auto simp: release_ok_def)
  qed
qed

definition unview_ok :: "u64 \<Rightarrow> nt_err + unit \<Rightarrow> (u64 \<Rightarrow> attr option) \<Rightarrow> (u64 \<Rightarrow> attr option) \<Rightarrow> bool" where
  "unview_ok base r S S' = (case r of Inl e \<Rightarrow> S' = S
     | Inr _ \<Rightarrow> \<exists>start n. removed_ok (\<lambda>a. attr_base a = base \<and> attr_kind a = VK_VIEW) start n S S')"

lemma vad_remove_view_refines:
  assumes "vad_remove_view base p = (r, p')" "proc_wf p"
  shows "proc_wf p' \<and> unview_ok base r (space (pr_vads p)) (space (pr_vads p'))"
proof -
  have wf: "vads_wf (pr_vads p)" using assms(2) by (simp add: proc_wf_def)
  let ?P = "\<lambda>w. v_alloc_base w = base \<and> v_kind w = VK_VIEW" and ?i = "vad_lower (pr_vads p) base"
  note L = remove_view_loop_state[of p "length (pr_vads p)" ?i base False]
  have eq: "r = (if run_of ?P ?i (pr_vads p) \<noteq> [] then Inr () else Inl STATUS_NOT_MAPPED_VIEW)" "pr_vads p' = without_run ?P ?i (pr_vads p)"
    "pr_cap p' = pr_cap p" "pr_mmap_hint p' = pr_mmap_hint p"
    using assms(1) L by (auto simp: vad_remove_view_def run_apply)
  show ?thesis
  proof (cases "run_of ?P ?i (pr_vads p) = []")
    case True
    hence "pr_vads p' = pr_vads p" using eq(2) run_split[of "pr_vads p" ?i ?P] by (simp add: without_run_def run_of_def)
    with True eq proc_wf_removed[OF assms(2) eq(2-4)] show ?thesis by (simp add: unview_ok_def)
  next
    case False
    from without_run_removed[OF wf False, of "\<lambda>a. attr_base a = base \<and> attr_kind a = VK_VIEW"]
    show ?thesis using False eq proc_wf_removed[OF assms(2) eq(2-4)] by (auto simp: unview_ok_def attr_of_def)
  qed
qed

end
