(* ===== verification/Vm_Calls.thy ===== *)
theory Vm_Calls
  imports Vm_Spec
begin

unbundle bit_operations_syntax

section \<open>Calls on an address space\<close>

text \<open>
  The calls that change a process's addresses as one data type, with the contract \<open>vm_spec\<close> of each and the proof that it holds.
\<close>

subsection \<open>Calls\<close>

datatype vm_call =
    Vm_Alloc u64 u64 u32 u32 vad_kind
  | Vm_Fixed u64 u64 vad_state u32 vad_kind u64
  | Vm_Image u64 u64 u32 u64 u64
  | Vm_Free u64 u64 u32
  | Vm_Protect u64 u64 u32
  | Vm_Unview u64

text \<open>The result is the base and the size, for \<open>Vm_Protect\<close> the old protection.\<close>

fun vm_exec :: "'c vm_env \<Rightarrow> vm_call \<Rightarrow> ('c, nt_err + u64 \<times> u64) vmact" where
  "vm_exec v (Vm_Alloc base sz type prot kind) = vad_alloc v base sz type prot kind"
| "vm_exec v (Vm_Fixed start sz st prot kind abase) = chk (vad_insert_fixed v start sz st prot kind abase) (\<lambda>_. ret (Inr (start, up sz)))"
| "vm_exec v (Vm_Image start sz prot abase img) = chk (vad_insert_image v start sz prot abase img) (\<lambda>_. ret (Inr (start, up sz)))"
| "vm_exec v (Vm_Free base sz type) = vad_free v base sz type"
| "vm_exec v (Vm_Protect base sz prot) = chk (vad_protect v base sz prot) (\<lambda>old. ret (Inr (ucast old, 0)))"
| "vm_exec v (Vm_Unview base) = chk (vad_remove_view base) (\<lambda>_. ret (Inr (0, 0)))"

fun vm_safe :: "vm_call \<Rightarrow> vad list \<Rightarrow> bool" where
  "vm_safe (Vm_Alloc base sz type prot kind) vs = no_wrap base type (alloc_len base sz) vs"
| "vm_safe _ vs = True"

definition added :: "u64 \<Rightarrow> u64 \<Rightarrow> attr \<Rightarrow> (u64 \<Rightarrow> attr option) \<Rightarrow> (u64 \<Rightarrow> attr option) \<Rightarrow> bool" where
  "added b n a S S' = (b AND 0xfff = 0 \<and> USER_MIN \<le> b \<and> b < b + n \<and> b + n \<le> USER_TOP \<and> (\<forall>x. within b n x \<longrightarrow> S x = None) \<and> S' = filled b n a S)"

definition changed :: "u64 \<Rightarrow> u64 \<Rightarrow> (attr \<Rightarrow> bool) \<Rightarrow> (attr \<Rightarrow> attr) \<Rightarrow> (u64 \<Rightarrow> attr option) \<Rightarrow> (u64 \<Rightarrow> attr option) \<Rightarrow> bool" where
  "changed b e P G S S' = (b < e \<and> (\<forall>x. b \<le> x \<and> x < e \<longrightarrow> (\<exists>a. S x = Some a \<and> P a)) \<and> S' = change b e G S)"

text \<open>What a call that succeeds does to the map.\<close>

fun vm_spec :: "vm_call \<Rightarrow> u64 \<times> u64 \<Rightarrow> (u64 \<Rightarrow> attr option) \<Rightarrow> (u64 \<Rightarrow> attr option) \<Rightarrow> bool" where
  "vm_spec (Vm_Alloc base sz type prot kind) (b, n) S S' = (n = alloc_len base sz \<and>
     (if base = 0 \<or> has type MEM_RESERVE then added b n (new_attr (has type MEM_COMMIT) prot kind b) S S'
      else changed b (b + n) (\<lambda>_. True) (commit_attr prot) S S'))"
| "vm_spec (Vm_Fixed start sz st prot kind abase) (b, n) S S' = (b = start \<and> n = up sz \<and> added b n (st, prot, kind, prot, abase, 0) S S')"
| "vm_spec (Vm_Image start sz prot abase img) (b, n) S S' = (b = start \<and> n = up sz \<and> added b n (VAD_COMMITTED, prot, VK_IMAGE, prot, abase, img) S S')"
| "vm_spec (Vm_Free base sz type) (b, n) S S' = (if type = MEM_RELEASE
     then b = base \<and> (\<exists>start. within start n base \<and> removed_ok (\<lambda>a. attr_base a = base) start n S S')
     else b = base AND PAGE_MASK \<and> b + n = up (base + sz) \<and> changed b (b + n) (\<lambda>_. True) decommit_attr S S')"
| "vm_spec (Vm_Protect base sz prot) (old, _) S S' = (prot_valid prot \<and>
     changed (base AND PAGE_MASK) (up (base + sz)) (\<lambda>a. fst a = VAD_COMMITTED) (protect_attr prot) S S' \<and>
     (\<exists>a. S (base AND PAGE_MASK) = Some a \<and> old = ucast (fst (snd a))))"
| "vm_spec (Vm_Unview base) _ S S' = (\<exists>start n. removed_ok (\<lambda>a. attr_base a = base \<and> attr_kind a = VK_VIEW) start n S S')"

definition vm_result :: "vm_call \<Rightarrow> nt_err + u64 \<times> u64 \<Rightarrow> (u64 \<Rightarrow> attr option) \<Rightarrow> (u64 \<Rightarrow> attr option) \<Rightarrow> bool" where
  "vm_result c r S S' = (case r of Inl e \<Rightarrow> failed e S S' | Inr x \<Rightarrow> vm_spec c x S S')"

lemma chk_result: "chk m (\<lambda>x. ret (Inr (f x))) p = (r, p') \<Longrightarrow> \<exists>r1. m p = (r1, p') \<and> r = (case r1 of Inl e \<Rightarrow> Inl e | Inr x \<Rightarrow> Inr (f x))"
  by (cases "m p") (auto simp: chk_def run_apply split: sum.splits)

lemma fixed_added: "fixed_ok b n a r S S' = (case r of Inl e \<Rightarrow> failed e S S' | Inr _ \<Rightarrow> added b n a S S')"
  by (simp add: fixed_ok_def added_def aligned_def split: sum.split)

lemma vad_free_refines:
  assumes "vad_free v base sz type p = (r, p')" "proc_wf p"
  shows "proc_wf p' \<and> vm_result (Vm_Free base sz type) r (space (pr_vads p)) (space (pr_vads p'))"
proof -
  consider (err) e where "r = Inl e" "p' = p" | (release) "type = MEM_RELEASE" "vad_release v base sz p = (r, p')"
    | (decommit) "type = MEM_DECOMMIT" "vad_decommit v base sz p = (r, p')"
    using assms(1) unfolding vad_free_def look_apply by (auto split: if_splits)
  thus ?thesis
  proof cases
    case err
    with assms(2) show ?thesis by (simp add: vm_result_def failed_refl)
  next
    case release
    with vad_release_refines[OF release(2) assms(2)] show ?thesis
      by (auto simp: vm_result_def release_ok_def failed_def split: sum.splits)
  next
    case decommit
    with vad_decommit_refines[OF decommit(2) assms(2)] show ?thesis
      by (auto simp: vm_result_def range_ok_def changed_def split: sum.splits)
  qed
qed

lemma vm_exec_refines:
  assumes "vm_exec v c p = (r, p')" "proc_wf p" "vm_safe c (pr_vads p)"
  shows "proc_wf p' \<and> vm_result c r (space (pr_vads p)) (space (pr_vads p'))"
proof (cases c)
  case (Vm_Alloc base sz type prot kind)
  with assms vad_alloc_refines[of v base sz type prot kind p r p'] show ?thesis
    by (auto simp: vm_result_def alloc_ok_def added_def changed_def aligned_def within_def split: sum.splits if_splits)
next
  case (Vm_Fixed start sz st prot kind abase)
  with assms(1) obtain r1 where "vad_insert_fixed v start sz st prot kind abase p = (r1, p')" "r = (case r1 of Inl e \<Rightarrow> Inl e | Inr x \<Rightarrow> Inr (start, up sz))"
    using chk_result by fastforce
  with Vm_Fixed vad_insert_fixed_refines[OF this(1) assms(2)] show ?thesis by (auto simp: fixed_added vm_result_def split: sum.splits)
next
  case (Vm_Image start sz prot abase img)
  with assms(1) obtain r1 where "vad_insert_image v start sz prot abase img p = (r1, p')" "r = (case r1 of Inl e \<Rightarrow> Inl e | Inr x \<Rightarrow> Inr (start, up sz))"
    using chk_result by fastforce
  with Vm_Image vad_insert_image_refines[OF this(1) assms(2)] show ?thesis by (auto simp: fixed_added vm_result_def split: sum.splits)
next
  case (Vm_Free base sz type)
  with assms vad_free_refines show ?thesis by (metis vm_exec.simps(4))
next
  case (Vm_Protect base sz prot)
  with assms(1) obtain r1 where "vad_protect v base sz prot p = (r1, p')" "r = (case r1 of Inl e \<Rightarrow> Inl e | Inr old \<Rightarrow> Inr (ucast old, 0))"
    using chk_result by fastforce
  with Vm_Protect vad_protect_refines[OF this(1) assms(2)] show ?thesis
    by (auto simp: vm_result_def range_ok_def changed_def split: sum.splits)
next
  case (Vm_Unview base)
  with assms(1) obtain r1 where "vad_remove_view base p = (r1, p')" "r = (case r1 of Inl e \<Rightarrow> Inl e | Inr old \<Rightarrow> Inr (0, 0))"
    using chk_result by fastforce
  with Vm_Unview vad_remove_view_refines[OF this(1) assms(2)] show ?thesis
    by (auto simp: vm_result_def unview_ok_def failed_def split: sum.splits)
qed

end
