(* ===== verification/Vm_History.thy ===== *)
theory Vm_History
  imports Vm_Calls
begin

unbundle bit_operations_syntax

section \<open>Queries, faults and histories\<close>

text \<open>
  What a query reports is what the map says; a fault is answered only where the map allows the access; the arrays stay well formed over
  every history of a process.
\<close>

subsection \<open>Pages\<close>

lemma mask_unat: "unat (a AND PAGE_MASK) = 4096 * (unat a div 4096)"
proof -
  have mask: "PAGE_MASK = NOT (mask 12)" by (simp add: mask_eq_exp_minus_1)
  have "a AND PAGE_MASK = push_bit 12 (drop_bit 12 a)"
    unfolding mask by (rule bit_word_eqI) (auto simp: bit_simps)
  hence "unat (a AND PAGE_MASK) = (unat a div 4096 * 4096) mod 2 ^ 64"
    by (simp add: push_bit_eq_mult drop_bit_eq_div unat_word_ariths unat_div mod_mult_left_eq)
  moreover have "unat a div 4096 * 4096 < 2 ^ LENGTH(64)"
    by (rule order_le_less_trans[OF div_times_less_eq_dividend unsigned_less])
  ultimately show ?thesis by simp
qed

lemma aligned_le_page: "aligned s \<Longrightarrow> s \<le> a AND PAGE_MASK \<longleftrightarrow> s \<le> a"
proof -
  assume "aligned s"
  then obtain k where "unat s = 4096 * k" by (auto simp: aligned_iff)
  thus ?thesis by (auto simp: word_le_nat_alt mask_unat)
qed

lemma page_less: "aligned e \<Longrightarrow> a AND PAGE_MASK < e \<longleftrightarrow> a < e"
  using aligned_le_page[of e a] by (simp only: not_le[symmetric])

lemma holds_page: "vad_ok w \<Longrightarrow> holds w (a AND PAGE_MASK) = holds w a"
  by (simp add: holds_def vad_ok_def aligned_le_page page_less)

lemma space_page: "vads_wf vs \<Longrightarrow> space vs (a AND PAGE_MASK) = space vs a"
proof -
  assume wf: "vads_wf vs"
  hence "vad_ok w" if "w \<in> set vs" for w using that by (simp add: vads_wf_def list_all_iff)
  with wf show ?thesis by (intro space_eqI) (auto simp: holds_page)
qed

subsection \<open>Queries\<close>

definition describes :: "mem_info \<Rightarrow> attr option \<Rightarrow> bool" where
  "describes mi s = (case s of None \<Rightarrow> mi_state mi = MS_FREE
     | Some (st, prot, kind, aprot, abase, img) \<Rightarrow> mi_alloc_base mi = abase \<and> mi_alloc_prot mi = aprot \<and>
         mi_state mi = (case st of VAD_RESERVED \<Rightarrow> MS_RESERVE | VAD_COMMITTED \<Rightarrow> MS_COMMIT) \<and>
         mi_prot mi = (case st of VAD_RESERVED \<Rightarrow> 0 | VAD_COMMITTED \<Rightarrow> prot) \<and>
         mi_type mi = (case kind of VK_IMAGE \<Rightarrow> MT_IMAGE | VK_VIEW \<Rightarrow> MT_MAPPED | _ \<Rightarrow> MT_PRIVATE))"

lemma vad_query_sound:
  assumes "proc_wf p" "vad_query p addr = Inr mi"
  shows "addr < USER_TOP \<and> within (mi_base mi) (mi_size mi) addr \<and> (\<forall>x. within (mi_base mi) (mi_size mi) x \<longrightarrow> describes mi (space (pr_vads p) x))"
proof -
  define vs where "vs = pr_vads p"
  have wf: "vads_wf vs" using assms(1) by (simp add: proc_wf_def vs_def)
  have top: "addr < USER_TOP" using assms(2) by (simp add: vad_query_def Let_def not_le split: if_splits)
  let ?page = "addr AND PAGE_MASK"
  show ?thesis
  proof (cases "vad_find vs ?page")
    case (Some i)
    let ?w = "vs ! i"
    have i: "i < length vs" "holds ?w ?page" using vad_find_Some[OF wf] Some by simp_all
    have mi: "mi = \<lparr>mi_base = v_start ?w, mi_alloc_base = v_alloc_base ?w, mi_alloc_prot = v_alloc_prot ?w, mi_size = v_end ?w - v_start ?w,
        mi_state = (if v_state ?w = VAD_COMMITTED then MS_COMMIT else MS_RESERVE), mi_prot = (if v_state ?w = VAD_COMMITTED then v_prot ?w else 0),
        mi_type = (case v_kind ?w of VK_IMAGE \<Rightarrow> MT_IMAGE | VK_VIEW \<Rightarrow> MT_MAPPED | _ \<Rightarrow> MT_PRIVATE)\<rparr>"
      using assms(2) Some top by (simp add: vad_query_def Let_def vs_def[symmetric] not_le[symmetric] split: if_splits)
    have "describes mi (space vs x)" if "holds ?w x" for x
      using space_nth[OF wf i(1) that] by (cases "v_state ?w") (simp_all add: describes_def attr_of_def mi)
    moreover have "within (mi_base mi) (mi_size mi) x \<longleftrightarrow> holds ?w x" for x by (simp add: mi within_def holds_def)
    moreover have "holds ?w addr" using i holds_page[OF wf_nth[OF wf i(1)]] by simp
    ultimately show ?thesis using top by (simp add: vs_def)
  next
    case None
    let ?i = "vad_lower vs addr" and ?stop = "if vad_lower vs addr < length vs then v_start (vs ! vad_lower vs addr) else USER_TOP"
    have mi: "mi_base mi = ?page" "mi_size mi = ?stop - ?page" "mi_state mi = MS_FREE"
      using assms(2) None top by (auto simp: vad_query_def Let_def vs_def[symmetric] not_le[symmetric] split: if_splits)
    have free: "\<not> holds w addr" if "w \<in> set vs" for w
      using vad_find_None[OF wf, of ?page] None that holds_page[of w addr] wf by (auto simp: vads_wf_def list_all_iff)
    have stop: "addr < ?stop"
    proof (cases "?i < length vs")
      case True
      with lower_iff[OF wf True, of addr] free[of "vs ! ?i"] show ?thesis by (auto simp: holds_def not_le)
    qed (simp add: top)
    have "\<not> holds w x" if "w \<in> set vs" "?page \<le> x" "x < ?stop" for w x
    proof -
      obtain j where j: "j < length vs" "w = vs ! j" using \<open>w \<in> set vs\<close> by (metis in_set_conv_nth)
      show ?thesis
      proof (cases "j < ?i")
        case True
        hence "v_end w \<le> ?page" using lower_iff[OF wf j(1), of addr] wf_nth[OF wf j(1)] j(2) by (simp add: vad_ok_def aligned_le_page)
        with that(2) show ?thesis by (auto simp: holds_def not_less intro: order_trans)
      next
        case False
        hence i: "?i < length vs" using j by simp
        have "v_start (vs ! ?i) \<le> v_start w"
          using False j wf_order[OF wf, of ?i j] ok_less[OF wf_nth[OF wf i]] by (cases "?i = j") (auto intro: order_trans[OF less_imp_le])
        with that(3) i show ?thesis by (auto simp: holds_def not_le intro: less_le_trans)
      qed
    qed
    hence "describes mi (space vs x)" if "within (mi_base mi) (mi_size mi) x" for x
      using that mi space_None[of vs x] by (simp add: describes_def within_def)
    moreover have "?page \<le> addr" using aligned_le_page[OF aligned_mask(1), of addr addr] by simp
    ultimately show ?thesis using top stop mi by (simp add: within_def vs_def)
  qed
qed


subsection \<open>Faults\<close>

fun unguard :: "attr \<Rightarrow> attr" where
  "unguard (st, prot, rest) = (st, prot AND NOT 0x100, rest)"

definition guard_hit :: "(u64 \<Rightarrow> attr option) \<Rightarrow> (u64 \<Rightarrow> attr option) \<Rightarrow> bool" where
  "guard_hit S S' = (\<forall>x. S' x = S x \<or> S' x = map_option unguard (S x))"

lemma unguard_idem [simp]: "unguard (unguard a) = unguard a"
  by (cases a) (simp add: and.assoc)

lemma guard_hit_trans: "guard_hit S T \<Longrightarrow> guard_hit T U \<Longrightarrow> guard_hit S U"
proof -
  assume "guard_hit S T" "guard_hit T U"
  hence "(T x = S x \<or> T x = map_option unguard (S x)) \<and> (U x = T x \<or> U x = map_option unguard (T x))" for x
    by (simp add: guard_hit_def)
  moreover have "map_option unguard (map_option unguard z) = map_option unguard z" for z by (cases z) simp_all
  ultimately have "U x = S x \<or> U x = map_option unguard (S x)" for x by (metis (no_types))
  thus ?thesis by (simp add: guard_hit_def)
qed

text \<open>Faults, and the copies that fault, change the map only by clearing guards.\<close>

definition faulting :: "'c process \<Rightarrow> 'c process \<Rightarrow> bool" where
  "faulting p p' = (proc_wf p \<longrightarrow> proc_wf p' \<and> guard_hit (space (pr_vads p)) (space (pr_vads p')))"

interpretation vf: frame_rel faulting
proof unfold_locales
  show "faulting p p" for p :: "'a process" by (simp add: faulting_def guard_hit_def)
  show "faulting p p' \<Longrightarrow> faulting p' p'' \<Longrightarrow> faulting p p''" for p p' p'' :: "'a process"
    unfolding faulting_def by (blast intro: guard_hit_trans)
qed

lemma faulting_kept: "kept m \<Longrightarrow> keeps faulting m"
  by (simp add: keeps_def same_shape_def faulting_def proc_wf_def sized_def guard_hit_def)

lemmas faulting_phys = faulting_kept[OF kept_phys]
lemmas faulting_env = faulting_kept[OF kept_env]

lemma clear_guard_state: "pr_vads (snd (clear_guard i p)) = (pr_vads p)[i := (\<lambda>w. w\<lparr>v_prot := v_prot w AND NOT 0x100\<rparr>) (pr_vads p ! i)]"
  "pr_cap (snd (clear_guard i p)) = pr_cap p" "pr_mmap_hint (snd (clear_guard i p)) = pr_mmap_hint p"
  by (simp_all add: clear_guard_def upd_vad_def)

lemma clear_guard_space:
  assumes "proc_wf p" "i < length (pr_vads p)"
  shows "proc_wf (snd (clear_guard i p)) \<and>
    space (pr_vads (snd (clear_guard i p))) = change (v_start (pr_vads p ! i)) (v_end (pr_vads p ! i)) unguard (space (pr_vads p))"
proof -
  have wf: "vads_wf (pr_vads p)" using assms(1) by (simp add: proc_wf_def)
  have g: "keeps_place (\<lambda>w :: vad. w\<lparr>v_prot := v_prot w AND NOT 0x100\<rparr>)"
    "attr_of (w\<lparr>v_prot := v_prot w AND NOT 0x100\<rparr>) = unguard (attr_of w)" for w :: vad
    by (simp_all add: keeps_place_def attr_of_def)
  from upd_one[OF wf assms(2) g] assms(1) show ?thesis
    by (simp only: proc_wf_def sized_def clear_guard_state length_list_update simp_thms)
qed

lemma faulting_guard: "keeps faulting (clear_guard i)"
  unfolding keeps_def
proof
  fix p :: "'a process"
  show "faulting p (snd (clear_guard i p))"
  proof (cases "i < length (pr_vads p)")
    case True
    with clear_guard_space[of p i] show ?thesis by (auto simp: faulting_def guard_hit_def change_def)
  next
    case False
    hence "pr_vads (snd (clear_guard i p)) = pr_vads p" by (simp add: clear_guard_state list_update_beyond)
    thus ?thesis by (simp add: faulting_def proc_wf_def sized_def clear_guard_state(2,3) guard_hit_def)
  qed
qed

lemmas fault_intros = vf.keeps_rules faulting_phys faulting_env faulting_guard

lemma faulting_image: "keeps faulting (ldr_image_fault v img addr)"
  unfolding ldr_image_fault_def Let_def by (intro fault_intros)

lemma faulting_view: "keeps faulting (view_fault v i addr write exec)"
  unfolding view_fault_def Let_def by (intro fault_intros)

lemma faulting_fault: "keeps faulting (user_fault_in v addr write exec)"
  unfolding user_fault_in_def Let_def by (intro fault_intros faulting_image faulting_view)

lemma faulting_page: "keeps faulting (user_page v uva write)"
  unfolding user_page_def Let_def by (intro fault_intros faulting_fault)

lemma faulting_kpage: "keeps faulting (image_kpage v va)"
  unfolding image_kpage_def Let_def by (intro fault_intros faulting_image)

lemma faulting_copy_from: "keeps faulting (copy_from_user v uva n)"
proof -
  have "keeps faulting (copy_from_loop k v uva n)" for k uva n
    by (induction k arbitrary: uva n) (auto simp: Let_def intro!: fault_intros faulting_page)
  thus ?thesis unfolding copy_from_user_def by (intro fault_intros)
qed

lemma faulting_copy_to: "keeps faulting (copy_to_user v uva bs)"
proof -
  have "keeps faulting (copy_to_loop k v uva bs)" for k uva bs
    by (induction k arbitrary: uva bs) (auto simp: Let_def intro!: fault_intros faulting_page)
  thus ?thesis unfolding copy_to_user_def by (intro fault_intros)
qed

lemma faulting_string: "keeps faulting (user_string_len v uva n)"
proof -
  have "keeps faulting (string_len_loop k v uva n)" for k n
    by (induction k arbitrary: n) (auto intro!: fault_intros faulting_page)
  thus ?thesis unfolding user_string_len_def .
qed

lemma faulting_poke: "keeps faulting (image_poke v va bs)"
proof -
  have "keeps faulting (image_poke_loop k v va bs)" for k va bs
    by (induction k arbitrary: va bs) (auto simp: Let_def intro!: fault_intros faulting_kpage)
  thus ?thesis unfolding image_poke_def by (intro fault_intros)
qed

lemma faulting_peek: "keeps faulting (image_peek v va n)"
proof -
  have "keeps faulting (image_peek_loop k v va n)" for k va n
    by (induction k arbitrary: va n) (auto simp: Let_def intro!: fault_intros faulting_kpage)
  thus ?thesis unfolding image_peek_def by (intro fault_intros)
qed


text \<open>The accesses that the attributes of an address allow.\<close>

definition allows :: "bool \<Rightarrow> bool \<Rightarrow> attr \<Rightarrow> bool" where
  "allows write exec a = (case a of (st, prot, _) \<Rightarrow> st = VAD_COMMITTED \<and> prot AND 0xff \<noteq> PAGE_NOACCESS \<and> prot AND 0x100 = 0 \<and>
     (write \<longrightarrow> prot AND 0xff \<in> {PAGE_READWRITE, PAGE_WRITECOPY, PAGE_EXECUTE_READWRITE, PAGE_EXECUTE_WRITECOPY}) \<and> (exec \<longrightarrow> PAGE_EXECUTE \<le> prot AND 0xff))"

lemma view_fault_granted:
  assumes "view_fault v i addr write exec p = (Inr u, p')" "v_state (pr_vads p ! i) = VAD_COMMITTED"
  shows "allows write exec (attr_of (pr_vads p ! i))"
  using assms
  by (auto simp: view_fault_def Let_def allows_def attr_of_def prot_base_def prot_writable_def prot_cow_def prot_exec_def run_apply
      split: if_splits prod.splits)

lemma fault_granted:
  assumes "proc_wf p" "user_fault_in v addr write exec p = (Inr u, p')"
  shows "\<not> pr_teardown p \<and> USER_MIN \<le> addr \<and> addr < USER_TOP \<and> (\<exists>a. space (pr_vads p) addr = Some a \<and> allows write exec a)"
proof -
  have wf: "vads_wf (pr_vads p)" using assms(1) by (simp add: proc_wf_def)
  have live: "\<not> pr_teardown p" "\<not> (addr < USER_MIN \<or> USER_TOP \<le> addr)"
    using assms(2) unfolding user_fault_in_def look_apply Let_def by (simp_all only: if_distribR ret_apply prod.inject sum.distinct simp_thms split: if_splits)
  have "vad_find (pr_vads p) (addr AND PAGE_MASK) \<noteq> None"
  proof
    assume none: "vad_find (pr_vads p) (addr AND PAGE_MASK) = None"
    show False
      using assms(2) unfolding user_fault_in_def look_apply Let_def
      by (simp only: live none if_False option.case ret_apply prod.inject sum.distinct simp_thms)
  qed
  then obtain i where find: "vad_find (pr_vads p) (addr AND PAGE_MASK) = Some i" by auto
  hence i: "i < length (pr_vads p)" "holds (pr_vads p ! i) (addr AND PAGE_MASK)" using vad_find_Some[OF wf] by simp_all
  let ?w = "pr_vads p ! i"
  obtain cur flags where look: "vm_lookup (pr_pml4 p) addr (pr_phys p) = (cur, flags)" by (cases "vm_lookup (pr_pml4 p) addr (pr_phys p)")
  note E = assms(2)[unfolded user_fault_in_def look_apply Let_def, simplified live find look if_False option.case prod.case if_distribR]
  have committed: "v_state ?w = VAD_COMMITTED" using E by (auto split: if_splits)
  have "allows write exec (attr_of ?w)"
  proof (cases "v_kind ?w = VK_VIEW")
    case True
    with E committed have "view_fault v i addr write exec p = (Inr u, p')" by simp
    thus ?thesis using committed by (rule view_fault_granted)
  next
    case False
    with E committed show ?thesis
      by (auto simp: allows_def attr_of_def prot_base_def prot_writable_def prot_cow_def run_apply split: if_splits)
  qed
  with live space_nth[OF wf i] space_page[OF wf, of addr] show ?thesis by (auto simp: not_less not_le)
qed

subsection \<open>Histories\<close>

text \<open>One step of the life of an address space. The last rule is any other change: of page tables, memory, or other parts of the kernel.\<close>

inductive vm_step :: "'c vm_env \<Rightarrow> 'c process \<Rightarrow> 'c process \<Rightarrow> bool" for v where
  step_call: "vm_safe c (pr_vads p) \<Longrightarrow> vm_step v p (snd (vm_exec v c p))"
| step_fault: "vm_step v p (snd (user_fault_in v addr write exec p))"
| step_read: "vm_step v p (snd (copy_from_user v uva n p))"
| step_write: "vm_step v p (snd (copy_to_user v uva bs p))"
| step_length: "vm_step v p (snd (user_string_len v uva n p))"
| step_peek: "vm_step v p (snd (image_peek v va n p))"
| step_poke: "vm_step v p (snd (image_poke v va bs p))"
| step_other: "same_shape p p' \<Longrightarrow> vm_step v p p'"

lemma faulting_wf: "keeps faulting m \<Longrightarrow> proc_wf p \<Longrightarrow> proc_wf (snd (m p))"
  by (simp add: keeps_def faulting_def)

lemma vm_step_wf: "vm_step v p p' \<Longrightarrow> proc_wf p \<Longrightarrow> proc_wf p'"
proof (induction rule: vm_step.induct)
  case (step_call c p)
  with vm_exec_refines[of v c p "fst (vm_exec v c p)" "snd (vm_exec v c p)"] show ?case by simp
next
  case (step_other p p')
  thus ?case by (simp add: same_shape_def proc_wf_def sized_def)
qed (simp_all add: faulting_wf faulting_fault faulting_copy_from faulting_copy_to faulting_string faulting_peek faulting_poke)

lemma vm_history_wf: "(vm_step v)\<^sup>*\<^sup>* p p' \<Longrightarrow> proc_wf p \<Longrightarrow> proc_wf p'"
  by (induction rule: rtranclp_induct) (auto intro: vm_step_wf)

lemma vad_init_wf: "pr_mmap_hint p \<le> USER_TOP \<Longrightarrow> proc_wf (snd (vad_init v p))"
  by (auto simp: vad_init_def run_apply proc_wf_def sized_def vads_wf_def on_phys_def split: prod.splits)

end
