(* ===== verification/Vm_Samples.thy ===== *)
theory Vm_Samples
  imports Vm_History
begin

unbundle bit_operations_syntax

section \<open>Concrete address spaces\<close>

text \<open>
  Small processes for the witnesses, and for the places where the code departs from its contract: an allocation from the top can leave
  user space, a protection that fails for lack of memory can lose addresses, and a reservation need not contain the address asked for.
\<close>

definition sample_phys :: phys where
  "sample_phys = \<lparr>ph_mem = (\<lambda>_. 0), ph_map = (\<lambda>i. i = 0), ph_allocated = (\<lambda>i. i = 0), ph_pages = 64, ph_free_pages = 63, ph_hint = 0,
     ph_contig_hint = 0, ph_kpml4 = 0, ph_panic = False\<rparr>"

text \<open>An environment without files and sections; \<open>b\<close> says whether the kernel heap has memory.\<close>

definition sample_env :: "bool \<Rightarrow> unit vm_env" where
  "sample_env b = \<lparr>ev_kzalloc = (\<lambda>n c. (b, c)), ev_before_unmap = (\<lambda>vs h start stop r c. c), ev_image_page = (\<lambda>i a s. (Inl STATUS_IN_PAGE_ERROR, s)),
     ev_image_retired = (\<lambda>i c. True), ev_view_at = (\<lambda>a c. False), ev_view_page = (\<lambda>a w s. (Inl STATUS_ACCESS_VIOLATION, s))\<rparr>"

definition sample_proc :: "vad list \<Rightarrow> nat \<Rightarrow> unit process" where
  "sample_proc vs cap = \<lparr>pr_vads = vs, pr_cap = cap, pr_mmap_hint = 0x10000000, pr_pml4 = 0xF00000, pr_teardown = False, pr_phys = sample_phys, pr_ctx = ()\<rparr>"

definition sample_vad :: "u64 \<Rightarrow> u64 \<Rightarrow> u32 \<Rightarrow> vad" where
  "sample_vad a e prot = new_vad a e True prot VK_PRIVATE"

lemma sample_wf: "0x10000 \<le> a \<Longrightarrow> a < e \<Longrightarrow> e \<le> 0x00007ffffffef000 \<Longrightarrow> aligned a \<Longrightarrow> aligned e \<Longrightarrow> 0 < cap \<Longrightarrow> proc_wf (sample_proc [sample_vad a e prot] cap)"
  by (simp add: proc_wf_def sized_def vads_wf_def vad_ok_def sample_proc_def sample_vad_def new_vad)

lemma one_region_wf: "proc_wf (sample_proc [sample_vad 0x10000 0x20000 4] 64)"
  by (rule sample_wf) (simp_all add: aligned_def)

lemma top_down_wraps:
  "fst (vad_alloc (sample_env True) 0 0x7FF700000000 0x102000 4 VK_PRIVATE (sample_proc [sample_vad 0x7FF600000000 0x7FF600010000 4] 64)) =
    Inr (0xFFFFFFFF00000000, 0x7FF700000000)"
  by code_simp

lemma split_loses:
  "fst (vad_protect (sample_env False) 0x11000 0x1000 2 (sample_proc [sample_vad 0x10000 0x20000 4] 1)) = Inl STATUS_NO_MEMORY"
  "space (pr_vads (snd (vad_protect (sample_env False) 0x11000 0x1000 2 (sample_proc [sample_vad 0x10000 0x20000 4] 1)))) 0x15000 = None"
  by code_simp+

lemma reservation_misses:
  "fst (vad_alloc (sample_env True) 0x1FF000 0x1000 0x2000 4 VK_PRIVATE (sample_proc [] 64)) = Inr (0x1F0000, 0x1000)"
  by code_simp

lemma sample_fault:
  "fst (user_fault_in (sample_env True) 0x10008 True False (sample_proc [sample_vad 0x10000 0x20000 4] 64)) = Inr ()"
  by code_simp

lemma sample_call: "fst (vm_exec (sample_env True) (Vm_Protect 0x11000 0x1000 2) (sample_proc [sample_vad 0x10000 0x20000 4] 64)) = Inr (4, 0)"
  by code_simp

text \<open>The descriptor that the allocation from the top inserts ends below its start.\<close>

lemma top_down_breaks:
  "\<not> proc_wf (snd (vad_alloc (sample_env True) 0 0x7FF700000000 0x102000 4 VK_PRIVATE (sample_proc [sample_vad 0x7FF600000000 0x7FF600010000 4] 64)))"
proof -
  have "map (\<lambda>w. (v_start w, v_end w)) (pr_vads (snd (vad_alloc (sample_env True) 0 0x7FF700000000 0x102000 4 VK_PRIVATE
      (sample_proc [sample_vad 0x7FF600000000 0x7FF600010000 4] 64)))) = [(0x7FF600000000, 0x7FF600010000), (0xFFFFFFFF00000000, 0x7FF600000000)]"
    by code_simp
  thus ?thesis by (auto simp: proc_wf_def vads_wf_def vad_ok_def map_eq_Cons_conv)
qed

end
