(* ===== verification/Spec2Isabelle.thy ===== *)
theory Spec2Isabelle
  imports Sfs_Prelude Sfs_Layout Sfs_Fields Sfs_Crc Sfs_Hash Sfs_Popcount Sfs_Bitmap Sfs_State Sfs_Dev Sfs_Cache Sfs_Group Sfs_Inode Sfs_ExtMap Sfs_Alloc Sfs_Extent Sfs_Journal Sfs_Txn Sfs_File Sfs_Dirent Sfs_Dir Sfs_Super Sfs_Api Sfs_Access Sfs_Geometry Sfs_Names Sfs_Agree Sfs_Leaf Sfs_Leaf_Map Sfs_Leaf_Split Sfs_Frame_Cache Sfs_Frame_Core Sfs_Frame_Ops Sfs_Cache_Wf Sfs_Host Sfs_Mounted Sfs_Samples Sfs_Faults Blk_Part Blk_Archive Blk_Dev Blk_Authority Blk_Samples Acc_Sha256 Acc_Kdf Acc_Account Acc_Policy Acc_Files Vm_Pages Vm_Vad Vm_Fault Vm_Space Vm_Refine Vm_Spec Vm_Calls Vm_History Vm_Samples
begin

text \<open>
  A verification of the storage stack and the user address spaces of ShizukuOS: the file system library \<^verbatim>\<open>libsfs\<close> (ShizukuFS v1, an
  ext4-format file system, \<^verbatim>\<open>src/shizukufs/v1/libsfs\<close>), the block layer of Kernel64 below it (\<^verbatim>\<open>src/shizukudos/kernel64\<close>), the account store
  that decides who may use it (\<^verbatim>\<open>src/shizukudos/accounts\<close>), and the virtual memory of Kernel64's processes. Paths below are relative to these three
  directories.

  \<^bold>\<open>The program.\<close> A host (Kernel64 or a tool) gives \<^verbatim>\<open>sfs_mount\<close> a table of callbacks (\<^verbatim>\<open>sfs_ops\<close>: read, write, flush, memory,
  clock) and gets a volume \<^verbatim>\<open>sfs_fs\<close>. The public operations (sfs\_api.c) resolve names in directories (sfs\_dir.c, sfs\_hash.c), map file blocks to
  disk blocks (sfs\_extent.c), allocate blocks and inodes in bitmaps (sfs\_alloc.c), and change inodes (sfs\_inode.c) and data (sfs\_file.c).
  They reach the disk only through the block cache (sfs\_cache.c), whose dirty metadata a transaction (sfs\_super.c) writes to the
  journal (sfs\_jbd2.c) before it goes to its place. The layer sfs\_access.c, sfs\_subject.c checks credentials first. In the kernel, the registry blk.c
  holds the disks of the drivers, the scanner blk\_part.c finds their partitions, which become devices of their own, and blk\_authority.c serialises
  all use and lends a whole disk to one owner (the installer), with its sources (disks or, archive\_source.c, snapshots of the boot archive) protected.
  The account store (account.c over kdf.c and sha256.c) registers names with derived keys, and a login gives a subject (\<^verbatim>\<open>shz_subject\<close>). A subject is
  checked in two places: \<open>shz_subject_path\<close> for the directories of the FAT volume, and, as the credential that \<open>sfs_cred_from_subject\<close> makes of it,
  the modes and owners of ShizukuFS. A process of Kernel64 has a sorted array of address descriptors (vad.c) over page tables that are built from the
  pages of the physical allocator (mem.c); a page is populated by the first fault on it, and the kernel's own copies to and from user memory use the same path.

  \<^bold>\<open>Conventions.\<close> A C function is a HOL function of the same name. A function that changes the volume is an action
  \<open>'s \<Rightarrow> 'a \<times> 's\<close>, composed with \<open>run\<close>, \<open>look\<close> and, for the \<open>if (rc) return rc\<close> of the code, \<open>chk\<close>; a code \<open>0 / -error\<close> is
  \<open>sfs_err + unit\<close>. Integers have their C width wherever they can wrap; offsets inside one block are \<open>nat\<close>. A block or name is a byte list, a
  buffer or inode is named by its number, an intrusive list is a list. The host is the context \<open>'c\<close> with the callbacks as functions on it; nothing is
  assumed of it except in the hypotheses \<open>tracing_host\<close> and \<open>quiet_host\<close>, which say what its context records. The drivers of the block
  layer are the parameter \<open>'c drivers\<close>, the random generator of the account store is a function on its context, and what address spaces
  take from other parts (the kernel heap, statistics, pages of image files and of section views) is the parameter \<open>'c vm_env\<close>; nothing is assumed of them.

  \<^bold>\<open>The model.\<close>
  \<^item> \<open>Sfs_Prelude\<close>: the action combinators, the collection \<open>act_defs\<close>, the locale \<open>frame_rel\<close>, lemmas on lists and words.
  \<^item> \<open>Sfs_Layout\<close>, \<open>Sfs_Fields\<close>: sfs\_disk.h and the field accessors of sfs\_internal.h. \<open>Sfs_State\<close>: the records of sfs.h and sfs\_internal.h.
  \<^item> \<open>Sfs_Crc\<close>, \<open>Sfs_Hash\<close>, \<open>Sfs_Popcount\<close>, \<open>Sfs_Bitmap\<close>: sfs\_crc.c, sfs\_hash.c, and the bit routines of sfs\_alloc.c.
  \<^item> \<open>Sfs_Dev\<close>, \<open>Sfs_Cache\<close>: sfs\_cache.c. \<open>Sfs_Group\<close>: the block groups of sfs\_super.c. \<open>Sfs_Inode\<close>: sfs\_inode.c.
  \<^item> \<open>Sfs_ExtMap\<close>, \<open>Sfs_Extent\<close>: sfs\_extent.c. \<open>Sfs_Alloc\<close>: sfs\_alloc.c. \<open>Sfs_Journal\<close>: sfs\_jbd2.c. \<open>Sfs_Txn\<close>: transactions and the
    orphan list of sfs\_super.c.
  \<^item> \<open>Sfs_File\<close>: sfs\_file.c. \<open>Sfs_Dirent\<close>, \<open>Sfs_Dir\<close>: sfs\_dir.c. \<open>Sfs_Super\<close>: mounting, sfs\_super.c. \<open>Sfs_Api\<close>: sfs\_api.c. \<open>Sfs_Access\<close>:
    sfs\_access.c and sfs\_subject.c.
  \<^item> \<open>Blk_Part\<close>: blk\_part.c. \<open>Blk_Archive\<close>: archive\_source.c and the locators of \<^verbatim>\<open>boot_profile/storage/provenance.h\<close>. \<open>Blk_Dev\<close>: blk.c and
    blk\_authority.c.
  \<^item> \<open>Acc_Sha256\<close>, \<open>Acc_Kdf\<close>, \<open>Acc_Account\<close>: sha256.c, kdf.c, account.c, and \<open>profile_path\<close> of kernel64/sysk32\_auth.c. The store is the record
    \<open>shz_accounts\<close>, every call takes it and returns it.
  \<^item> \<open>Vm_Pages\<close>: the page allocator and the page tables of mem.c (the record \<open>phys\<close>). \<open>Vm_Vad\<close>: the descriptors and calls of vad.c (the record \<open>process\<close>).
    \<open>Vm_Fault\<close>: \<open>user_fault_in\<close> and the copies of vad.c, with the decisions of \<open>view_fault\<close> (ipc\_section.c) and \<open>ldr_image_fault\<close> (ldr.c).

  \<^bold>\<open>What is shown.\<close>
  \<^item> Safety of a mounted volume. \<open>sfs_step\<close> (\<open>Sfs_Frame_Ops\<close>) has a rule for every public operation. The locales \<open>cache_frame\<close>, \<open>vol_frame\<close> and
    \<open>mount_frame\<close> carry a relation from the callbacks and the few functions that change the structure of a cache up to every operation; \<open>Sfs_Host\<close>
    interprets them for what the host sees (requests in bounds, no write to a read-only volume), \<open>Sfs_Cache_Wf\<close> for the shape of the caches.
    \<open>Sfs_Geometry\<close> shows that an accepted superblock has an exact geometry, \<open>Sfs_Mounted\<close> that a mount establishes the hypotheses.
  \<^item> Directories. The locale \<open>name_block\<close> (\<open>Sfs_Names\<close>) states the contract of a block of names; \<open>Sfs_Leaf\<close> and \<open>Sfs_Leaf_Map\<close> show that the leaf operations
    implement maps, \<open>Sfs_Leaf_Split\<close> that a split partitions the names.
  \<^item> Checksums, hashes, bitmaps, sorting and access decisions against their reference definitions, in the theories of these components.
  \<^item> The block layer. \<open>Blk_Part\<close> bounds the partitions and the reads of the scanner; \<open>Blk_Authority\<close> has the step relation \<open>blk_step\<close> of
    the registry and the authority, and shows the custody of claimed disks over every history, and the isolation of partitions.
  \<^item> Accounts. \<open>Acc_Sha256\<close> and \<open>Acc_Kdf\<close> relate the streaming code to FIPS 180-4, RFC 2104 and RFC 8018. \<open>Acc_Policy\<close> has the step relation
    \<open>acc_step\<close> of the store: its invariant over every history, that a registered password logs in, that sessions are never issued twice, the lockout,
    and the confinement of paths. \<open>Acc_Files\<close> composes the store with \<open>sfs_cred_from_subject\<close> and holds concrete stores.
  \<^item> Address spaces. \<open>Vm_Space\<close> gives an array of descriptors its meaning, a map from addresses to attributes. \<open>Vm_Refine\<close>, \<open>Vm_Spec\<close> and \<open>Vm_Calls\<close> show that
    every call implements its contract \<open>vm_spec\<close> on that map. \<open>Vm_History\<close> has the step relation \<open>vm_step\<close> of a process, and shows the shape of the array
    over every history, what a query reports, and that a fault is answered only where the map allows it.
  \<^item> \<open>Sfs_Faults\<close> shows where libsfs departs from its own comments, \<open>Vm_Samples\<close> the same for vad.c. \<open>Sfs_Samples\<close>, \<open>Blk_Samples\<close> and \<open>Vm_Samples\<close> hold
    concrete states.

  \<^bold>\<open>Loops.\<close> A loop over a list or a counter is structural recursion. A loop whose progress depends on data runs on fuel that
  the function computes from its arguments, with the reason stated at its definition: the length of the LRU list for evictions, the number
  of buffers for write-back (\<open>write_back_terminates\<close> shows that it is enough), the number of bytes or blocks that are left for reads, writes, frees and
  insertions, the block size for walks over the records of a block, the number of sectors of an entry array (\<open>gpt_array_checksum\<close> covers all of
  it), \<open>BLK_MAX_DEVICES\<close> for chains of partitions,
  63 bytes of padding for SHA-256 (\<open>sha256_streams\<close> covers every length), ten digits for a 32-bit number (\<open>profile_path_roundtrip\<close>),
  the number of descriptors for the loops over them (each turn passes one), the bytes of a copy for its chunks. Bounds that the code has itself (64 extended boot records, 4096 levels in \<open>is_ancestor\<close>, the depth of an extent
  tree, 4097 candidates of an allocation) are the code's.

  \<^bold>\<open>Not modelled.\<close> The rest of Kernel64 (interrupts, scheduling, objects, loader, drivers, network; of mem.c the kernel heap and the setup from the boot map), the Win64 and NT compatibility layers, boot code and
  applications: hardware access, assembly, or code independent of storage. In the modelled files: \<^verbatim>\<open>blk_kva_to_pa\<close> (page tables),
  \<^verbatim>\<open>blk_tsc_per_ms\<close> (the timer), the initialisation of mutexes, the pages of an archive snapshot, \<^verbatim>\<open>shz_secret_clear\<close> (it clears buffers that are read no more); of sysk32\_auth.c
  everything but \<open>profile_path\<close>. Concurrency is not modelled beyond the serialisation
  the locks give: a call on an address space runs with interrupts off, libsfs is called under one lock by its host, the operations of the authority hold its mutex, and the
  kernel calls the account store under its authority lock.
\<close>

section \<open>Safety of a mounted volume\<close>



text \<open>C2. Let only the write callbacks change the host's disk. After any sequence of public operations on
  a read-only volume the disk is unchanged and the volume is still read-only.\<close>

theorem readonly_disk_unchanged:
  assumes "quiet_host disk (fs_ops s) (fs_write_hit s)" "fits_dev (fs_ops s) (fs_geo s)" "fs_ro s" "sfs_step\<^sup>*\<^sup>* s t"
  shows "disk (fs_ctx t) = disk (fs_ctx s) \<and> fs_ro t"
  using assms by (rule history_readonly)

theorem readonly_disk_unchanged_witness:
  "fs_ctx (snd (sfs_write 12 0 [1, 2, 3] counting_fs)) = 0 \<and> fs_ro (snd (sfs_write 12 0 [1, 2, 3] counting_fs))"
proof -
  have "sfs_step\<^sup>*\<^sup>* counting_fs (snd (sfs_write 12 0 [1, 2, 3] counting_fs))"
    by (rule r_into_rtranclp, rule sfs_step.intros)
  from readonly_disk_unchanged[OF _ _ _ this, of id] show ?thesis
    by (simp add: counting_fs_fields counting_fits counting_quiet)
qed

text \<open>C3. When \<open>sfs_mount\<close> succeeds, the volume has the callbacks of the caller, its geometry is consistent, all its
  blocks lie on the device (when the device has a size), and both caches are well formed. These are the
  hypotheses of the theorems about histories.\<close>

theorem mount_establishes:
  "case sfs_mount ops flags c of (Inl _, _) \<Rightarrow> True | (Inr f, _) \<Rightarrow> lies_on ops f \<and> cache_wf f \<and> icache_wf f"
  using mount_lies_on[of ops flags c] mount_wf[of ops flags c] by (auto split: prod.split sum.split)

text \<open>C4. Every sequence of public operations keeps both caches well formed: the LRU lists hold every cached block
  and every cached inode exactly once, and the counters are the lengths of the lists.\<close>

theorem caches_stay_wf:
  assumes "cache_wf s" "icache_wf s" "sfs_step\<^sup>*\<^sup>* s t"
  shows "cache_wf t \<and> icache_wf t"
  using assms history_cache_wf history_icache_wf by blast

theorem caches_stay_wf_witness:
  "cache_wf (snd (sfs_readdir 2 0 sample_fs)) \<and> icache_wf (snd (sfs_readdir 2 0 sample_fs))"
proof (rule caches_stay_wf)
  show "cache_wf sample_fs" "icache_wf sample_fs"
    by (simp_all add: cache_wf_def cw_def icache_wf_def iw_def sample_fs_def zero_fs_def)
  show "sfs_step\<^sup>*\<^sup>* sample_fs (snd (sfs_readdir 2 0 sample_fs))"
    by (rule r_into_rtranclp, rule sfs_step.intros)
qed

text \<open>C5. When \<open>parse_super\<close> accepts a superblock, the geometry satisfies the exact relations: the group count
  is the rounded-up quotient, inodes and descriptors fill their blocks, the descriptor table holds every group,
  the size in bytes does not overflow, and the volume fits the device. The checks are computed on
  machine integers that may wrap around; the relations are over unbounded ones.\<close>

theorem parse_super_exact:
  "case parse_super s of (Inl _, _) \<Rightarrow> True
   | (Inr _, t) \<Rightarrow> geo_ok (fs_geo t) \<and> (ops_size (fs_ops s) = 0 \<or> unat (g_nblocks (fs_geo t)) * unat (g_bs (fs_geo t)) \<le> unat (ops_size (fs_ops s)))"
  using parse_super_geo[of s] by (auto split: prod.split sum.split)

section \<open>Directories\<close>

text \<open>C6. Directory leaves implement maps from names to inodes. A history of operations on a well-formed leaf, as
  the callers perform them (a search, then \<open>leaf_insert\<close> of a missing name, \<open>leaf_set_inode\<close> or
  \<open>leaf_remove\<close> at the found entry), keeps the leaf well formed and acts on its map as the history of map updates.\<close>

theorem leaf_history_refines:
  assumes "leaf_inv g d" "list_all (lf.ok_op g) ops" "fold (\<lambda>p r. Option.bind r (lf.step_block g p)) ops (Some d) = Some d'"
  shows "leaf_inv g d' \<and> leaf_map g d' = fold (lf.step_map g) ops (leaf_map g d)"
  using assms by (rule lf.history_view)

theorem leaf_history_refines_witness:
  "\<exists>d'. leaf_insert sample_geo sample_leaf [65] 12 1 = Some d' \<and> leaf_map sample_geo d' = (leaf_map sample_geo sample_leaf)([65] \<mapsto> (12, 1))"
proof -
  obtain d' where d': "leaf_insert sample_geo sample_leaf [65] 12 1 = Some d'"
    using sample_insert by blast
  have "leaf_map sample_geo sample_leaf [65] = None"
    by (simp add: leaf_map_def sample_leaf_live)
  hence "leaf_find sample_geo sample_leaf [65] = None"
    using lf.find_None[OF sample_leaf_inv] by simp
  thus ?thesis
    using leaf_history_refines[OF sample_leaf_inv, of "[Enter [65] (12, 1)]" d'] d'
    by (simp add: leaf_okn_def leaf_okv_def leaf_norm_def) (simp add: sample_geo_def)
qed

text \<open>C7. The split of a leaf of at least two entries: the two halves that \<open>leaf_build\<close> packs are well formed, hold disjoint
  sets of names whose union is the old leaf, every name of the lower half hashes to at most and every
  name of the upper half to at least the split hash, and a name of any length up to 255 can be inserted into either.\<close>

theorem leaf_split_correct:
  assumes "leaf_wf g d" "leaf_geo g" "1024 \<le> unat (g_bs g)"
    and "leaf_dmap (leaf_limit g) g ver d 0 (SFS_MAX_ALLOC div 8) = Inr m0" "2 \<le> length m0"
    and "m = dmap_sort m0" "sp = leaf_split_point g m" "lo = leaf_build g d (take sp m)" "hi = leaf_build g d (drop sp m)"
  shows "leaf_wf g lo \<and> leaf_wf g hi \<and> dom (leaf_map g lo) \<inter> dom (leaf_map g hi) = {} \<and> leaf_map g lo ++ leaf_map g hi = leaf_map g d \<and>
    (\<forall>n \<in> dom (leaf_map g lo). \<exists>h \<le> m_hash (m ! sp). name_hash g ver n = Inr h) \<and>
    (\<forall>n \<in> dom (leaf_map g hi). \<exists>h \<ge> m_hash (m ! sp). name_hash g ver n = Inr h) \<and>
    (\<forall>name ino ty. length name \<le> SFS_NAME_MAX \<longrightarrow> leaf_insert g lo name ino ty \<noteq> None \<and> leaf_insert g hi name ino ty \<noteq> None)"
  using leaf_split_map[OF assms(1-5)] unfolding assms(6-9) .

theorem leaf_split_correct_witness:
  "\<exists>lo hi. leaf_wf sample_geo lo \<and> leaf_wf sample_geo hi \<and> leaf_map sample_geo lo ++ leaf_map sample_geo hi = leaf_map sample_geo sample_leaf"
proof -
  have "leaf_wf sample_geo sample_leaf" "leaf_geo sample_geo" "1024 \<le> unat (g_bs sample_geo)" "2 \<le> length sample_dmap"
    using sample_leaf_inv by (simp_all add: leaf_inv_def sample_dmap_def) (simp add: sample_geo_def)
  from leaf_split_correct[OF this(1-3) sample_dmap this(4) refl refl refl refl] show ?thesis
    by blast
qed

text \<open>\<open>leaf_insert\<close> fails on a checked leaf only when no record has room: a free record is shorter than the record of the new name,
  and a used one leaves less than that after its own name.\<close>

theorem leaf_insert_full:
  assumes "leaf_entries_ok g d 0" "leaf_insert g d name ino ty = None"
  shows "\<forall>e \<in> set (leaf_list g d 0). ent_room e < rec_min (length name)"
  using assms by (rule leaf_insert_None)

theorem leaf_insert_full_witness:
  "leaf_insert sample_geo sample_leaf (replicate 255 65) 12 1 \<noteq> None"
  using leaf_insert_full[OF sample_leaf_ok, of "replicate 255 65" 12 1]
  by (auto simp: sample_leaf_list ent_room_def rec_min_def)

text \<open>The path built from clean names (non-empty, no slash) splits into those names, and the components of every path
  are clean.\<close>

theorem path_parts_roundtrip:
  "((\<forall>n \<in> set ns. n \<noteq> [] \<and> SLASH \<notin> set n) \<longrightarrow> path_parts (concat (map (\<lambda>n. SLASH # n) ns)) = ns) \<and>
   (\<forall>n \<in> set (path_parts p). n \<noteq> [] \<and> SLASH \<notin> set n)"
  using path_parts_join path_parts_clean by blast

theorem path_parts_roundtrip_witness: "path_parts [47, 97, 47, 98, 99] = [[97], [98, 99]]"
  using path_parts_roundtrip[of "[[97], [98, 99]]" "[]"] by simp

section \<open>Access control\<close>

text \<open>C8. Whatever the subject, the credential made for it passes \<open>sfs_cred_check\<close>, also when the subject is
  refused, and it has a capability only when the subject is an administrator at high integrity without flags, or
  before accounts are active.\<close>

theorem subject_credentials:
  "sfs_cred_check (snd (sfs_cred_from_subject s)) = Inr () \<and>
   (cr_caps (snd (sfs_cred_from_subject s)) = 0 \<or> subject_development s \<or> subject_elevated s)"
  using cred_from_subject_valid cred_from_subject_caps by blast

text \<open>C9. The permission check is monotone: a request with fewer bits, from a credential with more capabilities, is
  granted whenever the original one was.\<close>

theorem permission_monotone:
  assumes "sfs_permission_st c st want = Inr ()" "subbits want' want" "subbits (cr_caps c) caps" "subbits caps SFS_CAP_ALL"
  shows "sfs_permission_st (c\<lparr>cr_caps := caps\<rparr>) st want' = Inr ()"
  using assms by (rule permission_mono)

theorem permission_monotone_witness:
  "sfs_permission_st \<lparr>cr_uid = 1001, cr_gid = 100, cr_ngroups = 0, cr_groups = [], cr_caps = 3\<rparr>
     (stat_of sample_geo 12 (zero_inode\<lparr>in_mode := 0x81A4, in_uid := 1001\<rparr>)) 4 = Inr ()"
  using permission_monotone[of "\<lparr>cr_uid = 1001, cr_gid = 100, cr_ngroups = 0, cr_groups = [], cr_caps = 0\<rparr>"
      "stat_of sample_geo 12 (zero_inode\<lparr>in_mode := 0x81A4, in_uid := 1001\<rparr>)" 6 4 3]
  by (simp add: subbits_def sfs_permission_st_def sfs_cred_check_def class_bits_def stat_of_def zero_inode_def Let_def)

section \<open>Checksums, hashes and bitmaps\<close>

text \<open>C10. The table-driven checksum loops of \<^verbatim>\<open>sfs_crc.c\<close> compute the bit-serial CRC-32C (0x82F63B78) and
  CRC-16 (0xA001) of every buffer, from every initial value.\<close>

theorem checksums_are_bitwise:
  "sfs_crc32c c xs = crc32c_bitwise c xs \<and> sfs_crc16 d ys = crc16_bitwise d ys"
  by (simp only: crc32c_eq_bitwise crc16_eq_bitwise)

text \<open>C11. A checksum detects every burst of up to four bytes: buffers that agree outside a window of at most four bytes
  and have the same CRC-32C are equal.\<close>

theorem crc32c_burst:
  assumes "length m = length m'" "length m \<le> 4" "sfs_crc32c c (p @ m @ s) = sfs_crc32c c (p @ m' @ s)"
  shows "m = m'"
  using assms crc32.crc_burst[of m m' c p s] by (simp add: crc32c_eq_bitwise)

theorem crc32c_burst_witness: "sfs_crc32c 0 [1, 2, 3] \<noteq> sfs_crc32c 0 [1, 9, 3]"
  using crc32c_burst[of "[2]" "[9]" 0 "[1]" "[3]"] by auto

text \<open>The bit-parallel population count counts the set bits of every 64-bit word.\<close>

theorem popcount_counts: "unat (bitmap_popcount64 w) = length (filter (bit w) [0..<64])"
  by (rule popcount_correct)

text \<open>C12. The scans that skip whole words give the first clear and the first set bit of the range, and the limit
  when there is none.\<close>

theorem bitmap_scan_first:
  assumes "from \<le> limit"
  shows "first_bit False bm from limit (find_zero bm from limit) \<and> first_bit True bm from limit (find_one bm from limit)"
  using assms find_zero_first find_one_first by blast

theorem bitmap_scan_first_witness: "first_bit False [0xFF, 3] 2 16 (find_zero [0xFF, 3] 2 16)"
  using bitmap_scan_first[of 2 16 "[0xFF, 3]"] by simp

text \<open>C13. \<open>set_bits\<close> sets and \<open>clear_bits\<close> clears exactly the bits of the run, whatever its alignment, and \<open>clear_bits\<close> reports how many of
  them were clear before.\<close>

theorem bitmap_runs:
  assumes "from + n \<le> 8 * length bm"
  shows "bits_set bm from (from + n) (set_bits bm from n) \<and>
    bits_cleared bm from (from + n) (fst (clear_bits bm from n)) (snd (clear_bits bm from n))"
  using assms set_bits_set clear_bits_cleared by blast

theorem bitmap_runs_witness: "bits_set (replicate 8 0) 3 23 (set_bits (replicate 8 0) 3 20)"
  using bitmap_runs[of 3 20 "replicate 8 0"] by simp

text \<open>C14. \<open>sfs_dx_hash\<close> gives a hash exactly for the versions 0 to 5; the hash is even and never the end mark
  0xFFFFFFFE, so it can be stored in an index whose lowest bit marks a collision.\<close>

theorem dx_hash_values:
  "(sfs_dx_hash seed version name = None \<longleftrightarrow> \<not> version \<le> 5) \<and>
   (\<forall>h m. sfs_dx_hash seed version name = Some (h, m) \<longrightarrow> even h \<and> h \<noteq> 0xFFFFFFFE)"
  using dx_hash_None dx_hash_even_not_eof by blast

theorem dx_hash_values_witness: "\<exists>h m. sfs_dx_hash [1, 2, 3, 4] 1 [97, 98] = Some (h, m) \<and> even h"
  using dx_hash_values[of "[1, 2, 3, 4]" 1 "[97, 98]"]
  by (cases "sfs_dx_hash [1, 2, 3, 4] 1 [97, 98]") auto

text \<open>On names of ASCII bytes the signed variant of each hash (versions 0, 1, 2) and the unsigned one (3, 4, 5) coincide.\<close>

theorem dx_hash_ascii:
  assumes "ascii name" "version \<le> 2"
  shows "dx_switch buf version name = dx_switch buf (version + 3) name"
  using assms by (rule dx_switch_ascii)

theorem dx_hash_ascii_witness: "dx_switch [1, 2, 3, 4] 1 [97, 98] = dx_switch [1, 2, 3, 4] 4 [97, 98]"
  using dx_hash_ascii[of "[97, 98]" 1 "[1, 2, 3, 4]"] by (simp add: ascii_def bit_simps)

section \<open>Write-back\<close>

text \<open>C15. The merge sort of the transaction list (with its 48 buckets) and the shell sort of a batch give a sorted
  permutation of their input, for lists of any length.\<close>

theorem write_back_sorts:
  "sorted (txn_sort_list bs) \<and> mset (txn_sort_list bs) = mset bs \<and> sorted (shell_sort arr) \<and> mset (shell_sort arr) = mset arr"
  using txn_sort_list_sorts shell_sort_sorts by blast



section \<open>Refused operations\<close>



section \<open>Partition tables\<close>

text \<open>C18. Whatever a device answers, the partitions that the scanner stores lie within the device (in exact arithmetic), are not
  empty, are numbered from 1 in the order of the array and are at most as many as the array holds: MBR entries, logical
  partitions and GPT entries alike.\<close>

theorem partitions_in_device:
  "case blk_part_scan d c of (r, out, notes, c') \<Rightarrow> length out \<le> sd_max d \<and> (\<forall>p \<in> set out. part_in (sd_sectors d) p) \<and>
     map p_index out = map (\<lambda>i. of_nat i + 1) [0..<length out]"
  by (rule scan_parts_wf)

theorem partitions_in_device_witness:
  "case blk_part_scan mbr_dev () of (r, out, _) \<Rightarrow> r = Some 1 \<and> map p_start out = [16] \<and> (\<forall>p \<in> set out. part_in 100 p)"
  using partitions_in_device[of mbr_dev "()"] mbr_dev_scan by (auto simp: mbr_dev_def split: prod.split)

text \<open>C19. The scanner reads only sectors of the device: any preorder on the callback's context that contains the reads of one sector
  below the sector count contains the whole scan. The positions come from the disk (entry arrays, chains of extended boot records).\<close>

theorem scan_stays_in_device:
  assumes "reads_in D d"
  shows "D c (snd (snd (snd (blk_part_scan d c))))"
  using assms by (rule scan_reads)

theorem scan_stays_in_device_witness: "set (snd (snd (snd (blk_part_scan log_dev [])))) \<subseteq> {lba. lba < 100}"
  using scan_stays_in_device[OF log_dev_reads, of "[]"] by simp

text \<open>C20. For a device with a fixed content, the entry array of a header is accepted exactly when the CRC over its
  \<^verbatim>\<open>num_entries * entry_size\<close> bytes is the header's. The checksum is computed sector by sector in the loop that also parses the
  entries; the theorem shows that the loop covers the array and nothing else.\<close>

theorem gpt_array_checksum:
  assumes "reads_disk disk d" "h_num_entries h \<le> 4096" "sd_ss d \<noteq> 0"
  shows "fst (gpt_entries d h flags s) \<longleftrightarrow>
    blk_crc32 0 (take (array_bytes h) (concat (map (\<lambda>i. disk (h_entries_lba h + of_nat i)) [0..<unat (gpt_array_sectors d h)]))) = h_entries_crc h"
  using assms by (rule gpt_entries_crc)

theorem gpt_array_checksum_witness:
  "fst (gpt_entries mbr_dev \<lparr>h_entries_crc = blk_crc32 0 (replicate 128 0), h_num_entries = 1, h_entry_size = 128, h_entries_lba = 2\<rparr> 0
     \<lparr>sc_ctx = (), sc_out = [], sc_notes = 0\<rparr>)"
  using gpt_array_checksum[OF mbr_dev_disk, of "\<lparr>h_entries_crc = blk_crc32 0 (replicate 128 0), h_num_entries = 1, h_entry_size = 128, h_entries_lba = 2\<rparr>" 0
      "\<lparr>sc_ctx = (), sc_out = [], sc_notes = 0\<rparr>"]
  by (simp add: array_bytes_def gpt_array_sectors_def mbr_dev_def mbr_disk_def)

section \<open>Block devices\<close>

text \<open>C21. The authority keeps its promises over every history of operations of the block layer, whatever the drivers do: registered devices,
  their identities and their generations stay unique, no generation is ahead of the epoch, and a claimed device is neither a
  source of a claim nor a device the system was started from. An entry keeps its device and identity, its generation only grows, and a
  poisoned claim stays poisoned with its owner and its sources. The state before the first registration satisfies the hypothesis.\<close>

theorem custody_history:
  assumes "(blk_step v)\<^sup>*\<^sup>* s t" "auth_inv s"
  shows "auth_inv t \<and> evolves s t"
  using assms by (rule custody_holds)

theorem custody_history_witness:
  "auth_inv (snd (blk_authority_release 7 2 (sample_ident 2) (snd (blk_register sample_drivers (Whole 3) sample_claimed))))"
proof -
  have "(blk_step sample_drivers)\<^sup>*\<^sup>* sample_claimed (snd (blk_authority_release 7 2 (sample_ident 2) (snd (blk_register sample_drivers (Whole 3) sample_claimed))))"
    by (rule rtranclp.rtrancl_into_rtrancl[OF r_into_rtranclp]) (rule blk_step.intros)+
  from custody_history[OF this sample_auth] show ?thesis ..
qed

text \<open>C22. Quarantine. When a write under a claim passes the checks and does not succeed (the driver fails, or the device no longer looks as it was
  registered), the claim is poisoned, and after any further history of operations it is still poisoned and still with its
  owner.\<close>

theorem failed_write_quarantines:
  assumes "auth_inv s" "\<not> io_refused s ow c ident lba n" "fst (blk_authority_write v ow c ident lba n buf s) \<noteq> 0"
    and "(blk_step v)\<^sup>*\<^sup>* (snd (blk_authority_write v ow c ident lba n buf s)) t"
  shows "cl_poisoned (a_entries t ! c) \<and> cl_owner (a_entries t ! c) = ow \<and> ow \<noteq> 0"
proof -
  note w = write_poisons[OF assms(2,3)]
  have first: "auth_inv (snd (blk_authority_write v ow c ident lba n buf s)) \<and> evolves s (snd (blk_authority_write v ow c ident lba n buf s))"
    by (rule custody_holds[OF r_into_rtranclp assms(1)]) (rule do_claim_write)
  hence "c < length (a_entries (snd (blk_authority_write v ow c ident lba n buf s)))"
    using w by (auto simp: evolves_def)
  thus ?thesis
    using poisoned_kept[OF assms(4)] first w by auto
qed

theorem failed_write_quarantines_witness:
  "cl_owner (a_entries (snd (blk_authority_release 7 2 (sample_ident 2)
     (snd (blk_authority_write sample_drivers 7 2 (sample_ident 2) 3 1 [] sample_claimed)))) ! 2) = 7"
proof -
  have "(blk_step sample_drivers)\<^sup>*\<^sup>* (snd (blk_authority_write sample_drivers 7 2 (sample_ident 2) 3 1 [] sample_claimed))
      (snd (blk_authority_release 7 2 (sample_ident 2) (snd (blk_authority_write sample_drivers 7 2 (sample_ident 2) 3 1 [] sample_claimed))))"
    by (rule r_into_rtranclp, rule do_release)
  from failed_write_quarantines[OF sample_auth sample_io sample_failure this] show ?thesis by blast
qed



text \<open>C24. Partitions are isolated. What a read or write on a partition device asks of the driver lies in the partition, in exact
  arithmetic: with two drivers that agree on the sectors of the partition, the result and every change of the state are the same.\<close>

theorem partition_isolated:
  assumes "d_parent (k_dev s d) = Some w" "d_parent (k_dev s w) = None"
    and "agree_in v v' w (unat (d_start_lba (k_dev s d))) (unat (d_start_lba (k_dev s d)) + unat (d_sectors (k_dev s d)))"
  shows "blk_read v d lba n s = blk_read v' d lba n s \<and> blk_write v d lba n buf s = blk_write v' d lba n buf s"
  using partition_window[OF assms] by blast

theorem partition_isolated_witness:
  "blk_write sample_drivers (Part 0) 39 1 [] sample_split =
   blk_write (sample_drivers\<lparr>dv_write := (\<lambda>f d lba n buf w. if unat lba < 16 then (9, w) else dv_write sample_drivers f d lba n buf w)\<rparr>) (Part 0) 39 1 [] sample_split"
  using partition_isolated[OF sample_partition(1,2), of sample_drivers
      "sample_drivers\<lparr>dv_write := (\<lambda>f d lba n buf w. if unat lba < 16 then (9, w) else dv_write sample_drivers f d lba n buf w)\<rparr>" 39 1 "[]"]
  by (simp add: sample_partition(3,4) agree_in_def)

section \<open>Accounts\<close>

text \<open>C25. However a message is cut into pieces, empty ones included, the streaming interface gives the digest of FIPS 180-4: the whole
  message is padded and the compression function is folded over its blocks. In particular the padding loop ends.\<close>

theorem sha256_streams:
  "sha256_final (fold sha256_update ps sha256_init) = sha256 (concat ps)"
proof -
  have "fold sha256_update ps (ctx_of m) = ctx_of (m @ concat ps)" for m
    by (induction ps arbitrary: m) (simp_all add: update_ctx)
  thus ?thesis
    by (simp add: ctx_init final_ctx)
qed

text \<open>C26. \<open>shz_pbkdf2\<close> refuses a round count of 0, a password above 128 and a salt above 64 bytes, and otherwise computes the first block of
  PBKDF2 (the exclusive or of the iterates of HMAC-SHA256 of RFC 2104).\<close>

theorem pbkdf2_is_standard:
  "shz_pbkdf2 pw salt rounds =
    (if rounds = 0 \<or> 128 < length pw \<or> 64 < length salt then None else Some (kdf_f pw salt (unat rounds)))"
  using pbkdf2_standard[of rounds pw salt] by (auto simp: shz_pbkdf2_def not_less)

text \<open>C27. Every history of calls keeps the store consistent: at most 16 accounts with distinct, valid names, numbered from 1000 on, the first one an
  administrator, fewer than five failures counted. Name, number, role, salt and digest of an account never change.\<close>

theorem accounts_history:
  assumes "accounts_inv d" "acc_step\<^sup>*\<^sup>* d d'"
  shows "accounts_inv d' \<and> later d d'"
  using assms history_inv by blast

theorem accounts_history_witness: "accounts_inv (snd (shz_account_login [82, 111, 111, 116] root_pw 5 registered_store))"
proof -
  have "acc_step\<^sup>*\<^sup>* empty_store (snd (shz_account_login [82, 111, 111, 116] root_pw 5 registered_store))"
    unfolding registered_store_def by (rule rtranclp.rtrancl_into_rtrancl[OF r_into_rtranclp]) (rule acc_step.intros)+
  from accounts_history[OF empty_inv this] show ?thesis ..
qed

text \<open>C28. An account that was registered can be entered after every further history with its password, whatever the letter case of the
  name, unless it is locked at that time or all session numbers are used up; the subject has the number and the role of the account.\<close>

theorem registered_logs_in:
  assumes "accounts_inv d" "shz_account_register who boot name pw roles d = (Inr (), d')" "acc_step\<^sup>*\<^sup>* d' t"
    and "name_copy name' = name_copy name" "ac_locked_until (ad_accounts t ! length (ad_accounts d)) \<le> now" "ad_next_session t \<noteq> 0"
  shows "\<exists>s. fst (shz_account_login name' pw now t) = Inr s \<and> sj_uid s = 1000 + of_nat (length (ad_accounts d)) \<and> sj_roles s = roles"
  using assms by (rule registered_login)

theorem registered_logs_in_witness:
  "\<exists>s. fst (shz_account_login [114, 111, 111, 116] root_pw 3 registered_store) = Inr s \<and> sj_uid s = 1000 \<and> sj_roles s = 1"
  using registered_logs_in[OF empty_inv registered_root rtranclp.rtrancl_refl, of "[114, 111, 111, 116]" 3]
  by (simp add: root_name registered_fields empty_store_def shz_accounts_init_def)

text \<open>C29. Sessions do not repeat: a session that is issued after any further history has a greater number. The counter does not wrap around: once the last
  number is used, none is issued.\<close>

theorem sessions_never_repeat:
  assumes "issues d s d1" "accounts_inv d1" "acc_step\<^sup>*\<^sup>* d1 t" "issues t u t'"
  shows "sj_session s < sj_session u"
  using assms by (rule sessions_grow)

theorem sessions_never_repeat_witness:
  "\<exists>s d1 u t'. issues (root_store root_digest) s d1 \<and> issues d1 u t' \<and> sj_session s < sj_session u"
proof -
  let ?d = "root_store root_digest"
  let ?d1 = "snd (shz_account_login [114, 111, 111, 116] root_pw 0 ?d)"
  have d: "ad_accounts ?d = [root_account root_digest]" "ad_next_session ?d = 1"
    by (simp_all add: root_store_def empty_store_def shz_accounts_init_def)
  note t = root_twice[OF d(1) root_inv d(2)]
  have "accounts_inv ?d1"
    using login_step[OF root_inv] by blast
  moreover have "issues ?d (session_subject (root_account root_digest) (ad_next_session ?d)) ?d1"
    using d by (intro root_issues root_inv) simp_all
  moreover have "issues ?d1 (session_subject (root_account root_digest) (ad_next_session ?d1)) (snd (shz_account_login [114, 111, 111, 116] root_pw 0 ?d1))"
    using t calculation(1) by (intro root_issues) simp_all
  ultimately show ?thesis
    using sessions_never_repeat[of ?d _ ?d1 ?d1] by blast
qed

text \<open>C30. Lockout. When the wrong passwords tried on an unlocked account complete five failures, the account is locked until 30000 ticks after
  the last one (or the end of time): every login before that, with the right password too, is refused as locked and changes nothing.\<close>

theorem five_failures_lock:
  assumes "accounts_inv d" "i < length (ad_accounts d)" "name_copy name = Some (ac_name (ad_accounts d ! i))" "tries \<noteq> []"
    and "unat (ac_failures (ad_accounts d ! i)) + length tries = 5"
    and "\<forall>(pw, now) \<in> set tries. wrong_password (ad_accounts d ! i) pw \<and> ac_locked_until (ad_accounts d ! i) \<le> now"
    and "8 \<le> length pw" "length pw \<le> 128" "now < lock_end (snd (last tries))"
  shows "shz_account_login name pw now (login_all name tries d) = (Inl SHZ_AUTH_LOCKED, login_all name tries d)"
  using wrong_logins_lock[OF assms(1-6)] assms(2,3,7-9) by (intro locked_login[where i = i]) simp_all

theorem five_failures_lock_witness:
  "fst (shz_account_login [114, 111, 111, 116] root_pw 30005
     (login_all [114, 111, 111, 116] [(root_pw, 2), (root_pw, 3), (root_pw, 4), (root_pw, 5), (root_pw, 6)] (root_store other_digest))) = Inl SHZ_AUTH_LOCKED"
proof -
  have a: "ad_accounts (root_store other_digest) ! 0 = root_account other_digest" "length (ad_accounts (root_store other_digest)) = 1"
    by (simp_all add: root_store_def)
  have r: "name_copy [114, 111, 111, 116] = Some (ac_name (root_account other_digest))" "unat (ac_failures (root_account other_digest)) = 0"
      "ac_locked_until (root_account other_digest) = 0" "8 \<le> length root_pw" "length root_pw \<le> 128"
    using root_name by (simp_all add: root_account_def root_pw_def)
  from five_failures_lock[OF root_inv, of 0 other_digest "[114, 111, 111, 116]" "[(root_pw, 2), (root_pw, 3), (root_pw, 4), (root_pw, 5), (root_pw, 6)]" root_pw 30005]
  show ?thesis
    using a r root_wrong by (simp add: lock_end_def)
qed

text \<open>C31. Confinement. An accepted path has canonical components only: none is empty, ends in a dot or a space, or holds a colon, a slash or a control byte (so
  none is \<^verbatim>\<open>..\<close>). For a subject that is not an elevated administrator, a path below the directory \<^verbatim>\<open>users\<close> names the decimal number of
  the subject there, in exact arithmetic, and every path it may write is such a path.\<close>

theorem paths_confined:
  assumes "0 \<notin> set path" "shz_subject_path s path wr" "p = path_norm path"
  shows "(\<forall>c \<in> set (components p). canonical c) \<and>
    (is_admin s \<or> (\<forall>ds rest. components p = users_name # ds # rest \<longrightarrow> digits ds \<and> decimal ds = unat (sj_uid s)) \<and>
       (wr \<longrightarrow> (\<exists>ds rest. components p = users_name # ds # rest) \<and> 0x2000 \<le> sj_integrity s \<and> sj_flags s = 0))"
  using path_confined[OF assms] by blast

theorem paths_confined_witness:
  "list_all canonical (components (path_norm [67, 58, 92, 85, 115, 101, 114, 115, 92, 49, 48, 48, 48, 92, 97]))"
  using paths_confined[OF _ root_path refl] by (simp add: list_all_iff)

text \<open>C32. The path that the kernel makes for an account's profile is read back by the path check as the profile of that account, with
  anything below it, for every number that the overflow check of the parser admits.\<close>

theorem profile_path_roundtrip:
  assumes "unat uid \<le> 4294967289" "uid \<noteq> 0" "r = [] \<or> hd r = 0x5C"
  shows "path_profile (path_norm (profile_path uid @ r)) = Some (Some uid)"
  using assms by (rule profile_path_read)

theorem profile_path_roundtrip_witness: "path_profile (path_norm (profile_path 1015 @ [92, 97])) = Some (Some 1015)"
  by (rule profile_path_roundtrip) simp_all

text \<open>C33. The account store and the file system agree on subjects: every subject that a login or an elevation issues is accepted by
  \<open>sfs_cred_from_subject\<close>, the credential has the account's number (at least 1000), and it has capabilities exactly when the
  subject is an elevated administrator.\<close>

theorem issued_subjects_map:
  assumes "accounts_inv d" "issues d s d'"
  shows "\<exists>c. sfs_cred_from_subject (subject_in s) = (Inr (), c) \<and> cr_uid c = sj_uid s \<and> 1000 \<le> sj_uid s \<and>
     cr_caps c = (if is_admin s then SFS_CAP_ALL else 0)"
  using assms by (rule issued_subject)

theorem issued_subjects_map_witness:
  "\<exists>s c. issues (root_store root_digest) s (snd (shz_account_login [114, 111, 111, 116] root_pw 0 (root_store root_digest))) \<and>
     sfs_cred_from_subject (subject_in s) = (Inr (), c)"
proof -
  have "ad_accounts (root_store root_digest) = [root_account root_digest]" "ad_next_session (root_store root_digest) \<noteq> 0"
    by (simp_all add: root_store_def empty_store_def shz_accounts_init_def)
  from root_issues[OF this(1) root_inv this(2)] issued_subjects_map[OF root_inv] show ?thesis
    by blast
qed

section \<open>User address spaces\<close>





text \<open>C36. A query below the top of user space succeeds; the region it reports contains the address, and state, protection, type and allocation that it reports
  are those of every address of the region.\<close>

theorem query_reports_map:
  assumes "proc_wf p" "addr < 0x00007ffffffef000"
  shows "\<exists>mi. vad_query p addr = Inr mi \<and> within (mi_base mi) (mi_size mi) addr \<and>
    (\<forall>x. within (mi_base mi) (mi_size mi) x \<longrightarrow> describes mi (space (pr_vads p) x))"
proof -
  have "\<exists>mi. vad_query p addr = Inr mi"
    using assms(2) by (cases "vad_find (pr_vads p) (addr AND 0xfffffffffffff000)") (simp_all add: vad_query_def Let_def not_le)
  with vad_query_sound[OF assms(1)] show ?thesis by blast
qed

theorem query_reports_map_witness:
  "\<exists>mi. vad_query (sample_proc [sample_vad 0x10000 0x20000 4] 64) 0x30000 = Inr mi \<and> within (mi_base mi) (mi_size mi) 0x30000"
  using query_reports_map[OF one_region_wf, where addr = "0x30000"] by auto

text \<open>C37. A fault is answered only where the map allows the access: the process is alive, the address lies in user space and is committed, its protection is not
  \<^verbatim>\<open>PAGE_NOACCESS\<close> and has no guard, a write needs a writable or copy-on-write protection, and a fetch an executable one. This holds for private memory, images and
  views, whatever their pages are.\<close>

theorem fault_needs_permission:
  assumes "proc_wf p" "user_fault_in v addr write exec p = (Inr (), p')"
  shows "\<not> pr_teardown p \<and> 0x10000 \<le> addr \<and> addr < 0x00007ffffffef000 \<and> (\<exists>a. space (pr_vads p) addr = Some a \<and> allows write exec a)"
  using assms by (rule fault_granted)

theorem fault_needs_permission_witness:
  "\<exists>a. space (pr_vads (sample_proc [sample_vad 0x10000 0x20000 4] 64)) 0x10008 = Some a \<and> allows True False a"
  using fault_needs_permission[OF one_region_wf, of "sample_env True" "0x10008" True False] sample_fault
  by (simp add: prod_eq_iff)

section \<open>Deviations\<close>

text \<open>C38. An allocation with \<^verbatim>\<open>MEM_TOP_DOWN\<close> whose size exceeds the start of a descriptor in its way wraps around below 0: the call succeeds, its base lies far above user
  space, its end below its start, and the array is no longer well formed. \<open>vad_alloc\<close> compares \<^verbatim>\<open>cand + len\<close> with the top of user space, but not \<^verbatim>\<open>cand\<close>
  itself.\<close>

theorem top_down_leaves_user_space:
  "case vad_alloc (sample_env True) 0 0x7FF700000000 0x102000 4 VK_PRIVATE (sample_proc [sample_vad 0x7FF600000000 0x7FF600010000 4] 64) of
     (r, p') \<Rightarrow> r = Inr (0xFFFFFFFF00000000, 0x7FF700000000) \<and> \<not> proc_wf p'"
  using top_down_wraps top_down_breaks by (simp add: split_beta)

text \<open>C39. A write that starts in a block which the extent cache of the inode shows as unwritten (preallocated) ends in its first
  turn with a code other than 0 and at the offset it started from: \<open>zero_unwritten\<close>, which should zero the extent, never returns 0,
  because its loop condition still holds the 1 of the block mapping.\<close>

theorem unwritten_never_converted:
  assumes "ec_unwritten s i (ucast (drop_bit (g_bs_bits (fs_geo s)) off))" "src \<noteq> []"
  shows "fst (fst (file_write_loop (Suc k) i src off retried s)) \<noteq> Inr 0 \<and> snd (fst (file_write_loop (Suc k) i src off retried s)) = off"
  using assms by (rule file_write_unwritten)

theorem unwritten_never_converted_witness:
  "fst (fst (file_write_loop 9 12 [1, 2] 1024 False
     (sample_fs\<lparr>fs_inodes := [12 \<mapsto> zero_inode\<lparr>in_flags := 0x80000, in_ec_valid := True, in_ec_unwritten := True, in_ec_len := 4, in_ec_pblk := 20\<rparr>]\<rparr>))) \<noteq> Inr 0"
  using unwritten_never_converted[of "sample_fs\<lparr>fs_inodes := [12 \<mapsto> zero_inode\<lparr>in_flags := 0x80000, in_ec_valid := True, in_ec_unwritten := True,
      in_ec_len := 4, in_ec_pblk := 20\<rparr>]\<rparr>" 12 1024 "[1, 2]" 8 False]
  by (simp add: ec_unwritten_def sample_fs_def sample_geo_def zero_inode_def zero_geo_def)

text \<open>The mount code takes a device size of 0 for an unknown size and accepts the superblock; the device layer compares every request with
  the size, so on such a device each read of a block fails with \<^verbatim>\<open>SFS_EIO\<close> before the host is asked.\<close>

theorem unknown_size_cannot_read:
  assumes "ops_size (fs_ops s) = 0" "geo_ok (fs_geo s)"
  shows "sfs_dev_read blk 1 s = (Inl SFS_EIO, s)"
  using assms by (rule unknown_size_unreadable)

theorem unknown_size_cannot_read_witness:
  "fst (sfs_dev_read 7 1 (sample_fs\<lparr>fs_ops := sample_ops\<lparr>ops_size := 0\<rparr>\<rparr>)) = Inl SFS_EIO"
  using unknown_size_cannot_read[of "sample_fs\<lparr>fs_ops := sample_ops\<lparr>ops_size := 0\<rparr>\<rparr>" 7] sample_geo_ok by (simp add: sample_fs_fields)

text \<open>C40. The leaf check admits a live entry with an empty name, and an insertion next to it cuts its record to 8 bytes, which the
  check refuses: an insertion can turn a checked leaf into one that is reported as corrupt. The refinement theorem of leaves
  therefore asks for non-empty names.\<close>

theorem nameless_entry_breaks_leaf:
  "leaf_entries_ok sample_geo nameless_leaf 0 \<and>
   (\<exists>d. leaf_insert sample_geo nameless_leaf [65] 13 1 = Some d \<and> \<not> leaf_entries_ok sample_geo d 0)"
  using nameless_ok nameless_insert by blast

end
